(* ===== verification/Prelude.thy ===== *)
theory Prelude
  imports Main "HOL-Library.Word"
begin

text \<open>
  Shared vocabulary of the development: the machine integers of the Rust sources as
  words, the saturating and checked operations of the Rust standard library, decimal
  formatting (\<open>{}\<close> in \<open>format!\<close>), \<open>str::trim\<close>, I/O errors, and list lemmas that
  several components use. \<open>+=\<close> on an unsigned field is word addition (it wraps, as the
  release profile does); \<open>as\<close> casts are \<open>ucast\<close> or \<open>of_nat\<close>; \<open>usize\<close> lengths of
  collections are \<open>nat\<close>; an \<open>i32\<close> is an \<open>int\<close> with its wrap-around written out.
\<close>

section \<open>Machine integers\<close>

type_synonym u8 = "8 word"
type_synonym u16 = "16 word"
type_synonym u32 = "32 word"
type_synonym u64 = "64 word"
type_synonym bytes = "u8 list"

named_theorems word_bounds \<comment> \<open>facts that read a word operation as arithmetic on nat\<close>
named_theorems step_defs \<comment> \<open>definitions of handlers and operations, for unfolding\<close>

definition sat_add :: "'a::len word \<Rightarrow> 'a word \<Rightarrow> 'a word" where
  "sat_add a b = (if unat a + unat b < 2 ^ LENGTH('a) then a + b else - 1)"

definition sat_sub :: "'a::len word \<Rightarrow> 'a word \<Rightarrow> 'a word" where
  "sat_sub a b = (if b \<le> a then a - b else 0)"

definition sat_mul :: "'a::len word \<Rightarrow> 'a word \<Rightarrow> 'a word" where
  "sat_mul a b = (if unat a * unat b < 2 ^ LENGTH('a) then a * b else - 1)"

definition checked_div :: "'a::len word \<Rightarrow> 'a word \<Rightarrow> 'a word option" where
  "checked_div a b = (if b = 0 then None else Some (a div b))"

lemma unat_max_word: "unat (- 1 :: 'a::len word) = 2 ^ LENGTH('a) - 1"
  by (simp add: unat_eq_nat_uint unsigned_minus_1_eq_mask mask_eq_exp_minus_1 nat_diff_distrib nat_power_eq)

lemma min_below: "n < m \<Longrightarrow> min n (m - 1) = (n::nat)"
  by arith

lemma min_above: "\<not> n < m \<Longrightarrow> min n (m - 1) = m - (1::nat)"
  by arith

lemma unat_sat_add [word_bounds]:
  "unat (sat_add a b) = min (unat a + unat b) (2 ^ LENGTH('a) - 1)" for a b :: "'a::len word"
  by (cases "unat a + unat b < 2 ^ LENGTH('a)")
    (simp_all add: sat_add_def unat_max_word unat_word_ariths min_below min_above del: One_nat_def)

lemma unat_sat_sub [word_bounds]: "unat (sat_sub a b) = unat a - unat b"
  by (auto simp: sat_sub_def unat_sub word_le_nat_alt)

lemma unat_sat_mul [word_bounds]:
  "unat (sat_mul a b) = min (unat a * unat b) (2 ^ LENGTH('a) - 1)" for a b :: "'a::len word"
  by (cases "unat a * unat b < 2 ^ LENGTH('a)")
    (simp_all add: sat_mul_def unat_max_word unat_word_ariths min_below min_above del: One_nat_def)

lemma unat_plus_no_wrap [word_bounds]:
  "unat a + unat b < 2 ^ LENGTH('a) \<Longrightarrow> unat (a + b) = unat a + unat b" for a b :: "'a::len word"
  by (simp add: unat_word_ariths)

lemma unat_inc_no_wrap [word_bounds]:
  "unat a + 1 < 2 ^ LENGTH('a) \<Longrightarrow> unat (a + 1) = unat a + 1" for a :: "'a::len word"
  by (simp add: unat_word_ariths)

lemma unat_inc_le: "unat (a + 1) \<le> unat a + 1" for a :: "'a::len word"
  by (simp add: unat_word_ariths)

lemma unat_plus_le: "unat (a + b) \<le> unat a + unat b" for a b :: "'a::len word"
  by (simp add: unat_word_ariths)

lemma unat_ucast_le: "LENGTH('a::len) \<le> LENGTH('b::len) \<Longrightarrow> unat (ucast (a :: 'a word) :: 'b word) = unat a"
  by (simp add: unsigned_ucast_eq take_bit_nat_eq_self_iff unsigned_less
      order_less_le_trans [OF unsigned_less [of a] power_increasing])

text \<open>A value of type \<open>i32\<close>: the two's complement reading of the low 32 bits.\<close>

definition wrap_i32 :: "int \<Rightarrow> int" where
  "wrap_i32 x = sint (word_of_int x :: u32)"

lemma wrap_i32_small: "- (2 ^ 31) \<le> x \<Longrightarrow> x < 2 ^ 31 \<Longrightarrow> wrap_i32 x = x"
  by (simp add: wrap_i32_def signed_of_int signed_take_bit_int_eq_self)

section \<open>Strings\<close>

text \<open>
  A Rust string is modelled by its characters, code points below 256. \<open>char::is_whitespace\<close>
  on them holds for U+0009 to U+000D, space, U+0085 and U+00A0.
\<close>

definition is_whitespace :: "char \<Rightarrow> bool" where
  "is_whitespace c = (of_char c \<in> {9, 10, 11, 12, 13, 32, 133, 160 :: nat})"

definition trim_start :: "string \<Rightarrow> string" where
  "trim_start s = dropWhile is_whitespace s"

definition trim :: "string \<Rightarrow> string" where
  "trim s = rev (dropWhile is_whitespace (rev (trim_start s)))"

lemma trim_empty_iff: "trim s = [] \<longleftrightarrow> (\<forall>c \<in> set s. is_whitespace c)"
  by (auto simp: trim_def trim_start_def dropWhile_eq_Nil_conv dest: set_dropWhileD)
    (metis dropWhile_eq_Nil_conv hd_dropWhile hd_in_set)+

definition digit_char :: "nat \<Rightarrow> char" where
  "digit_char d = char_of (48 + d)"

fun show_nat :: "nat \<Rightarrow> string" where
  "show_nat n = (if n < 10 then [digit_char n] else show_nat (n div 10) @ [digit_char (n mod 10)])"

declare show_nat.simps [simp del]

definition show_word :: "'a::len word \<Rightarrow> string" where
  "show_word w = show_nat (unat w)"

fun digits_val :: "string \<Rightarrow> nat \<Rightarrow> nat" where
  "digits_val [] acc = acc"
| "digits_val (c # cs) acc = digits_val cs (10 * acc + (of_char c - 48))"

lemma digits_val_append: "digits_val (xs @ ys) acc = digits_val ys (digits_val xs acc)"
  by (induction xs arbitrary: acc) simp_all

lemma of_char_digit: "d < 10 \<Longrightarrow> of_char (digit_char d) = 48 + d"
  by (simp add: digit_char_def)

lemma digits_val_show_nat: "digits_val (show_nat n) 0 = n"
proof (induction n rule: show_nat.induct)
  case (1 n)
  then show ?case
    by (subst show_nat.simps) (auto simp: digits_val_append of_char_digit)
qed

lemma show_nat_inj: "show_nat m = show_nat n \<longleftrightarrow> m = n"
  by (metis digits_val_show_nat)

section \<open>I/O errors\<close>

text \<open>\<open>std::io::ErrorKind\<close>, the kinds the sources test for, and \<open>std::io::Error\<close> with its text.\<close>

datatype ErrorKind =
  NotFound | PermissionDenied | ConnectionRefused | ConnectionReset | BrokenPipe
  | WouldBlock | TimedOut | Interrupted | UnexpectedEof | OtherKind

record io_error =
  err_kind :: ErrorKind
  err_text :: string

section \<open>Lists\<close>

text \<open>\<open>Iterator::find\<close>: the first element that satisfies the predicate is \<open>List.find\<close>.\<close>

lemma find_map_upd_same:
  "(\<And>x. P (f x) = P x) \<Longrightarrow> find P (map f xs) = map_option f (find P xs)"
  by (induction xs) auto

text \<open>Replacing the first element that satisfies a predicate (\<open>iter_mut().find\<close>), else push.\<close>

fun upsert_by :: "('a \<Rightarrow> bool) \<Rightarrow> 'a \<Rightarrow> 'a list \<Rightarrow> 'a list" where
  "upsert_by P y [] = [y]"
| "upsert_by P y (x # xs) = (if P x then y # xs else x # upsert_by P y xs)"

lemma set_upsert_by_subset: "set (upsert_by P y xs) \<subseteq> insert y (set xs)"
  by (induction xs) auto

lemma mem_upsert_by: "y \<in> set (upsert_by P y xs)"
  by (induction xs) auto

lemma upsert_by_keeps: "x \<in> set xs \<Longrightarrow> \<not> P x \<Longrightarrow> x \<in> set (upsert_by P y xs)"
  by (induction xs) auto

lemma map_upsert_by_key:
  "distinct (map f xs) \<Longrightarrow> map f (upsert_by (\<lambda>x. f x = f y) y xs) =
     (if f y \<in> f ` set xs then map f xs else map f xs @ [f y])"
  by (induction xs) auto

lemma distinct_upsert_by:
  "distinct (map f xs) \<Longrightarrow> distinct (map f (upsert_by (\<lambda>x. f x = f y) y xs))"
  by (simp add: map_upsert_by_key)

lemma find_upsert_by:
  "distinct (map f xs) \<Longrightarrow>
   find (\<lambda>x. f x = k) (upsert_by (\<lambda>x. f x = f y) y xs) =
     (if k = f y then Some y else find (\<lambda>x. f x = k) xs)"
  by (induction xs) auto

end
