(* ===== verification/Errors.thy ===== *)
theory Errors
  imports Prelude
begin

text \<open>
  The error enums of \<open>synchrosonic-core/src/error.rs\<close> with their \<open>Display\<close> texts (the
  \<open>#[error(...)]\<close> attributes), network addresses, and small types that several crates
  share. The text of an operating-system error is carried by \<^typ>\<open>io_error\<close>.
\<close>

section \<open>Addresses\<close>

datatype IpAddr = V4 u8 u8 u8 u8 | V6 "128 word"

record SocketAddr =
  sa_ip :: IpAddr
  sa_port :: u16

section \<open>Error enums\<close>

datatype AudioError =
  BackendUnavailable string
| CommandUnavailable string
| CommandFailed string string
| ProcessStart string io_error
| ProcessIo string io_error
| InvalidSettings string
| CaptureEnded
| AudioNotActive string

datatype ReceiverError =
  Disabled string
| InvalidConfig string
| InvalidTransport string
| PlaybackUnavailable string
| PlaybackStart string io_error
| PlaybackIo string io_error
| NotStarted
| ReceiverChannelClosed
| ReceiverThreadJoin
| ReceiverNotActive string

datatype TransportError =
  Bind string io_error
| Connect string io_error
| Io string io_error
| InvalidProtocol string
| Negotiation string
| AlreadyRunning
| NotRunning
| ChannelClosed
| ThreadJoin
| Audio AudioError
| ReceiverCallback string
| TransportNotActive string

fun show_audio_error :: "AudioError \<Rightarrow> string" where
  "show_audio_error (BackendUnavailable s) = ''audio backend is unavailable: '' @ s"
| "show_audio_error (CommandUnavailable s) = ''audio command is unavailable: '' @ s"
| "show_audio_error (CommandFailed c e) = ''audio command `'' @ c @ ''` failed: '' @ e"
| "show_audio_error (ProcessStart c e) =
     ''failed to start audio process `'' @ c @ ''`: '' @ err_text e"
| "show_audio_error (ProcessIo c e) =
     ''audio process I/O failed while '' @ c @ '': '' @ err_text e"
| "show_audio_error (InvalidSettings s) = ''invalid capture settings: '' @ s"
| "show_audio_error CaptureEnded = ''capture stream ended''"
| "show_audio_error (AudioNotActive s) =
     ''audio operation is not active in this build phase: '' @ s"

fun show_receiver_error :: "ReceiverError \<Rightarrow> string" where
  "show_receiver_error (Disabled s) = ''receiver mode is disabled: '' @ s"
| "show_receiver_error (InvalidConfig s) = ''receiver configuration is invalid: '' @ s"
| "show_receiver_error (InvalidTransport s) = ''receiver transport event is invalid: '' @ s"
| "show_receiver_error (PlaybackUnavailable s) =
     ''receiver playback backend is unavailable: '' @ s"
| "show_receiver_error (PlaybackStart c e) =
     ''failed to start receiver playback command `'' @ c @ ''`: '' @ err_text e"
| "show_receiver_error (PlaybackIo c e) =
     ''receiver playback I/O failed while '' @ c @ '': '' @ err_text e"
| "show_receiver_error NotStarted = ''receiver runtime is not started''"
| "show_receiver_error ReceiverChannelClosed = ''receiver runtime channel is closed''"
| "show_receiver_error ReceiverThreadJoin =
     ''receiver runtime thread failed to join cleanly''"
| "show_receiver_error (ReceiverNotActive s) =
     ''receiver mode is not active in this build phase: '' @ s"

fun show_transport_error :: "TransportError \<Rightarrow> string" where
  "show_transport_error (Bind a e) =
     ''failed to bind transport listener on '' @ a @ '': '' @ err_text e"
| "show_transport_error (Connect a e) =
     ''failed to connect transport socket to '' @ a @ '': '' @ err_text e"
| "show_transport_error (Io c e) = ''transport I/O failed while '' @ c @ '': '' @ err_text e"
| "show_transport_error (InvalidProtocol s) = ''transport protocol is invalid: '' @ s"
| "show_transport_error (Negotiation s) = ''transport negotiation failed: '' @ s"
| "show_transport_error AlreadyRunning = ''transport worker is already running''"
| "show_transport_error NotRunning = ''transport worker is not running''"
| "show_transport_error ChannelClosed = ''transport worker channel is closed''"
| "show_transport_error ThreadJoin = ''transport worker thread failed to join cleanly''"
| "show_transport_error (Audio e) = ''transport audio capture failed: '' @ show_audio_error e"
| "show_transport_error (ReceiverCallback s) = ''transport receiver callback failed: '' @ s"
| "show_transport_error (TransportNotActive s) =
     ''transport is not active in this build phase: '' @ s"

text \<open>\<open>ConfigError\<close>; the texts of the \<open>toml\<close> errors are strings, a path is a string.\<close>

datatype ConfigError =
  ConfigRead string io_error
| ConfigParse string string
| UnsupportedVersion string u32 u32
| Serialize string
| ConfigWrite string io_error

fun show_config_error :: "ConfigError \<Rightarrow> string" where
  "show_config_error (ConfigRead p e) = ''failed to read config at '' @ p @ '': '' @ err_text e"
| "show_config_error (ConfigParse p e) = ''failed to parse config at '' @ p @ '': '' @ e"
| "show_config_error (UnsupportedVersion p found supported) =
     ''config at '' @ p @ '' uses schema version '' @ show_word found
       @ '', but this build supports up to '' @ show_word supported"
| "show_config_error (Serialize e) = ''failed to serialize config: '' @ e"
| "show_config_error (ConfigWrite p e) = ''failed to write config at '' @ p @ '': '' @ err_text e"

section \<open>Addresses as text\<close>

text \<open>
  \<open>Display\<close> of \<open>SocketAddr\<close>: dotted decimal for IPv4; for IPv6 lower-case hexadecimal groups in
  brackets, the first longest run of at least two zero groups written \<open>::\<close>, IPv4-mapped addresses
  with a dotted tail. Scope ids are not modelled.
\<close>

definition hex_char :: "nat \<Rightarrow> char" where
  "hex_char d = (if d < 10 then char_of (48 + d) else char_of (87 + d))"

fun show_hex :: "nat \<Rightarrow> string" where
  "show_hex n = (if n < 16 then [hex_char n] else show_hex (n div 16) @ [hex_char (n mod 16)])"

declare show_hex.simps [simp del]

definition segments :: "128 word \<Rightarrow> nat list" where
  "segments w = map (\<lambda>i. unat (drop_bit (112 - 16 * i) w) mod 65536) [0..<8]"

fun join_with :: "string \<Rightarrow> string list \<Rightarrow> string" where
  "join_with sep [] = []"
| "join_with sep [x] = x"
| "join_with sep (x # xs) = x @ sep @ join_with sep xs"

text \<open>The scan for the longest zero run: (start, length) of the longest and of the current run.\<close>

fun zero_run :: "nat list \<Rightarrow> nat \<Rightarrow> nat \<times> nat \<Rightarrow> nat \<times> nat \<Rightarrow> nat \<times> nat" where
  "zero_run [] i longest current = longest"
| "zero_run (x # xs) i longest current =
     (if x = 0 then
        (let current' = (if snd current = 0 then i else fst current, snd current + 1)
         in zero_run xs (i + 1) (if snd longest < snd current' then current' else longest) current')
      else zero_run xs (i + 1) longest (0, 0))"

definition show_groups :: "nat list \<Rightarrow> string" where
  "show_groups gs = join_with '':'' (map show_hex gs)"

definition show_v4 :: "nat list \<Rightarrow> string" where
  "show_v4 octets = join_with ''.'' (map show_nat octets)"

fun show_ip :: "IpAddr \<Rightarrow> string" where
  "show_ip (V4 a b c d) = show_v4 [unat a, unat b, unat c, unat d]"
| "show_ip (V6 w) =
     (let gs = segments w in
      if take 6 gs = [0, 0, 0, 0, 0, 65535] then
        ''::ffff:'' @ show_v4 [gs ! 6 div 256, gs ! 6 mod 256, gs ! 7 div 256, gs ! 7 mod 256]
      else
        (let (start, len) = zero_run gs 0 (0, 0) (0, 0)
         in if 1 < len then show_groups (take start gs) @ ''::'' @ show_groups (drop (start + len) gs)
            else show_groups gs))"

definition show_addr :: "SocketAddr \<Rightarrow> string" where
  "show_addr a =
     (case sa_ip a of
        V4 _ _ _ _ \<Rightarrow> show_ip (sa_ip a) @ '':'' @ show_word (sa_port a)
      | V6 _ \<Rightarrow> ''['' @ show_ip (sa_ip a) @ '']:'' @ show_word (sa_port a))"

end
