(* ===== verification/Receiver_Core.thy ===== *)
theory Receiver_Core
  imports Errors Complex_Main
begin

text \<open>
  The receiver's data model and latency arithmetic, from \<open>synchrosonic-core/src/receiver.rs\<close>
  (and the sample formats of \<open>audio.rs\<close>). A \<open>Duration\<close> is a number of nanoseconds.
  \<open>Duration::from_secs_f64\<close> of a quotient of two \<open>u32\<close> values is modelled exactly: the
  division is rounded to a 53-bit significand, half to even, and the product with
  \<open>10^9\<close> to the nearest nanosecond, half to even.
\<close>

section \<open>Durations and floating-point division\<close>

type_synonym duration = nat
type_synonym instant = nat

definition from_millis :: "u64 \<Rightarrow> duration" where
  "from_millis ms = unat ms * 1000000"

definition as_millis :: "duration \<Rightarrow> nat" where
  "as_millis d = d div 1000000"

definition round_half_even :: "nat \<Rightarrow> nat \<Rightarrow> nat" where
  "round_half_even n d =
     (let q = n div d; r = n mod d
      in if 2 * r < d \<or> (2 * r = d \<and> even q) then q else q + 1)"

text \<open>The least scale \<open>k\<close> that brings \<open>a * 2^k / b\<close> to at least 53 significant bits.\<close>

fun f64_scale :: "nat \<Rightarrow> nat \<Rightarrow> nat \<Rightarrow> nat \<Rightarrow> nat" where
  "f64_scale 0 k a b = k"
| "f64_scale (Suc fuel) k a b =
     (if 2 ^ 52 * b \<le> a * 2 ^ k then k else f64_scale fuel (Suc k) a b)"

definition secs_f64_to_nanos :: "nat \<Rightarrow> nat \<Rightarrow> duration" where
  "secs_f64_to_nanos a b =
     (let k = f64_scale 84 0 a b; m = round_half_even (a * 2 ^ k) b
      in round_half_even (m * 1000000000) (2 ^ k))"

section \<open>Data\<close>

datatype AudioSampleFormat = S16Le | F32Le

fun bytes_per_sample :: "AudioSampleFormat \<Rightarrow> nat" where
  "bytes_per_sample S16Le = 2"
| "bytes_per_sample F32Le = 4"

datatype ReceiverServiceState = Idle | Listening | Connected | Buffering | Playing | Error

datatype ReceiverSyncState = Idle | Priming | Locked | Late | Recovering

datatype ReceiverLatencyPreset = LowLatency | Balanced | Stable

record ReceiverLatencyProfile =
  lp_playback_latency_ms :: u16
  lp_target_buffer_ms :: u16
  lp_max_buffer_ms :: u16
  lp_latency_tolerance_ms :: u16
  lp_late_packet_drop_ms :: u16
  lp_reconnect_grace_period :: duration

fun profile :: "ReceiverLatencyPreset \<Rightarrow> ReceiverLatencyProfile" where
  "profile LowLatency =
     \<lparr>lp_playback_latency_ms = 50, lp_target_buffer_ms = 30, lp_max_buffer_ms = 110,
      lp_latency_tolerance_ms = 20, lp_late_packet_drop_ms = 25,
      lp_reconnect_grace_period = from_millis 750\<rparr>"
| "profile Balanced =
     \<lparr>lp_playback_latency_ms = 80, lp_target_buffer_ms = 70, lp_max_buffer_ms = 210,
      lp_latency_tolerance_ms = 30, lp_late_packet_drop_ms = 40,
      lp_reconnect_grace_period = from_millis 1500\<rparr>"
| "profile Stable =
     \<lparr>lp_playback_latency_ms = 110, lp_target_buffer_ms = 120, lp_max_buffer_ms = 340,
      lp_latency_tolerance_ms = 45, lp_late_packet_drop_ms = 60,
      lp_reconnect_grace_period = from_millis 2500\<rparr>"

record ReceiverStreamConfig =
  sc_sample_rate_hz :: u32
  sc_channels :: u16
  sc_sample_format :: AudioSampleFormat
  sc_frames_per_packet :: u32

definition default_stream_config :: ReceiverStreamConfig where
  "default_stream_config =
     \<lparr>sc_sample_rate_hz = 48000, sc_channels = 2, sc_sample_format = S16Le,
      sc_frames_per_packet = 480\<rparr>"

record ReceiverConnectionInfo =
  ci_session_id :: string
  ci_remote_addr :: "SocketAddr option"
  ci_stream :: ReceiverStreamConfig
  ci_requested_latency_ms :: u16

record ReceiverAudioPacket =
  pkt_sequence :: u64
  pkt_captured_at_ms :: u64
  pkt_captured_at_unix_ms :: u64
  pkt_payload :: bytes

datatype ReceiverTransportEvent =
  Connected ReceiverConnectionInfo
| AudioPacket ReceiverAudioPacket
| KeepAlive
| Disconnected string bool
| Error string

record ReceiverBufferSnapshot =
  bs_queued_packets :: u32
  bs_queued_frames :: u64
  bs_queued_audio_ms :: u32
  bs_target_buffer_ms :: u32
  bs_max_buffer_ms :: u32
  bs_start_threshold_packets :: u32
  bs_max_packets :: u32

record ReceiverMetrics =
  rm_packets_received :: u64
  rm_frames_received :: u64
  rm_bytes_received :: u64
  rm_packets_played :: u64
  rm_frames_played :: u64
  rm_bytes_played :: u64
  rm_buffer_fill_percent :: u8
  rm_underruns :: u64
  rm_overruns :: u64
  rm_reconnect_attempts :: u64

definition default_metrics :: ReceiverMetrics where
  "default_metrics =
     \<lparr>rm_packets_received = 0, rm_frames_received = 0, rm_bytes_received = 0,
      rm_packets_played = 0, rm_frames_played = 0, rm_bytes_played = 0,
      rm_buffer_fill_percent = 0, rm_underruns = 0, rm_overruns = 0,
      rm_reconnect_attempts = 0\<rparr>"

record ReceiverSyncSnapshot =
  sy_state :: ReceiverSyncState
  sy_requested_latency_ms :: "u16 option"
  sy_target_buffer_ms :: u16
  sy_playback_latency_ms :: u16
  sy_expected_output_latency_ms :: u16
  sy_queued_audio_ms :: u32
  sy_buffer_delta_ms :: int
  sy_schedule_error_ms :: int
  sy_late_packet_drops :: u64
  sy_sync_resets :: u64
  sy_last_sender_timestamp_ms :: "u64 option"
  sy_last_sender_capture_unix_ms :: "u64 option"

definition default_sync :: ReceiverSyncSnapshot where
  "default_sync =
     \<lparr>sy_state = ReceiverSyncState.Idle, sy_requested_latency_ms = None,
      sy_target_buffer_ms = 0, sy_playback_latency_ms = 0,
      sy_expected_output_latency_ms = 0, sy_queued_audio_ms = 0, sy_buffer_delta_ms = 0,
      sy_schedule_error_ms = 0, sy_late_packet_drops = 0, sy_sync_resets = 0,
      sy_last_sender_timestamp_ms = None, sy_last_sender_capture_unix_ms = None\<rparr>"

section \<open>Operations\<close>

definition expected_output_latency_ms :: "ReceiverLatencyProfile \<Rightarrow> u16" where
  "expected_output_latency_ms p = sat_add (lp_playback_latency_ms p) (lp_target_buffer_ms p)"

definition bytes_per_frame :: "ReceiverStreamConfig \<Rightarrow> nat" where
  "bytes_per_frame c = unat (sc_channels c) * bytes_per_sample (sc_sample_format c)"

definition packet_bytes_hint :: "ReceiverStreamConfig \<Rightarrow> nat" where
  "packet_bytes_hint c = unat (sc_frames_per_packet c) * bytes_per_frame c"

definition packet_duration :: "ReceiverStreamConfig \<Rightarrow> duration" where
  "packet_duration c =
     (if sc_sample_rate_hz c = 0 \<or> sc_frames_per_packet c = 0 then from_millis 0
      else secs_f64_to_nanos (unat (sc_frames_per_packet c)) (unat (sc_sample_rate_hz c)))"

definition div_ceil_nat :: "nat \<Rightarrow> nat \<Rightarrow> nat" where
  "div_ceil_nat a b = (if a mod b = 0 then a div b else a div b + 1)"

definition packet_count_for_duration :: "duration \<Rightarrow> duration \<Rightarrow> nat" where
  "packet_count_for_duration target pd =
     (if pd = 0 then 1 else min (div_ceil_nat (max target 1) pd) (2 ^ 64 - 1))"

definition buffer_packet_limits :: "ReceiverLatencyProfile \<Rightarrow> ReceiverStreamConfig \<Rightarrow> nat \<times> nat" where
  "buffer_packet_limits p stream =
     (let pd = packet_duration stream in
      (packet_count_for_duration (from_millis (ucast (lp_target_buffer_ms p))) pd,
       packet_count_for_duration (from_millis (ucast (lp_max_buffer_ms p))) pd))"

definition frame_count :: "ReceiverAudioPacket \<Rightarrow> ReceiverStreamConfig \<Rightarrow> string + u32" where
  "frame_count p stream =
     (let bpf = bytes_per_frame stream in
      if bpf = 0 then Inl ''stream bytes_per_frame cannot be zero''
      else if length (pkt_payload p) mod bpf \<noteq> 0 then
        Inl (''packet payload size '' @ show_nat (length (pkt_payload p)) @
             '' is not divisible by bytes_per_frame '' @ show_nat bpf)
      else Inr (of_nat (length (pkt_payload p) div bpf)))"

definition fill_percent :: "ReceiverBufferSnapshot \<Rightarrow> u8" where
  "fill_percent s =
     (let by_audio = checked_div (sat_mul (bs_queued_audio_ms s) 100) (bs_max_buffer_ms s);
          by_packets = checked_div (sat_mul (bs_queued_packets s) 100) (bs_max_packets s);
          percent = (case by_audio of Some p \<Rightarrow> Some p | None \<Rightarrow> by_packets)
      in case percent of Some p \<Rightarrow> ucast (min p 100) | None \<Rightarrow> 0)"

definition sync_from_profile :: "ReceiverLatencyProfile \<Rightarrow> ReceiverSyncSnapshot" where
  "sync_from_profile p =
     default_sync\<lparr>sy_target_buffer_ms := lp_target_buffer_ms p,
       sy_playback_latency_ms := lp_playback_latency_ms p,
       sy_expected_output_latency_ms := expected_output_latency_ms p\<rparr>"

text \<open>\<open>ReceiverConfig\<close> of \<open>config.rs\<close> and the receiver snapshot seeded from it.\<close>

record ReceiverConfig =
  rc_enabled :: bool
  rc_start_on_launch :: bool
  rc_advertised_name :: string
  rc_bind_host :: string
  rc_listen_port :: u16
  rc_playback_target_id :: "string option"
  rc_latency_preset :: ReceiverLatencyPreset

definition default_receiver_config :: ReceiverConfig where
  "default_receiver_config =
     \<lparr>rc_enabled = True, rc_start_on_launch = False,
      rc_advertised_name = ''SynchroSonic Receiver'', rc_bind_host = ''0.0.0.0'',
      rc_listen_port = 51700, rc_playback_target_id = None, rc_latency_preset = Balanced\<rparr>"

record ReceiverSnapshot =
  rsn_state :: ReceiverServiceState
  rsn_advertised_name :: string
  rsn_bind_host :: string
  rsn_listen_port :: u16
  rsn_latency_preset :: ReceiverLatencyPreset
  rsn_playback_target_id :: "string option"
  rsn_playback_backend :: "string option"
  rsn_connection :: "ReceiverConnectionInfo option"
  rsn_buffer :: ReceiverBufferSnapshot
  rsn_sync :: ReceiverSyncSnapshot
  rsn_metrics :: ReceiverMetrics
  rsn_last_error :: "string option"

definition receiver_snapshot_from_config :: "ReceiverConfig \<Rightarrow> ReceiverSnapshot" where
  "receiver_snapshot_from_config cfg =
     (let p = profile (rc_latency_preset cfg);
          (start_threshold, max_packets) = buffer_packet_limits p default_stream_config
      in \<lparr>rsn_state = ReceiverServiceState.Idle, rsn_advertised_name = rc_advertised_name cfg,
          rsn_bind_host = rc_bind_host cfg, rsn_listen_port = rc_listen_port cfg,
          rsn_latency_preset = rc_latency_preset cfg,
          rsn_playback_target_id = rc_playback_target_id cfg, rsn_playback_backend = None,
          rsn_connection = None,
          rsn_buffer =
            \<lparr>bs_queued_packets = 0, bs_queued_frames = 0, bs_queued_audio_ms = 0,
             bs_target_buffer_ms = ucast (lp_target_buffer_ms p),
             bs_max_buffer_ms = ucast (lp_max_buffer_ms p),
             bs_start_threshold_packets = of_nat start_threshold,
             bs_max_packets = of_nat max_packets\<rparr>,
          rsn_sync = sync_from_profile p, rsn_metrics = default_metrics,
          rsn_last_error = None\<rparr>)"

section \<open>Rounding\<close>

lemma round_half_even_error:
  assumes "0 < d"
  shows "\<bar>real (round_half_even n d) - real n / real d\<bar> \<le> 1 / 2"
proof -
  define q r where "q = n div d" and "r = n mod d"
  have n: "real n = real q * real d + real r"
    unfolding q_def r_def by (metis div_mult_mod_eq of_nat_add of_nat_mult)
  have r: "r < d" using assms by (simp add: r_def)
  have div: "real n / real d = real q + real r / real d"
    using assms by (simp add: n field_simps)
  have "round_half_even n d = (if 2 * r < d \<or> (2 * r = d \<and> even q) then q else q + 1)"
    by (simp add: round_half_even_def q_def r_def Let_def)
  moreover have "2 * r < d \<or> 2 * r = d \<Longrightarrow> real r / real d \<le> 1 / 2"
    using assms by (auto simp: field_simps)
  moreover have "\<not> 2 * r < d \<Longrightarrow> 1 / 2 \<le> real r / real d"
    using assms by (auto simp: field_simps)
  moreover have "0 \<le> real r / real d" "real r / real d < 1"
    using assms r by (auto simp: field_simps)
  ultimately show ?thesis unfolding div by (auto split: if_splits)
qed

lemma f64_scale_spec:
  "2 ^ 52 * b \<le> a * 2 ^ (k + fuel) \<Longrightarrow> 2 ^ 52 * b \<le> a * 2 ^ f64_scale fuel k a b"
proof (induction fuel arbitrary: k)
  case 0
  then show ?case by simp
next
  case (Suc fuel)
  then show ?case by (cases "2 ^ 52 * b \<le> a * 2 ^ k") simp_all
qed

lemma f64_scale_u32:
  assumes "0 < a" "b < 2 ^ 32"
  shows "2 ^ 52 * b \<le> a * 2 ^ f64_scale 84 0 a b"
proof (rule f64_scale_spec)
  have "2 ^ 52 * b \<le> 2 ^ 52 * 2 ^ 32" using assms(2) by simp
  also have "\<dots> \<le> a * 2 ^ 84" using assms(1) by simp
  finally show "2 ^ 52 * b \<le> a * 2 ^ (0 + 84)" by simp
qed

lemma secs_f64_to_nanos_error:
  assumes "0 < a" "0 < b" "b < 2 ^ 32" and small: "a * 10 ^ 9 < 2 ^ 52 * b"
  shows "\<bar>real (secs_f64_to_nanos a b) - real a * 10 ^ 9 / real b\<bar> < 1"
proof -
  define k where "k = f64_scale 84 0 a b"
  define m where "m = round_half_even (a * 2 ^ k) b"
  define x where "x = real a / real b"
  have scale: "2 ^ 52 * b \<le> a * 2 ^ k" unfolding k_def by (rule f64_scale_u32) fact+
  with small have "a * 10 ^ 9 < a * 2 ^ k" by linarith
  then have "(10::nat) ^ 9 < 2 ^ k" by simp
  then have k: "(10::real) ^ 9 < 2 ^ k" by (metis of_nat_less_iff of_nat_numeral of_nat_power)
  have "\<bar>real m - x * 2 ^ k\<bar> \<le> 1 / 2"
    using round_half_even_error [OF assms(2), of "a * 2 ^ k"] by (simp add: m_def x_def)
  then have "\<bar>real m - x * 2 ^ k\<bar> * (10 ^ 9 / 2 ^ k) \<le> 1 / 2 * (10 ^ 9 / 2 ^ k)"
    by (rule mult_right_mono) simp
  moreover have "\<bar>real m - x * 2 ^ k\<bar> * (10 ^ 9 / 2 ^ k)
      = \<bar>(real m - x * 2 ^ k) * (10 ^ 9 / 2 ^ k)\<bar>"
    by (subst abs_mult) (subst (3) abs_of_pos, simp_all only: zero_less_divide_iff zero_less_power zero_less_numeral simp_thms)
  moreover have "(real m - x * 2 ^ k) * (10 ^ 9 / 2 ^ k) = real m * 10 ^ 9 / 2 ^ k - x * 10 ^ 9"
    by (simp add: field_simps)
  ultimately have "\<bar>real m * 10 ^ 9 / 2 ^ k - x * 10 ^ 9\<bar> \<le> 1 / 2 * (10 ^ 9 / 2 ^ k)" by argo
  moreover have "1 / 2 * (10 ^ 9 / 2 ^ k) < (1 / 2 :: real)"
    using k by (simp add: field_simps)
  moreover have "\<bar>real (secs_f64_to_nanos a b) - real m * 10 ^ 9 / 2 ^ k\<bar> \<le> 1 / 2"
    using round_half_even_error [of "2 ^ k" "m * 1000000000"]
    by (simp add: secs_f64_to_nanos_def k_def m_def Let_def)
  ultimately have "\<bar>real (secs_f64_to_nanos a b) - x * 10 ^ 9\<bar> < 1" by linarith
  then show ?thesis by (simp add: x_def)
qed

section \<open>Properties\<close>

lemma packet_duration_pos_rate:
  "packet_duration c \<noteq> 0 \<Longrightarrow> 0 < unat (sc_sample_rate_hz c) \<and> 0 < unat (sc_frames_per_packet c)"
  by (auto simp: packet_duration_def from_millis_def unat_gt_0 split: if_splits)

lemma real_quotient_to_int:
  assumes "0 < b" and "\<bar>real n - real a * 10 ^ 9 / real b\<bar> < 1"
  shows "\<bar>int n * int b - int a * 10 ^ 9\<bar> < int b"
proof -
  have "real n - real a * 10 ^ 9 / real b = (real n * real b - real a * 10 ^ 9) / real b"
    using assms(1) by (simp add: field_simps)
  then have "\<bar>real n * real b - real a * 10 ^ 9\<bar> / real b < 1"
    using assms by (simp add: abs_divide)
  then have "\<bar>real n * real b - real a * 10 ^ 9\<bar> < real b"
    using assms(1) by (simp add: divide_less_eq)
  moreover have "real n * real b - real a * 10 ^ 9 = real_of_int (int n * int b - int a * 10 ^ 9)"
    by simp
  ultimately have "\<bar>real_of_int (int n * int b - int a * 10 ^ 9)\<bar> < real_of_int (int b)"
    by (metis of_int_of_nat_eq)
  then show ?thesis by linarith
qed

lemma packet_duration_near:
  assumes "sc_sample_rate_hz c \<noteq> 0" "sc_frames_per_packet c \<noteq> 0"
    and "unat (sc_frames_per_packet c) * 10 ^ 9 < 2 ^ 52 * unat (sc_sample_rate_hz c)"
  shows "\<bar>int (packet_duration c) * uint (sc_sample_rate_hz c)
          - uint (sc_frames_per_packet c) * 10 ^ 9\<bar> < uint (sc_sample_rate_hz c)"
proof -
  let ?a = "unat (sc_frames_per_packet c)" and ?b = "unat (sc_sample_rate_hz c)"
  have pos: "0 < ?a" "0 < ?b" using assms(1,2) by (simp_all add: unat_gt_0)
  have "?b < 2 ^ LENGTH(32)" by (rule unsigned_less)
  then have b: "?b < 2 ^ 32" by simp
  have "packet_duration c = secs_f64_to_nanos ?a ?b"
    using assms(1,2) by (simp add: packet_duration_def)
  then have "\<bar>int (packet_duration c) * int ?b - int ?a * 10 ^ 9\<bar> < int ?b"
    using real_quotient_to_int [OF pos(2) secs_f64_to_nanos_error [OF pos b assms(3)]] by (simp only:)
  then show ?thesis by (simp only: uint_nat)
qed

lemma packet_duration_default: "packet_duration default_stream_config = 10000000"
  using packet_duration_near [of default_stream_config]
  by (simp add: default_stream_config_def)

theorem packet_duration_nearest:
  assumes "sc_sample_rate_hz c \<noteq> 0" "sc_frames_per_packet c \<noteq> 0"
    and "unat (sc_frames_per_packet c) * 10 ^ 9 < 2 ^ 52 * unat (sc_sample_rate_hz c)"
  shows "\<bar>int (packet_duration c) * uint (sc_sample_rate_hz c)
          - uint (sc_frames_per_packet c) * 10 ^ 9\<bar> < uint (sc_sample_rate_hz c)"
  using assms by (rule packet_duration_near)

theorem packet_duration_nearest_witness:
  "\<bar>int (packet_duration default_stream_config) * 48000 - 480 * 10 ^ 9\<bar> < (48000::int)"
  using packet_duration_nearest [of default_stream_config] by (simp add: default_stream_config_def)

lemma div_ceil_nat_bounds:
  assumes "0 < b" "0 < a"
  shows "a \<le> div_ceil_nat a b * b \<and> (div_ceil_nat a b - 1) * b < a \<and> 1 \<le> div_ceil_nat a b"
proof (cases "a mod b = 0")
  case True
  then obtain q where q: "a = b * q" by (auto simp: mod_eq_0_iff_dvd)
  with assms have "0 < q" by simp
  with q assms show ?thesis by (simp add: div_ceil_nat_def mult.commute diff_mult_distrib2)
next
  case False
  have "a = a div b * b + a mod b" by simp
  moreover have "a mod b < b" using assms(1) by simp
  ultimately have "a < a div b * b + b" "a div b * b < a" using False by linarith+
  with False show ?thesis by (simp add: div_ceil_nat_def)
qed

lemma div_ceil_nat_mono:
  assumes "a \<le> a'" "0 < b" "0 < a"
  shows "div_ceil_nat a b \<le> div_ceil_nat a' b"
proof (rule ccontr)
  assume "\<not> ?thesis"
  then have "div_ceil_nat a' b \<le> div_ceil_nat a b - 1" by simp
  then have "div_ceil_nat a' b * b \<le> (div_ceil_nat a b - 1) * b" by (rule mult_le_mono1)
  also have "\<dots> < a" using div_ceil_nat_bounds assms by blast
  also have "\<dots> \<le> div_ceil_nat a' b * b" using div_ceil_nat_bounds [of b a'] assms by linarith
  finally show False by simp
qed

lemma div_ceil_nat_le: "0 < b \<Longrightarrow> div_ceil_nat a b \<le> a"
  by (auto simp: div_ceil_nat_def) (metis Suc_leI div_le_dividend div_less_dividend gr0I
      less_numeral_extra(3) mod_0 mod_by_1 nat_neq_iff One_nat_def Suc_lessI)

lemma packet_count_bounds:
  assumes "0 < pd" "t < 2 ^ 64 - 1"
  shows "t \<le> packet_count_for_duration t pd * pd"
    and "(packet_count_for_duration t pd - 1) * pd < max t 1"
    and "1 \<le> packet_count_for_duration t pd"
proof -
  let ?m = "max t 1"
  have "div_ceil_nat ?m pd \<le> ?m" using assms by (intro div_ceil_nat_le) auto
  then have "packet_count_for_duration t pd = div_ceil_nat ?m pd"
    using assms by (simp add: packet_count_for_duration_def)
  then show "t \<le> packet_count_for_duration t pd * pd"
    and "(packet_count_for_duration t pd - 1) * pd < max t 1"
    and "1 \<le> packet_count_for_duration t pd"
    using div_ceil_nat_bounds [of pd ?m] assms by auto
qed

lemma packet_count_mono: "t \<le> t' \<Longrightarrow> packet_count_for_duration t pd \<le> packet_count_for_duration t' pd"
proof -
  assume "t \<le> t'"
  then have "div_ceil_nat (max t 1) pd \<le> div_ceil_nat (max t' 1) pd" if "pd \<noteq> 0"
    using that by (intro div_ceil_nat_mono) auto
  then show ?thesis
    unfolding packet_count_for_duration_def by (cases "pd = 0") (auto intro: min.mono)
qed

lemma packet_count_pos: "1 \<le> packet_count_for_duration t pd"
  using div_ceil_nat_bounds [of pd "max t 1"] by (auto simp: packet_count_for_duration_def)

lemma packet_count_le: "packet_count_for_duration t pd \<le> max t 1"
  using div_ceil_nat_le [of pd "max t 1"] by (auto simp: packet_count_for_duration_def)

lemma from_millis_u16: "from_millis (ucast (m :: u16)) = unat m * 1000000"
  by (simp add: from_millis_def unat_ucast_le)

lemma from_millis_u16_bound: "from_millis (ucast (m :: u16)) < 2 ^ 64 - 1"
proof -
  have "unat m < 2 ^ LENGTH(16)" by (rule unsigned_less)
  then show ?thesis by (simp add: from_millis_u16)
qed

theorem buffer_packet_limits_cover:
  assumes "packet_duration c \<noteq> 0" "buffer_packet_limits p c = (s, m)"
    and "lp_target_buffer_ms p \<noteq> 0" "lp_target_buffer_ms p \<le> lp_max_buffer_ms p"
  shows "unat (lp_target_buffer_ms p) * 1000000 \<le> s * packet_duration c
    \<and> (s - 1) * packet_duration c < unat (lp_target_buffer_ms p) * 1000000
    \<and> 1 \<le> s \<and> s \<le> m"
proof -
  let ?pd = "packet_duration c" and ?t = "unat (lp_target_buffer_ms p) * 1000000"
  have s: "s = packet_count_for_duration ?t ?pd"
    and m: "m = packet_count_for_duration (unat (lp_max_buffer_ms p) * 1000000) ?pd"
    using assms(2) by (simp_all add: buffer_packet_limits_def Let_def from_millis_u16)
  have "0 < ?t" using assms(3) by (simp add: unat_gt_0)
  moreover have "?t < 2 ^ 64 - 1" using from_millis_u16_bound by (simp add: from_millis_u16)
  ultimately show ?thesis
    using packet_count_bounds [of ?pd ?t] packet_count_mono [of ?t "unat (lp_max_buffer_ms p) * 1000000" ?pd]
      assms(1,4) by (simp add: s m word_le_nat_alt)
qed

theorem buffer_packet_limits_cover_witness:
  "(\<exists>s m. buffer_packet_limits (profile Balanced) default_stream_config = (s, m)
     \<and> 70000000 \<le> s * 10000000 \<and> (s - 1) * 10000000 < 70000000 \<and> 1 \<le> s \<and> s \<le> m)"
proof -
  obtain s m where "buffer_packet_limits (profile Balanced) default_stream_config = (s, m)"
    by (cases "buffer_packet_limits (profile Balanced) default_stream_config")
  then show ?thesis
    using buffer_packet_limits_cover [of default_stream_config "profile Balanced" s m]
    by (simp add: packet_duration_default)
qed

theorem fill_percent_spec:
  "unat (fill_percent s) =
     (if bs_max_buffer_ms s \<noteq> 0 then
        min (min (unat (bs_queued_audio_ms s) * 100) (2 ^ 32 - 1) div unat (bs_max_buffer_ms s)) 100
      else if bs_max_packets s \<noteq> 0 then
        min (min (unat (bs_queued_packets s) * 100) (2 ^ 32 - 1) div unat (bs_max_packets s)) 100
      else 0)"
proof -
  have cap: "unat (ucast (min p 100 :: u32) :: u8) = min (unat p) 100" for p :: u32
  proof -
    have "unat (min p 100) = min (unat p) 100"
      by (simp add: min_def word_le_nat_alt)
    then show ?thesis by (simp add: unsigned_ucast_eq take_bit_eq_mod)
  qed
  show ?thesis
    by (simp add: fill_percent_def checked_div_def cap unat_div_distrib unat_sat_mul Let_def
        split: option.splits)
qed

theorem frame_count_exact:
  assumes "length (pkt_payload p) < 2 ^ 32"
  shows "frame_count p c = Inr n \<longleftrightarrow>
    bytes_per_frame c \<noteq> 0 \<and> unat n * bytes_per_frame c = length (pkt_payload p)"
proof -
  let ?l = "length (pkt_payload p)" and ?b = "bytes_per_frame c"
  have "?l div ?b < 2 ^ 32" using assms by (meson div_le_dividend le_less_trans)
  then have n: "unat (of_nat (?l div ?b) :: u32) = ?l div ?b"
    by (simp add: unsigned_of_nat take_bit_nat_eq_self)
  show ?thesis
  proof (cases "?b = 0 \<or> ?l mod ?b \<noteq> 0")
    case True
    then have "\<not> (?b \<noteq> 0 \<and> unat n * ?b = ?l)" by (metis mod_mult_self2_is_0)
    moreover have "frame_count p c \<noteq> Inr n" using True by (auto simp: frame_count_def Let_def)
    ultimately show ?thesis by blast
  next
    case False
    then have "unat n * ?b = ?l \<longleftrightarrow> unat n = ?l div ?b" by auto
    also have "\<dots> \<longleftrightarrow> of_nat (?l div ?b) = n" using n by (metis unsigned_word_eqI)
    finally show ?thesis using False by (simp add: frame_count_def Let_def)
  qed
qed

theorem frame_count_exact_witness:
  "frame_count \<lparr>pkt_sequence = 0, pkt_captured_at_ms = 0, pkt_captured_at_unix_ms = 0,
     pkt_payload = replicate 1920 0\<rparr> default_stream_config = Inr 480"
  by (subst frame_count_exact) (simp_all add: default_stream_config_def bytes_per_frame_def)

end
