(* ===== verification/Audio_Levels.thy ===== *)
theory Audio_Levels
  imports Receiver_Core
begin

text \<open>
  The levels of a captured frame, \<open>synchrosonic-core/src/audio.rs\<close>. All floats of the
  computation are finite and not negative: an \<open>f32\<close> is the natural number of units of
  \<open>2 ^ -149\<close>, the least positive one. Every operation is exact and then rounded to 24
  significant bits, half to even; between 0 and the greatest sum, \<open>2 ^ 24\<close>, nothing overflows.
\<close>

section \<open>Single precision\<close>

type_synonym f32 = nat

definition F32_ONE :: f32 where
  "F32_ONE = 2 ^ 149"

fun bit_count :: "nat \<Rightarrow> nat" where
  "bit_count n = (if n = 0 then 0 else Suc (bit_count (n div 2)))"

declare bit_count.simps [simp del]

text \<open>The float nearest to \<open>a / b\<close> units.\<close>

definition f32_round :: "nat \<Rightarrow> nat \<Rightarrow> f32" where
  "f32_round a b = (let s = bit_count (a div b) - 24 in round_half_even a (b * 2 ^ s) * 2 ^ s)"

definition f32_of_nat :: "nat \<Rightarrow> f32" where
  "f32_of_nat n = f32_round (n * F32_ONE) 1"

definition f32_add :: "f32 \<Rightarrow> f32 \<Rightarrow> f32" where
  "f32_add x y = f32_round (x + y) 1"

definition f32_mult :: "f32 \<Rightarrow> f32 \<Rightarrow> f32" where
  "f32_mult x y = f32_round (x * y) F32_ONE"

definition f32_div :: "f32 \<Rightarrow> f32 \<Rightarrow> f32" where
  "f32_div x y = f32_round (x * F32_ONE) y"

fun root_floor :: "nat \<Rightarrow> nat" where
  "root_floor n =
     (if n = 0 then 0
      else let r = 2 * root_floor (n div 4) in if (r + 1) ^ 2 \<le> n then r + 1 else r)"

declare root_floor.simps [simp del]

definition f32_sqrt :: "f32 \<Rightarrow> f32" where
  "f32_sqrt x =
     (let n = x * F32_ONE; s = bit_count (root_floor n) - 24; m = root_floor (n div 4 ^ s);
          twice = (2 * m + 1) ^ 2 * 4 ^ s
      in (if 4 * n < twice \<or> (4 * n = twice \<and> even m) then m else m + 1) * 2 ^ s)"

section \<open>Levels\<close>

record AudioFrameStats =
  fs_peak_amplitude :: f32
  fs_rms_amplitude :: f32

definition default_frame_stats :: AudioFrameStats where
  "default_frame_stats = \<lparr>fs_peak_amplitude = 0, fs_rms_amplitude = 0\<rparr>"

text \<open>\<open>chunks_exact\<close> and \<open>from_le_bytes\<close>: what is left at the end is not a sample.\<close>

fun samples_s16le :: "bytes \<Rightarrow> u16 list" where
  "samples_s16le (a # b # bs) = (ucast b * 256 + ucast a) # samples_s16le bs"
| "samples_s16le _ = []"

fun samples_f32le :: "bytes \<Rightarrow> u32 list" where
  "samples_f32le (a # b # c # d # bs) =
     (ucast d * 2 ^ 24 + ucast c * 2 ^ 16 + ucast b * 256 + ucast a) # samples_f32le bs"
| "samples_f32le _ = []"

definition amplitude_s16 :: "u16 \<Rightarrow> f32" where
  "amplitude_s16 v = min (f32_round (nat \<bar>sint v\<bar> * F32_ONE) 32767) F32_ONE"

text \<open>The exponent 255 is an infinity, or not a number, for which \<open>min\<close> returns its argument.\<close>

definition amplitude_f32 :: "u32 \<Rightarrow> f32" where
  "amplitude_f32 v =
     (let e = unat (v div 2 ^ 23) mod 256; m = unat v mod 2 ^ 23
      in if e = 255 then F32_ONE
         else min (if e = 0 then m else (2 ^ 23 + m) * 2 ^ (e - 1)) F32_ONE)"

fun amplitudes :: "AudioSampleFormat \<Rightarrow> bytes \<Rightarrow> f32 list" where
  "amplitudes S16Le payload = map amplitude_s16 (samples_s16le payload)"
| "amplitudes F32Le payload = map amplitude_f32 (samples_f32le payload)"

definition add_sample :: "f32 \<Rightarrow> f32 \<times> f32 \<times> nat \<Rightarrow> f32 \<times> f32 \<times> nat" where
  "add_sample amplitude acc =
     (case acc of (peak, sum_squares, count) \<Rightarrow>
        (max peak amplitude, f32_add sum_squares (f32_mult amplitude amplitude), Suc count))"

definition stats_from_accumulators :: "f32 \<times> f32 \<times> nat \<Rightarrow> AudioFrameStats" where
  "stats_from_accumulators acc =
     (case acc of (peak, sum_squares, count) \<Rightarrow>
        if count = 0 then default_frame_stats
        else \<lparr>fs_peak_amplitude = peak, fs_rms_amplitude = f32_sqrt (f32_div sum_squares (f32_of_nat count))\<rparr>)"

definition frame_stats :: "AudioSampleFormat \<Rightarrow> bytes \<Rightarrow> AudioFrameStats" where
  "frame_stats sample_format payload =
     stats_from_accumulators (fold add_sample (amplitudes sample_format payload) (0, 0, 0))"

end
