(* ===== verification/Audio_Levels_Properties.thy ===== *)
theory Audio_Levels_Properties
  imports Audio_Levels
begin

text \<open>The levels of a frame lie between silence and full scale, and reach the ends exactly there.\<close>

section \<open>Rounding to 24 bits\<close>

lemma bit_count_0 [simp]: "bit_count 0 = 0"
  by (subst bit_count.simps) simp

lemma bit_count_pos: "0 < n \<Longrightarrow> bit_count n = Suc (bit_count (n div 2))"
  by (subst bit_count.simps) simp

lemma bit_count_bounds:
  assumes "0 < n"
  shows "2 ^ (bit_count n - 1) \<le> n \<and> n < 2 ^ bit_count n \<and> 0 < bit_count n"
  using assms
proof (induction n rule: bit_count.induct)
  case (1 n)
  show ?case
  proof (cases "n = 1")
    case True
    then show ?thesis by (simp add: bit_count_pos)
  next
    case False
    with 1 have ih: "2 ^ (bit_count (n div 2) - 1) \<le> n div 2" "n div 2 < 2 ^ bit_count (n div 2)"
        "0 < bit_count (n div 2)"
      by simp_all
    then obtain k where k: "bit_count (n div 2) = Suc k" by (cases "bit_count (n div 2)") simp_all
    then have c: "bit_count n = Suc (Suc k)" using 1(2) by (simp add: bit_count_pos [of n])
    have "2 * 2 ^ k \<le> n" "n < 2 * (2 * 2 ^ k)" using ih k by simp_all
    then show ?thesis by (simp add: c)
  qed
qed

lemma bit_count_le: "n < 2 ^ k \<Longrightarrow> bit_count n \<le> k"
proof (cases "n = 0")
  case False
  assume "n < 2 ^ k"
  moreover have "2 ^ (bit_count n - 1) \<le> n" "0 < bit_count n" using bit_count_bounds False by simp_all
  ultimately have "(2::nat) ^ (bit_count n - 1) < 2 ^ k" by linarith
  then show ?thesis using \<open>0 < bit_count n\<close> by simp
qed simp

lemma round_half_even_le:
  assumes "0 < d" "n \<le> c * d"
  shows "round_half_even n d \<le> c"
proof (cases "n = c * d")
  case True
  then show ?thesis using assms(1) by (simp add: round_half_even_def)
next
  case False
  then have "n div d < c" using assms by (simp add: div_less_iff_less_mult)
  then show ?thesis by (simp add: round_half_even_def Let_def)
qed

lemma round_half_even_ge:
  assumes "0 < d" "c * d \<le> n"
  shows "c \<le> round_half_even n d"
proof -
  have "c \<le> n div d" using assms by (simp add: less_eq_div_iff_mult_less_eq)
  then show ?thesis by (simp add: round_half_even_def Let_def)
qed

text \<open>What single precision represents in the range that matters.\<close>

definition representable :: "f32 \<Rightarrow> bool" where
  "representable c \<longleftrightarrow> (\<exists>m t. m \<le> 2 ^ 24 \<and> c = m * 2 ^ t)"

lemma representableI: "m \<le> 2 ^ 24 \<Longrightarrow> representable (m * 2 ^ t)"
  by (auto simp: representable_def)

lemma one_representable: "representable F32_ONE"
  using representableI [of 1 149] by (simp add: F32_ONE_def)

text \<open>When the quotient needs more than 24 bits it is at least \<open>2 ^ 23\<close> steps.\<close>

lemma step_spec:
  assumes "s = bit_count (a div b) - 24" "0 < s" "0 < b"
  shows "2 ^ (23 + s) * b \<le> a"
proof -
  have "0 < a div b" using assms(1,2) by (cases "a div b = 0") auto
  from bit_count_bounds [OF this] have "2 ^ (bit_count (a div b) - 1) \<le> a div b" by simp
  moreover have "bit_count (a div b) - 1 = 23 + s" using assms(1,2) by simp
  ultimately show ?thesis using assms(3) by (simp add: less_eq_div_iff_mult_less_eq)
qed

text \<open>A represented number between the quotient and its rounding is a whole number of steps.\<close>

lemma whole_steps:
  assumes "representable c" "2 ^ (23 + s) \<le> c"
  shows "\<exists>q. c = q * 2 ^ s"
proof -
  obtain m t where c: "m \<le> 2 ^ 24" "c = m * 2 ^ t" using assms(1) by (auto simp: representable_def)
  show ?thesis
  proof (cases "s \<le> t")
    case True
    then have "c = m * 2 ^ (t - s) * 2 ^ s" by (simp add: c(2) mult.assoc flip: power_add)
    then show ?thesis by blast
  next
    case False
    have "(2::nat) ^ (23 + s) \<le> 2 ^ 24 * 2 ^ t" using assms(2) c by (metis le_trans mult_le_mono1)
    also have "\<dots> = 2 ^ (24 + t)" by (simp add: power_add)
    finally have "23 + s \<le> 24 + t" by (subst (asm) power_increasing_iff) simp_all
    with False have t: "s = Suc t" by simp
    have "2 ^ 24 \<le> m"
    proof -
      have "2 ^ 24 * 2 ^ t \<le> m * 2 ^ t" using assms(2) by (simp add: c t power_add)
      then show ?thesis by simp
    qed
    then have "c = 2 ^ 23 * 2 ^ s" using c by (simp add: t)
    then show ?thesis by blast
  qed
qed

lemma f32_round_le:
  assumes "0 < b" "a \<le> c * b" "representable c"
  shows "f32_round a b \<le> c"
proof -
  define s where "s = bit_count (a div b) - 24"
  have "\<exists>q. c = q * 2 ^ s"
  proof (cases "0 < s")
    case True
    then have "2 ^ (23 + s) * b \<le> c * b" using step_spec [OF s_def _ assms(1)] assms(2) by linarith
    then show ?thesis using assms(1) by (intro whole_steps [OF assms(3)]) simp
  qed simp
  then obtain q where q: "c = q * 2 ^ s" ..
  then have "round_half_even a (b * 2 ^ s) \<le> q"
    using assms by (intro round_half_even_le) (simp_all add: ac_simps)
  then show ?thesis by (simp add: f32_round_def q flip: s_def)
qed

lemma f32_round_ge:
  assumes "0 < b" "c * b \<le> a" "representable c"
  shows "c \<le> f32_round a b"
proof -
  define s where "s = bit_count (a div b) - 24"
  have low: "q * 2 ^ s \<le> f32_round a b" if "q * 2 ^ s * b \<le> a" for q
    using round_half_even_ge [of "b * 2 ^ s" q a] that assms(1)
    by (simp add: f32_round_def ac_simps flip: s_def)
  show ?thesis
  proof (cases "0 < s \<and> c < 2 ^ (23 + s)")
    case True
    then have "2 ^ 23 * 2 ^ s \<le> f32_round a b"
      using step_spec [OF s_def _ assms(1)] by (intro low) (simp add: power_add ac_simps)
    then show ?thesis using True by (simp add: power_add)
  next
    case False
    then have "\<exists>q. c = q * 2 ^ s" by (cases "0 < s") (use whole_steps [OF assms(3)] in auto)
    then show ?thesis using low assms(2) by blast
  qed
qed

lemma f32_round_exact: "representable c \<Longrightarrow> f32_round c 1 = c"
  using f32_round_le [of 1 c c] f32_round_ge [of 1 c c] by simp

section \<open>Sums and means\<close>

lemma bit_count_eq: "2 ^ k \<le> n \<Longrightarrow> n < 2 ^ Suc k \<Longrightarrow> bit_count n = Suc k"
proof -
  assume n: "2 ^ k \<le> n" "n < 2 ^ Suc k"
  then have "n < 2 ^ bit_count n" using bit_count_bounds [of n] by (cases "n = 0") simp_all
  with n(1) have "(2::nat) ^ k < 2 ^ bit_count n" by linarith
  then have "k < bit_count n" by simp
  then show ?thesis using bit_count_le [OF n(2)] by simp
qed

text \<open>From \<open>2 ^ 24\<close> on a sum of squares does not grow: adding one is a tie that goes back.\<close>

lemma saturated_sum:
  assumes "2 ^ 173 \<le> y" "y \<le> 2 ^ 173 + 2 ^ 149"
  shows "f32_round y 1 = 2 ^ 173"
proof -
  have s: "bit_count y = 174" using assms bit_count_eq [of 173 y] by simp
  have "y div 2 ^ 150 = 2 ^ 23" using assms by (intro div_nat_eqI) simp_all
  moreover have "y = 2 ^ 150 * (y div 2 ^ 150) + y mod 2 ^ 150" by simp
  ultimately have r: "2 * (y mod 2 ^ 150) \<le> 2 ^ 150" using assms(2) by simp
  have "round_half_even y (2 ^ 150) = 2 ^ 23"
    using \<open>y div 2 ^ 150 = 2 ^ 23\<close> r by (simp add: round_half_even_def Let_def)
  then show ?thesis by (simp add: f32_round_def s)
qed

lemma sum_bounded:
  assumes "x \<le> min k (2 ^ 24) * F32_ONE" "q \<le> F32_ONE"
  shows "f32_add x q \<le> min (Suc k) (2 ^ 24) * F32_ONE"
proof (cases "x + q \<le> min (Suc k) (2 ^ 24) * F32_ONE")
  case True
  moreover have "representable (min (Suc k) (2 ^ 24) * F32_ONE)"
    unfolding F32_ONE_def by (rule representableI) simp
  ultimately show ?thesis by (simp add: f32_add_def f32_round_le)
next
  case False
  have "2 ^ 24 \<le> k"
  proof (rule ccontr)
    assume "\<not> 2 ^ 24 \<le> k"
    then have "min k (2 ^ 24) = k" "min (Suc k) (2 ^ 24) = Suc k" by simp_all
    with False assms show False by simp
  qed
  then have k: "min k (2 ^ 24) = 2 ^ 24" "min (Suc k) (2 ^ 24) = 2 ^ 24" by simp_all
  have "f32_round (x + q) 1 = 2 ^ 173"
    by (rule saturated_sum) (use False assms in \<open>simp_all add: k F32_ONE_def\<close>)
  then show ?thesis unfolding f32_add_def k by (simp add: F32_ONE_def)
qed

lemma square_bounded: "a \<le> F32_ONE \<Longrightarrow> f32_mult a a \<le> F32_ONE"
  unfolding f32_mult_def
  by (rule f32_round_le [OF _ mult_mono one_representable]) (simp_all add: F32_ONE_def)

lemma count_large: "min n (2 ^ 24) * F32_ONE \<le> f32_of_nat n"
  unfolding f32_of_nat_def
proof (rule f32_round_ge)
  show "representable (min n (2 ^ 24) * F32_ONE)" unfolding F32_ONE_def by (rule representableI) simp
qed simp_all

lemma mean_bounded:
  assumes "x \<le> min n (2 ^ 24) * F32_ONE" "0 < n"
  shows "f32_div x (f32_of_nat n) \<le> F32_ONE"
  unfolding f32_div_def
proof (rule f32_round_le [OF _ _ one_representable])
  have "0 < min n (2 ^ 24) * F32_ONE" using assms(2) by (simp add: F32_ONE_def)
  then show "0 < f32_of_nat n" using count_large [of n] by linarith
  show "x * F32_ONE \<le> F32_ONE * f32_of_nat n"
    using assms(1) count_large [of n] by (metis le_trans mult.commute mult_le_mono2)
qed

section \<open>Square roots\<close>

lemma root_floor_spec: "root_floor n ^ 2 \<le> n \<and> n < (root_floor n + 1) ^ 2"
proof (induction n rule: root_floor.induct)
  case (1 n)
  show ?case
  proof (cases "n = 0")
    case False
    define r where "r = root_floor (n div 4)"
    have "r ^ 2 \<le> n div 4" "n div 4 < (r + 1) ^ 2" using 1 False by (simp_all add: r_def)
    then have "4 * r ^ 2 \<le> n" "n < 4 * (r + 1) ^ 2" by simp_all
    then have "(2 * r) ^ 2 \<le> n" "n < (2 * r + 2) ^ 2" by (simp_all add: power2_eq_square algebra_simps)
    moreover have "root_floor n = (if (2 * r + 1) ^ 2 \<le> n then 2 * r + 1 else 2 * r)"
      using False by (subst root_floor.simps) (simp add: Let_def r_def)
    ultimately show ?thesis by simp
  qed (simp add: root_floor.simps)
qed

lemma root_floor_less: "n < c ^ 2 \<Longrightarrow> root_floor n < c"
  using root_floor_spec [of n] by (metis le_less_trans power_less_imp_less_base zero_le)

lemma root_floor_square: "root_floor (r ^ 2) = r"
proof -
  have "r < root_floor (r ^ 2) + 1" using root_floor_spec [of "r ^ 2"] by (metis power_less_imp_less_base zero_le)
  moreover have "root_floor (r ^ 2) \<le> r"
    using root_floor_spec [of "r ^ 2"] by (metis power2_nat_le_eq_le)
  ultimately show ?thesis by simp
qed

lemma sqrt_steps:
  assumes "s = bit_count (root_floor (x * F32_ONE)) - 24" "m = root_floor (x * F32_ONE div 4 ^ s)"
  shows "f32_sqrt x = (if 4 * (x * F32_ONE) < (2 * m + 1) ^ 2 * 4 ^ s
      \<or> (4 * (x * F32_ONE) = (2 * m + 1) ^ 2 * 4 ^ s \<and> even m) then m else m + 1) * 2 ^ s"
  unfolding f32_sqrt_def Let_def assms ..

lemma root_of_one: "f32_sqrt F32_ONE = F32_ONE"
proof -
  have n: "F32_ONE * F32_ONE = (2 ^ 149) ^ 2" by (simp add: F32_ONE_def)
  have "bit_count (2 ^ 149) = 150" using bit_count_eq [of 149 "2 ^ 149"] by simp
  then have s: "126 = bit_count (root_floor (F32_ONE * F32_ONE)) - 24" unfolding n root_floor_square by simp
  have "(2 ^ 149) ^ 2 div 4 ^ 126 = ((2 ^ 23) ^ 2 :: nat)" by simp
  then have m: "2 ^ 23 = root_floor (F32_ONE * F32_ONE div 4 ^ 126)" unfolding n by (simp only: root_floor_square)
  show ?thesis unfolding sqrt_steps [OF s m] by (simp add: F32_ONE_def)
qed

lemma root_bounded:
  assumes "x \<le> F32_ONE"
  shows "f32_sqrt x \<le> F32_ONE"
proof (cases "x = F32_ONE")
  case True
  then show ?thesis by (simp add: root_of_one)
next
  case False
  define n s where "n = x * F32_ONE" and "s = bit_count (root_floor n) - 24"
  define m where "m = root_floor (n div 4 ^ s)"
  have "n < (2 ^ 149) ^ 2" using False assms by (simp add: n_def F32_ONE_def)
  then have "root_floor n < 2 ^ 149" by (rule root_floor_less)
  then have s: "s \<le> 125" using bit_count_le [of "root_floor n" 149] by (simp add: s_def)
  have "root_floor n < 2 ^ bit_count (root_floor n)"
    using bit_count_bounds [of "root_floor n"] by (cases "root_floor n = 0") simp_all
  also have "\<dots> \<le> 2 ^ (24 + s)" by (rule power_increasing) (simp_all add: s_def)
  finally have "root_floor n + 1 \<le> 2 ^ (24 + s)" by simp
  then have "(root_floor n + 1) ^ 2 \<le> (2 ^ (24 + s)) ^ 2" by (rule power_mono) simp
  moreover have "n < (root_floor n + 1) ^ 2" using root_floor_spec by simp
  moreover have "((2::nat) ^ (24 + s)) ^ 2 = (2 ^ 24) ^ 2 * 4 ^ s"
    by (simp add: power_add power_mult_distrib power2_eq_square flip: power_mult_distrib)
  ultimately have "n < (2 ^ 24) ^ 2 * 4 ^ s" by linarith
  then have "n div 4 ^ s < (2 ^ 24) ^ 2" by (simp add: div_less_iff_less_mult)
  then have "m < 2 ^ 24" unfolding m_def by (rule root_floor_less)
  moreover have "f32_sqrt x \<le> (m + 1) * 2 ^ s"
    unfolding sqrt_steps [OF s_def [unfolded n_def] m_def [unfolded n_def]] by (intro mult_le_mono1) simp
  moreover have "(m + 1) * 2 ^ s \<le> 2 ^ 24 * 2 ^ s" by (intro mult_le_mono1) (use \<open>m < 2 ^ 24\<close> in simp)
  ultimately have "f32_sqrt x \<le> 2 ^ 24 * 2 ^ s" by linarith
  also have "\<dots> \<le> 2 ^ 24 * 2 ^ 125" using s by (intro mult_le_mono2 power_increasing) simp_all
  finally show ?thesis by (simp add: F32_ONE_def)
qed

section \<open>Amplitudes and frames\<close>

lemma amplitude_bounded: "a \<in> set (amplitudes fmt payload) \<Longrightarrow> a \<le> F32_ONE"
  by (cases fmt) (auto simp: amplitude_s16_def amplitude_f32_def Let_def)

lemma amplitude_zero: "amplitude_s16 v = 0 \<longleftrightarrow> v = 0"
proof (cases "v = 0")
  case True
  have "f32_round 0 32767 \<le> 0" by (rule f32_round_le) (use representableI [of 0 0] in simp_all)
  with True show ?thesis by (simp add: amplitude_s16_def)
next
  case False
  then have "sint v \<noteq> 0" by (simp add: signed_eq_0_iff)
  then have "1 \<le> nat \<bar>sint v\<bar>" by linarith
  then have "1 * F32_ONE \<le> nat \<bar>sint v\<bar> * F32_ONE" by (rule mult_le_mono1)
  moreover have "2 ^ 134 * 32767 \<le> 1 * F32_ONE" by (simp add: F32_ONE_def)
  ultimately have "2 ^ 134 * 32767 \<le> nat \<bar>sint v\<bar> * F32_ONE" by (rule order_trans [rotated])
  moreover have "representable (2 ^ 134)" using representableI [of 1 134] by simp
  ultimately have "2 ^ 134 \<le> f32_round (nat \<bar>sint v\<bar> * F32_ONE) 32767"
    by (intro f32_round_ge) simp_all
  then have "0 < f32_round (nat \<bar>sint v\<bar> * F32_ONE) 32767"
    using less_le_trans [of 0 "2 ^ 134"] by simp
  then show ?thesis using False by (simp add: amplitude_s16_def F32_ONE_def)
qed

lemma amplitude_full: "amplitude_s16 v = F32_ONE \<longleftrightarrow> 32767 \<le> \<bar>sint v\<bar>"
proof (cases "32767 \<le> \<bar>sint v\<bar>")
  case True
  then have "F32_ONE * 32767 \<le> nat \<bar>sint v\<bar> * F32_ONE"
    by (subst mult.commute) (rule mult_le_mono1, simp)
  then have "F32_ONE \<le> f32_round (nat \<bar>sint v\<bar> * F32_ONE) 32767"
    by (intro f32_round_ge one_representable) simp_all
  then show ?thesis using True by (simp add: amplitude_s16_def)
next
  case False
  then have "nat \<bar>sint v\<bar> \<le> 32766" by simp
  then have "nat \<bar>sint v\<bar> * F32_ONE \<le> 32766 * F32_ONE" by (rule mult_le_mono1)
  also have "\<dots> \<le> (2 ^ 24 - 1) * 2 ^ 125 * 32767" by (simp add: F32_ONE_def)
  finally have "f32_round (nat \<bar>sint v\<bar> * F32_ONE) 32767 \<le> (2 ^ 24 - 1) * 2 ^ 125"
    by (intro f32_round_le representableI) simp_all
  moreover have "(2 ^ 24 - 1) * 2 ^ 125 < F32_ONE" by (simp add: F32_ONE_def)
  ultimately show ?thesis using False by (simp add: amplitude_s16_def min_def)
qed

lemma samples_folded:
  assumes "\<forall>a \<in> set xs. a \<le> F32_ONE" "x \<le> min n (2 ^ 24) * F32_ONE"
  shows "\<exists>y. fold add_sample xs (p, x, n) = (fold max xs p, y, n + length xs)
    \<and> y \<le> min (n + length xs) (2 ^ 24) * F32_ONE"
  using assms
proof (induction xs arbitrary: p x n)
  case (Cons a xs)
  have "f32_add x (f32_mult a a) \<le> min (Suc n) (2 ^ 24) * F32_ONE"
    using Cons.prems by (intro sum_bounded square_bounded) simp_all
  from Cons.IH [OF _ this, of "max p a"] Cons.prems(1) show ?case
    by (auto simp: add_sample_def max.commute)
qed simp

lemma peak_zero: "fold max xs (0::nat) = 0 \<longleftrightarrow> list_all (\<lambda>a. a = 0) xs"
  using Max.set_eq_fold [of 0 xs] Max_eq_iff [of "set (0 # xs)" 0] by (auto simp: list_all_iff)

lemma peak_full:
  assumes "\<forall>a \<in> set xs. a \<le> c" "0 < (c::nat)"
  shows "fold max xs 0 \<le> c \<and> (fold max xs 0 = c \<longleftrightarrow> list_ex (\<lambda>a. a = c) xs)"
  using Max.set_eq_fold [of 0 xs] Max_eq_iff [of "set (0 # xs)" c] Max_le_iff [of "set (0 # xs)" c] assms
  by (auto simp: list_ex_iff)

text \<open>
  C30: The levels of a frame, with every rounding of single precision, lie between silence and full scale, however long the frame is: the peak
  and the root mean square are at most one. For 16-bit samples the peak is zero exactly when all samples are, and one exactly when some sample
  has the greatest magnitude.
\<close>

theorem levels_in_range:
  "fs_peak_amplitude (frame_stats fmt payload) \<le> F32_ONE
   \<and> fs_rms_amplitude (frame_stats fmt payload) \<le> F32_ONE
   \<and> (fs_peak_amplitude (frame_stats S16Le payload) = 0 \<longleftrightarrow> list_all (\<lambda>v. v = 0) (samples_s16le payload))
   \<and> (fs_peak_amplitude (frame_stats S16Le payload) = F32_ONE
        \<longleftrightarrow> list_ex (\<lambda>v. 32767 \<le> \<bar>sint v\<bar>) (samples_s16le payload))"
proof -
  have frame: "fs_peak_amplitude (frame_stats f payload) = fold max (amplitudes f payload) 0
      \<and> fs_rms_amplitude (frame_stats f payload) \<le> F32_ONE" for f
  proof -
    let ?xs = "amplitudes f payload"
    obtain y where y: "fold add_sample ?xs (0, 0, 0) = (fold max ?xs 0, y, length ?xs)"
        "y \<le> min (length ?xs) (2 ^ 24) * F32_ONE"
      using samples_folded [of ?xs 0 0 0] amplitude_bounded by auto
    show ?thesis
    proof (cases "?xs = []")
      case False
      then have "f32_sqrt (f32_div y (f32_of_nat (length ?xs))) \<le> F32_ONE"
        using y(2) by (intro root_bounded mean_bounded) simp_all
      then show ?thesis using False by (simp add: frame_stats_def stats_from_accumulators_def y(1))
    qed (simp add: frame_stats_def stats_from_accumulators_def default_frame_stats_def)
  qed
  have one: "0 < F32_ONE" by (simp add: F32_ONE_def)
  have peak: "fold max (amplitudes f payload) 0 \<le> F32_ONE
      \<and> (fold max (amplitudes f payload) 0 = F32_ONE \<longleftrightarrow> list_ex (\<lambda>a. a = F32_ONE) (amplitudes f payload))" for f
    by (rule peak_full) (use one amplitude_bounded in auto)
  show ?thesis
  proof (intro conjI)
    show "fs_peak_amplitude (frame_stats fmt payload) \<le> F32_ONE" using frame peak by simp
    show "fs_rms_amplitude (frame_stats fmt payload) \<le> F32_ONE" using frame by blast
    show "fs_peak_amplitude (frame_stats S16Le payload) = 0 \<longleftrightarrow> list_all (\<lambda>v. v = 0) (samples_s16le payload)"
      using frame [of S16Le] peak_zero [of "amplitudes S16Le payload"] by (simp add: list_all_iff amplitude_zero)
    show "fs_peak_amplitude (frame_stats S16Le payload) = F32_ONE
        \<longleftrightarrow> list_ex (\<lambda>v. 32767 \<le> \<bar>sint v\<bar>) (samples_s16le payload)"
      using frame [of S16Le] peak [of S16Le] by (simp add: list_ex_iff image_iff amplitude_full eq_commute [of F32_ONE])
  qed
qed

end
