(* ===== verification/Fifo.thy ===== *)
theory Fifo
  imports Prelude
begin

text \<open>
  The contract of a bounded queue that drops its oldest item when it is full, which four
  components of the program keep: the receiver's packet buffer, the sender's branch queues,
  the in-memory log store and the log-file tail. The client lemmas say what such a queue
  holds after any sequence of insertions.
\<close>

locale bounded_fifo =
  fixes items :: "'q \<Rightarrow> 'a list"
    and capacity :: "'q \<Rightarrow> nat"
    and enq :: "'a \<Rightarrow> 'q \<Rightarrow> 'q"
    and invar :: "'q \<Rightarrow> bool"
  assumes items_enq: "invar q \<Longrightarrow>
      items (enq x q) = drop (length (items q) + 1 - capacity q) (items q @ [x])"
    and capacity_enq: "invar q \<Longrightarrow> capacity (enq x q) = capacity q"
    and within_capacity: "invar q \<Longrightarrow> length (items q) \<le> capacity q"
    and invar_enq: "invar q \<Longrightarrow> invar (enq x q)"
begin

lemma invar_fold: "invar q \<Longrightarrow> invar (fold enq xs q)"
  by (induction xs arbitrary: q) (simp_all add: invar_enq)

lemma capacity_fold: "invar q \<Longrightarrow> capacity (fold enq xs q) = capacity q"
  by (induction xs arbitrary: q) (simp_all add: invar_enq capacity_enq)

lemma items_fold:
  "invar q \<Longrightarrow> items (fold enq xs q) =
     drop (length (items q) + length xs - capacity q) (items q @ xs)"
proof (induction xs arbitrary: q)
  case Nil
  then show ?case using within_capacity [of q] by simp
next
  case (Cons x xs)
  let ?n = "length (items q)" and ?c = "capacity q"
  have step: "items (fold enq (x # xs) q) =
      drop (length (items (enq x q)) + length xs - ?c) (items (enq x q) @ xs)"
    using Cons by (simp add: invar_enq capacity_enq)
  show ?case
  proof (cases "?n < ?c")
    case True
    then have "items (enq x q) = items q @ [x]" using Cons.prems by (simp add: items_enq)
    then show ?thesis by (simp only: step) simp
  next
    case False
    with within_capacity [OF Cons.prems] have "?n = ?c" by simp
    then have "items (enq x q) = drop 1 (items q @ [x])" using Cons.prems by (simp add: items_enq)
    then show ?thesis using \<open>?n = ?c\<close> by (simp only: step) (cases "items q"; simp)
  qed
qed

lemma length_fold:
  "invar q \<Longrightarrow> length (items (fold enq xs q)) = min (length (items q) + length xs) (capacity q)"
  by (simp add: items_fold min_def) (use within_capacity [of q] in arith)

text \<open>The newest items are never lost: the queue ends with what was inserted last.\<close>

lemma suffix_fold:
  assumes "invar q" "length xs \<le> capacity q"
  shows "\<exists>ys. items (fold enq xs q) = ys @ xs"
proof -
  have "items (fold enq xs q) = drop (length (items q) + length xs - capacity q) (items q) @ xs"
    using assms by (simp add: items_fold)
  then show ?thesis by blast
qed

end

end
