(* ===== verification/Packet_Buffer.thy ===== *)
theory Packet_Buffer
  imports Receiver_Core Fifo
begin

text \<open>
  The receiver's jitter buffer, \<open>synchrosonic-receiver/src/buffer.rs\<close>: a \<open>VecDeque\<close> of
  packets with the number of queued frames beside it, bounded by a packet count derived from
  the latency profile. The \<open>VecDeque\<close> is a list, front first.
\<close>

datatype BufferPushOutcome = Accepted | DroppedOldest u64

record BufferedPacket =
  bp_packet :: ReceiverAudioPacket
  bp_frame_count :: u32

record ReceiverPacketBuffer =
  pb_packets :: "BufferedPacket list"
  pb_queued_frames :: u64
  pb_sample_rate_hz :: u32
  pb_target_buffer_ms :: u32
  pb_max_buffer_ms :: u32
  pb_start_threshold_packets :: nat
  pb_max_packets :: nat

definition pb_new :: "ReceiverLatencyProfile \<Rightarrow> ReceiverStreamConfig \<Rightarrow> ReceiverPacketBuffer" where
  "pb_new p stream =
     (let (start_threshold, max_packets) = buffer_packet_limits p stream
      in \<lparr>pb_packets = [], pb_queued_frames = 0,
          pb_sample_rate_hz = sc_sample_rate_hz stream,
          pb_target_buffer_ms = ucast (lp_target_buffer_ms p),
          pb_max_buffer_ms = ucast (max (lp_max_buffer_ms p) (lp_target_buffer_ms p)),
          pb_start_threshold_packets = max start_threshold 1,
          pb_max_packets = max max_packets (max start_threshold 1)\<rparr>)"

definition pb_clear :: "ReceiverPacketBuffer \<Rightarrow> ReceiverPacketBuffer" where
  "pb_clear b = b\<lparr>pb_packets := [], pb_queued_frames := 0\<rparr>"

definition pb_queued_audio_ms :: "ReceiverPacketBuffer \<Rightarrow> u32" where
  "pb_queued_audio_ms b =
     (if pb_sample_rate_hz b = 0 \<or> pb_queued_frames b = 0 then 0
      else ucast (min (sat_mul (pb_queued_frames b) 1000 div ucast (pb_sample_rate_hz b))
                      (ucast (- 1 :: u32))))"

definition pb_is_ready :: "ReceiverPacketBuffer \<Rightarrow> bool" where
  "pb_is_ready b \<longleftrightarrow>
     pb_start_threshold_packets b \<le> length (pb_packets b)
     \<and> max (pb_target_buffer_ms b) 1 \<le> pb_queued_audio_ms b"

text \<open>The part of \<open>push\<close> after the packet's frame count is known.\<close>

definition pb_enqueue ::
  "BufferedPacket \<Rightarrow> ReceiverPacketBuffer \<Rightarrow> BufferPushOutcome \<times> ReceiverPacketBuffer" where
  "pb_enqueue bp b =
     (let (outcome, b1) =
        (if length (pb_packets b) = pb_max_packets b then
           (case pb_packets b of
              [] \<Rightarrow> (Accepted, b)
            | dropped # rest \<Rightarrow>
                (DroppedOldest (pkt_sequence (bp_packet dropped)),
                 b\<lparr>pb_packets := rest,
                   pb_queued_frames := sat_sub (pb_queued_frames b) (ucast (bp_frame_count dropped))\<rparr>))
         else (Accepted, b))
      in (outcome,
          b1\<lparr>pb_queued_frames := pb_queued_frames b1 + ucast (bp_frame_count bp),
             pb_packets := pb_packets b1 @ [bp]\<rparr>))"

definition pb_push ::
  "ReceiverAudioPacket \<Rightarrow> ReceiverStreamConfig \<Rightarrow> ReceiverPacketBuffer
    \<Rightarrow> (ReceiverError + BufferPushOutcome) \<times> ReceiverPacketBuffer" where
  "pb_push packet stream b =
     (case frame_count packet stream of
        Inl msg \<Rightarrow> (Inl (InvalidTransport msg), b)
      | Inr n \<Rightarrow>
          (let (outcome, b') = pb_enqueue \<lparr>bp_packet = packet, bp_frame_count = n\<rparr> b
           in (Inr outcome, b')))"

definition pb_pop :: "ReceiverPacketBuffer \<Rightarrow> (BufferedPacket \<times> ReceiverPacketBuffer) option" where
  "pb_pop b =
     (case pb_packets b of
        [] \<Rightarrow> None
      | packet # rest \<Rightarrow>
          Some (packet,
            b\<lparr>pb_packets := rest,
              pb_queued_frames := sat_sub (pb_queued_frames b) (ucast (bp_frame_count packet))\<rparr>))"

definition pb_front :: "ReceiverPacketBuffer \<Rightarrow> BufferedPacket option" where
  "pb_front b = (case pb_packets b of [] \<Rightarrow> None | p # _ \<Rightarrow> Some p)"

definition pb_snapshot :: "ReceiverPacketBuffer \<Rightarrow> ReceiverBufferSnapshot" where
  "pb_snapshot b =
     \<lparr>bs_queued_packets = of_nat (length (pb_packets b)),
      bs_queued_frames = pb_queued_frames b,
      bs_queued_audio_ms = pb_queued_audio_ms b,
      bs_target_buffer_ms = pb_target_buffer_ms b,
      bs_max_buffer_ms = pb_max_buffer_ms b,
      bs_start_threshold_packets = of_nat (pb_start_threshold_packets b),
      bs_max_packets = of_nat (pb_max_packets b)\<rparr>"

section \<open>The buffer invariant\<close>

text \<open>
  The queue is within its bound and \<open>queued_frames\<close> is the sum of the queued packets' frame
  counts, with no wrap-around: a bound below \<open>2^32\<close> packets of fewer than \<open>2^32\<close> frames each.
\<close>

definition frames_of :: "BufferedPacket list \<Rightarrow> nat" where
  "frames_of ps = sum_list (map (\<lambda>p. unat (bp_frame_count p)) ps)"

definition pb_inv :: "ReceiverPacketBuffer \<Rightarrow> bool" where
  "pb_inv b \<longleftrightarrow>
     length (pb_packets b) \<le> pb_max_packets b
     \<and> 1 \<le> pb_start_threshold_packets b \<and> pb_start_threshold_packets b \<le> pb_max_packets b
     \<and> pb_max_packets b < 2 ^ 32
     \<and> unat (pb_queued_frames b) = frames_of (pb_packets b)"

lemma frames_of_simps [simp]:
  "frames_of [] = 0" "frames_of (p # ps) = unat (bp_frame_count p) + frames_of ps"
  "frames_of (ps @ qs) = frames_of ps + frames_of qs"
  by (simp_all add: frames_of_def)

lemma frames_of_bound: "frames_of ps \<le> length ps * (2 ^ 32 - 1)"
proof (induction ps)
  case (Cons p ps)
  have "unat (bp_frame_count p) < 2 ^ LENGTH(32)" by (rule unsigned_less)
  with Cons show ?case by simp
qed simp

lemma unat_u32_u64 [simp]: "unat (ucast (x :: u32) :: u64) = unat x"
  by (simp add: unat_ucast_le)

lemma unat_u16_u32 [simp]: "unat (ucast (x :: u16) :: u32) = unat x"
  by (simp add: unat_ucast_le)

lemma profile_max_bound: "unat (lp_max_buffer_ms (profile preset)) \<le> 340
    \<and> unat (lp_target_buffer_ms (profile preset)) \<le> 120"
  by (cases preset) simp_all

lemma pb_new_inv: "pb_inv (pb_new (profile preset) stream)"
proof -
  obtain s m where lim: "buffer_packet_limits (profile preset) stream = (s, m)"
    by (cases "buffer_packet_limits (profile preset) stream")
  let ?t = "unat (lp_target_buffer_ms (profile preset)) * 1000000"
    and ?u = "unat (lp_max_buffer_ms (profile preset)) * 1000000"
  have "s \<le> max ?t 1" "m \<le> max ?u 1"
    using lim packet_count_le by (auto simp: buffer_packet_limits_def Let_def from_millis_u16)
  then have "s < 2 ^ 32" "m < 2 ^ 32" using profile_max_bound [of preset] by auto
  with lim show ?thesis by (simp add: pb_inv_def pb_new_def Let_def)
qed

lemma pb_new_empty [simp]: "pb_packets (pb_new p s) = []"
  by (simp add: pb_new_def Let_def split: prod.splits)

lemma pb_clear_packets [simp]: "pb_packets (pb_clear b) = []"
  by (simp add: pb_clear_def)

lemma pb_clear_inv: "pb_inv b \<Longrightarrow> pb_inv (pb_clear b)"
  by (simp add: pb_inv_def pb_clear_def)

lemma sat_sub_frames:
  "unat (q :: u64) = unat (n :: u32) + r \<Longrightarrow> unat (sat_sub q (ucast n)) = r"
  by (simp add: unat_sat_sub)

lemma add_frames_no_wrap:
  assumes "unat (q :: u64) = frames_of ps" "length ps < 2 ^ 32 - 1"
  shows "unat (q + ucast (n :: u32)) = frames_of ps + unat n"
proof -
  have "unat n < 2 ^ LENGTH(32)" by (rule unsigned_less)
  moreover have "frames_of ps \<le> length ps * (2 ^ 32 - 1)" by (rule frames_of_bound)
  moreover have "length ps * (2 ^ 32 - 1) \<le> (2 ^ 32 - 2) * (2 ^ 32 - 1)"
    using assms(2) by (intro mult_right_mono) auto
  ultimately have "frames_of ps + unat n < 2 ^ LENGTH(64)" by simp
  then show ?thesis using assms(1) unat_plus_no_wrap [of q "ucast n"] by simp
qed

lemma pb_enqueue_packets:
  assumes "pb_inv b"
  shows "pb_packets (snd (pb_enqueue bp b)) =
     drop (length (pb_packets b) + 1 - pb_max_packets b) (pb_packets b @ [bp])"
  using assms
  by (cases "pb_packets b") (auto simp: pb_enqueue_def pb_inv_def Let_def)

lemma pb_enqueue_frame [simp]:
  "pb_max_packets (snd (pb_enqueue bp b)) = pb_max_packets b"
  "pb_start_threshold_packets (snd (pb_enqueue bp b)) = pb_start_threshold_packets b"
  "pb_sample_rate_hz (snd (pb_enqueue bp b)) = pb_sample_rate_hz b"
  "pb_target_buffer_ms (snd (pb_enqueue bp b)) = pb_target_buffer_ms b"
  "pb_max_buffer_ms (snd (pb_enqueue bp b)) = pb_max_buffer_ms b"
  by (auto simp: pb_enqueue_def Let_def split: list.splits if_splits)

lemma pb_enqueue_inv:
  assumes inv: "pb_inv b"
  shows "pb_inv (snd (pb_enqueue bp b))"
proof (cases "length (pb_packets b) = pb_max_packets b")
  case True
  with inv obtain p ps where ps: "pb_packets b = p # ps"
    by (cases "pb_packets b") (auto simp: pb_inv_def)
  let ?q = "sat_sub (pb_queued_frames b) (ucast (bp_frame_count p))"
  have q: "unat ?q = frames_of ps"
    using inv ps by (intro sat_sub_frames) (simp add: pb_inv_def)
  have "unat (?q + ucast (bp_frame_count bp)) = frames_of ps + unat (bp_frame_count bp)"
    using q inv True ps by (intro add_frames_no_wrap) (auto simp: pb_inv_def)
  with inv True ps show ?thesis by (simp add: pb_inv_def pb_enqueue_def Let_def)
next
  case False
  have "unat (pb_queued_frames b + ucast (bp_frame_count bp))
      = frames_of (pb_packets b) + unat (bp_frame_count bp)"
    using inv False by (intro add_frames_no_wrap) (auto simp: pb_inv_def)
  with inv False show ?thesis by (simp add: pb_inv_def pb_enqueue_def Let_def)
qed

interpretation pbq: bounded_fifo pb_packets pb_max_packets "\<lambda>bp b. snd (pb_enqueue bp b)" pb_inv
  by unfold_locales (auto simp: pb_enqueue_packets pb_enqueue_inv pb_inv_def [THEN iffD1])

lemma pb_pop_inv: "pb_inv b \<Longrightarrow> pb_pop b = Some (p, b') \<Longrightarrow> pb_inv b'"
  by (auto simp: pb_pop_def pb_inv_def split: list.splits intro!: sat_sub_frames)

lemma pb_pop_packets: "pb_pop b = Some (p, b') \<longleftrightarrow>
   (\<exists>rest. pb_packets b = p # rest \<and> b' = b\<lparr>pb_packets := rest,
      pb_queued_frames := sat_sub (pb_queued_frames b) (ucast (bp_frame_count p))\<rparr>)"
  by (auto simp: pb_pop_def split: list.splits)

lemma pb_pop_None [simp]: "pb_pop b = None \<longleftrightarrow> pb_packets b = []"
  by (simp add: pb_pop_def split: list.splits)

lemma pb_front_None [simp]: "pb_front b = None \<longleftrightarrow> pb_packets b = []"
  by (simp add: pb_front_def split: list.splits)

lemma pb_front_Some: "pb_front b = Some p \<longleftrightarrow> (\<exists>rest. pb_packets b = p # rest)"
  by (auto simp: pb_front_def split: list.splits)

lemma pb_push_inv: "pb_inv b \<Longrightarrow> pb_inv (snd (pb_push p s b))"
  by (cases "frame_count p s") (simp_all add: pb_push_def case_prod_beta pb_enqueue_inv)

lemma pb_push_Inl: "frame_count p s = Inl e \<Longrightarrow> pb_push p s b = (Inl (InvalidTransport e), b)"
  by (simp add: pb_push_def)

lemma pb_push_Inr: "frame_count p s = Inr n \<Longrightarrow>
   pb_push p s b = (let (out, b') = pb_enqueue \<lparr>bp_packet = p, bp_frame_count = n\<rparr> b in (Inr out, b'))"
  by (simp add: pb_push_def)

section \<open>Sequences of pushes\<close>

definition pb_push_all ::
  "ReceiverAudioPacket list \<Rightarrow> ReceiverStreamConfig \<Rightarrow> ReceiverPacketBuffer \<Rightarrow> ReceiverPacketBuffer" where
  "pb_push_all ps stream b = fold (\<lambda>p b. snd (pb_push p stream b)) ps b"

definition well_sized :: "ReceiverStreamConfig \<Rightarrow> ReceiverAudioPacket \<Rightarrow> bool" where
  "well_sized stream p \<longleftrightarrow> (case frame_count p stream of Inl _ \<Rightarrow> False | Inr _ \<Rightarrow> True)"

definition buffered :: "ReceiverStreamConfig \<Rightarrow> ReceiverAudioPacket \<Rightarrow> BufferedPacket" where
  "buffered stream p =
     \<lparr>bp_packet = p, bp_frame_count = (case frame_count p stream of Inl _ \<Rightarrow> 0 | Inr n \<Rightarrow> n)\<rparr>"

lemma buffered_packet [simp]: "bp_packet (buffered stream p) = p"
  by (simp add: buffered_def)

lemma pb_push_well_sized:
  "well_sized stream p \<Longrightarrow> snd (pb_push p stream b) = snd (pb_enqueue (buffered stream p) b)"
  by (auto simp: well_sized_def buffered_def pb_push_def case_prod_beta split: sum.splits)

lemma pb_push_all_enqueue:
  "\<forall>p \<in> set ps. well_sized stream p \<Longrightarrow>
   pb_push_all ps stream b = fold (\<lambda>bp b. snd (pb_enqueue bp b)) (map (buffered stream) ps) b"
  by (induction ps arbitrary: b) (simp_all add: pb_push_all_def pb_push_well_sized)

lemma pb_push_all_inv: "pb_inv b \<Longrightarrow> pb_inv (pb_push_all ps stream b)"
  unfolding pb_push_all_def by (induction ps arbitrary: b) (simp_all add: pb_push_inv)

lemma pb_push_all_frame:
  assumes "\<forall>p \<in> set ps. well_sized stream p"
  shows "pb_max_packets (pb_push_all ps stream b) = pb_max_packets b"
    "pb_start_threshold_packets (pb_push_all ps stream b) = pb_start_threshold_packets b"
    "pb_sample_rate_hz (pb_push_all ps stream b) = pb_sample_rate_hz b"
    "pb_target_buffer_ms (pb_push_all ps stream b) = pb_target_buffer_ms b"
  using assms unfolding pb_push_all_def
  by (induction ps arbitrary: b) (simp_all add: pb_push_well_sized)

lemma pb_push_all_packets:
  assumes "pb_inv b" "\<forall>p \<in> set ps. well_sized stream p"
  shows "pb_packets (pb_push_all ps stream b) =
     drop (length (pb_packets b) + length ps - pb_max_packets b)
       (pb_packets b @ map (buffered stream) ps)"
  using pbq.items_fold [OF assms(1), of "map (buffered stream) ps"]
  by (simp add: pb_push_all_enqueue assms(2))

lemma frames_of_uniform:
  "\<forall>p \<in> set ps. unat (bp_frame_count p) = n \<Longrightarrow> frames_of ps = length ps * n"
  by (induction ps) simp_all

text \<open>The queued audio in milliseconds, over nat: rounded down, capped at \<open>u32::MAX\<close>.\<close>

lemma unat_queued_audio_ms:
  "unat (pb_queued_audio_ms b) =
     (if pb_sample_rate_hz b = 0 then 0
      else min (min (unat (pb_queued_frames b) * 1000) (2 ^ 64 - 1) div unat (pb_sample_rate_hz b))
               (2 ^ 32 - 1))"
proof -
  have cast: "unat (ucast (min x (ucast (- 1 :: u32))) :: u32) = min (unat x) (2 ^ 32 - 1)" for x :: u64
  proof -
    have "unat (ucast (- 1 :: u32) :: u64) = 2 ^ 32 - 1" by (simp add: unat_max_word)
    then have "unat (min x (ucast (- 1 :: u32))) = min (unat x) (2 ^ 32 - 1)"
      by (simp add: min_def word_le_nat_alt)
    then show ?thesis by (simp add: unsigned_ucast_eq take_bit_eq_mod)
  qed
  show ?thesis
    by (auto simp: pb_queued_audio_ms_def cast unat_div_distrib unat_sat_mul)
qed

lemma ready_of_frames:
  assumes inv: "pb_inv b" and "pb_sample_rate_hz b \<noteq> 0"
    and len: "pb_start_threshold_packets b \<le> length (pb_packets b)"
    and target: "0 < unat (pb_target_buffer_ms b)"
  shows "pb_is_ready b \<longleftrightarrow>
     unat (pb_target_buffer_ms b) * unat (pb_sample_rate_hz b) \<le> frames_of (pb_packets b) * 1000"
proof -
  let ?r = "unat (pb_sample_rate_hz b)" and ?t = "unat (pb_target_buffer_ms b)"
    and ?f = "frames_of (pb_packets b)"
  have r: "0 < ?r" using assms(2) by (simp add: unat_gt_0)
  have bounds: "?t < 2 ^ LENGTH(32)" "?r < 2 ^ LENGTH(32)" by (rule unsigned_less)+
  then have tr: "?t * ?r \<le> (2 ^ 32 - 1) * (2 ^ 32 - 1)" by (intro mult_mono) auto
  have "max (pb_target_buffer_ms b) 1 = pb_target_buffer_ms b"
    using target by (intro max_absorb1) (simp add: word_le_nat_alt)
  then have "pb_is_ready b \<longleftrightarrow> ?t \<le> unat (pb_queued_audio_ms b)"
    using len by (simp add: pb_is_ready_def word_le_nat_alt)
  also have "unat (pb_queued_audio_ms b) = min (min (?f * 1000) (2 ^ 64 - 1) div ?r) (2 ^ 32 - 1)"
    using assms(2) inv by (simp add: unat_queued_audio_ms pb_inv_def)
  also have "?t \<le> min (min (?f * 1000) (2 ^ 64 - 1) div ?r) (2 ^ 32 - 1)
      \<longleftrightarrow> ?t \<le> min (?f * 1000) (2 ^ 64 - 1) div ?r"
    using bounds by simp
  also have "\<dots> \<longleftrightarrow> ?t * ?r \<le> min (?f * 1000) (2 ^ 64 - 1)"
    using r by (simp add: less_eq_div_iff_mult_less_eq)
  also have "\<dots> \<longleftrightarrow> ?t * ?r \<le> ?f * 1000"
    using tr by simp
  finally show ?thesis .
qed

lemma frame_count_nominal:
  assumes "length (pkt_payload p) = unat n * bytes_per_frame c" "bytes_per_frame c \<noteq> 0"
  shows "frame_count p c = Inr n"
  using assms by (simp add: frame_count_def Let_def)

lemma uniform_packets:
  fixes n :: u32
  assumes "bytes_per_frame c \<noteq> 0"
    and "\<forall>p \<in> set ps. length (pkt_payload p) = unat n * bytes_per_frame c"
  shows "\<forall>p \<in> set ps. well_sized c p"
    and "\<forall>q \<in> set (drop d (map (buffered c) ps)). unat (bp_frame_count q) = unat n"
proof -
  have fc: "\<forall>p \<in> set ps. frame_count p c = Inr n"
    using assms by (simp add: frame_count_nominal)
  then show "\<forall>p \<in> set ps. well_sized c p" by (simp add: well_sized_def)
  show "\<forall>q \<in> set (drop d (map (buffered c) ps)). unat (bp_frame_count q) = unat n"
    using fc by (auto simp: buffered_def drop_map dest!: in_set_dropD)
qed

lemma uniform_frames_queued:
  fixes n :: u32
  assumes "bytes_per_frame c \<noteq> 0" "pb_inv b" "pb_packets b = []"
    and "\<forall>p \<in> set ps. length (pkt_payload p) = unat n * bytes_per_frame c"
  shows "length (pb_packets (pb_push_all ps c b)) = min (length ps) (pb_max_packets b)"
    and "frames_of (pb_packets (pb_push_all ps c b)) = min (length ps) (pb_max_packets b) * unat n"
proof -
  note u = uniform_packets [OF assms(1,4)]
  have ps: "pb_packets (pb_push_all ps c b) =
      drop (length ps - pb_max_packets b) (map (buffered c) ps)"
    using pb_push_all_packets [OF assms(2) u(1)] assms(3) by simp
  show "length (pb_packets (pb_push_all ps c b)) = min (length ps) (pb_max_packets b)"
    by (simp add: ps min_def)
  then show "frames_of (pb_packets (pb_push_all ps c b)) = min (length ps) (pb_max_packets b) * unat n"
    using frames_of_uniform [OF u(2)] by (metis ps)
qed

lemma pb_new_fields [simp]:
  "pb_sample_rate_hz (pb_new p c) = sc_sample_rate_hz c"
  "pb_target_buffer_ms (pb_new p c) = ucast (lp_target_buffer_ms p)"
  "pb_queued_frames (pb_new p c) = 0"
  by (simp_all add: pb_new_def case_prod_beta)

lemma profile_target_pos: "0 < unat (lp_target_buffer_ms (profile preset))"
  by (cases preset) simp_all

text \<open>Where the packet duration is exact, the start threshold's packets hold the target.\<close>

lemma threshold_frames_cover:
  assumes "sc_sample_rate_hz c \<noteq> 0" "sc_frames_per_packet c \<noteq> 0"
    and exact: "packet_duration c * unat (sc_sample_rate_hz c) = unat (sc_frames_per_packet c) * 10 ^ 9"
    and k: "pb_start_threshold_packets (pb_new (profile preset) c) \<le> k"
  shows "unat (lp_target_buffer_ms (profile preset)) * unat (sc_sample_rate_hz c)
      \<le> k * unat (sc_frames_per_packet c) * 1000"
proof -
  let ?t = "unat (lp_target_buffer_ms (profile preset))" and ?pd = "packet_duration c"
    and ?r = "unat (sc_sample_rate_hz c)" and ?f = "unat (sc_frames_per_packet c)"
  have "0 < ?r" "0 < ?f" using assms(1,2) by (simp_all add: unat_gt_0)
  then have pd: "0 < ?pd" using exact by (cases "?pd") auto
  have "pb_start_threshold_packets (pb_new (profile preset) c)
      = max (packet_count_for_duration (?t * 1000000) ?pd) 1"
    by (simp add: pb_new_def buffer_packet_limits_def Let_def from_millis_u16)
  moreover have "?t * 1000000 < 2 ^ 64 - 1" using profile_max_bound [of preset] by simp
  ultimately have "packet_count_for_duration (?t * 1000000) ?pd * ?pd \<le> k * ?pd"
    and "?t * 1000000 \<le> packet_count_for_duration (?t * 1000000) ?pd * ?pd"
    using packet_count_bounds(1) [OF pd] k by simp_all
  then have "?t * 1000000 \<le> k * ?pd" by linarith
  then have "?t * 1000000 * ?r \<le> k * ?pd * ?r" by (rule mult_le_mono1)
  also have "k * ?pd * ?r = k * (?f * 10 ^ 9)" by (simp only: exact mult.assoc)
  finally show ?thesis by (simp add: ac_simps)
qed

section \<open>Properties\<close>

theorem pb_overflow_keeps_newest:
  assumes "\<forall>p \<in> set ps. well_sized c p"
  shows "map bp_packet (pb_packets (pb_push_all ps c (pb_new (profile preset) c))) =
      drop (length ps - pb_max_packets (pb_new (profile preset) c)) ps
    \<and> unat (pb_queued_frames (pb_push_all ps c (pb_new (profile preset) c))) =
      frames_of (pb_packets (pb_push_all ps c (pb_new (profile preset) c)))"
  using pb_push_all_packets [OF pb_new_inv assms, of preset c]
    pb_push_all_inv [OF pb_new_inv, of ps c preset c]
  by (simp add: drop_map [symmetric] comp_def pb_inv_def)

theorem pb_ready_after_threshold:
  assumes "sc_sample_rate_hz c \<noteq> 0" "sc_frames_per_packet c \<noteq> 0" "bytes_per_frame c \<noteq> 0"
    and exact: "packet_duration c * unat (sc_sample_rate_hz c) = unat (sc_frames_per_packet c) * 10 ^ 9"
    and nominal: "\<forall>p \<in> set ps. length (pkt_payload p) = packet_bytes_hint c"
    and enough: "pb_start_threshold_packets (pb_new (profile preset) c) \<le> length ps"
  shows "pb_is_ready (pb_push_all ps c (pb_new (profile preset) c))"
proof -
  let ?b = "pb_new (profile preset) c" and ?f = "unat (sc_frames_per_packet c)"
  let ?k = "min (length ps) (pb_max_packets ?b)"
  have nom: "\<forall>p \<in> set ps. length (pkt_payload p) = ?f * bytes_per_frame c"
    using nominal by (simp add: packet_bytes_hint_def)
  note inv = pb_new_inv [of preset c]
  have thr: "pb_start_threshold_packets ?b \<le> ?k" using inv enough by (simp add: pb_inv_def)
  note q = uniform_frames_queued [OF assms(3) inv pb_new_empty nom]
  note fr = pb_push_all_frame [OF uniform_packets(1) [OF assms(3) nom], of ?b]
  show ?thesis
    using threshold_frames_cover [OF assms(1,2) exact thr] thr profile_target_pos [of preset] assms(1)
    by (subst ready_of_frames) (simp_all add: fr q pb_push_all_inv inv)
qed

theorem pb_short_packets_never_ready:
  fixes n :: u32
  assumes "sc_sample_rate_hz c \<noteq> 0" "bytes_per_frame c \<noteq> 0"
    and short: "\<forall>p \<in> set ps. length (pkt_payload p) = unat n * bytes_per_frame c"
    and "pb_max_packets (pb_new (profile preset) c) * unat n * 1000
      < unat (lp_target_buffer_ms (profile preset)) * unat (sc_sample_rate_hz c)"
  shows "\<not> pb_is_ready (pb_push_all ps c (pb_new (profile preset) c))"
proof
  let ?b = "pb_new (profile preset) c"
  note inv = pb_new_inv [of preset c]
  note q = uniform_frames_queued [OF assms(2) inv pb_new_empty short]
  note fr = pb_push_all_frame [OF uniform_packets(1) [OF assms(2) short], of ?b]
  assume ready: "pb_is_ready (pb_push_all ps c ?b)"
  then have "unat (lp_target_buffer_ms (profile preset)) * unat (sc_sample_rate_hz c)
      \<le> min (length ps) (pb_max_packets ?b) * unat n * 1000"
    using ready_of_frames [of "pb_push_all ps c ?b"] profile_target_pos [of preset] assms(1)
    by (simp add: pb_is_ready_def fr q pb_push_all_inv inv)
  also have "\<dots> \<le> pb_max_packets ?b * unat n * 1000" by simp
  finally show False using assms(4) by simp
qed


definition silent_packet :: "nat \<Rightarrow> ReceiverAudioPacket" where
  "silent_packet n = \<lparr>pkt_sequence = 0, pkt_captured_at_ms = 0, pkt_captured_at_unix_ms = 0,
     pkt_payload = replicate n 0\<rparr>"

lemma default_bytes_per_frame [simp]: "bytes_per_frame default_stream_config = 4"
  by (simp add: bytes_per_frame_def default_stream_config_def)

lemma default_stream_fields [simp]:
  "sc_sample_rate_hz default_stream_config = 48000"
  "sc_frames_per_packet default_stream_config = 480"
  by (simp_all add: default_stream_config_def)

lemma packet_count_examples:
  "packet_count_for_duration 70000000 10000000 = 7"
  "packet_count_for_duration 210000000 10000000 = 21"
  by (simp_all add: packet_count_for_duration_def div_ceil_nat_def)

lemma balanced_profile_fields:
  "lp_target_buffer_ms (profile Balanced) = 70" "lp_max_buffer_ms (profile Balanced) = 210"
  by simp_all

lemma balanced_packet_limits:
  "buffer_packet_limits (profile Balanced) default_stream_config = (7, 21)"
  by (simp add: buffer_packet_limits_def packet_duration_default from_millis_def
      packet_count_examples)

lemma balanced_limits:
  "pb_start_threshold_packets (pb_new (profile Balanced) default_stream_config) = 7"
  "pb_max_packets (pb_new (profile Balanced) default_stream_config) = 21"
  by (simp_all add: pb_new_def balanced_packet_limits del: profile.simps)

theorem pb_overflow_keeps_newest_witness:
  "map bp_packet (pb_packets (pb_push_all (replicate 30 (silent_packet 1920)) default_stream_config
      (pb_new (profile Balanced) default_stream_config))) = replicate 21 (silent_packet 1920)"
proof -
  have "\<forall>p \<in> set (replicate 30 (silent_packet 1920)). well_sized default_stream_config p"
    by (simp add: well_sized_def frame_count_def silent_packet_def Let_def)
  from pb_overflow_keeps_newest [OF this, of Balanced] show ?thesis
    by (simp add: balanced_limits del: profile.simps)
qed

theorem pb_ready_after_threshold_witness:
  "pb_is_ready (pb_push_all (replicate 7 (silent_packet 1920)) default_stream_config
     (pb_new (profile Balanced) default_stream_config))"
  by (rule pb_ready_after_threshold)
    (simp_all add: packet_duration_default packet_bytes_hint_def silent_packet_def balanced_limits balanced_profile_fields del: profile.simps)

theorem pb_short_packets_never_ready_witness:
  "\<not> pb_is_ready (pb_push_all (replicate 500 (silent_packet 480)) default_stream_config
     (pb_new (profile Balanced) default_stream_config))"
  by (rule pb_short_packets_never_ready [where n = 120])
    (simp_all add: silent_packet_def balanced_limits balanced_profile_fields del: profile.simps)

text \<open>
  The bound is on packets, not on milliseconds: packets longer than the negotiated size fill
  the queue beyond \<open>max_buffer_ms\<close> (here 21 packets of 20 ms against a ceiling of 210 ms).
\<close>

theorem pb_queued_audio_can_exceed_max_buffer_ms:
  "unat (pb_queued_audio_ms (pb_push_all (replicate 21 (silent_packet 3840)) default_stream_config
     (pb_new (profile Balanced) default_stream_config))) = 420
   \<and> unat (pb_max_buffer_ms (pb_new (profile Balanced) default_stream_config)) = 210"
proof -
  let ?b = "pb_new (profile Balanced) default_stream_config"
    and ?ps = "replicate 21 (silent_packet 3840)"
  have size: "\<forall>p \<in> set ?ps. length (pkt_payload p) = unat (960 :: u32) * bytes_per_frame default_stream_config"
    by (simp add: silent_packet_def)
  note q = uniform_frames_queued [OF _ pb_new_inv pb_new_empty size]
    and fr = pb_push_all_frame [OF uniform_packets(1) [OF _ size], of ?b]
  have "unat (pb_queued_frames (pb_push_all ?ps default_stream_config ?b)) = 20160"
    using pb_push_all_inv [OF pb_new_inv, of ?ps default_stream_config Balanced default_stream_config]
      q(2) [of Balanced] by (simp add: pb_inv_def balanced_limits del: profile.simps)
  then have "unat (pb_queued_audio_ms (pb_push_all ?ps default_stream_config ?b)) = 420"
    by (simp add: unat_queued_audio_ms fr del: profile.simps)
  then show ?thesis
    by (simp add: pb_new_def balanced_packet_limits balanced_profile_fields del: profile.simps)
qed

end
