(* ===== verification/Receiver_Worker.thy ===== *)
theory Receiver_Worker
  imports Packet_Buffer
begin

text \<open>
  The receiver's worker thread, \<open>synchrosonic-receiver/src/service.rs\<close>: its state, one
  function per handler, and the command loop. What the thread reads from outside is a record
  of functions over an environment state \<open>'w\<close>: the monotonic clock (\<open>Instant::now\<close>) and the
  \<open>PlaybackEngine\<close>/\<open>PlaybackSink\<close> trait objects it was given, whose sinks have type \<open>'s\<close>.
  An \<open>Instant\<close> is a number of nanoseconds. The shared snapshot mutex is never poisoned, so
  the \<open>if let Ok\<close> of \<open>sync_snapshot\<close> is taken.
\<close>

section \<open>Environment and state\<close>

record PlaybackStartRequest =
  req_stream :: ReceiverStreamConfig
  req_target_id :: "string option"
  req_latency_ms :: u16

record ('w, 's) playback_env =
  ev_now :: "'w \<Rightarrow> instant \<times> 'w"
  ev_start_stream :: "PlaybackStartRequest \<Rightarrow> 'w \<Rightarrow> (AudioError + 's) \<times> 'w"
  ev_write :: "bytes \<Rightarrow> 's \<Rightarrow> 'w \<Rightarrow> (AudioError + unit) \<times> 's \<times> 'w"
  ev_stop :: "'s \<Rightarrow> 'w \<Rightarrow> (AudioError + unit) \<times> 'w"

record SyncClock =
  clk_anchor_local_instant :: instant
  clk_anchor_sender_timestamp_ms :: u64

definition clock_write_deadline :: "SyncClock \<Rightarrow> u64 \<Rightarrow> u16 \<Rightarrow> instant" where
  "clock_write_deadline c sender_timestamp_ms target_buffer_ms =
     (let sender_offset_ms = sat_sub sender_timestamp_ms (clk_anchor_sender_timestamp_ms c)
      in clk_anchor_local_instant c + from_millis (sat_add sender_offset_ms (ucast target_buffer_ms)))"

record 's ReceiverWorker =
  w_config :: ReceiverConfig
  w_sink :: "'s option"
  w_buffer :: ReceiverPacketBuffer
  w_profile :: ReceiverLatencyProfile
  w_snapshot :: ReceiverSnapshot
  w_metrics :: ReceiverMetrics
  w_sync :: ReceiverSyncSnapshot
  w_clock :: "SyncClock option"
  w_connection :: "ReceiverConnectionInfo option"
  w_state :: ReceiverServiceState
  w_next_deadline :: "instant option"
  w_last_activity :: "instant option"
  w_last_error :: "string option"

datatype ReceiverCommand =
  Transport ReceiverTransportEvent
| SetPlaybackTarget "string option"
| Shutdown

text \<open>The outcome of one \<open>command_rx.recv_timeout\<close>.\<close>

datatype recv_outcome = Received ReceiverCommand | Timeout | ChannelDisconnected

section \<open>Small operations\<close>

definition sync_snapshot :: "'s ReceiverWorker \<Rightarrow> 's ReceiverWorker" where
  "sync_snapshot w =
     (let buffer = pb_snapshot (w_buffer w) in
      w\<lparr>w_snapshot := (w_snapshot w)
         \<lparr>rsn_state := w_state w, rsn_connection := w_connection w, rsn_buffer := buffer,
          rsn_sync := w_sync w,
          rsn_metrics := (w_metrics w)\<lparr>rm_buffer_fill_percent := fill_percent buffer\<rparr>,
          rsn_last_error := w_last_error w\<rparr>\<rparr>)"

definition worker_new :: "ReceiverConfig \<Rightarrow> ReceiverSnapshot \<Rightarrow> 's ReceiverWorker" where
  "worker_new config snapshot =
     (let p = profile (rc_latency_preset config) in
      sync_snapshot
        \<lparr>w_config = config, w_sink = None, w_buffer = pb_new p default_stream_config,
         w_profile = p, w_snapshot = snapshot, w_metrics = default_metrics,
         w_sync = sync_from_profile p, w_clock = None, w_connection = None,
         w_state = Listening, w_next_deadline = None, w_last_activity = None,
         w_last_error = None\<rparr>)"

definition write_deadline_for :: "u64 \<Rightarrow> 's ReceiverWorker \<Rightarrow> instant option" where
  "write_deadline_for ts w =
     map_option (\<lambda>c. clock_write_deadline c ts (lp_target_buffer_ms (w_profile w))) (w_clock w)"

definition refresh_sync_buffer_metrics :: "'s ReceiverWorker \<Rightarrow> 's ReceiverWorker" where
  "refresh_sync_buffer_metrics w =
     (let q = bs_queued_audio_ms (pb_snapshot (w_buffer w)) in
      w\<lparr>w_sync := (w_sync w)
         \<lparr>sy_queued_audio_ms := q,
          sy_buffer_delta_ms :=
            wrap_i32 (wrap_i32 (uint q) - uint (sy_target_buffer_ms (w_sync w)))\<rparr>\<rparr>)"

definition reset_sync_timeline :: "bool \<Rightarrow> 's ReceiverWorker \<Rightarrow> 's ReceiverWorker" where
  "reset_sync_timeline count_reset w =
     w\<lparr>w_clock := None, w_next_deadline := None,
       w_sync := (w_sync w)
         \<lparr>sy_schedule_error_ms := 0, sy_last_sender_timestamp_ms := None,
          sy_last_sender_capture_unix_ms := None,
          sy_sync_resets := (if count_reset then sy_sync_resets (w_sync w) + 1
                             else sy_sync_resets (w_sync w))\<rparr>\<rparr>"

definition signed_instant_delta_ms :: "instant \<Rightarrow> instant \<Rightarrow> int" where
  "signed_instant_delta_ms left right =
     (if right \<le> left then int (min (as_millis (left - right)) (2 ^ 31 - 1))
      else - int (min (as_millis (right - left)) (2 ^ 31 - 1)))"

definition set_state :: "ReceiverServiceState \<Rightarrow> 's ReceiverWorker \<Rightarrow> 's ReceiverWorker" where
  "set_state s w = w\<lparr>w_state := s\<rparr>"

definition set_sync_state :: "ReceiverSyncState \<Rightarrow> 's ReceiverWorker \<Rightarrow> 's ReceiverWorker" where
  "set_sync_state s w = w\<lparr>w_sync := (w_sync w)\<lparr>sy_state := s\<rparr>\<rparr>"

definition set_fill :: "'s ReceiverWorker \<Rightarrow> 's ReceiverWorker" where
  "set_fill w = w\<lparr>w_metrics := (w_metrics w)
     \<lparr>rm_buffer_fill_percent := fill_percent (pb_snapshot (w_buffer w))\<rparr>\<rparr>"

definition stop_playback_sink ::
  "('w, 's) playback_env \<Rightarrow> 's ReceiverWorker \<Rightarrow> 'w \<Rightarrow> 's ReceiverWorker \<times> 'w" where
  "stop_playback_sink env w e =
     (case w_sink w of
        None \<Rightarrow> (w, e)
      | Some sink \<Rightarrow>
          (case ev_stop env sink e of
             (Inl err, e') \<Rightarrow>
               (w\<lparr>w_sink := None, w_last_error := Some (show_audio_error err)\<rparr>, e')
           | (Inr _, e') \<Rightarrow> (w\<lparr>w_sink := None\<rparr>, e')))"

definition set_error ::
  "('w, 's) playback_env \<Rightarrow> string \<Rightarrow> 's ReceiverWorker \<Rightarrow> 'w \<Rightarrow> 's ReceiverWorker \<times> 'w" where
  "set_error env message w e =
     (let (w1, e1) = stop_playback_sink env w e;
          w2 = reset_sync_timeline False
                 (w1\<lparr>w_connection := None, w_buffer := pb_clear (w_buffer w1)\<rparr>)
      in (w2\<lparr>w_sync := (sync_from_profile (w_profile w2))\<lparr>sy_state := ReceiverSyncState.Recovering\<rparr>,
             w_last_activity := None, w_state := ReceiverServiceState.Error,
             w_last_error := Some message,
             w_metrics := (w_metrics w2)\<lparr>rm_buffer_fill_percent := 0\<rparr>\<rparr>, e1))"

definition handle_disconnect ::
  "('w, 's) playback_env \<Rightarrow> string \<Rightarrow> bool \<Rightarrow> 's ReceiverWorker \<Rightarrow> 'w \<Rightarrow> 's ReceiverWorker \<times> 'w" where
  "handle_disconnect env reason reconnect_suggested w e =
     (let w0 = (if reconnect_suggested
                then w\<lparr>w_metrics := (w_metrics w)
                       \<lparr>rm_reconnect_attempts := rm_reconnect_attempts (w_metrics w) + 1\<rparr>\<rparr>
                else w);
          (w1, e1) = stop_playback_sink env w0 e;
          w2 = reset_sync_timeline False
                 (w1\<lparr>w_connection := None, w_buffer := pb_clear (w_buffer w1)\<rparr>)
      in (w2\<lparr>w_sync := sync_from_profile (w_profile w2), w_last_activity := None,
             w_state := Listening,
             w_metrics := (w_metrics w2)\<lparr>rm_buffer_fill_percent := 0\<rparr>,
             w_last_error := (if reconnect_suggested then Some reason else None)\<rparr>, e1))"

section \<open>Handlers\<close>

definition handle_connect ::
  "('w, 's) playback_env \<Rightarrow> ReceiverConnectionInfo \<Rightarrow> 's ReceiverWorker \<Rightarrow> 'w
    \<Rightarrow> 's ReceiverWorker \<times> 'w" where
  "handle_connect env connection w e =
     (let (w1, e1) = stop_playback_sink env w e;
          w2 = reset_sync_timeline False
                 (w1\<lparr>w_buffer := pb_new (w_profile w1) (ci_stream connection)\<rparr>);
          w3 = w2\<lparr>w_sync := (sync_from_profile (w_profile w2))
                 \<lparr>sy_state := Priming,
                  sy_requested_latency_ms := Some (ci_requested_latency_ms connection)\<rparr>\<rparr>;
          request = \<lparr>req_stream = ci_stream connection,
                     req_target_id = rc_playback_target_id (w_config w3),
                     req_latency_ms = lp_playback_latency_ms (w_profile w3)\<rparr>
      in case ev_start_stream env request e1 of
           (Inr sink, e2) \<Rightarrow>
             (let (now, e3) = ev_now env e2
              in (w3\<lparr>w_sink := Some sink, w_connection := Some connection,
                     w_state := ReceiverServiceState.Connected,
                     w_last_activity := Some now, w_last_error := None\<rparr>, e3))
         | (Inl err, e2) \<Rightarrow>
             set_error env (show_audio_error err) (w3\<lparr>w_connection := None\<rparr>) e2)"

text \<open>
  \<open>handle_packet\<close> in three parts: the clock is anchored on the first packet; an accepted
  packet is counted; the state follows from the buffer's readiness.
\<close>

definition anchored ::
  "ReceiverAudioPacket \<Rightarrow> instant \<Rightarrow> 's ReceiverWorker \<Rightarrow> 's ReceiverWorker" where
  "anchored packet now w =
     (let w1 = (if w_clock w = None
                then w\<lparr>w_clock := Some
                         \<lparr>clk_anchor_local_instant = now,
                          clk_anchor_sender_timestamp_ms = pkt_captured_at_ms packet\<rparr>\<rparr>
                else w)
      in w1\<lparr>w_sync := (w_sync w1)
         \<lparr>sy_last_sender_timestamp_ms := Some (pkt_captured_at_ms packet),
          sy_last_sender_capture_unix_ms := Some (pkt_captured_at_unix_ms packet)\<rparr>\<rparr>)"

definition stored ::
  "ReceiverAudioPacket \<Rightarrow> u32 \<Rightarrow> instant \<Rightarrow> BufferPushOutcome \<Rightarrow> ReceiverPacketBuffer
    \<Rightarrow> 's ReceiverWorker \<Rightarrow> 's ReceiverWorker" where
  "stored packet n now outcome b w =
     refresh_sync_buffer_metrics (w\<lparr>w_buffer := b,
       w_metrics := (w_metrics w)
         \<lparr>rm_overruns := (case outcome of DroppedOldest _ \<Rightarrow> rm_overruns (w_metrics w) + 1
                                        | Accepted \<Rightarrow> rm_overruns (w_metrics w)),
          rm_packets_received := rm_packets_received (w_metrics w) + 1,
          rm_frames_received := rm_frames_received (w_metrics w) + ucast n,
          rm_bytes_received := rm_bytes_received (w_metrics w) + of_nat (length (pkt_payload packet)),
          rm_buffer_fill_percent := fill_percent (pb_snapshot b)\<rparr>,
       w_last_activity := Some now\<rparr>)"

definition after_push :: "'s ReceiverWorker \<Rightarrow> 's ReceiverWorker" where
  "after_push w =
     (if pb_is_ready (w_buffer w) then
        (let w5 = (if w_state w \<noteq> Playing then set_state Buffering w else w);
             w6 = (if w_next_deadline w5 = None
                   then w5\<lparr>w_next_deadline := Option.bind (pb_front (w_buffer w5))
                            (\<lambda>front. write_deadline_for (pkt_captured_at_ms (bp_packet front)) w5)\<rparr>
                   else w5)
         in if sy_state (w_sync w6) \<in> {ReceiverSyncState.Idle, Priming, ReceiverSyncState.Recovering}
            then set_sync_state Priming w6 else w6)
      else if w_state w \<in> {ReceiverServiceState.Connected, Buffering} then
        (let w5 = set_state Buffering w
         in if sy_state (w_sync w5) \<noteq> ReceiverSyncState.Recovering
            then set_sync_state Priming w5 else w5)
      else w)"

definition handle_packet ::
  "('w, 's) playback_env \<Rightarrow> ReceiverAudioPacket \<Rightarrow> 's ReceiverWorker \<Rightarrow> 'w
    \<Rightarrow> 's ReceiverWorker \<times> 'w" where
  "handle_packet env packet w e =
     (case w_connection w of
        None \<Rightarrow> (w, e)
      | Some connection \<Rightarrow>
          (let (received_at, e1) = ev_now env e;
               w1 = anchored packet received_at w
           in case frame_count packet (ci_stream connection) of
                Inl msg \<Rightarrow> set_error env msg w1 e1
              | Inr n \<Rightarrow>
                  (case pb_push packet (ci_stream connection) (w_buffer w1) of
                     (Inl err, b) \<Rightarrow> set_error env (show_receiver_error err) (w1\<lparr>w_buffer := b\<rparr>) e1
                   | (Inr outcome, b) \<Rightarrow>
                       (after_push (stored packet n received_at outcome b w1), e1))))"

definition handle_transport_event ::
  "('w, 's) playback_env \<Rightarrow> ReceiverTransportEvent \<Rightarrow> 's ReceiverWorker \<Rightarrow> 'w
    \<Rightarrow> 's ReceiverWorker \<times> 'w" where
  "handle_transport_event env event w e =
     (let (w1, e1) =
        (case event of
           Connected connection \<Rightarrow> handle_connect env connection w e
         | AudioPacket packet \<Rightarrow> handle_packet env packet w e
         | KeepAlive \<Rightarrow>
             (let (now, e1) = ev_now env e in (w\<lparr>w_last_activity := Some now\<rparr>, e1))
         | Disconnected reason reconnect_suggested \<Rightarrow>
             handle_disconnect env reason reconnect_suggested w e
         | Error message \<Rightarrow> set_error env message w e)
      in (sync_snapshot w1, e1))"

definition handle_playback_target_change ::
  "('w, 's) playback_env \<Rightarrow> string option \<Rightarrow> 's ReceiverWorker \<Rightarrow> 'w
    \<Rightarrow> 's ReceiverWorker \<times> 'w" where
  "handle_playback_target_change env target_id w e =
     (let w1 = w\<lparr>w_config := (w_config w)\<lparr>rc_playback_target_id := target_id\<rparr>,
                 w_last_error := None\<rparr>;
          w2 = (if w_state w1 = ReceiverServiceState.Error \<and> w_connection w1 = None
                then set_state Listening w1 else w1);
          (w3, e3) =
            (case w_connection w2 of
               None \<Rightarrow> (w2, e)
             | Some connection \<Rightarrow>
                 (case ev_start_stream env
                         \<lparr>req_stream = ci_stream connection,
                          req_target_id = rc_playback_target_id (w_config w2),
                          req_latency_ms = lp_playback_latency_ms (w_profile w2)\<rparr> e of
                    (Inr new_sink, e1) \<Rightarrow>
                      (let (w4, e4) = stop_playback_sink env w2 e1;
                           w5 = w4\<lparr>w_sink := Some new_sink\<rparr>
                       in (if w_state w5 = ReceiverServiceState.Connected
                           then set_state Buffering w5 else w5, e4))
                  | (Inl err, e1) \<Rightarrow>
                      (w2\<lparr>w_last_error := Some (show_audio_error err)\<rparr>, e1)))
      in (sync_snapshot w3, e3))"

text \<open>
  The body of the drain loop; the boolean tells whether the loop goes round again (it does
  after a \<open>continue\<close> and at the end of the body, not after \<open>break\<close> or \<open>return\<close>).
  \<open>pop\<close> after \<open>front\<close> cannot fail (\<open>expect\<close> in the source).
\<close>

definition drain_body ::
  "('w, 's) playback_env \<Rightarrow> 's ReceiverWorker \<Rightarrow> 'w \<Rightarrow> bool \<times> 's ReceiverWorker \<times> 'w" where
  "drain_body env w e =
     (case pb_front (w_buffer w) of
        None \<Rightarrow>
          (if w_state w = Playing then
             (let w1 = w\<lparr>w_metrics := (w_metrics w)
                        \<lparr>rm_underruns := rm_underruns (w_metrics w) + 1\<rparr>,
                        w_state := Buffering\<rparr>
              in (False, set_sync_state ReceiverSyncState.Recovering
                    (reset_sync_timeline True (set_fill w1)), e))
           else (False, w, e))
      | Some front \<Rightarrow>
          (case write_deadline_for (pkt_captured_at_ms (bp_packet front)) w of
             None \<Rightarrow> (False, w, e)
           | Some deadline \<Rightarrow>
               (let (now, e1) = ev_now env e;
                    err_ms = signed_instant_delta_ms now deadline;
                    w1 = w\<lparr>w_next_deadline := Some deadline,
                           w_sync := (w_sync w)\<lparr>sy_schedule_error_ms := err_ms\<rparr>\<rparr>
                in if err_ms > uint (lp_late_packet_drop_ms (w_profile w1)) then
                     (case pb_pop (w_buffer w1) of
                        None \<Rightarrow> (False, w1, e1)
                      | Some (dropped, b) \<Rightarrow>
                          (let w2 = w1\<lparr>w_buffer := b,
                                 w_sync := (w_sync w1)
                                   \<lparr>sy_late_packet_drops := sy_late_packet_drops (w_sync w1) + 1,
                                    sy_state := Late\<rparr>\<rparr>;
                               w3 = refresh_sync_buffer_metrics (set_fill w2)
                           in if pb_front (w_buffer w3) = None then
                                (False, set_sync_state ReceiverSyncState.Recovering
                                   (reset_sync_timeline True w3), e1)
                              else (True, w3, e1)))
                   else if now < deadline then
                     (False, if w_state w1 \<noteq> Playing then set_state Buffering w1 else w1, e1)
                   else
                     (case pb_pop (w_buffer w1) of
                        None \<Rightarrow> (False, w1, e1)
                      | Some (packet, b) \<Rightarrow>
                          (let w2 = w1\<lparr>w_buffer := b\<rparr> in
                           case w_sink w2 of
                             None \<Rightarrow>
                               (False, set_error env
                                  ''playback sink disappeared during active stream'' w2 e1)
                           | Some sink \<Rightarrow>
                               (case ev_write env (pkt_payload (bp_packet packet)) sink e1 of
                                  (Inl err, sink', e2) \<Rightarrow>
                                    (False, set_error env (show_audio_error err)
                                       (w2\<lparr>w_sink := Some sink'\<rparr>) e2)
                                | (Inr _, sink', e2) \<Rightarrow>
                                    (let m = w_metrics w2;
                                         w3 = set_fill (w2\<lparr>w_sink := Some sink',
                                           w_metrics := m
                                             \<lparr>rm_packets_played := rm_packets_played m + 1,
                                              rm_frames_played :=
                                                rm_frames_played m + ucast (bp_frame_count packet),
                                              rm_bytes_played := rm_bytes_played m
                                                + of_nat (length (pkt_payload (bp_packet packet)))\<rparr>\<rparr>);
                                         w4 = set_sync_state
                                           (if err_ms > uint (lp_latency_tolerance_ms (w_profile w3))
                                            then Late else Locked) (set_state Playing w3)
                                     in (True, refresh_sync_buffer_metrics
                                                 (w4\<lparr>w_next_deadline := None\<rparr>), e2))))))))"

text \<open>An iteration that goes round again has popped a packet: the queue is the measure.\<close>

lemma drain_body_pops:
  "drain_body env w e = (True, w', e') \<Longrightarrow>
   length (pb_packets (w_buffer w')) < length (pb_packets (w_buffer w))"
  by (auto simp: drain_body_def pb_pop_packets set_fill_def refresh_sync_buffer_metrics_def
      set_sync_state_def set_state_def Let_def split: option.splits prod.splits if_splits sum.splits)

function drain_loop ::
  "('w, 's) playback_env \<Rightarrow> 's ReceiverWorker \<Rightarrow> 'w \<Rightarrow> 's ReceiverWorker \<times> 'w" where
  "drain_loop env w e =
     (case drain_body env w e of
        (True, w', e') \<Rightarrow> drain_loop env w' e'
      | (False, w', e') \<Rightarrow> (w', e'))"
  by pat_completeness auto
termination
  by (relation "measure (\<lambda>(env, w, e). length (pb_packets (w_buffer w)))")
    (auto dest: drain_body_pops [OF sym])

declare drain_loop.simps [simp del]

text \<open>What every iteration keeps, the loop keeps.\<close>

lemma drain_loop_rule:
  assumes "P (w, e)"
    and step: "\<And>w e c w' e'. P (w, e) \<Longrightarrow> drain_body env w e = (c, w', e') \<Longrightarrow> P (w', e')"
  shows "P (drain_loop env w e)"
  using assms(1)
proof (induction "length (pb_packets (w_buffer w))" arbitrary: w e rule: less_induct)
  case less
  obtain c w' e' where body: "drain_body env w e = (c, w', e')"
    by (cases "drain_body env w e") auto
  with less.prems have "P (w', e')" by (rule step)
  then show ?case
    using body less.hyps [OF drain_body_pops] by (cases c) (simp_all add: drain_loop.simps [of env w e])
qed

definition drain_ready_packets ::
  "('w, 's) playback_env \<Rightarrow> 's ReceiverWorker \<Rightarrow> 'w \<Rightarrow> 's ReceiverWorker \<times> 'w" where
  "drain_ready_packets env w e =
     (if w_connection w = None then (w, e)
      else if w_clock w = None then
        (if w_state w = ReceiverServiceState.Connected then set_state Buffering w else w, e)
      else if w_next_deadline w = None \<and> \<not> pb_is_ready (w_buffer w) then
        (let w1 = (if w_state w \<noteq> Playing then set_state Buffering w else w);
             w2 = (if sy_state (w_sync w1) \<noteq> ReceiverSyncState.Recovering
                   then set_sync_state Priming w1 else w1)
         in (w2\<lparr>w_sync := (w_sync w2)\<lparr>sy_schedule_error_ms := 0\<rparr>\<rparr>, e))
      else drain_loop env w e)"

definition check_transport_timeout ::
  "('w, 's) playback_env \<Rightarrow> 's ReceiverWorker \<Rightarrow> 'w \<Rightarrow> 's ReceiverWorker \<times> 'w" where
  "check_transport_timeout env w e =
     (case w_last_activity w of
        None \<Rightarrow> (w, e)
      | Some last_activity \<Rightarrow>
          (if w_connection w = None then (w, e)
           else
             (let (now, e1) = ev_now env e in
              if lp_reconnect_grace_period (w_profile w) \<le> now - last_activity
              then handle_disconnect env ''receiver transport timed out'' True w e1
              else (w, e1))))"

definition on_tick ::
  "('w, 's) playback_env \<Rightarrow> 's ReceiverWorker \<Rightarrow> 'w \<Rightarrow> 's ReceiverWorker \<times> 'w" where
  "on_tick env w e =
     (let (w1, e1) = drain_ready_packets env w e;
          (w2, e2) = check_transport_timeout env w1 e1
      in (sync_snapshot (refresh_sync_buffer_metrics w2), e2))"

definition next_wait_duration ::
  "('w, 's) playback_env \<Rightarrow> 's ReceiverWorker \<Rightarrow> 'w \<Rightarrow> duration \<times> 'w" where
  "next_wait_duration env w e =
     (let (wait1, e1) =
        (case w_next_deadline w of
           None \<Rightarrow> (from_millis 200, e)
         | Some deadline \<Rightarrow>
             (let (now, e1) = ev_now env e in (min (from_millis 200) (deadline - now), e1)));
          (wait2, e2) =
        (case w_last_activity w of
           None \<Rightarrow> (wait1, e1)
         | Some last_activity \<Rightarrow>
             (let (now, e2) = ev_now env e1 in
              (min wait1 (lp_reconnect_grace_period (w_profile w) - (now - last_activity)), e2)))
      in (max wait2 (from_millis 5), e2))"

definition worker_shutdown ::
  "('w, 's) playback_env \<Rightarrow> 's ReceiverWorker \<Rightarrow> 'w \<Rightarrow> 's ReceiverWorker \<times> 'w" where
  "worker_shutdown env w e =
     (let (w1, e1) = stop_playback_sink env w e;
          w2 = w1\<lparr>w_buffer := pb_clear (w_buffer w1), w_connection := None,
                  w_state := ReceiverServiceState.Idle,
                  w_metrics := (w_metrics w1)\<lparr>rm_buffer_fill_percent := 0\<rparr>\<rparr>;
          w3 = reset_sync_timeline False w2
      in (sync_snapshot (w3\<lparr>w_sync := sync_from_profile (w_profile w3)\<rparr>), e1))"

text \<open>
  One iteration of \<open>receiver_worker_loop\<close>: the wait duration is computed (which reads the
  clock), \<open>recv_timeout\<close> yields an outcome, and the command is dispatched. The boolean tells
  whether the loop goes on; the last argument of the run is the sequence of outcomes.
\<close>

definition worker_step ::
  "('w, 's) playback_env \<Rightarrow> recv_outcome \<Rightarrow> 's ReceiverWorker \<Rightarrow> 'w
    \<Rightarrow> bool \<times> 's ReceiverWorker \<times> 'w" where
  "worker_step env outcome w e =
     (let (_, e1) = next_wait_duration env w e in
      case outcome of
        Received (Transport event) \<Rightarrow> (True, handle_transport_event env event w e1)
      | Received (SetPlaybackTarget target_id) \<Rightarrow>
          (True, handle_playback_target_change env target_id w e1)
      | Received Shutdown \<Rightarrow> (False, worker_shutdown env w e1)
      | Timeout \<Rightarrow> (True, on_tick env w e1)
      | ChannelDisconnected \<Rightarrow> (False, worker_shutdown env w e1))"

fun worker_run ::
  "('w, 's) playback_env \<Rightarrow> recv_outcome list \<Rightarrow> 's ReceiverWorker \<Rightarrow> 'w
    \<Rightarrow> bool \<times> 's ReceiverWorker \<times> 'w" where
  "worker_run env [] w e = (True, w, e)"
| "worker_run env (r # rs) w e =
     (case worker_step env r w e of
        (True, w', e') \<Rightarrow> worker_run env rs w' e'
      | (False, w', e') \<Rightarrow> (False, w', e'))"

end
