(* ===== verification/Steps.thy ===== *)
theory Steps
  imports Main
begin

text \<open>
  The contract of a component with an invariant: the initial states satisfy it and every
  step keeps it. What the client gets is the invariant in every state a sequence of steps
  reaches, and the same for a fold of labelled operations.
\<close>

locale invariant_system =
  fixes init :: "'s \<Rightarrow> bool"
    and step :: "'s \<Rightarrow> 's \<Rightarrow> bool"
    and inv :: "'s \<Rightarrow> bool"
  assumes inv_init: "init s \<Longrightarrow> inv s"
    and inv_step: "inv s \<Longrightarrow> step s t \<Longrightarrow> inv t"
begin

lemma inv_steps: "step\<^sup>*\<^sup>* s t \<Longrightarrow> inv s \<Longrightarrow> inv t"
  by (induction rule: rtranclp_induct) (auto intro: inv_step)

lemma inv_reachable: "init s \<Longrightarrow> step\<^sup>*\<^sup>* s t \<Longrightarrow> inv t"
  by (blast intro: inv_steps inv_init)

text \<open>A state outside the invariant is never reached.\<close>

lemma unreachable: "init s \<Longrightarrow> \<not> inv t \<Longrightarrow> \<not> step\<^sup>*\<^sup>* s t"
  by (blast intro: inv_reachable)

end

text \<open>A labelled system whose operations are functions: \<open>fold\<close> of the operations is a run.\<close>

locale labelled_system =
  fixes next_of :: "'l \<Rightarrow> 's \<Rightarrow> 's"
    and good :: "'s \<Rightarrow> bool"
  assumes good_next: "good s \<Longrightarrow> good (next_of l s)"
begin

lemma good_fold: "good s \<Longrightarrow> good (fold next_of ls s)"
  by (induction ls arbitrary: s) (simp_all add: good_next)

end

sublocale labelled_system \<subseteq> inv: invariant_system good "\<lambda>s t. \<exists>l. t = next_of l s" good
  by unfold_locales (auto simp: good_next)

end
