(* ===== verification/Receiver_Invariant.thy ===== *)
theory Receiver_Invariant
  imports Receiver_Worker Steps
begin

text \<open>
  What holds of the receiver's worker in every state it can reach, whatever the playback
  engine and the clock answer: the invariant over its fourteen fields and its preservation by
  every handler of \<open>service.rs\<close>.
\<close>

section \<open>The invariant\<close>

definition live_states :: "ReceiverServiceState set" where
  "live_states = {ReceiverServiceState.Connected, Buffering, Playing}"

definition worker_inv :: "'s ReceiverWorker \<Rightarrow> bool" where
  "worker_inv w \<longleftrightarrow>
     pb_inv (w_buffer w)
     \<and> (\<exists>preset. w_profile w = profile preset)
     \<and> (w_connection w = None \<longleftrightarrow> w_sink w = None)
     \<and> (w_connection w = None \<longleftrightarrow> w_state w \<notin> live_states)
     \<and> (w_connection w = None \<longrightarrow> w_clock w = None)
     \<and> (w_clock w = None \<longrightarrow> pb_packets (w_buffer w) = [] \<and> w_next_deadline w = None)"

text \<open>The worker without the fields the invariant does not read.\<close>

lemmas worker_setters =
  set_state_def set_sync_state_def set_fill_def refresh_sync_buffer_metrics_def
  reset_sync_timeline_def sync_snapshot_def

lemma set_state_fields [simp]:
  "w_connection (set_state s w) = w_connection w" "w_buffer (set_state s w) = w_buffer w"
  "w_clock (set_state s w) = w_clock w" "w_profile (set_state s w) = w_profile w"
  "w_sink (set_state s w) = w_sink w" "w_state (set_state s w) = s"
  "w_metrics (set_state s w) = w_metrics w" "w_sync (set_state s w) = w_sync w"
  "w_next_deadline (set_state s w) = w_next_deadline w"
  "w_config (set_state s w) = w_config w" "w_last_activity (set_state s w) = w_last_activity w"
  by (simp_all add: set_state_def)

lemma set_sync_state_fields [simp]:
  "w_connection (set_sync_state y w) = w_connection w" "w_buffer (set_sync_state y w) = w_buffer w"
  "w_clock (set_sync_state y w) = w_clock w" "w_profile (set_sync_state y w) = w_profile w"
  "w_sink (set_sync_state y w) = w_sink w" "w_state (set_sync_state y w) = w_state w"
  "w_metrics (set_sync_state y w) = w_metrics w"
  "w_next_deadline (set_sync_state y w) = w_next_deadline w"
  "w_config (set_sync_state y w) = w_config w"
  "w_last_activity (set_sync_state y w) = w_last_activity w"
  by (simp_all add: set_sync_state_def)

lemma live_states_simps [simp]:
  "ReceiverServiceState.Connected \<in> live_states" "Buffering \<in> live_states"
  "Playing \<in> live_states" "Listening \<notin> live_states"
  "ReceiverServiceState.Idle \<notin> live_states" "ReceiverServiceState.Error \<notin> live_states"
  by (simp_all add: live_states_def)

lemma worker_inv_irrelevant [simp]:
  "worker_inv (sync_snapshot w) = worker_inv w"
  "worker_inv (set_sync_state y w) = worker_inv w"
  "worker_inv (set_fill w) = worker_inv w"
  "worker_inv (refresh_sync_buffer_metrics w) = worker_inv w"
  "worker_inv (w_sync_update f w) = worker_inv w"
  "worker_inv (w_metrics_update g w) = worker_inv w"
  "worker_inv (w_last_error_update h w) = worker_inv w"
  "worker_inv (w_last_activity_update k w) = worker_inv w"
  "worker_inv (w_config_update l w) = worker_inv w"
  by (simp_all add: worker_inv_def worker_setters Let_def)

lemma worker_inv_set_live:
  "worker_inv w \<Longrightarrow> w_connection w \<noteq> None \<Longrightarrow> s \<in> live_states \<Longrightarrow> worker_inv (set_state s w)"
  by (auto simp: worker_inv_def set_state_def)

lemma worker_inv_deadline:
  "worker_inv w \<Longrightarrow> w_clock w \<noteq> None \<Longrightarrow> worker_inv (w\<lparr>w_next_deadline := d\<rparr>)"
  by (auto simp: worker_inv_def)

lemma worker_inv_no_deadline: "worker_inv w \<Longrightarrow> worker_inv (w\<lparr>w_next_deadline := None\<rparr>)"
  by (auto simp: worker_inv_def)

lemma worker_inv_sink: "worker_inv w \<Longrightarrow> w_connection w \<noteq> None \<Longrightarrow> worker_inv (w\<lparr>w_sink := Some s\<rparr>)"
  by (auto simp: worker_inv_def)

lemma worker_inv_clock: "worker_inv w \<Longrightarrow> w_connection w \<noteq> None \<Longrightarrow> worker_inv (w\<lparr>w_clock := Some c\<rparr>)"
  by (auto simp: worker_inv_def)

lemma worker_inv_buffer:
  "worker_inv w \<Longrightarrow> pb_inv b \<Longrightarrow> w_clock w \<noteq> None \<Longrightarrow> worker_inv (w\<lparr>w_buffer := b\<rparr>)"
  by (auto simp: worker_inv_def)

lemma worker_inv_reset:
  "worker_inv w \<Longrightarrow> pb_packets (w_buffer w) = [] \<Longrightarrow> worker_inv (reset_sync_timeline c w)"
  by (auto simp: worker_inv_def reset_sync_timeline_def)

lemma worker_inv_connected_clock:
  "worker_inv w \<Longrightarrow> w_clock w = Some c \<Longrightarrow> w_connection w \<noteq> None \<and> w_sink w \<noteq> None"
  by (auto simp: worker_inv_def)

lemma worker_inv_dest:
  assumes "worker_inv w"
  shows "pb_inv (w_buffer w)" "\<exists>preset. w_profile w = profile preset"
    "w_connection w = None \<longleftrightarrow> w_sink w = None"
    "w_connection w = None \<longleftrightarrow> w_state w \<notin> live_states"
    "pb_packets (w_buffer w) \<noteq> [] \<Longrightarrow> w_clock w \<noteq> None"
    "w_clock w = None \<Longrightarrow> w_next_deadline w = None"
  using assms by (auto simp: worker_inv_def)

section \<open>Preservation by the handlers\<close>

lemma stop_playback_sink_fields:
  assumes "stop_playback_sink env w e = (w', e')"
  shows "w_sink w' = None" "w_buffer w' = w_buffer w" "w_profile w' = w_profile w"
    "w_config w' = w_config w" "w_connection w' = w_connection w" "w_state w' = w_state w"
    "w_clock w' = w_clock w" "w_metrics w' = w_metrics w" "w_sync w' = w_sync w"
    "w_next_deadline w' = w_next_deadline w" "w_last_activity w' = w_last_activity w"
  using assms by (auto simp: stop_playback_sink_def split: option.splits prod.splits sum.splits)

lemma worker_inv_set_error:
  assumes "pb_inv (w_buffer w)" "w_profile w = profile preset" "set_error env m w e = (w', e')"
  shows "worker_inv w'" "w_state w' = ReceiverServiceState.Error" "w_connection w' = None"
    "w_last_error w' = Some m"
    "w_profile w' = w_profile w" "w_config w' = w_config w" "w_last_activity w' = None"
    "w_metrics w' = (w_metrics w)\<lparr>rm_buffer_fill_percent := 0\<rparr>"
proof -
  obtain w1 e1 where stop: "stop_playback_sink env w e = (w1, e1)" by fastforce
  note f = stop_playback_sink_fields [OF stop]
  show "worker_inv w'" "w_state w' = ReceiverServiceState.Error" "w_connection w' = None"
    "w_last_error w' = Some m" "w_profile w' = w_profile w" "w_config w' = w_config w"
    "w_last_activity w' = None"
    "w_metrics w' = (w_metrics w)\<lparr>rm_buffer_fill_percent := 0\<rparr>"
    using assms f by (auto simp: set_error_def stop worker_inv_def reset_sync_timeline_def pb_clear_inv)
qed

lemma worker_inv_disconnect:
  assumes "worker_inv w" "handle_disconnect env m r w e = (w', e')"
  shows "worker_inv w'" "w_state w' = Listening" "w_connection w' = None" "w_sink w' = None"
    "w_last_activity w' = None" "w_last_error w' = (if r then Some m else None)"
    "w_metrics w' = (w_metrics w)\<lparr>rm_buffer_fill_percent := 0,
       rm_reconnect_attempts := rm_reconnect_attempts (w_metrics w) + (if r then 1 else 0)\<rparr>"
    "w_profile w' = w_profile w" "w_config w' = w_config w"
proof -
  define w0 where "w0 = (if r then w\<lparr>w_metrics := (w_metrics w)
                       \<lparr>rm_reconnect_attempts := rm_reconnect_attempts (w_metrics w) + 1\<rparr>\<rparr> else w)"
  obtain w1 e1 where stop: "stop_playback_sink env w0 e = (w1, e1)" by fastforce
  note f = stop_playback_sink_fields [OF stop]
  have w': "w' = (reset_sync_timeline False (w1\<lparr>w_connection := None, w_buffer := pb_clear (w_buffer w1)\<rparr>))
      \<lparr>w_sync := sync_from_profile (w_profile w1), w_last_activity := None, w_state := Listening,
       w_metrics := (w_metrics w1)\<lparr>rm_buffer_fill_percent := 0\<rparr>,
       w_last_error := (if r then Some m else None)\<rparr>"
    using assms(2) by (simp add: handle_disconnect_def w0_def [symmetric] stop reset_sync_timeline_def)
  have w0: "w_profile w0 = w_profile w" "w_config w0 = w_config w" "w_buffer w0 = w_buffer w"
    "w_metrics w0 = (w_metrics w)\<lparr>rm_reconnect_attempts :=
       rm_reconnect_attempts (w_metrics w) + (if r then 1 else 0)\<rparr>"
    by (simp_all add: w0_def)
  show "worker_inv w'" "w_state w' = Listening" "w_connection w' = None" "w_sink w' = None"
    "w_last_activity w' = None" "w_last_error w' = (if r then Some m else None)"
    "w_metrics w' = (w_metrics w)\<lparr>rm_buffer_fill_percent := 0,
       rm_reconnect_attempts := rm_reconnect_attempts (w_metrics w) + (if r then 1 else 0)\<rparr>"
    "w_profile w' = w_profile w" "w_config w' = w_config w"
    using assms(1) f w0 by (auto simp: w' worker_inv_def reset_sync_timeline_def pb_clear_inv)
qed

lemma worker_inv_connect:
  assumes "worker_inv w" "handle_connect env c w e = (w', e')"
  shows "worker_inv w'"
proof -
  obtain w1 e1 where stop: "stop_playback_sink env w e = (w1, e1)" by fastforce
  note f = stop_playback_sink_fields [OF stop]
  obtain preset where p: "w_profile w = profile preset" using worker_inv_dest(2) [OF assms(1)] ..
  obtain r e2 where start: "ev_start_stream env \<lparr>req_stream = ci_stream c,
      req_target_id = rc_playback_target_id (w_config w),
      req_latency_ms = lp_playback_latency_ms (profile preset)\<rparr> e1 = (r, e2)" by fastforce
  obtain now e3 where now: "ev_now env e2 = (now, e3)" by fastforce
  show ?thesis
  proof (cases r)
    case (Inr sink)
    with assms(2) show ?thesis
      by (auto simp: handle_connect_def stop f start now worker_inv_def reset_sync_timeline_def
          Let_def p pb_new_inv del: profile.simps)
  next
    case (Inl err)
    with assms(2) show ?thesis
      by (auto simp: handle_connect_def stop f start reset_sync_timeline_def Let_def p pb_new_inv
          intro!: worker_inv_set_error(1) simp del: profile.simps)
  qed
qed


lemma anchored_fields [simp]:
  "w_connection (anchored p now w) = w_connection w" "w_buffer (anchored p now w) = w_buffer w"
  "w_metrics (anchored p now w) = w_metrics w" "w_profile (anchored p now w) = w_profile w"
  "\<exists>c. w_clock (anchored p now w) = Some c"
  "w_state (anchored p now w) = w_state w"
  "w_sink (anchored p now w) = w_sink w"
  by (simp_all add: anchored_def Let_def)

lemma handle_packet_ignored: "w_connection w = None \<Longrightarrow> handle_packet env p w e = (w, e)"
  by (simp add: handle_packet_def)

lemma handle_packet_rejected:
  assumes "w_connection w = Some c" "ev_now env e = (now, e1)" "frame_count p (ci_stream c) = Inl m"
  shows "handle_packet env p w e = set_error env m (anchored p now w) e1"
  using assms by (simp add: handle_packet_def)

lemma handle_packet_stored:
  assumes "w_connection w = Some c" "ev_now env e = (now, e1)" "frame_count p (ci_stream c) = Inr n"
    and "pb_enqueue \<lparr>bp_packet = p, bp_frame_count = n\<rparr> (w_buffer w) = (out, b)"
  shows "handle_packet env p w e = (after_push (stored p n now out b (anchored p now w)), e1)"
  using assms by (simp add: handle_packet_def pb_push_Inr Let_def)

lemma worker_inv_anchored:
  "worker_inv w \<Longrightarrow> w_connection w \<noteq> None \<Longrightarrow> worker_inv (anchored p now w)"
  by (auto simp: worker_inv_def anchored_def Let_def)

lemma stored_fields [simp]:
  "w_connection (stored p n now out b w) = w_connection w" "w_buffer (stored p n now out b w) = b"
  "w_clock (stored p n now out b w) = w_clock w" "w_profile (stored p n now out b w) = w_profile w"
  "w_state (stored p n now out b w) = w_state w"
  by (simp_all add: stored_def refresh_sync_buffer_metrics_def Let_def)

lemma worker_inv_stored:
  "worker_inv w \<Longrightarrow> pb_inv b \<Longrightarrow> w_clock w \<noteq> None \<Longrightarrow> worker_inv (stored p n now out b w)"
  by (auto simp: worker_inv_def stored_def refresh_sync_buffer_metrics_def Let_def)

lemma after_push_fields [simp]:
  "w_connection (after_push w) = w_connection w" "w_buffer (after_push w) = w_buffer w"
  "w_metrics (after_push w) = w_metrics w" "w_profile (after_push w) = w_profile w"
  by (simp_all add: after_push_def Let_def)

lemma worker_inv_after_push:
  assumes "worker_inv w" "w_connection w \<noteq> None" "w_clock w \<noteq> None"
  shows "worker_inv (after_push w)"
proof -
  have "worker_inv (set_state Buffering w)" using assms by (simp add: worker_inv_set_live)
  with assms show ?thesis by (simp add: after_push_def Let_def worker_inv_deadline)
qed

lemma worker_inv_packet:
  assumes inv: "worker_inv w" and step: "handle_packet env p w e = (w', e')"
  shows "worker_inv w'"
proof (cases "w_connection w")
  case None
  with inv step show ?thesis by (simp add: handle_packet_ignored)
next
  case (Some c)
  obtain now e1 where now: "ev_now env e = (now, e1)" by fastforce
  obtain preset where p: "w_profile w = profile preset" using worker_inv_dest(2) [OF inv] ..
  note anc = worker_inv_anchored [OF inv, of p now]
  show ?thesis
  proof (cases "frame_count p (ci_stream c)")
    case (Inl m)
    have "set_error env m (anchored p now w) e1 = (w', e')"
      using step by (simp add: handle_packet_rejected [OF Some now Inl])
    then show ?thesis
      by (rule worker_inv_set_error(1) [rotated 2]) (simp_all add: worker_inv_dest(1) [OF inv] p)
  next
    case (Inr n)
    obtain out b where push: "pb_enqueue \<lparr>bp_packet = p, bp_frame_count = n\<rparr> (w_buffer w) = (out, b)"
      by fastforce
    have "pb_inv b"
      using pb_enqueue_inv [OF worker_inv_dest(1) [OF inv]] push by (metis snd_conv)
    then have "worker_inv (stored p n now out b (anchored p now w))"
      using anc Some by (intro worker_inv_stored) simp_all
    with Some step show ?thesis
      by (auto simp: handle_packet_stored [OF Some now Inr push] intro!: worker_inv_after_push)
  qed
qed


lemma worker_inv_event:
  assumes inv: "worker_inv w" and step: "handle_transport_event env ev w e = (w', e')"
  shows "worker_inv w'"
proof -
  obtain preset where p: "w_profile w = profile preset" using worker_inv_dest(2) [OF inv] ..
  have err: "worker_inv (fst (set_error env m w e))" for m
    using worker_inv_set_error(1) [OF worker_inv_dest(1) [OF inv] p] by (metis surjective_pairing)
  have dis: "worker_inv (fst (handle_disconnect env m r w e))" for m r
    using worker_inv_disconnect(1) [OF inv] by (metis surjective_pairing)
  have con: "worker_inv (fst (handle_connect env c w e))" for c
    using worker_inv_connect [OF inv] by (metis surjective_pairing)
  have pkt: "worker_inv (fst (handle_packet env q w e))" for q
    using worker_inv_packet [OF inv] by (metis surjective_pairing)
  show ?thesis
    using step inv err dis con pkt
    by (cases ev) (auto simp: handle_transport_event_def case_prod_beta)
qed

lemma worker_inv_target_change:
  assumes inv: "worker_inv w" and step: "handle_playback_target_change env t w e = (w', e')"
  shows "worker_inv w'"
proof -
  define w1 where "w1 = w\<lparr>w_config := (w_config w)\<lparr>rc_playback_target_id := t\<rparr>, w_last_error := None\<rparr>"
  define w2 where "w2 = (if w_state w1 = ReceiverServiceState.Error \<and> w_connection w1 = None
                         then set_state Listening w1 else w1)"
  have inv1: "worker_inv w1" using inv by (simp add: w1_def)
  then have inv2: "worker_inv w2" by (auto simp: w2_def worker_inv_def)
  show ?thesis
  proof (cases "w_connection w2")
    case None
    with step inv2 show ?thesis
      by (simp add: handle_playback_target_change_def w1_def [symmetric] w2_def [symmetric] Let_def)
        (metis worker_inv_irrelevant(1))
  next
    case (Some c)
    obtain r e1 where start: "ev_start_stream env \<lparr>req_stream = ci_stream c,
        req_target_id = rc_playback_target_id (w_config w2),
        req_latency_ms = lp_playback_latency_ms (w_profile w2)\<rparr> e = (r, e1)" by fastforce
    obtain w4 e4 where stop: "stop_playback_sink env w2 e1 = (w4, e4)" by fastforce
    note f = stop_playback_sink_fields [OF stop]
    have sunk: "worker_inv (w4\<lparr>w_sink := Some k\<rparr>)" for k
      using inv2 Some f by (auto simp: worker_inv_def)
    then have "worker_inv (set_state Buffering (w4\<lparr>w_sink := Some k\<rparr>))" for k
      using Some f by (intro worker_inv_set_live) auto
    with step inv2 sunk Some show ?thesis
      by (cases r) (auto simp: handle_playback_target_change_def w1_def [symmetric]
          w2_def [symmetric] start stop Let_def split: if_splits)
  qed
qed


section \<open>The drain loop\<close>

text \<open>
  The four cases of an iteration with a packet in front: it is late and dropped, it is not
  due, it is written, or its write fails.
\<close>

definition with_deadline :: "instant \<Rightarrow> instant \<Rightarrow> 's ReceiverWorker \<Rightarrow> 's ReceiverWorker" where
  "with_deadline deadline now w =
     w\<lparr>w_next_deadline := Some deadline,
       w_sync := (w_sync w)\<lparr>sy_schedule_error_ms := signed_instant_delta_ms now deadline\<rparr>\<rparr>"

definition too_late :: "instant \<Rightarrow> instant \<Rightarrow> 's ReceiverWorker \<Rightarrow> bool" where
  "too_late deadline now w \<longleftrightarrow>
     uint (lp_late_packet_drop_ms (w_profile w)) < signed_instant_delta_ms now deadline"

definition dropped_front :: "ReceiverPacketBuffer \<Rightarrow> 's ReceiverWorker \<Rightarrow> 's ReceiverWorker" where
  "dropped_front b w =
     refresh_sync_buffer_metrics (set_fill (w\<lparr>w_buffer := b, w_sync := (w_sync w)
       \<lparr>sy_late_packet_drops := sy_late_packet_drops (w_sync w) + 1, sy_state := Late\<rparr>\<rparr>))"

definition played_front ::
  "BufferedPacket \<Rightarrow> ReceiverPacketBuffer \<Rightarrow> 's \<Rightarrow> int \<Rightarrow> 's ReceiverWorker \<Rightarrow> 's ReceiverWorker" where
  "played_front p b sink err_ms w =
     (let m = w_metrics w;
          w3 = set_fill (w\<lparr>w_buffer := b, w_sink := Some sink, w_metrics := m
            \<lparr>rm_packets_played := rm_packets_played m + 1,
             rm_frames_played := rm_frames_played m + ucast (bp_frame_count p),
             rm_bytes_played := rm_bytes_played m + of_nat (length (pkt_payload (bp_packet p)))\<rparr>\<rparr>);
          w4 = set_sync_state (if err_ms > uint (lp_latency_tolerance_ms (w_profile w3))
                               then Late else Locked) (set_state Playing w3)
      in refresh_sync_buffer_metrics (w4\<lparr>w_next_deadline := None\<rparr>))"

lemma dropped_front_fields [simp]:
  "w_buffer (dropped_front b w) = b" "w_clock (dropped_front b w) = w_clock w"
  "w_connection (dropped_front b w) = w_connection w" "w_sink (dropped_front b w) = w_sink w"
  "w_profile (dropped_front b w) = w_profile w" "w_state (dropped_front b w) = w_state w"
  "w_last_activity (dropped_front b w) = w_last_activity w"
  by (simp_all add: dropped_front_def worker_setters Let_def)

lemma played_front_fields [simp]:
  "w_buffer (played_front p b k x w) = b" "w_clock (played_front p b k x w) = w_clock w"
  "w_connection (played_front p b k x w) = w_connection w" "w_sink (played_front p b k x w) = Some k"
  "w_profile (played_front p b k x w) = w_profile w" "w_state (played_front p b k x w) = Playing"
  "w_last_activity (played_front p b k x w) = w_last_activity w"
  by (simp_all add: played_front_def worker_setters Let_def)

lemma with_deadline_fields [simp]:
  "w_buffer (with_deadline d n w) = w_buffer w" "w_clock (with_deadline d n w) = w_clock w"
  "w_connection (with_deadline d n w) = w_connection w" "w_sink (with_deadline d n w) = w_sink w"
  "w_profile (with_deadline d n w) = w_profile w" "w_state (with_deadline d n w) = w_state w"
  "w_metrics (with_deadline d n w) = w_metrics w"
  "w_last_activity (with_deadline d n w) = w_last_activity w"
  by (simp_all add: with_deadline_def)

lemma drain_body_empty:
  assumes "pb_front (w_buffer w) = None"
  shows "drain_body env w e =
    (False, if w_state w = Playing
       then set_sync_state ReceiverSyncState.Recovering (reset_sync_timeline True (set_fill
              (w\<lparr>w_metrics := (w_metrics w)\<lparr>rm_underruns := rm_underruns (w_metrics w) + 1\<rparr>,
                 w_state := Buffering\<rparr>))) else w, e)"
  using assms by (simp add: drain_body_def Let_def del: pb_front_None)

lemma drain_body_no_clock:
  assumes "pb_front (w_buffer w) = Some p" "w_clock w = None"
  shows "drain_body env w e = (False, w, e)"
  using assms by (simp add: drain_body_def write_deadline_for_def)

lemma drain_body_late:
  assumes "pb_front (w_buffer w) = Some p" "pb_pop (w_buffer w) = Some (p, b)"
    and "write_deadline_for (pkt_captured_at_ms (bp_packet p)) w = Some d"
    and "ev_now env e = (now, e1)" "too_late d now w"
  shows "drain_body env w e =
    (pb_front b \<noteq> None,
     if pb_front b = None then set_sync_state ReceiverSyncState.Recovering
          (reset_sync_timeline True (dropped_front b (with_deadline d now w)))
     else dropped_front b (with_deadline d now w), e1)"
  using assms
  by (simp add: drain_body_def with_deadline_def too_late_def dropped_front_def worker_setters Let_def)

lemma drain_body_not_due:
  assumes "pb_front (w_buffer w) = Some p"
    and "write_deadline_for (pkt_captured_at_ms (bp_packet p)) w = Some d"
    and "ev_now env e = (now, e1)" "\<not> too_late d now w" "now < d"
  shows "drain_body env w e =
    (False, if w_state w \<noteq> Playing then set_state Buffering (with_deadline d now w)
            else with_deadline d now w, e1)"
  using assms by (simp add: drain_body_def with_deadline_def too_late_def Let_def)

lemma drain_body_written:
  assumes "pb_front (w_buffer w) = Some p" "pb_pop (w_buffer w) = Some (p, b)"
    and "write_deadline_for (pkt_captured_at_ms (bp_packet p)) w = Some d"
    and "ev_now env e = (now, e1)" "\<not> too_late d now w" "\<not> now < d"
    and "w_sink w = Some k" "ev_write env (pkt_payload (bp_packet p)) k e1 = (Inr u, k', e2)"
  shows "drain_body env w e =
    (True, played_front p b k' (signed_instant_delta_ms now d) (with_deadline d now w), e2)"
  using assms
  by (simp add: drain_body_def with_deadline_def too_late_def played_front_def Let_def)

lemma drain_body_write_failed:
  assumes "pb_front (w_buffer w) = Some p" "pb_pop (w_buffer w) = Some (p, b)"
    and "write_deadline_for (pkt_captured_at_ms (bp_packet p)) w = Some d"
    and "ev_now env e = (now, e1)" "\<not> too_late d now w" "\<not> now < d"
    and "w_sink w = Some k" "ev_write env (pkt_payload (bp_packet p)) k e1 = (Inl err, k', e2)"
  shows "drain_body env w e =
    (False, set_error env (show_audio_error err)
       ((with_deadline d now w)\<lparr>w_buffer := b, w_sink := Some k'\<rparr>) e2)"
  using assms
  by (simp add: drain_body_def with_deadline_def too_late_def Let_def)


lemma too_late_with_deadline [simp]: "too_late d n (with_deadline d' n' w) = too_late d n w"
  by (simp add: too_late_def)

lemma pb_front_pop: "pb_front b = Some p \<Longrightarrow> \<exists>b'. pb_pop b = Some (p, b')"
  by (auto simp: pb_front_def pb_pop_def split: list.splits)

text \<open>
  The case split every proof about the drain loop starts with, in a state that satisfies the
  invariant: the sink is there, so its disappearance is not a case.
\<close>

lemma drain_body_cases [consumes 2, case_names empty late early written failed]:
  assumes inv: "worker_inv w" and body: "drain_body env w e = (c, w', e')"
  obtains
    (empty) "pb_packets (w_buffer w) = []" "\<not> c" "e' = e"
      "w' = (if w_state w = Playing
         then set_sync_state ReceiverSyncState.Recovering (reset_sync_timeline True (set_fill
                (w\<lparr>w_metrics := (w_metrics w)\<lparr>rm_underruns := rm_underruns (w_metrics w) + 1\<rparr>,
                   w_state := Buffering\<rparr>))) else w)"
  | (late) clk p b d now where "w_clock w = Some clk" "pb_pop (w_buffer w) = Some (p, b)"
      "d = clock_write_deadline clk (pkt_captured_at_ms (bp_packet p)) (lp_target_buffer_ms (w_profile w))"
      "ev_now env e = (now, e')" "too_late d now w" "c \<longleftrightarrow> pb_packets b \<noteq> []"
      "w' = (if pb_packets b = [] then set_sync_state ReceiverSyncState.Recovering
                (reset_sync_timeline True (dropped_front b (with_deadline d now w)))
             else dropped_front b (with_deadline d now w))"
  | (early) clk p d now where "w_clock w = Some clk" "pb_front (w_buffer w) = Some p"
      "d = clock_write_deadline clk (pkt_captured_at_ms (bp_packet p)) (lp_target_buffer_ms (w_profile w))"
      "ev_now env e = (now, e')" "\<not> too_late d now w" "now < d" "\<not> c"
      "w' = (if w_state w \<noteq> Playing then set_state Buffering (with_deadline d now w)
             else with_deadline d now w)"
  | (written) clk p b d now e1 k u k' where "w_clock w = Some clk" "pb_pop (w_buffer w) = Some (p, b)"
      "d = clock_write_deadline clk (pkt_captured_at_ms (bp_packet p)) (lp_target_buffer_ms (w_profile w))"
      "ev_now env e = (now, e1)" "\<not> too_late d now w" "d \<le> now" "c" "w_sink w = Some k"
      "ev_write env (pkt_payload (bp_packet p)) k e1 = (Inr u, k', e')"
      "w' = played_front p b k' (signed_instant_delta_ms now d) (with_deadline d now w)"
  | (failed) clk p b d now e1 k err k' e2 where "w_clock w = Some clk"
      "pb_pop (w_buffer w) = Some (p, b)"
      "d = clock_write_deadline clk (pkt_captured_at_ms (bp_packet p)) (lp_target_buffer_ms (w_profile w))"
      "ev_now env e = (now, e1)" "\<not> too_late d now w" "d \<le> now" "\<not> c" "w_sink w = Some k"
      "ev_write env (pkt_payload (bp_packet p)) k e1 = (Inl err, k', e2)"
      "set_error env (show_audio_error err)
         ((with_deadline d now w)\<lparr>w_buffer := b, w_sink := Some k'\<rparr>) e2 = (w', e')"
proof (cases "pb_front (w_buffer w)")
  case None
  then show thesis using body empty by (simp add: drain_body_empty [OF None])
next
  case (Some p)
  then obtain b where pop: "pb_pop (w_buffer w) = Some (p, b)" using pb_front_pop by blast
  from Some have "pb_packets (w_buffer w) \<noteq> []" by (metis option.distinct(1) pb_front_None)
  then obtain clk where clk: "w_clock w = Some clk" using worker_inv_dest(5) [OF inv] by auto
  then obtain k where k: "w_sink w = Some k" using worker_inv_connected_clock [OF inv] by auto
  define d where "d = clock_write_deadline clk (pkt_captured_at_ms (bp_packet p))
    (lp_target_buffer_ms (w_profile w))"
  have dl: "write_deadline_for (pkt_captured_at_ms (bp_packet p)) w = Some d"
    by (simp add: write_deadline_for_def clk d_def)
  obtain now e1 where now: "ev_now env e = (now, e1)" by fastforce
  obtain r k' e2 where wr: "ev_write env (pkt_payload (bp_packet p)) k e1 = (r, k', e2)"
    by (metis prod_cases3)
  consider "too_late d now w" | "\<not> too_late d now w" "now < d"
    | "\<not> too_late d now w" "\<not> now < d" by blast
  then show thesis
  proof cases
    case 1
    with body late [OF clk pop d_def, of now] now show thesis
      by (auto simp: drain_body_late [OF Some pop dl now 1])
  next
    case 2
    with body early [OF clk Some d_def, of now] now show thesis
      by (auto simp: drain_body_not_due [OF Some dl now 2])
  next
    case 3
    show thesis
    proof (cases r)
      case (Inr u)
      with body written [OF clk pop d_def now 3(1) _ _ k, of u k'] 3 wr show thesis
        by (auto simp: drain_body_written [OF Some pop dl now 3 k])
    next
      case (Inl err)
      with body failed [OF clk pop d_def now 3(1) _ _ k, of err k' e2] 3 wr show thesis
        by (auto simp: drain_body_write_failed [OF Some pop dl now 3 k])
    qed
  qed
qed


lemma worker_inv_with_deadline:
  "worker_inv w \<Longrightarrow> w_clock w \<noteq> None \<Longrightarrow> worker_inv (with_deadline d n w)"
  by (simp add: with_deadline_def worker_inv_deadline)

lemma worker_inv_dropped:
  "worker_inv w \<Longrightarrow> w_clock w \<noteq> None \<Longrightarrow> pb_inv b \<Longrightarrow> worker_inv (dropped_front b w)"
  by (simp add: dropped_front_def worker_inv_buffer)

lemma worker_inv_played:
  assumes "worker_inv w" "w_clock w \<noteq> None" "pb_inv b"
  shows "worker_inv (played_front p b k x w)"
proof -
  have "w_connection w \<noteq> None" using assms(1,2) worker_inv_connected_clock by fastforce
  with assms show ?thesis
    by (simp add: played_front_def Let_def worker_inv_no_deadline worker_inv_set_live
        worker_inv_sink worker_inv_buffer set_fill_def)
qed

lemma worker_inv_drain_body:
  assumes inv: "worker_inv w" and body: "drain_body env w e = (c, w', e')"
  shows "worker_inv w'"
proof -
  have popped: "pb_inv b" if "pb_pop (w_buffer w) = Some (p, b)" for p b
    using pb_pop_inv [OF worker_inv_dest(1) [OF inv] that] .
  obtain preset where prof: "w_profile w = profile preset" using worker_inv_dest(2) [OF inv] ..
  from inv body show ?thesis
  proof (cases rule: drain_body_cases)
    case empty
    have "worker_inv (reset_sync_timeline True (set_fill
                (w\<lparr>w_metrics := g, w_state := Buffering\<rparr>)))" if "w_state w = Playing" for g
      using inv empty(1) that
      by (auto simp: worker_inv_def reset_sync_timeline_def set_fill_def)
    with inv show ?thesis by (simp add: empty(4))
  next
    case (late clk p b d now)
    then have "worker_inv (dropped_front b (with_deadline d now w))"
      using popped inv by (simp add: worker_inv_dropped worker_inv_with_deadline)
    then show ?thesis by (simp add: late(7) worker_inv_reset)
  next
    case (early clk p d now)
    then have i: "worker_inv (with_deadline d now w)" by (simp add: worker_inv_with_deadline inv)
    moreover have "w_connection w \<noteq> None" using worker_inv_connected_clock [OF inv early(1)] by simp
    ultimately show ?thesis by (simp add: early(8) worker_inv_set_live)
  next
    case (written clk p b d now e1 k u k')
    then show ?thesis
      using popped inv by (simp add: worker_inv_played worker_inv_with_deadline)
  next
    case (failed clk p b d now e1 k err k' e2)
    from failed(10) show ?thesis
      by (rule worker_inv_set_error(1) [rotated 2]) (simp_all add: popped [OF failed(2)] prof del: profile.simps)
  qed
qed

lemma worker_inv_drain_loop: "worker_inv w \<Longrightarrow> worker_inv (fst (drain_loop env w e))"
  using drain_loop_rule [of "\<lambda>(w, e). worker_inv w" w e env]
  by (auto simp: case_prod_beta dest: worker_inv_drain_body)

lemma worker_inv_drain:
  assumes inv: "worker_inv w"
  shows "worker_inv (fst (drain_ready_packets env w e))"
proof -
  have "worker_inv (set_state Buffering w)" if "w_connection w \<noteq> None"
    using that inv by (simp add: worker_inv_set_live)
  with inv show ?thesis by (simp add: drain_ready_packets_def worker_inv_drain_loop Let_def)
qed

lemma worker_inv_timeout:
  assumes inv: "worker_inv w"
  shows "worker_inv (fst (check_transport_timeout env w e))"
proof -
  have dis: "worker_inv (fst (handle_disconnect env m r w e))" for m r e
    using worker_inv_disconnect(1) [OF inv] by (metis surjective_pairing)
  show ?thesis using inv
    by (auto simp: check_transport_timeout_def dis case_prod_beta Let_def split: option.splits)
qed

lemma worker_inv_tick: "worker_inv w \<Longrightarrow> worker_inv (fst (on_tick env w e))"
  by (simp add: on_tick_def case_prod_beta worker_inv_timeout worker_inv_drain)

lemma worker_inv_shutdown:
  assumes inv: "worker_inv w" and "worker_shutdown env w e = (w', e')"
  shows "worker_inv w'" "w_state w' = ReceiverServiceState.Idle" "w_sink w' = None"
    "w_connection w' = None" "pb_packets (w_buffer w') = []"
proof -
  obtain w1 e1 where stop: "stop_playback_sink env w e = (w1, e1)" by fastforce
  note f = stop_playback_sink_fields [OF stop]
  define w2 where "w2 = reset_sync_timeline False (w1\<lparr>w_buffer := pb_clear (w_buffer w1),
      w_connection := None, w_state := ReceiverServiceState.Idle,
      w_metrics := (w_metrics w1)\<lparr>rm_buffer_fill_percent := 0\<rparr>\<rparr>)"
  have w': "w' = sync_snapshot (w2\<lparr>w_sync := sync_from_profile (w_profile w2)\<rparr>)"
    using assms(2) by (simp add: worker_shutdown_def stop w2_def Let_def)
  have w2: "w_state w2 = ReceiverServiceState.Idle" "w_sink w2 = None" "w_connection w2 = None"
    "pb_packets (w_buffer w2) = []" "w_clock w2 = None" "w_next_deadline w2 = None"
    "w_profile w2 = w_profile w" "w_buffer w2 = pb_clear (w_buffer w)"
    by (simp_all add: w2_def reset_sync_timeline_def f)
  have "worker_inv w2" using inv by (auto simp: worker_inv_def w2 pb_clear_inv)
  then show "worker_inv w'" by (simp add: w')
  show "w_state w' = ReceiverServiceState.Idle" "w_sink w' = None"
    "w_connection w' = None" "pb_packets (w_buffer w') = []"
    by (simp_all add: w' w2 sync_snapshot_def Let_def)
qed

lemma worker_step_simps:
  assumes "next_wait_duration env w e = (d, e1)"
  shows "worker_step env (Received (Transport ev)) w e = (True, handle_transport_event env ev w e1)"
    "worker_step env (Received (SetPlaybackTarget t)) w e
      = (True, handle_playback_target_change env t w e1)"
    "worker_step env (Received Shutdown) w e = (False, worker_shutdown env w e1)"
    "worker_step env Timeout w e = (True, on_tick env w e1)"
    "worker_step env ChannelDisconnected w e = (False, worker_shutdown env w e1)"
  using assms by (simp_all add: worker_step_def)

lemma worker_step_cases [consumes 1, case_names event target shutdown tick]:
  assumes "worker_step env r w e = (c, w', e')"
  obtains
    (event) ev e1 where "r = Received (Transport ev)" "c"
      "handle_transport_event env ev w e1 = (w', e')" "e1 = snd (next_wait_duration env w e)"
  | (target) t e1 where "r = Received (SetPlaybackTarget t)" "c"
      "handle_playback_target_change env t w e1 = (w', e')"
  | (shutdown) e1 where "r = Received Shutdown \<or> r = ChannelDisconnected" "\<not> c"
      "worker_shutdown env w e1 = (w', e')"
  | (tick) e1 where "r = Timeout" "c" "on_tick env w e1 = (w', e')"
      "e1 = snd (next_wait_duration env w e)"
proof -
  obtain d e1 where n: "next_wait_duration env w e = (d, e1)" by fastforce
  note step = worker_step_simps [OF n]
  show thesis
  proof (cases r)
    case (Received cmd)
    with assms n show thesis
      by (cases cmd) (use event target shutdown in \<open>auto simp: step\<close>)
  qed (use assms n shutdown tick in \<open>auto simp: step\<close>)
qed

lemma worker_inv_step:
  assumes inv: "worker_inv w" and step: "worker_step env r w e = (c, w', e')"
  shows "worker_inv w'"
  using step
proof (cases rule: worker_step_cases)
  case (tick e1)
  then show ?thesis using worker_inv_tick [OF inv, of env e1] by simp
qed (blast intro: worker_inv_event [OF inv] worker_inv_target_change [OF inv]
       worker_inv_shutdown(1) [OF inv])+

lemma worker_new_inv: "worker_inv (worker_new config snap)"
  by (auto simp: worker_new_def worker_inv_def pb_new_inv Let_def sync_snapshot_def
      simp del: profile.simps)

end
