(* ===== verification/Receiver_Properties.thy ===== *)
theory Receiver_Properties
  imports Receiver_Invariant "HOL-Library.Sublist"
begin

text \<open>
  Properties of the receiver's worker over whole runs: the invariant, the packet accounting,
  the playback schedule, the transport timeout, recovery and shutdown. The step relation of
  the worker thread interprets the invariant contract of \<open>Steps\<close>.
\<close>

section \<open>Runs\<close>

inductive worker_trans ::
  "('w, 's) playback_env \<Rightarrow> 's ReceiverWorker \<times> 'w \<Rightarrow> 's ReceiverWorker \<times> 'w \<Rightarrow> bool"
  for env where
  trans: "worker_step env r w e = (c, w', e') \<Longrightarrow> worker_trans env (w, e) (w', e')"

inductive_cases worker_trans_cases: "worker_trans env (w, e) (w', e')"

inductive_simps worker_trans_iff: "worker_trans env (w, e) (w', e')"

definition worker_started :: "'s ReceiverWorker \<times> 'w \<Rightarrow> bool" where
  "worker_started s \<longleftrightarrow> (\<exists>config snap. fst s = worker_new config snap)"

interpretation wk: invariant_system worker_started "worker_trans env" "\<lambda>s. worker_inv (fst s)"
proof
  show "worker_inv (fst s)" if "worker_started s" for s
    using that by (auto simp: worker_started_def worker_new_inv)
  show "worker_inv (fst t)" if "worker_inv (fst s)" "worker_trans env s t" for s t
    using that(2,1) by cases (auto intro: worker_inv_step)
qed

lemma worker_run_reaches:
  "worker_run env rs w e = (c, w', e') \<Longrightarrow> (worker_trans env)\<^sup>*\<^sup>* (w, e) (w', e')"
proof (induction rs arbitrary: w e)
  case (Cons r rs)
  obtain d w1 e1 where step: "worker_step env r w e = (d, w1, e1)" by (metis prod_cases3)
  then have one: "worker_trans env (w, e) (w1, e1)" by (rule trans)
  show ?case
  proof (cases d)
    case True
    with Cons step one show ?thesis by (auto intro: converse_rtranclp_into_rtranclp)
  next
    case False
    with Cons.prems step one show ?thesis by auto
  qed
qed simp

lemma worker_run_inv: "worker_inv w \<Longrightarrow> worker_inv (fst (snd (worker_run env rs w e)))"
  using wk.inv_steps [of env "(w, e)"] worker_run_reaches [of env rs w e]
  by (metis fst_conv prod.collapse)

text \<open>A predicate on the state and the number of outcomes consumed.\<close>

lemma worker_run_induct:
  assumes "P n w" and "\<And>n w e r c w' e'. P n w \<Longrightarrow> n < n0 + length rs0 \<Longrightarrow> r \<in> set rs0 \<Longrightarrow>
      worker_step env r w e = (c, w', e') \<Longrightarrow> P (Suc n) w'"
    and "set rs \<subseteq> set rs0" "n + length rs \<le> n0 + length rs0" "n0 \<le> n"
  shows "\<exists>m \<le> n + length rs. P m (fst (snd (worker_run env rs w e)))"
  using assms(1,3,4,5)
proof (induction rs arbitrary: n w e)
  case (Cons r rs)
  obtain d w1 e1 where step: "worker_step env r w e = (d, w1, e1)" by (metis prod_cases3)
  then have P: "P (Suc n) w1" using Cons.prems by (intro assms(2) [of n w r e]) auto
  show ?case
  proof (cases d)
    case True
    then show ?thesis using Cons.IH [of "Suc n" w1 e1] Cons.prems P step by auto
  next
    case False
    with P step show ?thesis by (auto intro!: exI [of _ "Suc n"])
  qed
qed auto

section \<open>The published snapshot\<close>

definition published :: "'s ReceiverWorker \<Rightarrow> bool" where
  "published w \<longleftrightarrow>
     rsn_state (w_snapshot w) = w_state w \<and> rsn_connection (w_snapshot w) = w_connection w
     \<and> rsn_buffer (w_snapshot w) = pb_snapshot (w_buffer w) \<and> rsn_sync (w_snapshot w) = w_sync w
     \<and> rsn_last_error (w_snapshot w) = w_last_error w
     \<and> rsn_metrics (w_snapshot w) = (w_metrics w)
         \<lparr>rm_buffer_fill_percent := fill_percent (pb_snapshot (w_buffer w))\<rparr>"

lemma published_sync [simp]: "published (sync_snapshot w)"
  by (simp add: published_def sync_snapshot_def Let_def)

lemma worker_step_published: "worker_step env r w e = (c, w', e') \<Longrightarrow> published w'"
  by (erule worker_step_cases)
    (auto simp: handle_transport_event_def handle_playback_target_change_def worker_shutdown_def
      on_tick_def Let_def case_prod_beta)

text \<open>
  C2: Whatever the playback engine, the clock and the command channel answer, in every state the receiver worker
  reaches the buffer is within its bound with an exact frame count, a sink is held exactly while a session is connected,
  the service state is Connected, Buffering or Playing exactly then, and without an anchored clock there is neither a queued
  packet nor a deadline. In particular the branch for a sink that disappeared is never taken.
\<close>

theorem worker_run_keeps_invariant:
  "worker_inv (fst (snd (worker_run env rs (worker_new config snap) e)))"
  by (rule worker_run_inv) (rule worker_new_inv)

theorem worker_run_publishes_state:
  "published (fst (snd (worker_run env rs (worker_new config snap) e)))"
proof -
  let ?w = "worker_new config snap"
  have "\<exists>m \<le> 0 + length rs. (\<lambda>_ w. published w) m (fst (snd (worker_run env rs ?w e)))"
    by (rule worker_run_induct [where n0 = 0 and ?rs0.0 = rs])
      (auto simp: worker_step_published worker_new_def Let_def)
  then show ?thesis by auto
qed

section \<open>Accounting\<close>

definition accounted :: "nat \<Rightarrow> ReceiverMetrics \<Rightarrow> BufferedPacket list \<Rightarrow> bool" where
  "accounted n m ps \<longleftrightarrow>
     unat (rm_packets_received m) \<le> n
     \<and> unat (rm_packets_played m) + unat (rm_overruns m) + length ps \<le> unat (rm_packets_received m)
     \<and> unat (rm_frames_received m) \<le> n * (2 ^ 32 - 1)
     \<and> unat (rm_frames_played m) + frames_of ps \<le> unat (rm_frames_received m)"

lemma accounted_mono: "accounted n m ps \<Longrightarrow> n \<le> k \<Longrightarrow> accounted k m ps"
  unfolding accounted_def by (auto intro: order_trans mult_le_mono1)

lemma accounted_clear: "accounted n m ps \<Longrightarrow> accounted n m []"
  by (auto simp: accounted_def)

lemma accounted_metrics [simp]:
  "accounted n (rm_buffer_fill_percent_update f m) ps = accounted n m ps"
  "accounted n (rm_reconnect_attempts_update g m) ps = accounted n m ps"
  "accounted n (rm_underruns_update h m) ps = accounted n m ps"
  by (simp_all add: accounted_def)


lemma set_error_effect:
  assumes "set_error env m w e = (w', e')"
  shows "w_metrics w' = (w_metrics w)\<lparr>rm_buffer_fill_percent := 0\<rparr>" "pb_packets (w_buffer w') = []"
    "w_connection w' = None" "w_state w' = ReceiverServiceState.Error" "w_sink w' = None"
    "w_last_error w' = Some m"
proof -
  obtain w1 e1 where stop: "stop_playback_sink env w e = (w1, e1)" by fastforce
  note f = stop_playback_sink_fields [OF stop]
  show "w_metrics w' = (w_metrics w)\<lparr>rm_buffer_fill_percent := 0\<rparr>" "pb_packets (w_buffer w') = []"
    "w_connection w' = None" "w_state w' = ReceiverServiceState.Error" "w_sink w' = None"
    "w_last_error w' = Some m"
    using assms f by (auto simp: set_error_def stop reset_sync_timeline_def)
qed

lemma handle_disconnect_effect:
  assumes "handle_disconnect env m r w e = (w', e')"
  shows "pb_packets (w_buffer w') = []" "\<exists>k. w_metrics w' = (w_metrics w)
     \<lparr>rm_buffer_fill_percent := 0, rm_reconnect_attempts := k\<rparr>"
proof -
  define w0 where "w0 = (if r then w\<lparr>w_metrics := (w_metrics w)
                       \<lparr>rm_reconnect_attempts := rm_reconnect_attempts (w_metrics w) + 1\<rparr>\<rparr> else w)"
  obtain w1 e1 where stop: "stop_playback_sink env w0 e = (w1, e1)" by fastforce
  note f = stop_playback_sink_fields [OF stop]
  have w0: "w_buffer w0 = w_buffer w" "\<exists>k. w_metrics w0 = (w_metrics w)\<lparr>rm_reconnect_attempts := k\<rparr>"
    by (auto simp: w0_def intro: exI [of _ "rm_reconnect_attempts (w_metrics w)"])
  show "pb_packets (w_buffer w') = []"
    using assms by (auto simp: handle_disconnect_def w0_def [symmetric] stop reset_sync_timeline_def)
  have "w_metrics w' = (w_metrics w0)\<lparr>rm_buffer_fill_percent := 0\<rparr>"
    using assms f by (auto simp: handle_disconnect_def w0_def [symmetric] stop reset_sync_timeline_def)
  moreover obtain k where "w_metrics w0 = (w_metrics w)\<lparr>rm_reconnect_attempts := k\<rparr>" using w0(2) ..
  ultimately have "w_metrics w' = (w_metrics w)\<lparr>rm_buffer_fill_percent := 0, rm_reconnect_attempts := k\<rparr>"
    by simp
  then show "\<exists>k. w_metrics w' = (w_metrics w)
     \<lparr>rm_buffer_fill_percent := 0, rm_reconnect_attempts := k\<rparr>" ..
qed

lemma handle_connect_effect:
  assumes "handle_connect env c w e = (w', e')"
  shows "pb_packets (w_buffer w') = []"
    "\<exists>f. w_metrics w' = rm_buffer_fill_percent_update f (w_metrics w)"
proof -
  obtain w1 e1 where stop: "stop_playback_sink env w e = (w1, e1)" by fastforce
  note f = stop_playback_sink_fields [OF stop]
  obtain r e2 where start: "ev_start_stream env \<lparr>req_stream = ci_stream c,
      req_target_id = rc_playback_target_id (w_config w),
      req_latency_ms = lp_playback_latency_ms (w_profile w)\<rparr> e1 = (r, e2)" by fastforce
  obtain now e3 where now: "ev_now env e2 = (now, e3)" by fastforce
  have "pb_packets (w_buffer w') = [] \<and> (w_metrics w' = w_metrics w
      \<or> w_metrics w' = (w_metrics w)\<lparr>rm_buffer_fill_percent := 0\<rparr>)"
  proof (cases r)
    case (Inr k)
    with assms show ?thesis
      by (auto simp: handle_connect_def stop f start now reset_sync_timeline_def Let_def)
  next
    case (Inl err)
    define w3 where "w3 = (reset_sync_timeline False (w1\<lparr>w_buffer := pb_new (w_profile w1) (ci_stream c)\<rparr>))
      \<lparr>w_sync := (sync_from_profile (w_profile w1))\<lparr>sy_state := Priming,
         sy_requested_latency_ms := Some (ci_requested_latency_ms c)\<rparr>, w_connection := None\<rparr>"
    have "set_error env (show_audio_error err) w3 e2 = (w', e')"
      using assms Inl by (simp add: handle_connect_def stop f start reset_sync_timeline_def Let_def w3_def)
    note set_error_effect(1,2) [OF this]
    then show ?thesis by (simp add: w3_def reset_sync_timeline_def f)
  qed
  then show "pb_packets (w_buffer w') = []"
    "\<exists>f. w_metrics w' = rm_buffer_fill_percent_update f (w_metrics w)"
    by (auto intro: exI [of _ "\<lambda>x. x"])
qed

text \<open>What is pushed is counted; what overflows is an overrun.\<close>

lemma accounted_stored:
  assumes acct: "accounted k (w_metrics w) (pb_packets (w_buffer w))" and n: "k < 2 ^ 32 - 1"
    and inv: "pb_inv (w_buffer w)"
    and push: "pb_enqueue \<lparr>bp_packet = p, bp_frame_count = c\<rparr> (w_buffer w) = (out, b)"
    and same: "w_metrics w' = w_metrics w"
  shows "accounted (Suc k) (w_metrics (stored p c now out b w')) (pb_packets b)"
proof -
  let ?m = "w_metrics w" and ?q = "pb_packets (w_buffer w)"
  have rcv: "unat (rm_packets_received ?m + 1) = unat (rm_packets_received ?m) + 1"
    using acct n by (intro unat_inc_no_wrap) (simp add: accounted_def)
  have "unat c < 2 ^ LENGTH(32)" by (rule unsigned_less)
  then have c: "unat c \<le> 2 ^ 32 - 1" by simp
  have "unat (rm_frames_received ?m) + unat c < 2 ^ 64"
  proof -
    have "unat (rm_frames_received ?m) \<le> k * (2 ^ 32 - 1)" using acct by (simp add: accounted_def)
    also have "\<dots> \<le> (2 ^ 32 - 2) * (2 ^ 32 - 1)" using n by (intro mult_le_mono1) simp
    finally show ?thesis using c by simp
  qed
  then have fr: "unat (rm_frames_received ?m + ucast c) = unat (rm_frames_received ?m) + unat c"
    by (subst unat_plus_no_wrap) simp_all
  show ?thesis
  proof (cases "length ?q = pb_max_packets (w_buffer w)")
    case True
    then obtain o' rest where q: "?q = o' # rest" using inv by (cases ?q) (auto simp: pb_inv_def)
    have "unat (rm_overruns ?m + 1) \<le> unat (rm_overruns ?m) + 1" by (rule unat_inc_le)
    with acct push True q c rcv fr same show ?thesis
      by (auto simp: accounted_def pb_enqueue_def stored_def refresh_sync_buffer_metrics_def Let_def)
  next
    case False
    with acct push c rcv fr same show ?thesis
      by (auto simp: accounted_def pb_enqueue_def stored_def refresh_sync_buffer_metrics_def Let_def)
  qed
qed


abbreviation books_balance :: "nat \<Rightarrow> 's ReceiverWorker \<Rightarrow> bool" where
  "books_balance n w \<equiv> accounted n (w_metrics w) (pb_packets (w_buffer w))"

lemma accounted_handle_packet:
  assumes inv: "worker_inv w" and acct: "books_balance n w" and n: "n < 2 ^ 32 - 1"
    and step: "handle_packet env p w e = (w', e')"
  shows "books_balance (Suc n) w'"
proof (cases "w_connection w")
  case None
  with acct step show ?thesis by (auto simp: handle_packet_ignored intro: accounted_mono)
next
  case (Some c)
  obtain now e1 where now: "ev_now env e = (now, e1)" by fastforce
  show ?thesis
  proof (cases "frame_count p (ci_stream c)")
    case (Inl m)
    have err: "set_error env m (anchored p now w) e1 = (w', e')"
      using step by (simp add: handle_packet_rejected [OF Some now Inl])
    show ?thesis
      using accounted_mono [OF accounted_clear [OF acct], of "Suc n"]
      by (simp add: set_error_effect [OF err])
  next
    case (Inr k)
    obtain out b where push: "pb_enqueue \<lparr>bp_packet = p, bp_frame_count = k\<rparr> (w_buffer w) = (out, b)"
      by fastforce
    have "w' = after_push (stored p k now out b (anchored p now w))"
      using step by (simp add: handle_packet_stored [OF Some now Inr push])
    then show ?thesis
      using accounted_stored [OF acct n worker_inv_dest(1) [OF inv] push, of "anchored p now w"]
      by simp
  qed
qed

lemma accounted_pop:
  assumes "accounted n m ps" "ps = p # qs"
  shows "accounted n (m\<lparr>rm_packets_played := rm_packets_played m + 1,
     rm_frames_played := rm_frames_played m + ucast (bp_frame_count p), rm_bytes_played := x\<rparr>) qs"
    and "accounted n m qs"
proof -
  have "unat (rm_packets_played m + 1) \<le> unat (rm_packets_played m) + 1" by (rule unat_inc_le)
  moreover have "unat (rm_frames_played m + ucast (bp_frame_count p))
      \<le> unat (rm_frames_played m) + unat (bp_frame_count p)"
    by (metis unat_plus_le unat_u32_u64)
  ultimately show "accounted n (m\<lparr>rm_packets_played := rm_packets_played m + 1,
     rm_frames_played := rm_frames_played m + ucast (bp_frame_count p), rm_bytes_played := x\<rparr>) qs"
    and "accounted n m qs"
    using assms by (auto simp: accounted_def)
qed

lemma front_metrics [simp]:
  "w_metrics (set_fill w) = (w_metrics w)\<lparr>rm_buffer_fill_percent := fill_percent (pb_snapshot (w_buffer w))\<rparr>"
  "w_metrics (reset_sync_timeline c w) = w_metrics w"
  "w_buffer (reset_sync_timeline c w) = w_buffer w" "w_buffer (set_fill w) = w_buffer w"
  "w_metrics (refresh_sync_buffer_metrics w) = w_metrics w"
  "w_buffer (refresh_sync_buffer_metrics w) = w_buffer w"
  "w_metrics (sync_snapshot w) = w_metrics w" "w_buffer (sync_snapshot w) = w_buffer w"
  by (simp_all add: worker_setters Let_def)

lemma accounted_drain_body:
  assumes inv: "worker_inv w" and acct: "books_balance n w"
    and body: "drain_body env w e = (c, w', e')"
  shows "books_balance n w'"
  using inv body
proof (cases rule: drain_body_cases)
  case empty
  with acct show ?thesis by simp
next
  case (late clk p b d now)
  from late(2) obtain rest where "pb_packets (w_buffer w) = p # rest" "pb_packets b = rest"
    by (auto simp: pb_pop_packets)
  with accounted_pop(2) [OF acct] show ?thesis
    by (cases "rest = []") (simp_all add: late(7) dropped_front_def)
next
  case (early clk p d now)
  with acct show ?thesis by simp
next
  case (written clk p b d now e1 k u k')
  from written(2) obtain rest where "pb_packets (w_buffer w) = p # rest" "pb_packets b = rest"
    by (auto simp: pb_pop_packets)
  with accounted_pop(1) [OF acct] show ?thesis
    by (simp add: written(10) played_front_def Let_def)
next
  case (failed clk p b d now e1 k err k' e2)
  show ?thesis using accounted_clear [OF acct] by (simp add: set_error_effect [OF failed(10)])
qed

lemma accounted_drain:
  assumes inv: "worker_inv w" and acct: "books_balance n w"
  shows "books_balance n (fst (drain_ready_packets env w e))"
proof -
  have "case drain_loop env w e of (w', _) \<Rightarrow> worker_inv w' \<and> books_balance n w'"
    by (rule drain_loop_rule) (auto intro: accounted_drain_body worker_inv_drain_body inv acct)
  then show ?thesis using acct
    by (simp add: drain_ready_packets_def case_prod_beta Let_def)
qed

lemma accounted_timeout:
  assumes acct: "books_balance n w"
  shows "books_balance n (fst (check_transport_timeout env w e))"
proof -
  have "books_balance n (fst (handle_disconnect env m r w e))" for m r e
    using handle_disconnect_effect [of env m r w e, OF surjective_pairing] accounted_clear [OF acct]
    by (metis accounted_metrics(1,2))
  with acct show ?thesis
    by (auto simp: check_transport_timeout_def case_prod_beta Let_def split: option.splits)
qed

lemma target_change_effect:
  assumes "handle_playback_target_change env t w e = (w', e')"
  shows "w_metrics w' = w_metrics w" "w_buffer w' = w_buffer w"
proof -
  have "w_metrics (fst (stop_playback_sink env v e)) = w_metrics v"
    "w_buffer (fst (stop_playback_sink env v e)) = w_buffer v" for v e
    by (simp_all add: stop_playback_sink_fields [OF surjective_pairing])
  then show "w_metrics w' = w_metrics w" "w_buffer w' = w_buffer w"
    using assms by (auto simp: handle_playback_target_change_def Let_def case_prod_beta
        split: option.splits sum.splits if_splits)
qed

lemma accounted_step:
  assumes inv: "worker_inv w" and acct: "books_balance n w" and n: "n < 2 ^ 32 - 1"
    and step: "worker_step env r w e = (c, w', e')"
  shows "books_balance (Suc n) w'"
proof -
  have clear: "accounted (Suc n) (w_metrics w) []"
    using accounted_mono [OF accounted_clear [OF acct]] by simp
  have pkt: "books_balance (Suc n) (fst (handle_packet env p w e))" for p e
    using accounted_handle_packet [OF inv acct n] by (metis surjective_pairing)
  have err: "books_balance (Suc n) (fst (set_error env m w e))" for m e
    using set_error_effect(1,2) [of env m w e, OF surjective_pairing] clear by simp
  have dis: "books_balance (Suc n) (fst (handle_disconnect env m r w e))" for m r e
    using handle_disconnect_effect [of env m r w e, OF surjective_pairing] clear by auto
  have con: "books_balance (Suc n) (fst (handle_connect env i w e))" for i e
    using handle_connect_effect [of env i w e, OF surjective_pairing] clear by auto
  have idle: "books_balance (Suc n) w" using acct by (rule accounted_mono) simp
  from step show ?thesis
  proof (cases rule: worker_step_cases)
    case (event ev e1)
    then show ?thesis using pkt err dis con idle
      by (cases ev) (auto simp: handle_transport_event_def case_prod_beta)
  next
    case (target t e1)
    then show ?thesis using idle by (simp add: target_change_effect)
  next
    case (shutdown e1)
    obtain w1 e2 where stop: "stop_playback_sink env w e1 = (w1, e2)" by fastforce
    note f = stop_playback_sink_fields [OF stop]
    show ?thesis using shutdown(3) clear by (auto simp: worker_shutdown_def stop f Let_def)
  next
    case (tick e1)
    have "books_balance n (fst (on_tick env w e1))"
      by (simp add: on_tick_def case_prod_beta accounted_timeout accounted_drain inv acct)
    with tick(3) show ?thesis by (auto intro: accounted_mono)
  qed
qed


lemma worker_run_books:
  assumes "length rs < 2 ^ 32"
  shows "\<exists>m \<le> length rs. books_balance m (fst (snd (worker_run env rs (worker_new config snap) e)))"
proof -
  let ?w = "worker_new config snap"
  have "\<exists>m \<le> 0 + length rs. (worker_inv (fst (snd (worker_run env rs ?w e)))
      \<and> books_balance m (fst (snd (worker_run env rs ?w e))))"
  proof (rule worker_run_induct [where n0 = 0 and ?rs0.0 = rs
        and P = "\<lambda>m w. worker_inv w \<and> books_balance m w"])
    show "worker_inv ?w \<and> books_balance 0 ?w"
      by (simp add: worker_new_inv) (simp add: worker_new_def accounted_def default_metrics_def Let_def)
    show "worker_inv w' \<and> books_balance (Suc n) w'"
      if "worker_inv w \<and> books_balance n w" "n < 0 + length rs" "worker_step env r w e = (c, w', e')"
      for n w e r c w' e'
      using that assms by (auto intro: worker_inv_step accounted_step)
  qed simp_all
  then show ?thesis by auto
qed

theorem worker_run_accounting:
  assumes "length rs < 2 ^ 32"
    and "w = fst (snd (worker_run env rs (worker_new config snap) e))"
  shows "unat (rm_packets_played (w_metrics w)) + unat (rm_overruns (w_metrics w))
        + length (pb_packets (w_buffer w)) \<le> unat (rm_packets_received (w_metrics w))
    \<and> unat (rm_packets_received (w_metrics w)) \<le> length rs
    \<and> unat (rm_frames_played (w_metrics w)) + unat (pb_queued_frames (w_buffer w))
        \<le> unat (rm_frames_received (w_metrics w))"
proof -
  obtain m where "m \<le> length rs" "books_balance m w"
    using worker_run_books [OF assms(1), of env config snap e] assms(2) by auto
  moreover have "pb_inv (w_buffer w)"
    by (simp add: assms(2) worker_run_inv worker_new_inv worker_inv_dest(1))
  ultimately show ?thesis by (simp add: accounted_def pb_inv_def)
qed

section \<open>The playback schedule\<close>

text \<open>
  Any environment extended with a record of its own use: the last clock reading and, for
  every write, the reading before it and the bytes.
\<close>

definition audited ::
  "('w, 's) playback_env \<Rightarrow> ('w \<times> instant \<times> (instant \<times> bytes) list, 's) playback_env" where
  "audited env =
     \<lparr>ev_now = (\<lambda>(e, _, tr). let (now, e') = ev_now env e in (now, e', now, tr)),
      ev_start_stream = (\<lambda>req (e, t, tr). let (r, e') = ev_start_stream env req e in (r, e', t, tr)),
      ev_write = (\<lambda>payload s (e, t, tr).
         let (r, s', e') = ev_write env payload s e in (r, s', e', t, tr @ [(t, payload)])),
      ev_stop = (\<lambda>s (e, t, tr). let (r, e') = ev_stop env s e in (r, e', t, tr))\<rparr>"

lemma audited_now [simp]:
  "ev_now (audited env) (e, t, tr) = (let (now, e') = ev_now env e in (now, e', now, tr))"
  by (simp add: audited_def)

lemma audited_write [simp]:
  "ev_write (audited env) payload s (e, t, tr) =
     (let (r, s', e') = ev_write env payload s e in (r, s', e', t, tr @ [(t, payload)]))"
  by (simp add: audited_def)

lemma audited_stop [simp]:
  "ev_stop (audited env) s (e, t, tr) = (let (r, e') = ev_stop env s e in (r, e', t, tr))"
  by (simp add: audited_def)

text \<open>A write of packet \<open>p\<close> after the clock reading \<open>t\<close>: not early, not too late.\<close>

definition on_schedule ::
  "SyncClock \<Rightarrow> ReceiverLatencyProfile \<Rightarrow> BufferedPacket \<Rightarrow> instant \<times> bytes \<Rightarrow> bool" where
  "on_schedule clk p bp entry =
     (let d = clock_write_deadline clk (pkt_captured_at_ms (bp_packet bp)) (lp_target_buffer_ms p)
      in snd entry = pkt_payload (bp_packet bp) \<and> d \<le> fst entry
         \<and> as_millis (fst entry - d) \<le> unat (lp_late_packet_drop_ms p))"

lemma not_too_late_ms:
  assumes "d \<le> now" "\<not> too_late d now w"
  shows "as_millis (now - d) \<le> unat (lp_late_packet_drop_ms (w_profile w))"
proof -
  let ?l = "lp_late_packet_drop_ms (w_profile w)"
  have "unat ?l < 2 ^ LENGTH(16)" by (rule unsigned_less)
  moreover have "int (min (as_millis (now - d)) (2 ^ 31 - 1)) \<le> uint ?l"
    using assms by (simp add: too_late_def signed_instant_delta_ms_def not_less)
  then have "min (as_millis (now - d)) (2 ^ 31 - 1) \<le> unat ?l"
    by (metis nat_int nat_mono unat_eq_nat_uint)
  ultimately show ?thesis by (simp add: min_def split: if_splits)
qed

lemma stop_playback_sink_log:
  "snd (snd (snd (stop_playback_sink (audited env) w (e, t, tr)))) = tr"
  by (auto simp: stop_playback_sink_def case_prod_beta split: option.splits sum.splits)

lemma set_error_log: "snd (snd (snd (set_error (audited env) m w (e, t, tr)))) = tr"
  by (simp add: set_error_def case_prod_beta stop_playback_sink_log Let_def)


text \<open>The writes of a drain are of a subsequence of the queue, in order, each on schedule.\<close>

definition scheduled_writes ::
  "SyncClock \<Rightarrow> ReceiverLatencyProfile \<Rightarrow> BufferedPacket list \<Rightarrow> (instant \<times> bytes) list \<Rightarrow> bool" where
  "scheduled_writes clk p queue tr \<longleftrightarrow>
     (\<exists>ws. subseq ws queue \<and> list_all2 (on_schedule clk p) ws tr)"

lemma scheduled_nil [simp]: "scheduled_writes clk p q []"
  by (auto simp: scheduled_writes_def intro: exI [of _ "[]"])

lemma scheduled_skip: "scheduled_writes clk p q tr \<Longrightarrow> scheduled_writes clk p (x # q) tr"
  by (auto simp: scheduled_writes_def)

lemma scheduled_write:
  "on_schedule clk p x t \<Longrightarrow> scheduled_writes clk p q tr \<Longrightarrow> scheduled_writes clk p (x # q) (t # tr)"
  unfolding scheduled_writes_def by (metis list.rel_intros(2) subseq_Cons2)

lemma scheduled_one: "on_schedule clk p x t \<Longrightarrow> scheduled_writes clk p (x # q) [t]"
  by (simp add: scheduled_write)

lemma drain_loop_audited:
  "worker_inv w \<Longrightarrow> w_clock w = Some clk \<Longrightarrow>
   \<exists>new. snd (snd (snd (drain_loop (audited env) w (e, t, tr)))) = tr @ new
     \<and> scheduled_writes clk (w_profile w) (pb_packets (w_buffer w)) new"
proof (induction "length (pb_packets (w_buffer w))" arbitrary: w e t tr rule: less_induct)
  case less
  note inv = \<open>worker_inv w\<close> and clk = \<open>w_clock w = Some clk\<close>
  obtain c w' e1 t1 tr1 where body: "drain_body (audited env) w (e, t, tr) = (c, w', e1, t1, tr1)"
    by (metis prod_cases3 surj_pair)
  have loop: "drain_loop (audited env) w (e, t, tr) =
      (if c then drain_loop (audited env) w' (e1, t1, tr1) else (w', e1, t1, tr1))"
    by (simp add: drain_loop.simps [of _ w] body)
  have inv': "worker_inv w'" using inv body by (rule worker_inv_drain_body)
  have IH: "\<exists>new. snd (snd (snd (drain_loop (audited env) w' (e1, t1, tr1)))) = tr1 @ new
      \<and> scheduled_writes clk (w_profile w') (pb_packets (w_buffer w')) new"
    if "w_clock w' = Some clk" c
    using less.hyps [of w'] drain_body_pops [of "audited env" w] body inv' that by simp
  from inv body show ?case
  proof (cases rule: drain_body_cases)
    case empty
    then show ?thesis by (simp add: loop)
  next
    case (late clk' p b d now)
    then obtain rest where q: "pb_packets (w_buffer w) = p # rest" "pb_packets b = rest"
      by (auto simp: pb_pop_packets)
    have "tr1 = tr" using late(4) by (auto simp: case_prod_beta)
    with IH late q clk show ?thesis
      by (cases "rest = []") (auto simp: loop intro: scheduled_skip)
  next
    case (early clk' p d now)
    have "tr1 = tr" using early(4) by (auto simp: case_prod_beta)
    with early(7) show ?thesis by (simp add: loop)
  next
    case (written clk' p b d now e0 k u k')
    then obtain rest where q: "pb_packets (w_buffer w) = p # rest" "pb_packets b = rest"
      by (auto simp: pb_pop_packets)
    obtain e2 t2 tr2 where e0: "e0 = (e2, t2, tr2)" by (metis prod_cases3)
    have tr: "tr1 = tr @ [(now, pkt_payload (bp_packet p))]"
      using written(4,9) by (auto simp: e0 case_prod_beta)
    have "on_schedule clk (w_profile w) p (now, pkt_payload (bp_packet p))"
      using written clk not_too_late_ms [of d now w] by (simp add: on_schedule_def)
    with IH written q clk tr show ?thesis
      by (auto simp: loop intro: scheduled_write)
  next
    case (failed clk' p b d now e0 k err k' e3)
    then obtain rest where q: "pb_packets (w_buffer w) = p # rest" "pb_packets b = rest"
      by (auto simp: pb_pop_packets)
    obtain e2 t2 tr2 where e0: "e0 = (e2, t2, tr2)" by (metis prod_cases3)
    obtain e4 t4 tr4 where e3: "e3 = (e4, t4, tr4)" by (metis prod_cases3)
    have "tr4 = tr @ [(now, pkt_payload (bp_packet p))]"
      using failed(4,9) by (auto simp: e0 e3 case_prod_beta)
    moreover have "tr1 = tr4"
      using failed(10) set_error_log [of env _ _ e4 t4 tr4] unfolding e3 by (metis snd_conv)
    moreover have "on_schedule clk (w_profile w) p (now, pkt_payload (bp_packet p))"
      using failed clk not_too_late_ms [of d now w] by (simp add: on_schedule_def)
    ultimately show ?thesis using failed q by (auto simp: loop intro: scheduled_one)
  qed
qed

lemma drain_audited:
  assumes "worker_inv w"
  shows "snd (snd (snd (drain_ready_packets (audited env) w (e, t, [])))) = []
    \<or> (\<exists>clk. w_clock w = Some clk \<and> scheduled_writes clk (w_profile w) (pb_packets (w_buffer w))
        (snd (snd (snd (drain_ready_packets (audited env) w (e, t, []))))))"
  using assms drain_loop_audited [OF assms, of _ env e t "[]"]
  by (cases "w_clock w") (auto simp: drain_ready_packets_def Let_def)

text \<open>
  C13: Whatever the clock and the sink do, a drain writes a subsequence of the queued packets, in queue order,
  and each write comes after a clock reading that is not before the packet's deadline and not more than
  late_packet_drop_ms after it.
\<close>

theorem drain_writes_on_schedule:
  assumes "worker_inv w"
    and "drain_ready_packets (audited env) w (e, t, []) = (w', e', t', tr)"
  shows "tr = [] \<or> (\<exists>clk. w_clock w = Some clk
    \<and> scheduled_writes clk (w_profile w) (pb_packets (w_buffer w)) tr)"
  using drain_audited [OF assms(1), of env e t] assms(2) by simp


section \<open>What one drain plays\<close>

text \<open>
  A playback backend that always works, writes to a tape and is read at a fixed time: the
  world is the time and the tape.
\<close>

definition tape_env :: "(instant \<times> bytes list, unit) playback_env" where
  "tape_env =
     \<lparr>ev_now = (\<lambda>(t, tape). (t, t, tape)),
      ev_start_stream = (\<lambda>_ e. (Inr (), e)),
      ev_write = (\<lambda>payload s (t, tape). (Inr (), s, t, tape @ [payload])),
      ev_stop = (\<lambda>_ e. (Inr (), e))\<rparr>"

lemma tape_env_simps [simp]:
  "ev_now tape_env (t, tape) = (t, t, tape)" "ev_start_stream tape_env r e = (Inr (), e)"
  "ev_write tape_env payload s (t, tape) = (Inr (), s, t, tape @ [payload])"
  "ev_stop tape_env s e = (Inr (), e)"
  by (simp_all add: tape_env_def)

definition due :: "SyncClock \<Rightarrow> ReceiverLatencyProfile \<Rightarrow> instant \<Rightarrow> BufferedPacket \<Rightarrow> bool" where
  "due clk p t bp \<longleftrightarrow>
     clock_write_deadline clk (pkt_captured_at_ms (bp_packet bp)) (lp_target_buffer_ms p) \<le> t"

definition punctual :: "SyncClock \<Rightarrow> ReceiverLatencyProfile \<Rightarrow> instant \<Rightarrow> BufferedPacket \<Rightarrow> bool" where
  "punctual clk p t bp \<longleftrightarrow>
     as_millis (t - clock_write_deadline clk (pkt_captured_at_ms (bp_packet bp)) (lp_target_buffer_ms p))
       \<le> unat (lp_late_packet_drop_ms p)"

lemma too_late_iff:
  "too_late d now w \<longleftrightarrow> d \<le> now \<and> unat (lp_late_packet_drop_ms (w_profile w)) < as_millis (now - d)"
proof (cases "d \<le> now")
  case True
  let ?l = "lp_late_packet_drop_ms (w_profile w)"
  have "unat ?l < 2 ^ LENGTH(16)" by (rule unsigned_less)
  then have "unat ?l < min (as_millis (now - d)) (2 ^ 31 - 1) \<longleftrightarrow> unat ?l < as_millis (now - d)"
    by simp
  moreover have "uint ?l = int (unat ?l)" by simp
  ultimately have "uint ?l < int (min (as_millis (now - d)) (2 ^ 31 - 1)) \<longleftrightarrow> unat ?l < as_millis (now - d)"
    by (simp only: of_nat_less_iff)
  with True show ?thesis by (simp add: too_late_def signed_instant_delta_ms_def)
next
  case False
  have "0 \<le> uint (lp_late_packet_drop_ms (w_profile w))"
    "0 \<le> int (min (as_millis (d - now)) (2 ^ 31 - 1))" by simp_all
  then have "\<not> uint (lp_late_packet_drop_ms (w_profile w)) < - int (min (as_millis (d - now)) (2 ^ 31 - 1))"
    by linarith
  with False show ?thesis by (simp add: too_late_def signed_instant_delta_ms_def)
qed

definition drained :: "SyncClock \<Rightarrow> ReceiverLatencyProfile \<Rightarrow> instant \<Rightarrow> BufferedPacket list \<Rightarrow> bytes list" where
  "drained clk p t q =
     map (\<lambda>bp. pkt_payload (bp_packet bp)) (filter (punctual clk p t) (takeWhile (due clk p t) q))"

lemma drain_loop_tape:
  "worker_inv w \<Longrightarrow> w_clock w = Some clk \<Longrightarrow>
   snd (drain_loop tape_env w (t, tape)) = (t, tape @ drained clk (w_profile w) t (pb_packets (w_buffer w)))
   \<and> pb_packets (w_buffer (fst (drain_loop tape_env w (t, tape)))) =
       dropWhile (due clk (w_profile w) t) (pb_packets (w_buffer w))"
proof (induction "length (pb_packets (w_buffer w))" arbitrary: w tape rule: less_induct)
  case less
  note inv = \<open>worker_inv w\<close> and clk = \<open>w_clock w = Some clk\<close>
  obtain c w' t1 tape1 where body: "drain_body tape_env w (t, tape) = (c, w', t1, tape1)"
    by (metis prod_cases3 surj_pair)
  have loop: "drain_loop tape_env w (t, tape) =
      (if c then drain_loop tape_env w' (t1, tape1) else (w', t1, tape1))"
    by (simp add: drain_loop.simps [of _ w] body)
  have inv': "worker_inv w'" using inv body by (rule worker_inv_drain_body)
  have IH: "snd (drain_loop tape_env w' (t, tape1))
        = (t, tape1 @ drained clk (w_profile w') t (pb_packets (w_buffer w')))
      \<and> pb_packets (w_buffer (fst (drain_loop tape_env w' (t, tape1)))) =
        dropWhile (due clk (w_profile w') t) (pb_packets (w_buffer w'))"
    if "w_clock w' = Some clk" c
    using less.hyps [of w'] drain_body_pops [of tape_env w] body inv' that by simp
  from inv body show ?case
  proof (cases rule: drain_body_cases)
    case empty
    then show ?thesis by (simp add: loop drained_def)
  next
    case (late clk' p b d now)
    then obtain rest where q: "pb_packets (w_buffer w) = p # rest" "pb_packets b = rest"
      by (auto simp: pb_pop_packets)
    have "t1 = t" "tape1 = tape" "now = t" using late(4) by auto
    moreover have "due clk (w_profile w) t p" "\<not> punctual clk (w_profile w) t p"
      using late(3,5) clk late(1) \<open>now = t\<close> by (auto simp: too_late_iff due_def punctual_def)
    moreover have w': "w_clock w' = Some clk" "w_profile w' = w_profile w" "pb_packets (w_buffer w') = rest"
      if c using late(6,7) that clk q by simp_all
    moreover have "pb_packets (w_buffer w') = []" "rest = []" if "\<not> c" using late(6,7) that q by simp_all
    ultimately show ?thesis using IH [OF w'(1)] q(1) by (cases c) (simp_all add: loop drained_def)
  next
    case (early clk' p d now)
    then obtain rest where q: "pb_packets (w_buffer w) = p # rest" by (auto simp: pb_front_Some)
    have "t1 = t" "tape1 = tape" "now = t" using early(4) by auto
    moreover have "\<not> due clk (w_profile w) t p" using early clk \<open>now = t\<close> by (auto simp: due_def)
    ultimately show ?thesis using early(7,8) q by (simp add: loop drained_def)
  next
    case (written clk' p b d now e0 k u k')
    then obtain rest where q: "pb_packets (w_buffer w) = p # rest" "pb_packets b = rest"
      by (auto simp: pb_pop_packets)
    have e0: "e0 = (t, tape)" "now = t" using written(4) by auto
    then have "t1 = t" "tape1 = tape @ [pkt_payload (bp_packet p)]" using written(9) by auto
    moreover have "due clk (w_profile w) t p" "punctual clk (w_profile w) t p"
      using written(3,5,6) clk written(1) e0 by (auto simp: too_late_iff due_def punctual_def)
    moreover have w': "w_clock w' = Some clk" "w_profile w' = w_profile w" "pb_packets (w_buffer w') = rest"
      using written(10) clk q by simp_all
    ultimately show ?thesis using IH [OF w'(1) written(7)] written(7) q(1)
      by (simp add: loop drained_def w')
  next
    case (failed clk' p b d now e0 k err k' e3)
    then show ?thesis by auto
  qed
qed

lemma drain_tape:
  assumes "worker_inv w" "w_clock w = Some clk"
    and "w_next_deadline w \<noteq> None \<or> pb_is_ready (w_buffer w)"
  shows "drain_ready_packets tape_env w e = drain_loop tape_env w e"
  using worker_inv_connected_clock [OF assms(1,2)] assms by (auto simp: drain_ready_packets_def)

theorem drain_plays_due_packets:
  assumes "worker_inv w" "w_clock w = Some clk"
    and "w_next_deadline w \<noteq> None \<or> pb_is_ready (w_buffer w)"
    and "drain_ready_packets tape_env w (t, tape) = (w', t', tape')"
  shows "tape' = tape @ drained clk (w_profile w) t (pb_packets (w_buffer w))
    \<and> pb_packets (w_buffer w') = dropWhile (due clk (w_profile w) t) (pb_packets (w_buffer w))"
  using drain_loop_tape [OF assms(1,2), of t tape] assms(4) by (simp add: drain_tape [OF assms(1-3)])


section \<open>Timeouts, recovery, shutdown\<close>

lemma setter_activity [simp]:
  "w_profile (set_fill w) = w_profile w" "w_last_activity (set_fill w) = w_last_activity w"
  "w_profile (reset_sync_timeline c w) = w_profile w"
  "w_last_activity (reset_sync_timeline c w) = w_last_activity w"
  "w_connection (reset_sync_timeline c w) = w_connection w" "w_connection (set_fill w) = w_connection w"
  "w_connection (refresh_sync_buffer_metrics w) = w_connection w"
  "w_sink (refresh_sync_buffer_metrics w) = w_sink w"
  "w_state (refresh_sync_buffer_metrics w) = w_state w"
  "w_last_error (refresh_sync_buffer_metrics w) = w_last_error w"
  "w_connection (sync_snapshot w) = w_connection w" "w_sink (sync_snapshot w) = w_sink w"
  "w_state (sync_snapshot w) = w_state w" "w_last_error (sync_snapshot w) = w_last_error w"
  by (simp_all add: worker_setters Let_def)

text \<open>A drain ends the session with an error or leaves the activity clock alone.\<close>

definition ended_in_error :: "'s ReceiverWorker \<Rightarrow> bool" where
  "ended_in_error w \<longleftrightarrow> w_connection w = None \<and> w_sink w = None \<and> pb_packets (w_buffer w) = []
     \<and> w_state w = ReceiverServiceState.Error \<and> w_last_error w \<noteq> None"

definition same_session :: "'s ReceiverWorker \<Rightarrow> 's ReceiverWorker \<Rightarrow> bool" where
  "same_session w w' \<longleftrightarrow> w_profile w' = w_profile w \<and> w_last_activity w' = w_last_activity w
     \<and> w_connection w' = w_connection w"

lemma same_session_simps [simp]: "same_session w w" "same_session w (set_state s w') = same_session w w'"
  "same_session w (set_sync_state y w') = same_session w w'"
  "same_session w (w_sync_update f w') = same_session w w'"
  by (simp_all add: same_session_def)

lemma drain_body_session:
  assumes inv: "worker_inv w" and body: "drain_body env w e = (c, w', e')"
  shows "same_session w w' \<or> (ended_in_error w' \<and> \<not> c)"
  using inv body
proof (cases rule: drain_body_cases)
  case (failed clk p b d now e1 k err k' e2)
  then show ?thesis by (simp add: ended_in_error_def set_error_effect [OF failed(10)])
qed (simp_all add: same_session_def)

lemma drain_loop_session:
  "worker_inv w \<Longrightarrow> same_session w (fst (drain_loop env w e)) \<or> ended_in_error (fst (drain_loop env w e))"
proof (induction "length (pb_packets (w_buffer w))" arbitrary: w e rule: less_induct)
  case less
  obtain c w' e' where body: "drain_body env w e = (c, w', e')" by (metis prod_cases3)
  note step = drain_body_session [OF less.prems body]
  show ?case
  proof (cases c)
    case True
    with less.hyps [of w' e'] drain_body_pops [of env w e w' e'] body step
      worker_inv_drain_body [OF less.prems body]
    show ?thesis by (auto simp: drain_loop.simps [of env w] same_session_def)
  next
    case False
    with body step show ?thesis by (auto simp: drain_loop.simps [of env w])
  qed
qed

lemma drain_session:
  assumes "worker_inv w"
  shows "same_session w (fst (drain_ready_packets env w e))
    \<or> ended_in_error (fst (drain_ready_packets env w e))"
  using drain_loop_session [OF assms, of env e] by (simp add: drain_ready_packets_def Let_def)

theorem stale_connection_is_dropped:
  assumes "worker_inv w" "w_connection w \<noteq> None" "w_last_activity w = Some a"
    and late: "\<forall>e. a + lp_reconnect_grace_period (w_profile w) \<le> fst (ev_now env e)"
    and tick: "on_tick env w e = (w', e')"
  shows "w_connection w' = None \<and> w_sink w' = None \<and> pb_packets (w_buffer w') = []
    \<and> w_state w' \<in> {Listening, ReceiverServiceState.Error} \<and> w_last_error w' \<noteq> None"
proof -
  obtain w1 e1 where drain: "drain_ready_packets env w e = (w1, e1)" by fastforce
  obtain w2 e2 where check: "check_transport_timeout env w1 e1 = (w2, e2)" by fastforce
  have inv1: "worker_inv w1" using worker_inv_drain [OF assms(1), of env e] drain by simp
  consider "same_session w w1" | "ended_in_error w1"
    using drain_session [OF assms(1), of env e] drain by auto
  then have "w_connection w2 = None \<and> w_sink w2 = None \<and> pb_packets (w_buffer w2) = []
    \<and> w_state w2 \<in> {Listening, ReceiverServiceState.Error} \<and> w_last_error w2 \<noteq> None"
  proof cases
    case 1
    obtain now e3 where now: "ev_now env e1 = (now, e3)" by fastforce
    with late have "a + lp_reconnect_grace_period (w_profile w) \<le> now" by (metis fst_conv)
    then have "lp_reconnect_grace_period (w_profile w) \<le> now - a" by simp
    with 1 assms(2,3) obtain c where "w_connection w1 = Some c" "w_profile w1 = w_profile w"
      "w_last_activity w1 = Some a" by (auto simp: same_session_def)
    with \<open>lp_reconnect_grace_period (w_profile w) \<le> now - a\<close> have "check_transport_timeout env w1 e1
        = handle_disconnect env ''receiver transport timed out'' True w1 e3"
      by (simp add: check_transport_timeout_def now)
    with check have dis: "handle_disconnect env ''receiver transport timed out'' True w1 e3 = (w2, e2)"
      by simp
    show ?thesis
      using worker_inv_disconnect [OF inv1 dis] handle_disconnect_effect(1) [OF dis] by simp
  next
    case 2
    then have "w2 = w1" using check
      by (auto simp: check_transport_timeout_def ended_in_error_def split: option.splits)
    with 2 show ?thesis by (simp add: ended_in_error_def)
  qed
  moreover have "w' = sync_snapshot (refresh_sync_buffer_metrics w2)"
    using tick by (simp add: on_tick_def drain check)
  ultimately show ?thesis by simp
qed


text \<open>A connection is accepted in every state, whatever happened before.\<close>

theorem connect_recovers:
  assumes "worker_inv w"
    and start: "\<forall>req e. \<exists>k e'. ev_start_stream env req e = (Inr k, e')"
    and "handle_transport_event env (Connected c) w e = (w', e')"
  shows "w_state w' = ReceiverServiceState.Connected \<and> w_connection w' = Some c
    \<and> w_buffer w' = pb_new (w_profile w) (ci_stream c) \<and> w_last_error w' = None \<and> worker_inv w'"
proof -
  obtain w1 e1 where stop: "stop_playback_sink env w e = (w1, e1)" by fastforce
  note f = stop_playback_sink_fields [OF stop]
  obtain k e2 where start: "ev_start_stream env \<lparr>req_stream = ci_stream c,
      req_target_id = rc_playback_target_id (w_config w),
      req_latency_ms = lp_playback_latency_ms (w_profile w)\<rparr> e1 = (Inr k, e2)" using start by blast
  obtain now e3 where now: "ev_now env e2 = (now, e3)" by fastforce
  obtain w3 where "handle_connect env c w e = (w3, e3)" "w' = sync_snapshot w3"
    and "w_state w3 = ReceiverServiceState.Connected" "w_connection w3 = Some c"
      "w_buffer w3 = pb_new (w_profile w) (ci_stream c)" "w_last_error w3 = None"
    using assms(3)
    by (auto simp: handle_transport_event_def handle_connect_def stop f start now
        reset_sync_timeline_def Let_def)
  with worker_inv_connect [OF assms(1)] show ?thesis by simp
qed

lemma worker_run_stopped:
  "r = Received Shutdown \<or> r = ChannelDisconnected \<Longrightarrow> worker_inv w \<Longrightarrow> r \<in> set rs \<Longrightarrow>
   worker_run env rs w e = (c, w', e') \<Longrightarrow>
   \<not> c \<and> w_state w' = ReceiverServiceState.Idle \<and> w_sink w' = None \<and> w_connection w' = None
     \<and> pb_packets (w_buffer w') = []"
proof (induction rs arbitrary: w e)
  case (Cons q qs)
  obtain d w1 e1 where step: "worker_step env q w e = (d, w1, e1)" by (metis prod_cases3)
  then show ?case
  proof (cases rule: worker_step_cases)
    case (shutdown e2)
    with Cons.prems step show ?thesis
      using worker_inv_shutdown [OF Cons.prems(2) shutdown(3)] by auto
  qed (use Cons step worker_inv_step [OF Cons.prems(2) step] in auto)
qed simp

text \<open>
  C40: A run that meets a shutdown command or a closed channel ends, in the Idle state with the sink, the connection
  and the queued packets released; what comes after in the channel is not handled.
\<close>

theorem worker_run_shutdown_releases:
  assumes "Received Shutdown \<in> set rs \<or> ChannelDisconnected \<in> set rs"
    and "worker_run env rs (worker_new config snap) e = (c, w', e')"
  shows "\<not> c \<and> w_state w' = ReceiverServiceState.Idle \<and> w_sink w' = None \<and> w_connection w' = None
    \<and> pb_packets (w_buffer w') = []"
  using assms(1)
proof
  assume "Received Shutdown \<in> set rs"
  from worker_run_stopped [OF _ worker_new_inv this assms(2)] show ?thesis by simp
next
  assume "ChannelDisconnected \<in> set rs"
  from worker_run_stopped [OF _ worker_new_inv this assms(2)] show ?thesis by simp
qed

text \<open>
  Only a tick plays: a run in which the channel never ran dry for a whole wait has played
  nothing, however many packets it received.
\<close>

lemma step_without_tick:
  assumes inv: "worker_inv w" and step: "worker_step env r w e = (c, w', e')" and "r \<noteq> Timeout"
  shows "rm_packets_played (w_metrics w') = rm_packets_played (w_metrics w)"
proof -
  have pkt: "rm_packets_played (w_metrics (fst (handle_packet env p w e))) = rm_packets_played (w_metrics w)"
    for p e
  proof (cases "w_connection w")
    case None
    then show ?thesis by (simp add: handle_packet_ignored)
  next
    case (Some i)
    obtain now e1 where now: "ev_now env e = (now, e1)" by fastforce
    show ?thesis
    proof (cases "frame_count p (ci_stream i)")
      case (Inl m)
      show ?thesis
        using set_error_effect(1) [OF surjective_pairing, of env m "anchored p now w" e1]
        by (simp add: handle_packet_rejected [OF Some now Inl])
    next
      case (Inr k)
      obtain out b where push: "pb_enqueue \<lparr>bp_packet = p, bp_frame_count = k\<rparr> (w_buffer w) = (out, b)"
        by fastforce
      show ?thesis by (simp add: handle_packet_stored [OF Some now Inr push] stored_def)
    qed
  qed
  have dis: "rm_packets_played (w_metrics (fst (handle_disconnect env m q w e))) = rm_packets_played (w_metrics w)"
    for m q e using handle_disconnect_effect(2) [OF surjective_pairing, of env m q w e] by auto
  have con: "rm_packets_played (w_metrics (fst (handle_connect env i w e))) = rm_packets_played (w_metrics w)"
    for i e using handle_connect_effect(2) [OF surjective_pairing, of env i w e] by auto
  from step show ?thesis
  proof (cases rule: worker_step_cases)
    case (event ev e1)
    then show ?thesis using pkt dis con
      by (cases ev) (auto simp: handle_transport_event_def case_prod_beta
          set_error_effect(1) [OF surjective_pairing])
  next
    case (target t e1)
    then show ?thesis by (simp add: target_change_effect(1))
  next
    case (shutdown e1)
    then show ?thesis
      by (auto simp: worker_shutdown_def case_prod_beta Let_def
          stop_playback_sink_fields [OF surjective_pairing])
  next
    case (tick e1)
    with assms(3) show ?thesis by simp
  qed
qed

theorem only_ticks_play:
  assumes "Timeout \<notin> set rs"
  shows "rm_packets_played (w_metrics (fst (snd (worker_run env rs (worker_new config snap) e)))) = 0"
proof -
  let ?w = "worker_new config snap" and ?P = "\<lambda>_ w. worker_inv w \<and> rm_packets_played (w_metrics w) = 0"
  have "\<exists>m \<le> 0 + length rs. ?P m (fst (snd (worker_run env rs ?w e)))"
  proof (rule worker_run_induct [where n0 = 0 and ?rs0.0 = rs and P = ?P])
    show "worker_inv ?w \<and> rm_packets_played (w_metrics ?w) = 0"
      by (simp add: worker_new_inv) (simp add: worker_new_def default_metrics_def Let_def)
    show "worker_inv w' \<and> rm_packets_played (w_metrics w') = 0"
      if "worker_inv w \<and> rm_packets_played (w_metrics w) = 0" "r \<in> set rs"
        "worker_step env r w e = (c, w', e')" for w e r c w' e'
      using that assms worker_inv_step step_without_tick by metis
  qed simp_all
  then show ?thesis by auto
qed

section \<open>Witnesses\<close>

text \<open>A worker with eight packets of 10 ms queued, anchored at time 0, for the witnesses.\<close>

definition demo_stream :: ReceiverStreamConfig where
  "demo_stream = \<lparr>sc_sample_rate_hz = 1000, sc_channels = 1, sc_sample_format = S16Le,
     sc_frames_per_packet = 10\<rparr>"

definition demo_connection :: ReceiverConnectionInfo where
  "demo_connection = \<lparr>ci_session_id = ''s'', ci_remote_addr = None, ci_stream = demo_stream,
     ci_requested_latency_ms = 0\<rparr>"

definition demo_packet :: "nat \<Rightarrow> BufferedPacket" where
  "demo_packet i = \<lparr>bp_packet = \<lparr>pkt_sequence = of_nat i, pkt_captured_at_ms = of_nat (10 * i),
     pkt_captured_at_unix_ms = 0, pkt_payload = replicate 20 (of_nat i)\<rparr>, bp_frame_count = 10\<rparr>"

definition demo_buffer :: ReceiverPacketBuffer where
  "demo_buffer = \<lparr>pb_packets = map demo_packet [0..<8], pb_queued_frames = 80,
     pb_sample_rate_hz = 1000, pb_target_buffer_ms = 70, pb_max_buffer_ms = 210,
     pb_start_threshold_packets = 7, pb_max_packets = 21\<rparr>"

definition demo_worker :: "unit ReceiverWorker" where
  "demo_worker = (worker_new default_receiver_config
       (receiver_snapshot_from_config default_receiver_config))
     \<lparr>w_sink := Some (), w_connection := Some demo_connection, w_state := Buffering,
      w_buffer := demo_buffer, w_last_activity := Some 0,
      w_clock := Some \<lparr>clk_anchor_local_instant = 0, clk_anchor_sender_timestamp_ms = 0\<rparr>,
      w_next_deadline := Some 70000000\<rparr>"

lemma demo_worker_fields [simp]:
  "w_profile demo_worker = profile Balanced" "w_buffer demo_worker = demo_buffer"
  "w_sink demo_worker = Some ()" "w_connection demo_worker = Some demo_connection"
  "w_clock demo_worker = Some \<lparr>clk_anchor_local_instant = 0, clk_anchor_sender_timestamp_ms = 0\<rparr>"
  "w_next_deadline demo_worker = Some 70000000" "w_state demo_worker = Buffering"
  "w_last_activity demo_worker = Some 0"
  by (simp_all add: demo_worker_def worker_new_def default_receiver_config_def Let_def
      sync_snapshot_def del: profile.simps)

lemma demo_buffer_inv: "pb_inv demo_buffer"
  by (simp add: pb_inv_def demo_buffer_def demo_packet_def upt_rec)

lemma demo_worker_inv: "worker_inv demo_worker"
  by (auto simp: worker_inv_def demo_buffer_inv simp del: profile.simps)

theorem worker_run_accounting_witness:
  "unat (rm_packets_received (w_metrics (fst (snd (worker_run tape_env
      [Received (Transport (Connected demo_connection)), Timeout]
      (worker_new default_receiver_config (receiver_snapshot_from_config default_receiver_config))
      (0, [])))))) \<le> 2"
  using worker_run_accounting [OF _ refl, of "[Received (Transport (Connected demo_connection)), Timeout]"
      tape_env default_receiver_config "receiver_snapshot_from_config default_receiver_config" "(0, [])"]
  by simp

lemma demo_deadline:
  assumes "i < 8"
  shows "clock_write_deadline \<lparr>clk_anchor_local_instant = 0, clk_anchor_sender_timestamp_ms = 0\<rparr>
    (pkt_captured_at_ms (bp_packet (demo_packet i))) 70 = 10000000 * i + 70000000"
proof -
  have "unat (of_nat (10 * i) :: u64) = 10 * i" using assms by (simp add: unat_of_nat del: of_nat_mult)
  with assms show ?thesis
    by (simp add: clock_write_deadline_def demo_packet_def from_millis_def unat_sat_add unat_sat_sub
        del: of_nat_mult)
qed

theorem drain_plays_due_packets_witness:
  "snd (snd (drain_ready_packets tape_env demo_worker (130000000, []))) =
     [replicate 20 2, replicate 20 3, replicate 20 4, replicate 20 5, replicate 20 6]
   \<and> length (pb_packets (w_buffer (fst (drain_ready_packets tape_env demo_worker (130000000, []))))) = 1"
proof -
  obtain w' t' tape' where run: "drain_ready_packets tape_env demo_worker (130000000, []) = (w', t', tape')"
    by (metis prod_cases3)
  have "pb_packets demo_buffer = map demo_packet [0..<8]" by (simp add: demo_buffer_def)
  with drain_plays_due_packets [OF demo_worker_inv _ _ run] show ?thesis
    by (simp add: run drained_def due_def punctual_def demo_deadline upt_rec as_millis_def)
      (simp add: demo_packet_def)
qed

theorem drain_writes_on_schedule_witness:
  "\<exists>tr. snd (snd (snd (drain_ready_packets (audited tape_env) demo_worker ((130000000, []), 0, [])))) = tr
     \<and> (tr = [] \<or> scheduled_writes \<lparr>clk_anchor_local_instant = 0, clk_anchor_sender_timestamp_ms = 0\<rparr>
          (profile Balanced) (map demo_packet [0..<8]) tr)"
proof -
  obtain w' e' t' tr where run: "drain_ready_packets (audited tape_env) demo_worker ((130000000, []), 0, [])
      = (w', e', t', tr)" by (metis prod_cases4)
  have "pb_packets demo_buffer = map demo_packet [0..<8]" by (simp add: demo_buffer_def)
  with drain_writes_on_schedule [OF demo_worker_inv run] show ?thesis
    by (simp add: run del: profile.simps)
qed

definition late_env :: "(instant \<times> bytes list, unit) playback_env" where
  "late_env = tape_env\<lparr>ev_now := \<lambda>e. (9000000000, e)\<rparr>"

lemma late_env_now [simp]: "ev_now late_env e = (9000000000, e)"
  by (simp add: late_env_def)

theorem stale_connection_is_dropped_witness:
  "w_connection (fst (on_tick late_env demo_worker (0, []))) = None
   \<and> w_state (fst (on_tick late_env demo_worker (0, []))) \<in> {Listening, ReceiverServiceState.Error}"
proof -
  obtain w' e' where run: "on_tick late_env demo_worker (0, []) = (w', e')" by (metis surj_pair)
  show ?thesis
    using stale_connection_is_dropped [OF demo_worker_inv _ _ _ run, of 0]
    by (simp add: run from_millis_def)
qed

theorem connect_recovers_witness:
  "w_state (fst (handle_transport_event tape_env (Connected demo_connection) demo_worker (0, [])))
     = ReceiverServiceState.Connected"
proof -
  obtain w' e' where run: "handle_transport_event tape_env (Connected demo_connection) demo_worker (0, [])
      = (w', e')" by (metis surj_pair)
  show ?thesis using connect_recovers [OF demo_worker_inv _ run] by (simp add: run)
qed

theorem worker_run_shutdown_releases_witness:
  "w_state (fst (snd (worker_run tape_env [Received (Transport (Connected demo_connection)),
      Received Shutdown, Timeout] (worker_new default_receiver_config
        (receiver_snapshot_from_config default_receiver_config)) (0, [])))) = ReceiverServiceState.Idle"
  (is "w_state (fst (snd ?run)) = _")
proof -
  obtain c w' e' where run: "?run = (c, w', e')" by (metis prod_cases3)
  show ?thesis using worker_run_shutdown_releases [OF _ run] unfolding run by simp
qed

theorem only_ticks_play_witness:
  "rm_packets_played (w_metrics (fst (snd (worker_run tape_env
     (Received (Transport (Connected demo_connection)) #
      map (\<lambda>i. Received (Transport (AudioPacket (bp_packet (demo_packet i))))) [0..<1000])
     (worker_new default_receiver_config (receiver_snapshot_from_config default_receiver_config))
     (0, []))))) = 0"
  by (rule only_ticks_play) auto

end
