(* ===== verification/Receiver_Runtime.thy ===== *)
theory Receiver_Runtime
  imports Receiver_Properties
begin

text \<open>
  \<open>ReceiverRuntime\<close> of \<open>synchrosonic-receiver/src/service.rs\<close>: the handle the application
  holds, with the command channel and the worker thread behind it. The channel is the list of
  messages that were sent and not received; the snapshot is the value in the shared mutex,
  which the worker reads and writes when it is polled. A poll of the thread is one iteration
  of its loop, so a run of operations and polls is an interleaving of the two threads.
\<close>

datatype 's worker_thread = Booting ReceiverConfig | Running "'s ReceiverWorker"

record 's ReceiverRuntime =
  rt_config :: ReceiverConfig
  rt_backend_name :: string
  rt_snapshot :: ReceiverSnapshot
  rt_command_tx :: "ReceiverCommand list option"
  rt_worker :: "'s worker_thread option"

definition runtime_fresh_snapshot :: "ReceiverConfig \<Rightarrow> string \<Rightarrow> ReceiverSnapshot" where
  "runtime_fresh_snapshot config backend =
     (receiver_snapshot_from_config config)\<lparr>rsn_playback_backend := Some backend\<rparr>"

definition runtime_new :: "ReceiverConfig \<Rightarrow> string \<Rightarrow> 's ReceiverRuntime" where
  "runtime_new config backend =
     \<lparr>rt_config = config, rt_backend_name = backend,
      rt_snapshot = runtime_fresh_snapshot config backend,
      rt_command_tx = None, rt_worker = None\<rparr>"

text \<open>\<open>send\<close> on the channel fails when the receiving thread is gone.\<close>

definition runtime_send ::
  "ReceiverCommand \<Rightarrow> ReceiverCommand list \<Rightarrow> 's ReceiverRuntime \<Rightarrow> (ReceiverError + unit) \<times> 's ReceiverRuntime"
  where
  "runtime_send cmd queue rt =
     (if rt_worker rt = None then (Inl ReceiverChannelClosed, rt)
      else (Inr (), rt\<lparr>rt_command_tx := Some (queue @ [cmd])\<rparr>))"

definition runtime_set_playback_target ::
  "string option \<Rightarrow> 's ReceiverRuntime \<Rightarrow> (ReceiverError + unit) \<times> 's ReceiverRuntime" where
  "runtime_set_playback_target target_id rt =
     (let rt1 = rt\<lparr>rt_config := (rt_config rt)\<lparr>rc_playback_target_id := target_id\<rparr>\<rparr>;
          (sent, rt2) = (case rt_command_tx rt1 of
             Some queue \<Rightarrow> runtime_send (SetPlaybackTarget target_id) queue rt1
           | None \<Rightarrow> (Inr (), rt1))
      in case sent of
           Inl e \<Rightarrow> (Inl e, rt2)
         | Inr _ \<Rightarrow>
             (let s = (rt_snapshot rt2)\<lparr>rsn_playback_target_id := target_id\<rparr>
              in (Inr (), rt2\<lparr>rt_snapshot :=
                    (if rsn_state s = ReceiverServiceState.Idle then s\<lparr>rsn_last_error := None\<rparr> else s)\<rparr>)))"

definition runtime_set_latency_preset ::
  "ReceiverLatencyPreset \<Rightarrow> 's ReceiverRuntime \<Rightarrow> (ReceiverError + unit) \<times> 's ReceiverRuntime" where
  "runtime_set_latency_preset preset rt =
     (if rt_command_tx rt \<noteq> None then
        (Inl (ReceiverError.InvalidConfig ''changing the receiver latency preset while receiver mode is active is not supported yet''), rt)
      else
        (let config = (rt_config rt)\<lparr>rc_latency_preset := preset\<rparr>
         in (Inr (), rt\<lparr>rt_config := config,
               rt_snapshot := runtime_fresh_snapshot config (rt_backend_name rt)\<rparr>)))"

definition runtime_start :: "'s ReceiverRuntime \<Rightarrow> (ReceiverError + unit) \<times> 's ReceiverRuntime" where
  "runtime_start rt =
     (if \<not> rc_enabled (rt_config rt) then
        (Inl (ReceiverError.Disabled ''receiver mode is disabled in the current configuration''), rt)
      else if rt_command_tx rt \<noteq> None then (Inr (), rt)
      else (Inr (), rt\<lparr>rt_snapshot := (rt_snapshot rt)\<lparr>rsn_state := Listening, rsn_last_error := None\<rparr>,
              rt_worker := Some (Booting (rt_config rt)), rt_command_tx := Some []\<rparr>))"

definition runtime_submit_transport_event ::
  "ReceiverTransportEvent \<Rightarrow> 's ReceiverRuntime \<Rightarrow> (ReceiverError + unit) \<times> 's ReceiverRuntime" where
  "runtime_submit_transport_event event rt =
     (case rt_command_tx rt of
        None \<Rightarrow> (Inl ReceiverError.NotStarted, rt)
      | Some queue \<Rightarrow> runtime_send (Transport event) queue rt)"

text \<open>
  The worker thread: it boots (\<open>ReceiverWorker::new\<close>), then receives the oldest message, or
  times out when there is none. The shared snapshot is written back.
\<close>

definition thread_worker :: "ReceiverSnapshot \<Rightarrow> 's worker_thread \<Rightarrow> 's ReceiverWorker" where
  "thread_worker snap th =
     (case th of Booting config \<Rightarrow> worker_new config snap | Running w \<Rightarrow> w\<lparr>w_snapshot := snap\<rparr>)"

definition runtime_poll ::
  "('w, 's) playback_env \<Rightarrow> 's ReceiverRuntime \<Rightarrow> 'w \<Rightarrow> 's ReceiverRuntime \<times> 'w" where
  "runtime_poll env rt e =
     (case (rt_worker rt, rt_command_tx rt) of
        (Some th, Some queue) \<Rightarrow>
          (let w = thread_worker (rt_snapshot rt) th;
               (outcome, rest) = (case queue of [] \<Rightarrow> (Timeout, []) | c # cs \<Rightarrow> (Received c, cs));
               (continues, w', e') = worker_step env outcome w e
           in (rt\<lparr>rt_command_tx := Some rest, rt_snapshot := w_snapshot w',
                  rt_worker := (if continues then Some (Running w') else None)\<rparr>, e'))
      | _ \<Rightarrow> (rt, e))"

text \<open>
  \<open>stop\<close> sends \<open>Shutdown\<close> and joins: the thread receives what is left in the channel, up to
  the shutdown behind it.
\<close>

definition runtime_stop ::
  "('w, 's) playback_env \<Rightarrow> 's ReceiverRuntime \<Rightarrow> 'w
    \<Rightarrow> (ReceiverError + unit) \<times> 's ReceiverRuntime \<times> 'w" where
  "runtime_stop env rt e =
     (let (sent, rt1) = (case rt_command_tx rt of
             Some queue \<Rightarrow> runtime_send Shutdown queue rt
           | None \<Rightarrow> (Inr (), rt));
          queue = (case rt_command_tx rt1 of Some q \<Rightarrow> q | None \<Rightarrow> []);
          rt2 = rt1\<lparr>rt_command_tx := None\<rparr>
      in case sent of
           Inl err \<Rightarrow> (Inl err, rt2, e)
         | Inr _ \<Rightarrow>
             (let (rt3, e3) = (case rt_worker rt2 of
                    None \<Rightarrow> (rt2, e)
                  | Some th \<Rightarrow>
                      (let (_, w', e') = worker_run env (map Received queue)
                                           (thread_worker (rt_snapshot rt2) th) e
                       in (rt2\<lparr>rt_snapshot := w_snapshot w', rt_worker := None\<rparr>, e')))
              in (Inr (), rt3\<lparr>rt_snapshot :=
                    runtime_fresh_snapshot (rt_config rt3) (rt_backend_name rt3)\<rparr>, e3)))"

section \<open>Interleavings\<close>

datatype runtime_op =
  OpStart | OpStop | OpSubmit ReceiverTransportEvent | OpTarget "string option"
| OpPreset ReceiverLatencyPreset | OpPoll

definition runtime_op ::
  "('w, 's) playback_env \<Rightarrow> runtime_op \<Rightarrow> 's ReceiverRuntime \<times> 'w \<Rightarrow> 's ReceiverRuntime \<times> 'w" where
  "runtime_op env op s =
     (let (rt, e) = s in
      case op of
        OpStart \<Rightarrow> (snd (runtime_start rt), e)
      | OpStop \<Rightarrow> snd (runtime_stop env rt e)
      | OpSubmit ev \<Rightarrow> (snd (runtime_submit_transport_event ev rt), e)
      | OpTarget t \<Rightarrow> (snd (runtime_set_playback_target t rt), e)
      | OpPreset p \<Rightarrow> (snd (runtime_set_latency_preset p rt), e)
      | OpPoll \<Rightarrow> runtime_poll env rt e)"

text \<open>
  A thread exists exactly while there is a channel to it, no shutdown waits in the channel,
  and a running worker is in its invariant: so \<open>ChannelClosed\<close> is never returned.
\<close>

definition runtime_inv :: "'s ReceiverRuntime \<Rightarrow> bool" where
  "runtime_inv rt \<longleftrightarrow>
     (rt_worker rt = None \<longleftrightarrow> rt_command_tx rt = None)
     \<and> (\<forall>q. rt_command_tx rt = Some q \<longrightarrow> Shutdown \<notin> set q)
     \<and> (\<forall>w. rt_worker rt = Some (Running w) \<longrightarrow> worker_inv w)
     \<and> (rt_command_tx rt = None \<longrightarrow> rsn_state (rt_snapshot rt) = ReceiverServiceState.Idle)"

lemma thread_worker_inv:
  "runtime_inv rt \<Longrightarrow> rt_worker rt = Some th \<Longrightarrow> worker_inv (thread_worker snap th)"
proof -
  have "worker_inv (w\<lparr>w_snapshot := snap\<rparr>) = worker_inv w" for w :: "'a ReceiverWorker"
    by (simp add: worker_inv_def)
  then show "runtime_inv rt \<Longrightarrow> rt_worker rt = Some th \<Longrightarrow> worker_inv (thread_worker snap th)"
    by (cases th) (auto simp: runtime_inv_def thread_worker_def worker_new_inv)
qed

lemma fresh_snapshot_idle [simp]:
  "rsn_state (runtime_fresh_snapshot config b) = ReceiverServiceState.Idle"
  by (simp add: runtime_fresh_snapshot_def receiver_snapshot_from_config_def case_prod_beta Let_def)

lemma runtime_send_inv:
  "runtime_inv rt \<Longrightarrow> rt_command_tx rt = Some q \<Longrightarrow> c \<noteq> Shutdown \<Longrightarrow>
   fst (runtime_send c q rt) = Inr () \<and> runtime_inv (snd (runtime_send c q rt))"
  by (auto simp: runtime_send_def runtime_inv_def)

lemma runtime_poll_inv:
  assumes inv: "runtime_inv rt"
  shows "runtime_inv (fst (runtime_poll env rt e))"
proof (cases "rt_worker rt")
  case None
  with inv show ?thesis by (simp add: runtime_poll_def)
next
  case (Some th)
  with inv obtain q where q: "rt_command_tx rt = Some q" by (auto simp: runtime_inv_def)
  define w outcome rest where "w = thread_worker (rt_snapshot rt) th"
    and "outcome = (case q of [] \<Rightarrow> Timeout | c # _ \<Rightarrow> Received c)" and "rest = tl q"
  have w: "worker_inv w" unfolding w_def using inv Some by (rule thread_worker_inv)
  obtain b w' e' where step: "worker_step env outcome w e = (b, w', e')" by (metis prod_cases3)
  have "outcome \<noteq> Received Shutdown" "outcome \<noteq> ChannelDisconnected"
    using inv q by (cases q; auto simp: outcome_def runtime_inv_def)+
  with step have b: b by (cases rule: worker_step_cases) auto
  have poll: "runtime_poll env rt e = (rt\<lparr>rt_command_tx := Some rest, rt_snapshot := w_snapshot w',
      rt_worker := Some (Running w')\<rparr>, e')"
    using step b Some q by (cases q) (simp_all add: runtime_poll_def w_def outcome_def rest_def)
  have "set rest \<subseteq> set q" unfolding rest_def by (cases q) auto
  with inv q worker_inv_step [OF w step] show ?thesis by (auto simp: poll runtime_inv_def)
qed

lemma runtime_stop_state:
  assumes "runtime_inv rt"
  shows "fst (runtime_stop env rt e) = Inr ()"
    "fst (snd (runtime_stop env rt e)) = rt\<lparr>rt_command_tx := None, rt_worker := None,
       rt_snapshot := runtime_fresh_snapshot (rt_config rt) (rt_backend_name rt)\<rparr>"
  using assms by (auto simp: runtime_stop_def runtime_send_def runtime_inv_def case_prod_beta Let_def
      split: option.splits)

lemma runtime_op_inv:
  assumes inv: "runtime_inv (fst s)"
  shows "runtime_inv (fst (runtime_op env op s))"
proof -
  obtain rt e where s: "s = (rt, e)" by fastforce
  have "runtime_inv (snd (runtime_submit_transport_event ev rt))" for ev
    using inv runtime_send_inv [of rt _ "Transport ev"] unfolding s
    by (auto simp: runtime_submit_transport_event_def split: option.splits)
  moreover have "runtime_inv (snd (runtime_set_playback_target t rt))" for t
    using inv unfolding s
    by (auto simp: runtime_set_playback_target_def runtime_send_def runtime_inv_def Let_def
        split: option.splits)
  moreover have "runtime_inv (snd (runtime_set_latency_preset p rt))" for p
    using inv unfolding s by (auto simp: runtime_set_latency_preset_def runtime_inv_def Let_def)
  moreover have "runtime_inv (snd (runtime_start rt))"
    using inv unfolding s by (auto simp: runtime_start_def runtime_inv_def)
  moreover have "runtime_inv (fst (snd (runtime_stop env rt e)))"
    using inv unfolding s by (simp add: runtime_stop_state runtime_inv_def)
  moreover have "runtime_inv (fst (runtime_poll env rt e))"
    using inv runtime_poll_inv unfolding s by simp
  ultimately show ?thesis by (cases op) (simp_all add: runtime_op_def s)
qed

interpretation rto: labelled_system "runtime_op env" "\<lambda>s. runtime_inv (fst s)"
  by unfold_locales (rule runtime_op_inv)

lemma runtime_new_inv: "runtime_inv (runtime_new config b)"
  by (simp add: runtime_inv_def runtime_new_def)

section \<open>Properties\<close>

theorem runtime_interleavings_keep_invariant:
  "runtime_inv (fst (fold (runtime_op env) ops (runtime_new config b, e)))"
  by (rule rto.good_fold) (simp add: runtime_new_inv)

theorem runtime_lifecycle:
  assumes "(rt, e') = fold (runtime_op env) ops (runtime_new config b, e)"
  shows "(fst (runtime_submit_transport_event ev rt)
        = (if rt_command_tx rt = None then Inl ReceiverError.NotStarted else Inr ()))
    \<and> fst (runtime_set_playback_target t rt) = Inr ()
    \<and> fst (runtime_stop env rt e') = Inr ()
    \<and> fst (snd (runtime_stop env rt e')) = rt\<lparr>rt_command_tx := None, rt_worker := None,
         rt_snapshot := runtime_fresh_snapshot (rt_config rt) (rt_backend_name rt)\<rparr>"
proof -
  have inv: "runtime_inv rt"
    using rto.good_fold [of "(runtime_new config b, e)" env ops] assms
    by (metis fst_conv runtime_new_inv)
  then have "fst (runtime_set_playback_target t rt) = Inr ()"
    by (auto simp: runtime_set_playback_target_def runtime_send_def runtime_inv_def Let_def
        split: option.splits)
  moreover have "fst (runtime_submit_transport_event ev rt)
      = (if rt_command_tx rt = None then Inl ReceiverError.NotStarted else Inr ())"
    using inv runtime_send_inv [of rt _ "Transport ev"]
    by (auto simp: runtime_submit_transport_event_def split: option.splits)
  moreover note runtime_stop_state [OF inv, of env e']
  ultimately show ?thesis by simp
qed

theorem runtime_lifecycle_witness:
  "fst (runtime_stop tape_env (fst (fold (runtime_op tape_env) [OpStart, OpSubmit KeepAlive, OpPoll]
      (runtime_new default_receiver_config ''tape'', 0, [])))
    (snd (fold (runtime_op tape_env) [OpStart, OpSubmit KeepAlive, OpPoll]
      (runtime_new default_receiver_config ''tape'', 0, [])))) = Inr ()"
  by (rule runtime_lifecycle [OF surjective_pairing [symmetric], THEN conjunct2, THEN conjunct2,
        THEN conjunct1])

end
