(* ===== verification/Core_Models.thy ===== *)
theory Core_Models
  imports Audio_Levels "HOL-Library.List_Lexorder" "HOL-Library.Char_ord"
begin

text \<open>
  The shared data model, \<open>synchrosonic-core/src/models.rs\<close> and \<open>diagnostics.rs\<close>. The current
  time of a diagnostic event is an argument.
\<close>

definition DISCOVERY_PROTOCOL_VERSION :: u16 where
  "DISCOVERY_PROTOCOL_VERSION = 1"

datatype DeviceId = DeviceId (device_str: string)

text \<open>Snapshots list devices in the order of their ids, which is the order of the strings.\<close>

instantiation DeviceId :: linorder
begin

definition less_eq_DeviceId :: "DeviceId \<Rightarrow> DeviceId \<Rightarrow> bool" where
  "less_eq_DeviceId a b \<longleftrightarrow> device_str a \<le> device_str b"

definition less_DeviceId :: "DeviceId \<Rightarrow> DeviceId \<Rightarrow> bool" where
  "less_DeviceId a b \<longleftrightarrow> device_str a < device_str b"

instance
  by standard (auto simp: less_eq_DeviceId_def less_DeviceId_def DeviceId.expand)

end

datatype DeviceRole = Sender | Receiver

datatype DeviceStatus =
  Discovered | Resolving | ReceiverStarting | ReceiverListening | Reachable | Connecting
| Connected | Unavailable | Stale | SelfDevice | IncompatibleVersion

record DeviceCapabilities =
  supports_sender :: bool
  supports_receiver :: bool
  supports_local_output :: bool
  supports_bluetooth_output :: bool

definition capabilities_sender :: DeviceCapabilities where
  "capabilities_sender = \<lparr>supports_sender = True, supports_receiver = False,
     supports_local_output = True, supports_bluetooth_output = False\<rparr>"

definition capabilities_receiver :: DeviceCapabilities where
  "capabilities_receiver = \<lparr>supports_sender = False, supports_receiver = True,
     supports_local_output = True, supports_bluetooth_output = False\<rparr>"

definition capabilities_sender_receiver :: DeviceCapabilities where
  "capabilities_sender_receiver = \<lparr>supports_sender = True, supports_receiver = True,
     supports_local_output = True, supports_bluetooth_output = False\<rparr>"

datatype DeviceAvailability = Available | Busy | Unavailable

datatype AudioSourceKind = Monitor | Microphone | Application

record AudioSource =
  as_id :: string
  as_display_name :: string
  as_kind :: AudioSourceKind
  as_is_default :: bool

datatype PlaybackTargetKind = Standard | Bluetooth

datatype PlaybackTargetAvailability = Available | Unavailable

record PlaybackTarget =
  pt_id :: string
  pt_display_name :: string
  pt_is_default :: bool
  pt_kind :: PlaybackTargetKind
  pt_availability :: PlaybackTargetAvailability
  pt_bluetooth_address :: "string option"

definition is_bluetooth :: "PlaybackTarget \<Rightarrow> bool" where
  "is_bluetooth t \<longleftrightarrow> pt_kind t = Bluetooth"

datatype QualityPreset = LowLatency | Balanced | HighQuality

record TransportEndpoint =
  te_device_id :: DeviceId
  te_address :: SocketAddr

record DiscoveredDevice =
  dd_id :: DeviceId
  dd_display_name :: string
  dd_app_version :: string
  dd_protocol_version :: u16
  dd_capabilities :: DeviceCapabilities
  dd_availability :: DeviceAvailability
  dd_status :: DeviceStatus
  dd_endpoint :: "TransportEndpoint option"
  dd_service_fullname :: string
  dd_last_seen_unix_ms :: u64

definition is_self_device :: "DiscoveredDevice \<Rightarrow> bool" where
  "is_self_device d \<longleftrightarrow> dd_status d = SelfDevice"

definition is_protocol_compatible :: "DiscoveredDevice \<Rightarrow> bool" where
  "is_protocol_compatible d \<longleftrightarrow> dd_protocol_version d = DISCOVERY_PROTOCOL_VERSION"

definition is_receiver_connectable :: "DiscoveredDevice \<Rightarrow> bool" where
  "is_receiver_connectable d \<longleftrightarrow>
     supports_receiver (dd_capabilities d) \<and> dd_availability d = DeviceAvailability.Available
     \<and> dd_endpoint d \<noteq> None
     \<and> dd_status d \<in> {Reachable, Connecting, DeviceStatus.Connected}"

datatype DiscoveryEvent =
  DeviceDiscovered DiscoveredDevice
| DeviceUpdated DiscoveredDevice
| DeviceRemoved DeviceId string
| DeviceExpired DiscoveredDevice

record DiscoverySnapshot =
  ds_devices :: "DiscoveredDevice list"
  ds_updated_at_unix_ms :: u64

section \<open>Diagnostic events\<close>

datatype DiagnosticLevel = Info | Warning | Error

record DiagnosticEvent =
  de_timestamp_unix_ms :: u64
  de_level :: DiagnosticLevel
  de_component :: string
  de_message :: string

definition diagnostic :: "DiagnosticLevel \<Rightarrow> u64 \<Rightarrow> string \<Rightarrow> string \<Rightarrow> DiagnosticEvent" where
  "diagnostic level now component message =
     \<lparr>de_timestamp_unix_ms = now, de_level = level, de_component = component, de_message = message\<rparr>"

section \<open>Capture data\<close>

text \<open>The capture types of \<open>audio.rs\<close>.\<close>

datatype AudioDeviceDirection = Input | Output | Monitor

datatype CaptureState =
  Idle | Starting | Capturing | SourceChanged | DeviceDisconnected | Stopped | Failed

record CaptureOutputs =
  co_local_monitoring :: bool
  co_network_streaming :: bool

record CaptureSettings =
  cs_source_id :: "string option"
  cs_sample_rate_hz :: u32
  cs_channels :: u16
  cs_sample_format :: AudioSampleFormat
  cs_buffer_frames :: u32
  cs_target_latency_ms :: u16
  cs_outputs :: CaptureOutputs

definition default_capture_settings :: CaptureSettings where
  "default_capture_settings =
     \<lparr>cs_source_id = None, cs_sample_rate_hz = 48000, cs_channels = 2, cs_sample_format = S16Le,
      cs_buffer_frames = 480, cs_target_latency_ms = 50,
      cs_outputs = \<lparr>co_local_monitoring = True, co_network_streaming = True\<rparr>\<rparr>"

definition capture_bytes_per_frame :: "CaptureSettings \<Rightarrow> nat" where
  "capture_bytes_per_frame c = unat (cs_channels c) * bytes_per_sample (cs_sample_format c)"

definition chunk_bytes :: "CaptureSettings \<Rightarrow> nat" where
  "chunk_bytes c = unat (cs_buffer_frames c) * capture_bytes_per_frame c"

record AudioFrame =
  af_sequence :: u64
  af_captured_at :: duration
  af_sample_rate_hz :: u32
  af_channels :: u16
  af_sample_format :: AudioSampleFormat
  af_payload :: bytes
  af_stats :: AudioFrameStats

definition frame_from_payload :: "u64 \<Rightarrow> duration \<Rightarrow> CaptureSettings \<Rightarrow> bytes \<Rightarrow> AudioFrame" where
  "frame_from_payload sequence captured_at settings payload =
     \<lparr>af_sequence = sequence, af_captured_at = captured_at,
      af_sample_rate_hz = cs_sample_rate_hz settings, af_channels = cs_channels settings,
      af_sample_format = cs_sample_format settings, af_payload = payload,
      af_stats = frame_stats (cs_sample_format settings) payload\<rparr>"

end
