(* ===== verification/Core_Config.thy ===== *)
theory Core_Config
  imports Core_Models
begin

text \<open>
  The application configuration, \<open>synchrosonic-core/src/config.rs\<close>: its sections with their
  defaults, the repair pass, and loading and saving. The \<open>toml\<close> reader and writer and the file
  system are arguments: a record of functions over the world.
\<close>

definition APP_CONFIG_SCHEMA_VERSION :: u32 where
  "APP_CONFIG_SCHEMA_VERSION = 1"

record AudioConfig =
  ac_preferred_source_id :: "string option"
  ac_local_playback_enabled :: bool
  ac_local_playback_target_id :: "string option"
  ac_sample_rate_hz :: u32
  ac_channels :: u16
  ac_sample_format :: AudioSampleFormat
  ac_capture_buffer_frames :: u32
  ac_capture_latency_ms :: u16

definition default_audio_config :: AudioConfig where
  "default_audio_config =
     \<lparr>ac_preferred_source_id = None, ac_local_playback_enabled = True,
      ac_local_playback_target_id = None, ac_sample_rate_hz = 48000, ac_channels = 2,
      ac_sample_format = S16Le, ac_capture_buffer_frames = 480, ac_capture_latency_ms = 50\<rparr>"

definition capture_settings :: "AudioConfig \<Rightarrow> CaptureSettings" where
  "capture_settings c =
     \<lparr>cs_source_id = ac_preferred_source_id c, cs_sample_rate_hz = ac_sample_rate_hz c,
      cs_channels = ac_channels c, cs_sample_format = ac_sample_format c,
      cs_buffer_frames = ac_capture_buffer_frames c,
      cs_target_latency_ms = ac_capture_latency_ms c,
      cs_outputs = \<lparr>co_local_monitoring = ac_local_playback_enabled c, co_network_streaming = True\<rparr>\<rparr>"

record DiscoveryConfig =
  dc_enabled :: bool
  dc_service_type :: string
  dc_stale_timeout_secs :: u64

definition default_discovery_config :: DiscoveryConfig where
  "default_discovery_config =
     \<lparr>dc_enabled = True, dc_service_type = ''_synchrosonic._tcp.local.'', dc_stale_timeout_secs = 30\<rparr>"

record TransportConfig =
  tc_bind_host :: string
  tc_stream_port :: u16
  tc_quality :: QualityPreset
  tc_target_latency_ms :: u16
  tc_connect_timeout_ms :: u16
  tc_heartbeat_interval_ms :: u16

definition default_transport_config :: TransportConfig where
  "default_transport_config =
     \<lparr>tc_bind_host = ''0.0.0.0'', tc_stream_port = 51700, tc_quality = QualityPreset.Balanced,
      tc_target_latency_ms = 150, tc_connect_timeout_ms = 2000, tc_heartbeat_interval_ms = 1000\<rparr>"

record UiConfig =
  ui_prefer_dark_theme :: bool
  ui_last_view_name :: string

definition default_ui_config :: UiConfig where
  "default_ui_config = \<lparr>ui_prefer_dark_theme = True, ui_last_view_name = ''dashboard''\<rparr>"

record DiagnosticsConfig =
  dg_verbose_logging :: bool

record AppConfig =
  cfg_schema_version :: u32
  cfg_audio :: AudioConfig
  cfg_discovery :: DiscoveryConfig
  cfg_transport :: TransportConfig
  cfg_receiver :: ReceiverConfig
  cfg_ui :: UiConfig
  cfg_diagnostics :: DiagnosticsConfig

definition default_app_config :: AppConfig where
  "default_app_config =
     \<lparr>cfg_schema_version = APP_CONFIG_SCHEMA_VERSION, cfg_audio = default_audio_config,
      cfg_discovery = default_discovery_config, cfg_transport = default_transport_config,
      cfg_receiver = default_receiver_config, cfg_ui = default_ui_config,
      cfg_diagnostics = \<lparr>dg_verbose_logging = False\<rparr>\<rparr>"

record ConfigLoadReport =
  clr_config :: AppConfig
  clr_warnings :: "string list"
  clr_repaired :: bool

section \<open>Repair\<close>

text \<open>
  One check of \<open>repaired\<close> is a test, a message and a replacement: when the test holds, the
  message is pushed and the field replaced. The pass is the sequence of its sixteen checks on
  the configuration and the warnings so far.
\<close>

type_synonym repair_check = "(AppConfig \<Rightarrow> bool) \<times> (AppConfig \<Rightarrow> string) \<times> (AppConfig \<Rightarrow> AppConfig)"

definition repair_step :: "repair_check \<Rightarrow> AppConfig \<times> string list \<Rightarrow> AppConfig \<times> string list" where
  "repair_step check s =
     (let (bad, message, fix_field) = check; (c, warnings) = s
      in if bad c then (fix_field c, warnings @ [message c]) else (c, warnings))"

definition zero_message :: "string \<Rightarrow> 'a::len word \<Rightarrow> string" where
  "zero_message field d = field @ '' must be greater than zero; using '' @ show_word d @ ''.''"

definition small_message :: "string \<Rightarrow> 'a::len word \<Rightarrow> string" where
  "small_message field d = field @ '' must be at least 250; using '' @ show_word d @ ''.''"

definition empty_message :: "string \<Rightarrow> string \<Rightarrow> string" where
  "empty_message field d = field @ '' cannot be empty; using '' @ d @ ''.''"

definition repair_checks :: "repair_check list" where
  "repair_checks =
    (let d = default_app_config; da = cfg_audio d; dd = cfg_discovery d; dt = cfg_transport d;
         dr = cfg_receiver d; du = cfg_ui d in
     [(\<lambda>c. cfg_schema_version c \<noteq> APP_CONFIG_SCHEMA_VERSION,
        \<lambda>c. ''Config schema version '' @ show_word (cfg_schema_version c) @ '' was upgraded to ''
              @ show_word APP_CONFIG_SCHEMA_VERSION @ ''.'',
        \<lambda>c. c\<lparr>cfg_schema_version := APP_CONFIG_SCHEMA_VERSION\<rparr>),
      (\<lambda>c. ac_sample_rate_hz (cfg_audio c) = 0,
        \<lambda>_. zero_message ''audio.sample_rate_hz'' (ac_sample_rate_hz da),
        \<lambda>c. c\<lparr>cfg_audio := (cfg_audio c)\<lparr>ac_sample_rate_hz := ac_sample_rate_hz da\<rparr>\<rparr>),
      (\<lambda>c. ac_channels (cfg_audio c) = 0,
        \<lambda>_. zero_message ''audio.channels'' (ac_channels da),
        \<lambda>c. c\<lparr>cfg_audio := (cfg_audio c)\<lparr>ac_channels := ac_channels da\<rparr>\<rparr>),
      (\<lambda>c. ac_capture_buffer_frames (cfg_audio c) = 0,
        \<lambda>_. zero_message ''audio.capture_buffer_frames'' (ac_capture_buffer_frames da),
        \<lambda>c. c\<lparr>cfg_audio := (cfg_audio c)\<lparr>ac_capture_buffer_frames := ac_capture_buffer_frames da\<rparr>\<rparr>),
      (\<lambda>c. ac_capture_latency_ms (cfg_audio c) = 0,
        \<lambda>_. zero_message ''audio.capture_latency_ms'' (ac_capture_latency_ms da),
        \<lambda>c. c\<lparr>cfg_audio := (cfg_audio c)\<lparr>ac_capture_latency_ms := ac_capture_latency_ms da\<rparr>\<rparr>),
      (\<lambda>c. trim (dc_service_type (cfg_discovery c)) = [],
        \<lambda>_. empty_message ''discovery.service_type'' (dc_service_type dd),
        \<lambda>c. c\<lparr>cfg_discovery := (cfg_discovery c)\<lparr>dc_service_type := dc_service_type dd\<rparr>\<rparr>),
      (\<lambda>c. dc_stale_timeout_secs (cfg_discovery c) = 0,
        \<lambda>_. zero_message ''discovery.stale_timeout_secs'' (dc_stale_timeout_secs dd),
        \<lambda>c. c\<lparr>cfg_discovery := (cfg_discovery c)\<lparr>dc_stale_timeout_secs := dc_stale_timeout_secs dd\<rparr>\<rparr>),
      (\<lambda>c. trim (tc_bind_host (cfg_transport c)) = [],
        \<lambda>_. empty_message ''transport.bind_host'' (tc_bind_host dt),
        \<lambda>c. c\<lparr>cfg_transport := (cfg_transport c)\<lparr>tc_bind_host := tc_bind_host dt\<rparr>\<rparr>),
      (\<lambda>c. tc_stream_port (cfg_transport c) = 0,
        \<lambda>_. zero_message ''transport.stream_port'' (tc_stream_port dt),
        \<lambda>c. c\<lparr>cfg_transport := (cfg_transport c)\<lparr>tc_stream_port := tc_stream_port dt\<rparr>\<rparr>),
      (\<lambda>c. tc_target_latency_ms (cfg_transport c) = 0,
        \<lambda>_. zero_message ''transport.target_latency_ms'' (tc_target_latency_ms dt),
        \<lambda>c. c\<lparr>cfg_transport := (cfg_transport c)\<lparr>tc_target_latency_ms := tc_target_latency_ms dt\<rparr>\<rparr>),
      (\<lambda>c. tc_connect_timeout_ms (cfg_transport c) < 250,
        \<lambda>_. small_message ''transport.connect_timeout_ms'' (tc_connect_timeout_ms dt),
        \<lambda>c. c\<lparr>cfg_transport := (cfg_transport c)\<lparr>tc_connect_timeout_ms := tc_connect_timeout_ms dt\<rparr>\<rparr>),
      (\<lambda>c. tc_heartbeat_interval_ms (cfg_transport c) < 250,
        \<lambda>_. small_message ''transport.heartbeat_interval_ms'' (tc_heartbeat_interval_ms dt),
        \<lambda>c. c\<lparr>cfg_transport := (cfg_transport c)
               \<lparr>tc_heartbeat_interval_ms := tc_heartbeat_interval_ms dt\<rparr>\<rparr>),
      (\<lambda>c. trim (rc_advertised_name (cfg_receiver c)) = [],
        \<lambda>_. empty_message ''receiver.advertised_name'' (rc_advertised_name dr),
        \<lambda>c. c\<lparr>cfg_receiver := (cfg_receiver c)\<lparr>rc_advertised_name := rc_advertised_name dr\<rparr>\<rparr>),
      (\<lambda>c. trim (rc_bind_host (cfg_receiver c)) = [],
        \<lambda>_. empty_message ''receiver.bind_host'' (rc_bind_host dr),
        \<lambda>c. c\<lparr>cfg_receiver := (cfg_receiver c)\<lparr>rc_bind_host := rc_bind_host dr\<rparr>\<rparr>),
      (\<lambda>c. rc_listen_port (cfg_receiver c) = 0,
        \<lambda>_. zero_message ''receiver.listen_port'' (rc_listen_port dr),
        \<lambda>c. c\<lparr>cfg_receiver := (cfg_receiver c)\<lparr>rc_listen_port := rc_listen_port dr\<rparr>\<rparr>),
      (\<lambda>c. trim (ui_last_view_name (cfg_ui c)) = [],
        \<lambda>_. empty_message ''ui.last_view_name'' (ui_last_view_name du),
        \<lambda>c. c\<lparr>cfg_ui := (cfg_ui c)\<lparr>ui_last_view_name := ui_last_view_name du\<rparr>\<rparr>)])"

definition repaired :: "AppConfig \<Rightarrow> ConfigLoadReport" where
  "repaired original =
     (let (config, warnings) = fold repair_step repair_checks (original, [])
      in \<lparr>clr_config = config, clr_warnings = warnings, clr_repaired = (config \<noteq> original)\<rparr>)"

section \<open>Loading and saving\<close>

record 'w config_io =
  io_read_to_string :: "string \<Rightarrow> 'w \<Rightarrow> (io_error + string) \<times> 'w"
  io_create_dir_all :: "string \<Rightarrow> 'w \<Rightarrow> (io_error + unit) \<times> 'w"
  io_write :: "string \<Rightarrow> string \<Rightarrow> 'w \<Rightarrow> (io_error + unit) \<times> 'w"
  io_parent :: "string \<Rightarrow> string option"
  toml_from_str :: "string \<Rightarrow> string + AppConfig"
  toml_to_string :: "AppConfig \<Rightarrow> string + string"

definition load_with_report_from_path ::
  "'w config_io \<Rightarrow> string \<Rightarrow> 'w \<Rightarrow> (ConfigError + ConfigLoadReport) \<times> 'w" where
  "load_with_report_from_path io path w =
     (case io_read_to_string io path w of
        (Inl e, w') \<Rightarrow> (Inl (ConfigRead path e), w')
      | (Inr contents, w') \<Rightarrow>
          (case toml_from_str io contents of
             Inl e \<Rightarrow> (Inl (ConfigParse path e), w')
           | Inr config \<Rightarrow>
               (if APP_CONFIG_SCHEMA_VERSION < cfg_schema_version config then
                  (Inl (UnsupportedVersion path (cfg_schema_version config) APP_CONFIG_SCHEMA_VERSION), w')
                else (Inr (repaired config), w'))))"

definition load_from_path :: "'w config_io \<Rightarrow> string \<Rightarrow> 'w \<Rightarrow> (ConfigError + AppConfig) \<times> 'w" where
  "load_from_path io path w =
     (case load_with_report_from_path io path w of
        (Inl e, w') \<Rightarrow> (Inl e, w')
      | (Inr report, w') \<Rightarrow> (Inr (clr_config report), w'))"

definition save_to_path :: "'w config_io \<Rightarrow> string \<Rightarrow> AppConfig \<Rightarrow> 'w \<Rightarrow> (ConfigError + unit) \<times> 'w" where
  "save_to_path io path config w =
     (let (made, w1) = (case io_parent io path of
            Some parent \<Rightarrow>
              (case io_create_dir_all io parent w of
                 (Inl e, w') \<Rightarrow> (Inl (ConfigWrite parent e), w')
               | (Inr _, w') \<Rightarrow> (Inr (), w'))
          | None \<Rightarrow> (Inr (), w))
      in case made of
           Inl e \<Rightarrow> (Inl e, w1)
         | Inr _ \<Rightarrow>
             (case toml_to_string io (clr_config (repaired config)) of
                Inl e \<Rightarrow> (Inl (Serialize e), w1)
              | Inr encoded \<Rightarrow>
                  (case io_write io path encoded w1 of
                     (Inl e, w') \<Rightarrow> (Inl (ConfigWrite path e), w')
                   | (Inr _, w') \<Rightarrow> (Inr (), w'))))"


section \<open>What the repair pass does\<close>

definition valid_config :: "AppConfig \<Rightarrow> bool" where
  "valid_config c \<longleftrightarrow>
     cfg_schema_version c = APP_CONFIG_SCHEMA_VERSION
     \<and> ac_sample_rate_hz (cfg_audio c) \<noteq> 0 \<and> ac_channels (cfg_audio c) \<noteq> 0
     \<and> ac_capture_buffer_frames (cfg_audio c) \<noteq> 0 \<and> ac_capture_latency_ms (cfg_audio c) \<noteq> 0
     \<and> trim (dc_service_type (cfg_discovery c)) \<noteq> [] \<and> dc_stale_timeout_secs (cfg_discovery c) \<noteq> 0
     \<and> trim (tc_bind_host (cfg_transport c)) \<noteq> [] \<and> tc_stream_port (cfg_transport c) \<noteq> 0
     \<and> tc_target_latency_ms (cfg_transport c) \<noteq> 0 \<and> 250 \<le> tc_connect_timeout_ms (cfg_transport c)
     \<and> 250 \<le> tc_heartbeat_interval_ms (cfg_transport c)
     \<and> trim (rc_advertised_name (cfg_receiver c)) \<noteq> [] \<and> trim (rc_bind_host (cfg_receiver c)) \<noteq> []
     \<and> rc_listen_port (cfg_receiver c) \<noteq> 0 \<and> trim (ui_last_view_name (cfg_ui c)) \<noteq> []"

text \<open>The pass as one update of the sixteen fields.\<close>

definition pick :: "bool \<Rightarrow> 'a \<Rightarrow> 'a \<Rightarrow> 'a" where
  "pick bad d x = (if bad then d else x)"

definition repaired_config :: "AppConfig \<Rightarrow> AppConfig" where
  "repaired_config c =
     c\<lparr>cfg_schema_version := APP_CONFIG_SCHEMA_VERSION,
       cfg_audio := (cfg_audio c)
         \<lparr>ac_sample_rate_hz := pick (ac_sample_rate_hz (cfg_audio c) = 0) 48000 (ac_sample_rate_hz (cfg_audio c)),
          ac_channels := pick (ac_channels (cfg_audio c) = 0) 2 (ac_channels (cfg_audio c)),
          ac_capture_buffer_frames := pick (ac_capture_buffer_frames (cfg_audio c) = 0) 480
            (ac_capture_buffer_frames (cfg_audio c)),
          ac_capture_latency_ms := pick (ac_capture_latency_ms (cfg_audio c) = 0) 50
            (ac_capture_latency_ms (cfg_audio c))\<rparr>,
       cfg_discovery := (cfg_discovery c)
         \<lparr>dc_service_type := pick (trim (dc_service_type (cfg_discovery c)) = [])
            ''_synchrosonic._tcp.local.'' (dc_service_type (cfg_discovery c)),
          dc_stale_timeout_secs := pick (dc_stale_timeout_secs (cfg_discovery c) = 0) 30
            (dc_stale_timeout_secs (cfg_discovery c))\<rparr>,
       cfg_transport := (cfg_transport c)
         \<lparr>tc_bind_host := pick (trim (tc_bind_host (cfg_transport c)) = []) ''0.0.0.0''
            (tc_bind_host (cfg_transport c)),
          tc_stream_port := pick (tc_stream_port (cfg_transport c) = 0) 51700
            (tc_stream_port (cfg_transport c)),
          tc_target_latency_ms := pick (tc_target_latency_ms (cfg_transport c) = 0) 150
            (tc_target_latency_ms (cfg_transport c)),
          tc_connect_timeout_ms := pick (tc_connect_timeout_ms (cfg_transport c) < 250) 2000
            (tc_connect_timeout_ms (cfg_transport c)),
          tc_heartbeat_interval_ms := pick (tc_heartbeat_interval_ms (cfg_transport c) < 250) 1000
            (tc_heartbeat_interval_ms (cfg_transport c))\<rparr>,
       cfg_receiver := (cfg_receiver c)
         \<lparr>rc_advertised_name := pick (trim (rc_advertised_name (cfg_receiver c)) = [])
            ''SynchroSonic Receiver'' (rc_advertised_name (cfg_receiver c)),
          rc_bind_host := pick (trim (rc_bind_host (cfg_receiver c)) = []) ''0.0.0.0''
            (rc_bind_host (cfg_receiver c)),
          rc_listen_port := pick (rc_listen_port (cfg_receiver c) = 0) 51700
            (rc_listen_port (cfg_receiver c))\<rparr>,
       cfg_ui := (cfg_ui c)
         \<lparr>ui_last_view_name := pick (trim (ui_last_view_name (cfg_ui c)) = []) ''dashboard''
            (ui_last_view_name (cfg_ui c))\<rparr>\<rparr>"

lemma if_update:
  "(if b then c\<lparr>cfg_schema_version := v\<rparr> else c) = c\<lparr>cfg_schema_version := pick b v (cfg_schema_version c)\<rparr>"
  "(if b then c\<lparr>cfg_audio := x\<rparr> else c) = c\<lparr>cfg_audio := pick b x (cfg_audio c)\<rparr>"
  "(if b then c\<lparr>cfg_discovery := y\<rparr> else c) = c\<lparr>cfg_discovery := pick b y (cfg_discovery c)\<rparr>"
  "(if b then c\<lparr>cfg_transport := z\<rparr> else c) = c\<lparr>cfg_transport := pick b z (cfg_transport c)\<rparr>"
  "(if b then c\<lparr>cfg_receiver := u\<rparr> else c) = c\<lparr>cfg_receiver := pick b u (cfg_receiver c)\<rparr>"
  "(if b then c\<lparr>cfg_ui := w\<rparr> else c) = c\<lparr>cfg_ui := pick b w (cfg_ui c)\<rparr>" for c :: AppConfig
  by (simp_all add: pick_def)

lemma pick_update:
  "pick b (a\<lparr>ac_sample_rate_hz := n\<rparr>) a = a\<lparr>ac_sample_rate_hz := pick b n (ac_sample_rate_hz a)\<rparr>"
  "pick b (a\<lparr>ac_channels := m\<rparr>) a = a\<lparr>ac_channels := pick b m (ac_channels a)\<rparr>"
  "pick b (a\<lparr>ac_capture_buffer_frames := n\<rparr>) a
     = a\<lparr>ac_capture_buffer_frames := pick b n (ac_capture_buffer_frames a)\<rparr>"
  "pick b (a\<lparr>ac_capture_latency_ms := m\<rparr>) a
     = a\<lparr>ac_capture_latency_ms := pick b m (ac_capture_latency_ms a)\<rparr>"
  "pick b (d\<lparr>dc_service_type := s\<rparr>) d = d\<lparr>dc_service_type := pick b s (dc_service_type d)\<rparr>"
  "pick b (d\<lparr>dc_stale_timeout_secs := l\<rparr>) d
     = d\<lparr>dc_stale_timeout_secs := pick b l (dc_stale_timeout_secs d)\<rparr>"
  "pick b (t\<lparr>tc_bind_host := s\<rparr>) t = t\<lparr>tc_bind_host := pick b s (tc_bind_host t)\<rparr>"
  "pick b (t\<lparr>tc_stream_port := m\<rparr>) t = t\<lparr>tc_stream_port := pick b m (tc_stream_port t)\<rparr>"
  "pick b (t\<lparr>tc_target_latency_ms := m\<rparr>) t = t\<lparr>tc_target_latency_ms := pick b m (tc_target_latency_ms t)\<rparr>"
  "pick b (t\<lparr>tc_connect_timeout_ms := m\<rparr>) t
     = t\<lparr>tc_connect_timeout_ms := pick b m (tc_connect_timeout_ms t)\<rparr>"
  "pick b (t\<lparr>tc_heartbeat_interval_ms := m\<rparr>) t
     = t\<lparr>tc_heartbeat_interval_ms := pick b m (tc_heartbeat_interval_ms t)\<rparr>"
  "pick b (r\<lparr>rc_advertised_name := s\<rparr>) r = r\<lparr>rc_advertised_name := pick b s (rc_advertised_name r)\<rparr>"
  "pick b (r\<lparr>rc_bind_host := s\<rparr>) r = r\<lparr>rc_bind_host := pick b s (rc_bind_host r)\<rparr>"
  "pick b (r\<lparr>rc_listen_port := m\<rparr>) r = r\<lparr>rc_listen_port := pick b m (rc_listen_port r)\<rparr>"
  "pick b (u\<lparr>ui_last_view_name := s\<rparr>) u = u\<lparr>ui_last_view_name := pick b s (ui_last_view_name u)\<rparr>"
  for a :: AudioConfig and d :: DiscoveryConfig and t :: TransportConfig and r :: ReceiverConfig
    and u :: UiConfig
  by (simp_all add: pick_def)

definition apply_check :: "repair_check \<Rightarrow> AppConfig \<Rightarrow> AppConfig" where
  "apply_check check c = (let (bad, _, fix_field) = check in if bad c then fix_field c else c)"

lemma fst_fold_repair: "fst (fold repair_step cs (c, ws)) = fold apply_check cs c"
  by (induction cs arbitrary: c ws) (auto simp: repair_step_def apply_check_def)

lemma pick_self [simp]: "pick (x \<noteq> v) v x = v"
  by (simp add: pick_def)

lemma repaired_config_eq: "clr_config (repaired c) = repaired_config c"
proof -
  have "clr_config (repaired c) = fold apply_check repair_checks c"
    by (simp add: repaired_def case_prod_beta fst_fold_repair)
  also have "\<dots> = repaired_config c"
    by (simp add: repair_checks_def apply_check_def if_update pick_update
      repaired_config_def default_app_config_def default_audio_config_def default_discovery_config_def
      default_transport_config_def default_receiver_config_def default_ui_config_def Let_def)
  finally show ?thesis .
qed

lemma repair_step_simp:
  "repair_step (bad, m, f) (c, ws) = (if bad c then (f c, ws @ [m c]) else (c, ws))"
  by (simp add: repair_step_def)

lemma fold_repair_length: "length ws \<le> length (snd (fold repair_step cs (c, ws)))"
proof (induction cs arbitrary: c ws)
  case (Cons check cs)
  obtain bad m f where [simp]: "check = (bad, m, f)" by (metis prod_cases3)
  show ?case using Cons.IH [of ws c] Cons.IH [of "ws @ [m c]" "f c"]
    by (simp add: repair_step_simp)
qed simp

lemma fold_repair_silent:
  "snd (fold repair_step cs (c, ws)) = ws \<Longrightarrow> fst (fold repair_step cs (c, ws)) = c"
proof (induction cs arbitrary: c ws)
  case (Cons check cs)
  obtain bad m f where [simp]: "check = (bad, m, f)" by (metis prod_cases3)
  show ?case
  proof (cases "bad c")
    case True
    with Cons.prems fold_repair_length [of "ws @ [m c]" cs "f c"] show ?thesis
      by (simp add: repair_step_simp)
  next
    case False
    with Cons show ?thesis by (simp add: repair_step_simp)
  qed
qed simp

lemma valid_no_check: "valid_config c \<Longrightarrow> \<forall>check \<in> set repair_checks. \<not> fst check c"
  by (auto simp: repair_checks_def valid_config_def Let_def not_less)

lemma fold_repair_no_check:
  "\<forall>check \<in> set cs. \<not> fst check c \<Longrightarrow> fold repair_step cs (c, ws) = (c, ws)"
  by (induction cs) (auto simp: repair_step_def)

lemma repaired_valid_unchanged:
  "valid_config c \<Longrightarrow> repaired c = \<lparr>clr_config = c, clr_warnings = [], clr_repaired = False\<rparr>"
  by (simp add: repaired_def fold_repair_no_check valid_no_check)

lemma trim_defaults:
  "trim ''_synchrosonic._tcp.local.'' \<noteq> []" "trim ''0.0.0.0'' \<noteq> []"
  "trim ''SynchroSonic Receiver'' \<noteq> []" "trim ''dashboard'' \<noteq> []"
  by (simp_all add: trim_empty_iff is_whitespace_def)

lemma repaired_config_valid: "valid_config (repaired_config c)"
  by (simp add: valid_config_def repaired_config_def pick_def trim_defaults not_less)

section \<open>Properties\<close>

text \<open>
  C31: The repair pass always yields a configuration that passes every check; repairing it again changes nothing and warns
  of nothing; a configuration is reported as repaired exactly when there is a warning, exactly when it was not valid.
\<close>

theorem repaired_is_valid:
  "valid_config (clr_config (repaired c))
   \<and> repaired (clr_config (repaired c))
      = \<lparr>clr_config = clr_config (repaired c), clr_warnings = [], clr_repaired = False\<rparr>
   \<and> (clr_repaired (repaired c) \<longleftrightarrow> clr_warnings (repaired c) \<noteq> [])
   \<and> (clr_repaired (repaired c) \<longleftrightarrow> \<not> valid_config c)"
proof -
  have valid: "valid_config (clr_config (repaired c))"
    by (simp add: repaired_config_eq repaired_config_valid)
  have flag: "clr_repaired (repaired c) \<longleftrightarrow> clr_config (repaired c) \<noteq> c"
    by (simp add: repaired_def case_prod_beta)
  have silent: "clr_warnings (repaired c) = [] \<Longrightarrow> clr_config (repaired c) = c"
    using fold_repair_silent [of repair_checks c "[]"] by (simp add: repaired_def case_prod_beta)
  have "clr_repaired (repaired c) \<longleftrightarrow> \<not> valid_config c"
    using valid repaired_valid_unchanged [of c] flag by auto
  moreover have "valid_config c \<Longrightarrow> clr_warnings (repaired c) = []"
    by (simp add: repaired_valid_unchanged)
  ultimately show ?thesis using valid repaired_valid_unchanged [OF valid] flag silent by auto
qed

text \<open>
  Saving, then loading: with a \<open>toml\<close> writer whose output its reader reads back, and a file
  system that returns what was written, the loaded configuration is the repaired one.
\<close>

theorem save_then_load:
  assumes "save_to_path io path config w = (Inr (), w1)"
    and toml: "\<forall>c s. toml_to_string io c = Inr s \<longrightarrow> toml_from_str io s = Inr c"
    and fs: "\<forall>s w w1. io_write io path s w = (Inr (), w1) \<longrightarrow> fst (io_read_to_string io path w1) = Inr s"
  shows "fst (load_with_report_from_path io path w1)
    = Inr \<lparr>clr_config = clr_config (repaired config), clr_warnings = [], clr_repaired = False\<rparr>"
proof -
  obtain encoded w0 where enc: "toml_to_string io (clr_config (repaired config)) = Inr encoded"
    and written: "io_write io path encoded w0 = (Inr (), w1)"
    using assms(1) by (auto simp: save_to_path_def Let_def split: option.splits sum.splits prod.splits)
  obtain w2 where read: "io_read_to_string io path w1 = (Inr encoded, w2)"
    using fs written by (metis prod.collapse)
  have valid: "valid_config (clr_config (repaired config))"
    by (simp add: repaired_config_eq repaired_config_valid)
  then have version: "cfg_schema_version (clr_config (repaired config)) = APP_CONFIG_SCHEMA_VERSION"
    by (simp add: valid_config_def)
  have parsed: "toml_from_str io encoded = Inr (clr_config (repaired config))"
    using toml enc by blast
  show ?thesis
    by (simp add: load_with_report_from_path_def read parsed version repaired_valid_unchanged [OF valid])
qed

text \<open>A file system of one file, and a writer that knows one configuration.\<close>

definition demo_config :: AppConfig where
  "demo_config = default_app_config\<lparr>cfg_schema_version := 0,
     cfg_audio := (cfg_audio default_app_config)\<lparr>ac_channels := 0\<rparr>\<rparr>"

definition demo_io :: "string option config_io" where
  "demo_io =
     \<lparr>io_read_to_string = (\<lambda>_ w. (case w of Some s \<Rightarrow> Inr s
          | None \<Rightarrow> Inl \<lparr>err_kind = NotFound, err_text = ''not found''\<rparr>, w)),
      io_create_dir_all = (\<lambda>_ w. (Inr (), w)), io_write = (\<lambda>_ s _. (Inr (), Some s)),
      io_parent = (\<lambda>_. Some ''/etc''),
      toml_from_str = (\<lambda>s. if s = ''x'' then Inr default_app_config else Inl ''expected x''),
      toml_to_string = (\<lambda>c. if c = default_app_config then Inr ''x'' else Inl ''unsupported'')\<rparr>"

lemma demo_config_repaired: "clr_config (repaired demo_config) = default_app_config"
  unfolding repaired_config_eq
  by (simp add: repaired_config_def demo_config_def default_app_config_def pick_def
      default_audio_config_def default_discovery_config_def default_transport_config_def
      default_receiver_config_def default_ui_config_def trim_defaults)

theorem save_then_load_witness:
  "fst (load_with_report_from_path demo_io ''/etc/c'' (Some ''x''))
    = Inr \<lparr>clr_config = default_app_config, clr_warnings = [], clr_repaired = False\<rparr>"
proof -
  have "save_to_path demo_io ''/etc/c'' demo_config None = (Inr (), Some ''x'')"
    by (simp add: save_to_path_def demo_io_def demo_config_repaired)
  from save_then_load [OF this] show ?thesis
    by (simp add: demo_io_def demo_config_repaired)
qed

end
