(* ===== verification/Core_Streaming.thy ===== *)
theory Core_Streaming
  imports Core_Models
begin

text \<open>The session snapshots, \<open>synchrosonic-core/src/streaming.rs\<close>.\<close>

definition STREAM_PROTOCOL_VERSION :: u16 where
  "STREAM_PROTOCOL_VERSION = 1"

datatype StreamCodec = RawPcm

datatype StreamSessionState = Idle | Connecting | Negotiating | Streaming | Stopping | Error

record StreamMetrics =
  sm_packets_sent :: u64
  sm_packets_received :: u64
  sm_bytes_sent :: u64
  sm_bytes_received :: u64
  sm_estimated_bitrate_bps :: u64
  sm_latency_estimate_ms :: "u32 option"
  sm_packet_gaps :: u64
  sm_keepalives_sent :: u64
  sm_keepalives_received :: u64

definition default_stream_metrics :: StreamMetrics where
  "default_stream_metrics =
     \<lparr>sm_packets_sent = 0, sm_packets_received = 0, sm_bytes_sent = 0, sm_bytes_received = 0,
      sm_estimated_bitrate_bps = 0, sm_latency_estimate_ms = None, sm_packet_gaps = 0,
      sm_keepalives_sent = 0, sm_keepalives_received = 0\<rparr>"

definition accumulate :: "StreamMetrics \<Rightarrow> StreamMetrics \<Rightarrow> StreamMetrics" where
  "accumulate m other =
     \<lparr>sm_packets_sent = sm_packets_sent m + sm_packets_sent other,
      sm_packets_received = sm_packets_received m + sm_packets_received other,
      sm_bytes_sent = sm_bytes_sent m + sm_bytes_sent other,
      sm_bytes_received = sm_bytes_received m + sm_bytes_received other,
      sm_estimated_bitrate_bps = sm_estimated_bitrate_bps m + sm_estimated_bitrate_bps other,
      sm_latency_estimate_ms =
        (case (sm_latency_estimate_ms m, sm_latency_estimate_ms other) of
           (Some left, Some right) \<Rightarrow> Some (max left right)
         | (Some left, None) \<Rightarrow> Some left
         | (None, Some right) \<Rightarrow> Some right
         | (None, None) \<Rightarrow> None),
      sm_packet_gaps = sm_packet_gaps m + sm_packet_gaps other,
      sm_keepalives_sent = sm_keepalives_sent m + sm_keepalives_sent other,
      sm_keepalives_received = sm_keepalives_received m + sm_keepalives_received other\<rparr>"

record StreamBranchBufferSnapshot =
  bb_queued_packets :: u32
  bb_max_packets :: u32
  bb_dropped_packets :: u64

definition default_branch_buffer :: StreamBranchBufferSnapshot where
  "default_branch_buffer = \<lparr>bb_queued_packets = 0, bb_max_packets = 0, bb_dropped_packets = 0\<rparr>"

definition branch_fill_percent :: "StreamBranchBufferSnapshot \<Rightarrow> u8" where
  "branch_fill_percent s =
     (case map_option (\<lambda>p. ucast (min p 100)) (checked_div (sat_mul (bb_queued_packets s) 100) (bb_max_packets s)) of
        Some p \<Rightarrow> p | None \<Rightarrow> 0)"

datatype LocalMirrorState = Disabled | Idle | Starting | Mirroring | Stopping | Error

record LocalMirrorSnapshot =
  lm_desired_enabled :: bool
  lm_state :: LocalMirrorState
  lm_playback_backend :: "string option"
  lm_playback_target_id :: "string option"
  lm_buffer :: StreamBranchBufferSnapshot
  lm_packets_played :: u64
  lm_bytes_played :: u64
  lm_last_error :: "string option"

definition default_local_mirror :: LocalMirrorSnapshot where
  "default_local_mirror =
     \<lparr>lm_desired_enabled = False, lm_state = Disabled, lm_playback_backend = None,
      lm_playback_target_id = None, lm_buffer = default_branch_buffer, lm_packets_played = 0,
      lm_bytes_played = 0, lm_last_error = None\<rparr>"

datatype StreamTargetHealth = Pending | Healthy | Degraded | Unreachable | Error

datatype StreamTargetFailureKind =
  Refused | Timeout | ResolveFailure | ProtocolMismatch | SelfTargetBlocked | Unreachable

record StreamTargetSnapshot =
  ts_receiver_id :: DeviceId
  ts_receiver_name :: string
  ts_endpoint :: SocketAddr
  ts_state :: StreamSessionState
  ts_health :: StreamTargetHealth
  ts_session_id :: "string option"
  ts_codec :: "StreamCodec option"
  ts_stream :: "ReceiverStreamConfig option"
  ts_network_buffer :: StreamBranchBufferSnapshot
  ts_metrics :: StreamMetrics
  ts_attempt_count :: u32
  ts_next_retry_at_unix_ms :: "u64 option"
  ts_last_error_kind :: "StreamTargetFailureKind option"
  ts_last_error :: "string option"

definition target_snapshot_new :: "DeviceId \<Rightarrow> string \<Rightarrow> SocketAddr \<Rightarrow> StreamTargetSnapshot" where
  "target_snapshot_new receiver_id receiver_name endpoint =
     \<lparr>ts_receiver_id = receiver_id, ts_receiver_name = receiver_name, ts_endpoint = endpoint,
      ts_state = StreamSessionState.Idle, ts_health = Pending, ts_session_id = None,
      ts_codec = None, ts_stream = None, ts_network_buffer = default_branch_buffer,
      ts_metrics = default_stream_metrics, ts_attempt_count = 0,
      ts_next_retry_at_unix_ms = None, ts_last_error_kind = None, ts_last_error = None\<rparr>"

record StreamSessionSnapshot =
  ss_state :: StreamSessionState
  ss_session_id :: "string option"
  ss_stream :: "ReceiverStreamConfig option"
  ss_targets :: "StreamTargetSnapshot list"
  ss_local_mirror :: LocalMirrorSnapshot
  ss_metrics :: StreamMetrics
  ss_last_error :: "string option"

definition default_session_snapshot :: StreamSessionSnapshot where
  "default_session_snapshot =
     \<lparr>ss_state = StreamSessionState.Idle, ss_session_id = None, ss_stream = None, ss_targets = [],
      ss_local_mirror = default_local_mirror, ss_metrics = default_stream_metrics,
      ss_last_error = None\<rparr>"

definition session_with_target :: "StreamTargetSnapshot \<Rightarrow> StreamSessionSnapshot" where
  "session_with_target t = default_session_snapshot\<lparr>ss_targets := [t]\<rparr>"

definition session_target :: "DeviceId \<Rightarrow> StreamSessionSnapshot \<Rightarrow> StreamTargetSnapshot option" where
  "session_target device_id s = find (\<lambda>t. ts_receiver_id t = device_id) (ss_targets s)"

definition active_target_count :: "StreamSessionSnapshot \<Rightarrow> nat" where
  "active_target_count s = length (ss_targets s)"

definition healthy_target_count :: "StreamSessionSnapshot \<Rightarrow> nat" where
  "healthy_target_count s = length (filter (\<lambda>t. ts_health t = Healthy) (ss_targets s))"

section \<open>Accumulating metrics\<close>

text \<open>
  \<open>accumulate\<close> is a commutative monoid operation on the metrics, so the aggregate over a
  collection of targets does not depend on the order the collection is read in.
\<close>

lemma accumulate_comm: "accumulate a b = accumulate b a"
  by (auto simp: accumulate_def add.commute max.commute split: option.splits)

lemma accumulate_assoc: "accumulate (accumulate a b) c = accumulate a (accumulate b c)"
  by (auto simp: accumulate_def add.assoc max.assoc split: option.splits)

lemma accumulate_default [simp]: "accumulate default_stream_metrics m = m"
  by (cases m) (auto simp: accumulate_def default_stream_metrics_def split: option.splits)

lemma accumulate_left_comm: "accumulate a (accumulate b c) = accumulate b (accumulate a c)"
  by (metis accumulate_assoc accumulate_comm)

end
