(* ===== verification/App_State.thy ===== *)
theory App_State
  imports Core_Config Core_Streaming Steps
begin

text \<open>
  The application state, \<open>synchrosonic-core/src/state.rs\<close>, that the user interface keeps: the
  lists of devices, sources and targets, the selections, and the operations that apply the
  discovery, receiver and streaming results to them. The time of the first diagnostic event
  is an argument.
\<close>

datatype CastSessionState = Idle | Preparing | Casting | Stopping | Error

record DeviceState =
  dst_id :: DeviceId
  dst_display_name :: string
  dst_status :: DeviceStatus

record AppState =
  st_config :: AppConfig
  st_cast_session :: CastSessionState
  st_capture_state :: CaptureState
  st_receiver :: ReceiverSnapshot
  st_streaming :: StreamSessionSnapshot
  st_selected_receiver_device_id :: "DeviceId option"
  st_audio_sources :: "AudioSource list"
  st_selected_audio_source_id :: "string option"
  st_playback_targets :: "PlaybackTarget list"
  st_devices :: "DeviceState list"
  st_discovered_devices :: "DiscoveredDevice list"
  st_diagnostics :: "DiagnosticEvent list"

definition app_state_new :: "u64 \<Rightarrow> AppConfig \<Rightarrow> AppState" where
  "app_state_new now config =
     \<lparr>st_config = config, st_cast_session = CastSessionState.Idle,
      st_capture_state = CaptureState.Idle,
      st_receiver = receiver_snapshot_from_config (cfg_receiver config),
      st_streaming = default_session_snapshot\<lparr>ss_local_mirror := default_local_mirror
        \<lparr>lm_desired_enabled := ac_local_playback_enabled (cfg_audio config),
         lm_playback_target_id := ac_local_playback_target_id (cfg_audio config),
         lm_state := (if ac_local_playback_enabled (cfg_audio config) then LocalMirrorState.Idle
                      else LocalMirrorState.Disabled)\<rparr>\<rparr>,
      st_selected_receiver_device_id = None, st_audio_sources = [],
      st_selected_audio_source_id = ac_preferred_source_id (cfg_audio config),
      st_playback_targets = [], st_devices = [], st_discovered_devices = [],
      st_diagnostics = [diagnostic Info now ''app''
        ''Project scaffold initialized; audio capture is ready for backend enumeration.'']\<rparr>"

section \<open>Audio sources\<close>

text \<open>\<open>or_else\<close> on options.\<close>

definition or_else :: "'a option \<Rightarrow> 'a option \<Rightarrow> 'a option" where
  "or_else a b = (case a of Some x \<Rightarrow> Some x | None \<Rightarrow> b)"

definition first_of :: "'a list \<Rightarrow> 'a option" where
  "first_of xs = (case xs of [] \<Rightarrow> None | x # _ \<Rightarrow> Some x)"

definition set_audio_sources :: "AudioSource list \<Rightarrow> AppState \<Rightarrow> AppState" where
  "set_audio_sources sources s =
     (let selected1 = (if st_selected_audio_source_id s = None
            then map_option as_id
              (or_else (find (\<lambda>x. as_is_default x \<and> as_kind x = AudioSourceKind.Monitor) sources)
                (or_else (find as_is_default sources) (first_of sources)))
            else st_selected_audio_source_id s);
          (selected2, capture) = (case selected1 of
              Some selected_id \<Rightarrow>
                (if \<not> list_ex (\<lambda>x. as_id x = selected_id) sources
                 then (map_option as_id (first_of sources), SourceChanged)
                 else (selected1, st_capture_state s))
            | None \<Rightarrow> (selected1, st_capture_state s))
      in s\<lparr>st_selected_audio_source_id := selected2, st_capture_state := capture,
           st_config := (st_config s)\<lparr>cfg_audio := (cfg_audio (st_config s))
              \<lparr>ac_preferred_source_id := selected2\<rparr>\<rparr>,
           st_audio_sources := sources\<rparr>)"

definition select_audio_source :: "string \<Rightarrow> AppState \<Rightarrow> bool \<times> AppState" where
  "select_audio_source source_id s =
     (if \<not> list_ex (\<lambda>x. as_id x = source_id) (st_audio_sources s) then (False, s)
      else (True, s\<lparr>st_selected_audio_source_id := Some source_id,
              st_config := (st_config s)\<lparr>cfg_audio := (cfg_audio (st_config s))
                \<lparr>ac_preferred_source_id := Some source_id\<rparr>\<rparr>,
              st_capture_state := SourceChanged\<rparr>))"

section \<open>Settings\<close>

definition set_local_playback_enabled :: "bool \<Rightarrow> AppState \<Rightarrow> AppState" where
  "set_local_playback_enabled enabled s =
     (let m = (ss_local_mirror (st_streaming s))\<lparr>lm_desired_enabled := enabled\<rparr>;
          m' = (if ss_state (st_streaming s) = StreamSessionState.Idle
                then m\<lparr>lm_state := (if enabled then LocalMirrorState.Idle else LocalMirrorState.Disabled)\<rparr>
                else m)
      in s\<lparr>st_config := (st_config s)\<lparr>cfg_audio := (cfg_audio (st_config s))
             \<lparr>ac_local_playback_enabled := enabled\<rparr>\<rparr>,
           st_streaming := (st_streaming s)\<lparr>ss_local_mirror := m'\<rparr>\<rparr>)"

definition set_transport_quality :: "QualityPreset \<Rightarrow> AppState \<Rightarrow> AppState" where
  "set_transport_quality quality s =
     s\<lparr>st_config := (st_config s)\<lparr>cfg_transport := (cfg_transport (st_config s))\<lparr>tc_quality := quality\<rparr>\<rparr>\<rparr>"

definition set_receiver_latency_preset :: "ReceiverLatencyPreset \<Rightarrow> AppState \<Rightarrow> AppState" where
  "set_receiver_latency_preset preset s =
     (let config = (st_config s)\<lparr>cfg_receiver := (cfg_receiver (st_config s))\<lparr>rc_latency_preset := preset\<rparr>\<rparr>;
          r = (st_receiver s)\<lparr>rsn_latency_preset := preset\<rparr>;
          r' = (if rsn_state r = ReceiverServiceState.Idle
                then (let seeded = receiver_snapshot_from_config (cfg_receiver config)
                      in r\<lparr>rsn_buffer := rsn_buffer seeded, rsn_sync := rsn_sync seeded\<rparr>)
                else r)
      in s\<lparr>st_config := config, st_receiver := r'\<rparr>)"

definition set_prefer_dark_theme :: "bool \<Rightarrow> AppState \<Rightarrow> AppState" where
  "set_prefer_dark_theme prefer s =
     s\<lparr>st_config := (st_config s)\<lparr>cfg_ui := (cfg_ui (st_config s))\<lparr>ui_prefer_dark_theme := prefer\<rparr>\<rparr>\<rparr>"

definition set_last_view_name :: "string \<Rightarrow> AppState \<Rightarrow> AppState" where
  "set_last_view_name name s =
     s\<lparr>st_config := (st_config s)\<lparr>cfg_ui := (cfg_ui (st_config s))\<lparr>ui_last_view_name := name\<rparr>\<rparr>\<rparr>"

definition set_verbose_logging :: "bool \<Rightarrow> AppState \<Rightarrow> AppState" where
  "set_verbose_logging verbose s =
     s\<lparr>st_config := (st_config s)\<lparr>cfg_diagnostics := \<lparr>dg_verbose_logging = verbose\<rparr>\<rparr>\<rparr>"

definition set_receiver_start_on_launch :: "bool \<Rightarrow> AppState \<Rightarrow> AppState" where
  "set_receiver_start_on_launch start s =
     s\<lparr>st_config := (st_config s)\<lparr>cfg_receiver := (cfg_receiver (st_config s))\<lparr>rc_start_on_launch := start\<rparr>\<rparr>\<rparr>"

definition clear_diagnostics :: "AppState \<Rightarrow> AppState" where
  "clear_diagnostics s = s\<lparr>st_diagnostics := []\<rparr>"

section \<open>Playback targets\<close>

definition set_playback_targets :: "PlaybackTarget list \<Rightarrow> AppState \<Rightarrow> AppState" where
  "set_playback_targets targets s = s\<lparr>st_playback_targets := targets\<rparr>"

definition select_local_playback_target :: "string option \<Rightarrow> AppState \<Rightarrow> AppState" where
  "select_local_playback_target target_id s =
     s\<lparr>st_config := (st_config s)\<lparr>cfg_audio := (cfg_audio (st_config s))
          \<lparr>ac_local_playback_target_id := target_id\<rparr>\<rparr>,
       st_streaming := (st_streaming s)\<lparr>ss_local_mirror := (ss_local_mirror (st_streaming s))
          \<lparr>lm_playback_target_id := target_id\<rparr>\<rparr>\<rparr>"

definition select_receiver_playback_target :: "string option \<Rightarrow> AppState \<Rightarrow> AppState" where
  "select_receiver_playback_target target_id s =
     s\<lparr>st_config := (st_config s)\<lparr>cfg_receiver := (cfg_receiver (st_config s))
          \<lparr>rc_playback_target_id := target_id\<rparr>\<rparr>,
       st_receiver := (st_receiver s)\<lparr>rsn_playback_target_id := target_id\<rparr>\<rparr>"

definition playback_target :: "string \<Rightarrow> AppState \<Rightarrow> PlaybackTarget option" where
  "playback_target target_id s = find (\<lambda>t. pt_id t = target_id) (st_playback_targets s)"

definition selected_playback_target_available :: "string option \<Rightarrow> AppState \<Rightarrow> bool" where
  "selected_playback_target_available target_id s =
     (case map_option (\<lambda>t. playback_target t s \<noteq> None) target_id of Some b \<Rightarrow> b | None \<Rightarrow> True)"

definition local_playback_target_available :: "AppState \<Rightarrow> bool" where
  "local_playback_target_available s =
     selected_playback_target_available (ac_local_playback_target_id (cfg_audio (st_config s))) s"

definition receiver_playback_target_available :: "AppState \<Rightarrow> bool" where
  "receiver_playback_target_available s =
     selected_playback_target_available (rc_playback_target_id (cfg_receiver (st_config s))) s"

section \<open>Snapshots\<close>

definition apply_receiver_snapshot :: "ReceiverSnapshot \<Rightarrow> AppState \<Rightarrow> AppState" where
  "apply_receiver_snapshot snapshot s = s\<lparr>st_receiver := snapshot\<rparr>"

fun cast_state_of :: "StreamSessionState \<Rightarrow> CastSessionState" where
  "cast_state_of StreamSessionState.Idle = CastSessionState.Idle"
| "cast_state_of StreamSessionState.Connecting = Preparing"
| "cast_state_of Negotiating = Preparing"
| "cast_state_of Streaming = Casting"
| "cast_state_of StreamSessionState.Stopping = CastSessionState.Stopping"
| "cast_state_of StreamSessionState.Error = CastSessionState.Error"

definition apply_streaming_snapshot :: "StreamSessionSnapshot \<Rightarrow> AppState \<Rightarrow> AppState" where
  "apply_streaming_snapshot snapshot s =
     s\<lparr>st_cast_session := cast_state_of (ss_state snapshot), st_streaming := snapshot\<rparr>"

section \<open>Devices\<close>

definition select_receiver_device :: "DeviceId \<Rightarrow> AppState \<Rightarrow> bool \<times> AppState" where
  "select_receiver_device device_id s =
     (if \<not> list_ex (\<lambda>d. dd_id d = device_id \<and> is_receiver_connectable d) (st_discovered_devices s)
      then (False, s)
      else (True, s\<lparr>st_selected_receiver_device_id := Some device_id\<rparr>))"

definition reconcile_selected_receiver :: "AppState \<Rightarrow> AppState" where
  "reconcile_selected_receiver s =
     (let selected_is_valid =
        (case map_option (\<lambda>selected. list_ex (\<lambda>d. dd_id d = selected \<and> is_receiver_connectable d)
                 (st_discovered_devices s)) (st_selected_receiver_device_id s) of
           Some b \<Rightarrow> b | None \<Rightarrow> False)
      in if selected_is_valid then s
         else s\<lparr>st_selected_receiver_device_id :=
                map_option dd_id (find is_receiver_connectable (st_discovered_devices s))\<rparr>)"

definition device_state_of :: "DiscoveredDevice \<Rightarrow> DeviceState" where
  "device_state_of d = \<lparr>dst_id = dd_id d, dst_display_name = dd_display_name d, dst_status = dd_status d\<rparr>"

definition apply_discovery_snapshot :: "DiscoverySnapshot \<Rightarrow> AppState \<Rightarrow> AppState" where
  "apply_discovery_snapshot snapshot s =
     reconcile_selected_receiver
       (s\<lparr>st_discovered_devices := ds_devices snapshot,
          st_devices := map device_state_of (ds_devices snapshot)\<rparr>)"

definition upsert_discovered_device :: "DiscoveredDevice \<Rightarrow> AppState \<Rightarrow> AppState" where
  "upsert_discovered_device device s =
     s\<lparr>st_discovered_devices :=
         upsert_by (\<lambda>d. dd_id d = dd_id device) device (st_discovered_devices s),
       st_devices :=
         upsert_by (\<lambda>d. dst_id d = dst_id (device_state_of device)) (device_state_of device)
           (st_devices s)\<rparr>"

definition apply_discovery_event :: "DiscoveryEvent \<Rightarrow> AppState \<Rightarrow> AppState" where
  "apply_discovery_event event s =
     reconcile_selected_receiver
       (case event of
          DeviceDiscovered device \<Rightarrow> upsert_discovered_device device s
        | DeviceUpdated device \<Rightarrow> upsert_discovered_device device s
        | DeviceRemoved device_id _ \<Rightarrow>
            s\<lparr>st_discovered_devices := filter (\<lambda>d. dd_id d \<noteq> device_id) (st_discovered_devices s),
              st_devices := filter (\<lambda>d. dst_id d \<noteq> device_id) (st_devices s)\<rparr>
        | DeviceExpired device \<Rightarrow> upsert_discovered_device device s)"

section \<open>Consistency\<close>

datatype app_op =
  SetAudioSources "AudioSource list" | SelectAudioSource string | SetLocalPlayback bool
| SetQuality QualityPreset | SetLatencyPreset ReceiverLatencyPreset | SetDarkTheme bool
| SetLastView string | SetVerbose bool | SetStartOnLaunch bool | ClearDiagnostics
| SetPlaybackTargets "PlaybackTarget list" | SelectLocalTarget "string option"
| SelectReceiverTarget "string option" | ApplyReceiver ReceiverSnapshot
| ApplyStreaming StreamSessionSnapshot | SelectReceiverDevice DeviceId
| ApplyDiscovery DiscoverySnapshot | ApplyDiscoveryEvent DiscoveryEvent

fun app_step :: "app_op \<Rightarrow> AppState \<Rightarrow> AppState" where
  "app_step (SetAudioSources x) s = set_audio_sources x s"
| "app_step (SelectAudioSource x) s = snd (select_audio_source x s)"
| "app_step (SetLocalPlayback x) s = set_local_playback_enabled x s"
| "app_step (SetQuality x) s = set_transport_quality x s"
| "app_step (SetLatencyPreset x) s = set_receiver_latency_preset x s"
| "app_step (SetDarkTheme x) s = set_prefer_dark_theme x s"
| "app_step (SetLastView x) s = set_last_view_name x s"
| "app_step (SetVerbose x) s = set_verbose_logging x s"
| "app_step (SetStartOnLaunch x) s = set_receiver_start_on_launch x s"
| "app_step ClearDiagnostics s = clear_diagnostics s"
| "app_step (SetPlaybackTargets x) s = set_playback_targets x s"
| "app_step (SelectLocalTarget x) s = select_local_playback_target x s"
| "app_step (SelectReceiverTarget x) s = select_receiver_playback_target x s"
| "app_step (ApplyReceiver x) s = apply_receiver_snapshot x s"
| "app_step (ApplyStreaming x) s = apply_streaming_snapshot x s"
| "app_step (SelectReceiverDevice x) s = snd (select_receiver_device x s)"
| "app_step (ApplyDiscovery x) s = apply_discovery_snapshot x s"
| "app_step (ApplyDiscoveryEvent x) s = apply_discovery_event x s"

text \<open>
  The two device lists are in lockstep; a receiver is selected exactly when one is connectable,
  and then the selected one is; a known source list contains the selected source, which is
  the configured one; the cast state follows the session state.
\<close>

definition device_inv :: "AppState \<Rightarrow> bool" where
  "device_inv s \<longleftrightarrow>
     st_devices s = map device_state_of (st_discovered_devices s)
     \<and> (case st_selected_receiver_device_id s of
          None \<Rightarrow> \<not> list_ex is_receiver_connectable (st_discovered_devices s)
        | Some i \<Rightarrow> list_ex (\<lambda>d. dd_id d = i \<and> is_receiver_connectable d) (st_discovered_devices s))"

definition source_inv :: "AppState \<Rightarrow> bool" where
  "source_inv s \<longleftrightarrow>
     ac_preferred_source_id (cfg_audio (st_config s)) = st_selected_audio_source_id s
     \<and> (st_audio_sources s \<noteq> [] \<longrightarrow>
          (\<exists>x \<in> set (st_audio_sources s). st_selected_audio_source_id s = Some (as_id x)))"

definition app_inv :: "AppState \<Rightarrow> bool" where
  "app_inv s \<longleftrightarrow> device_inv s \<and> source_inv s \<and> st_cast_session s = cast_state_of (ss_state (st_streaming s))"

lemma app_new_inv: "app_inv (app_state_new now config)"
  by (simp add: app_inv_def device_inv_def source_inv_def app_state_new_def default_session_snapshot_def)

lemma find_connectable:
  "find P xs = None \<Longrightarrow> \<not> list_ex P xs"
  "find P xs = Some d \<Longrightarrow> list_ex (\<lambda>x. f x = f d \<and> P x) xs"
  by (induction xs) (auto split: if_splits)

lemma reconcile_selected:
  "st_devices s = map device_state_of (st_discovered_devices s) \<Longrightarrow> device_inv (reconcile_selected_receiver s)"
  by (cases "find is_receiver_connectable (st_discovered_devices s)")
    (auto simp: reconcile_selected_receiver_def device_inv_def Let_def find_connectable
      split: option.splits)

lemma reconcile_frame [simp]:
  "st_config (reconcile_selected_receiver s) = st_config s"
  "st_audio_sources (reconcile_selected_receiver s) = st_audio_sources s"
  "st_selected_audio_source_id (reconcile_selected_receiver s) = st_selected_audio_source_id s"
  "st_cast_session (reconcile_selected_receiver s) = st_cast_session s"
  "st_streaming (reconcile_selected_receiver s) = st_streaming s"
  by (simp_all add: reconcile_selected_receiver_def Let_def)

lemma map_upsert_lockstep:
  "map device_state_of (upsert_by (\<lambda>d. dd_id d = dd_id x) x ds) =
   upsert_by (\<lambda>t. dst_id t = dst_id (device_state_of x)) (device_state_of x) (map device_state_of ds)"
  by (induction ds) (simp_all add: device_state_of_def)

lemma filter_lockstep:
  "filter (\<lambda>d. dst_id d \<noteq> i) (map device_state_of ds) = map device_state_of (filter (\<lambda>d. dd_id d \<noteq> i) ds)"
  by (induction ds) (simp_all add: device_state_of_def)

lemma upsert_device_frame [simp]:
  "st_config (upsert_discovered_device d s) = st_config s"
  "st_audio_sources (upsert_discovered_device d s) = st_audio_sources s"
  "st_selected_audio_source_id (upsert_discovered_device d s) = st_selected_audio_source_id s"
  "st_cast_session (upsert_discovered_device d s) = st_cast_session s"
  "st_streaming (upsert_discovered_device d s) = st_streaming s"
  by (simp_all add: upsert_discovered_device_def)

lemma discovery_event_inv: "app_inv s \<Longrightarrow> app_inv (apply_discovery_event ev s)"
proof -
  assume inv: "app_inv s"
  have "device_inv (apply_discovery_event ev s)"
    unfolding apply_discovery_event_def
    by (rule reconcile_selected)
      (use inv in \<open>cases ev; simp add: app_inv_def device_inv_def upsert_discovered_device_def
        map_upsert_lockstep filter_lockstep\<close>)
  with inv show ?thesis
    by (cases ev) (simp_all add: app_inv_def source_inv_def apply_discovery_event_def)
qed

lemma set_sources_inv: "source_inv (set_audio_sources xs s)"
proof (cases xs)
  case Nil
  then show ?thesis by (simp add: source_inv_def set_audio_sources_def Let_def case_prod_beta)
next
  case (Cons x ys)
  define sel where "sel = (if st_selected_audio_source_id s = None
            then map_option as_id
              (or_else (find (\<lambda>x. as_is_default x \<and> as_kind x = AudioSourceKind.Monitor) xs)
                (or_else (find as_is_default xs) (first_of xs)))
            else st_selected_audio_source_id s)"
  have "or_else (find (\<lambda>x. as_is_default x \<and> as_kind x = AudioSourceKind.Monitor) xs)
      (or_else (find as_is_default xs) (first_of xs)) \<noteq> None"
    by (auto simp: or_else_def first_of_def Cons split: option.splits)
  then have "sel \<noteq> None" by (simp add: sel_def)
  then obtain i where i: "sel = Some i" by blast
  show ?thesis
  proof (cases "list_ex (\<lambda>x. as_id x = i) xs")
    case True
    then obtain y where "y \<in> set xs" "as_id y = i" by (auto simp: list_ex_iff)
    with True show ?thesis
      by (auto simp: source_inv_def set_audio_sources_def sel_def [symmetric] i Let_def)
  next
    case False
    then show ?thesis
      by (simp add: source_inv_def set_audio_sources_def sel_def [symmetric] i Let_def)
        (simp add: first_of_def Cons)
  qed
qed

lemma set_sources_frame [simp]:
  "st_devices (set_audio_sources xs s) = st_devices s"
  "st_discovered_devices (set_audio_sources xs s) = st_discovered_devices s"
  "st_selected_receiver_device_id (set_audio_sources xs s) = st_selected_receiver_device_id s"
  "st_cast_session (set_audio_sources xs s) = st_cast_session s"
  "st_streaming (set_audio_sources xs s) = st_streaming s"
  by (simp_all add: set_audio_sources_def Let_def case_prod_beta)

lemmas setter_defs =
  set_local_playback_enabled_def set_transport_quality_def set_receiver_latency_preset_def
  set_prefer_dark_theme_def set_last_view_name_def set_verbose_logging_def
  set_receiver_start_on_launch_def clear_diagnostics_def set_playback_targets_def
  select_local_playback_target_def select_receiver_playback_target_def apply_receiver_snapshot_def
  apply_streaming_snapshot_def

lemma app_step_inv: "app_inv s \<Longrightarrow> app_inv (app_step op s)"
proof (cases op)
  case (SetAudioSources xs)
  assume "app_inv s"
  with SetAudioSources show ?thesis
    by (simp add: app_inv_def device_inv_def set_sources_inv split: option.splits)
next
  case (SelectAudioSource x)
  assume "app_inv s"
  with SelectAudioSource show ?thesis
    by (auto simp: app_inv_def device_inv_def source_inv_def select_audio_source_def list_ex_iff
        split: option.splits)
next
  case (SelectReceiverDevice x)
  assume "app_inv s"
  with SelectReceiverDevice show ?thesis
    by (auto simp: app_inv_def device_inv_def source_inv_def select_receiver_device_def
        split: option.splits)
next
  case (ApplyDiscovery x)
  assume inv: "app_inv s"
  have "device_inv (apply_discovery_snapshot x s)"
    unfolding apply_discovery_snapshot_def by (rule reconcile_selected) simp
  with ApplyDiscovery inv show ?thesis
    by (simp add: app_inv_def source_inv_def apply_discovery_snapshot_def)
next
  case (ApplyDiscoveryEvent x)
  assume "app_inv s"
  with ApplyDiscoveryEvent show ?thesis by (simp add: discovery_event_inv)
qed (simp_all add: app_inv_def device_inv_def source_inv_def setter_defs Let_def split: option.splits)

interpretation app: labelled_system app_step app_inv
  by unfold_locales (rule app_step_inv)

theorem app_state_consistent: "app_inv (fold app_step ops (app_state_new now config))"
  by (rule app.good_fold) (rule app_new_inv)

end
