(* ===== verification/Codec.thy ===== *)
theory Codec
  imports Main
begin

text \<open>
  The contract of a self-delimiting code: what was encoded is decoded, and the rest of the
  input is left. The client gets unique decoding of concatenations.
\<close>

fun decode_many :: "('i list \<Rightarrow> ('e + 'f) \<times> 'i list) \<Rightarrow> nat \<Rightarrow> 'i list \<Rightarrow> ('e + 'f list) \<times> 'i list" where
  "decode_many dec 0 s = (Inr [], s)"
| "decode_many dec (Suc n) s =
     (case dec s of
        (Inl e, s') \<Rightarrow> (Inl e, s')
      | (Inr f, s') \<Rightarrow>
          (case decode_many dec n s' of
             (Inl e, s'') \<Rightarrow> (Inl e, s'')
           | (Inr fs, s'') \<Rightarrow> (Inr (f # fs), s'')))"

locale self_delimiting =
  fixes encode :: "'f \<Rightarrow> 'i list"
    and decode :: "'i list \<Rightarrow> ('e + 'f) \<times> 'i list"
    and valid :: "'f \<Rightarrow> bool"
  assumes decode_encode: "valid f \<Longrightarrow> decode (encode f @ s) = (Inr f, s)"
begin

lemma encode_prefix_free:
  assumes "valid f" "valid g" "encode f @ s = encode g @ t"
  shows "f = g \<and> s = t"
  using decode_encode [OF assms(1), of s] decode_encode [OF assms(2), of t]
  unfolding assms(3) by simp

lemma decode_many_concat:
  "\<forall>f \<in> set fs. valid f \<Longrightarrow>
   decode_many decode (length fs) (concat (map encode fs) @ s) = (Inr fs, s)"
  by (induction fs) (simp_all add: decode_encode)

lemma concat_inj:
  assumes "\<forall>f \<in> set fs. valid f" "\<forall>f \<in> set gs. valid f" "length fs = length gs"
    and "concat (map encode fs) = concat (map encode gs)"
  shows "fs = gs"
  using decode_many_concat [OF assms(1), of "[]"] decode_many_concat [OF assms(2), of "[]"]
  unfolding assms(3,4) by simp

end

end
