(* ===== verification/Frame_Protocol.thy ===== *)
theory Frame_Protocol
  imports Core_Streaming Codec
begin

text \<open>
  The wire protocol, \<open>synchrosonic-transport/src/protocol.rs\<close>: frames of a fixed header, JSON
  metadata and a payload. What a socket delivers is a list of items: a byte, or an error that
  one \<open>read\<close> call returned; the end of the list is the end of the stream. \<open>Read::read_exact\<close>
  is the standard library's loop over it: it retries \<open>Interrupted\<close> and fails on every other
  error, and the bytes it consumed are gone. A writer is a \<open>write_all\<close> function over a world.
  The JSON codec is an argument (the text of its errors a string).
\<close>

unbundle bit_operations_syntax

section \<open>Frames\<close>

definition FRAME_MAGIC :: bytes where
  "FRAME_MAGIC = [0x53, 0x53, 0x4E, 0x31]"

definition FRAME_HEADER_LEN :: nat where "FRAME_HEADER_LEN = 13"

definition MAX_METADATA_BYTES :: nat where "MAX_METADATA_BYTES = 8 * 1024"

definition MAX_PAYLOAD_BYTES :: nat where "MAX_PAYLOAD_BYTES = 256 * 1024"

datatype FrameKind = Hello | Accept | Audio | Heartbeat | HeartbeatAck | Stop | Error

fun kind_byte :: "FrameKind \<Rightarrow> u8" where
  "kind_byte Hello = 1"
| "kind_byte Accept = 2"
| "kind_byte FrameKind.Audio = 3"
| "kind_byte Heartbeat = 4"
| "kind_byte HeartbeatAck = 5"
| "kind_byte Stop = 6"
| "kind_byte FrameKind.Error = 7"

fun show_kind :: "FrameKind \<Rightarrow> string" where
  "show_kind Hello = ''Hello''"
| "show_kind Accept = ''Accept''"
| "show_kind FrameKind.Audio = ''Audio''"
| "show_kind Heartbeat = ''Heartbeat''"
| "show_kind HeartbeatAck = ''HeartbeatAck''"
| "show_kind Stop = ''Stop''"
| "show_kind FrameKind.Error = ''Error''"

definition kind_from_u8 :: "u8 \<Rightarrow> TransportError + FrameKind" where
  "kind_from_u8 value =
     (if value = 1 then Inr Hello
      else if value = 2 then Inr Accept
      else if value = 3 then Inr FrameKind.Audio
      else if value = 4 then Inr Heartbeat
      else if value = 5 then Inr HeartbeatAck
      else if value = 6 then Inr Stop
      else if value = 7 then Inr FrameKind.Error
      else Inl (InvalidProtocol (''unknown frame kind byte '' @ show_word value)))"

record Frame =
  fr_kind :: FrameKind
  fr_metadata :: bytes
  fr_payload :: bytes
  fr_wire_bytes :: nat

text \<open>\<open>u32::to_be_bytes\<close> and \<open>u32::from_be_bytes\<close>.\<close>

definition to_be_bytes :: "u32 \<Rightarrow> bytes" where
  "to_be_bytes w = [ucast (drop_bit 24 w), ucast (drop_bit 16 w), ucast (drop_bit 8 w), ucast w]"

fun from_be_bytes :: "bytes \<Rightarrow> u32" where
  "from_be_bytes [a, b, c, d] =
     push_bit 24 (ucast a) OR push_bit 16 (ucast b) OR push_bit 8 (ucast c) OR ucast d"
| "from_be_bytes _ = 0"

section \<open>Messages\<close>

record HelloMessage =
  hm_protocol_version :: u16
  hm_session_id :: string
  hm_sender_name :: string
  hm_supported_codecs :: "StreamCodec list"
  hm_desired_codec :: StreamCodec
  hm_stream :: ReceiverStreamConfig
  hm_quality :: QualityPreset
  hm_target_latency_ms :: u16
  hm_keepalive_interval_ms :: u16

definition hello_new ::
  "string \<Rightarrow> string \<Rightarrow> ReceiverStreamConfig \<Rightarrow> QualityPreset \<Rightarrow> u16 \<Rightarrow> u16 \<Rightarrow> HelloMessage" where
  "hello_new session_id sender_name stream quality target_latency_ms keepalive_interval_ms =
     \<lparr>hm_protocol_version = STREAM_PROTOCOL_VERSION, hm_session_id = session_id,
      hm_sender_name = sender_name, hm_supported_codecs = [RawPcm], hm_desired_codec = RawPcm,
      hm_stream = stream, hm_quality = quality, hm_target_latency_ms = target_latency_ms,
      hm_keepalive_interval_ms = keepalive_interval_ms\<rparr>"

record AcceptMessage =
  am_protocol_version :: u16
  am_session_id :: string
  am_receiver_name :: string
  am_codec :: StreamCodec
  am_stream :: ReceiverStreamConfig
  am_keepalive_interval_ms :: u16
  am_receiver_latency_ms :: u16

record AudioMessage =
  au_sequence :: u64
  au_captured_at_ms :: u64
  au_captured_at_unix_ms :: u64

record HeartbeatMessage = hb_nonce :: u64

record StopMessage = sp_reason :: string

record ErrorMessage =
  em_code :: string
  em_message :: string

section \<open>Writing\<close>

definition frame_header :: "FrameKind \<Rightarrow> bytes \<Rightarrow> bytes \<Rightarrow> bytes" where
  "frame_header kind metadata payload =
     FRAME_MAGIC @ [kind_byte kind] @ to_be_bytes (of_nat (length metadata))
       @ to_be_bytes (of_nat (length payload))"

definition write_frame ::
  "(bytes \<Rightarrow> 'w \<Rightarrow> (io_error + unit) \<times> 'w) \<Rightarrow> FrameKind \<Rightarrow> bytes \<Rightarrow> bytes \<Rightarrow> 'w
    \<Rightarrow> (TransportError + nat) \<times> 'w" where
  "write_frame write_all kind metadata payload w =
     (if MAX_METADATA_BYTES < length metadata then
        (Inl (InvalidProtocol (''metadata frame exceeded '' @ show_nat MAX_METADATA_BYTES @ '' bytes'')), w)
      else if MAX_PAYLOAD_BYTES < length payload then
        (Inl (InvalidProtocol (''payload frame exceeded '' @ show_nat MAX_PAYLOAD_BYTES @ '' bytes'')), w)
      else
        (let header = frame_header kind metadata payload;
             failed = (\<lambda>e. Inl (Io (''writing '' @ show_kind kind @ '' frame'') e))
         in case write_all header w of
              (Inl e, w1) \<Rightarrow> (failed e, w1)
            | (Inr _, w1) \<Rightarrow>
                (case write_all metadata w1 of
                   (Inl e, w2) \<Rightarrow> (failed e, w2)
                 | (Inr _, w2) \<Rightarrow>
                     (case write_all payload w2 of
                        (Inl e, w3) \<Rightarrow> (failed e, w3)
                      | (Inr _, w3) \<Rightarrow>
                          (Inr (length header + length metadata + length payload), w3)))))"

definition write_message ::
  "('m \<Rightarrow> string + bytes) \<Rightarrow> (bytes \<Rightarrow> 'w \<Rightarrow> (io_error + unit) \<times> 'w) \<Rightarrow> FrameKind \<Rightarrow> 'm \<Rightarrow> bytes
    \<Rightarrow> 'w \<Rightarrow> (TransportError + nat) \<times> 'w" where
  "write_message to_vec write_all kind metadata payload w =
     (case to_vec metadata of
        Inl e \<Rightarrow> (Inl (InvalidProtocol e), w)
      | Inr bytes \<Rightarrow> write_frame write_all kind bytes payload w)"

section \<open>Reading\<close>

datatype stream_item = Byte u8 | ReadErr io_error

definition eof_error :: io_error where
  "eof_error = \<lparr>err_kind = UnexpectedEof, err_text = ''failed to fill whole buffer''\<rparr>"

fun read_exact :: "nat \<Rightarrow> stream_item list \<Rightarrow> (io_error + bytes) \<times> stream_item list" where
  "read_exact 0 s = (Inr [], s)"
| "read_exact (Suc n) [] = (Inl eof_error, [])"
| "read_exact (Suc n) (Byte b # s) =
     (case read_exact n s of
        (Inl e, s') \<Rightarrow> (Inl e, s')
      | (Inr bs, s') \<Rightarrow> (Inr (b # bs), s'))"
| "read_exact (Suc n) (ReadErr e # s) =
     (if err_kind e = Interrupted then read_exact (Suc n) s else (Inl e, s))"

definition read_frame :: "stream_item list \<Rightarrow> (TransportError + Frame) \<times> stream_item list" where
  "read_frame s =
     (case read_exact FRAME_HEADER_LEN s of
        (Inl e, s1) \<Rightarrow> (Inl (Io ''reading transport frame header'' e), s1)
      | (Inr header, s1) \<Rightarrow>
          (if take 4 header \<noteq> FRAME_MAGIC then
             (Inl (InvalidProtocol ''frame magic did not match SynchroSonic protocol''), s1)
           else
             (case kind_from_u8 (header ! 4) of
                Inl e \<Rightarrow> (Inl e, s1)
              | Inr kind \<Rightarrow>
                  (let metadata_len = unat (from_be_bytes (take 4 (drop 5 header)));
                       payload_len = unat (from_be_bytes (take 4 (drop 9 header)))
                   in if MAX_METADATA_BYTES < metadata_len then
                        (Inl (InvalidProtocol (''metadata length '' @ show_nat metadata_len
                           @ '' exceeded '' @ show_nat MAX_METADATA_BYTES)), s1)
                      else if MAX_PAYLOAD_BYTES < payload_len then
                        (Inl (InvalidProtocol (''payload length '' @ show_nat payload_len
                           @ '' exceeded '' @ show_nat MAX_PAYLOAD_BYTES)), s1)
                      else
                        (let failed = (\<lambda>e. Inl (Io (''reading '' @ show_kind kind @ '' frame body'') e))
                         in case read_exact metadata_len s1 of
                              (Inl e, s2) \<Rightarrow> (failed e, s2)
                            | (Inr metadata, s2) \<Rightarrow>
                                (case read_exact payload_len s2 of
                                   (Inl e, s3) \<Rightarrow> (failed e, s3)
                                 | (Inr payload, s3) \<Rightarrow>
                                     (Inr \<lparr>fr_kind = kind, fr_metadata = metadata, fr_payload = payload,
                                           fr_wire_bytes = FRAME_HEADER_LEN + metadata_len + payload_len\<rparr>,
                                      s3)))))))"

definition decode_metadata :: "(bytes \<Rightarrow> string + 'm) \<Rightarrow> Frame \<Rightarrow> TransportError + 'm" where
  "decode_metadata from_slice frame =
     (case from_slice (fr_metadata frame) of
        Inl e \<Rightarrow> Inl (InvalidProtocol e)
      | Inr m \<Rightarrow> Inr m)"

section \<open>Bytes and kinds\<close>

lemma from_to_be_bytes [simp]: "from_be_bytes (to_be_bytes w) = w"
proof (rule bit_word_eqI)
  fix n assume n: "n < LENGTH(32)"
  consider "n < 8" | "8 \<le> n" "n < 16" | "16 \<le> n" "n < 24" | "24 \<le> n" "n < 32" using n by fastforce
  then show "bit (from_be_bytes (to_be_bytes w)) n = bit w n"
    by cases (auto simp: to_be_bytes_def bit_simps)
qed

lemma to_from_be_bytes: "length bs = 4 \<Longrightarrow> to_be_bytes (from_be_bytes bs) = bs"
proof -
  assume "length bs = 4"
  then obtain a b c d where bs: "bs = [a, b, c, d]" by (auto simp: numeral_eq_Suc length_Suc_conv)
  show ?thesis
    by (simp add: bs to_be_bytes_def) (intro conjI bit_word_eqI; auto simp: bit_simps dest: bit_imp_le_length)
qed

lemma length_to_be_bytes [simp]: "length (to_be_bytes w) = 4"
  by (simp add: to_be_bytes_def)

lemma kind_from_byte [simp]: "kind_from_u8 (kind_byte k) = Inr k"
  by (cases k) (simp_all add: kind_from_u8_def)

lemma kind_from_u8_Inr: "kind_from_u8 b = Inr k \<longleftrightarrow> b = kind_byte k"
  by (cases k) (auto simp: kind_from_u8_def split: if_splits)

lemma length_frame_header [simp]: "length (frame_header k m p) = 13"
  by (simp add: frame_header_def FRAME_MAGIC_def)

lemma frame_header_parts [simp]:
  "take 4 (frame_header k m p) = FRAME_MAGIC" "frame_header k m p ! 4 = kind_byte k"
  "take 4 (drop 5 (frame_header k m p)) = to_be_bytes (of_nat (length m))"
  "take 4 (drop 9 (frame_header k m p)) = to_be_bytes (of_nat (length p))"
  by (simp_all add: frame_header_def FRAME_MAGIC_def nth_append to_be_bytes_def)

lemma frame_lengths:
  "n \<le> MAX_METADATA_BYTES \<Longrightarrow> unat (of_nat n :: u32) = n"
  "n \<le> MAX_PAYLOAD_BYTES \<Longrightarrow> unat (of_nat n :: u32) = n"
  by (simp_all add: MAX_METADATA_BYTES_def MAX_PAYLOAD_BYTES_def unat_of_nat)

section \<open>Reading what was written\<close>

lemma read_exact_bytes [simp]: "n = length bs \<Longrightarrow> read_exact n (map Byte bs @ s) = (Inr bs, s)"
  by (induction bs arbitrary: n) auto

definition frame_encoding :: "Frame \<Rightarrow> bytes" where
  "frame_encoding f =
     frame_header (fr_kind f) (fr_metadata f) (fr_payload f) @ fr_metadata f @ fr_payload f"

definition frame_ok :: "Frame \<Rightarrow> bool" where
  "frame_ok f \<longleftrightarrow> length (fr_metadata f) \<le> MAX_METADATA_BYTES \<and> length (fr_payload f) \<le> MAX_PAYLOAD_BYTES
     \<and> fr_wire_bytes f = length (frame_encoding f)"

lemma read_frame_encoding: "frame_ok f \<Longrightarrow> read_frame (map Byte (frame_encoding f) @ s) = (Inr f, s)"
  by (cases f) (simp add: read_frame_def frame_encoding_def frame_ok_def FRAME_HEADER_LEN_def
      frame_lengths Let_def)

lemma read_exact_consumes: "read_exact n s = (r, s') \<Longrightarrow> length s' \<le> length s"
  by (induction n s arbitrary: r rule: read_exact.induct)
    (auto split: prod.splits sum.splits if_splits simp: le_SucI)

lemma read_exact_shorter:
  "read_exact n s = (r, s') \<Longrightarrow> 0 < n \<Longrightarrow> s \<noteq> [] \<Longrightarrow> length s' < length s"
proof (induction n s arbitrary: r rule: read_exact.induct)
  case (3 n b s)
  then obtain r' where "read_exact n s = (r', s')" by (auto split: prod.splits sum.splits)
  from read_exact_consumes [OF this] show ?case by simp
next
  case (4 n e s)
  then show ?case
    by (cases "s = []") (auto split: if_splits)
qed auto

lemma read_frame_consumes:
  assumes "read_frame s = (r, s')"
  shows "length s' \<le> length s" "s \<noteq> [] \<Longrightarrow> length s' < length s"
    "s = [] \<Longrightarrow> r = Inl (Io ''reading transport frame header'' eof_error)"
proof -
  obtain r1 s1 where header: "read_exact FRAME_HEADER_LEN s = (r1, s1)" by fastforce
  have "length s' \<le> length s1"
    using assms read_exact_consumes
    by (auto simp: read_frame_def header Let_def split: sum.splits prod.splits if_splits)
      (meson le_trans)+
  moreover have "length s1 \<le> length s" using header by (rule read_exact_consumes)
  moreover have "s \<noteq> [] \<Longrightarrow> length s1 < length s"
    using read_exact_shorter [OF header] by (simp add: FRAME_HEADER_LEN_def)
  ultimately show "length s' \<le> length s" "s \<noteq> [] \<Longrightarrow> length s' < length s" by auto
  show "s = [] \<Longrightarrow> r = Inl (Io ''reading transport frame header'' eof_error)"
    using assms by (auto simp: read_frame_def FRAME_HEADER_LEN_def numeral_eq_Suc)
qed

interpretation frames: self_delimiting "\<lambda>f. map Byte (frame_encoding f)" read_frame frame_ok
  by unfold_locales (rule read_frame_encoding)

text \<open>What a successful read consumed: bytes, and interruptions between them.\<close>

fun item_bytes :: "stream_item list \<Rightarrow> bytes" where
  "item_bytes [] = []"
| "item_bytes (Byte b # s) = b # item_bytes s"
| "item_bytes (ReadErr _ # s) = item_bytes s"

definition only_interrupted :: "stream_item list \<Rightarrow> bool" where
  "only_interrupted s \<longleftrightarrow> (\<forall>e. ReadErr e \<in> set s \<longrightarrow> err_kind e = Interrupted)"

lemma item_bytes_append [simp]: "item_bytes (xs @ ys) = item_bytes xs @ item_bytes ys"
  by (induction xs rule: item_bytes.induct) simp_all

lemma only_interrupted_append [simp]:
  "only_interrupted (xs @ ys) \<longleftrightarrow> only_interrupted xs \<and> only_interrupted ys"
  by (auto simp: only_interrupted_def)

lemma read_exact_Inr:
  "read_exact n s = (Inr bs, s') \<Longrightarrow>
   length bs = n \<and> (\<exists>pre. s = pre @ s' \<and> item_bytes pre = bs \<and> only_interrupted pre)"
proof (induction n s arbitrary: bs rule: read_exact.induct)
  case (1 s)
  then show ?case by (auto simp: only_interrupted_def)
next
  case (3 n b s)
  from "3.prems" obtain cs where cs: "read_exact n s = (Inr cs, s')" "bs = b # cs"
    by (auto split: prod.splits sum.splits)
  with "3.IH" obtain pre where "length cs = n" "s = pre @ s'" "item_bytes pre = cs" "only_interrupted pre"
    by blast
  with cs(2) show ?case
    by (auto simp: only_interrupted_def intro!: exI [of _ "Byte b # pre"])
next
  case (4 n e s)
  from "4.prems" have int: "err_kind e = Interrupted" and "read_exact (Suc n) s = (Inr bs, s')"
    by (auto split: if_splits)
  with "4.IH" obtain pre where "length bs = Suc n" "s = pre @ s'" "item_bytes pre = bs" "only_interrupted pre"
    by blast
  with int show ?case
    by (auto simp: only_interrupted_def intro!: exI [of _ "ReadErr e # pre"])
qed simp

lemma header_of_parts:
  assumes "length h = 13" "take 4 h = FRAME_MAGIC" "h ! 4 = kind_byte k"
    and "unat (from_be_bytes (take 4 (drop 5 h))) = length m"
    and "unat (from_be_bytes (take 4 (drop 9 h))) = length p"
  shows "h = frame_header k m p"
proof -
  have "h = take 4 h @ [h ! 4] @ take 4 (drop 5 h) @ take 4 (drop 9 h)"
    using assms(1) by (auto simp: numeral_eq_Suc length_Suc_conv)
  moreover have "take 4 (drop 5 h) = to_be_bytes (of_nat (length m))"
    using assms(1,4) to_from_be_bytes [of "take 4 (drop 5 h)"] by (simp flip: assms(4))
  moreover have "take 4 (drop 9 h) = to_be_bytes (of_nat (length p))"
    using assms(1,5) to_from_be_bytes [of "take 4 (drop 9 h)"] by (simp flip: assms(5))
  ultimately show ?thesis by (simp add: frame_header_def assms(2,3))
qed

lemma read_frame_Inr:
  assumes "read_frame s = (Inr f, s')"
  shows "frame_ok f \<and> (\<exists>pre. s = pre @ s' \<and> item_bytes pre = frame_encoding f \<and> only_interrupted pre)"
proof -
  from assms obtain h s1 where h: "read_exact FRAME_HEADER_LEN s = (Inr h, s1)"
    by (auto simp: read_frame_def split: prod.splits sum.splits)
  with assms have magic: "take 4 h = FRAME_MAGIC" by (auto simp: read_frame_def split: if_splits)
  with assms h obtain k where k: "kind_from_u8 (h ! 4) = Inr k"
    by (auto simp: read_frame_def split: sum.splits)
  define ml pl where "ml = unat (from_be_bytes (take 4 (drop 5 h)))"
    and "pl = unat (from_be_bytes (take 4 (drop 9 h)))"
  from assms have bounds: "ml \<le> MAX_METADATA_BYTES" "pl \<le> MAX_PAYLOAD_BYTES"
    by (auto simp: read_frame_def h magic k ml_def [symmetric] pl_def [symmetric] Let_def split: if_splits)
  with assms obtain m s2 where m: "read_exact ml s1 = (Inr m, s2)"
    by (auto simp: read_frame_def h magic k ml_def [symmetric] pl_def [symmetric] Let_def
        split: prod.splits sum.splits)
  with assms bounds obtain p where p: "read_exact pl s2 = (Inr p, s')"
    and f: "f = \<lparr>fr_kind = k, fr_metadata = m, fr_payload = p, fr_wire_bytes = FRAME_HEADER_LEN + ml + pl\<rparr>"
    by (auto simp: read_frame_def h magic k ml_def [symmetric] pl_def [symmetric] Let_def
        split: prod.splits sum.splits)
  obtain pre1 where h': "length h = 13" "s = pre1 @ s1" "item_bytes pre1 = h" "only_interrupted pre1"
    using read_exact_Inr [OF h] by (auto simp: FRAME_HEADER_LEN_def)
  obtain pre2 where m': "length m = ml" "s1 = pre2 @ s2" "item_bytes pre2 = m" "only_interrupted pre2"
    using read_exact_Inr [OF m] by auto
  obtain pre3 where p': "length p = pl" "s2 = pre3 @ s'" "item_bytes pre3 = p" "only_interrupted pre3"
    using read_exact_Inr [OF p] by auto
  have "h = frame_header k m p"
    using k m'(1) p'(1) by (intro header_of_parts h'(1) magic) (simp_all add: kind_from_u8_Inr ml_def pl_def)
  then have enc: "frame_encoding f = h @ m @ p" by (simp add: frame_encoding_def f)
  have "frame_ok f"
    using bounds m'(1) p'(1) h'(1) by (simp add: frame_ok_def enc) (simp add: f FRAME_HEADER_LEN_def)
  moreover have "s = (pre1 @ pre2 @ pre3) @ s'" "item_bytes (pre1 @ pre2 @ pre3) = frame_encoding f"
    "only_interrupted (pre1 @ pre2 @ pre3)"
    using h' m' p' enc by simp_all
  ultimately show ?thesis by blast
qed

section \<open>Properties\<close>

definition vec_write :: "bytes \<Rightarrow> bytes \<Rightarrow> (io_error + unit) \<times> bytes" where
  "vec_write bs w = (Inr (), w @ bs)"

text \<open>
  C34: A frame that write_frame accepts is read back by read_frame from the bytes it wrote, with its kind, metadata, payload and
  size, and what follows in the stream is left.
\<close>

theorem written_frame_is_read:
  assumes "write_frame vec_write kind metadata payload w = (Inr n, w')"
  shows "\<exists>bs. w' = w @ bs \<and> length bs = n
    \<and> read_frame (map Byte bs @ s) = (Inr \<lparr>fr_kind = kind, fr_metadata = metadata,
        fr_payload = payload, fr_wire_bytes = n\<rparr>, s)"
proof -
  let ?f = "\<lparr>fr_kind = kind, fr_metadata = metadata, fr_payload = payload, fr_wire_bytes = n\<rparr>"
  have "frame_ok ?f" "w' = w @ frame_encoding ?f" "length (frame_encoding ?f) = n"
    using assms by (auto simp: write_frame_def vec_write_def frame_ok_def frame_encoding_def
        Let_def split: if_splits)
  then show ?thesis using read_frame_encoding by blast
qed

theorem written_frame_is_read_witness:
  "\<exists>bs. read_frame (map Byte bs @ [Byte 7]) = (Inr \<lparr>fr_kind = Heartbeat, fr_metadata = [123, 125],
     fr_payload = [], fr_wire_bytes = 15\<rparr>, [Byte 7])"
proof -
  have "write_frame vec_write Heartbeat [123, 125] [] [] =
      (Inr 15, frame_header Heartbeat [123, 125] [] @ [123, 125])"
    by (simp add: write_frame_def vec_write_def MAX_METADATA_BYTES_def)
  from written_frame_is_read [OF this, of "[Byte 7]"] show ?thesis by blast
qed

theorem frame_stream_decodes:
  assumes "\<forall>f \<in> set fs. frame_ok f"
  shows "decode_many read_frame (length fs) (map Byte (concat (map frame_encoding fs)) @ s) = (Inr fs, s)"
  using frames.decode_many_concat [OF assms, of s] by (simp add: map_concat comp_def)

theorem frame_stream_decodes_witness:
  "decode_many read_frame 2 (map Byte (frame_header Stop [1] [] @ [1] @ frame_header FrameKind.Audio [] [2] @ [2]))
    = (Inr [\<lparr>fr_kind = Stop, fr_metadata = [1], fr_payload = [], fr_wire_bytes = 14\<rparr>,
            \<lparr>fr_kind = FrameKind.Audio, fr_metadata = [], fr_payload = [2], fr_wire_bytes = 14\<rparr>], [])"
  using frame_stream_decodes [of "[\<lparr>fr_kind = Stop, fr_metadata = [1], fr_payload = [], fr_wire_bytes = 14\<rparr>,
    \<lparr>fr_kind = FrameKind.Audio, fr_metadata = [], fr_payload = [2], fr_wire_bytes = 14\<rparr>]" "[]"]
  by (simp add: frame_ok_def frame_encoding_def MAX_METADATA_BYTES_def MAX_PAYLOAD_BYTES_def numeral_2_eq_2)

text \<open>
  C36: Whatever the stream, a frame that read_frame returns is within both size limits and the bytes it consumed are exactly its
  encoding, with nothing but interrupted calls between them.
\<close>

theorem read_frame_sound:
  assumes "read_frame s = (Inr f, s')"
  shows "length (fr_metadata f) \<le> MAX_METADATA_BYTES \<and> length (fr_payload f) \<le> MAX_PAYLOAD_BYTES
    \<and> fr_wire_bytes f = length (frame_encoding f)
    \<and> (\<exists>pre. s = pre @ s' \<and> item_bytes pre = frame_encoding f \<and> only_interrupted pre)"
  using read_frame_Inr [OF assms] by (auto simp: frame_ok_def)

theorem read_frame_sound_witness:
  "\<exists>pre. map Byte (frame_header Stop [1] [] @ [1]) @ [Byte 9] = pre @ [Byte 9]
     \<and> item_bytes pre = frame_encoding \<lparr>fr_kind = Stop, fr_metadata = [1], fr_payload = [], fr_wire_bytes = 14\<rparr>
     \<and> only_interrupted pre"
proof -
  let ?f = "\<lparr>fr_kind = Stop, fr_metadata = [1], fr_payload = [], fr_wire_bytes = 14\<rparr>"
  have ok: "frame_ok ?f" by (simp add: frame_ok_def frame_encoding_def MAX_METADATA_BYTES_def)
  from read_frame_sound [OF read_frame_encoding [OF ok, of "[Byte 9]"]] show ?thesis
    by (simp add: frame_encoding_def)
qed

text \<open>
  A read timeout inside a frame's header loses the bytes read so far: the next \<open>read_frame\<close>
  starts in the middle of the frame and fails on the magic.
\<close>

lemma read_exact_take:
  "k < n \<Longrightarrow> k \<le> length bs \<Longrightarrow> err_kind e \<noteq> Interrupted \<Longrightarrow>
   read_exact n (map Byte (take k bs) @ ReadErr e # s) = (Inl e, s)"
proof (induction k arbitrary: n bs)
  case 0
  then show ?case by (cases n) auto
next
  case (Suc k)
  then obtain b cs m where "bs = b # cs" "n = Suc m" by (cases bs; cases n) auto
  with Suc show ?case by simp
qed

lemma unat_byte_of: "unat (ucast (drop_bit n w) :: u8) = unat (w :: u32) div 2 ^ n mod 256"
  by (simp add: unsigned_ucast_eq take_bit_eq_mod unat_drop_bit_eq) (simp add: drop_bit_eq_div)

lemma length_bytes_high:
  "n \<le> MAX_METADATA_BYTES \<Longrightarrow> \<exists>a b. to_be_bytes (of_nat n) = [0, 0, a, b]"
  "n \<le> MAX_PAYLOAD_BYTES \<Longrightarrow> \<exists>a b c. to_be_bytes (of_nat n) = [0, a, b, c] \<and> a \<noteq> 0x53"
proof -
  have high: "(ucast (drop_bit k w) :: u8) = of_nat (unat w div 2 ^ k mod 256)" for k and w :: u32
    by (simp flip: unat_byte_of)
  show "\<exists>a b. to_be_bytes (of_nat n) = [0, 0, a, b]" if "n \<le> MAX_METADATA_BYTES"
  proof -
    have "unat (of_nat n :: u32) = n" using that by (rule frame_lengths(1))
    with that show ?thesis by (simp add: to_be_bytes_def high MAX_METADATA_BYTES_def)
  qed
  show "\<exists>a b c. to_be_bytes (of_nat n) = [0, a, b, c] \<and> a \<noteq> 0x53" if "n \<le> MAX_PAYLOAD_BYTES"
  proof -
    have n: "unat (of_nat n :: u32) = n" using that by (rule frame_lengths(2))
    have "unat (ucast (drop_bit 16 (of_nat n :: u32)) :: u8) \<le> 4"
      using that by (simp add: unat_byte_of n MAX_PAYLOAD_BYTES_def)
    then have "(ucast (drop_bit 16 (of_nat n :: u32)) :: u8) \<noteq> 0x53" by auto
    with that n show ?thesis by (simp add: to_be_bytes_def high MAX_PAYLOAD_BYTES_def)
  qed
qed

lemma kind_byte_not_magic: "kind_byte k \<noteq> 0x53"
  by (cases k) simp_all

lemma inner_header_no_magic:
  assumes "frame_ok f" "0 < k" "k \<le> 10"
  shows "take 4 (drop k (frame_encoding f)) \<noteq> FRAME_MAGIC"
proof -
  obtain m2 m3 where m: "to_be_bytes (of_nat (length (fr_metadata f))) = [0, 0, m2, m3]"
    using assms(1) length_bytes_high(1) [of "length (fr_metadata f)"] unfolding frame_ok_def by blast
  obtain p1 p2 p3 where p: "to_be_bytes (of_nat (length (fr_payload f))) = [0, p1, p2, p3]" "p1 \<noteq> 0x53"
    using assms(1) length_bytes_high(2) [of "length (fr_payload f)"] unfolding frame_ok_def by blast
  obtain rest where enc: "frame_encoding f = [0x53, 0x53, 0x4E, 0x31, kind_byte (fr_kind f), 0, 0, m2, m3,
      0, p1, p2, p3] @ rest"
    by (simp add: frame_encoding_def frame_header_def FRAME_MAGIC_def m p)
  have "k = 1 \<or> k = 2 \<or> k = 3 \<or> k = 4 \<or> k = 5 \<or> k = 6 \<or> k = 7 \<or> k = 8 \<or> k = 9 \<or> k = 10"
    using assms(2,3) by presburger
  then show ?thesis unfolding enc FRAME_MAGIC_def
    using kind_byte_not_magic [of "fr_kind f"] p(2) by (elim disjE) simp_all
qed

theorem mid_header_timeout_desynchronises:
  assumes ok: "frame_ok f" and k: "0 < k" "k \<le> 10"
    and long: "10 \<le> length (fr_metadata f @ fr_payload f)" and e: "err_kind e \<noteq> Interrupted"
  shows "\<exists>s1. read_frame (map Byte (take k (frame_encoding f)) @ ReadErr e #
        map Byte (drop k (frame_encoding f)) @ s)
      = (Inl (Io ''reading transport frame header'' e), s1)
    \<and> fst (read_frame s1) = Inl (InvalidProtocol ''frame magic did not match SynchroSonic protocol'')"
proof -
  let ?rest = "drop k (frame_encoding f)"
  have len: "13 \<le> length ?rest" "k \<le> length (frame_encoding f)"
    using k long by (simp_all add: frame_encoding_def)
  then have "read_exact 13 (map Byte (take 13 ?rest) @ (map Byte (drop 13 ?rest) @ s))
      = (Inr (take 13 ?rest), map Byte (drop 13 ?rest) @ s)"
    by (intro read_exact_bytes) simp
  then have second: "read_exact 13 (map Byte ?rest @ s) = (Inr (take 13 ?rest), map Byte (drop 13 ?rest) @ s)"
    by (metis append.assoc append_take_drop_id map_append)
  have "take 4 (take 13 ?rest) \<noteq> FRAME_MAGIC"
    using inner_header_no_magic [OF ok k] by simp
  with second have "fst (read_frame (map Byte ?rest @ s))
      = Inl (InvalidProtocol ''frame magic did not match SynchroSonic protocol'')"
    by (simp add: read_frame_def FRAME_HEADER_LEN_def)
  moreover have "read_frame (map Byte (take k (frame_encoding f)) @ ReadErr e # map Byte ?rest @ s)
      = (Inl (Io ''reading transport frame header'' e), map Byte ?rest @ s)"
    using k len e by (simp add: read_frame_def FRAME_HEADER_LEN_def read_exact_take)
  ultimately show ?thesis by blast
qed

theorem mid_header_timeout_desynchronises_witness:
  "\<exists>s1. read_frame (map Byte [0x53, 0x53, 0x4E] @ ReadErr \<lparr>err_kind = TimedOut, err_text = ''timed out''\<rparr> #
      map Byte ([0x31, 3, 0, 0, 0, 0, 0, 0, 0, 12] @ replicate 12 0))
    = (Inl (Io ''reading transport frame header'' \<lparr>err_kind = TimedOut, err_text = ''timed out''\<rparr>), s1)
    \<and> fst (read_frame s1) = Inl (InvalidProtocol ''frame magic did not match SynchroSonic protocol'')"
proof -
  let ?f = "\<lparr>fr_kind = FrameKind.Audio, fr_metadata = [], fr_payload = replicate 12 0, fr_wire_bytes = 25\<rparr>"
  have ok: "frame_ok ?f"
    by (simp add: frame_ok_def frame_encoding_def MAX_METADATA_BYTES_def MAX_PAYLOAD_BYTES_def)
  have enc: "frame_encoding ?f = [0x53, 0x53, 0x4E, 0x31, 3, 0, 0, 0, 0, 0, 0, 0, 12] @ replicate 12 0"
    by (simp add: frame_encoding_def frame_header_def FRAME_MAGIC_def to_be_bytes_def drop_bit_eq_div)
  show ?thesis
    using mid_header_timeout_desynchronises [OF ok, of 3 "\<lparr>err_kind = TimedOut, err_text = ''timed out''\<rparr>" "[]"]
    unfolding enc by simp
qed

section \<open>The JSON codec\<close>

text \<open>\<open>serde_json\<close> on the message types: a serializer and a parser per type.\<close>

record json_codec =
  to_hello :: "HelloMessage \<Rightarrow> string + bytes"
  from_hello :: "bytes \<Rightarrow> string + HelloMessage"
  to_accept :: "AcceptMessage \<Rightarrow> string + bytes"
  from_accept :: "bytes \<Rightarrow> string + AcceptMessage"
  to_audio :: "AudioMessage \<Rightarrow> string + bytes"
  from_audio :: "bytes \<Rightarrow> string + AudioMessage"
  to_heartbeat :: "HeartbeatMessage \<Rightarrow> string + bytes"
  from_heartbeat :: "bytes \<Rightarrow> string + HeartbeatMessage"
  to_stop :: "StopMessage \<Rightarrow> string + bytes"
  from_stop :: "bytes \<Rightarrow> string + StopMessage"
  to_error :: "ErrorMessage \<Rightarrow> string + bytes"
  from_error :: "bytes \<Rightarrow> string + ErrorMessage"

end
