(* ===== verification/Transport_Receiver.thy ===== *)
theory Transport_Receiver
  imports Frame_Protocol
begin

text \<open>
  The receiver's side of the transport, \<open>synchrosonic-transport/src/receiver.rs\<close>: one session
  (\<open>handle_receiver_session\<close>), the listener loop and the server handle. The socket's input is
  the item list of \<open>Frame_Protocol\<close>; its output, the event callback, the stop channel and the
  socket options are functions over a world. \<open>last_sequence\<close> only feeds a log line and is
  left out, as are the log lines and sleeps.
\<close>

record ReceiverServerSnapshot =
  srs_active :: bool
  srs_bind_addr :: SocketAddr
  srs_session_id :: "string option"
  srs_connected_peer :: "SocketAddr option"
  srs_last_error :: "string option"

definition server_snapshot_new :: "SocketAddr \<Rightarrow> ReceiverServerSnapshot" where
  "server_snapshot_new bind_addr =
     \<lparr>srs_active = False, srs_bind_addr = bind_addr, srs_session_id = None,
      srs_connected_peer = None, srs_last_error = None\<rparr>"

datatype try_recv = RecvOk | RecvEmpty | RecvDisconnected

record 'w receiver_env =
  re_set_nodelay :: "'w \<Rightarrow> (io_error + unit) \<times> 'w"
  re_set_read_timeout :: "'w \<Rightarrow> (io_error + unit) \<times> 'w"
  re_write_all :: "bytes \<Rightarrow> 'w \<Rightarrow> (io_error + unit) \<times> 'w"
  re_on_event :: "ReceiverTransportEvent \<Rightarrow> 'w \<Rightarrow> (ReceiverError + unit) \<times> 'w"
  re_try_recv_stop :: "'w \<Rightarrow> try_recv \<times> 'w"

section \<open>A session\<close>

definition validate_hello :: "HelloMessage \<Rightarrow> TransportError + unit" where
  "validate_hello hello =
     (if hm_protocol_version hello \<noteq> STREAM_PROTOCOL_VERSION then
        Inl (Negotiation (''protocol version '' @ show_word (hm_protocol_version hello) @ '' is unsupported''))
      else if hm_desired_codec hello \<notin> set (hm_supported_codecs hello) then
        Inl (Negotiation ''sender requested a codec it did not advertise'')
      else if hm_desired_codec hello \<noteq> RawPcm then
        Inl (Negotiation ''receiver currently only supports raw PCM'')
      else Inr ())"

definition send_protocol_error ::
  "json_codec \<Rightarrow> 'w receiver_env \<Rightarrow> string \<Rightarrow> string \<Rightarrow> 'w \<Rightarrow> (TransportError + unit) \<times> 'w" where
  "send_protocol_error js env code message w =
     (case write_message (to_error js) (re_write_all env) FrameKind.Error
             \<lparr>em_code = code, em_message = message\<rparr> [] w of
        (Inl e, w') \<Rightarrow> (Inl e, w')
      | (Inr _, w') \<Rightarrow> (Inr (), w'))"

text \<open>\<open>(on_event)(event).map_err(ReceiverCallback)\<close>.\<close>

definition callback ::
  "'w receiver_env \<Rightarrow> ReceiverTransportEvent \<Rightarrow> 'w \<Rightarrow> (TransportError + unit) \<times> 'w" where
  "callback env event w =
     (case re_on_event env event w of
        (Inl e, w') \<Rightarrow> (Inl (ReceiverCallback (show_receiver_error e)), w')
      | (Inr _, w') \<Rightarrow> (Inr (), w'))"

text \<open>What an iteration does next: go round again, break, or return an error.\<close>

datatype loop_exit = Again | Break | Fail TransportError

definition after_callback :: "(TransportError + unit) \<times> 'w \<Rightarrow> loop_exit \<Rightarrow> loop_exit \<times> 'w" where
  "after_callback r exit = (case r of (Inl e, w) \<Rightarrow> (Fail e, w) | (Inr _, w) \<Rightarrow> (exit, w))"

definition handle_frame :: "json_codec \<Rightarrow> 'w receiver_env \<Rightarrow> Frame \<Rightarrow> 'w \<Rightarrow> loop_exit \<times> 'w" where
  "handle_frame js env frame w =
     (case fr_kind frame of
        FrameKind.Audio \<Rightarrow>
          (case decode_metadata (from_audio js) frame of
             Inl e \<Rightarrow> (Fail e, w)
           | Inr metadata \<Rightarrow>
               after_callback (callback env (AudioPacket
                 \<lparr>pkt_sequence = au_sequence metadata, pkt_captured_at_ms = au_captured_at_ms metadata,
                  pkt_captured_at_unix_ms = au_captured_at_unix_ms metadata,
                  pkt_payload = fr_payload frame\<rparr>) w) Again)
      | Heartbeat \<Rightarrow>
          (case decode_metadata (from_heartbeat js) frame of
             Inl e \<Rightarrow> (Fail e, w)
           | Inr heartbeat \<Rightarrow>
               (case callback env KeepAlive w of
                  (Inl e, w1) \<Rightarrow> (Fail e, w1)
                | (Inr _, w1) \<Rightarrow>
                    (case write_message (to_heartbeat js) (re_write_all env) HeartbeatAck heartbeat [] w1 of
                       (Inl e, w2) \<Rightarrow> (Fail e, w2)
                     | (Inr _, w2) \<Rightarrow> (Again, w2))))
      | Stop \<Rightarrow>
          (case decode_metadata (from_stop js) frame of
             Inl e \<Rightarrow> (Fail e, w)
           | Inr stop \<Rightarrow> after_callback (callback env (Disconnected (sp_reason stop) False) w) Break)
      | FrameKind.Error \<Rightarrow>
          (case decode_metadata (from_error js) frame of
             Inl e \<Rightarrow> (Fail e, w)
           | Inr error \<Rightarrow>
               after_callback (callback env (ReceiverTransportEvent.Error
                 (''sender reported '' @ em_code error @ '': '' @ em_message error)) w) Break)
      | unexpected \<Rightarrow>
          (case send_protocol_error js env ''unexpected-frame''
                  (''receiver does not accept '' @ show_kind unexpected @ '' during active streaming'') w of
             (Inl e, w1) \<Rightarrow> (Fail e, w1)
           | (Inr _, w1) \<Rightarrow>
               (Fail (InvalidProtocol (''unexpected '' @ show_kind unexpected
                  @ '' frame during active streaming'')), w1)))"

definition handle_read_error ::
  "json_codec \<Rightarrow> 'w receiver_env \<Rightarrow> TransportError \<Rightarrow> 'w \<Rightarrow> loop_exit \<times> 'w" where
  "handle_read_error js env error w =
     (let other = (\<lambda>w. (let (_, w1) = re_on_event env (ReceiverTransportEvent.Error (show_transport_error error)) w;
                            (_, w2) = send_protocol_error js env ''read-failure'' (show_transport_error error) w1
                        in (Fail error, w2)))
      in case error of
           Io _ source \<Rightarrow>
             (if err_kind source \<in> {UnexpectedEof, ConnectionReset} then
                after_callback (callback env (Disconnected ''sender disconnected unexpectedly'' True) w) Break
              else if err_kind source \<in> {WouldBlock, TimedOut} then (Again, w)
              else other w)
         | _ \<Rightarrow> other w)"

definition session_iteration ::
  "json_codec \<Rightarrow> 'w receiver_env \<Rightarrow> stream_item list \<Rightarrow> 'w \<Rightarrow> loop_exit \<times> stream_item list \<times> 'w" where
  "session_iteration js env s w =
     (case re_try_recv_stop env w of
        (RecvEmpty, w1) \<Rightarrow>
          (case read_frame s of
             (Inr frame, s1) \<Rightarrow> (let (exit, w2) = handle_frame js env frame w1 in (exit, s1, w2))
           | (Inl error, s1) \<Rightarrow> (let (exit, w2) = handle_read_error js env error w1 in (exit, s1, w2)))
      | (_, w1) \<Rightarrow>
          (let (_, w2) = write_message (to_stop js) (re_write_all env) Stop
                           \<lparr>sp_reason = ''receiver transport stopped''\<rparr> [] w1
           in (Break, s, w2)))"

text \<open>Every iteration that goes round again consumed input: the loop ends with the input.\<close>

lemma session_iteration_again:
  assumes "session_iteration js env s w = (Again, s', w')"
  shows "length s' < length s"
proof -
  obtain w1 where stop: "re_try_recv_stop env w = (RecvEmpty, w1)"
    using assms by (auto simp: session_iteration_def split: prod.splits try_recv.splits)
  obtain r s1 where read: "read_frame s = (r, s1)" by fastforce
  have "s \<noteq> []"
  proof
    assume "s = []"
    then have "r = Inl (Io ''reading transport frame header'' eof_error)"
      using read_frame_consumes(3) [OF read] by simp
    with assms stop read show False
      by (auto simp: session_iteration_def handle_read_error_def eof_error_def after_callback_def Let_def
          split: prod.splits sum.splits)
  qed
  moreover have "s' = s1"
    using assms stop read by (auto simp: session_iteration_def split: sum.splits prod.splits)
  ultimately show ?thesis using read_frame_consumes(2) [OF read] by simp
qed

function session_loop ::
  "json_codec \<Rightarrow> 'w receiver_env \<Rightarrow> stream_item list \<Rightarrow> 'w
    \<Rightarrow> (TransportError + unit) \<times> stream_item list \<times> 'w" where
  "session_loop js env s w =
     (case session_iteration js env s w of
        (Again, s', w') \<Rightarrow> session_loop js env s' w'
      | (Break, s', w') \<Rightarrow> (Inr (), s', w')
      | (Fail e, s', w') \<Rightarrow> (Inl e, s', w'))"
  by pat_completeness auto
termination
  by (relation "measure (\<lambda>(_, _, s, _). length s)") (auto dest: session_iteration_again [OF sym])

declare session_loop.simps [simp del]

definition ok_or_io :: "string \<Rightarrow> (io_error + unit) \<times> 'w \<Rightarrow> (TransportError + unit) \<times> 'w" where
  "ok_or_io context r = (case r of (Inl e, w) \<Rightarrow> (Inl (Io context e), w) | (Inr _, w) \<Rightarrow> (Inr (), w))"

definition accept_for :: "string \<Rightarrow> ReceiverLatencyPreset \<Rightarrow> u16 \<Rightarrow> HelloMessage \<Rightarrow> AcceptMessage" where
  "accept_for receiver_name latency_preset heartbeat_interval_ms hello =
     \<lparr>am_protocol_version = hm_protocol_version hello, am_session_id = hm_session_id hello,
      am_receiver_name = receiver_name, am_codec = hm_desired_codec hello, am_stream = hm_stream hello,
      am_keepalive_interval_ms = min heartbeat_interval_ms (max (hm_keepalive_interval_ms hello) 250),
      am_receiver_latency_ms = expected_output_latency_ms (profile latency_preset)\<rparr>"

definition connection_for :: "SocketAddr \<Rightarrow> HelloMessage \<Rightarrow> ReceiverConnectionInfo" where
  "connection_for peer_addr hello =
     \<lparr>ci_session_id = hm_session_id hello, ci_remote_addr = Some peer_addr, ci_stream = hm_stream hello,
      ci_requested_latency_ms = hm_target_latency_ms hello\<rparr>"

text \<open>
  \<open>handle_receiver_session\<close> up to its loop: the socket options, the Hello frame, the Accept
  answer and the connect event. The result is the Hello, or the error returned.
\<close>

definition session_handshake ::
  "json_codec \<Rightarrow> 'w receiver_env \<Rightarrow> SocketAddr \<Rightarrow> string \<Rightarrow> ReceiverLatencyPreset \<Rightarrow> u16
    \<Rightarrow> stream_item list \<Rightarrow> 'w \<Rightarrow> (TransportError + HelloMessage) \<times> stream_item list \<times> 'w" where
  "session_handshake js env peer_addr receiver_name latency_preset heartbeat_interval_ms s w =
     (case ok_or_io (''enabling TCP_NODELAY for sender '' @ show_addr peer_addr) (re_set_nodelay env w) of
        (Inl e, w1) \<Rightarrow> (Inl e, s, w1)
      | (Inr _, w1) \<Rightarrow>
     (case ok_or_io (''setting read timeout for sender '' @ show_addr peer_addr) (re_set_read_timeout env w1) of
        (Inl e, w2) \<Rightarrow> (Inl e, s, w2)
      | (Inr _, w2) \<Rightarrow>
     (case read_frame s of
        (Inl e, s1) \<Rightarrow> (Inl e, s1, w2)
      | (Inr frame, s1) \<Rightarrow>
     (if fr_kind frame \<noteq> Hello then
        (case send_protocol_error js env ''unexpected-frame'' ''first frame must be Hello'' w2 of
           (Inl e, w3) \<Rightarrow> (Inl e, s1, w3)
         | (Inr _, w3) \<Rightarrow>
             (Inl (InvalidProtocol ''receiver expected Hello as the first frame''), s1, w3))
      else
     (case decode_metadata (from_hello js) frame of
        Inl e \<Rightarrow> (Inl e, s1, w2)
      | Inr hello \<Rightarrow>
     (case validate_hello hello of
        Inl e \<Rightarrow> (Inl e, s1, w2)
      | Inr _ \<Rightarrow>
     (case write_message (to_accept js) (re_write_all env) Accept
             (accept_for receiver_name latency_preset heartbeat_interval_ms hello) [] w2 of
        (Inl e, w3) \<Rightarrow> (Inl e, s1, w3)
      | (Inr _, w3) \<Rightarrow>
     (case callback env (ReceiverTransportEvent.Connected (connection_for peer_addr hello)) w3 of
        (Inl e, w4) \<Rightarrow> (Inl e, s1, w4)
      | (Inr _, w4) \<Rightarrow> (Inr hello, s1, w4)))))))))"

definition handle_receiver_session ::
  "json_codec \<Rightarrow> 'w receiver_env \<Rightarrow> SocketAddr \<Rightarrow> string \<Rightarrow> ReceiverLatencyPreset \<Rightarrow> u16
    \<Rightarrow> stream_item list \<Rightarrow> ReceiverServerSnapshot \<Rightarrow> 'w
    \<Rightarrow> (TransportError + unit) \<times> ReceiverServerSnapshot \<times> 'w" where
  "handle_receiver_session js env peer_addr receiver_name latency_preset heartbeat_interval_ms s snap w =
     (case session_handshake js env peer_addr receiver_name latency_preset heartbeat_interval_ms s w of
        (Inl e, _, w1) \<Rightarrow> (Inl e, snap, w1)
      | (Inr hello, s1, w1) \<Rightarrow>
          (let snap1 = snap\<lparr>srs_session_id := Some (hm_session_id hello),
                            srs_connected_peer := Some peer_addr, srs_last_error := None\<rparr>
           in case session_loop js env s1 w1 of
                (Inl e, _, w2) \<Rightarrow> (Inl e, snap1, w2)
              | (Inr _, _, w2) \<Rightarrow>
                  (Inr (), snap1\<lparr>srs_session_id := None, srs_connected_peer := None\<rparr>, w2)))"

section \<open>The listener and the server\<close>

text \<open>
  The listener thread polls the stop channel before every \<open>accept\<close>; the outcomes of \<open>accept\<close> are
  the input, an accepted connection with the items its socket will deliver. The world of the
  session environment is shared with it. The slot for the active stream holds the peer.
\<close>

datatype accept_outcome = Accepted "stream_item list" SocketAddr bool | AcceptErr io_error

record ReceiverListener =
  ls_snapshot :: ReceiverServerSnapshot
  ls_active_stream :: "SocketAddr option"

definition listener_accept ::
  "json_codec \<Rightarrow> 'w receiver_env \<Rightarrow> string \<Rightarrow> string \<Rightarrow> ReceiverLatencyPreset \<Rightarrow> u16
    \<Rightarrow> accept_outcome \<Rightarrow> ReceiverListener \<Rightarrow> 'w \<Rightarrow> ReceiverListener \<times> 'w" where
  "listener_accept js env local_name receiver_name latency_preset heartbeat_interval_ms outcome l w =
     (case outcome of
        Accepted s peer_addr cloned \<Rightarrow>
          (let l1 = (if cloned then l\<lparr>ls_active_stream := Some peer_addr\<rparr> else l);
               (result, snap, w1) = handle_receiver_session js env peer_addr receiver_name
                  latency_preset heartbeat_interval_ms s (ls_snapshot l1) w;
               l2 = l1\<lparr>ls_snapshot := snap, ls_active_stream := None\<rparr>
           in case result of
                Inr _ \<Rightarrow> (l2, w1)
              | Inl error \<Rightarrow>
                  (l2\<lparr>ls_snapshot := (ls_snapshot l2)
                     \<lparr>srs_last_error := Some (show_transport_error error), srs_session_id := None,
                      srs_connected_peer := None\<rparr>\<rparr>, w1))
      | AcceptErr source \<Rightarrow>
          (if err_kind source = WouldBlock then (l, w)
           else (l\<lparr>ls_snapshot := (ls_snapshot l)
                   \<lparr>srs_last_error := Some (show_transport_error
                      (Io (''accepting connection on '' @ local_name) source))\<rparr>\<rparr>, w)))"

text \<open>
  The listener loop over the outcomes of its polls; the boolean tells whether it is still
  running when they are used up.
\<close>

fun receiver_listener_loop ::
  "json_codec \<Rightarrow> 'w receiver_env \<Rightarrow> string \<Rightarrow> string \<Rightarrow> ReceiverLatencyPreset \<Rightarrow> u16
    \<Rightarrow> accept_outcome list \<Rightarrow> ReceiverListener \<Rightarrow> 'w \<Rightarrow> bool \<times> ReceiverListener \<times> 'w" where
  "receiver_listener_loop js env local_name name preset hb [] l w = (True, l, w)"
| "receiver_listener_loop js env local_name name preset hb (a # as) l w =
     (case re_try_recv_stop env w of
        (RecvEmpty, w1) \<Rightarrow>
          (let (l1, w2) = listener_accept js env local_name name preset hb a l w1
           in receiver_listener_loop js env local_name name preset hb as l1 w2)
      | (_, w1) \<Rightarrow>
          (False, l\<lparr>ls_snapshot := (ls_snapshot l)\<lparr>srs_active := False, srs_session_id := None,
                     srs_connected_peer := None\<rparr>\<rparr>, w1))"

text \<open>
  The server handle. Binding yields the bound address or the error of one of its three
  calls; \<open>srv_stop_tx\<close> and \<open>srv_worker\<close> tell whether there is a stop channel and a thread.
\<close>

record LanReceiverTransportServer =
  srv_bind_addr :: SocketAddr
  srv_receiver_name :: string
  srv_latency_preset :: ReceiverLatencyPreset
  srv_heartbeat_interval_ms :: u16
  srv_snapshot :: ReceiverServerSnapshot
  srv_active_stream :: "SocketAddr option"
  srv_stop_tx :: bool
  srv_worker :: bool

definition server_new ::
  "SocketAddr \<Rightarrow> string \<Rightarrow> ReceiverLatencyPreset \<Rightarrow> u16 \<Rightarrow> LanReceiverTransportServer" where
  "server_new bind_addr receiver_name latency_preset heartbeat_interval_ms =
     \<lparr>srv_bind_addr = bind_addr, srv_receiver_name = receiver_name,
      srv_latency_preset = latency_preset, srv_heartbeat_interval_ms = heartbeat_interval_ms,
      srv_snapshot = server_snapshot_new bind_addr, srv_active_stream = None,
      srv_stop_tx = False, srv_worker = False\<rparr>"

datatype bind_outcome =
  Bound SocketAddr | BindFailed io_error | LocalAddrFailed io_error
| NonblockingFailed SocketAddr io_error

definition server_start ::
  "bind_outcome \<Rightarrow> LanReceiverTransportServer \<Rightarrow> (TransportError + unit) \<times> LanReceiverTransportServer" where
  "server_start outcome srv =
     (if srv_stop_tx srv then (Inr (), srv)
      else (case outcome of
          BindFailed e \<Rightarrow> (Inl (Bind (show_addr (srv_bind_addr srv)) e), srv)
        | LocalAddrFailed e \<Rightarrow> (Inl (Io ''reading receiver listener local address'' e), srv)
        | NonblockingFailed a e \<Rightarrow>
            (Inl (Io (''setting listener '' @ show_addr a @ '' nonblocking'') e), srv)
        | Bound bound_addr \<Rightarrow>
            (Inr (), srv\<lparr>srv_bind_addr := bound_addr,
               srv_snapshot := (srv_snapshot srv)\<lparr>srs_active := True, srs_bind_addr := bound_addr,
                  srs_last_error := None\<rparr>,
               srv_worker := True, srv_stop_tx := True\<rparr>)))"

text \<open>\<open>stop\<close>: the two booleans are the outcomes of sending on the channel and of joining.\<close>

definition server_stop ::
  "bool \<Rightarrow> bool \<Rightarrow> LanReceiverTransportServer \<Rightarrow> (TransportError + unit) \<times> LanReceiverTransportServer" where
  "server_stop sent joined srv =
     (let srv0 = srv\<lparr>srv_stop_tx := False\<rparr>
      in if srv_stop_tx srv \<and> \<not> sent then (Inl ChannelClosed, srv0)
         else
           (let srv1 = srv0\<lparr>srv_active_stream := None, srv_worker := False\<rparr>
            in if srv_worker srv \<and> \<not> joined then (Inl ThreadJoin, srv1)
               else (Inr (), srv1\<lparr>srv_snapshot := (srv_snapshot srv1)
                      \<lparr>srs_active := False, srs_session_id := None, srs_connected_peer := None\<rparr>\<rparr>)))"

section \<open>The events of a session\<close>

text \<open>Any environment, with a record of the events it was given.\<close>

definition recording :: "'w receiver_env \<Rightarrow> ('w \<times> ReceiverTransportEvent list) receiver_env" where
  "recording env =
     \<lparr>re_set_nodelay = (\<lambda>(w, tr). let (r, w') = re_set_nodelay env w in (r, w', tr)),
      re_set_read_timeout = (\<lambda>(w, tr). let (r, w') = re_set_read_timeout env w in (r, w', tr)),
      re_write_all = (\<lambda>bs (w, tr). let (r, w') = re_write_all env bs w in (r, w', tr)),
      re_on_event = (\<lambda>ev (w, tr). let (r, w') = re_on_event env ev w in (r, w', tr @ [ev])),
      re_try_recv_stop = (\<lambda>(w, tr). let (r, w') = re_try_recv_stop env w in (r, w', tr))\<rparr>"

fun live_event :: "ReceiverTransportEvent \<Rightarrow> bool" where
  "live_event (AudioPacket _) = True"
| "live_event KeepAlive = True"
| "live_event _ = False"

fun final_event :: "ReceiverTransportEvent \<Rightarrow> bool" where
  "final_event (Disconnected _ _) = True"
| "final_event (ReceiverTransportEvent.Error _) = True"
| "final_event _ = False"

fun loop_events :: "ReceiverTransportEvent list \<Rightarrow> bool" where
  "loop_events [] = True"
| "loop_events (ev # evs) = ((live_event ev \<and> loop_events evs) \<or> (final_event ev \<and> evs = []))"

text \<open>Writing leaves the record alone.\<close>

lemma recording_write_all:
  "re_write_all (recording env) bs (w, tr) = (fst (re_write_all env bs w), snd (re_write_all env bs w), tr)"
  by (simp add: recording_def case_prod_beta)

lemma write_frame_recording:
  "snd (snd (write_frame (re_write_all (recording env)) k m p (w, tr))) = tr"
  by (auto simp: write_frame_def recording_write_all Let_def split: sum.splits prod.splits)

lemma write_message_recording:
  "snd (snd (write_message ser (re_write_all (recording env)) k m p (w, tr))) = tr"
  by (auto simp: write_message_def write_frame_recording split: sum.splits)

lemma send_error_recording: "snd (snd (send_protocol_error js (recording env) c m (w, tr))) = tr"
  using write_message_recording [of "to_error js" env FrameKind.Error "\<lparr>em_code = c, em_message = m\<rparr>" "[]" w tr]
  by (auto simp: send_protocol_error_def split: prod.splits sum.splits)

lemma callback_recording: "snd (snd (callback (recording env) ev (w, tr))) = tr @ [ev]"
  by (auto simp: callback_def recording_def case_prod_beta split: sum.splits)

lemma after_callback_world: "snd (after_callback r x) = snd r"
  by (auto simp: after_callback_def split: prod.splits sum.splits)

lemma after_callback_exit: "fst (after_callback r x) = Again \<Longrightarrow> x = Again"
  by (auto simp: after_callback_def split: prod.splits sum.splits)

lemma after_callback_recording:
  assumes "after_callback (callback (recording env) ev (w, tr)) y = (x, w', tr')"
  shows "tr' = tr @ [ev] \<and> (x = Again \<longrightarrow> y = Again)"
proof -
  have "snd (callback (recording env) ev (w, tr)) = (w', tr')"
    using after_callback_world [of "callback (recording env) ev (w, tr)" y] assms by simp
  then have "tr' = tr @ [ev]" using callback_recording [of env ev w tr] by simp
  with after_callback_exit [of "callback (recording env) ev (w, tr)" y] assms show ?thesis by simp
qed

lemma handle_frame_events:
  assumes "handle_frame js (recording env) f (w, tr) = (x, w', tr')"
  shows "\<exists>evs. tr' = tr @ evs \<and> loop_events evs \<and> (x = Again \<longrightarrow> (\<forall>ev \<in> set evs. live_event ev))"
proof -
  have cb: "callback (recording env) ev (w, tr) = (r, w2, tr2) \<Longrightarrow> tr2 = tr @ [ev]" for ev r w2 tr2
    using callback_recording [of env ev w tr] by simp
  note ac = after_callback_recording [of env _ w tr _ x w' tr']
  have se: "send_protocol_error js (recording env) c m (w, tr) = (r, w2, tr2) \<Longrightarrow> tr2 = tr" for c m r w2 tr2
    using send_error_recording [of js env c m w tr] by simp
  have wm: "write_message ser (re_write_all (recording env)) k m p (w2, tr2) = (r, w3, tr3) \<Longrightarrow> tr3 = tr2"
    for ser :: "'m \<Rightarrow> string + bytes" and k m p r w2 tr2 w3 tr3
    using write_message_recording [of ser env k m p w2 tr2] by simp
  show ?thesis
  proof (cases "fr_kind f")
    case Hello
    with assms show ?thesis by (auto simp: handle_frame_def dest!: se split: prod.splits sum.splits)
  next
    case Accept
    with assms show ?thesis by (auto simp: handle_frame_def dest!: se split: prod.splits sum.splits)
  next
    case HeartbeatAck
    with assms show ?thesis by (auto simp: handle_frame_def dest!: se split: prod.splits sum.splits)
  next
    case Audio
    with assms show ?thesis by (auto simp: handle_frame_def dest!: ac split: sum.splits)
  next
    case Stop
    with assms show ?thesis by (auto simp: handle_frame_def dest!: ac split: sum.splits)
  next
    case Error
    with assms show ?thesis by (auto simp: handle_frame_def dest!: ac split: sum.splits)
  next
    case Heartbeat
    with assms show ?thesis
      by (auto simp: handle_frame_def dest!: cb wm split: sum.splits prod.splits)
  qed
qed

lemma handle_read_error_events:
  assumes "handle_read_error js (recording env) error (w, tr) = (x, w', tr')"
  shows "\<exists>evs. tr' = tr @ evs \<and> loop_events evs \<and> (x = Again \<longrightarrow> evs = [])"
proof -
  note ac = after_callback_recording [of env _ w tr _ x w' tr']
  have other: "tr' = tr @ [ReceiverTransportEvent.Error m] \<and> x = Fail e"
    if "(case re_on_event (recording env) (ReceiverTransportEvent.Error m) (w, tr) of (uu, w1) \<Rightarrow>
        case send_protocol_error js (recording env) c m w1 of (uu, w2) \<Rightarrow> (Fail e, w2)) = (x, w', tr')"
    for m c e
    using that send_error_recording [of js env c m]
    by (auto simp: recording_def [of env, THEN arg_cong [of _ _ re_on_event]] case_prod_beta)
      (metis (no_types) fst_conv snd_conv)
  show ?thesis
  proof (cases error)
    case (Io c source)
    with assms show ?thesis
      by (auto simp: handle_read_error_def Let_def dest!: ac other split: if_splits)
  qed (use assms in \<open>auto simp: handle_read_error_def Let_def dest!: other\<close>)
qed

lemma loop_events_append:
  "\<forall>ev \<in> set xs. live_event ev \<Longrightarrow> loop_events ys \<Longrightarrow> loop_events (xs @ ys)"
  by (induction xs) auto

lemma session_iteration_events:
  assumes "session_iteration js (recording env) s (w, tr) = (x, s', w', tr')"
  shows "\<exists>evs. tr' = tr @ evs \<and> loop_events evs \<and> (x = Again \<longrightarrow> (\<forall>ev \<in> set evs. live_event ev))"
proof -
  obtain st w1 where stop: "re_try_recv_stop (recording env) (w, tr) = (st, w1, tr)"
    by (simp add: recording_def case_prod_beta)
  show ?thesis
  proof (cases "st = RecvEmpty")
    case True
    obtain r s1 where read: "read_frame s = (r, s1)" by fastforce
    show ?thesis
    proof (cases r)
      case (Inr f)
      then have "handle_frame js (recording env) f (w1, tr) = (x, w', tr')"
        using assms stop True read by (auto simp: session_iteration_def split: prod.splits)
      then show ?thesis by (rule handle_frame_events)
    next
      case (Inl e)
      then have "handle_read_error js (recording env) e (w1, tr) = (x, w', tr')"
        using assms stop True read by (auto simp: session_iteration_def split: prod.splits)
      from handle_read_error_events [OF this] show ?thesis by auto
    qed
  next
    case False
    then have "x = Break \<and> tr' = tr"
      using assms stop write_message_recording [of "to_stop js" env Stop "\<lparr>sp_reason = ''receiver transport stopped''\<rparr>" "[]" w1 tr]
      by (cases st) (auto simp: session_iteration_def split: prod.splits)
    then show ?thesis by simp
  qed
qed

lemma session_loop_events:
  "\<exists>evs. snd (snd (snd (session_loop js (recording env) s (w, tr)))) = tr @ evs \<and> loop_events evs"
proof (induction "length s" arbitrary: s w tr rule: less_induct)
  case less
  obtain x s1 w1 tr1 where step: "session_iteration js (recording env) s (w, tr) = (x, s1, w1, tr1)"
    by (metis prod_cases4)
  obtain evs where evs: "tr1 = tr @ evs" "loop_events evs" "x = Again \<longrightarrow> (\<forall>ev \<in> set evs. live_event ev)"
    using session_iteration_events [OF step] by blast
  show ?case
  proof (cases x)
    case Again
    have shorter: "length s1 < length s"
      by (rule session_iteration_again) (use step Again in simp)
    obtain evs' where "snd (snd (snd (session_loop js (recording env) s1 (w1, tr1)))) = tr1 @ evs'"
      "loop_events evs'" using less [OF shorter, of w1 tr1] by blast
    with Again evs show ?thesis
      by (auto simp: session_loop.simps [of _ _ s] step intro: loop_events_append)
  qed (use evs step in \<open>auto simp: session_loop.simps [of _ _ s]\<close>)
qed

text \<open>The events of a whole session: none, or a connect, live events and at most one final one.\<close>

definition session_events :: "SocketAddr \<Rightarrow> ReceiverTransportEvent list \<Rightarrow> bool" where
  "session_events peer evs \<longleftrightarrow> evs = [] \<or>
     (\<exists>hello rest. evs = ReceiverTransportEvent.Connected (connection_for peer hello) # rest
        \<and> validate_hello hello = Inr () \<and> loop_events rest)"

lemma ok_or_io_simps:
  "ok_or_io c r = (case fst r of Inl e \<Rightarrow> Inl (Io c e) | Inr _ \<Rightarrow> Inr (), snd r)"
  by (cases r) (simp add: ok_or_io_def split: sum.splits)

lemma handshake_events:
  assumes "session_handshake js (recording env) peer name preset hb s (w, tr) = (r, s1, w1, tr1)"
  shows "tr1 = tr \<or> (\<exists>hello. tr1 = tr @ [ReceiverTransportEvent.Connected (connection_for peer hello)]
    \<and> validate_hello hello = Inr () \<and> (\<forall>h. r = Inr h \<longrightarrow> h = hello))"
    "\<forall>h. r = Inr h \<longrightarrow> tr1 = tr @ [ReceiverTransportEvent.Connected (connection_for peer h)]
      \<and> validate_hello h = Inr ()"
proof -
  have se: "send_protocol_error js (recording env) c m (w2, tr2) = (q, w3, tr3) \<Longrightarrow> tr3 = tr2"
    for c m q w2 tr2 w3 tr3
    using send_error_recording [of js env c m w2 tr2] by simp
  have wm: "write_message ser (re_write_all (recording env)) k m p (w2, tr2) = (q, w3, tr3) \<Longrightarrow> tr3 = tr2"
    for ser :: "'m \<Rightarrow> string + bytes" and k m p q w2 tr2 w3 tr3
    using write_message_recording [of ser env k m p w2 tr2] by simp
  have cb: "callback (recording env) ev (w2, tr2) = (q, w3, tr3) \<Longrightarrow> tr3 = tr2 @ [ev]" for ev q w2 tr2 w3 tr3
    using callback_recording [of env ev w2 tr2] by simp
  have nd: "ok_or_io c (re_set_nodelay (recording env) (w2, tr2)) = (q, w3, tr3) \<Longrightarrow> tr3 = tr2"
    "ok_or_io c (re_set_read_timeout (recording env) (w2, tr2)) = (q, w3, tr3) \<Longrightarrow> tr3 = tr2"
    for c q w2 tr2 w3 tr3
    by (auto simp: ok_or_io_simps recording_def case_prod_beta)
  show "tr1 = tr \<or> (\<exists>hello. tr1 = tr @ [ReceiverTransportEvent.Connected (connection_for peer hello)]
    \<and> validate_hello hello = Inr () \<and> (\<forall>h. r = Inr h \<longrightarrow> h = hello))"
    using assms unfolding session_handshake_def
    by (auto dest!: se wm cb nd split: prod.splits sum.splits if_splits)
  show "\<forall>h. r = Inr h \<longrightarrow> tr1 = tr @ [ReceiverTransportEvent.Connected (connection_for peer h)]
      \<and> validate_hello h = Inr ()"
    using assms unfolding session_handshake_def
    by (auto dest!: se wm cb nd split: prod.splits sum.splits if_splits)
qed

text \<open>
  C21: Whatever the socket, the callback and the stop channel do, the events of a session are none, or a connect for a Hello
  that passed validation, then packets and keep-alives, then at most one disconnect or error with nothing after it.
\<close>

theorem session_event_protocol:
  assumes "handle_receiver_session js (recording env) peer name preset hb s snap (w, [])
      = (result, snap', w', evs)"
  shows "session_events peer evs"
proof -
  obtain r s1 w1 tr1 where hand: "session_handshake js (recording env) peer name preset hb s (w, [])
      = (r, s1, w1, tr1)" by (metis prod_cases4)
  note ev = handshake_events [OF hand]
  show ?thesis
  proof (cases r)
    case (Inl e)
    with assms hand have "evs = tr1" by (simp add: handle_receiver_session_def)
    with ev(1) show ?thesis by (auto simp: session_events_def)
  next
    case (Inr hello)
    obtain r2 s2 w2 tr2 where loop: "session_loop js (recording env) s1 (w1, tr1) = (r2, s2, w2, tr2)"
      by (metis prod_cases4)
    with assms hand Inr have "evs = tr2"
      by (auto simp: handle_receiver_session_def Let_def split: sum.splits)
    moreover obtain rest where "tr2 = tr1 @ rest" "loop_events rest"
      using session_loop_events [of js env s1 w1 tr1] loop by auto
    ultimately show ?thesis using ev(2) Inr by (auto simp: session_events_def)
  qed
qed

section \<open>Delivery\<close>

text \<open>
  A session over a socket that works, with a receiver that takes every event and is not
  stopped: the world is the list of events and the bytes sent back.
\<close>

definition open_env :: "(ReceiverTransportEvent list \<times> bytes) receiver_env" where
  "open_env =
     \<lparr>re_set_nodelay = (\<lambda>w. (Inr (), w)), re_set_read_timeout = (\<lambda>w. (Inr (), w)),
      re_write_all = (\<lambda>bs (evs, out). (Inr (), evs, out @ bs)),
      re_on_event = (\<lambda>ev (evs, out). (Inr (), evs @ [ev], out)),
      re_try_recv_stop = (\<lambda>w. (RecvEmpty, w))\<rparr>"

lemma open_env_simps [simp]:
  "re_set_nodelay open_env w = (Inr (), w)" "re_set_read_timeout open_env w = (Inr (), w)"
  "re_write_all open_env bs (evs, out) = (Inr (), evs, out @ bs)"
  "re_on_event open_env ev (evs, out) = (Inr (), evs @ [ev], out)"
  "re_try_recv_stop open_env w = (RecvEmpty, w)"
  by (simp_all add: open_env_def)

definition packet_of :: "AudioMessage \<Rightarrow> Frame \<Rightarrow> ReceiverAudioPacket" where
  "packet_of m f =
     \<lparr>pkt_sequence = au_sequence m, pkt_captured_at_ms = au_captured_at_ms m,
      pkt_captured_at_unix_ms = au_captured_at_unix_ms m, pkt_payload = fr_payload f\<rparr>"

text \<open>An audio frame with its decoded metadata, and how often the socket times out before it.\<close>

definition audio_frame :: "json_codec \<Rightarrow> nat \<times> Frame \<times> AudioMessage \<Rightarrow> bool" where
  "audio_frame js x \<longleftrightarrow>
     (let (_, f, m) = x in frame_ok f \<and> fr_kind f = FrameKind.Audio \<and> from_audio js (fr_metadata f) = Inr m)"

definition timeout_item :: stream_item where
  "timeout_item = ReadErr \<lparr>err_kind = WouldBlock, err_text = ''timed out''\<rparr>"

definition on_wire :: "nat \<times> Frame \<times> AudioMessage \<Rightarrow> stream_item list" where
  "on_wire x = (let (n, f, _) = x in replicate n timeout_item @ map Byte (frame_encoding f))"

lemma read_frame_timeout:
  "read_frame (timeout_item # s) = (Inl (Io ''reading transport frame header''
     \<lparr>err_kind = WouldBlock, err_text = ''timed out''\<rparr>), s)"
  by (simp add: read_frame_def FRAME_HEADER_LEN_def timeout_item_def numeral_eq_Suc)

lemma session_loop_idle:
  "session_loop js open_env (replicate n timeout_item @ s) w = session_loop js open_env s w"
  by (induction n)
    (simp_all add: session_loop.simps [of js open_env "timeout_item # _"] session_iteration_def
      read_frame_timeout handle_read_error_def)

lemma session_loop_audio:
  assumes "audio_frame js x"
  shows "session_loop js open_env (on_wire x @ s) (evs, out)
    = session_loop js open_env s (evs @ [AudioPacket (packet_of (snd (snd x)) (fst (snd x)))], out)"
proof -
  obtain n f m where x: "x = (n, f, m)" by (metis prod_cases3)
  have f: "frame_ok f" "fr_kind f = FrameKind.Audio" "from_audio js (fr_metadata f) = Inr m"
    using assms by (simp_all add: audio_frame_def x)
  have "session_iteration js open_env (map Byte (frame_encoding f) @ s) (evs, out)
      = (Again, s, evs @ [AudioPacket (packet_of m f)], out)"
    by (simp add: session_iteration_def read_frame_encoding f handle_frame_def decode_metadata_def
        callback_def after_callback_def packet_of_def)
  then show ?thesis
    by (simp add: x on_wire_def session_loop_idle)
      (simp add: session_loop.simps [of js open_env "map Byte (frame_encoding f) @ s"])
qed

lemma session_loop_audios:
  "\<forall>x \<in> set xs. audio_frame js x \<Longrightarrow>
   session_loop js open_env (concat (map on_wire xs) @ s) (evs, out)
     = session_loop js open_env s (evs @ map (\<lambda>x. AudioPacket (packet_of (snd (snd x)) (fst (snd x)))) xs, out)"
  by (induction xs arbitrary: evs) (simp_all add: session_loop_audio)

lemma session_loop_end:
  "session_loop js open_env [] (evs, out)
     = (Inr (), [], evs @ [Disconnected ''sender disconnected unexpectedly'' True], out)"
  by (simp add: session_loop.simps session_iteration_def read_frame_def FRAME_HEADER_LEN_def
      numeral_eq_Suc handle_read_error_def eof_error_def callback_def after_callback_def)

theorem session_delivers_packets:
  assumes hello: "frame_ok hf" "fr_kind hf = Hello" "from_hello js (fr_metadata hf) = Inr hello"
      "validate_hello hello = Inr ()"
    and accept: "to_accept js (accept_for name preset hb hello) = Inr abytes"
      "length abytes \<le> MAX_METADATA_BYTES"
    and audio: "\<forall>x \<in> set xs. audio_frame js x"
  shows "handle_receiver_session js open_env peer name preset hb
      (map Byte (frame_encoding hf) @ concat (map on_wire xs)) snap ([], [])
    = (Inr (), snap\<lparr>srs_session_id := None, srs_connected_peer := None, srs_last_error := None\<rparr>,
       ReceiverTransportEvent.Connected (connection_for peer hello)
         # map (\<lambda>x. AudioPacket (packet_of (snd (snd x)) (fst (snd x)))) xs
         @ [Disconnected ''sender disconnected unexpectedly'' True],
       frame_header Accept abytes [] @ abytes)"
proof -
  have "session_handshake js open_env peer name preset hb
      (map Byte (frame_encoding hf) @ concat (map on_wire xs)) ([], [])
    = (Inr hello, concat (map on_wire xs), [ReceiverTransportEvent.Connected (connection_for peer hello)],
       frame_header Accept abytes [] @ abytes)"
    using hello accept
    by (simp add: session_handshake_def ok_or_io_def read_frame_encoding decode_metadata_def
        write_message_def write_frame_def callback_def Let_def not_less [symmetric])
  then show ?thesis
    using session_loop_audios [OF audio, of "[]"]
    by (simp add: handle_receiver_session_def session_loop_end Let_def)
qed

section \<open>Witnesses\<close>

definition demo_hello :: HelloMessage where
  "demo_hello = hello_new ''s1'' ''desk'' default_stream_config QualityPreset.Balanced 150 1000"

text \<open>A codec that knows one message of each type, as one byte.\<close>

definition demo_codec :: json_codec where
  "demo_codec =
     \<lparr>to_hello = (\<lambda>_. Inr [1]), from_hello = (\<lambda>bs. if bs = [1] then Inr demo_hello else Inl ''hello''),
      to_accept = (\<lambda>_. Inr [2]), from_accept = (\<lambda>_. Inl ''accept''),
      to_audio = (\<lambda>_. Inr [3]),
      from_audio = (\<lambda>bs. if bs = [3] then Inr \<lparr>au_sequence = 7, au_captured_at_ms = 70,
        au_captured_at_unix_ms = 0\<rparr> else Inl ''audio''),
      to_heartbeat = (\<lambda>_. Inr [4]), from_heartbeat = (\<lambda>_. Inr \<lparr>hb_nonce = 0\<rparr>),
      to_stop = (\<lambda>_. Inr [5]), from_stop = (\<lambda>_. Inr \<lparr>sp_reason = ''bye''\<rparr>),
      to_error = (\<lambda>_. Inr [6]), from_error = (\<lambda>_. Inl ''error'')\<rparr>"

definition demo_peer :: SocketAddr where
  "demo_peer = \<lparr>sa_ip = V4 10 0 0 7, sa_port = 40000\<rparr>"

definition demo_hello_frame :: Frame where
  "demo_hello_frame = \<lparr>fr_kind = Hello, fr_metadata = [1], fr_payload = [], fr_wire_bytes = 14\<rparr>"

definition demo_audio_frame :: Frame where
  "demo_audio_frame =
     \<lparr>fr_kind = FrameKind.Audio, fr_metadata = [3], fr_payload = [9, 9, 9, 9], fr_wire_bytes = 18\<rparr>"

definition demo_audio_message :: AudioMessage where
  "demo_audio_message = \<lparr>au_sequence = 7, au_captured_at_ms = 70, au_captured_at_unix_ms = 0\<rparr>"

lemma demo_frames_ok:
  "frame_ok demo_hello_frame" "audio_frame demo_codec (2, demo_audio_frame, demo_audio_message)"
  by (simp_all add: frame_ok_def demo_hello_frame_def frame_encoding_def MAX_METADATA_BYTES_def
      MAX_PAYLOAD_BYTES_def audio_frame_def demo_audio_frame_def demo_codec_def demo_audio_message_def)

lemma demo_hello_valid:
  "fr_kind demo_hello_frame = Hello" "from_hello demo_codec (fr_metadata demo_hello_frame) = Inr demo_hello"
  "validate_hello demo_hello = Inr ()" "to_accept demo_codec a = Inr [2]"
  by (simp_all add: demo_hello_frame_def demo_codec_def validate_hello_def demo_hello_def hello_new_def)

theorem session_delivers_packets_witness:
  "fst (snd (snd (handle_receiver_session demo_codec open_env demo_peer ''rx'' ReceiverLatencyPreset.Balanced 1000
     (map Byte (frame_encoding demo_hello_frame) @ concat (map on_wire [(2, demo_audio_frame, demo_audio_message)]))
     (server_snapshot_new demo_peer) ([], []))))
   = [ReceiverTransportEvent.Connected (connection_for demo_peer demo_hello),
      AudioPacket \<lparr>pkt_sequence = 7, pkt_captured_at_ms = 70, pkt_captured_at_unix_ms = 0,
        pkt_payload = [9, 9, 9, 9]\<rparr>,
      Disconnected ''sender disconnected unexpectedly'' True]"
proof -
  have "\<forall>x \<in> set [(2 :: nat, demo_audio_frame, demo_audio_message)]. audio_frame demo_codec x"
    by (simp add: demo_frames_ok)
  from session_delivers_packets [OF demo_frames_ok(1) demo_hello_valid _ this] show ?thesis
    by (simp add: MAX_METADATA_BYTES_def packet_of_def demo_audio_message_def demo_audio_frame_def)
qed

theorem session_event_protocol_witness:
  "session_events demo_peer (snd (snd (snd (handle_receiver_session demo_codec (recording open_env) demo_peer
     ''rx'' ReceiverLatencyPreset.Balanced 1000 (map Byte (frame_encoding demo_hello_frame))
     (server_snapshot_new demo_peer) (([], []), [])))))"
proof -
  obtain r sn w evs where run: "handle_receiver_session demo_codec (recording open_env) demo_peer
     ''rx'' ReceiverLatencyPreset.Balanced 1000 (map Byte (frame_encoding demo_hello_frame))
     (server_snapshot_new demo_peer) (([], []), []) = (r, sn, w, evs)" by (metis prod_cases4)
  show ?thesis using session_event_protocol [OF run] by (simp add: run)
qed

end
