(* ===== verification/Fanout.thy ===== *)
theory Fanout
  imports Receiver_Worker Core_Streaming Fifo Steps
begin

text \<open>
  The sender's fan-out, \<open>synchrosonic-transport/src/fanout.rs\<close>: the bounded branch queue that
  drops its oldest frame, and the local mirror branch with its worker thread. The queue is
  built on a \<open>flume\<close> channel, whose operations are an argument; what the code relies on of a
  bounded channel is the predicate \<open>channel_laws\<close>.
\<close>

record FanoutAudioFrame =
  ff_sequence :: u64
  ff_captured_at_ms :: u64
  ff_captured_at_unix_ms :: u64
  ff_payload :: bytes

section \<open>Channels\<close>

datatype try_send = SendOk | SendFull | SendDisconnected

record ('q, 'a) channel_ops =
  ch_bounded :: "nat \<Rightarrow> 'q"
  ch_try_send :: "'a \<Rightarrow> 'q \<Rightarrow> try_send \<times> 'q"
  ch_try_recv :: "'q \<Rightarrow> 'a option \<times> 'q"
  ch_len :: "'q \<Rightarrow> nat"

text \<open>
  A channel whose both ends are held and that nobody else uses meanwhile: a queue in order of
  sending, that takes messages up to its capacity.
\<close>

definition channel_laws ::
  "('q, 'a) channel_ops \<Rightarrow> ('q \<Rightarrow> 'a list) \<Rightarrow> ('q \<Rightarrow> nat) \<Rightarrow> bool" where
  "channel_laws ch contents cap \<longleftrightarrow>
     (\<forall>n. contents (ch_bounded ch n) = [] \<and> cap (ch_bounded ch n) = n)
     \<and> (\<forall>q x. length (contents q) < cap q \<longrightarrow>
          fst (ch_try_send ch x q) = SendOk \<and> contents (snd (ch_try_send ch x q)) = contents q @ [x]
          \<and> cap (snd (ch_try_send ch x q)) = cap q)
     \<and> (\<forall>q x. cap q \<le> length (contents q) \<longrightarrow> ch_try_send ch x q = (SendFull, q))
     \<and> (\<forall>q. contents q = [] \<longrightarrow> ch_try_recv ch q = (None, q))
     \<and> (\<forall>q x xs. contents q = x # xs \<longrightarrow>
          fst (ch_try_recv ch q) = Some x \<and> contents (snd (ch_try_recv ch q)) = xs
          \<and> cap (snd (ch_try_recv ch q)) = cap q)
     \<and> (\<forall>q. ch_len ch q = length (contents q))"

section \<open>The branch queue\<close>

datatype BufferedPushOutcome = Enqueued | DroppedOldest | DroppedNewest

record 'q BufferedBranchQueue =
  bq_channel :: 'q
  bq_capacity :: nat
  bq_dropped_packets :: u64

definition bq_new :: "('q, 'a) channel_ops \<Rightarrow> nat \<Rightarrow> 'q BufferedBranchQueue" where
  "bq_new ch capacity =
     \<lparr>bq_channel = ch_bounded ch (max capacity 1), bq_capacity = max capacity 1, bq_dropped_packets = 0\<rparr>"

definition bq_snapshot :: "('q, 'a) channel_ops \<Rightarrow> 'q BufferedBranchQueue \<Rightarrow> StreamBranchBufferSnapshot" where
  "bq_snapshot ch b =
     \<lparr>bb_queued_packets = of_nat (min (ch_len ch (bq_channel b)) (bq_capacity b)),
      bb_max_packets = of_nat (bq_capacity b), bb_dropped_packets = bq_dropped_packets b\<rparr>"

text \<open>\<open>while receiver.try_recv().is_ok() {}\<close>: \<open>None\<close> when the loop does not end.\<close>

partial_function (option) drain_channel :: "('q, 'a) channel_ops \<Rightarrow> 'q \<Rightarrow> 'q option" where
  "drain_channel ch q =
     (case ch_try_recv ch q of
        (Some _, q') \<Rightarrow> drain_channel ch q'
      | (None, q') \<Rightarrow> Some q')"

definition bq_clear :: "('q, 'a) channel_ops \<Rightarrow> 'q BufferedBranchQueue \<Rightarrow> 'q BufferedBranchQueue option" where
  "bq_clear ch b = map_option (\<lambda>q. b\<lparr>bq_channel := q\<rparr>) (drain_channel ch (bq_channel b))"

definition bq_push ::
  "('q, 'a) channel_ops \<Rightarrow> 'a \<Rightarrow> 'q BufferedBranchQueue
    \<Rightarrow> (TransportError + BufferedPushOutcome) \<times> 'q BufferedBranchQueue" where
  "bq_push ch item b =
     (let dropped = (\<lambda>b. b\<lparr>bq_dropped_packets := bq_dropped_packets b + 1\<rparr>) in
      case ch_try_send ch item (bq_channel b) of
        (SendOk, q) \<Rightarrow> (Inr Enqueued, b\<lparr>bq_channel := q\<rparr>)
      | (SendDisconnected, q) \<Rightarrow> (Inl ChannelClosed, b\<lparr>bq_channel := q\<rparr>)
      | (SendFull, q) \<Rightarrow>
          (case ch_try_recv ch q of
             (Some _, q1) \<Rightarrow>
               (let b1 = dropped (b\<lparr>bq_channel := q1\<rparr>) in
                case ch_try_send ch item q1 of
                  (SendOk, q2) \<Rightarrow> (Inr DroppedOldest, b1\<lparr>bq_channel := q2\<rparr>)
                | (SendDisconnected, q2) \<Rightarrow> (Inl ChannelClosed, b1\<lparr>bq_channel := q2\<rparr>)
                | (SendFull, q2) \<Rightarrow> (Inr DroppedNewest, dropped (b1\<lparr>bq_channel := q2\<rparr>)))
           | (None, q1) \<Rightarrow> (Inr DroppedNewest, dropped (b\<lparr>bq_channel := q1\<rparr>))))"

section \<open>The local mirror\<close>

datatype LocalMirrorControl = Start PlaybackStartRequest | Stop | Shutdown

datatype LocalMirrorEvent =
  Started string "string option" | Played nat | StateChanged LocalMirrorState | MirrorError string

text \<open>
  The worker's state and what it sends to its event channel. An iteration reads the control
  messages that wait, then one outcome of a \<open>recv_timeout\<close>: of the control channel when it is
  disabled, of the frame queue otherwise. \<open>clear_stale_frames\<close> acts on the frame queue in the
  world.
\<close>

record 's mirror_worker =
  mw_enabled :: bool
  mw_sink :: "'s option"
  mw_events :: "LocalMirrorEvent list"

datatype 'm recv_timeout = Got 'm | TimedOut | Disconnected

record mirror_input =
  mi_waiting :: "LocalMirrorControl list"
  mi_control :: "LocalMirrorControl recv_timeout"
  mi_frame :: "FanoutAudioFrame recv_timeout"

definition emit :: "LocalMirrorEvent list \<Rightarrow> 's mirror_worker \<Rightarrow> 's mirror_worker" where
  "emit evs m = m\<lparr>mw_events := mw_events m @ evs\<rparr>"

text \<open>Stopping the current sink; the error, if any, is returned.\<close>

definition mirror_stop_sink ::
  "('w, 's) playback_env \<Rightarrow> 's mirror_worker \<Rightarrow> 'w \<Rightarrow> AudioError option \<times> 's mirror_worker \<times> 'w" where
  "mirror_stop_sink env m w =
     (case mw_sink m of
        None \<Rightarrow> (None, m, w)
      | Some sink \<Rightarrow>
          (case ev_stop env sink w of
             (Inl e, w') \<Rightarrow> (Some e, m\<lparr>mw_sink := None\<rparr>, w')
           | (Inr _, w') \<Rightarrow> (None, m\<lparr>mw_sink := None\<rparr>, w')))"

definition mirror_start ::
  "('w, 's) playback_env \<Rightarrow> ('w \<Rightarrow> 'w) \<Rightarrow> string \<Rightarrow> PlaybackStartRequest \<Rightarrow> 's mirror_worker \<Rightarrow> 'w
    \<Rightarrow> 's mirror_worker \<times> 'w" where
  "mirror_start env clear backend request m w =
     (case ev_start_stream env request w of
        (Inr new_sink, w1) \<Rightarrow>
          (emit [Started backend (req_target_id request), StateChanged Mirroring]
             (m\<lparr>mw_sink := Some new_sink, mw_enabled := True\<rparr>), w1)
      | (Inl e, w1) \<Rightarrow>
          (emit [MirrorError (show_audio_error e)] (m\<lparr>mw_enabled := False\<rparr>), clear w1))"

text \<open>The drained control messages; the boolean tells whether the thread goes on.\<close>

fun mirror_controls ::
  "('w, 's) playback_env \<Rightarrow> ('w \<Rightarrow> 'w) \<Rightarrow> string \<Rightarrow> LocalMirrorControl list \<Rightarrow> 's mirror_worker \<Rightarrow> 'w
    \<Rightarrow> bool \<times> 's mirror_worker \<times> 'w" where
  "mirror_controls env clear backend [] m w = (True, m, w)"
| "mirror_controls env clear backend (Start request # cs) m w =
     (let (_, m1, w1) = mirror_stop_sink env m w;
          (m2, w2) = mirror_start env clear backend request m1 w1
      in mirror_controls env clear backend cs m2 w2)"
| "mirror_controls env clear backend (Stop # cs) m w =
     (let (err, m1, w1) = mirror_stop_sink env (m\<lparr>mw_enabled := False\<rparr>) (clear w);
          m2 = (case err of Some e \<Rightarrow> emit [MirrorError (show_audio_error e)] m1 | None \<Rightarrow> m1)
      in mirror_controls env clear backend cs (emit [StateChanged Disabled] m2) w1)"
| "mirror_controls env clear backend (Shutdown # cs) m w =
     (let (_, m1, w1) = mirror_stop_sink env m w in (False, m1, w1))"

definition mirror_frame ::
  "('w, 's) playback_env \<Rightarrow> ('w \<Rightarrow> 'w) \<Rightarrow> FanoutAudioFrame \<Rightarrow> 's mirror_worker \<Rightarrow> 'w
    \<Rightarrow> 's mirror_worker \<times> 'w" where
  "mirror_frame env clear frame m w =
     (case mw_sink m of
        None \<Rightarrow>
          (emit [MirrorError ''local mirror sink was unavailable during playback'']
             (m\<lparr>mw_enabled := False\<rparr>), clear w)
      | Some sink \<Rightarrow>
          (case ev_write env (ff_payload frame) sink w of
             (Inl e, _, w1) \<Rightarrow>
               (emit [MirrorError (show_audio_error e)] (m\<lparr>mw_enabled := False, mw_sink := None\<rparr>), clear w1)
           | (Inr _, sink', w1) \<Rightarrow>
               (emit [Played (length (ff_payload frame))] (m\<lparr>mw_sink := Some sink'\<rparr>), w1)))"

definition mirror_iteration ::
  "('w, 's) playback_env \<Rightarrow> ('w \<Rightarrow> 'w) \<Rightarrow> string \<Rightarrow> mirror_input \<Rightarrow> 's mirror_worker \<Rightarrow> 'w
    \<Rightarrow> bool \<times> 's mirror_worker \<times> 'w" where
  "mirror_iteration env clear backend input m w =
     (case mirror_controls env clear backend (mi_waiting input) m w of
        (False, m1, w1) \<Rightarrow> (False, m1, w1)
      | (True, m1, w1) \<Rightarrow>
          (if \<not> mw_enabled m1 then
             (case mi_control input of
                Got (Start request) \<Rightarrow>
                  (let (m2, w2) = mirror_start env clear backend request m1 w1 in (True, m2, w2))
              | Got Stop \<Rightarrow> (True, emit [StateChanged Disabled] m1, w1)
              | Got Shutdown \<Rightarrow> (False, m1, w1)
              | TimedOut \<Rightarrow> (True, m1, w1)
              | Disconnected \<Rightarrow> (False, m1, w1))
           else
             (case mi_frame input of
                Got frame \<Rightarrow> (let (m2, w2) = mirror_frame env clear frame m1 w1 in (True, m2, w2))
              | TimedOut \<Rightarrow> (True, m1, w1)
              | Disconnected \<Rightarrow> (False, m1, w1))))"

fun local_mirror_worker_loop ::
  "('w, 's) playback_env \<Rightarrow> ('w \<Rightarrow> 'w) \<Rightarrow> string \<Rightarrow> mirror_input list \<Rightarrow> 's mirror_worker \<Rightarrow> 'w
    \<Rightarrow> bool \<times> 's mirror_worker \<times> 'w" where
  "local_mirror_worker_loop env clear backend [] m w = (True, m, w)"
| "local_mirror_worker_loop env clear backend (i # is) m w =
     (case mirror_iteration env clear backend i m w of
        (True, m1, w1) \<Rightarrow> local_mirror_worker_loop env clear backend is m1 w1
      | (False, m1, w1) \<Rightarrow> (False, m1, w1))"

definition mirror_worker_new :: "'s mirror_worker" where
  "mirror_worker_new = \<lparr>mw_enabled = False, mw_sink = None, mw_events = []\<rparr>"

section \<open>The mirror's handle\<close>

text \<open>
  \<open>LocalMirrorBranch\<close> as the sender holds it: the queue, the control messages that wait for the
  worker, the events that wait for the sender, and the thread. Sending to a thread that ended is
  an error, since it dropped its receiving end.
\<close>

record 'q LocalMirrorBranch =
  lb_queue :: "'q BufferedBranchQueue"
  lb_control :: "LocalMirrorControl list"
  lb_events :: "LocalMirrorEvent list"
  lb_worker :: bool
  lb_worker_alive :: bool

definition branch_new :: "('q, FanoutAudioFrame) channel_ops \<Rightarrow> nat \<Rightarrow> 'q LocalMirrorBranch" where
  "branch_new ch queue_capacity =
     \<lparr>lb_queue = bq_new ch queue_capacity, lb_control = [], lb_events = [], lb_worker = True,
      lb_worker_alive = True\<rparr>"

definition branch_push_frame ::
  "('q, FanoutAudioFrame) channel_ops \<Rightarrow> FanoutAudioFrame \<Rightarrow> 'q LocalMirrorBranch
    \<Rightarrow> (TransportError + BufferedPushOutcome) \<times> 'q LocalMirrorBranch" where
  "branch_push_frame ch frame b =
     (let (r, q) = bq_push ch frame (lb_queue b) in (r, b\<lparr>lb_queue := q\<rparr>))"

definition branch_send ::
  "LocalMirrorControl \<Rightarrow> 'q LocalMirrorBranch \<Rightarrow> (TransportError + unit) \<times> 'q LocalMirrorBranch" where
  "branch_send control b =
     (if lb_worker_alive b then (Inr (), b\<lparr>lb_control := lb_control b @ [control]\<rparr>)
      else (Inl ChannelClosed, b))"

definition branch_start ::
  "PlaybackStartRequest \<Rightarrow> 'q LocalMirrorBranch \<Rightarrow> (TransportError + unit) \<times> 'q LocalMirrorBranch" where
  "branch_start request = branch_send (Start request)"

definition branch_stop :: "'q LocalMirrorBranch \<Rightarrow> (TransportError + unit) \<times> 'q LocalMirrorBranch" where
  "branch_stop = branch_send Stop"

definition branch_drain_events :: "'q LocalMirrorBranch \<Rightarrow> LocalMirrorEvent list \<times> 'q LocalMirrorBranch" where
  "branch_drain_events b = (lb_events b, b\<lparr>lb_events := []\<rparr>)"

text \<open>\<open>panicked\<close> is the outcome of the join; \<open>None\<close> when clearing the queue does not end.\<close>

definition branch_shutdown ::
  "('q, FanoutAudioFrame) channel_ops \<Rightarrow> bool \<Rightarrow> 'q LocalMirrorBranch
    \<Rightarrow> ((TransportError + unit) \<times> 'q LocalMirrorBranch) option" where
  "branch_shutdown ch panicked b =
     (let b1 = snd (branch_send Shutdown b);
          b2 = b1\<lparr>lb_worker := False, lb_worker_alive := False\<rparr> in
      if lb_worker b \<and> panicked then Some (Inl ThreadJoin, b2)
      else map_option (\<lambda>q. (Inr (), b2\<lparr>lb_queue := q\<rparr>)) (bq_clear ch (lb_queue b2)))"

section \<open>What the queue keeps\<close>

definition branch_queue_inv ::
  "('q \<Rightarrow> 'a list) \<Rightarrow> ('q \<Rightarrow> nat) \<Rightarrow> 'q BufferedBranchQueue \<Rightarrow> bool" where
  "branch_queue_inv contents cap b \<longleftrightarrow>
     0 < bq_capacity b \<and> cap (bq_channel b) = bq_capacity b
     \<and> length (contents (bq_channel b)) \<le> bq_capacity b"

lemma channel_lawsD:
  assumes "channel_laws ch contents cap"
  shows "contents (ch_bounded ch n) = []" "cap (ch_bounded ch n) = n"
    "length (contents q) < cap q \<Longrightarrow> \<exists>q'. ch_try_send ch x q = (SendOk, q') \<and> contents q' = contents q @ [x] \<and> cap q' = cap q"
    "cap q \<le> length (contents q) \<Longrightarrow> ch_try_send ch x q = (SendFull, q)"
    "contents q = [] \<Longrightarrow> ch_try_recv ch q = (None, q)"
    "contents q = y # ys \<Longrightarrow> \<exists>q'. ch_try_recv ch q = (Some y, q') \<and> contents q' = ys \<and> cap q' = cap q"
    "ch_len ch q = length (contents q)"
  using assms unfolding channel_laws_def by (simp_all) (metis prod.collapse)+

lemma bq_new_inv: "channel_laws ch contents cap \<Longrightarrow> branch_queue_inv contents cap (bq_new ch n)"
  by (simp add: branch_queue_inv_def bq_new_def channel_lawsD(1,2))

lemma bq_push_room:
  assumes "channel_laws ch contents cap" "branch_queue_inv contents cap b"
    "length (contents (bq_channel b)) < bq_capacity b"
  shows "\<exists>q. bq_push ch x b = (Inr Enqueued, b\<lparr>bq_channel := q\<rparr>)
     \<and> contents q = contents (bq_channel b) @ [x] \<and> cap q = bq_capacity b"
  using assms channel_lawsD(3) [OF assms(1), of "bq_channel b" x]
  by (auto simp: bq_push_def branch_queue_inv_def)

lemma bq_push_full:
  assumes laws: "channel_laws ch contents cap" and inv: "branch_queue_inv contents cap b"
    and full: "\<not> length (contents (bq_channel b)) < bq_capacity b"
  shows "\<exists>q. bq_push ch x b = (Inr DroppedOldest,
        b\<lparr>bq_channel := q, bq_dropped_packets := bq_dropped_packets b + 1\<rparr>)
     \<and> contents q = tl (contents (bq_channel b)) @ [x] \<and> cap q = bq_capacity b"
proof -
  from inv full obtain y ys where c: "contents (bq_channel b) = y # ys"
    by (cases "contents (bq_channel b)") (auto simp: branch_queue_inv_def)
  with inv full have len: "Suc (length ys) = bq_capacity b" "cap (bq_channel b) = bq_capacity b"
    by (auto simp: branch_queue_inv_def)
  obtain q1 where q1: "ch_try_recv ch (bq_channel b) = (Some y, q1)" "contents q1 = ys"
      "cap q1 = bq_capacity b"
    using channel_lawsD(6) [OF laws c] len(2) by auto
  obtain q2 where q2: "ch_try_send ch x q1 = (SendOk, q2)" "contents q2 = ys @ [x]"
      "cap q2 = bq_capacity b"
    using channel_lawsD(3) [OF laws, of q1 x] q1(2,3) len(1) by auto
  have "ch_try_send ch x (bq_channel b) = (SendFull, bq_channel b)"
    using channel_lawsD(4) [OF laws, of "bq_channel b" x] len c by simp
  with q1 q2 c show ?thesis by (intro exI [of _ q2]) (simp add: bq_push_def)
qed

lemma branch_queue_fifo:
  assumes laws: "channel_laws ch contents cap"
  shows "bounded_fifo (\<lambda>b. contents (bq_channel b)) bq_capacity (\<lambda>x b. snd (bq_push ch x b))
           (branch_queue_inv contents cap)"
proof
  fix b :: "'a BufferedBranchQueue" and x
  assume inv: "branch_queue_inv contents cap b"
  show "length (contents (bq_channel b)) \<le> bq_capacity b"
    using inv by (simp add: branch_queue_inv_def)
  show "contents (bq_channel (snd (bq_push ch x b))) =
      drop (length (contents (bq_channel b)) + 1 - bq_capacity b) (contents (bq_channel b) @ [x])"
    using bq_push_room [OF laws inv, of x] bq_push_full [OF laws inv, of x] inv
    by (cases "length (contents (bq_channel b)) < bq_capacity b")
       (auto simp: branch_queue_inv_def drop_Suc Suc_diff_le)
  show "bq_capacity (snd (bq_push ch x b)) = bq_capacity b"
    using bq_push_room [OF laws inv, of x] bq_push_full [OF laws inv, of x]
    by (cases "length (contents (bq_channel b)) < bq_capacity b") auto
  show "branch_queue_inv contents cap (snd (bq_push ch x b))"
    using bq_push_room [OF laws inv, of x] bq_push_full [OF laws inv, of x] inv
    by (cases "length (contents (bq_channel b)) < bq_capacity b")
       (auto simp: branch_queue_inv_def)
qed

lemma bq_push_outcome:
  assumes "channel_laws ch contents cap" "branch_queue_inv contents cap b"
  shows "fst (bq_push ch x b) =
     Inr (if length (contents (bq_channel b)) < bq_capacity b then Enqueued else DroppedOldest)"
  using bq_push_room [OF assms, of x] bq_push_full [OF assms, of x] by auto

lemma bq_push_drops:
  assumes "channel_laws ch contents cap" "branch_queue_inv contents cap b"
  shows "bq_dropped_packets (snd (bq_push ch x b)) =
     bq_dropped_packets b + (if length (contents (bq_channel b)) < bq_capacity b then 0 else 1)"
  using bq_push_room [OF assms, of x] bq_push_full [OF assms, of x] by auto

text \<open>A sequence of pushes, with the outcome of each.\<close>

fun bq_push_all ::
  "('q, 'a) channel_ops \<Rightarrow> 'a list \<Rightarrow> 'q BufferedBranchQueue
    \<Rightarrow> (TransportError + BufferedPushOutcome) list \<times> 'q BufferedBranchQueue" where
  "bq_push_all ch [] b = ([], b)"
| "bq_push_all ch (x # xs) b =
     (let (r, b1) = bq_push ch x b; (rs, b2) = bq_push_all ch xs b1 in (r # rs, b2))"

lemma bq_push_all_snd: "snd (bq_push_all ch xs b) = fold (\<lambda>x b. snd (bq_push ch x b)) xs b"
  by (induction xs arbitrary: b) (simp_all add: Let_def split_def)

lemma bq_push_all_fst:
  assumes laws: "channel_laws ch contents cap"
  shows "branch_queue_inv contents cap b \<Longrightarrow>
     fst (bq_push_all ch xs b) =
       replicate (min (length xs) (bq_capacity b - length (contents (bq_channel b)))) (Inr Enqueued)
       @ replicate (length xs - (bq_capacity b - length (contents (bq_channel b)))) (Inr DroppedOldest)
     \<and> bq_dropped_packets (snd (bq_push_all ch xs b)) = bq_dropped_packets b
         + of_nat (length xs - (bq_capacity b - length (contents (bq_channel b))))"
proof (induction xs arbitrary: b)
  case (Cons x xs)
  note fifo = branch_queue_fifo [OF laws]
  let ?b = "snd (bq_push ch x b)"
  let ?n = "length (contents (bq_channel b))" and ?c = "bq_capacity b"
  have inv: "branch_queue_inv contents cap ?b"
    by (rule bounded_fifo.invar_enq [OF fifo Cons.prems])
  have cap: "bq_capacity ?b = ?c"
    by (rule bounded_fifo.capacity_enq [OF fifo Cons.prems])
  have len: "length (contents (bq_channel ?b)) = min (?n + 1) ?c"
    using bounded_fifo.length_fold [OF fifo Cons.prems, of "[x]"] by simp
  have room: "bq_capacity ?b - length (contents (bq_channel ?b)) = ?c - ?n - 1"
    by (simp add: cap len min_def)
  show ?case
  proof (cases "?c - ?n")
    case 0
    with Cons.IH [OF inv, unfolded room] bq_push_outcome [OF laws Cons.prems, of x]
      bq_push_drops [OF laws Cons.prems, of x]
    show ?thesis by (simp add: Let_def split_def)
  next
    case (Suc k)
    then have "?n < ?c" by simp
    with Suc Cons.IH [OF inv, unfolded room] bq_push_outcome [OF laws Cons.prems, of x]
      bq_push_drops [OF laws Cons.prems, of x]
    show ?thesis by (simp add: Let_def split_def)
  qed
qed simp

lemma drain_channel_ends:
  assumes laws: "channel_laws ch contents cap"
  shows "contents q = xs \<Longrightarrow> \<exists>q'. drain_channel ch q = Some q' \<and> contents q' = [] \<and> cap q' = cap q"
proof (induction xs arbitrary: q)
  case Nil
  then show ?case
    using channel_lawsD(5) [OF laws Nil] by (subst drain_channel.simps) simp
next
  case (Cons x xs)
  then obtain q' where "ch_try_recv ch q = (Some x, q')" "contents q' = xs" "cap q' = cap q"
    using channel_lawsD(6) [OF laws Cons.prems] by blast
  with Cons.IH [of q'] show ?case by (subst drain_channel.simps) simp
qed

section \<open>The mirror worker's flag and its events\<close>

text \<open>
  What the receiver of the events can tell: the mirror plays after a \<open>Mirroring\<close> event, and no
  longer after an error or a \<open>Disabled\<close> event.
\<close>

fun mirror_reported :: "bool \<Rightarrow> LocalMirrorEvent \<Rightarrow> bool" where
  "mirror_reported on (StateChanged st) = (st = Mirroring)"
| "mirror_reported on (MirrorError msg) = False"
| "mirror_reported on (Started backend target) = on"
| "mirror_reported on (Played n) = on"

definition mirror_inv :: "'s mirror_worker \<Rightarrow> bool" where
  "mirror_inv m \<longleftrightarrow> (mw_enabled m \<longleftrightarrow> mw_sink m \<noteq> None)
     \<and> foldl mirror_reported False (mw_events m) = mw_enabled m"

lemma mirror_fields [simp]:
  "mw_events (emit evs m) = mw_events m @ evs" "mw_enabled (emit evs m) = mw_enabled m"
  "mw_sink (emit evs m) = mw_sink m"
  by (simp_all add: emit_def)

lemma mirror_stop_sink_fields [simp]:
  "mw_sink (fst (snd (mirror_stop_sink env m w))) = None"
  "mw_enabled (fst (snd (mirror_stop_sink env m w))) = mw_enabled m"
  "mw_events (fst (snd (mirror_stop_sink env m w))) = mw_events m"
  by (simp_all add: mirror_stop_sink_def split: option.splits sum.splits prod.splits)

text \<open>A start sets the flag, the sink and the report, whatever they were.\<close>

lemma mirror_start_inv: "mw_sink m = None \<Longrightarrow> mirror_inv (fst (mirror_start env clear backend request m w))"
  by (simp add: mirror_start_def mirror_inv_def split: prod.splits sum.splits)

text \<open>The thread's state stays consistent while the thread goes on; a \<open>Shutdown\<close> only drops the sink.\<close>

lemma mirror_controls_inv:
  "mirror_controls env clear backend cs m w = (True, m', w') \<Longrightarrow> mirror_inv m \<Longrightarrow> mirror_inv m'"
proof (induction cs arbitrary: m w)
  case (Cons c cs)
  show ?case
  proof (cases c)
    case (Start request)
    obtain err m1 w1 where stop: "mirror_stop_sink env m w = (err, m1, w1)"
      by (metis prod_cases3)
    then have "mw_sink m1 = None" using mirror_stop_sink_fields(1) [of env m w] by simp
    then have "mirror_inv (fst (mirror_start env clear backend request m1 w1))"
      by (rule mirror_start_inv)
    moreover have "mirror_controls env clear backend cs (fst (mirror_start env clear backend request m1 w1))
        (snd (mirror_start env clear backend request m1 w1)) = (True, m', w')"
      using Cons.prems(1) Start stop by (simp add: split_def Let_def)
    ultimately show ?thesis using Cons.IH by blast
  next
    case Stop
    obtain err m1 w1 where stop: "mirror_stop_sink env (m\<lparr>mw_enabled := False\<rparr>) (clear w) = (err, m1, w1)"
      by (metis prod_cases3)
    let ?m2 = "case err of Some e \<Rightarrow> emit [MirrorError (show_audio_error e)] m1 | None \<Rightarrow> m1"
    have "mw_sink m1 = None" "\<not> mw_enabled m1"
      using mirror_stop_sink_fields(1,2) [of env "m\<lparr>mw_enabled := False\<rparr>" "clear w"] stop by simp_all
    then have "mirror_inv (emit [StateChanged Disabled] ?m2)"
      by (simp add: mirror_inv_def split: option.splits)
    moreover have "mirror_controls env clear backend cs (emit [StateChanged Disabled] ?m2) w1 = (True, m', w')"
      using Cons.prems(1) Stop stop by simp
    ultimately show ?thesis using Cons.IH by blast
  next
    case Shutdown
    with Cons.prems(1) show ?thesis by (simp add: split_def)
  qed
qed simp

lemma mirror_frame_inv: "mirror_inv m \<Longrightarrow> mw_enabled m \<Longrightarrow> mirror_inv (fst (mirror_frame env clear frame m w))"
  by (auto simp: mirror_frame_def mirror_inv_def split: prod.splits sum.splits option.splits)

lemma mirror_iteration_inv:
  assumes "mirror_inv m" "mirror_iteration env clear backend i m w = (True, m', w')"
  shows "mirror_inv m'"
proof -
  obtain go m1 w1 where c: "mirror_controls env clear backend (mi_waiting i) m w = (go, m1, w1)"
    by (metis prod_cases3)
  with assms(2) have [simp]: "go" by (cases go) (simp_all add: mirror_iteration_def)
  have inv: "mirror_inv m1" using c mirror_controls_inv assms(1) by simp
  show ?thesis
  proof (cases "mw_enabled m1")
    case True
    then have "\<And>f m2 w2. mirror_frame env clear f m1 w1 = (m2, w2) \<Longrightarrow> mirror_inv m2"
      using mirror_frame_inv [OF inv] by (metis fst_conv)
    with True inv assms(2) c show ?thesis
      by (auto simp: mirror_iteration_def split: recv_timeout.splits prod.splits)
  next
    case False
    with inv have "mw_sink m1 = None" by (simp add: mirror_inv_def)
    then have "\<And>r m2 w2. mirror_start env clear backend r m1 w1 = (m2, w2) \<Longrightarrow> mirror_inv m2"
      using mirror_start_inv by (metis fst_conv)
    moreover have "mirror_inv (emit [StateChanged Disabled] m1)"
      using False inv by (simp add: mirror_inv_def)
    ultimately show ?thesis using False inv assms(2) c
      by (auto simp: mirror_iteration_def split: recv_timeout.splits LocalMirrorControl.splits prod.splits)
  qed
qed

definition mirror_step :: "('w, 's) playback_env \<Rightarrow> ('w \<Rightarrow> 'w) \<Rightarrow> string
    \<Rightarrow> 's mirror_worker \<times> 'w \<Rightarrow> 's mirror_worker \<times> 'w \<Rightarrow> bool" where
  "mirror_step env clear backend s t \<longleftrightarrow>
     (\<exists>i. mirror_iteration env clear backend i (fst s) (snd s) = (True, fst t, snd t))"

lemma mirror_step_inv: "mirror_inv (fst s) \<Longrightarrow> mirror_step env clear backend s t \<Longrightarrow> mirror_inv (fst t)"
  by (cases t) (auto simp: mirror_step_def intro: mirror_iteration_inv)

lemma mirror_new_inv: "fst s = mirror_worker_new \<Longrightarrow> mirror_inv (fst s)"
  by (simp add: mirror_inv_def mirror_worker_new_def)

interpretation mirror: invariant_system "\<lambda>s. fst s = mirror_worker_new" "mirror_step env clear backend"
    "\<lambda>s. mirror_inv (fst s)"
  by unfold_locales (erule mirror_new_inv, erule (1) mirror_step_inv)

lemma mirror_loop_steps:
  "local_mirror_worker_loop env clear backend is m w = (True, m', w') \<Longrightarrow>
     (mirror_step env clear backend)\<^sup>*\<^sup>* (m, w) (m', w')"
proof (induction "is" arbitrary: m w)
  case (Cons i "is")
  obtain go m1 w1 where it: "mirror_iteration env clear backend i m w = (go, m1, w1)"
    by (metis prod_cases3)
  with Cons.prems have go: "go" by (cases go) simp_all
  then have "mirror_step env clear backend (m, w) (m1, w1)" using it by (auto simp: mirror_step_def)
  moreover have "(mirror_step env clear backend)\<^sup>*\<^sup>* (m1, w1) (m', w')"
    using Cons it go by simp
  ultimately show ?case by (rule converse_rtranclp_into_rtranclp)
qed simp

section \<open>Properties\<close>

theorem branch_queue_keeps_newest:
  assumes "channel_laws ch contents cap"
  shows "let (outcomes, b) = bq_push_all ch xs (bq_new ch n);
             kept = max n 1; lost = length xs - kept in
         contents (bq_channel b) = drop lost xs
         \<and> outcomes = replicate (min (length xs) kept) (Inr Enqueued) @ replicate lost (Inr DroppedOldest)
         \<and> bq_dropped_packets b = of_nat lost"
proof -
  note inv = bq_new_inv [OF assms, of n]
  have new: "contents (bq_channel (bq_new ch n)) = []" "bq_capacity (bq_new ch n) = max n 1"
      "bq_dropped_packets (bq_new ch n) = 0"
    using channel_lawsD(1) [OF assms] by (simp_all add: bq_new_def)
  show ?thesis
    using bounded_fifo.items_fold [OF branch_queue_fifo [OF assms] inv, of xs]
      bq_push_all_fst [OF assms inv, of xs] new
    by (simp add: split_def Let_def bq_push_all_snd)
qed

text \<open>The channel of the witnesses: a list and a capacity.\<close>

definition list_channel :: "(nat \<times> 'a list, 'a) channel_ops" where
  "list_channel =
     \<lparr>ch_bounded = (\<lambda>n. (n, [])),
      ch_try_send = (\<lambda>x (n, xs). if length xs < n then (SendOk, (n, xs @ [x])) else (SendFull, (n, xs))),
      ch_try_recv = (\<lambda>(n, xs). case xs of [] \<Rightarrow> (None, (n, [])) | x # ys \<Rightarrow> (Some x, (n, ys))),
      ch_len = (\<lambda>(n, xs). length xs)\<rparr>"

lemma list_channel_laws: "channel_laws list_channel snd fst"
  by (simp add: channel_laws_def list_channel_def)

theorem branch_queue_keeps_newest_witness:
  "snd (bq_channel (snd (bq_push_all list_channel [1, 2, 3 :: nat] (bq_new list_channel 2)))) = [2, 3]
   \<and> fst (bq_push_all list_channel [1, 2, 3 :: nat] (bq_new list_channel 2)) =
       [Inr Enqueued, Inr Enqueued, Inr DroppedOldest]"
  using branch_queue_keeps_newest [OF list_channel_laws, of "[1, 2, 3 :: nat]" 2]
  by (simp add: Let_def split_def numeral_2_eq_2 numeral_3_eq_3)

lemma branch_shutdown_result:
  assumes "channel_laws ch contents cap"
  shows "\<exists>r b'. branch_shutdown ch panicked b = Some (r, b') \<and> \<not> lb_worker_alive b'
     \<and> (r = Inr () \<longrightarrow> contents (bq_channel (lb_queue b')) = [])"
proof -
  obtain q' where "drain_channel ch (bq_channel (lb_queue b)) = Some q'" "contents q' = []"
    using drain_channel_ends [OF assms] by blast
  then show ?thesis
    by (simp add: branch_shutdown_def branch_send_def bq_clear_def Let_def)
qed

theorem branch_shutdown_ends:
  assumes "channel_laws ch contents cap"
  shows "\<exists>r b'. branch_shutdown ch panicked b = Some (r, b') \<and> \<not> lb_worker_alive b'
     \<and> fst (branch_start request b') = Inl ChannelClosed
     \<and> (r = Inr () \<longrightarrow> contents (bq_channel (lb_queue b')) = [])"
  using branch_shutdown_result [OF assms, of panicked b]
  by (auto simp: branch_start_def branch_send_def)

theorem branch_shutdown_ends_witness:
  "\<exists>r b'. branch_shutdown list_channel False
       (snd (branch_push_frame list_channel (FanoutAudioFrame.make 1 0 0 []) (branch_new list_channel 2))) = Some (r, b')
     \<and> \<not> lb_worker_alive b' \<and> fst (branch_start (PlaybackStartRequest.make default_stream_config None 50) b') = Inl ChannelClosed
     \<and> (r = Inr () \<longrightarrow> snd (bq_channel (lb_queue b')) = [])"
  by (rule branch_shutdown_ends [OF list_channel_laws])

theorem mirror_flag_and_events_agree:
  assumes "local_mirror_worker_loop env clear backend inputs mirror_worker_new w = (True, m, w')"
  shows "(mw_enabled m \<longleftrightarrow> mw_sink m \<noteq> None) \<and> foldl mirror_reported False (mw_events m) = mw_enabled m"
  using mirror.inv_reachable [OF _ mirror_loop_steps [OF assms]] by (simp add: mirror_inv_def)

text \<open>A playback engine that starts a stream and fails on its first write.\<close>

definition failing_env :: "(nat, unit) playback_env" where
  "failing_env =
     \<lparr>ev_now = (\<lambda>w. (0, w)), ev_start_stream = (\<lambda>r w. (Inr (), w)),
      ev_write = (\<lambda>bs s w. (Inl (CommandFailed ''aplay'' ''gone''), s, w + 1)), ev_stop = (\<lambda>s w. (Inr (), w))\<rparr>"

theorem mirror_flag_and_events_agree_witness:
  "let (_, m, _) = local_mirror_worker_loop failing_env id ''alsa''
       [\<lparr>mi_waiting = [Start (PlaybackStartRequest.make default_stream_config None 50)], mi_control = TimedOut, mi_frame = TimedOut\<rparr>,
        \<lparr>mi_waiting = [], mi_control = TimedOut, mi_frame = Got (FanoutAudioFrame.make 1 0 0 [7])\<rparr>]
       mirror_worker_new 0
   in (mw_enabled m \<longleftrightarrow> mw_sink m \<noteq> None) \<and> foldl mirror_reported False (mw_events m) = mw_enabled m
      \<and> length (mw_events m) = 3"
  using mirror_flag_and_events_agree [of failing_env id "''alsa''"
       "[\<lparr>mi_waiting = [Start (PlaybackStartRequest.make default_stream_config None 50)], mi_control = TimedOut, mi_frame = TimedOut\<rparr>,
        \<lparr>mi_waiting = [], mi_control = TimedOut, mi_frame = Got (FanoutAudioFrame.make 1 0 0 [7])\<rparr>]" 0]
  by (simp add: mirror_iteration_def mirror_stop_sink_def mirror_start_def mirror_frame_def
      mirror_worker_new_def failing_env_def emit_def)

end
