(* ===== verification/Sender_Core.thy ===== *)
theory Sender_Core
  imports Frame_Protocol Fanout Core_Config "HOL-Library.Product_Lexorder"
begin

text \<open>
  The sender's helpers and threads, \<open>synchrosonic-transport/src/sender.rs\<close>: the targets and
  their failures, the derived state and metrics of a manager, the size of a branch queue, the
  connection attempt, and the two threads of a connected target. The clock, the sockets and the
  channels they send on are functions over a world; what a socket delivers is the item list of
  \<open>Frame_Protocol\<close>. Log lines are left out.
\<close>

section \<open>Constants and data\<close>

definition MIN_BRANCH_QUEUE_PACKETS :: nat where "MIN_BRANCH_QUEUE_PACKETS = 4"
definition BRANCH_QUEUE_HEADROOM_PACKETS :: nat where "BRANCH_QUEUE_HEADROOM_PACKETS = 2"
definition MAX_BRANCH_QUEUE_PACKETS :: nat where "MAX_BRANCH_QUEUE_PACKETS = 64"
definition MAX_CONNECT_ATTEMPTS :: u32 where "MAX_CONNECT_ATTEMPTS = 3"

text \<open>The endpoint of a target is its address, the field of \<open>TransportEndpoint\<close> that the sender reads.\<close>

record SenderTarget =
  st_receiver_id :: DeviceId
  st_receiver_name :: string
  st_endpoint :: SocketAddr

datatype SenderCommand =
  AddTarget SenderTarget | RemoveTarget DeviceId | SetLocalMirrorEnabled bool
| SetLocalMirrorTarget "string option" | SetLocalDeviceId DeviceId
| SetQualityPreset QualityPreset | ShutdownManager

datatype InboundControl =
  HeartbeatAcked u64 u64 | StopRequested string u64 | InboundError string u64 | InboundDisconnected

datatype NetworkControl = SendHeartbeat u64 | SendStop string | ShutdownWriter

datatype NetworkEvent = AudioSent u64 | HeartbeatSent u64 | StopSent u64 | WriterError string

record TargetConnectRequest =
  cr_manager_session_id :: string
  cr_sender_name :: string
  cr_stream_config :: ReceiverStreamConfig
  cr_connect_timeout :: duration
  cr_quality :: QualityPreset
  cr_target_latency_ms :: u16
  cr_heartbeat_interval_ms :: u16
  cr_local_device_id :: "DeviceId option"

record TargetConnectFailure =
  cf_target :: SenderTarget
  cf_snapshot :: StreamTargetSnapshot
  cf_failure_kind :: StreamTargetFailureKind
  cf_retryable :: bool

section \<open>Pure helpers\<close>

definition validate_accept :: "AcceptMessage \<Rightarrow> string \<Rightarrow> ReceiverStreamConfig \<Rightarrow> TransportError + unit" where
  "validate_accept accept expected_session_id requested_stream =
     (if am_protocol_version accept \<noteq> STREAM_PROTOCOL_VERSION then
        Inl (Negotiation (''receiver negotiated unsupported protocol version ''
               @ show_word (am_protocol_version accept)))
      else if am_session_id accept \<noteq> expected_session_id then
        Inl (Negotiation ''receiver accepted a different session id'')
      else if am_codec accept \<noteq> RawPcm then
        Inl (Negotiation ''receiver negotiated unsupported codec'')
      else if am_stream accept \<noteq> requested_stream then
        Inl (Negotiation ''receiver changed stream parameters; renegotiation is not yet supported'')
      else Inr ())"

definition connect_failure ::
  "SenderTarget \<Rightarrow> StreamTargetSnapshot \<Rightarrow> StreamTargetFailureKind \<Rightarrow> string \<Rightarrow> bool \<Rightarrow> TargetConnectFailure" where
  "connect_failure target snapshot failure_kind message retryable =
     \<lparr>cf_target = target,
      cf_snapshot = snapshot
        \<lparr>ts_state := StreamSessionState.Error,
         ts_health := (case failure_kind of
            ProtocolMismatch \<Rightarrow> StreamTargetHealth.Error
          | SelfTargetBlocked \<Rightarrow> StreamTargetHealth.Error
          | _ \<Rightarrow> StreamTargetHealth.Unreachable),
         ts_last_error_kind := Some failure_kind, ts_last_error := Some message\<rparr>,
      cf_failure_kind = failure_kind, cf_retryable = retryable\<rparr>"

definition classify_connect_error :: "TransportError \<Rightarrow> StreamTargetFailureKind" where
  "classify_connect_error error =
     (case error of
        Connect _ source \<Rightarrow>
          (case err_kind source of
             ConnectionRefused \<Rightarrow> Refused
           | ErrorKind.TimedOut \<Rightarrow> StreamTargetFailureKind.Timeout
           | _ \<Rightarrow> StreamTargetFailureKind.Unreachable)
      | _ \<Rightarrow> StreamTargetFailureKind.Unreachable)"

definition retry_backoff :: "u32 \<Rightarrow> duration" where
  "retry_backoff attempt_count =
     (if attempt_count = 0 \<or> attempt_count = 1 then from_millis 500
      else if attempt_count = 2 then from_millis 1500
      else from_millis 3000)"

definition pending_target_snapshot :: "SenderTarget \<Rightarrow> u32 \<Rightarrow> StreamTargetSnapshot" where
  "pending_target_snapshot target attempt_count =
     (target_snapshot_new (st_receiver_id target) (st_receiver_name target) (st_endpoint target))
       \<lparr>ts_state := StreamSessionState.Connecting, ts_health := Pending, ts_attempt_count := attempt_count\<rparr>"

definition receiver_stream_config :: "CaptureSettings \<Rightarrow> ReceiverStreamConfig" where
  "receiver_stream_config settings =
     \<lparr>sc_sample_rate_hz = cs_sample_rate_hz settings, sc_channels = cs_channels settings,
      sc_sample_format = cs_sample_format settings, sc_frames_per_packet = cs_buffer_frames settings\<rparr>"

definition aggregate_metrics :: "StreamTargetSnapshot list \<Rightarrow> StreamMetrics" where
  "aggregate_metrics targets =
     foldl (\<lambda>aggregate target. accumulate aggregate (ts_metrics target)) default_stream_metrics targets"

definition derive_manager_state :: "StreamTargetSnapshot list \<Rightarrow> StreamSessionState" where
  "derive_manager_state targets =
     (if targets = [] then StreamSessionState.Idle
      else if \<exists>t \<in> set targets. ts_state t = Streaming then Streaming
      else if \<exists>t \<in> set targets. ts_state t = StreamSessionState.Connecting \<or> ts_state t = Negotiating
                \<or> ts_next_retry_at_unix_ms t \<noteq> None then StreamSessionState.Connecting
      else if \<exists>t \<in> set targets. ts_state t = StreamSessionState.Stopping then StreamSessionState.Stopping
      else if \<forall>t \<in> set targets. ts_state t = StreamSessionState.Error then StreamSessionState.Error
      else StreamSessionState.Idle)"

text \<open>\<open>handle_buffer_push\<close>: beyond its log lines it forgets the outcome. The snapshot is only read.\<close>

definition handle_buffer_push :: "TransportError + BufferedPushOutcome \<Rightarrow> TransportError + unit" where
  "handle_buffer_push outcome = (case outcome of Inl e \<Rightarrow> Inl e | Inr _ \<Rightarrow> Inr ())"

definition bitrate_bps :: "u64 \<Rightarrow> duration \<Rightarrow> u64" where
  "bitrate_bps bytes_sent elapsed =
     (let millis = of_nat (as_millis elapsed) in
      if millis = 0 then 0 else sat_mul (sat_mul bytes_sent 8) 1000 div millis)"

text \<open>\<open>usize\<close> is 64 bits wide.\<close>

definition sender_div_ceil :: "nat \<Rightarrow> nat \<Rightarrow> nat" where
  "sender_div_ceil dividend divisor = min (dividend + (divisor - 1)) (2 ^ 64 - 1) div max divisor 1"

definition branch_queue_capacity :: "duration \<Rightarrow> u16 \<Rightarrow> nat" where
  "branch_queue_capacity duration_of_packet target_latency_ms =
     (let packet_ms = max (as_millis duration_of_packet) 1;
          target_ms = unat (max target_latency_ms 10);
          packets = sender_div_ceil target_ms packet_ms + BRANCH_QUEUE_HEADROOM_PACKETS
      in min (max packets MIN_BRANCH_QUEUE_PACKETS) MAX_BRANCH_QUEUE_PACKETS)"

definition finalize_local_mirror_state :: "bool \<Rightarrow> LocalMirrorSnapshot \<Rightarrow> LocalMirrorSnapshot" where
  "finalize_local_mirror_state capture_active s =
     (if lm_state s = LocalMirrorState.Error then s
      else s\<lparr>lm_state :=
        (if capture_active then
           (if lm_desired_enabled s then
              (case lm_state s of
                 Mirroring \<Rightarrow> lm_state s
               | Starting \<Rightarrow> lm_state s
               | _ \<Rightarrow> Starting)
            else Disabled)
         else if lm_desired_enabled s then LocalMirrorState.Idle else Disabled)\<rparr>)"

section \<open>The connection attempt\<close>

record 'w connect_env =
  ce_unix_ms :: "'w \<Rightarrow> u64 \<times> 'w"
  ce_now :: "'w \<Rightarrow> instant \<times> 'w"
  ce_connect :: "SocketAddr \<Rightarrow> duration \<Rightarrow> 'w \<Rightarrow> (io_error + stream_item list) \<times> 'w"
  ce_set_nodelay :: "'w \<Rightarrow> (io_error + unit) \<times> 'w"
  ce_write_all :: "bytes \<Rightarrow> 'w \<Rightarrow> (io_error + unit) \<times> 'w"
  ce_try_clone :: "'w \<Rightarrow> (io_error + unit) \<times> 'w"

text \<open>
  A connected target: its writer's queue, the control messages that wait for the writer, the
  events that wait for the manager, and the reader's messages. The heartbeats in flight are a
  map from the nonce to the time they were queued. \<open>ms_socket\<close> is what the socket still has to
  deliver to the reader thread.
\<close>

record 'q NetworkBranch =
  nb_queue :: "'q BufferedBranchQueue"
  nb_control :: "NetworkControl list"
  nb_events :: "NetworkEvent list"
  nb_writer_alive :: bool

record 'q ManagedTargetSession =
  ms_target :: SenderTarget
  ms_snapshot :: StreamTargetSnapshot
  ms_socket :: "stream_item list"
  ms_branch :: "'q NetworkBranch"
  ms_inbound :: "InboundControl list"
  ms_pending_heartbeats :: "u64 \<rightharpoonup> instant"
  ms_heartbeat_nonce :: u64
  ms_last_heartbeat :: instant
  ms_started_at :: instant

definition branch_new_network :: "('q, FanoutAudioFrame) channel_ops \<Rightarrow> nat \<Rightarrow> 'q NetworkBranch" where
  "branch_new_network ch queue_capacity =
     \<lparr>nb_queue = bq_new ch queue_capacity, nb_control = [], nb_events = [], nb_writer_alive = True\<rparr>"

definition session_id_for :: "TargetConnectRequest \<Rightarrow> SenderTarget \<Rightarrow> u64 \<Rightarrow> string" where
  "session_id_for request target now =
     cr_manager_session_id request @ ''-'' @ device_str (st_receiver_id target) @ ''-'' @ show_word now"

definition hello_for :: "TargetConnectRequest \<Rightarrow> string \<Rightarrow> HelloMessage" where
  "hello_for request session_id =
     hello_new session_id (cr_sender_name request) (cr_stream_config request) (cr_quality request)
       (cr_target_latency_ms request) (cr_heartbeat_interval_ms request)"

text \<open>The part of the attempt that follows the Hello: the receiver's answer.\<close>

definition negotiate ::
  "json_codec \<Rightarrow> SenderTarget \<Rightarrow> TargetConnectRequest \<Rightarrow> string \<Rightarrow> StreamTargetSnapshot
    \<Rightarrow> stream_item list \<Rightarrow> (TargetConnectFailure + AcceptMessage \<times> StreamTargetSnapshot) \<times> stream_item list" where
  "negotiate js target request session_id snapshot s =
     (case read_frame s of
        (Inl e, s1) \<Rightarrow>
          (Inl (connect_failure target snapshot StreamTargetFailureKind.Unreachable (show_transport_error e) True), s1)
      | (Inr frame, s1) \<Rightarrow>
          (let snapshot1 = snapshot\<lparr>ts_metrics := (ts_metrics snapshot)
                 \<lparr>sm_bytes_received := sm_bytes_received (ts_metrics snapshot) + of_nat (fr_wire_bytes frame),
                  sm_packets_received := sm_packets_received (ts_metrics snapshot) + 1\<rparr>\<rparr>;
               mismatch = (\<lambda>msg. Inl (connect_failure target snapshot1 ProtocolMismatch msg False))
           in if fr_kind frame \<noteq> Accept then (mismatch ''receiver did not respond with Accept'', s1)
              else
                (case decode_metadata (from_accept js) frame of
                   Inl e \<Rightarrow> (mismatch (show_transport_error e), s1)
                 | Inr accept \<Rightarrow>
                     (case validate_accept accept session_id (cr_stream_config request) of
                        Inl e \<Rightarrow> (mismatch (show_transport_error e), s1)
                      | Inr _ \<Rightarrow> (Inr (accept, snapshot1), s1)))))"

definition streaming_snapshot :: "string \<Rightarrow> AcceptMessage \<Rightarrow> StreamTargetSnapshot \<Rightarrow> StreamTargetSnapshot" where
  "streaming_snapshot session_id accept s =
     s\<lparr>ts_session_id := Some session_id, ts_codec := Some (am_codec accept),
       ts_stream := Some (am_stream accept), ts_state := Streaming, ts_health := Healthy,
       ts_last_error_kind := None, ts_last_error := None\<rparr>"

definition target_connect ::
  "json_codec \<Rightarrow> 'w connect_env \<Rightarrow> ('q, FanoutAudioFrame) channel_ops \<Rightarrow> SenderTarget \<Rightarrow> u32
    \<Rightarrow> TargetConnectRequest \<Rightarrow> 'w \<Rightarrow> (TargetConnectFailure + 'q ManagedTargetSession) \<times> 'w" where
  "target_connect js env ch target attempt_count request w =
     (let snapshot = pending_target_snapshot target attempt_count;
          address = st_endpoint target;
          unreachable = (\<lambda>snap context e. Inl (connect_failure target snap StreamTargetFailureKind.Unreachable
             (show_transport_error (Io (context @ show_addr address) e)) True)) in
      if cr_local_device_id request = Some (st_receiver_id target) then
        (Inl (connect_failure target snapshot SelfTargetBlocked ''self-target connections are blocked'' False), w)
      else
     (let (now, w1) = ce_unix_ms env w; session_id = session_id_for request target now in
      case ce_connect env address (cr_connect_timeout request) w1 of
        (Inl e, w2) \<Rightarrow>
          (let error = Connect (show_addr address) e in
           (Inl (connect_failure target snapshot (classify_connect_error error) (show_transport_error error) True), w2))
      | (Inr s, w2) \<Rightarrow>
     (case ce_set_nodelay env w2 of
        (Inl e, w3) \<Rightarrow> (unreachable snapshot ''enabling TCP_NODELAY for '' e, w3)
      | (Inr _, w3) \<Rightarrow>
     (let snapshot1 = snapshot\<lparr>ts_state := Negotiating\<rparr> in
      case write_message (to_hello js) (ce_write_all env) Hello (hello_for request session_id) [] w3 of
        (Inl e, w4) \<Rightarrow>
          (Inl (connect_failure target snapshot1 ProtocolMismatch (show_transport_error e) False), w4)
      | (Inr n, w4) \<Rightarrow>
     (let snapshot2 = snapshot1\<lparr>ts_metrics := (ts_metrics snapshot1)
             \<lparr>sm_bytes_sent := sm_bytes_sent (ts_metrics snapshot1) + of_nat n\<rparr>\<rparr> in
      case negotiate js target request session_id snapshot2 s of
        (Inl failure, _) \<Rightarrow> (Inl failure, w4)
      | (Inr (accept, snapshot3), s1) \<Rightarrow>
     (let snapshot4 = streaming_snapshot session_id accept snapshot3;
          cloning = unreachable snapshot4 ''cloning TCP stream for '' in
      case ce_try_clone env w4 of
        (Inl e, w5) \<Rightarrow> (cloning e, w5)
      | (Inr _, w5) \<Rightarrow>
     (let branch = branch_new_network ch
             (branch_queue_capacity (packet_duration (am_stream accept)) (cr_target_latency_ms request));
          snapshot5 = snapshot4\<lparr>ts_network_buffer := bq_snapshot ch (nb_queue branch)\<rparr> in
      case ce_try_clone env w5 of
        (Inl e, w6) \<Rightarrow>
          (unreachable snapshot5 ''cloning TCP stream for '' e, w6)
      | (Inr _, w6) \<Rightarrow>
     (let (last_heartbeat, w7) = ce_now env w6; (started_at, w8) = ce_now env w7 in
      (Inr \<lparr>ms_target = target, ms_snapshot = snapshot5, ms_socket = s1, ms_branch = branch,
            ms_inbound = [], ms_pending_heartbeats = Map.empty, ms_heartbeat_nonce = 0,
            ms_last_heartbeat = last_heartbeat, ms_started_at = started_at\<rparr>, w8)))))))))"

section \<open>The writer thread\<close>

record 'w writer_env =
  we_write_all :: "bytes \<Rightarrow> 'w \<Rightarrow> (io_error + unit) \<times> 'w"
  we_send_event :: "NetworkEvent \<Rightarrow> 'w \<Rightarrow> bool \<times> 'w"

text \<open>An iteration reads the control messages that wait, then one outcome of the frame queue.\<close>

record writer_input =
  wi_waiting :: "NetworkControl list"
  wi_frame :: "FanoutAudioFrame recv_timeout"

text \<open>
  Reporting the result of a write; the boolean tells whether the thread goes on, which it does
  when the write succeeded and the manager still listens.
\<close>

definition report_write ::
  "'w writer_env \<Rightarrow> (u64 \<Rightarrow> NetworkEvent) \<Rightarrow> (TransportError + nat) \<times> 'w \<Rightarrow> bool \<times> 'w" where
  "report_write env event r =
     (case r of
        (Inr n, w) \<Rightarrow> we_send_event env (event (of_nat n)) w
      | (Inl e, w) \<Rightarrow> (let (_, w1) = we_send_event env (WriterError (show_transport_error e)) w in (False, w1)))"

fun writer_controls ::
  "json_codec \<Rightarrow> 'w writer_env \<Rightarrow> NetworkControl list \<Rightarrow> 'w \<Rightarrow> bool \<times> 'w" where
  "writer_controls js env [] w = (True, w)"
| "writer_controls js env (SendHeartbeat nonce # cs) w =
     (case report_write env HeartbeatSent
             (write_message (to_heartbeat js) (we_write_all env) Heartbeat \<lparr>hb_nonce = nonce\<rparr> [] w) of
        (True, w1) \<Rightarrow> writer_controls js env cs w1
      | (False, w1) \<Rightarrow> (False, w1))"
| "writer_controls js env (SendStop reason # cs) w =
     (False, snd (report_write env StopSent
        (write_message (to_stop js) (we_write_all env) FrameKind.Stop \<lparr>sp_reason = reason\<rparr> [] w)))"
| "writer_controls js env (ShutdownWriter # cs) w = (False, w)"

definition audio_message_for :: "FanoutAudioFrame \<Rightarrow> AudioMessage" where
  "audio_message_for frame =
     \<lparr>au_sequence = ff_sequence frame, au_captured_at_ms = ff_captured_at_ms frame,
      au_captured_at_unix_ms = ff_captured_at_unix_ms frame\<rparr>"

definition writer_iteration ::
  "json_codec \<Rightarrow> 'w writer_env \<Rightarrow> writer_input \<Rightarrow> 'w \<Rightarrow> bool \<times> 'w" where
  "writer_iteration js env input w =
     (case writer_controls js env (wi_waiting input) w of
        (False, w1) \<Rightarrow> (False, w1)
      | (True, w1) \<Rightarrow>
          (case wi_frame input of
             Got frame \<Rightarrow>
               report_write env AudioSent
                 (write_message (to_audio js) (we_write_all env) FrameKind.Audio (audio_message_for frame)
                    (ff_payload frame) w1)
           | recv_timeout.TimedOut \<Rightarrow> (True, w1)
           | recv_timeout.Disconnected \<Rightarrow> (False, w1)))"

fun network_writer_loop ::
  "json_codec \<Rightarrow> 'w writer_env \<Rightarrow> writer_input list \<Rightarrow> 'w \<Rightarrow> bool \<times> 'w" where
  "network_writer_loop js env [] w = (True, w)"
| "network_writer_loop js env (i # is) w =
     (case writer_iteration js env i w of
        (True, w1) \<Rightarrow> network_writer_loop js env is w1
      | (False, w1) \<Rightarrow> (False, w1))"

section \<open>The reader thread\<close>

text \<open>What a frame from the receiver means to the manager; the boolean tells whether the loop goes on.\<close>

definition inbound_of_frame :: "json_codec \<Rightarrow> Frame \<Rightarrow> InboundControl \<times> bool" where
  "inbound_of_frame js frame =
     (let wire_bytes = of_nat (fr_wire_bytes frame);
          failed = (\<lambda>e. (InboundError (show_transport_error e) wire_bytes, False)) in
      case fr_kind frame of
        HeartbeatAck \<Rightarrow>
          (case decode_metadata (from_heartbeat js) frame of
             Inl e \<Rightarrow> failed e
           | Inr message \<Rightarrow> (HeartbeatAcked (hb_nonce message) wire_bytes, True))
      | FrameKind.Stop \<Rightarrow>
          (case decode_metadata (from_stop js) frame of
             Inl e \<Rightarrow> failed e
           | Inr message \<Rightarrow> (StopRequested (sp_reason message) wire_bytes, True))
      | FrameKind.Error \<Rightarrow>
          (case decode_metadata (from_error js) frame of
             Inl e \<Rightarrow> failed e
           | Inr message \<Rightarrow> (InboundError (em_code message @ '': '' @ em_message message) wire_bytes, True))
      | unexpected \<Rightarrow>
          (InboundError (''unexpected '' @ show_kind unexpected @ '' frame from receiver'') wire_bytes, True))"

definition inbound_of_error :: "TransportError \<Rightarrow> InboundControl" where
  "inbound_of_error error =
     (case error of
        Io _ source \<Rightarrow>
          (if err_kind source \<in> {UnexpectedEof, ConnectionReset} then InboundDisconnected
           else InboundError (show_transport_error error) 0)
      | _ \<Rightarrow> InboundError (show_transport_error error) 0)"

definition reader_iteration ::
  "json_codec \<Rightarrow> (InboundControl \<Rightarrow> 'w \<Rightarrow> bool \<times> 'w) \<Rightarrow> stream_item list \<Rightarrow> 'w
    \<Rightarrow> bool \<times> stream_item list \<times> 'w" where
  "reader_iteration js send s w =
     (case read_frame s of
        (Inr frame, s1) \<Rightarrow>
          (let (event, go_on) = inbound_of_frame js frame; (sent, w1) = send event w
           in (go_on \<and> sent, s1, w1))
      | (Inl error, s1) \<Rightarrow> (let (_, w1) = send (inbound_of_error error) w in (False, s1, w1)))"

lemma reader_iteration_consumes:
  assumes "reader_iteration js send s w = (True, s', w')"
  shows "length s' < length s"
proof -
  obtain r s1 where read: "read_frame s = (r, s1)" by fastforce
  with assms obtain f where "r = Inr f"
    by (cases r) (auto simp: reader_iteration_def split: prod.splits)
  then have "s \<noteq> []" using read_frame_consumes(3) [OF read] by auto
  moreover have "s' = s1"
    using assms read \<open>r = Inr f\<close> by (auto simp: reader_iteration_def split: prod.splits)
  ultimately show ?thesis using read_frame_consumes(2) [OF read] by simp
qed

text \<open>The loop ends with the input of the socket, since every iteration that goes on reads a frame.\<close>

function sender_reader_loop ::
  "json_codec \<Rightarrow> (InboundControl \<Rightarrow> 'w \<Rightarrow> bool \<times> 'w) \<Rightarrow> stream_item list \<Rightarrow> 'w \<Rightarrow> 'w" where
  "sender_reader_loop js send s w =
     (case reader_iteration js send s w of
        (True, s1, w1) \<Rightarrow> sender_reader_loop js send s1 w1
      | (False, s1, w1) \<Rightarrow> w1)"
  by pat_completeness auto
termination
  by (relation "measure (\<lambda>(_, _, s, _). length s)") (auto dest: reader_iteration_consumes [OF sym])

declare sender_reader_loop.simps [simp del]

section \<open>The size of a branch queue\<close>

theorem branch_queue_covers_latency:
  "let n = branch_queue_capacity d latency; packet_ms = max (as_millis d) 1 in
   MIN_BRANCH_QUEUE_PACKETS \<le> n \<and> n \<le> MAX_BRANCH_QUEUE_PACKETS
   \<and> (n = MAX_BRANCH_QUEUE_PACKETS
      \<or> unat (max latency 10) \<le> (n - BRANCH_QUEUE_HEADROOM_PACKETS) * packet_ms)"
proof -
  let ?p = "max (as_millis d) 1" and ?t = "unat (max latency 10)"
  let ?n = "branch_queue_capacity d latency"
  have t: "?t < 65536" using unsigned_less [of "max latency 10"] by simp
  have n: "?n = min (max (sender_div_ceil ?t ?p + 2) 4) 64"
    by (simp add: branch_queue_capacity_def Let_def BRANCH_QUEUE_HEADROOM_PACKETS_def
        MIN_BRANCH_QUEUE_PACKETS_def MAX_BRANCH_QUEUE_PACKETS_def)
  have times_ge: "p \<le> k * p" if "2 \<le> k" for k p :: nat using that by (cases k) simp_all
  have ceil: "?t \<le> k * ?p" if "sender_div_ceil ?t ?p \<le> k" "2 \<le> k" for k
  proof (cases "?t + (?p - 1) \<le> 2 ^ 64 - 1")
    case True
    then have "(?t + (?p - 1)) div ?p \<le> k" using that(1) by (simp add: sender_div_ceil_def)
    then have "?t + (?p - 1) < (k + 1) * ?p" by (simp add: div_less_iff_less_mult flip: less_Suc_eq_le)
    then show ?thesis by simp
  next
    case False
    then have "?t \<le> ?p" using t by simp
    also have "\<dots> \<le> k * ?p" by (rule times_ge [OF that(2)])
    finally show ?thesis .
  qed
  have "?n \<noteq> 64 \<Longrightarrow> sender_div_ceil ?t ?p \<le> ?n - 2" by (simp add: n)
  moreover have "2 \<le> ?n - 2" by (simp add: n)
  ultimately have "?n \<noteq> 64 \<Longrightarrow> ?t \<le> (?n - 2) * ?p" by (intro ceil)
  moreover have "4 \<le> ?n \<and> ?n \<le> 64" by (simp add: n)
  ultimately show ?thesis
    unfolding Let_def MIN_BRANCH_QUEUE_PACKETS_def MAX_BRANCH_QUEUE_PACKETS_def BRANCH_QUEUE_HEADROOM_PACKETS_def
    by blast
qed

end
