(* ===== verification/Sender_Manager.thy ===== *)
theory Sender_Manager
  imports Sender_Core
begin

text \<open>
  The sender's targets and their manager thread, \<open>synchrosonic-transport/src/sender.rs\<close>: a
  connected session and its tick, the collection of targets, and the handlers of the manager's
  loop. What other threads send waits in lists of the state that a handler drains. The
  collection is a \<open>HashMap\<close>, here an association list with distinct keys whose order is the
  iteration order; nothing below relies on that order. Clearing a queue may not end for an
  arbitrary channel, so what shuts a session down is an option.
\<close>

record ('w, 'c) manager_env =
  me_now :: "'w \<Rightarrow> instant \<times> 'w"
  me_unix_ms :: "'w \<Rightarrow> u64 \<times> 'w"
  me_start_capture :: "CaptureSettings \<Rightarrow> 'w \<Rightarrow> (AudioError + 'c) \<times> 'w"
  me_try_recv_frame :: "'c \<Rightarrow> 'w \<Rightarrow> (AudioError + AudioFrame option) \<times> 'c \<times> 'w"
  me_stop_capture :: "'c \<Rightarrow> 'w \<Rightarrow> (AudioError + unit) \<times> 'w"
  me_join_worker :: "'w \<Rightarrow> bool \<times> 'w"

definition elapsed :: "('w, 'c) manager_env \<Rightarrow> instant \<Rightarrow> 'w \<Rightarrow> duration \<times> 'w" where
  "elapsed env start w = (let (now, w1) = me_now env w in (now - start, w1))"

section \<open>A connected session\<close>

definition upd_metrics ::
  "(StreamMetrics \<Rightarrow> StreamMetrics) \<Rightarrow> 'q ManagedTargetSession \<Rightarrow> 'q ManagedTargetSession" where
  "upd_metrics f s = s\<lparr>ms_snapshot := (ms_snapshot s)\<lparr>ts_metrics := f (ts_metrics (ms_snapshot s))\<rparr>\<rparr>"

definition session_set_error ::
  "string \<Rightarrow> StreamTargetHealth \<Rightarrow> 'q ManagedTargetSession \<Rightarrow> 'q ManagedTargetSession" where
  "session_set_error message health s =
     s\<lparr>ms_snapshot := (ms_snapshot s)\<lparr>ts_last_error := Some message,
         ts_state := StreamSessionState.Error, ts_health := health\<rparr>\<rparr>"

definition refresh_health :: "'q ManagedTargetSession \<Rightarrow> 'q ManagedTargetSession" where
  "refresh_health s =
     (let snap = ms_snapshot s in
      if ts_state snap \<noteq> Streaming then s
      else s\<lparr>ms_snapshot := snap\<lparr>ts_health :=
        (if 0 < bb_dropped_packets (ts_network_buffer snap) \<or> 0 < sm_packet_gaps (ts_metrics snap)
         then Degraded else Healthy)\<rparr>\<rparr>)"

definition received :: "u64 \<Rightarrow> StreamMetrics \<Rightarrow> StreamMetrics" where
  "received wire_bytes m =
     m\<lparr>sm_bytes_received := sm_bytes_received m + wire_bytes,
       sm_packets_received := sm_packets_received m + 1\<rparr>"

definition handle_inbound ::
  "('w, 'c) manager_env \<Rightarrow> InboundControl \<Rightarrow> 'q ManagedTargetSession \<Rightarrow> 'w
    \<Rightarrow> 'q ManagedTargetSession \<times> 'w" where
  "handle_inbound env inbound s w =
     (case inbound of
        HeartbeatAcked nonce wire_bytes \<Rightarrow>
          (let s1 = upd_metrics (\<lambda>m. (received wire_bytes m)
                      \<lparr>sm_keepalives_received := sm_keepalives_received m + 1\<rparr>) s
           in case ms_pending_heartbeats s1 nonce of
                None \<Rightarrow> (s1, w)
              | Some sent_at \<Rightarrow>
                  (let (d, w1) = elapsed env sent_at w in
                   (upd_metrics (\<lambda>m. m\<lparr>sm_latency_estimate_ms := Some (of_nat (as_millis d div 2))\<rparr>)
                      (s1\<lparr>ms_pending_heartbeats := (ms_pending_heartbeats s1)(nonce := None)\<rparr>), w1)))
      | StopRequested reason wire_bytes \<Rightarrow>
          (session_set_error (''receiver requested stop: '' @ reason) StreamTargetHealth.Unreachable
             (upd_metrics (received wire_bytes) s), w)
      | InboundError message wire_bytes \<Rightarrow>
          (session_set_error message StreamTargetHealth.Error (upd_metrics (received wire_bytes) s), w)
      | InboundDisconnected \<Rightarrow>
          (session_set_error ''receiver disconnected unexpectedly'' StreamTargetHealth.Unreachable s, w))"

definition handle_network_event ::
  "('w, 'c) manager_env \<Rightarrow> NetworkEvent \<Rightarrow> 'q ManagedTargetSession \<Rightarrow> 'w
    \<Rightarrow> 'q ManagedTargetSession \<times> 'w" where
  "handle_network_event env event s w =
     (case event of
        AudioSent wire_bytes \<Rightarrow>
          (let s1 = upd_metrics (\<lambda>m. m\<lparr>sm_bytes_sent := sm_bytes_sent m + wire_bytes,
                                       sm_packets_sent := sm_packets_sent m + 1\<rparr>) s;
               (d, w1) = elapsed env (ms_started_at s1) w
           in (upd_metrics (\<lambda>m. m\<lparr>sm_estimated_bitrate_bps := bitrate_bps (sm_bytes_sent m) d\<rparr>) s1, w1))
      | HeartbeatSent wire_bytes \<Rightarrow>
          (upd_metrics (\<lambda>m. m\<lparr>sm_bytes_sent := sm_bytes_sent m + wire_bytes,
                              sm_keepalives_sent := sm_keepalives_sent m + 1\<rparr>) s, w)
      | StopSent wire_bytes \<Rightarrow> (upd_metrics (\<lambda>m. m\<lparr>sm_bytes_sent := sm_bytes_sent m + wire_bytes\<rparr>) s, w)
      | WriterError message \<Rightarrow> (session_set_error message StreamTargetHealth.Unreachable s, w))"

fun drain_inbound ::
  "('w, 'c) manager_env \<Rightarrow> InboundControl list \<Rightarrow> 'q ManagedTargetSession \<Rightarrow> 'w
    \<Rightarrow> 'q ManagedTargetSession \<times> 'w" where
  "drain_inbound env [] s w = (s\<lparr>ms_inbound := []\<rparr>, w)"
| "drain_inbound env (c # cs) s w = (let (s1, w1) = handle_inbound env c s w in drain_inbound env cs s1 w1)"

fun drain_network_events ::
  "('w, 'c) manager_env \<Rightarrow> NetworkEvent list \<Rightarrow> 'q ManagedTargetSession \<Rightarrow> 'w
    \<Rightarrow> 'q ManagedTargetSession \<times> 'w" where
  "drain_network_events env [] s w = (s\<lparr>ms_branch := (ms_branch s)\<lparr>nb_events := []\<rparr>\<rparr>, w)"
| "drain_network_events env (e # es) s w =
     (let (s1, w1) = handle_network_event env e s w in drain_network_events env es s1 w1)"

definition branch_control ::
  "NetworkControl \<Rightarrow> 'q NetworkBranch \<Rightarrow> (TransportError + unit) \<times> 'q NetworkBranch" where
  "branch_control control b =
     (if nb_writer_alive b then (Inr (), b\<lparr>nb_control := nb_control b @ [control]\<rparr>)
      else (Inl ChannelClosed, b))"

definition send_heartbeat ::
  "('w, 'c) manager_env \<Rightarrow> 'q ManagedTargetSession \<Rightarrow> 'w \<Rightarrow> 'q ManagedTargetSession \<times> 'w" where
  "send_heartbeat env s w =
     (let nonce = ms_heartbeat_nonce s + 1;
          (now, w1) = me_now env w;
          s1 = s\<lparr>ms_heartbeat_nonce := nonce,
                 ms_pending_heartbeats := (ms_pending_heartbeats s)(nonce \<mapsto> now)\<rparr>;
          (r, b) = branch_control (SendHeartbeat nonce) (ms_branch s1);
          s2 = s1\<lparr>ms_branch := b\<rparr>
      in case r of
           Inl e \<Rightarrow> (session_set_error (show_transport_error e) StreamTargetHealth.Unreachable s2, w1)
         | Inr _ \<Rightarrow> (let (now', w2) = me_now env w1 in (s2\<lparr>ms_last_heartbeat := now'\<rparr>, w2)))"

definition heartbeat_if_due ::
  "('w, 'c) manager_env \<Rightarrow> duration \<Rightarrow> 'q ManagedTargetSession \<Rightarrow> 'w \<Rightarrow> 'q ManagedTargetSession \<times> 'w" where
  "heartbeat_if_due env heartbeat_interval s w =
     (if ts_state (ms_snapshot s) \<noteq> Streaming then (s, w)
      else
        (let (d, w1) = elapsed env (ms_last_heartbeat s) w in
         if heartbeat_interval \<le> d then send_heartbeat env s w1 else (s, w1)))"

definition refresh_buffer ::
  "('q, FanoutAudioFrame) channel_ops \<Rightarrow> 'q ManagedTargetSession \<Rightarrow> 'q ManagedTargetSession" where
  "refresh_buffer ch s =
     s\<lparr>ms_snapshot := (ms_snapshot s)\<lparr>ts_network_buffer := bq_snapshot ch (nb_queue (ms_branch s))\<rparr>\<rparr>"

definition session_tick ::
  "('w, 'c) manager_env \<Rightarrow> ('q, FanoutAudioFrame) channel_ops \<Rightarrow> duration
    \<Rightarrow> 'q ManagedTargetSession \<Rightarrow> 'w \<Rightarrow> bool \<times> 'q ManagedTargetSession \<times> 'w" where
  "session_tick env ch heartbeat_interval s w =
     (let (s1, w1) = drain_inbound env (ms_inbound s) s w;
          (s2, w2) = drain_network_events env (nb_events (ms_branch s1)) s1 w1;
          (s3, w3) = heartbeat_if_due env heartbeat_interval s2 w2;
          s4 = refresh_health (refresh_buffer ch s3)
      in (ts_state (ms_snapshot s4) = Streaming, s4, w3))"

definition session_push_frame ::
  "('q, FanoutAudioFrame) channel_ops \<Rightarrow> FanoutAudioFrame \<Rightarrow> 'q ManagedTargetSession
    \<Rightarrow> (TransportError + unit) \<times> 'q ManagedTargetSession" where
  "session_push_frame ch frame s =
     (let (outcome, q) = bq_push ch frame (nb_queue (ms_branch s));
          s1 = s\<lparr>ms_branch := (ms_branch s)\<lparr>nb_queue := q\<rparr>\<rparr>
      in case handle_buffer_push outcome of
           Inl e \<Rightarrow> (Inl e, s1)
         | Inr _ \<Rightarrow> (Inr (), refresh_health (refresh_buffer ch s1)))"

text \<open>
  \<open>stop_and_shutdown\<close> and \<open>shutdown\<close> of the branch: the control message, the join of the
  writer, and the clearing of the queue unless the thread panicked. The socket is shut down and
  the reader joined after it; neither changes the snapshot.
\<close>

definition branch_close ::
  "('w, 'c) manager_env \<Rightarrow> ('q, FanoutAudioFrame) channel_ops \<Rightarrow> NetworkControl \<Rightarrow> 'q NetworkBranch
    \<Rightarrow> 'w \<Rightarrow> ('q NetworkBranch \<times> 'w) option" where
  "branch_close env ch control b w =
     (let b1 = (snd (branch_control control b))\<lparr>nb_writer_alive := False\<rparr>;
          (joined, w1) = me_join_worker env w
      in if joined then map_option (\<lambda>q. (b1\<lparr>nb_queue := q\<rparr>, w1)) (bq_clear ch (nb_queue b1))
         else Some (b1, w1))"

definition shutdown_immediate ::
  "('w, 'c) manager_env \<Rightarrow> ('q, FanoutAudioFrame) channel_ops \<Rightarrow> 'q ManagedTargetSession \<Rightarrow> 'w
    \<Rightarrow> (StreamTargetSnapshot \<times> 'w) option" where
  "shutdown_immediate env ch s w =
     map_option (\<lambda>(b, w1). (ms_snapshot (refresh_buffer ch (s\<lparr>ms_branch := b\<rparr>)), w1))
       (branch_close env ch ShutdownWriter (ms_branch s) w)"

definition shutdown_with_stop ::
  "('w, 'c) manager_env \<Rightarrow> ('q, FanoutAudioFrame) channel_ops \<Rightarrow> string \<Rightarrow> 'q ManagedTargetSession
    \<Rightarrow> 'w \<Rightarrow> (StreamTargetSnapshot \<times> 'w) option" where
  "shutdown_with_stop env ch reason s w =
     (let s1 = s\<lparr>ms_snapshot := (ms_snapshot s)\<lparr>ts_state := StreamSessionState.Stopping\<rparr>\<rparr> in
      map_option (\<lambda>(b, w1). (ms_snapshot (refresh_buffer ch (s1\<lparr>ms_branch := b\<rparr>)), w1))
        (branch_close env ch (SendStop reason) (ms_branch s1) w))"

section \<open>Pending targets and the collection\<close>

record PendingTargetSession =
  pt_target :: SenderTarget
  pt_snapshot :: StreamTargetSnapshot
  pt_next_attempt_at :: instant
  pt_in_flight :: bool

definition pending_new ::
  "('w, 'c) manager_env \<Rightarrow> SenderTarget \<Rightarrow> 'w \<Rightarrow> PendingTargetSession \<times> 'w" where
  "pending_new env target w =
     (let (now, w1) = me_now env w in
      (\<lparr>pt_target = target, pt_snapshot = pending_target_snapshot target 0,
        pt_next_attempt_at = now, pt_in_flight = False\<rparr>, w1))"

definition schedule_retry ::
  "('w, 'c) manager_env \<Rightarrow> StreamTargetSnapshot \<Rightarrow> duration \<Rightarrow> PendingTargetSession \<Rightarrow> 'w
    \<Rightarrow> PendingTargetSession \<times> 'w" where
  "schedule_retry env snapshot backoff p w =
     (let (unix, w1) = me_unix_ms env w; (now, w2) = me_now env w1 in
      (p\<lparr>pt_snapshot := snapshot\<lparr>ts_next_retry_at_unix_ms :=
           Some (sat_add unix (of_nat (as_millis backoff)))\<rparr>,
         pt_next_attempt_at := now + backoff, pt_in_flight := False\<rparr>, w2))"

definition mark_in_flight :: "PendingTargetSession \<Rightarrow> u32 \<times> PendingTargetSession" where
  "mark_in_flight p =
     (let attempt = sat_add (ts_attempt_count (pt_snapshot p)) 1 in
      (attempt, p\<lparr>pt_in_flight := True,
         pt_snapshot := (pt_snapshot p)\<lparr>ts_state := StreamSessionState.Connecting, ts_health := Pending,
           ts_next_retry_at_unix_ms := None, ts_attempt_count := attempt\<rparr>\<rparr>))"

datatype 'q TargetSessionEntry =
  PendingEntry PendingTargetSession | ActiveEntry "'q ManagedTargetSession" | FailedEntry StreamTargetSnapshot

fun entry_snapshot :: "'q TargetSessionEntry \<Rightarrow> StreamTargetSnapshot" where
  "entry_snapshot (PendingEntry pending) = pt_snapshot pending"
| "entry_snapshot (FailedEntry snapshot) = snapshot"
| "entry_snapshot (ActiveEntry session) = ms_snapshot session"

definition entry_state :: "'q TargetSessionEntry \<Rightarrow> StreamSessionState" where
  "entry_state e = ts_state (entry_snapshot e)"

fun is_active :: "'q TargetSessionEntry \<Rightarrow> bool" where
  "is_active (ActiveEntry _) = True"
| "is_active _ = False"

fun is_pending :: "'q TargetSessionEntry \<Rightarrow> bool" where
  "is_pending (PendingEntry _) = True"
| "is_pending _ = False"

type_synonym 'q targets = "(DeviceId \<times> 'q TargetSessionEntry) list"

definition targets_insert :: "DeviceId \<Rightarrow> 'q TargetSessionEntry \<Rightarrow> 'q targets \<Rightarrow> 'q targets" where
  "targets_insert k e ts = upsert_by (\<lambda>x. fst x = k) (k, e) ts"

definition insert_pending :: "PendingTargetSession \<Rightarrow> 'q targets \<Rightarrow> 'q targets" where
  "insert_pending p = targets_insert (st_receiver_id (pt_target p)) (PendingEntry p)"

definition insert_active :: "'q ManagedTargetSession \<Rightarrow> 'q targets \<Rightarrow> 'q targets" where
  "insert_active s = targets_insert (st_receiver_id (ms_target s)) (ActiveEntry s)"

definition insert_failed :: "StreamTargetSnapshot \<Rightarrow> 'q targets \<Rightarrow> 'q targets" where
  "insert_failed snapshot = targets_insert (ts_receiver_id snapshot) (FailedEntry snapshot)"

definition targets_remove :: "DeviceId \<Rightarrow> 'q targets \<Rightarrow> 'q TargetSessionEntry option \<times> 'q targets" where
  "targets_remove k ts = (map_of ts k, filter (\<lambda>x. fst x \<noteq> k) ts)"

definition targets_contains :: "DeviceId \<Rightarrow> 'q targets \<Rightarrow> bool" where
  "targets_contains k ts \<longleftrightarrow> map_of ts k \<noteq> None"

definition state_for :: "DeviceId \<Rightarrow> 'q targets \<Rightarrow> StreamSessionState option" where
  "state_for k ts = map_option entry_state (map_of ts k)"

definition has_active_targets :: "'q targets \<Rightarrow> bool" where
  "has_active_targets ts \<longleftrightarrow> (\<exists>x \<in> set ts. is_active (snd x))"

definition has_pending_targets :: "'q targets \<Rightarrow> bool" where
  "has_pending_targets ts \<longleftrightarrow> (\<exists>x \<in> set ts. is_pending (snd x))"

definition active_ids :: "'q targets \<Rightarrow> DeviceId list" where
  "active_ids ts = map fst (filter (\<lambda>x. is_active (snd x)) ts)"

fun pending_due :: "instant \<Rightarrow> 'q TargetSessionEntry \<Rightarrow> bool" where
  "pending_due now (PendingEntry p) = (\<not> pt_in_flight p \<and> pt_next_attempt_at p \<le> now)"
| "pending_due now _ = False"

definition due_pending_targets :: "instant \<Rightarrow> 'q targets \<Rightarrow> DeviceId list" where
  "due_pending_targets now ts = map fst (filter (\<lambda>x. pending_due now (snd x)) ts)"

text \<open>\<open>sort_by\<close> is stable; the order is the receiver's name, then its id.\<close>

definition snapshot_key :: "StreamTargetSnapshot \<Rightarrow> string \<times> string" where
  "snapshot_key s = (ts_receiver_name s, device_str (ts_receiver_id s))"

definition collect_snapshots :: "'q targets \<Rightarrow> StreamTargetSnapshot list" where
  "collect_snapshots ts = sort_key snapshot_key (map (\<lambda>x. entry_snapshot (snd x)) ts)"

section \<open>The manager\<close>

datatype 'q TargetConnectResult = ConnectOk "'q ManagedTargetSession" | ConnectFailed TargetConnectFailure

text \<open>
  The manager with what waits for it (\<open>mg_commands\<close>, \<open>mg_connect_results\<close>), the connection
  attempts it has spawned and not heard of, and the sessions it has handed to a thread that
  shuts them down. \<open>mg_published\<close> is the snapshot it shares with the session handle.
\<close>

record ('q, 'c) SenderManager =
  mg_config :: TransportConfig
  mg_capture_settings :: CaptureSettings
  mg_session_id :: string
  mg_mirror_request :: PlaybackStartRequest
  mg_mirror :: "'q LocalMirrorBranch"
  mg_capture :: "'c option"
  mg_capture_started_unix_ms :: "u64 option"
  mg_published :: StreamSessionSnapshot
  mg_shared :: StreamSessionSnapshot
  mg_commands :: "SenderCommand list"
  mg_connect_results :: "'q TargetConnectResult list"
  mg_connect_request :: TargetConnectRequest
  mg_targets :: "'q targets"
  mg_attempts :: "(SenderTarget \<times> u32 \<times> TargetConnectRequest) list"
  mg_detached :: "('q ManagedTargetSession \<times> string) list"

definition local_mirror_seed :: "string \<Rightarrow> CaptureSettings \<Rightarrow> string option \<Rightarrow> LocalMirrorSnapshot" where
  "local_mirror_seed backend settings target_id =
     default_local_mirror\<lparr>lm_desired_enabled := co_local_monitoring (cs_outputs settings),
       lm_playback_target_id := target_id,
       lm_state := (if co_local_monitoring (cs_outputs settings) then LocalMirrorState.Idle else Disabled),
       lm_playback_backend := Some backend\<rparr>"

definition manager_new ::
  "('q, FanoutAudioFrame) channel_ops \<Rightarrow> string \<Rightarrow> TransportConfig \<Rightarrow> CaptureSettings \<Rightarrow> string \<Rightarrow> string
    \<Rightarrow> string option \<Rightarrow> DeviceId option \<Rightarrow> StreamSessionSnapshot \<Rightarrow> ('q, 'c) SenderManager" where
  "manager_new ch backend config settings sender_name manager_session_id
       local_playback_target_id local_device_id published =
     (let stream_config = receiver_stream_config settings in
      \<lparr>mg_config = config, mg_capture_settings = settings, mg_session_id = manager_session_id,
       mg_mirror_request = \<lparr>req_stream = stream_config, req_target_id = local_playback_target_id,
         req_latency_ms = cs_target_latency_ms settings\<rparr>,
       mg_mirror = branch_new ch (branch_queue_capacity (packet_duration stream_config)
         (cs_target_latency_ms settings)),
       mg_capture = None, mg_capture_started_unix_ms = None, mg_published = published,
       mg_shared = default_session_snapshot\<lparr>ss_session_id := Some manager_session_id,
         ss_stream := Some stream_config,
         ss_local_mirror := local_mirror_seed backend settings local_playback_target_id\<rparr>,
       mg_commands = [], mg_connect_results = [],
       mg_connect_request = \<lparr>cr_manager_session_id = manager_session_id, cr_sender_name = sender_name,
         cr_stream_config = stream_config,
         cr_connect_timeout = from_millis (ucast (max (tc_connect_timeout_ms config) 250)),
         cr_quality = tc_quality config, cr_target_latency_ms = tc_target_latency_ms config,
         cr_heartbeat_interval_ms = tc_heartbeat_interval_ms config,
         cr_local_device_id = local_device_id\<rparr>,
       mg_targets = [], mg_attempts = [], mg_detached = []\<rparr>)"

definition upd_shared ::
  "(StreamSessionSnapshot \<Rightarrow> StreamSessionSnapshot) \<Rightarrow> ('q, 'c) SenderManager \<Rightarrow> ('q, 'c) SenderManager" where
  "upd_shared f m = m\<lparr>mg_shared := f (mg_shared m)\<rparr>"

definition upd_mirror ::
  "(LocalMirrorSnapshot \<Rightarrow> LocalMirrorSnapshot) \<Rightarrow> ('q, 'c) SenderManager \<Rightarrow> ('q, 'c) SenderManager" where
  "upd_mirror f = upd_shared (\<lambda>s. s\<lparr>ss_local_mirror := f (ss_local_mirror s)\<rparr>)"

section \<open>Commands\<close>

definition queue_target_connect ::
  "('w, 'c) manager_env \<Rightarrow> SenderTarget \<Rightarrow> ('q, 'c) SenderManager \<Rightarrow> 'w \<Rightarrow> ('q, 'c) SenderManager \<times> 'w" where
  "queue_target_connect env target m w =
     (if state_for (st_receiver_id target) (mg_targets m)
           \<in> {Some StreamSessionState.Connecting, Some Negotiating, Some Streaming} then (m, w)
      else (let (p, w1) = pending_new env target w in
            (m\<lparr>mg_targets := insert_pending p (mg_targets m)\<rparr>, w1)))"

text \<open>A control message to the mirror; a closed channel is reported as the mirror's error.\<close>

definition control_mirror ::
  "('q LocalMirrorBranch \<Rightarrow> (TransportError + unit) \<times> 'q LocalMirrorBranch) \<Rightarrow> LocalMirrorState
    \<Rightarrow> ('q, 'c) SenderManager \<Rightarrow> ('q, 'c) SenderManager" where
  "control_mirror send st m =
     (let m1 = upd_mirror (\<lambda>l. l\<lparr>lm_state := st\<rparr>) m;
          (r, b) = send (mg_mirror m1);
          m2 = m1\<lparr>mg_mirror := b\<rparr>
      in case r of
           Inr _ \<Rightarrow> m2
         | Inl e \<Rightarrow> upd_mirror (\<lambda>l. l\<lparr>lm_state := LocalMirrorState.Error,
                                     lm_last_error := Some (show_transport_error e)\<rparr>) m2)"

fun handle_command ::
  "('w, 'c) manager_env \<Rightarrow> SenderCommand \<Rightarrow> ('q, 'c) SenderManager \<Rightarrow> 'w
    \<Rightarrow> bool \<times> ('q, 'c) SenderManager \<times> 'w" where
  "handle_command env (AddTarget target) m w = (False, queue_target_connect env target m w)"
| "handle_command env (RemoveTarget device_id) m w =
     (let (removed, ts) = targets_remove device_id (mg_targets m); m1 = m\<lparr>mg_targets := ts\<rparr> in
      (False,
       (case removed of
          Some (ActiveEntry session) \<Rightarrow>
            m1\<lparr>mg_detached := mg_detached m1 @ [(session, ''sender removed target'')]\<rparr>
        | _ \<Rightarrow> m1), w))"
| "handle_command env (SetLocalMirrorEnabled enabled) m w =
     (let m1 = upd_mirror (\<lambda>l. l\<lparr>lm_desired_enabled := enabled, lm_last_error := None\<rparr>) m in
      (False,
       (if mg_capture m1 = None then m1
        else if enabled then control_mirror (branch_start (mg_mirror_request m1)) Starting m1
        else control_mirror branch_stop LocalMirrorState.Stopping m1), w))"
| "handle_command env (SetLocalMirrorTarget target_id) m w =
     (let m1 = upd_mirror (\<lambda>l. l\<lparr>lm_playback_target_id := target_id, lm_last_error := None\<rparr>)
                 (m\<lparr>mg_mirror_request := (mg_mirror_request m)\<lparr>req_target_id := target_id\<rparr>\<rparr>) in
      (False,
       (if mg_capture m1 \<noteq> None \<and> lm_desired_enabled (ss_local_mirror (mg_shared m1))
        then control_mirror (branch_start (mg_mirror_request m1)) Starting m1 else m1), w))"
| "handle_command env (SetLocalDeviceId device_id) m w =
     (False, m\<lparr>mg_connect_request := (mg_connect_request m)\<lparr>cr_local_device_id := Some device_id\<rparr>\<rparr>, w)"
| "handle_command env (SetQualityPreset quality) m w =
     (False, m\<lparr>mg_config := (mg_config m)\<lparr>tc_quality := quality\<rparr>,
               mg_connect_request := (mg_connect_request m)\<lparr>cr_quality := quality\<rparr>\<rparr>, w)"
| "handle_command env ShutdownManager m w =
     (True, upd_shared (\<lambda>s. s\<lparr>ss_state := StreamSessionState.Stopping\<rparr>) m, w)"

text \<open>The commands that wait, up to a shutdown; the boolean is the return value.\<close>

fun run_commands ::
  "('w, 'c) manager_env \<Rightarrow> SenderCommand list \<Rightarrow> ('q, 'c) SenderManager \<Rightarrow> 'w
    \<Rightarrow> bool \<times> ('q, 'c) SenderManager \<times> 'w" where
  "run_commands env [] m w = (False, m\<lparr>mg_commands := []\<rparr>, w)"
| "run_commands env (c # cs) m w =
     (case handle_command env c m w of
        (True, m1, w1) \<Rightarrow> (True, m1\<lparr>mg_commands := cs\<rparr>, w1)
      | (False, m1, w1) \<Rightarrow> run_commands env cs m1 w1)"

definition process_commands ::
  "('w, 'c) manager_env \<Rightarrow> ('q, 'c) SenderManager \<Rightarrow> 'w \<Rightarrow> bool \<times> ('q, 'c) SenderManager \<times> 'w" where
  "process_commands env m w = run_commands env (mg_commands m) m w"

section \<open>Connection attempts and their results\<close>

definition replace_pending :: "DeviceId \<Rightarrow> PendingTargetSession \<Rightarrow> 'q targets \<Rightarrow> 'q targets" where
  "replace_pending k p ts = map (\<lambda>x. if fst x = k then (k, PendingEntry p) else x) ts"

text \<open>One due target is marked and its attempt handed to a thread.\<close>

definition start_attempt :: "DeviceId \<Rightarrow> ('q, 'c) SenderManager \<Rightarrow> ('q, 'c) SenderManager" where
  "start_attempt device_id m =
     (case map_of (mg_targets m) device_id of
        Some (PendingEntry p) \<Rightarrow>
          (let (attempt_count, p1) = mark_in_flight p in
           m\<lparr>mg_targets := replace_pending device_id p1 (mg_targets m),
             mg_attempts := mg_attempts m @ [(pt_target p1, attempt_count, mg_connect_request m)]\<rparr>)
      | _ \<Rightarrow> m)"

definition process_pending_targets ::
  "('w, 'c) manager_env \<Rightarrow> ('q, 'c) SenderManager \<Rightarrow> 'w \<Rightarrow> ('q, 'c) SenderManager \<times> 'w" where
  "process_pending_targets env m w =
     (let (now, w1) = me_now env w in
      (fold start_attempt (due_pending_targets now (mg_targets m)) m, w1))"

definition fail_all_active_targets :: "string \<Rightarrow> ('q, 'c) SenderManager \<Rightarrow> ('q, 'c) SenderManager" where
  "fail_all_active_targets message m =
     m\<lparr>mg_targets := map (\<lambda>x. case snd x of
          ActiveEntry s \<Rightarrow> (fst x, ActiveEntry (session_set_error message StreamTargetHealth.Error s))
        | _ \<Rightarrow> x) (mg_targets m)\<rparr>"

definition ensure_capture_running ::
  "('w, 'c) manager_env \<Rightarrow> ('q, 'c) SenderManager \<Rightarrow> 'w
    \<Rightarrow> (TransportError + unit) \<times> ('q, 'c) SenderManager \<times> 'w" where
  "ensure_capture_running env m w =
     (if mg_capture m \<noteq> None then (Inr (), m, w)
      else
        (case me_start_capture env (mg_capture_settings m) w of
           (Inl e, w1) \<Rightarrow> (Inl (TransportError.Audio e), m, w1)
         | (Inr capture, w1) \<Rightarrow>
             (let (unix, w2) = me_unix_ms env w1;
                  m1 = m\<lparr>mg_capture := Some capture, mg_capture_started_unix_ms := Some unix\<rparr>
              in if lm_desired_enabled (ss_local_mirror (mg_shared m1)) then
                   (let m2 = upd_mirror (\<lambda>l. l\<lparr>lm_state := Starting\<rparr>) m1;
                        (r, b) = branch_start (mg_mirror_request m2) (mg_mirror m2)
                    in (r, m2\<lparr>mg_mirror := b\<rparr>, w2))
                 else (Inr (), m1, w2))))"

definition handle_connected ::
  "('w, 'c) manager_env \<Rightarrow> 'q ManagedTargetSession \<Rightarrow> ('q, 'c) SenderManager \<Rightarrow> 'w
    \<Rightarrow> ('q, 'c) SenderManager \<times> 'w" where
  "handle_connected env session m w =
     (if \<not> targets_contains (st_receiver_id (ms_target session)) (mg_targets m) then
        (m\<lparr>mg_detached := mg_detached m @ [(session, ''sender target was removed before activation'')]\<rparr>, w)
      else
        (let m1 = m\<lparr>mg_targets := insert_active session (mg_targets m)\<rparr> in
         case ensure_capture_running env m1 w of
           (Inr _, m2, w2) \<Rightarrow> (m2, w2)
         | (Inl e, m2, w2) \<Rightarrow>
             (fail_all_active_targets (show_transport_error e)
                (upd_shared (\<lambda>s. s\<lparr>ss_last_error := Some (show_transport_error e)\<rparr>) m2), w2)))"

definition handle_failed ::
  "('w, 'c) manager_env \<Rightarrow> TargetConnectFailure \<Rightarrow> ('q, 'c) SenderManager \<Rightarrow> 'w
    \<Rightarrow> ('q, 'c) SenderManager \<times> 'w" where
  "handle_failed env failure m w =
     (let snapshot = cf_snapshot failure in
      if \<not> targets_contains (ts_receiver_id snapshot) (mg_targets m) then (m, w)
      else
        (let m1 = upd_shared (\<lambda>s. s\<lparr>ss_last_error := ts_last_error snapshot\<rparr>) m in
         if cf_retryable failure \<and> ts_attempt_count snapshot < MAX_CONNECT_ATTEMPTS then
           (case map_of (mg_targets m1) (ts_receiver_id snapshot) of
              Some (PendingEntry p) \<Rightarrow>
                (let (p1, w1) = schedule_retry env snapshot (retry_backoff (ts_attempt_count snapshot)) p w in
                 (m1\<lparr>mg_targets := replace_pending (ts_receiver_id snapshot) p1 (mg_targets m1)\<rparr>, w1))
            | _ \<Rightarrow> (m1, w))
         else (m1\<lparr>mg_targets := insert_failed snapshot (mg_targets m1)\<rparr>, w)))"

fun handle_result ::
  "('w, 'c) manager_env \<Rightarrow> 'q TargetConnectResult \<Rightarrow> ('q, 'c) SenderManager \<Rightarrow> 'w
    \<Rightarrow> ('q, 'c) SenderManager \<times> 'w" where
  "handle_result env (ConnectOk session) m w = handle_connected env session m w"
| "handle_result env (ConnectFailed failure) m w = handle_failed env failure m w"

fun run_results ::
  "('w, 'c) manager_env \<Rightarrow> 'q TargetConnectResult list \<Rightarrow> ('q, 'c) SenderManager \<Rightarrow> 'w
    \<Rightarrow> ('q, 'c) SenderManager \<times> 'w" where
  "run_results env [] m w = (m\<lparr>mg_connect_results := []\<rparr>, w)"
| "run_results env (r # rs) m w = (let (m1, w1) = handle_result env r m w in run_results env rs m1 w1)"

definition process_connect_results ::
  "('w, 'c) manager_env \<Rightarrow> ('q, 'c) SenderManager \<Rightarrow> 'w \<Rightarrow> ('q, 'c) SenderManager \<times> 'w" where
  "process_connect_results env m w = run_results env (mg_connect_results m) m w"

section \<open>The mirror's events\<close>

fun mirror_event :: "LocalMirrorEvent \<Rightarrow> LocalMirrorSnapshot \<Rightarrow> LocalMirrorSnapshot" where
  "mirror_event (Started backend target_id) l =
     l\<lparr>lm_playback_backend := Some backend, lm_playback_target_id := target_id,
       lm_state := Mirroring, lm_last_error := None\<rparr>"
| "mirror_event (Played n) l =
     l\<lparr>lm_packets_played := lm_packets_played l + 1, lm_bytes_played := lm_bytes_played l + of_nat n\<rparr>"
| "mirror_event (StateChanged st) l = l\<lparr>lm_state := st\<rparr>"
| "mirror_event (MirrorError message) l =
     l\<lparr>lm_last_error := Some message, lm_state := LocalMirrorState.Error\<rparr>"

definition process_local_mirror_events :: "('q, 'c) SenderManager \<Rightarrow> ('q, 'c) SenderManager" where
  "process_local_mirror_events m =
     (let (events, b) = branch_drain_events (mg_mirror m) in
      upd_mirror (fold mirror_event events) (m\<lparr>mg_mirror := b\<rparr>))"

section \<open>Ticking the targets\<close>

text \<open>Every active session ticks once; the ids of those that stopped streaming are collected.\<close>

fun tick_all ::
  "('w, 'c) manager_env \<Rightarrow> ('q, FanoutAudioFrame) channel_ops \<Rightarrow> duration \<Rightarrow> 'q targets \<Rightarrow> 'w
    \<Rightarrow> DeviceId list \<times> 'q targets \<times> 'w" where
  "tick_all env ch hb [] w = ([], [], w)"
| "tick_all env ch hb ((k, ActiveEntry s) # ts) w =
     (let (streaming, s1, w1) = session_tick env ch hb s w;
          (failed, ts1, w2) = tick_all env ch hb ts w1
      in (if streaming then failed else k # failed, (k, ActiveEntry s1) # ts1, w2))"
| "tick_all env ch hb (x # ts) w =
     (let (failed, ts1, w1) = tick_all env ch hb ts w in (failed, x # ts1, w1))"

text \<open>A failed session is removed, shut down at once and kept as a failed entry.\<close>

fun retire_failed ::
  "('w, 'c) manager_env \<Rightarrow> ('q, FanoutAudioFrame) channel_ops \<Rightarrow> DeviceId list
    \<Rightarrow> ('q, 'c) SenderManager \<Rightarrow> 'w \<Rightarrow> (('q, 'c) SenderManager \<times> 'w) option" where
  "retire_failed env ch [] m w = Some (m, w)"
| "retire_failed env ch (k # ks) m w =
     (let (removed, ts) = targets_remove k (mg_targets m); m1 = m\<lparr>mg_targets := ts\<rparr> in
      case removed of
        Some (ActiveEntry s) \<Rightarrow>
          (case shutdown_immediate env ch s w of
             None \<Rightarrow> None
           | Some (snapshot, w1) \<Rightarrow>
               retire_failed env ch ks
                 (upd_shared (\<lambda>sh. sh\<lparr>ss_last_error := ts_last_error snapshot\<rparr>)
                    (m1\<lparr>mg_targets := insert_failed snapshot ts\<rparr>)) w1)
      | _ \<Rightarrow> retire_failed env ch ks m1 w)"

definition tick_targets ::
  "('w, 'c) manager_env \<Rightarrow> ('q, FanoutAudioFrame) channel_ops \<Rightarrow> ('q, 'c) SenderManager \<Rightarrow> 'w
    \<Rightarrow> (('q, 'c) SenderManager \<times> 'w) option" where
  "tick_targets env ch m w =
     (let hb = from_millis (ucast (max (tc_heartbeat_interval_ms (mg_config m)) 250));
          (failed, ts, w1) = tick_all env ch hb (mg_targets m) w
      in retire_failed env ch failed (m\<lparr>mg_targets := ts\<rparr>) w1)"

section \<open>Capture and fan-out\<close>

text \<open>The frame goes to the queue of every active session; a session that cannot take it fails.\<close>

fun push_all ::
  "('q, FanoutAudioFrame) channel_ops \<Rightarrow> FanoutAudioFrame \<Rightarrow> 'q targets \<Rightarrow> DeviceId list \<times> 'q targets" where
  "push_all ch frame [] = ([], [])"
| "push_all ch frame ((k, ActiveEntry s) # ts) =
     (let (r, s1) = session_push_frame ch frame s; (failed, ts1) = push_all ch frame ts in
      case r of
        Inr _ \<Rightarrow> (failed, (k, ActiveEntry s1) # ts1)
      | Inl e \<Rightarrow> (k # failed, (k, ActiveEntry
          (session_set_error (show_transport_error e) StreamTargetHealth.Error s1)) # ts1))"
| "push_all ch frame (x # ts) = (let (failed, ts1) = push_all ch frame ts in (failed, x # ts1))"

definition fanout_frame :: "u64 \<Rightarrow> AudioFrame \<Rightarrow> FanoutAudioFrame" where
  "fanout_frame started_unix_ms frame =
     (let captured_at_ms = of_nat (as_millis (af_captured_at frame)) in
      \<lparr>ff_sequence = af_sequence frame, ff_captured_at_ms = captured_at_ms,
       ff_captured_at_unix_ms = sat_add started_unix_ms captured_at_ms, ff_payload = af_payload frame\<rparr>)"

definition push_to_mirror ::
  "('q, FanoutAudioFrame) channel_ops \<Rightarrow> FanoutAudioFrame \<Rightarrow> ('q, 'c) SenderManager
    \<Rightarrow> ('q, 'c) SenderManager" where
  "push_to_mirror ch frame m =
     (let l = ss_local_mirror (mg_shared m) in
      if lm_desired_enabled l \<and> lm_state l \<in> {Starting, Mirroring} then
        m\<lparr>mg_mirror := snd (branch_push_frame ch frame (mg_mirror m))\<rparr>
      else m)"

definition capture_failed :: "string \<Rightarrow> ('q, 'c) SenderManager \<Rightarrow> ('q, 'c) SenderManager" where
  "capture_failed message m =
     fail_all_active_targets message (upd_shared (\<lambda>s. s\<lparr>ss_last_error := Some message\<rparr>) m)"

definition started_unix_ms ::
  "('w, 'c) manager_env \<Rightarrow> ('q, 'c) SenderManager \<Rightarrow> 'w \<Rightarrow> u64 \<times> 'w" where
  "started_unix_ms env m w =
     (case mg_capture_started_unix_ms m of Some t \<Rightarrow> (t, w) | None \<Rightarrow> me_unix_ms env w)"

definition fan_out ::
  "('w, 'c) manager_env \<Rightarrow> ('q, FanoutAudioFrame) channel_ops \<Rightarrow> FanoutAudioFrame
    \<Rightarrow> ('q, 'c) SenderManager \<Rightarrow> 'w \<Rightarrow> (('q, 'c) SenderManager \<times> 'w) option" where
  "fan_out env ch frame m w =
     (let m1 = push_to_mirror ch frame m; (failed, ts) = push_all ch frame (mg_targets m1)
      in retire_failed env ch failed (m1\<lparr>mg_targets := ts\<rparr>) w)"

definition capture_and_fan_out ::
  "('w, 'c) manager_env \<Rightarrow> ('q, FanoutAudioFrame) channel_ops \<Rightarrow> ('q, 'c) SenderManager \<Rightarrow> 'w
    \<Rightarrow> (('q, 'c) SenderManager \<times> 'w) option" where
  "capture_and_fan_out env ch m w =
     (case mg_capture m of
        None \<Rightarrow> Some (m, w)
      | Some capture \<Rightarrow>
          (let (r, capture1, w1) = me_try_recv_frame env capture w; m1 = m\<lparr>mg_capture := Some capture1\<rparr> in
           case r of
             Inr (Some frame) \<Rightarrow>
               (let (started, w2) = started_unix_ms env m1 w1 in fan_out env ch (fanout_frame started frame) m1 w2)
           | Inr None \<Rightarrow> Some (m1, w1)
           | Inl e \<Rightarrow>
               Some (capture_failed (if e = CaptureEnded then ''capture stream ended'' else show_audio_error e) m1, w1)))"

definition stop_capture_if_idle ::
  "('w, 'c) manager_env \<Rightarrow> ('q, 'c) SenderManager \<Rightarrow> 'w \<Rightarrow> ('q, 'c) SenderManager \<times> 'w" where
  "stop_capture_if_idle env m w =
     (if has_active_targets (mg_targets m) \<or> has_pending_targets (mg_targets m) then (m, w)
      else
        (let w1 = (case mg_capture m of None \<Rightarrow> w | Some c \<Rightarrow> snd (me_stop_capture env c w));
             m1 = m\<lparr>mg_capture := None, mg_capture_started_unix_ms := None\<rparr>
         in (if lm_state (ss_local_mirror (mg_shared m1)) \<in> {Starting, Mirroring, LocalMirrorState.Stopping}
             then m1\<lparr>mg_mirror := snd (branch_stop (mg_mirror m1))\<rparr> else m1, w1)))"

section \<open>The published snapshot and the end\<close>

definition refresh_snapshot ::
  "('q, FanoutAudioFrame) channel_ops \<Rightarrow> ('q, 'c) SenderManager \<Rightarrow> ('q, 'c) SenderManager" where
  "refresh_snapshot ch m =
     (let targets = collect_snapshots (mg_targets m);
          shared = (mg_shared m)\<lparr>ss_targets := targets, ss_metrics := aggregate_metrics targets,
             ss_state := derive_manager_state targets,
             ss_local_mirror := finalize_local_mirror_state (mg_capture m \<noteq> None)
               ((ss_local_mirror (mg_shared m))\<lparr>lm_buffer := bq_snapshot ch (lb_queue (mg_mirror m))\<rparr>)\<rparr>
      in m\<lparr>mg_shared := shared, mg_published := shared\<rparr>)"

fun stop_all ::
  "('w, 'c) manager_env \<Rightarrow> ('q, FanoutAudioFrame) channel_ops \<Rightarrow> 'q targets \<Rightarrow> 'w \<Rightarrow> 'w option" where
  "stop_all env ch [] w = Some w"
| "stop_all env ch ((k, ActiveEntry s) # ts) w =
     (case shutdown_with_stop env ch ''sender session manager stopping'' s w of
        None \<Rightarrow> None
      | Some (_, w1) \<Rightarrow> stop_all env ch ts w1)"
| "stop_all env ch (x # ts) w = stop_all env ch ts w"

definition shutdown_all ::
  "('w, 'c) manager_env \<Rightarrow> ('q, FanoutAudioFrame) channel_ops \<Rightarrow> ('q, 'c) SenderManager \<Rightarrow> 'w
    \<Rightarrow> (('q, 'c) SenderManager \<times> 'w) option" where
  "shutdown_all env ch m w =
     (let w1 = (case mg_capture m of None \<Rightarrow> w | Some c \<Rightarrow> snd (me_stop_capture env c w)) in
      case stop_all env ch (mg_targets m) w1 of
        None \<Rightarrow> None
      | Some w2 \<Rightarrow>
          (let (joined, w3) = me_join_worker env w2 in
           case branch_shutdown ch (\<not> joined) (mg_mirror m) of
             None \<Rightarrow> None
           | Some (_, b) \<Rightarrow>
               (let shared = (mg_shared m)\<lparr>ss_targets := [], ss_metrics := default_stream_metrics,
                       ss_state := StreamSessionState.Idle, ss_last_error := None,
                       ss_local_mirror := finalize_local_mirror_state False (ss_local_mirror (mg_shared m))\<rparr>
                in Some (m\<lparr>mg_capture := None, mg_targets := [], mg_mirror := b, mg_shared := shared,
                           mg_published := shared\<rparr>, w3))))"

text \<open>One round of the loop; the boolean tells whether the manager has ended.\<close>

definition manager_iteration ::
  "('w, 'c) manager_env \<Rightarrow> ('q, FanoutAudioFrame) channel_ops \<Rightarrow> ('q, 'c) SenderManager \<Rightarrow> 'w
    \<Rightarrow> (bool \<times> ('q, 'c) SenderManager \<times> 'w) option" where
  "manager_iteration env ch m w =
     (case process_commands env m w of
        (True, m1, w1) \<Rightarrow> map_option (\<lambda>r. (True, r)) (shutdown_all env ch m1 w1)
      | (False, m1, w1) \<Rightarrow>
          (let (m2, w2) = process_pending_targets env m1 w1;
               (m3, w3) = process_connect_results env m2 w2;
               m4 = process_local_mirror_events m3 in
           case tick_targets env ch m4 w3 of
             None \<Rightarrow> None
           | Some (m5, w5) \<Rightarrow>
               (case capture_and_fan_out env ch m5 w5 of
                  None \<Rightarrow> None
                | Some (m6, w6) \<Rightarrow>
                    (let (m7, w7) = stop_capture_if_idle env m6 w6
                     in Some (False, refresh_snapshot ch m7, w7)))))"

end
