(* ===== verification/Keyed.thy ===== *)
theory Keyed
  imports Prelude
begin

text \<open>
  The contract of a keyed collection (the \<open>HashMap\<close>s and \<open>BTreeMap\<close>s of the program): what a
  lookup returns after an insertion and after a removal. The client lemmas carry a property of
  every entry through the operations.
\<close>

locale keyed_store =
  fixes lookup :: "'m \<Rightarrow> 'k \<Rightarrow> 'v option"
    and insert :: "'k \<Rightarrow> 'v \<Rightarrow> 'm \<Rightarrow> 'm"
    and remove :: "'k \<Rightarrow> 'm \<Rightarrow> 'm"
  assumes lookup_insert: "lookup (insert k v m) = (lookup m)(k \<mapsto> v)"
    and lookup_remove: "lookup (remove k m) = (lookup m)(k := None)"
begin

lemma lookup_insert_same: "lookup (insert k v m) k = Some v"
  by (simp add: lookup_insert)

lemma lookup_insert_other: "j \<noteq> k \<Longrightarrow> lookup (insert k v m) j = lookup m j"
  by (simp add: lookup_insert)

lemma insert_insert: "lookup (insert k v (insert k u m)) = lookup (insert k v m)"
  by (simp add: lookup_insert)

lemma insert_commute:
  "j \<noteq> k \<Longrightarrow> lookup (insert k v (insert j u m)) = lookup (insert j u (insert k v m))"
  by (simp add: lookup_insert fun_upd_twist)

lemma remove_insert: "lookup (remove k (insert k v m)) = lookup (remove k m)"
  by (simp add: lookup_insert lookup_remove)

lemma all_insert:
  "\<forall>j u. lookup m j = Some u \<longrightarrow> P j u \<Longrightarrow> P k v \<Longrightarrow> \<forall>j u. lookup (insert k v m) j = Some u \<longrightarrow> P j u"
  by (simp add: lookup_insert)

lemma all_remove:
  "\<forall>j u. lookup m j = Some u \<longrightarrow> P j u \<Longrightarrow> \<forall>j u. lookup (remove k m) j = Some u \<longrightarrow> P j u"
  by (simp add: lookup_remove)

lemma lookup_fold_insert_other:
  "k \<notin> fst ` set xs \<Longrightarrow> lookup (fold (\<lambda>x. insert (fst x) (snd x)) xs m) k = lookup m k"
  by (induction xs arbitrary: m) (auto simp: lookup_insert)

end

section \<open>Association lists\<close>

lemma map_of_upsert: "map_of (upsert_by (\<lambda>x. fst x = k) (k, v) ts) = (map_of ts)(k \<mapsto> v)"
  by (induction ts) (auto simp: fun_eq_iff)

lemma map_of_filter_key: "map_of (filter (\<lambda>x. fst x \<noteq> k) ts) = (map_of ts)(k := None)"
  by (induction ts) (auto simp: fun_eq_iff)

interpretation assoc: keyed_store map_of "\<lambda>k v ts. upsert_by (\<lambda>x. fst x = k) (k, v) ts"
    "\<lambda>k ts. filter (\<lambda>x. fst x \<noteq> k) ts"
  by unfold_locales (rule map_of_upsert, rule map_of_filter_key)

end
