(* ===== verification/Sender_Invariant.thy ===== *)
theory Sender_Invariant
  imports Sender_Manager Steps Keyed "HOL-Library.Multiset"
begin

text \<open>
  The invariant of the sender's manager and its preservation by every handler and by everything
  other threads do between two handlers.
\<close>

section \<open>The invariant\<close>

definition pending_ok :: "PendingTargetSession \<Rightarrow> bool" where
  "pending_ok p \<longleftrightarrow>
     (let s = pt_snapshot p in
      if pt_in_flight p then
        ts_state s = StreamSessionState.Connecting \<and> ts_next_retry_at_unix_ms s = None
        \<and> 0 < ts_attempt_count s \<and> ts_attempt_count s \<le> MAX_CONNECT_ATTEMPTS
      else
        ts_attempt_count s < MAX_CONNECT_ATTEMPTS
        \<and> (ts_state s = StreamSessionState.Connecting \<and> ts_next_retry_at_unix_ms s = None
           \<or> ts_state s = StreamSessionState.Error \<and> ts_next_retry_at_unix_ms s \<noteq> None))"

definition active_ok :: "DeviceId \<Rightarrow> 'q ManagedTargetSession \<Rightarrow> bool" where
  "active_ok k s \<longleftrightarrow>
     st_receiver_id (ms_target s) = k \<and> ts_receiver_id (ms_snapshot s) = k
     \<and> ts_state (ms_snapshot s) \<in> {Streaming, StreamSessionState.Error}
     \<and> ts_next_retry_at_unix_ms (ms_snapshot s) = None"

definition failed_ok :: "DeviceId \<Rightarrow> StreamTargetSnapshot \<Rightarrow> bool" where
  "failed_ok k s \<longleftrightarrow>
     ts_receiver_id s = k \<and> ts_state s = StreamSessionState.Error \<and> ts_next_retry_at_unix_ms s = None"

fun entry_ok :: "DeviceId \<Rightarrow> 'q TargetSessionEntry \<Rightarrow> bool" where
  "entry_ok k (PendingEntry p) \<longleftrightarrow>
     st_receiver_id (pt_target p) = k \<and> ts_receiver_id (pt_snapshot p) = k \<and> pending_ok p"
| "entry_ok k (ActiveEntry s) \<longleftrightarrow> active_ok k s"
| "entry_ok k (FailedEntry s) \<longleftrightarrow> failed_ok k s"

definition targets_ok :: "'q targets \<Rightarrow> bool" where
  "targets_ok ts \<longleftrightarrow> distinct (map fst ts) \<and> (\<forall>x \<in> set ts. entry_ok (fst x) (snd x))"

definition attempt_ok :: "SenderTarget \<times> u32 \<times> TargetConnectRequest \<Rightarrow> bool" where
  "attempt_ok a \<longleftrightarrow> 0 < fst (snd a) \<and> fst (snd a) \<le> MAX_CONNECT_ATTEMPTS"

fun result_ok :: "'q TargetConnectResult \<Rightarrow> bool" where
  "result_ok (ConnectOk s) \<longleftrightarrow> active_ok (st_receiver_id (ms_target s)) s"
| "result_ok (ConnectFailed f) \<longleftrightarrow> failed_ok (ts_receiver_id (cf_snapshot f)) (cf_snapshot f)"

fun is_streaming :: "'q TargetSessionEntry \<Rightarrow> bool" where
  "is_streaming (ActiveEntry s) \<longleftrightarrow> ts_state (ms_snapshot s) = Streaming"
| "is_streaming _ \<longleftrightarrow> False"

definition any_streaming :: "'q targets \<Rightarrow> bool" where
  "any_streaming ts \<longleftrightarrow> (\<exists>x \<in> set ts. is_streaming (snd x))"

definition manager_inv :: "('q, 'c) SenderManager \<Rightarrow> bool" where
  "manager_inv m \<longleftrightarrow>
     targets_ok (mg_targets m) \<and> (\<forall>a \<in> set (mg_attempts m). attempt_ok a)
     \<and> (\<forall>r \<in> set (mg_connect_results m). result_ok r)
     \<and> (any_streaming (mg_targets m) \<longrightarrow> mg_capture m \<noteq> None)"

lemma manager_invI:
  assumes "targets_ok (mg_targets m)" "\<And>a. a \<in> set (mg_attempts m) \<Longrightarrow> attempt_ok a"
    "\<And>r. r \<in> set (mg_connect_results m) \<Longrightarrow> result_ok r"
    "any_streaming (mg_targets m) \<Longrightarrow> mg_capture m \<noteq> None"
  shows "manager_inv m"
  using assms by (simp add: manager_inv_def)

lemma manager_invD:
  assumes "manager_inv m"
  shows "targets_ok (mg_targets m)" "a \<in> set (mg_attempts m) \<Longrightarrow> attempt_ok a"
    "r \<in> set (mg_connect_results m) \<Longrightarrow> result_ok r"
    "any_streaming (mg_targets m) \<Longrightarrow> mg_capture m \<noteq> None"
  using assms by (simp_all add: manager_inv_def)

text \<open>What the invariant reads of a manager; the other fields are free.\<close>

lemma manager_inv_cong:
  assumes "mg_targets m' = mg_targets m" "mg_attempts m' = mg_attempts m"
    "mg_connect_results m' = mg_connect_results m" "mg_capture m' = mg_capture m"
  shows "manager_inv m' = manager_inv m"
  using assms by (simp add: manager_inv_def)

section \<open>Collections\<close>

lemma targets_ok_Nil [simp]: "targets_ok []"
  by (simp add: targets_ok_def)

lemma targets_ok_insert:
  "targets_ok ts \<Longrightarrow> entry_ok k e \<Longrightarrow> targets_ok (targets_insert k e ts)"
  using distinct_upsert_by [of fst ts "(k, e)"] set_upsert_by_subset [of "\<lambda>x. fst x = k" "(k, e)" ts]
  by (auto simp: targets_ok_def targets_insert_def)

lemma targets_ok_filter: "targets_ok ts \<Longrightarrow> targets_ok (filter P ts)"
  by (auto simp: targets_ok_def distinct_map_filter)

lemma targets_ok_map:
  "targets_ok ts \<Longrightarrow> (\<And>x. x \<in> set ts \<Longrightarrow> fst (f x) = fst x \<and> entry_ok (fst x) (snd (f x))) \<Longrightarrow> targets_ok (map f ts)"
  by (auto simp: targets_ok_def comp_def cong: map_cong)

lemma targets_ok_lookup: "targets_ok ts \<Longrightarrow> map_of ts k = Some e \<Longrightarrow> entry_ok k e"
  by (auto simp: targets_ok_def dest!: map_of_SomeD)

lemma targets_ok_rehash: "targets_ok ts \<Longrightarrow> mset ts' = mset ts \<Longrightarrow> targets_ok ts'"
  using mset_eq_imp_distinct_iff [of "map fst ts'" "map fst ts"]
  by (simp add: targets_ok_def mset_eq_setD [of ts' ts])

lemma targets_ok_replace_pending:
  "targets_ok ts \<Longrightarrow> entry_ok k (PendingEntry p) \<Longrightarrow> targets_ok (replace_pending k p ts)"
  unfolding replace_pending_def by (rule targets_ok_map) (auto simp: targets_ok_def)

lemma any_streaming_simps [simp]:
  "\<not> any_streaming []" "any_streaming (x # ts) \<longleftrightarrow> is_streaming (snd x) \<or> any_streaming ts"
  by (auto simp: any_streaming_def)

lemma any_streaming_filter: "any_streaming (filter P ts) \<Longrightarrow> any_streaming ts"
  by (force simp: any_streaming_def)

lemma any_streaming_insert:
  "any_streaming (targets_insert k e ts) \<Longrightarrow> is_streaming e \<or> any_streaming ts"
  using set_upsert_by_subset [of "\<lambda>x. fst x = k" "(k, e)" ts]
  by (fastforce simp: any_streaming_def targets_insert_def)

lemma any_streaming_replace_pending: "any_streaming (replace_pending k p ts) \<Longrightarrow> any_streaming ts"
  by (auto simp: any_streaming_def replace_pending_def split: if_splits)

section \<open>Sessions\<close>

lemma active_ok_fields [simp]:
  "active_ok k (s\<lparr>ms_inbound := a\<rparr>) = active_ok k s"
  "active_ok k (s\<lparr>ms_branch := b\<rparr>) = active_ok k s"
  "active_ok k (s\<lparr>ms_pending_heartbeats := c\<rparr>) = active_ok k s"
  "active_ok k (s\<lparr>ms_heartbeat_nonce := n\<rparr>) = active_ok k s"
  "active_ok k (s\<lparr>ms_last_heartbeat := t\<rparr>) = active_ok k s"
  by (simp_all add: active_ok_def)

lemma active_ok_ops [simp]:
  "active_ok k (upd_metrics f s) = active_ok k s"
  "active_ok k (refresh_health s) = active_ok k s"
  "active_ok k (refresh_buffer ch s) = active_ok k s"
  by (auto simp: active_ok_def upd_metrics_def refresh_health_def refresh_buffer_def Let_def)

lemma active_ok_set_error [simp]: "active_ok k s \<Longrightarrow> active_ok k (session_set_error msg h s)"
  by (simp add: active_ok_def session_set_error_def)

lemma handle_inbound_ok: "active_ok k s \<Longrightarrow> active_ok k (fst (handle_inbound env c s w))"
  by (simp add: handle_inbound_def Let_def split_def split: InboundControl.splits option.splits)

lemma handle_network_event_ok: "active_ok k s \<Longrightarrow> active_ok k (fst (handle_network_event env e s w))"
  by (simp add: handle_network_event_def Let_def split_def split: NetworkEvent.splits)

lemma drain_inbound_ok: "active_ok k s \<Longrightarrow> active_ok k (fst (drain_inbound env cs s w))"
  by (induction cs arbitrary: s w) (simp_all add: split_def Let_def handle_inbound_ok)

lemma drain_network_events_ok: "active_ok k s \<Longrightarrow> active_ok k (fst (drain_network_events env es s w))"
  by (induction es arbitrary: s w) (simp_all add: split_def Let_def handle_network_event_ok)

lemma send_heartbeat_ok: "active_ok k s \<Longrightarrow> active_ok k (fst (send_heartbeat env s w))"
  by (simp add: send_heartbeat_def Let_def split_def split: sum.splits)

lemma heartbeat_if_due_ok: "active_ok k s \<Longrightarrow> active_ok k (fst (heartbeat_if_due env hb s w))"
  by (simp add: heartbeat_if_due_def Let_def split_def send_heartbeat_ok)

lemma session_tick_ok: "active_ok k s \<Longrightarrow> active_ok k (fst (snd (session_tick env ch hb s w)))"
  by (simp add: session_tick_def Let_def split_def drain_inbound_ok drain_network_events_ok heartbeat_if_due_ok)

lemma session_push_frame_ok: "active_ok k s \<Longrightarrow> active_ok k (snd (session_push_frame ch f s))"
  by (simp add: session_push_frame_def Let_def split_def split: sum.splits)

text \<open>A session never recovers: what streams after an operation streamed before it.\<close>

abbreviation session_state :: "'q ManagedTargetSession \<Rightarrow> StreamSessionState" where
  "session_state s \<equiv> ts_state (ms_snapshot s)"

lemma session_state_ops [simp]:
  "session_state (upd_metrics f s) = session_state s"
  "session_state (refresh_health s) = session_state s"
  "session_state (refresh_buffer ch s) = session_state s"
  "session_state (session_set_error msg h s) = StreamSessionState.Error"
  by (simp_all add: upd_metrics_def refresh_health_def refresh_buffer_def session_set_error_def Let_def)

lemma handle_inbound_state:
  "session_state (fst (handle_inbound env c s w)) = Streaming \<Longrightarrow> session_state s = Streaming"
  by (simp add: handle_inbound_def Let_def split_def split: InboundControl.splits option.splits)

lemma handle_network_event_state:
  "session_state (fst (handle_network_event env e s w)) = Streaming \<Longrightarrow> session_state s = Streaming"
  by (simp add: handle_network_event_def Let_def split_def split: NetworkEvent.splits)

lemma drain_inbound_state:
  "session_state (fst (drain_inbound env cs s w)) = Streaming \<Longrightarrow> session_state s = Streaming"
proof (induction cs arbitrary: s w)
  case (Cons c cs)
  then show ?case
    using handle_inbound_state [of env c s w] by (simp add: split_def Let_def)
qed simp

lemma drain_network_events_state:
  "session_state (fst (drain_network_events env es s w)) = Streaming \<Longrightarrow> session_state s = Streaming"
proof (induction es arbitrary: s w)
  case (Cons e es)
  then show ?case
    using handle_network_event_state [of env e s w] by (simp add: split_def Let_def)
qed simp

lemma send_heartbeat_state:
  "session_state (fst (send_heartbeat env s w)) = Streaming \<Longrightarrow> session_state s = Streaming"
  by (simp add: send_heartbeat_def Let_def split_def split: sum.splits)

lemma heartbeat_if_due_state:
  "session_state (fst (heartbeat_if_due env hb s w)) = Streaming \<Longrightarrow> session_state s = Streaming"
  using send_heartbeat_state [of env s "snd (elapsed env (ms_last_heartbeat s) w)"]
  by (simp add: heartbeat_if_due_def Let_def split_def split: if_splits)

lemma session_tick_state:
  assumes "session_state (fst (snd (session_tick env ch hb s w))) = Streaming"
  shows "session_state s = Streaming"
proof -
  obtain s1 w1 where 1: "drain_inbound env (ms_inbound s) s w = (s1, w1)" by fastforce
  obtain s2 w2 where 2: "drain_network_events env (nb_events (ms_branch s1)) s1 w1 = (s2, w2)" by fastforce
  obtain s3 w3 where 3: "heartbeat_if_due env hb s2 w2 = (s3, w3)" by fastforce
  have "session_state s3 = Streaming" using assms by (simp add: session_tick_def 1 2 3 Let_def)
  then have "session_state s2 = Streaming" using heartbeat_if_due_state [of env hb s2 w2] 3 by simp
  then have "session_state s1 = Streaming" using drain_network_events_state [of env _ s1 w1] 2 by (metis fst_conv)
  then show ?thesis using drain_inbound_state [of env _ s w] 1 by (metis fst_conv)
qed

lemma session_tick_flag:
  "fst (session_tick env ch hb s w) \<longleftrightarrow> session_state (fst (snd (session_tick env ch hb s w))) = Streaming"
  by (simp add: session_tick_def Let_def split_def)

lemma session_push_frame_state:
  "session_state (snd (session_push_frame ch f s)) = session_state s"
  by (simp add: session_push_frame_def Let_def split_def split: sum.splits)

section \<open>Ticks and pushes over the collection\<close>

lemma targets_induct [case_names Nil Pending Active Failed]:
  assumes "P []" "\<And>k p ts. P ts \<Longrightarrow> P ((k, PendingEntry p) # ts)"
    "\<And>k s ts. P ts \<Longrightarrow> P ((k, ActiveEntry s) # ts)" "\<And>k f ts. P ts \<Longrightarrow> P ((k, FailedEntry f) # ts)"
  shows "P ts"
proof (induction ts)
  case (Cons x ts)
  then show ?case using assms(2-4) by (cases x; cases "snd x") auto
qed (rule assms(1))

lemma tick_all_keys: "map fst (fst (snd (tick_all env ch hb ts w))) = map fst ts"
  by (induction ts arbitrary: w rule: targets_induct) (simp_all add: Let_def split_def)

lemma tick_all_entries:
  "\<forall>x \<in> set ts. entry_ok (fst x) (snd x) \<Longrightarrow>
     \<forall>x \<in> set (fst (snd (tick_all env ch hb ts w))). entry_ok (fst x) (snd x)"
  by (induction ts arbitrary: w rule: targets_induct) (simp_all add: Let_def split_def session_tick_ok)

lemma tick_all_ok: "targets_ok ts \<Longrightarrow> targets_ok (fst (snd (tick_all env ch hb ts w)))"
  using tick_all_entries [of ts env ch hb w] by (simp add: targets_ok_def tick_all_keys)

lemma tick_all_streaming:
  "any_streaming (fst (snd (tick_all env ch hb ts w))) \<Longrightarrow> any_streaming ts"
  by (induction ts arbitrary: w rule: targets_induct)
    (auto simp: Let_def split_def dest: session_tick_state)

text \<open>The ids that a tick reports are those of the active sessions that do not stream after it.\<close>

definition broken :: "'q targets \<Rightarrow> DeviceId \<Rightarrow> bool" where
  "broken ts k \<longleftrightarrow> (\<exists>s. (k, ActiveEntry s) \<in> set ts \<and> session_state s \<noteq> Streaming)"

lemma broken_simps [simp]:
  "\<not> broken [] k"
  "broken ((j, ActiveEntry s) # ts) k \<longleftrightarrow> j = k \<and> session_state s \<noteq> Streaming \<or> broken ts k"
  "broken ((j, PendingEntry p) # ts) k \<longleftrightarrow> broken ts k"
  "broken ((j, FailedEntry f) # ts) k \<longleftrightarrow> broken ts k"
  by (auto simp: broken_def)

lemma tick_all_failed:
  "set (fst (tick_all env ch hb ts w)) = {k. broken (fst (snd (tick_all env ch hb ts w))) k}"
  by (induction ts arbitrary: w rule: targets_induct) (auto simp: Let_def split_def session_tick_flag)

lemma push_all_keys: "map fst (snd (push_all ch f ts)) = map fst ts"
  by (induction ts rule: targets_induct) (simp_all add: Let_def split_def split: sum.splits)

lemma push_all_entries:
  "\<forall>x \<in> set ts. entry_ok (fst x) (snd x) \<Longrightarrow>
     \<forall>x \<in> set (snd (push_all ch f ts)). entry_ok (fst x) (snd x)"
  by (induction ts rule: targets_induct)
    (simp_all add: Let_def split_def session_push_frame_ok split: sum.splits)

lemma push_all_ok: "targets_ok ts \<Longrightarrow> targets_ok (snd (push_all ch f ts))"
  using push_all_entries [of ts ch f] by (simp add: targets_ok_def push_all_keys)

lemma push_all_streaming: "any_streaming (snd (push_all ch f ts)) \<Longrightarrow> any_streaming ts"
  by (induction ts rule: targets_induct)
    (auto simp: Let_def split_def session_push_frame_state split: sum.splits)

lemma push_all_failed:
  assumes "k \<in> set (fst (push_all ch f ts))"
  shows "broken (snd (push_all ch f ts)) k"
  using assms
  by (induction ts rule: targets_induct) (auto simp: Let_def split_def split: sum.splits)

section \<open>Handlers of the targets\<close>

lemma upd_fields [simp]:
  "mg_targets (upd_shared f m) = mg_targets m" "mg_attempts (upd_shared f m) = mg_attempts m"
  "mg_connect_results (upd_shared f m) = mg_connect_results m" "mg_capture (upd_shared f m) = mg_capture m"
  "mg_targets (upd_mirror g m) = mg_targets m" "mg_attempts (upd_mirror g m) = mg_attempts m"
  "mg_connect_results (upd_mirror g m) = mg_connect_results m" "mg_capture (upd_mirror g m) = mg_capture m"
  by (simp_all add: upd_shared_def upd_mirror_def)

lemma control_mirror_fields [simp]:
  "mg_targets (control_mirror send st m) = mg_targets m"
  "mg_attempts (control_mirror send st m) = mg_attempts m"
  "mg_connect_results (control_mirror send st m) = mg_connect_results m"
  "mg_capture (control_mirror send st m) = mg_capture m"
  by (simp_all add: control_mirror_def Let_def split_def split: sum.splits)

text \<open>Changing the targets keeps the invariant when it streams nothing new.\<close>

lemma manager_inv_targets:
  assumes "manager_inv m" "targets_ok ts" "any_streaming ts \<Longrightarrow> any_streaming (mg_targets m)"
  shows "manager_inv (m\<lparr>mg_targets := ts\<rparr>)"
  using assms by (simp add: manager_inv_def)

lemma manager_inv_shared [simp]: "manager_inv (upd_shared f m) = manager_inv m"
  by (rule manager_inv_cong) simp_all

lemma manager_inv_mirror [simp]:
  "manager_inv (upd_mirror g m) = manager_inv m" "manager_inv (control_mirror send st m) = manager_inv m"
  "manager_inv (m\<lparr>mg_mirror := b\<rparr>) = manager_inv m"
  by (rule manager_inv_cong; simp)+

lemma shutdown_immediate_snapshot:
  assumes "shutdown_immediate env ch s w = Some (snap, w')"
  shows "ts_receiver_id snap = ts_receiver_id (ms_snapshot s)" "ts_state snap = session_state s"
    "ts_next_retry_at_unix_ms snap = ts_next_retry_at_unix_ms (ms_snapshot s)"
  using assms by (auto simp: shutdown_immediate_def refresh_buffer_def)

interpretation targets: keyed_store map_of targets_insert "\<lambda>k ts. snd (targets_remove k ts)"
  by unfold_locales (simp_all add: targets_insert_def targets_remove_def map_of_upsert map_of_filter_key)

lemma lookup_failed_streaming:
  "targets_ok ts \<Longrightarrow> map_of ts k = Some (ActiveEntry s) \<Longrightarrow> active_ok k s"
  using targets_ok_lookup [of ts k "ActiveEntry s"] by simp

lemma retire_one_inv:
  assumes inv: "manager_inv m" and entry: "map_of (mg_targets m) k = Some (ActiveEntry s)"
    and err: "session_state s \<noteq> Streaming" and down: "shutdown_immediate env ch s w = Some (snap, w1)"
  shows "ts_receiver_id snap = k"
    "manager_inv (m\<lparr>mg_targets := insert_failed snap (snd (targets_remove k (mg_targets m)))\<rparr>)"
proof -
  have s: "active_ok k s" by (rule lookup_failed_streaming [OF manager_invD(1) [OF inv] entry])
  with err have f: "failed_ok k snap"
    using shutdown_immediate_snapshot [OF down] by (auto simp: active_ok_def failed_ok_def)
  then show id: "ts_receiver_id snap = k" by (simp add: failed_ok_def)
  show "manager_inv (m\<lparr>mg_targets := insert_failed snap (snd (targets_remove k (mg_targets m)))\<rparr>)"
  proof (rule manager_inv_targets [OF inv])
    show "targets_ok (insert_failed snap (snd (targets_remove k (mg_targets m))))"
      using f manager_invD(1) [OF inv]
      by (simp add: insert_failed_def id targets_remove_def targets_ok_insert targets_ok_filter)
    show "any_streaming (insert_failed snap (snd (targets_remove k (mg_targets m)))) \<Longrightarrow>
        any_streaming (mg_targets m)"
      by (auto simp: insert_failed_def targets_remove_def dest!: any_streaming_insert any_streaming_filter)
  qed
qed

lemma retire_failed_inv:
  "manager_inv m \<Longrightarrow> \<forall>k \<in> set ks. \<forall>s. map_of (mg_targets m) k = Some (ActiveEntry s) \<longrightarrow> session_state s \<noteq> Streaming
     \<Longrightarrow> retire_failed env ch ks m w = Some (m', w') \<Longrightarrow> manager_inv m'"
proof (induction ks arbitrary: m w)
  case (Cons k ks)
  let ?ts = "snd (targets_remove k (mg_targets m))"
  show ?case
  proof (cases "\<exists>s. map_of (mg_targets m) k = Some (ActiveEntry s)")
    case True
    then obtain s where s: "map_of (mg_targets m) k = Some (ActiveEntry s)" by blast
    then obtain snap w1 where d: "shutdown_immediate env ch s w = Some (snap, w1)"
      using Cons.prems(3) by (auto simp: targets_remove_def split: option.splits)
    let ?m = "upd_shared (\<lambda>sh. sh\<lparr>ss_last_error := ts_last_error snap\<rparr>)
        (m\<lparr>mg_targets := insert_failed snap ?ts\<rparr>)"
    note one = retire_one_inv [OF Cons.prems(1) s _ d]
    have err: "session_state s \<noteq> Streaming" using Cons.prems(2) s by simp
    have "retire_failed env ch ks ?m w1 = Some (m', w')"
      using Cons.prems(3) s d by (simp add: targets_remove_def)
    moreover have "manager_inv ?m" using one(2) [OF err] by simp
    moreover have "\<forall>j \<in> set ks. \<forall>t. map_of (mg_targets ?m) j = Some (ActiveEntry t) \<longrightarrow> session_state t \<noteq> Streaming"
      using Cons.prems(2) one(1) [OF err]
      by (simp add: insert_failed_def targets.lookup_insert targets.lookup_remove)
    ultimately show ?thesis using Cons.IH by blast
  next
    case False
    have "manager_inv (m\<lparr>mg_targets := ?ts\<rparr>)"
      by (rule manager_inv_targets [OF Cons.prems(1)])
        (auto simp: targets_remove_def intro: targets_ok_filter manager_invD(1) [OF Cons.prems(1)] any_streaming_filter)
    moreover have "retire_failed env ch ks (m\<lparr>mg_targets := ?ts\<rparr>) w = Some (m', w')"
      using Cons.prems(3) False by (auto simp: targets_remove_def Let_def split: option.splits TargetSessionEntry.splits)
    moreover have "\<forall>j \<in> set ks. \<forall>t. map_of ?ts j = Some (ActiveEntry t) \<longrightarrow> session_state t \<noteq> Streaming"
      using Cons.prems(2) by (simp add: targets.lookup_remove)
    ultimately show ?thesis using Cons.IH [of "m\<lparr>mg_targets := ?ts\<rparr>"] by simp
  qed
qed simp

lemma broken_lookup:
  "distinct (map fst ts) \<Longrightarrow> broken ts k \<Longrightarrow> map_of ts k = Some (ActiveEntry s) \<Longrightarrow> session_state s \<noteq> Streaming"
  by (auto simp: broken_def dest!: map_of_SomeD dest: eq_key_imp_eq_value)

lemma retire_broken_inv:
  assumes inv: "manager_inv m" and ok: "targets_ok ts" and str: "any_streaming ts \<Longrightarrow> any_streaming (mg_targets m)"
    and ks: "\<And>k. k \<in> set ks \<Longrightarrow> broken ts k"
    and run: "retire_failed env ch ks (m\<lparr>mg_targets := ts\<rparr>) w = Some (m', w')"
  shows "manager_inv m'"
proof (rule retire_failed_inv [OF manager_inv_targets [OF inv ok str] _ run])
  have "distinct (map fst ts)" using ok by (simp add: targets_ok_def)
  from broken_lookup [OF this ks] show "\<forall>k \<in> set ks. \<forall>s. map_of (mg_targets (m\<lparr>mg_targets := ts\<rparr>)) k = Some (ActiveEntry s) \<longrightarrow>
      session_state s \<noteq> Streaming"
    by simp
qed

lemma tick_targets_inv:
  assumes "manager_inv m" "tick_targets env ch m w = Some (m', w')"
  shows "manager_inv m'"
proof -
  let ?hb = "from_millis (ucast (max (tc_heartbeat_interval_ms (mg_config m)) 250))"
  let ?t = "tick_all env ch ?hb (mg_targets m) w"
  show ?thesis
  proof (rule retire_broken_inv [OF assms(1), where ts = "fst (snd ?t)" and ks = "fst ?t"])
    show "targets_ok (fst (snd ?t))" by (rule tick_all_ok [OF manager_invD(1) [OF assms(1)]])
    show "any_streaming (fst (snd ?t)) \<Longrightarrow> any_streaming (mg_targets m)" by (rule tick_all_streaming)
    show "k \<in> set (fst ?t) \<Longrightarrow> broken (fst (snd ?t)) k" for k by (simp add: tick_all_failed)
    show "retire_failed env ch (fst ?t) (m\<lparr>mg_targets := fst (snd ?t)\<rparr>) (snd (snd ?t)) = Some (m', w')"
      using assms(2) by (simp add: tick_targets_def split_def Let_def)
  qed
qed

lemma fan_out_inv:
  assumes "manager_inv m" "fan_out env ch f m w = Some (m', w')"
  shows "manager_inv m'"
proof -
  let ?m = "push_to_mirror ch f m"
  let ?p = "push_all ch f (mg_targets ?m)"
  have inv: "manager_inv ?m" using assms(1) by (simp add: push_to_mirror_def Let_def)
  show ?thesis
  proof (rule retire_broken_inv [OF inv, where ts = "snd ?p" and ks = "fst ?p"])
    show "targets_ok (snd ?p)" by (rule push_all_ok [OF manager_invD(1) [OF inv]])
    show "any_streaming (snd ?p) \<Longrightarrow> any_streaming (mg_targets ?m)" by (rule push_all_streaming)
    show "k \<in> set (fst ?p) \<Longrightarrow> broken (snd ?p) k" for k by (rule push_all_failed)
    show "retire_failed env ch (fst ?p) (?m\<lparr>mg_targets := snd ?p\<rparr>) w = Some (m', w')"
      using assms(2) by (simp add: fan_out_def split_def Let_def)
  qed
qed

lemma fail_all_inv:
  assumes "targets_ok (mg_targets m)" "\<And>a. a \<in> set (mg_attempts m) \<Longrightarrow> attempt_ok a"
    "\<And>r. r \<in> set (mg_connect_results m) \<Longrightarrow> result_ok r"
  shows "manager_inv (fail_all_active_targets msg m)"
proof -
  let ?f = "\<lambda>x. case snd x of ActiveEntry s \<Rightarrow> (fst x, ActiveEntry (session_set_error msg StreamTargetHealth.Error s)) | _ \<Rightarrow> x"
  have "targets_ok (map ?f (mg_targets m))"
    using assms(1) by (rule targets_ok_map) (auto simp: targets_ok_def assms(1) split: TargetSessionEntry.splits
      dest!: bspec [OF conjunct2 [OF assms(1) [unfolded targets_ok_def]]])
  moreover have "\<not> any_streaming (map ?f (mg_targets m))"
    by (auto simp: any_streaming_def split: TargetSessionEntry.splits)
  ultimately show ?thesis using assms by (simp add: manager_inv_def fail_all_active_targets_def)
qed

lemma capture_and_fan_out_inv:
  assumes "manager_inv m" "capture_and_fan_out env ch m w = Some (m', w')"
  shows "manager_inv m'"
proof (cases "mg_capture m")
  case None
  with assms show ?thesis by (simp add: capture_and_fan_out_def)
next
  case (Some c)
  obtain r c1 w1 where r: "me_try_recv_frame env c w = (r, c1, w1)" by (metis prod_cases3)
  have inv: "manager_inv (m\<lparr>mg_capture := Some c1\<rparr>)" using assms(1) Some by (simp add: manager_inv_def)
  consider e where "r = Inl e" | "r = Inr None" | f where "r = Inr (Some f)"
    by (metis sum.exhaust option.exhaust)
  then show ?thesis
  proof cases
    case (1 e)
    have "manager_inv (capture_failed msg (m\<lparr>mg_capture := Some c1\<rparr>))" for msg
      unfolding capture_failed_def by (rule fail_all_inv) (simp_all add: manager_invD [OF assms(1)])
    from this [of "if e = CaptureEnded then ''capture stream ended'' else show_audio_error e"]
    show ?thesis using assms(2) Some r 1 by (simp add: capture_and_fan_out_def)
  next
    case 2
    then show ?thesis using assms(2) Some r inv by (auto simp: capture_and_fan_out_def)
  next
    case (3 f)
    obtain t w2 where "started_unix_ms env (m\<lparr>mg_capture := Some c1\<rparr>) w1 = (t, w2)" by fastforce
    then have "fan_out env ch (fanout_frame t f) (m\<lparr>mg_capture := Some c1\<rparr>) w2 = Some (m', w')"
      using assms(2) Some r 3 by (simp add: capture_and_fan_out_def Let_def)
    then show ?thesis by (rule fan_out_inv [OF inv])
  qed
qed

section \<open>Attempts and results\<close>

lemma next_attempt:
  "c < MAX_CONNECT_ATTEMPTS \<Longrightarrow> 0 < sat_add c 1 \<and> sat_add c 1 \<le> MAX_CONNECT_ATTEMPTS" for c :: u32
  by (simp add: MAX_CONNECT_ATTEMPTS_def word_less_nat_alt word_le_nat_alt unat_sat_add)

lemma mark_in_flight_ok:
  assumes "pending_ok p" "\<not> pt_in_flight p"
  shows "pending_ok (snd (mark_in_flight p))" "0 < fst (mark_in_flight p)"
    "fst (mark_in_flight p) \<le> MAX_CONNECT_ATTEMPTS"
    "pt_target (snd (mark_in_flight p)) = pt_target p"
    "ts_receiver_id (pt_snapshot (snd (mark_in_flight p))) = ts_receiver_id (pt_snapshot p)"
  using assms next_attempt [of "ts_attempt_count (pt_snapshot p)"]
  by (simp_all add: mark_in_flight_def pending_ok_def Let_def)

lemma start_attempt_inv:
  assumes inv: "manager_inv m"
    and due: "\<And>p. map_of (mg_targets m) k = Some (PendingEntry p) \<Longrightarrow> \<not> pt_in_flight p"
  shows "manager_inv (start_attempt k m)"
proof (cases "\<exists>p. map_of (mg_targets m) k = Some (PendingEntry p)")
  case True
  then obtain p where p: "map_of (mg_targets m) k = Some (PendingEntry p)" by blast
  note e = targets_ok_lookup [OF manager_invD(1) [OF inv] p]
  note mark = mark_in_flight_ok [OF _ due [OF p]]
  have p1: "entry_ok k (PendingEntry (snd (mark_in_flight p)))" using e mark by simp
  have "attempt_ok (t, fst (mark_in_flight p), r)" for t r using e mark by (simp add: attempt_ok_def)
  then show ?thesis
    using inv p targets_ok_replace_pending [OF manager_invD(1) [OF inv] p1]
      any_streaming_replace_pending [of k "snd (mark_in_flight p)" "mg_targets m"]
    by (auto simp: start_attempt_def manager_inv_def split_def Let_def)
next
  case False
  then have "start_attempt k m = m"
    by (auto simp: start_attempt_def split: option.splits TargetSessionEntry.splits)
  then show ?thesis using inv by simp
qed

lemma map_of_replace_pending_other: "j \<noteq> k \<Longrightarrow> map_of (replace_pending k p ts) j = map_of ts j"
  by (induction ts) (auto simp: replace_pending_def)

lemma start_attempt_other:
  "j \<noteq> k \<Longrightarrow> map_of (mg_targets (start_attempt k m)) j = map_of (mg_targets m) j"
  by (simp add: start_attempt_def Let_def split_def map_of_replace_pending_other
      split: option.splits TargetSessionEntry.splits)

lemma start_attempts_inv:
  "manager_inv m \<Longrightarrow> distinct ks \<Longrightarrow>
     \<forall>k \<in> set ks. \<forall>p. map_of (mg_targets m) k = Some (PendingEntry p) \<longrightarrow> \<not> pt_in_flight p
     \<Longrightarrow> manager_inv (fold start_attempt ks m)"
proof (induction ks arbitrary: m)
  case (Cons k ks)
  have "manager_inv (start_attempt k m)"
    using Cons.prems by (intro start_attempt_inv) auto
  moreover have "\<forall>j \<in> set ks. \<forall>p. map_of (mg_targets (start_attempt k m)) j = Some (PendingEntry p)
      \<longrightarrow> \<not> pt_in_flight p"
    using Cons.prems(2,3) by (metis distinct.simps(2) list.set_intros(2) start_attempt_other)
  ultimately show ?case using Cons.IH Cons.prems(2) by simp
qed simp

lemma process_pending_targets_inv:
  assumes "manager_inv m"
  shows "manager_inv (fst (process_pending_targets env m w))"
proof -
  have d: "distinct (map fst (mg_targets m))" using manager_invD(1) [OF assms] by (simp add: targets_ok_def)
  have "\<not> pt_in_flight p" if "map_of (mg_targets m) k = Some (PendingEntry p)"
    "k \<in> set (due_pending_targets now (mg_targets m))" for k p now
  proof -
    from that(2) obtain e where e: "(k, e) \<in> set (mg_targets m)" "pending_due now e"
      by (auto simp: due_pending_targets_def)
    with that(1) d have "e = PendingEntry p" by (auto dest!: map_of_SomeD dest: eq_key_imp_eq_value)
    with e(2) show ?thesis by simp
  qed
  moreover have "distinct (due_pending_targets now (mg_targets m))" for now
    using d by (simp add: due_pending_targets_def distinct_map_filter)
  ultimately show ?thesis
    using assms by (simp add: process_pending_targets_def split_def Let_def start_attempts_inv)
qed

lemma ensure_capture_fields [simp]:
  "mg_targets (fst (snd (ensure_capture_running env m w))) = mg_targets m"
  "mg_attempts (fst (snd (ensure_capture_running env m w))) = mg_attempts m"
  "mg_connect_results (fst (snd (ensure_capture_running env m w))) = mg_connect_results m"
  by (simp_all add: ensure_capture_running_def Let_def split_def split: sum.splits)

lemma ensure_capture_runs:
  "ensure_capture_running env m w = (Inr u, m', w') \<Longrightarrow> mg_capture m' \<noteq> None"
  by (auto simp: ensure_capture_running_def Let_def split_def split: sum.splits if_splits)

lemma handle_connected_inv:
  assumes inv: "manager_inv m" and s: "result_ok (ConnectOk s)"
  shows "manager_inv (fst (handle_connected env s m w))"
proof (cases "targets_contains (st_receiver_id (ms_target s)) (mg_targets m)")
  case False
  then show ?thesis using inv by (simp add: handle_connected_def manager_inv_def)
next
  case True
  let ?m = "m\<lparr>mg_targets := insert_active s (mg_targets m)\<rparr>"
  have ok: "targets_ok (mg_targets ?m)"
    using s manager_invD(1) [OF inv] by (simp add: insert_active_def targets_ok_insert)
  obtain r m2 w2 where r: "ensure_capture_running env ?m w = (r, m2, w2)" by (metis prod_cases3)
  have m2: "mg_targets m2 = mg_targets ?m" "mg_attempts m2 = mg_attempts m"
      "mg_connect_results m2 = mg_connect_results m"
    using ensure_capture_fields [of env ?m w] r by simp_all
  note ok2 = ok [folded m2(1)]
  show ?thesis
  proof (cases r)
    case (Inr u)
    have "mg_capture m2 \<noteq> None" using ensure_capture_runs [of env ?m w u m2 w2] r Inr by simp
    then have "manager_inv m2" using ok2 m2(2,3) inv by (auto simp: manager_inv_def)
    then show ?thesis using True r Inr by (simp add: handle_connected_def Let_def)
  next
    case (Inl e)
    have "manager_inv (fail_all_active_targets msg (upd_shared f m2))" for msg f
      by (rule fail_all_inv) (simp_all add: ok2 m2(2,3) manager_invD [OF inv])
    then show ?thesis using True r Inl by (simp add: handle_connected_def Let_def)
  qed
qed

lemma schedule_retry_ok:
  assumes "failed_ok k snap" "ts_attempt_count snap < MAX_CONNECT_ATTEMPTS" "st_receiver_id (pt_target p) = k"
  shows "entry_ok k (PendingEntry (fst (schedule_retry env snap b p w)))"
  using assms by (simp add: schedule_retry_def pending_ok_def failed_ok_def Let_def split_def)

lemma handle_failed_inv:
  assumes inv: "manager_inv m" and f: "result_ok (ConnectFailed f)"
  shows "manager_inv (fst (handle_failed env f m w))"
proof -
  let ?s = "cf_snapshot f" and ?k = "ts_receiver_id (cf_snapshot f)"
  note ok = manager_invD(1) [OF inv]
  have fail: "manager_inv (m\<lparr>mg_targets := insert_failed ?s (mg_targets m)\<rparr>)"
  proof (rule manager_inv_targets [OF inv])
    show "targets_ok (insert_failed ?s (mg_targets m))"
      using f ok by (simp add: insert_failed_def targets_ok_insert)
    show "any_streaming (insert_failed ?s (mg_targets m)) \<Longrightarrow> any_streaming (mg_targets m)"
      by (auto simp: insert_failed_def dest!: any_streaming_insert)
  qed
  have retry: "manager_inv (m\<lparr>mg_targets := replace_pending ?k (fst (schedule_retry env ?s b p w)) (mg_targets m)\<rparr>)"
    if "map_of (mg_targets m) ?k = Some (PendingEntry p)" "ts_attempt_count ?s < MAX_CONNECT_ATTEMPTS" for p b
  proof (rule manager_inv_targets [OF inv])
    show "targets_ok (replace_pending ?k (fst (schedule_retry env ?s b p w)) (mg_targets m))"
      using targets_ok_lookup [OF ok that(1)] that(2) f
      by (intro targets_ok_replace_pending [OF ok] schedule_retry_ok) simp_all
    show "any_streaming (replace_pending ?k (fst (schedule_retry env ?s b p w)) (mg_targets m)) \<Longrightarrow>
        any_streaming (mg_targets m)"
      by (rule any_streaming_replace_pending)
  qed
  have eq: "(upd_shared g m)\<lparr>mg_targets := ts\<rparr> = upd_shared g (m\<lparr>mg_targets := ts\<rparr>)" for g ts
    by (simp add: upd_shared_def)
  show ?thesis
    using inv fail retry
    by (simp add: handle_failed_def Let_def split_def eq split: option.splits TargetSessionEntry.splits)
qed

lemma handle_result_inv:
  "manager_inv m \<Longrightarrow> result_ok r \<Longrightarrow> manager_inv (fst (handle_result env r m w))"
  by (cases r) (simp_all add: handle_connected_inv handle_failed_inv del: result_ok.simps)

lemma run_results_inv:
  "manager_inv m \<Longrightarrow> \<forall>r \<in> set rs. result_ok r \<Longrightarrow> manager_inv (fst (run_results env rs m w))"
proof (induction rs arbitrary: m w)
  case Nil
  then show ?case by (simp add: manager_inv_def)
next
  case (Cons r rs)
  have "manager_inv (fst (handle_result env r m w))" using Cons.prems by (intro handle_result_inv) auto
  then show ?case using Cons by (simp add: split_def Let_def)
qed

lemma process_connect_results_inv:
  "manager_inv m \<Longrightarrow> manager_inv (fst (process_connect_results env m w))"
  unfolding process_connect_results_def by (rule run_results_inv) (auto dest: manager_invD)

section \<open>Commands and the rest\<close>

lemma queue_target_connect_inv:
  assumes "manager_inv m"
  shows "manager_inv (fst (queue_target_connect env t m w))"
proof -
  let ?p = "fst (pending_new env t w)"
  have "entry_ok (st_receiver_id t) (PendingEntry ?p)"
    by (simp add: pending_new_def pending_ok_def pending_target_snapshot_def target_snapshot_new_def
        MAX_CONNECT_ATTEMPTS_def Let_def split_def)
  then have "targets_ok (insert_pending ?p (mg_targets m))"
    using manager_invD(1) [OF assms]
    by (simp add: insert_pending_def targets_ok_insert pending_new_def Let_def split_def)
  moreover have "any_streaming (insert_pending ?p (mg_targets m)) \<Longrightarrow> any_streaming (mg_targets m)"
    by (auto simp: insert_pending_def dest!: any_streaming_insert)
  ultimately have "manager_inv (m\<lparr>mg_targets := insert_pending ?p (mg_targets m)\<rparr>)"
    by (rule manager_inv_targets [OF assms])
  then show ?thesis using assms by (simp add: queue_target_connect_def split_def Let_def)
qed

lemma handle_command_inv:
  assumes "manager_inv m"
  shows "manager_inv (fst (snd (handle_command env c m w)))"
proof (cases c)
  case (AddTarget t)
  then show ?thesis using queue_target_connect_inv [OF assms] by simp
next
  case (RemoveTarget k)
  have "manager_inv (m\<lparr>mg_targets := filter (\<lambda>x. fst x \<noteq> k) (mg_targets m)\<rparr>)"
    using manager_inv_targets [OF assms targets_ok_filter [OF manager_invD(1) [OF assms]] any_streaming_filter] .
  then show ?thesis
    using RemoveTarget
    by (simp add: targets_remove_def Let_def manager_inv_def split: option.splits TargetSessionEntry.splits)
next
  case (SetLocalMirrorTarget t)
  have "manager_inv (m\<lparr>mg_mirror_request := r\<rparr>)" for r using assms by (simp add: manager_inv_def)
  then show ?thesis using SetLocalMirrorTarget by (simp add: Let_def)
qed (use assms in \<open>auto simp: Let_def manager_inv_def\<close>)

lemma run_commands_inv:
  "manager_inv m \<Longrightarrow> manager_inv (fst (snd (run_commands env cs m w)))"
proof (induction cs arbitrary: m w)
  case Nil
  then show ?case by (simp add: manager_inv_def)
next
  case (Cons c cs)
  obtain b m1 w1 where c: "handle_command env c m w = (b, m1, w1)" by (metis prod_cases3)
  have inv: "manager_inv m1" using handle_command_inv [OF Cons.prems, of env c w] c by simp
  show ?case
  proof (cases b)
    case True
    with c inv show ?thesis by (simp add: manager_inv_def)
  next
    case False
    with c inv Cons.IH show ?thesis by simp
  qed
qed

lemma stop_capture_if_idle_inv:
  assumes "manager_inv m"
  shows "manager_inv (fst (stop_capture_if_idle env m w))"
proof -
  have "any_streaming ts \<Longrightarrow> has_active_targets ts" for ts :: "'q targets"
    by (auto simp: any_streaming_def has_active_targets_def elim!: is_streaming.elims) (metis is_active.simps(1) snd_conv)
  then show ?thesis using assms
    by (auto simp: stop_capture_if_idle_def manager_inv_def Let_def)
qed

end
