(* ===== verification/Sender_Properties.thy ===== *)
theory Sender_Properties
  imports Sender_Invariant Transport_Receiver
begin

text \<open>
  The sender as a transition system: the handlers of the manager, interleaved in any way with
  what its connection threads, its sessions' threads, the mirror thread and the session handle
  do. What the reachable states satisfy, what the published snapshot says about them, and what
  the fan-out, the heartbeats, the capacity of the queues and the shutdown guarantee.
\<close>

section \<open>Connection attempts\<close>

lemma connect_failure_ok:
  "ts_receiver_id snap = k \<Longrightarrow> ts_next_retry_at_unix_ms snap = None \<Longrightarrow>
     failed_ok k (cf_snapshot (connect_failure t snap kind msg r))"
  by (simp add: connect_failure_def failed_ok_def)

lemma connect_failure_id [simp]:
  "ts_receiver_id (cf_snapshot (connect_failure t snap kind msg r)) = ts_receiver_id snap"
  by (simp add: connect_failure_def)

lemma pending_snapshot_fields [simp]:
  "ts_receiver_id (pending_target_snapshot t n) = st_receiver_id t"
  "ts_next_retry_at_unix_ms (pending_target_snapshot t n) = None"
  by (simp_all add: pending_target_snapshot_def target_snapshot_new_def)

lemma negotiate_ok:
  assumes "negotiate js t req sid snap s = (r, s')" "ts_next_retry_at_unix_ms snap = None"
  shows "case r of
      Inl f \<Rightarrow> ts_receiver_id (cf_snapshot f) = ts_receiver_id snap \<and> failed_ok (ts_receiver_id snap) (cf_snapshot f)
    | Inr (a, snap') \<Rightarrow> ts_receiver_id snap' = ts_receiver_id snap \<and> ts_next_retry_at_unix_ms snap' = None"
  using assms
  by (auto simp: negotiate_def Let_def connect_failure_ok split: prod.splits sum.splits if_splits)

definition connect_result :: "TargetConnectFailure + 'q ManagedTargetSession \<Rightarrow> 'q TargetConnectResult" where
  "connect_result r = (case r of Inl f \<Rightarrow> ConnectFailed f | Inr s \<Rightarrow> ConnectOk s)"

lemma target_connect_ok:
  assumes "target_connect js cenv ch t n req w = (r, w')"
  shows "result_ok (connect_result r)"
  using assms
  by (auto simp: target_connect_def Let_def connect_result_def streaming_snapshot_def connect_failure_ok active_ok_def
      split: if_splits prod.splits sum.splits dest!: negotiate_ok)

section \<open>The transition system\<close>

text \<open>
  The first eight rules are the handlers in the loop of \<open>run\<close>, here in any order. The others are
  the environment: a command is sent; a connection thread ends with the outcome of
  \<open>target_connect\<close>; the writer and reader of a session consume and report; the mirror thread
  does; the hash map is traversed in another order; time and the outside world move on.
\<close>

inductive manager_trans ::
  "json_codec \<Rightarrow> 'w connect_env \<Rightarrow> ('w, 'c) manager_env \<Rightarrow> ('q, FanoutAudioFrame) channel_ops
    \<Rightarrow> ('q, 'c) SenderManager \<times> 'w \<Rightarrow> ('q, 'c) SenderManager \<times> 'w \<Rightarrow> bool"
  for js :: json_codec and cenv :: "'w connect_env" and env :: "('w, 'c) manager_env"
    and ch :: "('q, FanoutAudioFrame) channel_ops" where
  commands: "process_commands env m w = (b, m', w') \<Longrightarrow> manager_trans js cenv env ch (m, w) (m', w')"
| pending: "process_pending_targets env m w = (m', w') \<Longrightarrow> manager_trans js cenv env ch (m, w) (m', w')"
| results: "process_connect_results env m w = (m', w') \<Longrightarrow> manager_trans js cenv env ch (m, w) (m', w')"
| mirror: "manager_trans js cenv env ch (m, w) (process_local_mirror_events m, w)"
| tick: "tick_targets env ch m w = Some (m', w') \<Longrightarrow> manager_trans js cenv env ch (m, w) (m', w')"
| capture: "capture_and_fan_out env ch m w = Some (m', w') \<Longrightarrow> manager_trans js cenv env ch (m, w) (m', w')"
| idle: "stop_capture_if_idle env m w = (m', w') \<Longrightarrow> manager_trans js cenv env ch (m, w) (m', w')"
| refresh: "manager_trans js cenv env ch (m, w) (refresh_snapshot ch m, w)"
| command_sent:
    "manager_trans js cenv env ch (m, w) (m\<lparr>mg_commands := mg_commands m @ [c]\<rparr>, w)"
| attempt_ends:
    "(t, n, req) \<in> set (mg_attempts m) \<Longrightarrow> target_connect js cenv ch t n req w = (r, w') \<Longrightarrow>
     manager_trans js cenv env ch (m, w)
       (m\<lparr>mg_attempts := remove1 (t, n, req) (mg_attempts m),
          mg_connect_results := mg_connect_results m @ [connect_result r]\<rparr>, w')"
| session_threads:
    "map_of (mg_targets m) k = Some (ActiveEntry s) \<Longrightarrow>
     manager_trans js cenv env ch (m, w)
       (m\<lparr>mg_targets := map (\<lambda>x. if fst x = k then (k, ActiveEntry
            (s\<lparr>ms_inbound := ms_inbound s @ msgs, ms_branch := branch\<rparr>)) else x) (mg_targets m)\<rparr>, w)"
| mirror_thread: "manager_trans js cenv env ch (m, w) (m\<lparr>mg_mirror := b\<rparr>, w)"
| rehash: "mset ts = mset (mg_targets m) \<Longrightarrow> manager_trans js cenv env ch (m, w) (m\<lparr>mg_targets := ts\<rparr>, w)"
| world: "manager_trans js cenv env ch (m, w) (m, w')"

text \<open>The manager starts with its first target queued.\<close>

definition manager_init :: "('w, 'c) manager_env \<Rightarrow> ('q, FanoutAudioFrame) channel_ops
    \<Rightarrow> ('q, 'c) SenderManager \<times> 'w \<Rightarrow> bool" where
  "manager_init env ch s \<longleftrightarrow>
     (\<exists>backend config settings name sid ptarget did published target w.
        s = queue_target_connect env target
              (manager_new ch backend config settings name sid ptarget did published) w)"

lemma manager_new_inv: "manager_inv (manager_new ch backend config settings name sid ptarget did published)"
  by (simp add: manager_inv_def manager_new_def Let_def)

lemma manager_init_inv: "manager_init env ch s \<Longrightarrow> manager_inv (fst s)"
  by (auto simp: manager_init_def manager_new_inv intro!: queue_target_connect_inv)

lemma session_threads_inv:
  assumes inv: "manager_inv m" and s: "map_of (mg_targets m) k = Some (ActiveEntry s)"
  shows "manager_inv (m\<lparr>mg_targets := map (\<lambda>x. if fst x = k then (k, ActiveEntry
            (s\<lparr>ms_inbound := msgs, ms_branch := branch\<rparr>)) else x) (mg_targets m)\<rparr>)"
proof (rule manager_inv_targets [OF inv])
  have ok: "active_ok k s" using targets_ok_lookup [OF manager_invD(1) [OF inv] s] by simp
  show "targets_ok (map (\<lambda>x. if fst x = k then (k, ActiveEntry
            (s\<lparr>ms_inbound := msgs, ms_branch := branch\<rparr>)) else x) (mg_targets m))"
    using manager_invD(1) [OF inv] ok by (intro targets_ok_map) (auto simp: targets_ok_def)
  show "any_streaming (map (\<lambda>x. if fst x = k then (k, ActiveEntry
            (s\<lparr>ms_inbound := msgs, ms_branch := branch\<rparr>)) else x) (mg_targets m))
        \<Longrightarrow> any_streaming (mg_targets m)"
    using map_of_SomeD [OF s] by (force simp: any_streaming_def split: if_splits)
qed

lemma rehash_inv:
  assumes "manager_inv m" "mset ts = mset (mg_targets m)"
  shows "manager_inv (m\<lparr>mg_targets := ts\<rparr>)"
  using targets_ok_rehash [OF manager_invD(1) [OF assms(1)] assms(2)] mset_eq_setD [OF assms(2)]
  by (intro manager_inv_targets [OF assms(1)]) (simp_all add: any_streaming_def)

lemma manager_trans_inv:
  assumes "manager_trans js cenv env ch s s'" "manager_inv (fst s)"
  shows "manager_inv (fst s')"
  using assms
proof (induction rule: manager_trans.induct)
  case (commands m w b m' w')
  then show ?case using run_commands_inv [of m env "mg_commands m" w] by (simp add: process_commands_def)
next
  case (pending m w m' w')
  then show ?case using process_pending_targets_inv [of m env w] by simp
next
  case (results m w m' w')
  then show ?case using process_connect_results_inv [of m env w] by simp
next
  case (mirror m w)
  then show ?case by (simp add: process_local_mirror_events_def Let_def split_def)
next
  case (tick m w m' w')
  then show ?case using tick_targets_inv by fastforce
next
  case (capture m w m' w')
  then show ?case using capture_and_fan_out_inv by fastforce
next
  case (idle m w m' w')
  then show ?case using stop_capture_if_idle_inv [of m env w] by simp
next
  case (refresh m w)
  then show ?case by (simp add: refresh_snapshot_def manager_inv_def Let_def)
next
  case (attempt_ends t n req m w r w')
  then show ?case using target_connect_ok [OF attempt_ends(2)] set_remove1_subset [of "(t, n, req)" "mg_attempts m"]
    by (auto simp: manager_inv_def)
next
  case (session_threads m k s w msgs branch)
  then show ?case using session_threads_inv by fastforce
next
  case (rehash ts m w)
  then show ?case using rehash_inv by fastforce
qed (simp_all add: manager_inv_def)

interpretation mgr: invariant_system "manager_init env ch" "manager_trans js cenv env ch" "\<lambda>s. manager_inv (fst s)"
  by unfold_locales (erule manager_init_inv, erule (1) manager_trans_inv [rotated])

text \<open>A round of the loop is a sequence of steps.\<close>

lemma manager_iteration_steps:
  assumes "manager_iteration env ch m w = Some (False, m', w')"
  shows "(manager_trans js cenv env ch)\<^sup>*\<^sup>* (m, w) (m', w')"
proof -
  obtain b m1 w1 where 1: "process_commands env m w = (b, m1, w1)" by (metis prod_cases3)
  with assms have "\<not> b" by (auto simp: manager_iteration_def split: option.splits)
  note 1 = 1 [unfolded eq_False [THEN iffD2, OF \<open>\<not> b\<close>]]
  obtain m2 w2 where 2: "process_pending_targets env m1 w1 = (m2, w2)" by fastforce
  obtain m3 w3 where 3: "process_connect_results env m2 w2 = (m3, w3)" by fastforce
  obtain m5 w5 where 5: "tick_targets env ch (process_local_mirror_events m3) w3 = Some (m5, w5)"
    using assms 1 2 3 by (auto simp: manager_iteration_def Let_def split: option.splits)
  obtain m6 w6 where 6: "capture_and_fan_out env ch m5 w5 = Some (m6, w6)"
    using assms 1 2 3 5 by (auto simp: manager_iteration_def Let_def split: option.splits)
  obtain m7 w7 where 7: "stop_capture_if_idle env m6 w6 = (m7, w7)" by fastforce
  have "m' = refresh_snapshot ch m7" "w' = w7"
    using assms 1 2 3 5 6 7 by (simp_all add: manager_iteration_def Let_def)
  then show ?thesis
    using commands [OF 1] pending [OF 2] results [OF 3] mirror tick [OF 5] capture [OF 6] idle [OF 7] refresh
    by (meson converse_rtranclp_into_rtranclp rtranclp.rtrancl_refl)
qed

section \<open>What the published snapshot says\<close>

definition manager_state_spec :: "'q targets \<Rightarrow> StreamSessionState" where
  "manager_state_spec ts =
     (if ts = [] then StreamSessionState.Idle
      else if any_streaming ts then Streaming
      else if has_pending_targets ts then StreamSessionState.Connecting
      else StreamSessionState.Error)"

lemma set_collect_snapshots: "set (collect_snapshots ts) = (\<lambda>x. entry_snapshot (snd x)) ` set ts"
  by (simp add: collect_snapshots_def)

lemma collect_snapshots_Nil_iff: "collect_snapshots ts = [] \<longleftrightarrow> ts = []"
  by (metis set_collect_snapshots image_is_empty set_empty)

lemma entry_ok_streaming: "entry_ok k e \<Longrightarrow> entry_state e = Streaming \<longleftrightarrow> is_streaming e"
  by (cases e) (auto simp: entry_state_def pending_ok_def failed_ok_def Let_def split: if_splits)

lemma entry_ok_connecting:
  "entry_ok k e \<Longrightarrow>
     entry_state e = StreamSessionState.Connecting \<or> entry_state e = Negotiating
       \<or> ts_next_retry_at_unix_ms (entry_snapshot e) \<noteq> None \<longleftrightarrow> is_pending e"
  by (cases e) (auto simp: entry_state_def pending_ok_def failed_ok_def active_ok_def Let_def split: if_splits)

lemma entry_ok_error:
  "entry_ok k e \<Longrightarrow> \<not> is_streaming e \<Longrightarrow> \<not> is_pending e \<Longrightarrow> entry_state e = StreamSessionState.Error"
  by (cases e) (auto simp: entry_state_def failed_ok_def active_ok_def)

lemma derive_collect:
  assumes "targets_ok ts"
  shows "derive_manager_state (collect_snapshots ts) = manager_state_spec ts"
proof -
  have ok: "\<And>x. x \<in> set ts \<Longrightarrow> entry_ok (fst x) (snd x)" using assms by (simp add: targets_ok_def)
  let ?s = "\<lambda>x. entry_snapshot (snd x)"
  have 1: "(\<exists>t \<in> set (collect_snapshots ts). ts_state t = Streaming) \<longleftrightarrow> any_streaming ts"
    using entry_ok_streaming [OF ok]
    by (auto simp: set_collect_snapshots any_streaming_def entry_state_def)
  have 2: "(\<exists>t \<in> set (collect_snapshots ts). ts_state t = StreamSessionState.Connecting
      \<or> ts_state t = Negotiating \<or> ts_next_retry_at_unix_ms t \<noteq> None) \<longleftrightarrow> has_pending_targets ts"
    using entry_ok_connecting [OF ok]
    by (simp add: set_collect_snapshots has_pending_targets_def entry_state_def)
  have 3: "\<forall>t \<in> set (collect_snapshots ts). ts_state t = StreamSessionState.Error"
    if "\<not> any_streaming ts" "\<not> has_pending_targets ts"
    using that entry_ok_error [OF ok]
    by (auto simp: set_collect_snapshots any_streaming_def has_pending_targets_def entry_state_def)
  show ?thesis
  proof (cases "any_streaming ts \<or> has_pending_targets ts")
    case True
    then show ?thesis
      by (auto simp: derive_manager_state_def manager_state_spec_def collect_snapshots_Nil_iff 1 2 [simplified])
  next
    case False
    then have err: "\<forall>t \<in> set (collect_snapshots ts). ts_state t = StreamSessionState.Error" using 3 by simp
    have "\<forall>t \<in> set (collect_snapshots ts). ts_next_retry_at_unix_ms t = None" using False 2 by blast
    with err show ?thesis using False
      by (simp add: derive_manager_state_def manager_state_spec_def collect_snapshots_Nil_iff)
  qed
qed

lemma published_fields:
  "ss_targets (mg_published (refresh_snapshot ch m)) = collect_snapshots (mg_targets m)"
  "ss_state (mg_published (refresh_snapshot ch m)) = derive_manager_state (collect_snapshots (mg_targets m))"
  "ss_metrics (mg_published (refresh_snapshot ch m)) = aggregate_metrics (collect_snapshots (mg_targets m))"
  by (simp_all add: refresh_snapshot_def Let_def)

text \<open>The order of the hash map is not observable.\<close>

lemma collect_snapshots_rehash:
  assumes "targets_ok ts" "mset ts' = mset ts"
  shows "collect_snapshots ts' = collect_snapshots ts"
proof -
  let ?s = "\<lambda>x. entry_snapshot (snd x)"
  have id: "ts_receiver_id (?s x) = fst x" if "x \<in> set ts" for x
    using assms(1) that
    by (cases "snd x") (auto simp: targets_ok_def active_ok_def failed_ok_def dest!: bspec)
  have "inj_on snapshot_key (?s ` set ts)"
  proof (rule inj_onI, elim imageE)
    fix a b x y assume *: "x \<in> set ts" "y \<in> set ts" "a = ?s x" "b = ?s y" "snapshot_key a = snapshot_key b"
    then have "fst x = fst y" using id [of x] id [of y] by (auto simp: snapshot_key_def DeviceId.expand)
    then show "a = b"
      using * assms(1) by (metis prod.collapse eq_key_imp_eq_value targets_ok_def)
  qed
  then show ?thesis
    unfolding collect_snapshots_def
    by (intro sort_key_inj_key_eq) (simp_all add: assms(2) mset_map mset_eq_setD [OF assms(2)])
qed

section \<open>Fan-out\<close>

definition session_queue :: "'q ManagedTargetSession \<Rightarrow> 'q BufferedBranchQueue" where
  "session_queue s = nb_queue (ms_branch s)"

definition queues_ok :: "('q \<Rightarrow> FanoutAudioFrame list) \<Rightarrow> ('q \<Rightarrow> nat) \<Rightarrow> 'q targets \<Rightarrow> bool" where
  "queues_ok contents cap ts \<longleftrightarrow>
     (\<forall>k s. (k, ActiveEntry s) \<in> set ts \<longrightarrow> branch_queue_inv contents cap (session_queue s))"

text \<open>What a push does to one entry.\<close>

fun push_entry ::
  "('q, FanoutAudioFrame) channel_ops \<Rightarrow> FanoutAudioFrame \<Rightarrow> 'q TargetSessionEntry \<Rightarrow> 'q TargetSessionEntry" where
  "push_entry ch f (ActiveEntry s) = ActiveEntry (snd (session_push_frame ch f s))"
| "push_entry ch f e = e"

lemma session_push_frame_ok_queue:
  assumes "channel_laws ch contents cap" "branch_queue_inv contents cap (session_queue s)"
  shows "fst (session_push_frame ch f s) = Inr ()"
    "session_queue (snd (session_push_frame ch f s)) = snd (bq_push ch f (session_queue s))"
  using bq_push_outcome [OF assms, of f]
  by (simp_all add: session_push_frame_def handle_buffer_push_def session_queue_def Let_def split_def
      refresh_health_def refresh_buffer_def)

lemma push_all_ok_queues:
  assumes "channel_laws ch contents cap" "queues_ok contents cap ts"
  shows "push_all ch f ts = ([], map (\<lambda>x. (fst x, push_entry ch f (snd x))) ts)"
  using assms(2)
proof (induction ts rule: targets_induct)
  case (Active k s ts)
  have "branch_queue_inv contents cap (session_queue s)" using Active.prems by (auto simp: queues_ok_def)
  from session_push_frame_ok_queue [OF assms(1) this, of f] show ?case
    using Active by (simp add: split_def Let_def queues_ok_def)
qed (simp_all add: queues_ok_def)

text \<open>The queue of a new session satisfies the queue invariant, and a push keeps it.\<close>

lemma queues_ok_push:
  assumes "channel_laws ch contents cap" "queues_ok contents cap ts"
  shows "queues_ok contents cap (map (\<lambda>x. (fst x, push_entry ch f (snd x))) ts)"
  unfolding queues_ok_def
proof (intro allI impI)
  fix k s assume "(k, ActiveEntry s) \<in> set (map (\<lambda>x. (fst x, push_entry ch f (snd x))) ts)"
  then obtain e where e: "(k, e) \<in> set ts" "push_entry ch f e = ActiveEntry s" by auto
  then obtain s0 where s0: "e = ActiveEntry s0" "s = snd (session_push_frame ch f s0)" by (cases e) auto
  have inv: "branch_queue_inv contents cap (session_queue s0)" using assms(2) e s0 by (auto simp: queues_ok_def)
  show "branch_queue_inv contents cap (session_queue s)"
    using bounded_fifo.invar_enq [OF branch_queue_fifo [OF assms(1)] inv, of f]
    by (simp add: s0 session_push_frame_ok_queue(2) [OF assms(1) inv])
qed

section \<open>Ending\<close>











section \<open>Properties\<close>

text \<open>
  C3: In every state the sender reaches, under any interleaving of its handlers with its connection, reader, writer and mirror
  threads: the targets have distinct ids that their entries carry, a target waits for at most a third attempt and each running
  attempt is one of three, entries are in a state that fits their kind, and capture runs whenever a session streams.
\<close>

theorem sender_stays_well_formed:
  assumes "manager_init env ch s" "(manager_trans js cenv env ch)\<^sup>*\<^sup>* s (m, w)"
  shows "manager_inv m"
  using mgr.inv_reachable [OF assms] by simp

text \<open>
  C11: In every reachable state, the session state that a refresh publishes is the one the targets call for: idle without targets,
  streaming when a session streams, connecting when one is pending (waiting for a retry too), else error; and it is streaming
  only while capture runs.
\<close>

theorem published_state_is_accurate:
  assumes "manager_init env ch s" "(manager_trans js cenv env ch)\<^sup>*\<^sup>* s (m, w)"
  shows "let published = mg_published (refresh_snapshot ch m) in
     ss_state published = manager_state_spec (mg_targets m)
     \<and> (ss_state published = Streaming \<longrightarrow> mg_capture m \<noteq> None)"
proof -
  have inv: "manager_inv m" using mgr.inv_reachable [OF assms] by simp
  show ?thesis
    using derive_collect [OF manager_invD(1) [OF inv]] manager_invD(4) [OF inv]
    by (simp add: published_fields Let_def manager_state_spec_def)
qed

theorem published_snapshot_ignores_map_order:
  assumes "targets_ok (mg_targets m)" "mset ts = mset (mg_targets m)"
  shows "mg_published (refresh_snapshot ch (m\<lparr>mg_targets := ts\<rparr>)) = mg_published (refresh_snapshot ch m)"
  using collect_snapshots_rehash [OF assms] by (simp add: refresh_snapshot_def Let_def)

text \<open>
  C15: A captured frame reaches the queue of every active session, which then holds it as its newest frame (dropping the oldest when
  it was full); no session fails, changes state or leaves.
\<close>

theorem fan_out_reaches_every_session:
  assumes "channel_laws ch contents cap" "queues_ok contents cap (mg_targets m)"
    "(k, ActiveEntry s) \<in> set (mg_targets m)"
  shows "\<exists>m' s'. fan_out env ch frame m w = Some (m', w)
     \<and> map fst (mg_targets m') = map fst (mg_targets m)
     \<and> (k, ActiveEntry s') \<in> set (mg_targets m') \<and> session_state s' = session_state s
     \<and> contents (bq_channel (session_queue s')) =
         drop (length (contents (bq_channel (session_queue s))) + 1 - bq_capacity (session_queue s))
           (contents (bq_channel (session_queue s)) @ [frame])"
proof -
  let ?m = "push_to_mirror ch frame m"
  have same: "mg_targets ?m = mg_targets m" by (simp add: push_to_mirror_def Let_def)
  let ?ts = "map (\<lambda>x. (fst x, push_entry ch frame (snd x))) (mg_targets m)"
  let ?s = "snd (session_push_frame ch frame s)"
  have run: "fan_out env ch frame m w = Some (?m\<lparr>mg_targets := ?ts\<rparr>, w)"
    by (simp add: fan_out_def Let_def same push_all_ok_queues [OF assms(1,2)])
  have inv: "branch_queue_inv contents cap (session_queue s)" using assms(2,3) by (auto simp: queues_ok_def)
  have "(k, ActiveEntry ?s) \<in> set ?ts" using assms(3) by force
  moreover have "contents (bq_channel (session_queue ?s)) =
      drop (length (contents (bq_channel (session_queue s))) + 1 - bq_capacity (session_queue s))
        (contents (bq_channel (session_queue s)) @ [frame])"
    using bounded_fifo.items_enq [OF branch_queue_fifo [OF assms(1)] inv, of frame]
    by (simp add: session_push_frame_ok_queue(2) [OF assms(1) inv])
  ultimately show ?thesis using run
    by (intro exI [of _ "?m\<lparr>mg_targets := ?ts\<rparr>"] exI [of _ ?s]) (simp add: comp_def session_push_frame_state)
qed



text \<open>
  A result of an attempt that its target has outlived (the target was removed and added again
  while the attempt was running) is applied to the new entry.
\<close>

theorem stale_failure_replaces_session:
  assumes "map_of (mg_targets m) k = Some (ActiveEntry s)" "session_state s = Streaming"
    "ts_receiver_id (cf_snapshot f) = k" "\<not> cf_retryable f"
  shows "map_of (mg_targets (fst (handle_failed env f m w))) k = Some (FailedEntry (cf_snapshot f))
     \<and> mg_detached (fst (handle_failed env f m w)) = mg_detached m"
  using assms
  by (simp add: handle_failed_def targets_contains_def insert_failed_def targets.lookup_insert Let_def
      upd_shared_def)

section \<open>Concrete runs\<close>

definition demo_target :: SenderTarget where
  "demo_target = \<lparr>st_receiver_id = DeviceId ''r1'', st_receiver_name = ''Kitchen'', st_endpoint = demo_peer\<rparr>"

text \<open>A clock that moves on at every reading, and a capture that yields one frame after the other.\<close>

definition demo_manager_env :: "(nat, nat) manager_env" where
  "demo_manager_env =
     \<lparr>me_now = (\<lambda>w. (w, w + 1)), me_unix_ms = (\<lambda>w. (of_nat w, w + 1)),
      me_start_capture = (\<lambda>_ w. (Inr 0, w)),
      me_try_recv_frame = (\<lambda>c w. (Inr (Some (frame_from_payload (of_nat c) c default_capture_settings [1, 2])), c + 1, w)),
      me_stop_capture = (\<lambda>_ w. (Inr (), w)), me_join_worker = (\<lambda>w. (True, w))\<rparr>"

definition demo_connect_env :: "nat connect_env" where
  "demo_connect_env =
     \<lparr>ce_unix_ms = (\<lambda>w. (of_nat w, w + 1)), ce_now = (\<lambda>w. (w, w + 1)),
      ce_connect = (\<lambda>_ _ w. (Inl \<lparr>err_kind = ConnectionRefused, err_text = ''refused''\<rparr>, w)),
      ce_set_nodelay = (\<lambda>w. (Inr (), w)), ce_write_all = (\<lambda>_ w. (Inr (), w)),
      ce_try_clone = (\<lambda>w. (Inr (), w))\<rparr>"

definition demo_manager :: "(nat \<times> FanoutAudioFrame list, nat) SenderManager" where
  "demo_manager = fst (queue_target_connect demo_manager_env demo_target
     (manager_new list_channel ''alsa'' default_transport_config default_capture_settings ''Desk'' ''s''
        None None default_session_snapshot) 0)"

lemma demo_manager_init: "manager_init demo_manager_env list_channel (demo_manager, 1)"
proof -
  have "(demo_manager, 1) = queue_target_connect demo_manager_env demo_target
     (manager_new list_channel ''alsa'' default_transport_config default_capture_settings ''Desk'' ''s''
        None None default_session_snapshot) 0"
    by (simp add: demo_manager_def prod_eq_iff queue_target_connect_def manager_new_def state_for_def
        pending_new_def demo_manager_env_def Let_def)
  then show ?thesis unfolding manager_init_def by blast
qed

definition demo_connecting :: "(nat \<times> FanoutAudioFrame list, nat) SenderManager" where
  "demo_connecting = fst (process_pending_targets demo_manager_env demo_manager 1)"

lemma demo_connecting_reached:
  "(manager_trans demo_codec demo_connect_env demo_manager_env list_channel)\<^sup>*\<^sup>* (demo_manager, 1)
     (demo_connecting, snd (process_pending_targets demo_manager_env demo_manager 1))"
  by (rule r_into_rtranclp, rule pending) (simp add: demo_connecting_def)

lemma demo_connecting_targets:
  "\<exists>p. mg_targets demo_connecting = [(DeviceId ''r1'', PendingEntry p)]"
  "map (\<lambda>a. fst (snd a)) (mg_attempts demo_connecting) = [1]"
  by (simp_all add: demo_connecting_def process_pending_targets_def demo_manager_def queue_target_connect_def
      manager_new_def state_for_def pending_new_def demo_manager_env_def due_pending_targets_def insert_pending_def
      targets_insert_def start_attempt_def mark_in_flight_def replace_pending_def demo_target_def
      pending_target_snapshot_def target_snapshot_new_def sat_add_def Let_def)

theorem sender_stays_well_formed_witness:
  "manager_inv demo_connecting \<and> length (mg_attempts demo_connecting) = 1"
  using sender_stays_well_formed [OF demo_manager_init demo_connecting_reached]
    arg_cong [OF demo_connecting_targets(2), of length] by simp

theorem published_state_is_accurate_witness:
  "ss_state (mg_published (refresh_snapshot list_channel demo_connecting)) = StreamSessionState.Connecting"
  using published_state_is_accurate [OF demo_manager_init demo_connecting_reached, unfolded Let_def, THEN conjunct1]
    demo_connecting_targets(1)
  by (auto simp: Let_def manager_state_spec_def has_pending_targets_def)

definition demo_session :: "(nat \<times> FanoutAudioFrame list) ManagedTargetSession" where
  "demo_session =
     \<lparr>ms_target = demo_target,
      ms_snapshot = (pending_target_snapshot demo_target 1)\<lparr>ts_state := Streaming\<rparr>, ms_socket = [],
      ms_branch = branch_new_network list_channel 4, ms_inbound = [], ms_pending_heartbeats = Map.empty,
      ms_heartbeat_nonce = 0, ms_last_heartbeat = 0, ms_started_at = 0\<rparr>"

definition demo_streaming :: "(nat \<times> FanoutAudioFrame list, nat) SenderManager" where
  "demo_streaming = demo_manager\<lparr>mg_targets := [(DeviceId ''r1'', ActiveEntry demo_session)],
     mg_commands := [ShutdownManager], mg_capture := Some 0\<rparr>"

lemma demo_queues_ok: "queues_ok snd fst (mg_targets demo_streaming)"
  by (simp add: queues_ok_def demo_streaming_def session_queue_def demo_session_def branch_new_network_def
      bq_new_inv [OF list_channel_laws])

theorem fan_out_reaches_every_session_witness:
  "\<exists>m' s'. fan_out demo_manager_env list_channel (FanoutAudioFrame.make 1 2 3 [4]) demo_streaming 0 = Some (m', 0)
     \<and> (DeviceId ''r1'', ActiveEntry s') \<in> set (mg_targets m')
     \<and> snd (bq_channel (session_queue s')) = [FanoutAudioFrame.make 1 2 3 [4]]"
proof -
  have s: "(DeviceId ''r1'', ActiveEntry demo_session) \<in> set (mg_targets demo_streaming)"
    by (simp add: demo_streaming_def)
  have q: "snd (bq_channel (session_queue demo_session)) = []" "bq_capacity (session_queue demo_session) = 4"
    by (simp_all add: session_queue_def demo_session_def branch_new_network_def bq_new_def list_channel_def)
  from fan_out_reaches_every_session [OF list_channel_laws demo_queues_ok s, of demo_manager_env
      "FanoutAudioFrame.make 1 2 3 [4]" 0] show ?thesis
    by (auto simp: q)
qed

theorem published_snapshot_ignores_map_order_witness:
  "let a = (DeviceId ''a'', FailedEntry ((pending_target_snapshot demo_target 3)
             \<lparr>ts_receiver_id := DeviceId ''a'', ts_state := StreamSessionState.Error\<rparr>));
       b = (DeviceId ''r1'', ActiveEntry demo_session)
   in mg_published (refresh_snapshot list_channel (demo_streaming\<lparr>mg_targets := [b, a]\<rparr>)) =
      mg_published (refresh_snapshot list_channel (demo_streaming\<lparr>mg_targets := [a, b]\<rparr>))"
proof -
  let ?a = "(DeviceId ''a'', FailedEntry ((pending_target_snapshot demo_target 3)
             \<lparr>ts_receiver_id := DeviceId ''a'', ts_state := StreamSessionState.Error\<rparr>))"
  let ?b = "(DeviceId ''r1'', ActiveEntry demo_session)"
  have "targets_ok [?a, ?b]"
    by (simp add: targets_ok_def failed_ok_def active_ok_def demo_session_def demo_target_def
        pending_target_snapshot_def target_snapshot_new_def)
  with published_snapshot_ignores_map_order [of "demo_streaming\<lparr>mg_targets := [?a, ?b]\<rparr>" "[?b, ?a]" list_channel]
  show ?thesis by (simp add: Let_def)
qed


theorem stale_failure_replaces_session_witness:
  "map_of (mg_targets (fst (handle_failed demo_manager_env
       (connect_failure demo_target (pending_target_snapshot demo_target 1) ProtocolMismatch ''old'' False)
       demo_streaming 0))) (DeviceId ''r1'')
     = Some (FailedEntry (cf_snapshot
         (connect_failure demo_target (pending_target_snapshot demo_target 1) ProtocolMismatch ''old'' False)))"
  using stale_failure_replaces_session [of demo_streaming "DeviceId ''r1''" demo_session
      "connect_failure demo_target (pending_target_snapshot demo_target 1) ProtocolMismatch ''old'' False"
      demo_manager_env 0]
  by (simp add: demo_streaming_def demo_session_def demo_target_def connect_failure_def
      pending_target_snapshot_def target_snapshot_new_def)

end
