(* ===== verification/Sender_Session.thy ===== *)
theory Sender_Session
  imports Sender_Manager Steps
begin

text \<open>
  The handle of a sender session, \<open>LanSenderSession\<close> in \<open>synchrosonic-transport/src/sender.rs\<close>:
  the snapshot it shares with the manager thread, the commands it has sent to it, and whether
  the thread is there. A start that spawns a thread yields the manager the thread runs. The
  mutex around the snapshot is taken to be never poisoned.
\<close>

record LanSenderSession =
  hs_config :: TransportConfig
  hs_backend_name :: string
  hs_local_playback_target_id :: "string option"
  hs_local_device_id :: "DeviceId option"
  hs_snapshot :: StreamSessionSnapshot
  hs_control_tx :: "SenderCommand list option"
  hs_manager_listens :: bool
  hs_worker :: bool

definition session_new :: "TransportConfig \<Rightarrow> string \<Rightarrow> LanSenderSession" where
  "session_new config backend =
     \<lparr>hs_config = config, hs_backend_name = backend, hs_local_playback_target_id = None,
      hs_local_device_id = None,
      hs_snapshot = default_session_snapshot\<lparr>ss_local_mirror :=
        default_local_mirror\<lparr>lm_playback_backend := Some backend\<rparr>\<rparr>,
      hs_control_tx = None, hs_manager_listens = False, hs_worker = False\<rparr>"

text \<open>Sending to the manager when there is one: an error once it has ended.\<close>

definition send_command :: "SenderCommand \<Rightarrow> LanSenderSession \<Rightarrow> (TransportError + unit) \<times> LanSenderSession" where
  "send_command c h =
     (case hs_control_tx h of
        None \<Rightarrow> (Inr (), h)
      | Some sent \<Rightarrow>
          (if hs_manager_listens h then (Inr (), h\<lparr>hs_control_tx := Some (sent @ [c])\<rparr>)
           else (Inl ChannelClosed, h)))"

definition seeded_snapshot ::
  "string \<Rightarrow> CaptureSettings \<Rightarrow> SenderTarget \<Rightarrow> LanSenderSession \<Rightarrow> StreamSessionSnapshot" where
  "seeded_snapshot manager_session_id settings target h =
     default_session_snapshot
       \<lparr>ss_session_id := Some manager_session_id, ss_stream := Some (receiver_stream_config settings),
        ss_local_mirror := local_mirror_seed (hs_backend_name h) settings (hs_local_playback_target_id h),
        ss_targets := [pending_target_snapshot target 0], ss_state := StreamSessionState.Connecting\<rparr>"

definition session_start ::
  "('q, FanoutAudioFrame) channel_ops \<Rightarrow> CaptureSettings \<Rightarrow> SenderTarget \<Rightarrow> string \<Rightarrow> u64
    \<Rightarrow> LanSenderSession
    \<Rightarrow> (TransportError + unit) \<times> (('q, 'c) SenderManager \<times> SenderTarget) option \<times> LanSenderSession" where
  "session_start ch settings target sender_name now_unix_ms h =
     (if hs_control_tx h \<noteq> None then
        (if ss_stream (hs_snapshot h) \<noteq> None
            \<and> ss_stream (hs_snapshot h) \<noteq> Some (receiver_stream_config settings) then
           (Inl (Negotiation ''changing capture stream parameters while the sender manager is active is not supported''),
            None, h)
         else (let (r, h1) = send_command (AddTarget target) h in (r, None, h1)))
      else
        (let manager_session_id = ''sender-'' @ show_word now_unix_ms;
             seeded = seeded_snapshot manager_session_id settings target h
         in (Inr (),
             Some (manager_new ch (hs_backend_name h) (hs_config h) settings sender_name manager_session_id
               (hs_local_playback_target_id h) (hs_local_device_id h) seeded, target),
             h\<lparr>hs_snapshot := seeded, hs_control_tx := Some [], hs_manager_listens := True, hs_worker := True\<rparr>)))"

definition session_stop_target ::
  "DeviceId \<Rightarrow> LanSenderSession \<Rightarrow> (TransportError + unit) \<times> LanSenderSession" where
  "session_stop_target device_id h =
     (if hs_control_tx h = None then (Inl NotRunning, h) else send_command (RemoveTarget device_id) h)"

definition enabled_snapshot :: "bool \<Rightarrow> StreamSessionSnapshot \<Rightarrow> StreamSessionSnapshot" where
  "enabled_snapshot enabled s =
     (let l = (ss_local_mirror s)\<lparr>lm_desired_enabled := enabled\<rparr>;
          l1 = (if ss_state s = StreamSessionState.Idle
                then l\<lparr>lm_state := (if enabled then LocalMirrorState.Idle else Disabled)\<rparr> else l);
          l2 = (if enabled \<and> lm_state l1 = Disabled
                then l1\<lparr>lm_state := Starting, lm_last_error := None\<rparr> else l1)
      in s\<lparr>ss_local_mirror := l2\<rparr>)"

definition session_set_local_playback_enabled ::
  "bool \<Rightarrow> LanSenderSession \<Rightarrow> (TransportError + unit) \<times> LanSenderSession" where
  "session_set_local_playback_enabled enabled h =
     (case send_command (SetLocalMirrorEnabled enabled) h of
        (Inl e, h1) \<Rightarrow> (Inl e, h1)
      | (Inr _, h1) \<Rightarrow> (Inr (), h1\<lparr>hs_snapshot := enabled_snapshot enabled (hs_snapshot h1)\<rparr>))"

definition set_local_playback_target ::
  "string option \<Rightarrow> LanSenderSession \<Rightarrow> (TransportError + unit) \<times> LanSenderSession" where
  "set_local_playback_target target_id h =
     (case send_command (SetLocalMirrorTarget target_id) (h\<lparr>hs_local_playback_target_id := target_id\<rparr>) of
        (Inl e, h1) \<Rightarrow> (Inl e, h1)
      | (Inr _, h1) \<Rightarrow>
          (Inr (), h1\<lparr>hs_snapshot := (hs_snapshot h1)\<lparr>ss_local_mirror := (ss_local_mirror (hs_snapshot h1))
              \<lparr>lm_playback_target_id := target_id, lm_last_error := None\<rparr>\<rparr>\<rparr>))"

definition set_local_device_id :: "DeviceId \<Rightarrow> LanSenderSession \<Rightarrow> LanSenderSession" where
  "set_local_device_id device_id h =
     snd (send_command (SetLocalDeviceId device_id) (h\<lparr>hs_local_device_id := Some device_id\<rparr>))"

definition session_set_quality_preset ::
  "QualityPreset \<Rightarrow> LanSenderSession \<Rightarrow> (TransportError + unit) \<times> LanSenderSession" where
  "session_set_quality_preset quality h =
     send_command (SetQualityPreset quality) (h\<lparr>hs_config := (hs_config h)\<lparr>tc_quality := quality\<rparr>\<rparr>)"

text \<open>\<open>panicked\<close> is the outcome of the join, if there is a thread to join.\<close>

definition session_stop :: "bool \<Rightarrow> LanSenderSession \<Rightarrow> (TransportError + unit) \<times> LanSenderSession" where
  "session_stop panicked h =
     (let h1 = (snd (send_command ShutdownManager h))\<lparr>hs_control_tx := None\<rparr>;
          h2 = h1\<lparr>hs_worker := False, hs_manager_listens := False\<rparr>
      in if hs_worker h1 \<and> panicked then (Inl ThreadJoin, h2)
         else (Inr (), h2\<lparr>hs_snapshot := (hs_snapshot h2)\<lparr>ss_state := StreamSessionState.Idle, ss_targets := [],
                 ss_local_mirror := finalize_local_mirror_state False (ss_local_mirror (hs_snapshot h2))\<rparr>\<rparr>))"

section \<open>The lifecycle\<close>

text \<open>
  What may happen to a handle: its own operations, a snapshot that the manager publishes, and
  the end of the manager.
\<close>

datatype session_op =
  OpStart CaptureSettings SenderTarget string u64 | OpStopTarget DeviceId | OpEnable bool
| OpTarget "string option" | OpDevice DeviceId | OpQuality QualityPreset | OpStop bool
| OpPublished StreamSessionSnapshot | OpManagerEnds

fun session_op_step ::
  "('q, FanoutAudioFrame) channel_ops \<Rightarrow> session_op \<Rightarrow> LanSenderSession \<times> nat \<Rightarrow> LanSenderSession \<times> nat" where
  "session_op_step ch (OpStart settings target name now) (h, n) =
     (let (_, spawned, h1) = session_start ch settings target name now h
          :: (TransportError + unit) \<times> (('q, unit) SenderManager \<times> SenderTarget) option \<times> LanSenderSession
      in (h1, if spawned = None then n else n + 1))"
| "session_op_step ch (OpStopTarget k) (h, n) = (snd (session_stop_target k h), n)"
| "session_op_step ch (OpEnable b) (h, n) = (snd (session_set_local_playback_enabled b h), n)"
| "session_op_step ch (OpTarget t) (h, n) = (snd (set_local_playback_target t h), n)"
| "session_op_step ch (OpDevice k) (h, n) = (set_local_device_id k h, n)"
| "session_op_step ch (OpQuality q) (h, n) = (snd (session_set_quality_preset q h), n)"
| "session_op_step ch (OpStop panicked) (h, n) =
     (snd (session_stop panicked h), if hs_worker h then n - 1 else n)"
| "session_op_step ch (OpPublished s) (h, n) =
     (if hs_manager_listens h then (h\<lparr>hs_snapshot := s\<rparr>, n) else (h, n))"
| "session_op_step ch OpManagerEnds (h, n) = (h\<lparr>hs_manager_listens := False\<rparr>, n)"

text \<open>The handle knows its thread: \<open>n\<close> counts the manager threads spawned and not joined.\<close>

definition session_inv :: "LanSenderSession \<times> nat \<Rightarrow> bool" where
  "session_inv s \<longleftrightarrow>
     (hs_control_tx (fst s) \<noteq> None \<longleftrightarrow> hs_worker (fst s)) \<and> snd s = (if hs_worker (fst s) then 1 else 0)
     \<and> (hs_manager_listens (fst s) \<longrightarrow> hs_worker (fst s))"

lemma send_command_fields [simp]:
  "hs_worker (snd (send_command c h)) = hs_worker h"
  "hs_manager_listens (snd (send_command c h)) = hs_manager_listens h"
  "hs_control_tx (snd (send_command c h)) = None \<longleftrightarrow> hs_control_tx h = None"
  by (simp_all add: send_command_def split: option.splits)

lemma session_set_local_playback_enabled_fields [simp]:
  "hs_worker (snd (session_set_local_playback_enabled b h)) = hs_worker h"
  "hs_manager_listens (snd (session_set_local_playback_enabled b h)) = hs_manager_listens h"
  "hs_control_tx (snd (session_set_local_playback_enabled b h)) = None \<longleftrightarrow> hs_control_tx h = None"
  by (simp_all add: session_set_local_playback_enabled_def send_command_def split: option.splits)

lemma set_local_playback_target_fields [simp]:
  "hs_worker (snd (set_local_playback_target t h)) = hs_worker h"
  "hs_manager_listens (snd (set_local_playback_target t h)) = hs_manager_listens h"
  "hs_control_tx (snd (set_local_playback_target t h)) = None \<longleftrightarrow> hs_control_tx h = None"
  by (simp_all add: set_local_playback_target_def send_command_def split: option.splits)

lemma session_op_inv: "session_inv s \<Longrightarrow> session_inv (session_op_step ch op s)"
proof (cases op)
  case (OpStart settings target name now)
  moreover assume "session_inv s"
  ultimately show ?thesis
    by (cases s; cases "hs_control_tx (fst s)")
      (auto simp: session_inv_def session_start_def Let_def split_def simp del: not_None_eq)
qed (cases s; auto simp: session_inv_def session_stop_target_def set_local_device_id_def
      session_set_quality_preset_def session_stop_def Let_def simp del: not_None_eq)+

interpretation hso: labelled_system "session_op_step ch" session_inv
  by unfold_locales (rule session_op_inv)

theorem session_lifecycle:
  "let (h, threads) = fold (session_op_step ch) ops (session_new config backend, 0) in
     threads \<le> 1
     \<and> (threads = 0 \<longleftrightarrow> fst (session_stop_target device h) = Inl NotRunning)
     \<and> (let (r, h1) = session_stop False h in
          r = Inr () \<and> fst (session_stop_target device h1) = Inl NotRunning
          \<and> ss_state (hs_snapshot h1) = StreamSessionState.Idle \<and> ss_targets (hs_snapshot h1) = [])"
proof -
  have "session_inv (fold (session_op_step ch) ops (session_new config backend, 0))"
    by (rule hso.good_fold) (simp add: session_inv_def session_new_def)
  then show ?thesis
    by (cases "fold (session_op_step ch) ops (session_new config backend, 0)")
      (auto simp: session_inv_def session_stop_target_def session_stop_def send_command_def Let_def
        split: option.splits)
qed

end
