(* ===== verification/Discovery_Core.thy ===== *)
theory Discovery_Core
  imports Core_Models Core_Config Keyed "HOL-Library.Product_Lexorder"
begin

text \<open>
  Discovery without its daemon, \<open>synchrosonic-discovery/src/lib.rs\<close>: the TXT record of the local
  device and its reading, the choice of an address, the status of a device, and the registry of
  discovered devices. A resolved service of \<open>mdns-sd\<close> is a record of what the code reads of it
  (its name, its properties, its addresses in the order they are iterated, its port). The clock
  is a pair of functions over a world; the registry's hash map is an association list with
  distinct keys in iteration order.
\<close>

unbundle bit_operations_syntax

datatype DiscoveryError =
  Daemon string | ServiceInfo string | Register string | Browse string | StopFailed string
| EventFailed string | DiscoveryNotActive string

fun show_discovery_error :: "DiscoveryError \<Rightarrow> string" where
  "show_discovery_error (Daemon s) = ''failed to start discovery daemon: '' @ s"
| "show_discovery_error (ServiceInfo s) = ''failed to build mDNS service info: '' @ s"
| "show_discovery_error (Register s) = ''failed to register mDNS service: '' @ s"
| "show_discovery_error (Browse s) = ''failed to browse mDNS service: '' @ s"
| "show_discovery_error (StopFailed s) = ''failed to stop discovery service: '' @ s"
| "show_discovery_error (EventFailed s) = ''failed to process discovery event: '' @ s"
| "show_discovery_error (DiscoveryNotActive s) =
     ''discovery is not active in this build phase: '' @ s"

section \<open>Addresses\<close>

text \<open>The predicates of \<open>std::net\<close> that the code uses.\<close>

fun is_loopback :: "IpAddr \<Rightarrow> bool" where
  "is_loopback (V4 a b c d) = (a = 127)"
| "is_loopback (V6 w) = (w = 1)"

fun is_unspecified :: "IpAddr \<Rightarrow> bool" where
  "is_unspecified (V4 a b c d) = (a = 0 \<and> b = 0 \<and> c = 0 \<and> d = 0)"
| "is_unspecified (V6 w) = (w = 0)"

fun is_multicast :: "IpAddr \<Rightarrow> bool" where
  "is_multicast (V4 a b c d) = (224 \<le> a \<and> a \<le> 239)"
| "is_multicast (V6 w) = (drop_bit 120 w = 0xFF)"

fun is_likely_docker_ipv4 :: "IpAddr \<Rightarrow> bool" where
  "is_likely_docker_ipv4 (V4 first second c d) = (first = 172 \<and> 17 \<le> second \<and> second \<le> 31)"
| "is_likely_docker_ipv4 (V6 w) = False"

fun is_link_local :: "IpAddr \<Rightarrow> bool" where
  "is_link_local (V4 a b c d) = (a = 169 \<and> b = 254)"
| "is_link_local (V6 w) = (drop_bit 118 w = 0x3FA)"

fun is_private :: "IpAddr \<Rightarrow> bool" where
  "is_private (V4 a b c d) =
     (a = 10 \<or> a = 172 \<and> 16 \<le> b \<and> b \<le> 31 \<or> a = 192 \<and> b = 168)"
| "is_private (V6 w) = False"

fun is_unique_local :: "IpAddr \<Rightarrow> bool" where
  "is_unique_local (V4 a b c d) = False"
| "is_unique_local (V6 w) = (drop_bit 121 w = 0x7E)"

fun endpoint_rank :: "IpAddr \<Rightarrow> u8 \<times> u8" where
  "endpoint_rank (V4 a b c d) =
     (let address = V4 a b c d in
      (if is_loopback address \<or> is_unspecified address \<or> is_multicast address then 0
       else if is_likely_docker_ipv4 address then 1
       else if is_link_local address then 2
       else if is_private address then 5
       else 4, 1))"
| "endpoint_rank (V6 w) =
     (let address = V6 w in
      (if is_loopback address \<or> is_unspecified address \<or> is_multicast address then 0
       else if is_link_local address then 2
       else if is_unique_local address then 3
       else 4, 0))"

definition is_remote_selection_candidate :: "IpAddr \<Rightarrow> bool" where
  "is_remote_selection_candidate address =
     (\<not> (is_loopback address \<or> is_unspecified address \<or> is_multicast address
         \<or> is_likely_docker_ipv4 address))"

text \<open>\<open>max_by_key\<close>: of equal elements the last one.\<close>

definition better_address :: "IpAddr \<Rightarrow> IpAddr option \<Rightarrow> IpAddr option" where
  "better_address address best =
     (case best of
        None \<Rightarrow> Some address
      | Some b \<Rightarrow> if endpoint_rank b \<le> endpoint_rank address then Some address else Some b)"

definition select_preferred_ip_address :: "IpAddr list \<Rightarrow> IpAddr option" where
  "select_preferred_ip_address addresses =
     fold better_address (filter is_remote_selection_candidate addresses) None"

definition select_preferred_endpoint :: "DeviceId \<Rightarrow> IpAddr list \<Rightarrow> u16 \<Rightarrow> TransportEndpoint option" where
  "select_preferred_endpoint device_id addresses port =
     map_option (\<lambda>address. \<lparr>te_device_id = device_id,
         te_address = \<lparr>sa_ip = address, sa_port = port\<rparr>\<rparr>) (select_preferred_ip_address addresses)"

definition preferred_endpoint ::
  "TransportEndpoint option \<Rightarrow> TransportEndpoint option \<Rightarrow> TransportEndpoint option" where
  "preferred_endpoint existing incoming =
     (case (existing, incoming) of
        (Some e, Some i) \<Rightarrow>
          if endpoint_rank (sa_ip (te_address e)) < endpoint_rank (sa_ip (te_address i)) then Some i else Some e
      | (Some e, None) \<Rightarrow> Some e
      | (None, Some i) \<Rightarrow> Some i
      | (None, None) \<Rightarrow> None)"

section \<open>Labels\<close>

definition is_ascii_alnum :: "char \<Rightarrow> bool" where
  "is_ascii_alnum c =
     (let n = of_char c :: nat in 48 \<le> n \<and> n \<le> 57 \<or> 65 \<le> n \<and> n \<le> 90 \<or> 97 \<le> n \<and> n \<le> 122)"

definition ascii_lower :: "char \<Rightarrow> char" where
  "ascii_lower c = (let n = of_char c :: nat in if 65 \<le> n \<and> n \<le> 90 then char_of (n + 32) else c)"

definition label_char :: "char \<Rightarrow> char" where
  "label_char c = (if is_ascii_alnum c \<or> c = CHR ''-'' then ascii_lower c else CHR ''-'')"

definition trim_hyphens :: "string \<Rightarrow> string" where
  "trim_hyphens s = rev (dropWhile (\<lambda>c. c = CHR ''-'') (rev (dropWhile (\<lambda>c. c = CHR ''-'') s)))"

definition sanitized_dns_label :: "string \<Rightarrow> string" where
  "sanitized_dns_label value =
     (let label = trim_hyphens (map label_char value) in
      if label = [] then ''synchrosonic-device'' else take 63 label)"

text \<open>The files that can be read as text, and the variable \<open>HOSTNAME\<close>, are arguments.\<close>

definition deterministic_device_id :: "(string \<Rightarrow> string option) \<Rightarrow> string option \<Rightarrow> string" where
  "deterministic_device_id read_to_string hostname_var =
     (let read_id = (\<lambda>path. case map_option trim (read_to_string path) of
              Some value \<Rightarrow> if value \<noteq> [] then Some value else None
            | None \<Rightarrow> None);
          machine_id = (case read_id ''/etc/machine-id'' of
              Some v \<Rightarrow> Some v
            | None \<Rightarrow> read_id ''/var/lib/dbus/machine-id'');
          hostname = (case hostname_var of Some h \<Rightarrow> h | None \<Rightarrow> ''unknown-host'')
      in case machine_id of
           Some m \<Rightarrow> ''synchrosonic-'' @ sanitized_dns_label m
         | None \<Rightarrow> ''synchrosonic-'' @ sanitized_dns_label hostname)"

section \<open>The TXT record\<close>

record LocalDiscoveryProfile =
  pf_device_id :: DeviceId
  pf_device_name :: string
  pf_app_version :: string
  pf_capabilities :: DeviceCapabilities
  pf_availability :: DeviceAvailability
  pf_port :: u16

fun availability_txt :: "DeviceAvailability \<Rightarrow> string" where
  "availability_txt DeviceAvailability.Available = ''available''"
| "availability_txt Busy = ''busy''"
| "availability_txt DeviceAvailability.Unavailable = ''unavailable''"

definition parse_availability :: "string \<Rightarrow> DeviceAvailability" where
  "parse_availability value =
     (if value = ''available'' then DeviceAvailability.Available
      else if value = ''busy'' then Busy
      else DeviceAvailability.Unavailable)"

datatype ReceiverAdvertisementState = AdIdle | AdStarting | AdListening | AdUnavailable

definition receiver_state_txt :: "bool \<Rightarrow> DeviceAvailability \<Rightarrow> string" where
  "receiver_state_txt receiver availability =
     (if \<not> receiver then ''idle''
      else case availability of
             DeviceAvailability.Unavailable \<Rightarrow> ''unavailable''
           | _ \<Rightarrow> ''listening'')"

definition parse_receiver_state :: "string option \<Rightarrow> ReceiverAdvertisementState" where
  "parse_receiver_state value =
     (let v = (case value of Some v \<Rightarrow> v | None \<Rightarrow> ''idle'') in
      if v = ''listening'' then AdListening
      else if v = ''starting'' then AdStarting
      else if v = ''unavailable'' then AdUnavailable
      else AdIdle)"

definition show_bool :: "bool \<Rightarrow> string" where
  "show_bool b = (if b then ''true'' else ''false'')"

definition txt_properties :: "LocalDiscoveryProfile \<Rightarrow> (string \<times> string) list" where
  "txt_properties prof =
     (let caps = pf_capabilities prof in
      [(''app'', ''synchrosonic''),
       (''device_id'', device_str (pf_device_id prof)),
       (''device_name'', pf_device_name prof),
       (''app_version'', pf_app_version prof),
       (''protocol_version'', show_word DISCOVERY_PROTOCOL_VERSION),
       (''sender'', show_bool (supports_sender caps)),
       (''receiver'', show_bool (supports_receiver caps)),
       (''bluetooth'', show_bool (supports_bluetooth_output caps)),
       (''local_output'', show_bool (supports_local_output caps)),
       (''availability'', availability_txt (pf_availability prof)),
       (''receiver_state'', receiver_state_txt (supports_receiver caps) (pf_availability prof))])"

record resolved_service =
  rs_fullname :: string
  rs_property :: "string \<Rightarrow> string option"
  rs_addresses :: "IpAddr list"
  rs_port :: u16

definition txt_bool :: "resolved_service \<Rightarrow> string \<Rightarrow> bool" where
  "txt_bool service key =
     (case rs_property service key of
        Some value \<Rightarrow> value \<in> {''true'', ''1'', ''yes'', ''on''}
      | None \<Rightarrow> False)"

text \<open>\<open>str::parse::<u16>\<close>: an optional plus sign, then decimal digits whose value fits.\<close>

definition is_digit :: "char \<Rightarrow> bool" where
  "is_digit c = (let n = of_char c :: nat in 48 \<le> n \<and> n \<le> 57)"

definition parse_u16 :: "string \<Rightarrow> u16 option" where
  "parse_u16 s =
     (let digits = (case s of c # cs \<Rightarrow> if c = CHR ''+'' then cs else s | [] \<Rightarrow> []);
          n = digits_val digits 0
      in if digits \<noteq> [] \<and> list_all is_digit digits \<and> n < 65536 then Some (of_nat n) else None)"

definition derive_device_status ::
  "DeviceId \<Rightarrow> DeviceId \<Rightarrow> u16 \<Rightarrow> bool \<Rightarrow> DeviceAvailability \<Rightarrow> bool \<Rightarrow> ReceiverAdvertisementState
    \<Rightarrow> DeviceStatus" where
  "derive_device_status device_id local_device_id protocol_version receiver availability has_endpoint
       receiver_state =
     (if device_id = local_device_id then SelfDevice
      else if protocol_version \<noteq> DISCOVERY_PROTOCOL_VERSION then IncompatibleVersion
      else if availability = DeviceAvailability.Unavailable then DeviceStatus.Unavailable
      else if \<not> receiver then Discovered
      else case (receiver_state, has_endpoint) of
             (AdStarting, _) \<Rightarrow> ReceiverStarting
           | (AdListening, True) \<Rightarrow> Reachable
           | (AdListening, False) \<Rightarrow> ReceiverListening
           | (AdUnavailable, _) \<Rightarrow> DeviceStatus.Unavailable
           | (_, True) \<Rightarrow> Reachable
           | _ \<Rightarrow> Resolving)"

text \<open>A property that is present and not empty, or the full name.\<close>

definition property_or_fullname :: "resolved_service \<Rightarrow> string \<Rightarrow> string" where
  "property_or_fullname service key =
     (case rs_property service key of
        Some value \<Rightarrow> if value \<noteq> [] then value else rs_fullname service
      | None \<Rightarrow> rs_fullname service)"

definition discovered_device_from_resolved ::
  "resolved_service \<Rightarrow> DeviceId \<Rightarrow> u64 \<Rightarrow> DiscoveredDevice" where
  "discovered_device_from_resolved service local_device_id now_unix_ms =
     (let device_id = DeviceId (property_or_fullname service ''device_id'');
          protocol_version = (case Option.bind (rs_property service ''protocol_version'') parse_u16 of
              Some v \<Rightarrow> v | None \<Rightarrow> 0);
          receiver = txt_bool service ''receiver'';
          availability = parse_availability (case rs_property service ''availability'' of
              Some v \<Rightarrow> v | None \<Rightarrow> ''available'');
          receiver_state = parse_receiver_state (rs_property service ''receiver_state'');
          endpoint = (if receiver then
              select_preferred_endpoint device_id (rs_addresses service) (rs_port service) else None)
      in \<lparr>dd_id = device_id, dd_display_name = property_or_fullname service ''device_name'',
          dd_app_version = (case rs_property service ''app_version'' of Some v \<Rightarrow> v | None \<Rightarrow> ''unknown''),
          dd_protocol_version = protocol_version,
          dd_capabilities = \<lparr>supports_sender = txt_bool service ''sender'', supports_receiver = receiver,
            supports_local_output = txt_bool service ''local_output'',
            supports_bluetooth_output = txt_bool service ''bluetooth''\<rparr>,
          dd_availability = availability,
          dd_status = derive_device_status device_id local_device_id protocol_version receiver availability
            (endpoint \<noteq> None) receiver_state,
          dd_endpoint = endpoint, dd_service_fullname = rs_fullname service,
          dd_last_seen_unix_ms = now_unix_ms\<rparr>)"

section \<open>The registry\<close>

record 'w clock =
  ck_now :: "'w \<Rightarrow> instant \<times> 'w"
  ck_unix_ms :: "'w \<Rightarrow> u64 \<times> 'w"

record RegistryEntry =
  rg_device :: DiscoveredDevice
  rg_last_seen :: instant
  rg_marked_stale :: bool

record DeviceRegistry =
  dr_devices :: "(DeviceId \<times> RegistryEntry) list"
  dr_stale_timeout :: duration

definition registry_new :: "duration \<Rightarrow> DeviceRegistry" where
  "registry_new stale_timeout = \<lparr>dr_devices = [], dr_stale_timeout = stale_timeout\<rparr>"

definition registry_put :: "DeviceId \<Rightarrow> RegistryEntry \<Rightarrow> DeviceRegistry \<Rightarrow> DeviceRegistry" where
  "registry_put k e r = r\<lparr>dr_devices := upsert_by (\<lambda>x. fst x = k) (k, e) (dr_devices r)\<rparr>"

definition registry_delete :: "DeviceId \<Rightarrow> DeviceRegistry \<Rightarrow> DeviceRegistry" where
  "registry_delete k r = r\<lparr>dr_devices := filter (\<lambda>x. fst x \<noteq> k) (dr_devices r)\<rparr>"

definition registry_lookup :: "DeviceRegistry \<Rightarrow> DeviceId \<Rightarrow> RegistryEntry option" where
  "registry_lookup r = map_of (dr_devices r)"

definition merge_discovered_device :: "DiscoveredDevice \<Rightarrow> DiscoveredDevice \<Rightarrow> DiscoveredDevice" where
  "merge_discovered_device existing incoming =
     incoming\<lparr>dd_endpoint := preferred_endpoint (dd_endpoint existing) (dd_endpoint incoming)\<rparr>"

definition materially_same_discovered_device :: "DiscoveredDevice \<Rightarrow> DiscoveredDevice \<Rightarrow> bool" where
  "materially_same_discovered_device existing incoming \<longleftrightarrow>
     existing\<lparr>dd_last_seen_unix_ms := 0\<rparr> = incoming\<lparr>dd_last_seen_unix_ms := 0\<rparr>"

definition registry_upsert ::
  "'w clock \<Rightarrow> DiscoveredDevice \<Rightarrow> DeviceRegistry \<Rightarrow> 'w \<Rightarrow> DiscoveryEvent option \<times> DeviceRegistry \<times> 'w" where
  "registry_upsert ck device0 r w =
     (let device_id = dd_id device0;
          (unix, w1) = ck_unix_ms ck w;
          device = device0\<lparr>dd_last_seen_unix_ms := unix\<rparr>;
          (now, w2) = ck_now ck w1
      in case registry_lookup r device_id of
           Some entry \<Rightarrow>
             (let merged = merge_discovered_device (rg_device entry) device;
                  changed = (\<not> materially_same_discovered_device (rg_device entry) merged)
              in (if changed then Some (DeviceUpdated merged) else None,
                  registry_put device_id
                    \<lparr>rg_device = merged, rg_last_seen = now, rg_marked_stale = False\<rparr> r, w2))
         | None \<Rightarrow>
             (Some (DeviceDiscovered device),
              registry_put device_id
                \<lparr>rg_device = device, rg_last_seen = now, rg_marked_stale = False\<rparr> r, w2))"

definition mark_removed_by_fullname ::
  "string \<Rightarrow> DeviceRegistry \<Rightarrow> DiscoveryEvent option \<times> DeviceRegistry" where
  "mark_removed_by_fullname fullname r =
     (case find (\<lambda>x. dd_service_fullname (rg_device (snd x)) = fullname) (dr_devices r) of
        None \<Rightarrow> (None, r)
      | Some (device_id, _) \<Rightarrow> (Some (DeviceRemoved device_id fullname), registry_delete device_id r))"

text \<open>One entry of the pruning loop; the clock is only read for an entry that is not marked.\<close>

definition expired_device :: "DiscoveredDevice \<Rightarrow> DiscoveredDevice" where
  "expired_device d = d\<lparr>dd_status := Stale, dd_availability := DeviceAvailability.Unavailable\<rparr>"

definition prune_entry ::
  "'w clock \<Rightarrow> duration \<Rightarrow> RegistryEntry \<Rightarrow> 'w \<Rightarrow> DiscoveryEvent list \<times> RegistryEntry \<times> 'w" where
  "prune_entry ck timeout e w =
     (if rg_marked_stale e then ([], e, w)
      else
        (let (now, w1) = ck_now ck w in
         if timeout \<le> now - rg_last_seen e then
           ([DeviceExpired (expired_device (rg_device e))],
            e\<lparr>rg_device := expired_device (rg_device e), rg_marked_stale := True\<rparr>, w1)
         else ([], e, w1)))"

fun prune_entries ::
  "'w clock \<Rightarrow> duration \<Rightarrow> (DeviceId \<times> RegistryEntry) list \<Rightarrow> 'w
    \<Rightarrow> DiscoveryEvent list \<times> (DeviceId \<times> RegistryEntry) list \<times> 'w" where
  "prune_entries ck timeout [] w = ([], [], w)"
| "prune_entries ck timeout ((k, e) # es) w =
     (let (evs, e1, w1) = prune_entry ck timeout e w;
          (evs', es1, w2) = prune_entries ck timeout es w1
      in (evs @ evs', (k, e1) # es1, w2))"

definition registry_prune_stale ::
  "'w clock \<Rightarrow> DeviceRegistry \<Rightarrow> 'w \<Rightarrow> DiscoveryEvent list \<times> DeviceRegistry \<times> 'w" where
  "registry_prune_stale ck r w =
     (let (evs, es, w1) = prune_entries ck (dr_stale_timeout r) (dr_devices r) w
      in (evs, r\<lparr>dr_devices := es\<rparr>, w1))"

definition registry_snapshot :: "'w clock \<Rightarrow> DeviceRegistry \<Rightarrow> 'w \<Rightarrow> DiscoverySnapshot \<times> 'w" where
  "registry_snapshot ck r w =
     (let (now, w1) = ck_unix_ms ck w in
      (\<lparr>ds_devices = sort_key dd_display_name (map (\<lambda>x. rg_device (snd x)) (dr_devices r)),
        ds_updated_at_unix_ms = now\<rparr>, w1))"

section \<open>The choice of an address\<close>

lemma fold_better:
  "fold better_address xs (Some b) = Some a \<Longrightarrow>
     a \<in> set (b # xs) \<and> (\<forall>x \<in> set (b # xs). endpoint_rank x \<le> endpoint_rank a)"
proof (induction xs arbitrary: b)
  case (Cons x xs)
  obtain c where c: "better_address x (Some b) = Some c" "c \<in> {b, x}"
      "endpoint_rank b \<le> endpoint_rank c" "endpoint_rank x \<le> endpoint_rank c"
  proof (cases "endpoint_rank b \<le> endpoint_rank x")
    case True
    then show ?thesis using that [of x] by (simp add: better_address_def)
  next
    case False
    then show ?thesis using that [of b] by (simp add: better_address_def)
  qed
  then have "a \<in> set (c # xs) \<and> (\<forall>y \<in> set (c # xs). endpoint_rank y \<le> endpoint_rank a)"
    using Cons by simp
  with c show ?case by (auto intro: order_trans)
qed simp

lemma fold_better_Some: "\<exists>a. fold better_address xs (Some b) = Some a"
  by (induction xs arbitrary: b) (auto simp: better_address_def)

lemma select_preferred_Some:
  assumes "select_preferred_ip_address addresses = Some a"
  shows "a \<in> set addresses" "is_remote_selection_candidate a"
    "\<forall>x \<in> set addresses. is_remote_selection_candidate x \<longrightarrow> endpoint_rank x \<le> endpoint_rank a"
proof -
  obtain x xs where xs: "filter is_remote_selection_candidate addresses = x # xs"
    using assms by (cases "filter is_remote_selection_candidate addresses") (auto simp: select_preferred_ip_address_def)
  then have "fold better_address xs (Some x) = Some a"
    using assms by (simp add: select_preferred_ip_address_def better_address_def)
  from fold_better [OF this] have a: "a \<in> set (filter is_remote_selection_candidate addresses)"
      "\<forall>y \<in> set (filter is_remote_selection_candidate addresses). endpoint_rank y \<le> endpoint_rank a"
    by (simp_all add: xs)
  then show "a \<in> set addresses" "is_remote_selection_candidate a"
    "\<forall>x \<in> set addresses. is_remote_selection_candidate x \<longrightarrow> endpoint_rank x \<le> endpoint_rank a"
    by auto
qed

lemma select_preferred_None:
  "select_preferred_ip_address addresses = None \<longleftrightarrow> (\<forall>x \<in> set addresses. \<not> is_remote_selection_candidate x)"
proof (cases "filter is_remote_selection_candidate addresses")
  case (Cons x xs)
  then have "\<exists>a. select_preferred_ip_address addresses = Some a"
    using fold_better_Some [of xs x] by (simp add: select_preferred_ip_address_def better_address_def)
  moreover have "x \<in> set addresses" "is_remote_selection_candidate x"
    using Cons by (auto simp: filter_eq_Cons_iff)
  ultimately show ?thesis by auto
qed (auto simp: select_preferred_ip_address_def filter_empty_conv)

end
