(* ===== verification/Discovery_Registry.thy ===== *)
theory Discovery_Registry
  imports Discovery_Core
begin

text \<open>
  The registry of discovered devices: it is a keyed store, its operations keep its entries well
  formed whatever the clock shows, a known device's endpoint only gives way to one of a higher
  rank, and an entry expires once between two sightings.
\<close>

interpretation registry: keyed_store registry_lookup registry_put registry_delete
  by unfold_locales
    (simp_all add: registry_lookup_def registry_put_def registry_delete_def map_of_upsert map_of_filter_key)

section \<open>Well-formedness\<close>

text \<open>An endpoint the code accepts: it carries the device's id and an address worth connecting to.\<close>

definition endpoint_ok :: "DeviceId \<Rightarrow> TransportEndpoint option \<Rightarrow> bool" where
  "endpoint_ok k e =
     (case e of None \<Rightarrow> True
      | Some e \<Rightarrow> te_device_id e = k \<and> is_remote_selection_candidate (sa_ip (te_address e)))"

definition entry_ok :: "DeviceId \<Rightarrow> RegistryEntry \<Rightarrow> bool" where
  "entry_ok k e \<longleftrightarrow> dd_id (rg_device e) = k \<and> endpoint_ok k (dd_endpoint (rg_device e))
     \<and> (rg_marked_stale e \<longleftrightarrow> dd_status (rg_device e) = Stale)
     \<and> (rg_marked_stale e \<longrightarrow> dd_availability (rg_device e) = DeviceAvailability.Unavailable)"

definition registry_ok :: "DeviceRegistry \<Rightarrow> bool" where
  "registry_ok r \<longleftrightarrow> distinct (map fst (dr_devices r))
     \<and> (\<forall>k e. registry_lookup r k = Some e \<longrightarrow> entry_ok k e)"

text \<open>A device as a resolved service gives it.\<close>

definition sighted :: "DiscoveredDevice \<Rightarrow> bool" where
  "sighted d \<longleftrightarrow> endpoint_ok (dd_id d) (dd_endpoint d) \<and> dd_status d \<noteq> Stale"

lemma registry_new_ok: "registry_ok (registry_new t)"
  by (simp add: registry_ok_def registry_new_def registry_lookup_def)

lemma derive_not_stale: "derive_device_status d l v r a h s \<noteq> Stale"
  by (auto simp: derive_device_status_def split: ReceiverAdvertisementState.split bool.split)

lemma select_endpoint_ok: "endpoint_ok d (select_preferred_endpoint d addresses port)"
  using select_preferred_Some(2) [of addresses]
  by (auto simp: select_preferred_endpoint_def endpoint_ok_def split: option.split)

lemma resolved_sighted: "sighted (discovered_device_from_resolved service l now)"
  by (simp add: sighted_def discovered_device_from_resolved_def Let_def derive_not_stale select_endpoint_ok)
    (simp add: endpoint_ok_def)

lemma preferred_endpoint_cases:
  "preferred_endpoint a b = a \<or> preferred_endpoint a b = b"
  by (auto simp: preferred_endpoint_def split: option.split)

lemma preferred_endpoint_ok: "endpoint_ok k a \<Longrightarrow> endpoint_ok k b \<Longrightarrow> endpoint_ok k (preferred_endpoint a b)"
  using preferred_endpoint_cases [of a b] by auto

lemma upsert_distinct: "distinct (map fst ts) \<Longrightarrow> distinct (map fst (upsert_by (\<lambda>x. fst x = k) (k, v) ts))"
proof (induction ts)
  case (Cons t ts)
  have "set (map fst (upsert_by (\<lambda>x. fst x = k) (k, v) ts)) \<subseteq> insert k (set (map fst ts))"
    by (induction ts) auto
  with Cons show ?case by auto
qed simp

lemma registry_put_ok: "registry_ok r \<Longrightarrow> entry_ok k e \<Longrightarrow> registry_ok (registry_put k e r)"
  unfolding registry_ok_def
proof (intro conjI)
  assume r: "distinct (map fst (dr_devices r)) \<and> (\<forall>k e. registry_lookup r k = Some e \<longrightarrow> entry_ok k e)"
  show "distinct (map fst (dr_devices (registry_put k e r)))"
    using r upsert_distinct [of "dr_devices r" k e] by (simp add: registry_put_def)
  assume "entry_ok k e"
  then show "\<forall>j u. registry_lookup (registry_put k e r) j = Some u \<longrightarrow> entry_ok j u"
    using r by (intro registry.all_insert) simp_all
qed

lemma registry_delete_ok: "registry_ok r \<Longrightarrow> registry_ok (registry_delete k r)"
  unfolding registry_ok_def
  by (intro conjI registry.all_remove) (simp_all add: registry_delete_def distinct_map_filter)

lemma merged_entry_ok:
  assumes "entry_ok k e" "sighted d" "dd_id d = k"
  shows "entry_ok k \<lparr>rg_device = merge_discovered_device (rg_device e) (d\<lparr>dd_last_seen_unix_ms := t\<rparr>),
     rg_last_seen = now, rg_marked_stale = False\<rparr>"
  using assms by (simp add: entry_ok_def sighted_def merge_discovered_device_def preferred_endpoint_ok)

lemma registry_upsert_ok:
  assumes r: "registry_ok r" and d: "sighted d"
  shows "registry_ok (fst (snd (registry_upsert ck d r w)))"
proof (cases "registry_lookup r (dd_id d)")
  case None
  then show ?thesis
    using d by (simp add: registry_upsert_def Let_def split_def)
      (rule registry_put_ok [OF r], simp add: entry_ok_def sighted_def)
next
  case (Some e)
  then have "entry_ok (dd_id d) e" using r by (simp add: registry_ok_def)
  from merged_entry_ok [OF this d refl] Some show ?thesis
    by (simp add: registry_upsert_def Let_def split_def registry_put_ok [OF r])
qed

lemma mark_removed_ok: "registry_ok r \<Longrightarrow> registry_ok (snd (mark_removed_by_fullname f r))"
  by (auto simp: mark_removed_by_fullname_def registry_delete_ok split: option.split)

section \<open>Pruning\<close>

lemma prune_entry_result:
  "prune_entry ck t e w = (evs, e', w') \<Longrightarrow>
     evs = [] \<and> e' = e
   \<or> \<not> rg_marked_stale e \<and> evs = [DeviceExpired (expired_device (rg_device e))]
     \<and> e' = e\<lparr>rg_device := expired_device (rg_device e), rg_marked_stale := True\<rparr>"
  by (auto simp: prune_entry_def Let_def split_def split: if_splits)

lemma prune_entry_ok: "prune_entry ck t e w = (evs, e', w') \<Longrightarrow> entry_ok k e \<Longrightarrow> entry_ok k e'"
  using prune_entry_result [of ck t e w evs e' w'] by (auto simp: entry_ok_def expired_device_def)

lemma prune_entries_keys: "prune_entries ck t es w = (evs, es', w') \<Longrightarrow> map fst es' = map fst es"
  by (induction es arbitrary: evs es' w w') (auto split: prod.splits)

lemma prune_entries_all:
  "prune_entries ck t es w = (evs, es', w') \<Longrightarrow> list_all (\<lambda>x. entry_ok (fst x) (snd x)) es
    \<Longrightarrow> list_all (\<lambda>x. entry_ok (fst x) (snd x)) es'"
  by (induction es arbitrary: evs es' w w') (auto split: prod.splits dest: prune_entry_ok)

lemma registry_ok_alt:
  "registry_ok r \<longleftrightarrow> distinct (map fst (dr_devices r))
     \<and> list_all (\<lambda>x. entry_ok (fst x) (snd x)) (dr_devices r)"
  by (force simp: registry_ok_def registry_lookup_def list_all_iff dest: map_of_SomeD)

lemma registry_prune_ok: "registry_ok r \<Longrightarrow> registry_ok (fst (snd (registry_prune_stale ck r w)))"
proof -
  assume r: "registry_ok r"
  obtain evs es w' where p: "prune_entries ck (dr_stale_timeout r) (dr_devices r) w = (evs, es, w')"
    by (metis prod_cases3)
  from prune_entries_keys [OF p] prune_entries_all [OF p] r p show ?thesis
    by (simp add: registry_prune_stale_def registry_ok_alt)
qed

section \<open>The life of a device\<close>

text \<open>
  What the events of one device may be: it is discovered when it is absent, updated while it is
  known, expires only while it is present, and is removed only when it is known.
\<close>

datatype presence = Absent | Present | Expired

fun presence_step :: "DeviceId \<Rightarrow> DiscoveryEvent \<Rightarrow> presence \<Rightarrow> presence option" where
  "presence_step k (DeviceDiscovered d) p =
     (if dd_id d \<noteq> k then Some p else if p = Absent then Some Present else None)"
| "presence_step k (DeviceUpdated d) p =
     (if dd_id d \<noteq> k then Some p else if p \<noteq> Absent then Some Present else None)"
| "presence_step k (DeviceRemoved i _) p =
     (if i \<noteq> k then Some p else if p \<noteq> Absent then Some Absent else None)"
| "presence_step k (DeviceExpired d) p =
     (if dd_id d \<noteq> k then Some p else if p = Present then Some Expired else None)"

fun presence_run :: "DeviceId \<Rightarrow> DiscoveryEvent list \<Rightarrow> presence \<Rightarrow> presence option" where
  "presence_run k [] p = Some p"
| "presence_run k (e # es) p = Option.bind (presence_step k e p) (presence_run k es)"

definition entry_presence :: "RegistryEntry option \<Rightarrow> presence" where
  "entry_presence e = (case e of None \<Rightarrow> Absent | Some e \<Rightarrow> if rg_marked_stale e then Expired else Present)"

definition registry_presence :: "DeviceRegistry \<Rightarrow> DeviceId \<Rightarrow> presence" where
  "registry_presence r k = entry_presence (registry_lookup r k)"

text \<open>What the events say of the devices, sighting times aside.\<close>

definition untimed :: "DiscoveredDevice \<Rightarrow> DiscoveredDevice" where
  "untimed d = d\<lparr>dd_last_seen_unix_ms := 0\<rparr>"

fun view_step :: "DiscoveryEvent \<Rightarrow> (DeviceId \<rightharpoonup> DiscoveredDevice) \<Rightarrow> DeviceId \<rightharpoonup> DiscoveredDevice" where
  "view_step (DeviceDiscovered d) v = v(dd_id d \<mapsto> untimed d)"
| "view_step (DeviceUpdated d) v = v(dd_id d \<mapsto> untimed d)"
| "view_step (DeviceRemoved i _) v = v(i := None)"
| "view_step (DeviceExpired d) v = v(dd_id d \<mapsto> untimed d)"

definition entry_view :: "RegistryEntry option \<Rightarrow> DiscoveredDevice option" where
  "entry_view = map_option (\<lambda>e. untimed (rg_device e))"

definition registry_view :: "DeviceRegistry \<Rightarrow> DeviceId \<rightharpoonup> DiscoveredDevice" where
  "registry_view r k = entry_view (registry_lookup r k)"

text \<open>An endpoint only gives way to one of a higher rank.\<close>

definition endpoint_kept :: "TransportEndpoint option \<Rightarrow> TransportEndpoint option \<Rightarrow> bool" where
  "endpoint_kept a b =
     (case a of None \<Rightarrow> True
      | Some x \<Rightarrow>
          (case b of None \<Rightarrow> False
           | Some y \<Rightarrow> y = x \<or> endpoint_rank (sa_ip (te_address x)) < endpoint_rank (sa_ip (te_address y))))"

definition entry_kept :: "RegistryEntry option \<Rightarrow> RegistryEntry option \<Rightarrow> bool" where
  "entry_kept a b =
     (case a of None \<Rightarrow> True
      | Some x \<Rightarrow> (case b of None \<Rightarrow> False
          | Some y \<Rightarrow> endpoint_kept (dd_endpoint (rg_device x)) (dd_endpoint (rg_device y))))"

fun opt_list :: "'a option \<Rightarrow> 'a list" where
  "opt_list None = []"
| "opt_list (Some x) = [x]"

lemma presence_run_append:
  "presence_run k (xs @ ys) p = Option.bind (presence_run k xs p) (presence_run k ys)"
proof (induction xs arbitrary: p)
  case (Cons e es)
  then show ?case by (cases "presence_step k e p") simp_all
qed simp

lemma endpoint_kept_refl: "endpoint_kept a a"
  by (simp add: endpoint_kept_def split: option.split)

lemma endpoint_kept_trans: "endpoint_kept a b \<Longrightarrow> endpoint_kept b c \<Longrightarrow> endpoint_kept a c"
  by (auto simp: endpoint_kept_def split: option.splits)

lemma entry_kept_refl: "entry_kept a a"
  by (simp add: entry_kept_def endpoint_kept_refl split: option.split)

lemma entry_kept_trans: "entry_kept a b \<Longrightarrow> entry_kept b c \<Longrightarrow> entry_kept a c"
  by (auto simp: entry_kept_def split: option.splits intro: endpoint_kept_trans)

lemma preferred_endpoint_kept: "endpoint_kept a (preferred_endpoint a b)"
  by (simp add: preferred_endpoint_def endpoint_kept_def split: option.split)

lemma merge_kept: "endpoint_kept (dd_endpoint d) (dd_endpoint (merge_discovered_device d d'))"
  by (simp add: merge_discovered_device_def preferred_endpoint_kept)

lemma same_untimed: "materially_same_discovered_device a b \<longleftrightarrow> untimed a = untimed b"
  by (simp add: materially_same_discovered_device_def untimed_def)

lemma same_status: "materially_same_discovered_device a b \<Longrightarrow> dd_status a = dd_status b"
  unfolding materially_same_discovered_device_def
  by (drule arg_cong [where f = dd_status]) simp

text \<open>What one operation does to the registry is told by its events.\<close>

definition tells :: "DiscoveryEvent list \<Rightarrow> DeviceRegistry \<Rightarrow> DeviceRegistry \<Rightarrow> bool" where
  "tells evs r r' \<longleftrightarrow>
     (\<forall>k. presence_run k evs (registry_presence r k) = Some (registry_presence r' k))
     \<and> registry_view r' = fold view_step evs (registry_view r)
     \<and> (\<forall>k. (\<forall>n. DeviceRemoved k n \<notin> set evs) \<longrightarrow> entry_kept (registry_lookup r k) (registry_lookup r' k))"

lemma tells_refl: "tells [] r r"
  by (simp add: tells_def entry_kept_refl)

lemma tells_append:
  assumes "tells xs a b" "tells ys b c"
  shows "tells (xs @ ys) a c"
proof -
  have "entry_kept (registry_lookup a k) (registry_lookup c k)"
    if "\<forall>n. DeviceRemoved k n \<notin> set (xs @ ys)" for k
    using assms that entry_kept_trans [of "registry_lookup a k" "registry_lookup b k" "registry_lookup c k"]
    by (simp add: tells_def)
  with assms show ?thesis by (simp add: tells_def presence_run_append)
qed

lemma upsert_tells:
  assumes r: "registry_ok r" and d: "sighted d" and up: "registry_upsert ck d r w = (ev, r', w')"
  shows "tells (opt_list ev) r r'"
proof -
  obtain unix w1 where u: "ck_unix_ms ck w = (unix, w1)" by fastforce
  obtain now w2 where n: "ck_now ck w1 = (now, w2)" by fastforce
  show ?thesis
  proof (cases "registry_lookup r (dd_id d)")
    case None
    let ?d = "d\<lparr>dd_last_seen_unix_ms := unix\<rparr>"
    let ?e = "\<lparr>rg_device = ?d, rg_last_seen = now, rg_marked_stale = False\<rparr>"
    have ev: "ev = Some (DeviceDiscovered ?d)" "r' = registry_put (dd_id d) ?e r"
      using up None by (simp_all add: registry_upsert_def u n Let_def)
    show ?thesis
      unfolding tells_def ev
      by (auto simp: registry_presence_def registry_view_def entry_presence_def entry_view_def
          registry.lookup_insert None entry_kept_refl fun_eq_iff) (simp add: entry_kept_def)
  next
    case (Some e)
    let ?m = "merge_discovered_device (rg_device e) (d\<lparr>dd_last_seen_unix_ms := unix\<rparr>)"
    let ?e = "\<lparr>rg_device = ?m, rg_last_seen = now, rg_marked_stale = False\<rparr>"
    have ev: "ev = (if \<not> materially_same_discovered_device (rg_device e) ?m then Some (DeviceUpdated ?m) else None)"
        "r' = registry_put (dd_id d) ?e r"
      using up Some by (simp_all add: registry_upsert_def u n Let_def)
    have id: "dd_id ?m = dd_id d" "dd_status ?m = dd_status d" by (simp_all add: merge_discovered_device_def)
    have ok: "entry_ok (dd_id d) e" using r Some by (simp add: registry_ok_def)
    have fresh: "\<not> rg_marked_stale e" if "materially_same_discovered_device (rg_device e) ?m"
      using same_status [OF that] ok d id by (simp add: entry_ok_def sighted_def)
    have kept: "entry_kept (registry_lookup r k) (registry_lookup r' k)" for k
      by (simp add: ev registry.lookup_insert Some entry_kept_refl) (simp add: Some entry_kept_def merge_kept)
    show ?thesis
    proof (cases "materially_same_discovered_device (rg_device e) ?m")
      case True
      then have "registry_view r' = registry_view r"
        by (auto simp: registry_view_def entry_view_def ev registry.lookup_insert Some same_untimed)
      moreover have "registry_presence r' = registry_presence r"
        using fresh [OF True]
        by (auto simp: registry_presence_def entry_presence_def ev(2) registry.lookup_insert Some)
      ultimately show ?thesis using True kept by (simp add: tells_def ev(1))
    next
      case False
      then show ?thesis
        unfolding tells_def using kept
        by (auto simp: ev registry_presence_def registry_view_def entry_presence_def entry_view_def
          registry.lookup_insert Some id fun_eq_iff)
    qed
  qed
qed

lemma mark_removed_tells:
  assumes "registry_ok r" "mark_removed_by_fullname f r = (ev, r')"
  shows "tells (opt_list ev) r r'"
proof (cases "find (\<lambda>x. dd_service_fullname (rg_device (snd x)) = f) (dr_devices r)")
  case None
  then show ?thesis using assms by (simp add: mark_removed_by_fullname_def tells_refl)
next
  case (Some x)
  obtain k e where x: "x = (k, e)" by fastforce
  have "(k, e) \<in> set (dr_devices r)"
    using Some by (auto simp: x find_Some_iff in_set_conv_nth)
  then have look: "registry_lookup r k \<noteq> None"
    unfolding registry_lookup_def using weak_map_of_SomeI by fastforce
  have res: "ev = Some (DeviceRemoved k f)" "r' = registry_delete k r"
    using assms(2) Some by (simp_all add: mark_removed_by_fullname_def x)
  have known: "registry_presence r k \<noteq> Absent"
    using look by (auto simp: registry_presence_def entry_presence_def split: if_splits)
  have other: "registry_lookup r' = (registry_lookup r)(k := None)"
    by (simp add: res(2) registry.lookup_remove)
  have pres: "registry_presence r' = (registry_presence r)(k := Absent)"
    by (simp add: registry_presence_def fun_eq_iff other entry_presence_def)
  have view: "registry_view r' = (registry_view r)(k := None)"
    by (simp add: registry_view_def fun_eq_iff other entry_view_def)
  show ?thesis
    unfolding tells_def
    using known by (auto simp: res(1) pres view other entry_kept_refl)
qed

fun event_device :: "DiscoveryEvent \<Rightarrow> DeviceId" where
  "event_device (DeviceDiscovered d) = dd_id d"
| "event_device (DeviceUpdated d) = dd_id d"
| "event_device (DeviceRemoved k _) = k"
| "event_device (DeviceExpired d) = dd_id d"

lemma presence_run_other: "k \<notin> event_device ` set evs \<Longrightarrow> presence_run k evs p = Some p"
proof (induction evs arbitrary: p)
  case (Cons e es)
  then show ?case by (cases e) auto
qed simp

lemma view_step_other: "event_device e \<noteq> k \<Longrightarrow> view_step e v k = v k"
  by (cases e) auto

lemma view_fold_other: "k \<notin> event_device ` set evs \<Longrightarrow> fold view_step evs v k = v k"
  by (induction evs arbitrary: v) (auto simp: view_step_other)

text \<open>Pruning tells of each entry in turn.\<close>

lemma prune_entry_tells:
  assumes "prune_entry ck t e w = (evs, e', w')" "entry_ok k e"
  shows "presence_run k evs (entry_presence (Some e)) = Some (entry_presence (Some e'))"
    "v k = entry_view (Some e) \<Longrightarrow> fold view_step evs v k = entry_view (Some e')"
    "entry_kept (Some e) (Some e')" "\<forall>ev \<in> set evs. event_device ev = k \<and> (\<forall>n. ev \<noteq> DeviceRemoved k n)"
proof -
  have *: "presence_run k evs (entry_presence (Some e)) = Some (entry_presence (Some e'))
      \<and> (v k = entry_view (Some e) \<longrightarrow> fold view_step evs v k = entry_view (Some e'))
      \<and> entry_kept (Some e) (Some e') \<and> (\<forall>ev \<in> set evs. event_device ev = k \<and> (\<forall>n. ev \<noteq> DeviceRemoved k n))"
    using prune_entry_result [OF assms(1)]
  proof (elim disjE conjE)
    assume "evs = []" "e' = e"
    then show ?thesis by (simp add: entry_kept_refl)
  next
    assume e: "\<not> rg_marked_stale e" and evs: "evs = [DeviceExpired (expired_device (rg_device e))]"
      and e': "e' = e\<lparr>rg_device := expired_device (rg_device e), rg_marked_stale := True\<rparr>"
    have id: "dd_id (expired_device (rg_device e)) = k" using assms(2) by (simp add: entry_ok_def expired_device_def)
    have "entry_kept (Some e) (Some e')"
      unfolding e' by (simp add: entry_kept_def expired_device_def endpoint_kept_refl)
    with e id show ?thesis
      unfolding evs e' by (simp add: entry_presence_def entry_view_def)
  qed
  from * show "presence_run k evs (entry_presence (Some e)) = Some (entry_presence (Some e'))" by (rule conjunct1)
  from * show "fold view_step evs v k = entry_view (Some e')" if "v k = entry_view (Some e)" using that by blast
  from * show "entry_kept (Some e) (Some e')" by blast
  from * show "\<forall>ev \<in> set evs. event_device ev = k \<and> (\<forall>n. ev \<noteq> DeviceRemoved k n)" by blast
qed

lemma prune_events_named:
  "prune_entries ck t es w = (evs, es', w') \<Longrightarrow> list_all (\<lambda>x. entry_ok (fst x) (snd x)) es
    \<Longrightarrow> \<forall>ev \<in> set evs. event_device ev \<in> fst ` set es \<and> (\<forall>k n. ev \<noteq> DeviceRemoved k n)"
proof (induction es arbitrary: evs es' w w')
  case (Cons x es)
  obtain k e where x: "x = (k, e)" by fastforce
  obtain evs0 e1 w1 where one: "prune_entry ck t e w = (evs0, e1, w1)" by (metis prod_cases3)
  obtain evs1 es1 w2 where two: "prune_entries ck t es w1 = (evs1, es1, w2)" by (metis prod_cases3)
  have "evs = evs0 @ evs1" using Cons.prems(1) by (simp add: x one two)
  moreover have "\<forall>ev \<in> set evs1. event_device ev \<in> fst ` set es \<and> (\<forall>k n. ev \<noteq> DeviceRemoved k n)"
    using Cons.IH [OF two] Cons.prems(2) by simp
  moreover have "\<forall>ev \<in> set evs0. event_device ev = k \<and> (\<forall>k n. ev \<noteq> DeviceRemoved k n)"
    using prune_entry_result [OF one] Cons.prems(2) by (auto simp: x entry_ok_def expired_device_def)
  ultimately show ?case by (auto simp: x)
qed simp

lemma prune_entries_tell:
  "prune_entries ck t es w = (evs, es', w') \<Longrightarrow> distinct (map fst es)
    \<Longrightarrow> list_all (\<lambda>x. entry_ok (fst x) (snd x)) es \<Longrightarrow> v k = entry_view (map_of es k)
    \<Longrightarrow> presence_run k evs (entry_presence (map_of es k)) = Some (entry_presence (map_of es' k))
      \<and> fold view_step evs v k = entry_view (map_of es' k) \<and> entry_kept (map_of es k) (map_of es' k)"
proof (induction es arbitrary: evs es' w w' v)
  case Nil
  then show ?case by (simp add: entry_kept_refl)
next
  case (Cons x es)
  obtain j e where x: "x = (j, e)" by fastforce
  obtain evs0 e1 w1 where one: "prune_entry ck t e w = (evs0, e1, w1)" by (metis prod_cases3)
  obtain evs1 es1 w2 where two: "prune_entries ck t es w1 = (evs1, es1, w2)" by (metis prod_cases3)
  have res: "evs = evs0 @ evs1" "es' = (j, e1) # es1" using Cons.prems(1) by (simp_all add: x one two)
  have ok: "entry_ok j e" "list_all (\<lambda>x. entry_ok (fst x) (snd x)) es" "distinct (map fst es)" "j \<notin> fst ` set es"
    using Cons.prems by (auto simp: x)
  note head = prune_entry_tells [OF one ok(1)]
  have named: "\<forall>ev \<in> set evs1. event_device ev \<in> fst ` set es"
    using prune_events_named [OF two ok(2)] by simp
  show ?case
  proof (cases "k = j")
    case True
    then have "k \<notin> event_device ` set evs1" using named ok(4) by auto
    moreover have "v k = entry_view (Some e)" using Cons.prems(4) True by (simp add: x)
    ultimately show ?thesis
      using head(1,3) head(2) [of v] True by (simp add: x res presence_run_append presence_run_other view_fold_other)
  next
    case False
    then have "k \<notin> event_device ` set evs0" using head(4) by auto
    then have "fold view_step evs0 v k = v k" "presence_run k evs0 p = Some p" for p
      by (simp_all add: view_fold_other presence_run_other)
    moreover from this(1) have "fold view_step evs0 v k = entry_view (map_of es k)"
      using Cons.prems(4) False by (simp add: x)
    then have "presence_run k evs1 (entry_presence (map_of es k)) = Some (entry_presence (map_of es1 k))
      \<and> fold view_step evs1 (fold view_step evs0 v) k = entry_view (map_of es1 k)
      \<and> entry_kept (map_of es k) (map_of es1 k)"
      by (rule Cons.IH [OF two ok(3,2)])
    ultimately show ?thesis using False by (simp add: x res presence_run_append)
  qed
qed

lemma prune_stale_tells:
  assumes "registry_ok r" "registry_prune_stale ck r w = (evs, r', w')"
  shows "tells evs r r'"
proof -
  obtain es where p: "prune_entries ck (dr_stale_timeout r) (dr_devices r) w = (evs, es, w')"
      and r': "r' = r\<lparr>dr_devices := es\<rparr>"
    using assms(2) by (auto simp: registry_prune_stale_def split: prod.splits)
  note r = assms(1) [unfolded registry_ok_alt]
  have all: "presence_run k evs (entry_presence (map_of (dr_devices r) k)) = Some (entry_presence (map_of es k))
      \<and> fold view_step evs (registry_view r) k = entry_view (map_of es k)
      \<and> entry_kept (map_of (dr_devices r) k) (map_of es k)" for k
    using prune_entries_tell [OF p, of "registry_view r" k] r by (simp add: registry_view_def registry_lookup_def)
  then show ?thesis
    by (auto simp: tells_def registry_presence_def registry_view_def registry_lookup_def r' fun_eq_iff)
qed

end
