(* ===== verification/Discovery_Service.thy ===== *)
theory Discovery_Service
  imports Discovery_Registry
begin

text \<open>
  The discovery service, \<open>MdnsDiscoveryService\<close> of \<open>synchrosonic-discovery/src/lib.rs\<close>: the
  advertisement of the local receiver, the handling of mDNS events, start, stop, polling and
  pruning. The mDNS daemon, the UDP sockets, the resolver, the environment variable and the clock
  are the functions of \<open>mdns_env\<close> over a world. Log lines are left out.
\<close>

datatype ServiceEvent =
  SearchStarted string | ServiceFound string string | ServiceResolved resolved_service
| ServiceRemoved string string | SearchStopped string | OtherServiceEvent

datatype browse_outcome = BrowseOk ServiceEvent | BrowseEmpty | BrowseDisconnected

text \<open>What \<open>ServiceInfo::new\<close> is given, and its result: the arguments with the full name.\<close>

record service_args =
  sg_service_type :: string
  sg_instance_name :: string
  sg_host_name :: string
  sg_ip :: string
  sg_port :: u16
  sg_properties :: "(string \<times> string) list"

record service_info =
  si_args :: service_args
  si_fullname :: string
  si_addr_auto :: bool

type_synonym 'w fallible = "'w \<Rightarrow> (string + unit) \<times> 'w"

record 'w mdns_env =
  me_clock :: "'w clock"
  me_new_daemon :: "'w fallible"
  me_browse :: "string \<Rightarrow> 'w fallible"
  me_service_info :: "service_args \<Rightarrow> string + string"
  me_register :: "service_info \<Rightarrow> 'w fallible"
  me_unregister :: "string \<Rightarrow> 'w fallible"
  me_stop_browse :: "string \<Rightarrow> 'w fallible"
  me_shutdown :: "'w fallible"
  me_try_recv :: "'w \<Rightarrow> browse_outcome \<times> 'w"
  me_udp_bind :: "string \<Rightarrow> 'w \<Rightarrow> nat option \<times> 'w"
  me_udp_connect :: "nat \<Rightarrow> SocketAddr \<Rightarrow> 'w \<Rightarrow> bool \<times> 'w"
  me_udp_local_addr :: "nat \<Rightarrow> 'w \<Rightarrow> SocketAddr option \<times> 'w"
  me_hostname :: "'w \<Rightarrow> string option \<times> 'w"
  me_to_socket_addrs :: "string \<Rightarrow> 'w \<Rightarrow> SocketAddr list option \<times> 'w"

section \<open>State\<close>

record LocalDiscoveryStatus =
  ld_device_id :: DeviceId
  ld_device_name :: string
  ld_browse_active :: bool
  ld_advertised :: bool
  ld_receiver_status :: DeviceStatus
  ld_capabilities :: DeviceCapabilities
  ld_availability :: DeviceAvailability
  ld_advertised_endpoint :: "TransportEndpoint option"
  ld_last_advertised_unix_ms :: "u64 option"
  ld_last_error :: "string option"

record DiscoveryAnnouncement =
  da_service_type :: string
  da_instance_name :: string
  da_port :: u16

record MdnsDiscoveryService =
  sv_config :: DiscoveryConfig
  sv_profile :: LocalDiscoveryProfile
  sv_registry :: DeviceRegistry
  sv_daemon :: bool
  sv_browse_receiver :: bool
  sv_advertised_fullname :: "string option"
  sv_pending_events :: "DiscoveryEvent list"
  sv_local_status :: LocalDiscoveryStatus

definition duration_from_secs :: "u64 \<Rightarrow> duration" where
  "duration_from_secs secs = unat secs * 1000000000"

definition service_with_profile :: "DiscoveryConfig \<Rightarrow> LocalDiscoveryProfile \<Rightarrow> MdnsDiscoveryService" where
  "service_with_profile config prof =
     \<lparr>sv_config = config, sv_profile = prof,
      sv_registry = registry_new (duration_from_secs (max (dc_stale_timeout_secs config) 1)),
      sv_daemon = False, sv_browse_receiver = False, sv_advertised_fullname = None,
      sv_pending_events = [],
      sv_local_status = \<lparr>ld_device_id = pf_device_id prof, ld_device_name = pf_device_name prof,
        ld_browse_active = False, ld_advertised = False,
        ld_receiver_status = DeviceStatus.Unavailable, ld_capabilities = pf_capabilities prof,
        ld_availability = pf_availability prof, ld_advertised_endpoint = None,
        ld_last_advertised_unix_ms = None, ld_last_error = None\<rparr>\<rparr>"

definition default_profile :: "string \<Rightarrow> string \<Rightarrow> string \<Rightarrow> LocalDiscoveryProfile" where
  "default_profile device_id version announcement_name =
     \<lparr>pf_device_id = DeviceId device_id, pf_device_name = announcement_name, pf_app_version = version,
      pf_capabilities = capabilities_sender, pf_availability = DeviceAvailability.Unavailable,
      pf_port = 51700\<rparr>"

definition service_new ::
  "(string \<Rightarrow> string option) \<Rightarrow> string option \<Rightarrow> string \<Rightarrow> DiscoveryConfig \<Rightarrow> string \<Rightarrow> MdnsDiscoveryService" where
  "service_new read_to_string hostname_var version config announcement_name =
     service_with_profile config
       (default_profile (deterministic_device_id read_to_string hostname_var) version announcement_name)"

definition announcement :: "MdnsDiscoveryService \<Rightarrow> u16 \<Rightarrow> DiscoveryAnnouncement" where
  "announcement sv port = \<lparr>da_service_type = dc_service_type (sv_config sv),
     da_instance_name = pf_device_name (sv_profile sv), da_port = port\<rparr>"

definition upd_local :: "(LocalDiscoveryStatus \<Rightarrow> LocalDiscoveryStatus) \<Rightarrow> MdnsDiscoveryService \<Rightarrow> MdnsDiscoveryService" where
  "upd_local f sv = sv\<lparr>sv_local_status := f (sv_local_status sv)\<rparr>"

section \<open>The advertised address\<close>

definition preferred_local_ip_for :: "'w mdns_env \<Rightarrow> IpAddr \<Rightarrow> 'w \<Rightarrow> IpAddr option \<times> 'w" where
  "preferred_local_ip_for me remote w =
     (let bind_addr = (case remote of V4 _ _ _ _ \<Rightarrow> ''0.0.0.0:0'' | V6 _ \<Rightarrow> ''[::]:0'')
      in case me_udp_bind me bind_addr w of
           (None, w1) \<Rightarrow> (None, w1)
         | (Some socket, w1) \<Rightarrow>
             (case me_udp_connect me socket \<lparr>sa_ip = remote, sa_port = 9\<rparr> w1 of
                (False, w2) \<Rightarrow> (None, w2)
              | (True, w2) \<Rightarrow>
                  (case me_udp_local_addr me socket w2 of
                     (None, w3) \<Rightarrow> (None, w3)
                   | (Some local, w3) \<Rightarrow>
                       (if is_remote_selection_candidate (sa_ip local) then Some (sa_ip local) else None, w3))))"

definition preferred_local_ip_for_hostname :: "'w mdns_env \<Rightarrow> 'w \<Rightarrow> IpAddr option \<times> 'w" where
  "preferred_local_ip_for_hostname me w =
     (case me_hostname me w of
        (None, w1) \<Rightarrow> (None, w1)
      | (Some hostname, w1) \<Rightarrow>
          (case me_to_socket_addrs me (hostname @ '':0'') w1 of
             (None, w2) \<Rightarrow> (None, w2)
           | (Some addresses, w2) \<Rightarrow> (select_preferred_ip_address (map sa_ip addresses), w2)))"

definition public_resolver :: "IpAddr \<Rightarrow> IpAddr" where
  "public_resolver address =
     (case address of
        V4 _ _ _ _ \<Rightarrow> V4 8 8 8 8
      | V6 _ \<Rightarrow> V6 0x20014860486000000000000000008888)"

definition local_advertised_socket_addr ::
  "'w mdns_env \<Rightarrow> SocketAddr \<Rightarrow> 'w \<Rightarrow> SocketAddr option \<times> 'w" where
  "local_advertised_socket_addr me bind_addr w =
     (if is_remote_selection_candidate (sa_ip bind_addr) then (Some bind_addr, w)
      else if is_unspecified (sa_ip bind_addr) then
        (let (found, w1) =
           (case preferred_local_ip_for me (public_resolver (sa_ip bind_addr)) w of
              (Some ip, w1) \<Rightarrow> (Some ip, w1)
            | (None, w1) \<Rightarrow> preferred_local_ip_for_hostname me w1)
         in (map_option (\<lambda>ip. \<lparr>sa_ip = ip, sa_port = sa_port bind_addr\<rparr>) found, w1))
      else (Some bind_addr, w))"

section \<open>Advertising\<close>

definition build_service_info :: "'w mdns_env \<Rightarrow> MdnsDiscoveryService \<Rightarrow> DiscoveryError + service_info" where
  "build_service_info me sv =
     (let args = \<lparr>sg_service_type = dc_service_type (sv_config sv),
            sg_instance_name = pf_device_name (sv_profile sv),
            sg_host_name = sanitized_dns_label (pf_device_name (sv_profile sv)) @ ''.local.'',
            sg_ip = [], sg_port = pf_port (sv_profile sv),
            sg_properties = txt_properties (sv_profile sv)\<rparr>
      in case me_service_info me args of
           Inl e \<Rightarrow> Inl (ServiceInfo e)
         | Inr fullname \<Rightarrow> Inr \<lparr>si_args = args, si_fullname = fullname, si_addr_auto = True\<rparr>)"

text \<open>The unregistration of the advertised name; its failure is only logged.\<close>

definition withdraw :: "'w mdns_env \<Rightarrow> MdnsDiscoveryService \<Rightarrow> 'w \<Rightarrow> MdnsDiscoveryService \<times> 'w" where
  "withdraw me sv w =
     (case sv_advertised_fullname sv of
        None \<Rightarrow> (sv, w)
      | Some fullname \<Rightarrow>
          (upd_local (ld_advertised_update (\<lambda>_. False)) (sv\<lparr>sv_advertised_fullname := None\<rparr>),
           snd (me_unregister me fullname w)))"

definition refresh_local_advertisement ::
  "'w mdns_env \<Rightarrow> MdnsDiscoveryService \<Rightarrow> 'w \<Rightarrow> (DiscoveryError + unit) \<times> MdnsDiscoveryService \<times> 'w" where
  "refresh_local_advertisement me sv w =
     (if \<not> sv_daemon sv then (Inr (), sv, w)
      else
        (let (sv1, w1) = withdraw me sv w in
         case build_service_info me sv1 of
           Inl e \<Rightarrow> (Inl e, sv1, w1)
         | Inr info \<Rightarrow>
             (case me_register me info w1 of
                (Inl e, w2) \<Rightarrow> (Inl (Register e), sv1, w2)
              | (Inr _, w2) \<Rightarrow>
                  (let (now, w3) = ck_unix_ms (me_clock me) w2 in
                   (Inr (),
                    upd_local (\<lambda>ld. ld\<lparr>ld_advertised := True, ld_last_advertised_unix_ms := Some now,
                        ld_last_error := None\<rparr>)
                      (sv1\<lparr>sv_advertised_fullname := Some (si_fullname info)\<rparr>), w3)))))"

definition advertised_status :: "bool \<Rightarrow> bool \<Rightarrow> SocketAddr option \<Rightarrow> DeviceStatus" where
  "advertised_status receiver_running listener_active bind_addr =
     (if listener_active \<and> bind_addr \<noteq> None then ReceiverListening
      else if receiver_running then ReceiverStarting
      else DeviceStatus.Unavailable)"

definition advertised_capabilities :: "bool \<Rightarrow> SocketAddr option \<Rightarrow> DeviceCapabilities" where
  "advertised_capabilities listener_active bind_addr =
     (if listener_active \<and> bind_addr \<noteq> None then capabilities_sender_receiver else capabilities_sender)"

definition advertised_availability :: "bool \<Rightarrow> SocketAddr option \<Rightarrow> bool \<Rightarrow> DeviceAvailability" where
  "advertised_availability listener_active bind_addr busy =
     (if listener_active \<and> bind_addr \<noteq> None then
        (if busy then Busy else DeviceAvailability.Available)
      else DeviceAvailability.Unavailable)"

definition advertised_endpoint ::
  "'w mdns_env \<Rightarrow> DeviceId \<Rightarrow> SocketAddr option \<Rightarrow> 'w \<Rightarrow> TransportEndpoint option \<times> 'w" where
  "advertised_endpoint me device_id bind_addr w =
     (case bind_addr of
        None \<Rightarrow> (None, w)
      | Some a \<Rightarrow>
          (let (address, w1) = local_advertised_socket_addr me a w in
           (map_option (\<lambda>address. \<lparr>te_device_id = device_id, te_address = address\<rparr>) address, w1)))"

definition apply_advertisement ::
  "DeviceStatus \<Rightarrow> DeviceCapabilities \<Rightarrow> DeviceAvailability \<Rightarrow> TransportEndpoint option \<Rightarrow> string option
    \<Rightarrow> u16 \<Rightarrow> MdnsDiscoveryService \<Rightarrow> MdnsDiscoveryService" where
  "apply_advertisement status caps avail endpoint last_error port sv =
     upd_local (\<lambda>ld. ld\<lparr>ld_receiver_status := status, ld_capabilities := caps,
         ld_availability := avail, ld_advertised_endpoint := endpoint, ld_last_error := last_error\<rparr>)
       (sv\<lparr>sv_profile := (sv_profile sv)\<lparr>pf_capabilities := caps, pf_availability := avail,
          pf_port := port\<rparr>\<rparr>)"

definition sync_receiver_advertisement ::
  "'w mdns_env \<Rightarrow> bool \<Rightarrow> bool \<Rightarrow> SocketAddr option \<Rightarrow> bool \<Rightarrow> string option
    \<Rightarrow> MdnsDiscoveryService \<Rightarrow> 'w \<Rightarrow> (DiscoveryError + bool) \<times> MdnsDiscoveryService \<times> 'w" where
  "sync_receiver_advertisement me receiver_running listener_active bind_addr busy last_error sv w =
     (let status = advertised_status receiver_running listener_active bind_addr;
          caps = advertised_capabilities listener_active bind_addr;
          avail = advertised_availability listener_active bind_addr busy;
          (endpoint, w1) = advertised_endpoint me (pf_device_id (sv_profile sv)) bind_addr w;
          port = (case bind_addr of Some a \<Rightarrow> sa_port a | None \<Rightarrow> pf_port (sv_profile sv));
          ld = sv_local_status sv;
          changed = (ld_receiver_status ld \<noteq> status \<or> ld_capabilities ld \<noteq> caps
            \<or> ld_availability ld \<noteq> avail \<or> ld_advertised_endpoint ld \<noteq> endpoint
            \<or> ld_last_error ld \<noteq> last_error \<or> pf_capabilities (sv_profile sv) \<noteq> caps
            \<or> pf_availability (sv_profile sv) \<noteq> avail \<or> pf_port (sv_profile sv) \<noteq> port);
          sv1 = apply_advertisement status caps avail endpoint last_error port sv
      in if \<not> changed then (Inr False, sv1, w1)
         else
           (case refresh_local_advertisement me sv1 w1 of
              (Inl e, sv2, w2) \<Rightarrow>
                (Inl e, upd_local (ld_last_error_update (\<lambda>_. Some (show_discovery_error e))) sv2, w2)
            | (Inr _, sv2, w2) \<Rightarrow> (Inr True, sv2, w2)))"

section \<open>Events\<close>

definition push_event :: "DiscoveryEvent option \<Rightarrow> MdnsDiscoveryService \<Rightarrow> MdnsDiscoveryService" where
  "push_event event sv =
     (case event of None \<Rightarrow> sv | Some e \<Rightarrow> sv\<lparr>sv_pending_events := sv_pending_events sv @ [e]\<rparr>)"

text \<open>The reading of a resolved service cannot fail, so neither can the handler.\<close>

definition handle_mdns_event ::
  "'w clock \<Rightarrow> ServiceEvent \<Rightarrow> MdnsDiscoveryService \<Rightarrow> 'w \<Rightarrow> MdnsDiscoveryService \<times> 'w" where
  "handle_mdns_event ck event sv w =
     (case event of
        SearchStarted _ \<Rightarrow> (upd_local (ld_browse_active_update (\<lambda>_. True)) sv, w)
      | ServiceFound _ _ \<Rightarrow> (sv, w)
      | ServiceResolved service \<Rightarrow>
          (let (now, w1) = ck_unix_ms ck w;
               device = discovered_device_from_resolved service (pf_device_id (sv_profile sv)) now;
               (ev, r, w2) = registry_upsert ck device (sv_registry sv) w1
           in (push_event ev (sv\<lparr>sv_registry := r\<rparr>), w2))
      | ServiceRemoved _ fullname \<Rightarrow>
          (let (ev, r) = mark_removed_by_fullname fullname (sv_registry sv)
           in (push_event ev (sv\<lparr>sv_registry := r\<rparr>), w))
      | SearchStopped _ \<Rightarrow> (upd_local (ld_browse_active_update (\<lambda>_. False)) sv, w)
      | OtherServiceEvent \<Rightarrow> (sv, w))"

definition pop_event :: "MdnsDiscoveryService \<Rightarrow> DiscoveryEvent option \<times> MdnsDiscoveryService" where
  "pop_event sv =
     (case sv_pending_events sv of
        [] \<Rightarrow> (None, sv)
      | e # es \<Rightarrow> (Some e, sv\<lparr>sv_pending_events := es\<rparr>))"

definition service_poll_event ::
  "'w mdns_env \<Rightarrow> MdnsDiscoveryService \<Rightarrow> 'w
    \<Rightarrow> (DiscoveryError + DiscoveryEvent option) \<times> MdnsDiscoveryService \<times> 'w" where
  "service_poll_event me sv w =
     (case pop_event sv of
        (Some e, sv1) \<Rightarrow> (Inr (Some e), sv1, w)
      | (None, sv1) \<Rightarrow>
          if \<not> sv_browse_receiver sv1 then (Inr None, sv1, w)
          else
            (case me_try_recv me w of
               (BrowseOk event, w1) \<Rightarrow>
                 (let (sv2, w2) = handle_mdns_event (me_clock me) event sv1 w1;
                      (ev, sv3) = pop_event sv2
                  in (Inr ev, sv3, w2))
             | (BrowseEmpty, w1) \<Rightarrow> (Inr None, sv1, w1)
             | (BrowseDisconnected, w1) \<Rightarrow>
                 (Inl (EventFailed ''mDNS browse channel disconnected''), sv1, w1)))"

definition service_prune_stale ::
  "'w mdns_env \<Rightarrow> MdnsDiscoveryService \<Rightarrow> 'w
    \<Rightarrow> (DiscoveryError + DiscoveryEvent list) \<times> MdnsDiscoveryService \<times> 'w" where
  "service_prune_stale me sv w =
     (let (events, r, w1) = registry_prune_stale (me_clock me) (sv_registry sv) w
      in (Inr events, sv\<lparr>sv_registry := r\<rparr>, w1))"

definition service_snapshot :: "'w mdns_env \<Rightarrow> MdnsDiscoveryService \<Rightarrow> 'w \<Rightarrow> DiscoverySnapshot \<times> 'w" where
  "service_snapshot me sv w = registry_snapshot (me_clock me) (sv_registry sv) w"

section \<open>Start and stop\<close>

definition service_stop ::
  "'w mdns_env \<Rightarrow> MdnsDiscoveryService \<Rightarrow> 'w \<Rightarrow> (DiscoveryError + unit) \<times> MdnsDiscoveryService \<times> 'w" where
  "service_stop me sv w =
     (if \<not> sv_daemon sv then (Inr (), sv, w)
      else
        (let (sv1, w1) = withdraw me (sv\<lparr>sv_daemon := False\<rparr>) w;
             w2 = snd (me_stop_browse me (dc_service_type (sv_config sv)) w1)
         in case me_shutdown me w2 of
              (Inl e, w3) \<Rightarrow> (Inl (StopFailed e), sv1, w3)
            | (Inr _, w3) \<Rightarrow>
                (Inr (), upd_local (ld_browse_active_update (\<lambda>_. False))
                   (sv1\<lparr>sv_browse_receiver := False\<rparr>), w3)))"

definition service_start ::
  "'w mdns_env \<Rightarrow> MdnsDiscoveryService \<Rightarrow> 'w \<Rightarrow> (DiscoveryError + unit) \<times> MdnsDiscoveryService \<times> 'w" where
  "service_start me sv w =
     (if \<not> dc_enabled (sv_config sv) then (Inr (), sv, w)
      else if sv_daemon sv then (Inr (), sv, w)
      else
        (case me_new_daemon me w of
           (Inl e, w1) \<Rightarrow> (Inl (Daemon e), sv, w1)
         | (Inr _, w1) \<Rightarrow>
             (case me_browse me (dc_service_type (sv_config sv)) w1 of
                (Inl e, w2) \<Rightarrow> (Inl (Browse e), sv, w2)
              | (Inr _, w2) \<Rightarrow>
                  (let sv1 = upd_local (ld_browse_active_update (\<lambda>_. True)) sv
                         \<lparr>sv_browse_receiver := True, sv_daemon := True\<rparr>
                   in case refresh_local_advertisement me sv1 w2 of
                        (Inl e, sv2, w3) \<Rightarrow> (let (_, sv3, w4) = service_stop me sv2 w3 in (Inl e, sv3, w4))
                      | (Inr _, sv2, w3) \<Rightarrow> (Inr (), sv2, w3)))))"

end
