(* ===== verification/Discovery_Properties.thy ===== *)
theory Discovery_Properties
  imports Discovery_Service App_State Steps
begin

text \<open>
  What discovery promises: after any sequence of its operations the service is consistent, the
  events it returned follow each device's life cycle, a state that applied them shows the
  registry, and what a device advertises is what its peers see.
\<close>

section \<open>Operations\<close>

datatype discovery_op =
  OpStart | OpStop | OpPoll | OpPrune | OpSync bool bool "SocketAddr option" bool "string option"

fun event_of :: "DiscoveryError + DiscoveryEvent option \<Rightarrow> DiscoveryEvent list" where
  "event_of (Inr (Some e)) = [e]"
| "event_of _ = []"

fun service_op ::
  "'w mdns_env \<Rightarrow> discovery_op \<Rightarrow> MdnsDiscoveryService \<Rightarrow> 'w
    \<Rightarrow> DiscoveryEvent list \<times> MdnsDiscoveryService \<times> 'w" where
  "service_op me OpStart sv w = ([], snd (service_start me sv w))"
| "service_op me OpStop sv w = ([], snd (service_stop me sv w))"
| "service_op me OpPoll sv w = (let (r, sv1, w1) = service_poll_event me sv w in (event_of r, sv1, w1))"
| "service_op me OpPrune sv w =
     (let (r, sv1, w1) = service_prune_stale me sv w
      in (case r of Inl _ \<Rightarrow> [] | Inr evs \<Rightarrow> evs, sv1, w1))"
| "service_op me (OpSync a b c d e) sv w = ([], snd (sync_receiver_advertisement me a b c d e sv w))"

fun service_run ::
  "'w mdns_env \<Rightarrow> discovery_op list \<Rightarrow> MdnsDiscoveryService \<Rightarrow> 'w
    \<Rightarrow> DiscoveryEvent list \<times> MdnsDiscoveryService \<times> 'w" where
  "service_run me [] sv w = ([], sv, w)"
| "service_run me (op # ops) sv w =
     (let (evs, sv1, w1) = service_op me op sv w;
          (evs', sv2, w2) = service_run me ops sv1 w1
      in (evs @ evs', sv2, w2))"

section \<open>Consistency\<close>

definition advert_ok :: "MdnsDiscoveryService \<Rightarrow> bool" where
  "advert_ok sv \<longleftrightarrow>
     (let ld = sv_local_status sv; pf = sv_profile sv in
      ld_device_id ld = pf_device_id pf \<and> ld_capabilities ld = pf_capabilities pf
      \<and> ld_availability ld = pf_availability pf
      \<and> (supports_receiver (pf_capabilities pf) \<longleftrightarrow> pf_availability pf \<noteq> DeviceAvailability.Unavailable)
      \<and> (supports_receiver (pf_capabilities pf) \<longleftrightarrow> ld_receiver_status ld = ReceiverListening)
      \<and> (case ld_advertised_endpoint ld of None \<Rightarrow> True | Some e \<Rightarrow> te_device_id e = pf_device_id pf))"

definition daemon_ok :: "MdnsDiscoveryService \<Rightarrow> bool" where
  "daemon_ok sv \<longleftrightarrow>
     (ld_advertised (sv_local_status sv) \<longleftrightarrow> sv_advertised_fullname sv \<noteq> None)
     \<and> (sv_advertised_fullname sv \<noteq> None \<longrightarrow> sv_daemon sv)
     \<and> (sv_daemon sv \<longrightarrow> sv_browse_receiver sv \<and> dc_enabled (sv_config sv))"

definition service_ok :: "MdnsDiscoveryService \<Rightarrow> bool" where
  "service_ok sv \<longleftrightarrow> registry_ok (sv_registry sv) \<and> sv_pending_events sv = [] \<and> advert_ok sv \<and> daemon_ok sv"

lemma service_new_ok: "service_ok (service_new rf h v config name)"
  by (simp add: service_ok_def service_new_def service_with_profile_def default_profile_def registry_new_ok
      advert_ok_def daemon_ok_def capabilities_sender_def)

lemma upd_local_simps [simp]:
  "sv_config (upd_local f sv) = sv_config sv" "sv_profile (upd_local f sv) = sv_profile sv"
  "sv_registry (upd_local f sv) = sv_registry sv" "sv_daemon (upd_local f sv) = sv_daemon sv"
  "sv_browse_receiver (upd_local f sv) = sv_browse_receiver sv"
  "sv_advertised_fullname (upd_local f sv) = sv_advertised_fullname sv"
  "sv_pending_events (upd_local f sv) = sv_pending_events sv"
  "sv_local_status (upd_local f sv) = f (sv_local_status sv)"
  by (simp_all add: upd_local_def)

text \<open>The registry and the queue are only touched by polling and pruning.\<close>

definition same_devices :: "MdnsDiscoveryService \<Rightarrow> MdnsDiscoveryService \<Rightarrow> bool" where
  "same_devices sv sv' \<longleftrightarrow> sv_registry sv' = sv_registry sv \<and> sv_pending_events sv' = sv_pending_events sv
     \<and> sv_config sv' = sv_config sv \<and> pf_device_id (sv_profile sv') = pf_device_id (sv_profile sv)"

lemma same_devices_refl: "same_devices sv sv"
  by (simp add: same_devices_def)

lemma same_devices_trans: "same_devices a b \<Longrightarrow> same_devices b c \<Longrightarrow> same_devices a c"
  by (simp add: same_devices_def)

lemma advert_ok_simps [simp]:
  "advert_ok (sv\<lparr>sv_daemon := x\<rparr>) = advert_ok sv"
  "advert_ok (sv\<lparr>sv_browse_receiver := x\<rparr>) = advert_ok sv"
  "advert_ok (sv\<lparr>sv_advertised_fullname := y\<rparr>) = advert_ok sv"
  "advert_ok (upd_local (ld_advertised_update (\<lambda>_. x)) sv) = advert_ok sv"
  "advert_ok (upd_local (ld_browse_active_update (\<lambda>_. x)) sv) = advert_ok sv"
  "advert_ok (upd_local (ld_last_error_update (\<lambda>_. y)) sv) = advert_ok sv"
  "advert_ok (upd_local (\<lambda>ld. ld\<lparr>ld_advertised := x, ld_last_advertised_unix_ms := z,
     ld_last_error := y\<rparr>) sv) = advert_ok sv"
  by (simp_all add: advert_ok_def upd_local_def Let_def)

lemma withdraw_advert: "advert_ok (fst (withdraw me sv w)) = advert_ok sv"
  by (simp add: withdraw_def split: option.split)

lemma withdraw_same: "same_devices sv (fst (withdraw me sv w))"
  by (simp add: withdraw_def same_devices_def split: option.split)

lemma withdraw_fields:
  "sv_daemon (fst (withdraw me sv w)) = sv_daemon sv"
  "sv_browse_receiver (fst (withdraw me sv w)) = sv_browse_receiver sv"
  "sv_advertised_fullname (fst (withdraw me sv w)) = None"
  "ld_advertised (sv_local_status sv) = (sv_advertised_fullname sv \<noteq> None)
    \<Longrightarrow> \<not> ld_advertised (sv_local_status (fst (withdraw me sv w)))"
  "sv_config (fst (withdraw me sv w)) = sv_config sv"
  by (simp_all add: withdraw_def split: option.split)

lemma withdraw_other:
  "sv_profile (fst (withdraw me sv w)) = sv_profile sv"
  "ld_receiver_status (sv_local_status (fst (withdraw me sv w))) = ld_receiver_status (sv_local_status sv)"
  "ld_capabilities (sv_local_status (fst (withdraw me sv w))) = ld_capabilities (sv_local_status sv)"
  "ld_availability (sv_local_status (fst (withdraw me sv w))) = ld_availability (sv_local_status sv)"
  "ld_advertised_endpoint (sv_local_status (fst (withdraw me sv w))) = ld_advertised_endpoint (sv_local_status sv)"
  by (simp_all add: withdraw_def split: option.split)

lemma refresh_cases:
  obtains (idle) "\<not> sv_daemon sv" "refresh_local_advertisement me sv w = (Inr (), sv, w)"
  | (failed) e w' where "sv_daemon sv" "refresh_local_advertisement me sv w = (Inl e, fst (withdraw me sv w), w')"
  | (advertised) n now w' where "sv_daemon sv" "refresh_local_advertisement me sv w =
      (Inr (), upd_local (\<lambda>ld. ld\<lparr>ld_advertised := True, ld_last_advertised_unix_ms := Some now,
         ld_last_error := None\<rparr>) (fst (withdraw me sv w)\<lparr>sv_advertised_fullname := Some n\<rparr>), w')"
proof (cases "sv_daemon sv")
  case True
  obtain sv1 w1 where w: "withdraw me sv w = (sv1, w1)" by fastforce
  show thesis
  proof (cases "build_service_info me sv1")
    case (Inl e)
    then show thesis using failed [of e w1] True w by (simp add: refresh_local_advertisement_def)
  next
    case (Inr info)
    obtain x w2 where reg: "me_register me info w1 = (x, w2)" by fastforce
    obtain now w3 where now: "ck_unix_ms (me_clock me) w2 = (now, w3)" by fastforce
    show thesis
    proof (cases x)
      case (Inl e)
      then show thesis
        using failed [of "Register e" w2] True w Inr reg by (simp add: refresh_local_advertisement_def)
    next
      case x: (Inr u)
      then show thesis
        using advertised [of now "si_fullname info" w3] True w Inr reg now
        by (simp add: refresh_local_advertisement_def)
    qed
  qed
qed (use idle in \<open>simp add: refresh_local_advertisement_def\<close>)

lemma refresh_result:
  assumes "refresh_local_advertisement me sv w = (r, sv', w')"
  shows "same_devices sv sv' \<and> advert_ok sv' = advert_ok sv \<and> (daemon_ok sv \<longrightarrow> daemon_ok sv')"
proof (cases me sv w rule: refresh_cases)
  case idle
  then show ?thesis using assms by (simp add: same_devices_refl)
next
  case failed
  then have "sv' = fst (withdraw me sv w)" using assms by simp
  then show ?thesis
    using withdraw_same [of sv me w] withdraw_advert [of me sv w] withdraw_fields [where sv = sv and me = me and w = w]
    by (auto simp: daemon_ok_def)
next
  case (advertised n now w'')
  let ?s = "fst (withdraw me sv w)\<lparr>sv_advertised_fullname := Some n\<rparr>"
  have sv': "sv' = upd_local (\<lambda>ld. ld\<lparr>ld_advertised := True, ld_last_advertised_unix_ms := Some now,
      ld_last_error := None\<rparr>) ?s"
    using assms advertised by simp
  have "same_devices sv sv'" using withdraw_same [of sv me w] by (simp add: sv' same_devices_def)
  moreover have "advert_ok sv' = advert_ok sv" by (simp add: sv' withdraw_advert)
  moreover have "daemon_ok sv \<longrightarrow> daemon_ok sv'"
    using advertised(1) withdraw_fields [where sv = sv and me = me and w = w] by (simp add: sv' daemon_ok_def)
  ultimately show ?thesis by simp
qed

lemma stop_result:
  assumes "service_stop me sv w = (r, sv', w')"
  shows "same_devices sv sv'" "advert_ok sv' = advert_ok sv" "daemon_ok sv \<Longrightarrow> daemon_ok sv'"
proof -
  define sv1 where "sv1 = fst (withdraw me (sv\<lparr>sv_daemon := False\<rparr>) w)"
  have cases: "sv' = sv \<and> \<not> sv_daemon sv \<or> sv' = sv1
      \<or> sv' = upd_local (ld_browse_active_update (\<lambda>_. False)) (sv1\<lparr>sv_browse_receiver := False\<rparr>)"
    using assms by (auto simp: service_stop_def sv1_def Let_def split_def split: if_splits sum.splits prod.splits)
  have sv1: "same_devices sv sv1" "advert_ok sv1 = advert_ok sv" "\<not> sv_daemon sv1"
      "sv_advertised_fullname sv1 = None"
      "ld_advertised (sv_local_status sv) = (sv_advertised_fullname sv \<noteq> None)
        \<Longrightarrow> \<not> ld_advertised (sv_local_status sv1)"
    using withdraw_same [of "sv\<lparr>sv_daemon := False\<rparr>" me w] withdraw_advert [of me "sv\<lparr>sv_daemon := False\<rparr>" w]
      withdraw_fields [where sv = "sv\<lparr>sv_daemon := False\<rparr>" and me = me and w = w]
    by (simp_all add: sv1_def same_devices_def)
  show "same_devices sv sv'" using cases sv1(1) by (auto simp: same_devices_def)
  show "advert_ok sv' = advert_ok sv" using cases sv1(2) by auto
  show "daemon_ok sv'" if "daemon_ok sv" using cases sv1 that by (auto simp: daemon_ok_def)
qed

lemma apply_advertisement_result:
  "same_devices sv (apply_advertisement st caps av ep err port sv)"
  "daemon_ok (apply_advertisement st caps av ep err port sv) = daemon_ok sv"
  by (simp_all add: apply_advertisement_def same_devices_def daemon_ok_def)

lemma advertised_endpoint_id:
  "case fst (advertised_endpoint me d a w) of None \<Rightarrow> True | Some e \<Rightarrow> te_device_id e = d"
  by (auto simp: advertised_endpoint_def Let_def split_def split: option.split)

lemma advertised_agree:
  "supports_receiver (advertised_capabilities l a) \<longleftrightarrow> advertised_availability l a b \<noteq> DeviceAvailability.Unavailable"
  "supports_receiver (advertised_capabilities l a) \<longleftrightarrow> advertised_status r l a = ReceiverListening"
  by (simp_all add: advertised_capabilities_def advertised_availability_def advertised_status_def
      capabilities_sender_def capabilities_sender_receiver_def)

lemma apply_advertisement_advert:
  assumes "ld_device_id (sv_local_status sv) = pf_device_id (sv_profile sv)"
    and "case ep of None \<Rightarrow> True | Some e \<Rightarrow> te_device_id e = pf_device_id (sv_profile sv)"
  shows "advert_ok (apply_advertisement (advertised_status r l a) (advertised_capabilities l a)
     (advertised_availability l a b) ep err port sv)"
  using assms advertised_agree [of l a]
  by (simp add: advert_ok_def apply_advertisement_def Let_def split: option.splits)

lemma advert_ok_device: "advert_ok sv \<Longrightarrow> ld_device_id (sv_local_status sv) = pf_device_id (sv_profile sv)"
  by (simp add: advert_ok_def Let_def)

lemma sync_result:
  assumes "sync_receiver_advertisement me a b c d e sv w = (r, sv', w')"
  shows "same_devices sv sv' \<and> (advert_ok sv \<longrightarrow> advert_ok sv') \<and> (daemon_ok sv \<longrightarrow> daemon_ok sv')"
proof -
  obtain ep w1 where ep: "advertised_endpoint me (pf_device_id (sv_profile sv)) c w = (ep, w1)" by fastforce
  define port where "port = (case c of Some a \<Rightarrow> sa_port a | None \<Rightarrow> pf_port (sv_profile sv))"
  define sv1 where "sv1 = apply_advertisement (advertised_status a b c) (advertised_capabilities b c)
     (advertised_availability b c d) ep e port sv"
  obtain x sv2 w2 where ref: "refresh_local_advertisement me sv1 w1 = (x, sv2, w2)" by (metis prod_cases3)
  have cases: "sv' = sv1 \<or> sv' = sv2 \<or> (\<exists>t. sv' = upd_local (ld_last_error_update (\<lambda>_. t)) sv2)"
    using assms
    by (auto simp: sync_receiver_advertisement_def ep port_def [symmetric] sv1_def [symmetric] ref Let_def
        split: if_splits sum.splits)
  have ids: "case ep of None \<Rightarrow> True | Some e \<Rightarrow> te_device_id e = pf_device_id (sv_profile sv)"
    using advertised_endpoint_id [where me = me and d = "pf_device_id (sv_profile sv)" and a = c and w = w]
    by (simp add: ep)
  have one: "same_devices sv sv1" "daemon_ok sv \<longrightarrow> daemon_ok sv1"
    by (simp_all add: sv1_def apply_advertisement_result)
  have "advert_ok sv \<longrightarrow> advert_ok sv1"
    unfolding sv1_def using ids by (auto intro: apply_advertisement_advert simp: advert_ok_device)
  note one = one this
  from refresh_result [OF ref] one have two: "same_devices sv sv2" "daemon_ok sv \<longrightarrow> daemon_ok sv2"
      "advert_ok sv \<longrightarrow> advert_ok sv2"
    by (auto intro: same_devices_trans)
  have three: "same_devices sv (upd_local (ld_last_error_update (\<lambda>_. t)) sv2)"
      "daemon_ok (upd_local (ld_last_error_update (\<lambda>_. t)) sv2) = daemon_ok sv2" for t
    using two(1) by (simp_all add: same_devices_def daemon_ok_def)
  from cases one two three show ?thesis by auto
qed

lemma start_result:
  assumes "service_start me sv w = (r, sv', w')"
  shows "same_devices sv sv' \<and> (advert_ok sv \<longrightarrow> advert_ok sv') \<and> (daemon_ok sv \<longrightarrow> daemon_ok sv')"
proof -
  define sv1 where "sv1 = upd_local (ld_browse_active_update (\<lambda>_. True)) sv
     \<lparr>sv_browse_receiver := True, sv_daemon := True\<rparr>"
  have one: "same_devices sv sv1" "advert_ok sv1 = advert_ok sv"
      "daemon_ok sv \<Longrightarrow> dc_enabled (sv_config sv) \<Longrightarrow> daemon_ok sv1"
    by (simp_all add: sv1_def same_devices_def) (simp add: daemon_ok_def)
  obtain x w1 where d: "me_new_daemon me w = (x, w1)" by fastforce
  obtain y w2 where b: "me_browse me (dc_service_type (sv_config sv)) w1 = (y, w2)" by fastforce
  obtain z sv2 w3 where ref: "refresh_local_advertisement me sv1 w2 = (z, sv2, w3)" by (metis prod_cases3)
  obtain u sv3 w4 where stop: "service_stop me sv2 w3 = (u, sv3, w4)" by (metis prod_cases3)
  have cases: "sv' = sv \<or> dc_enabled (sv_config sv) \<and> (sv' = sv2 \<or> sv' = sv3)"
    using assms
    by (auto simp: service_start_def d b sv1_def [symmetric] ref stop Let_def split: if_splits sum.splits)
  from refresh_result [OF ref] one have two: "same_devices sv sv2" "advert_ok sv2 = advert_ok sv"
      "daemon_ok sv \<Longrightarrow> dc_enabled (sv_config sv) \<Longrightarrow> daemon_ok sv2"
    by (auto intro: same_devices_trans)
  with stop_result [OF stop] have three: "same_devices sv sv3" "advert_ok sv3 = advert_ok sv"
      "daemon_ok sv \<Longrightarrow> dc_enabled (sv_config sv) \<Longrightarrow> daemon_ok sv3"
    by (auto intro: same_devices_trans)
  from cases two three show ?thesis by (auto simp: same_devices_refl)
qed

section \<open>Polling and pruning\<close>

lemma event_of_opt: "event_of (Inr x) = opt_list x"
  by (cases x) simp_all

text \<open>An mDNS event changes the registry as the events it queues tell.\<close>

lemma handle_result:
  assumes "handle_mdns_event ck ev sv w = (sv', w')" "sv_pending_events sv = []" "registry_ok (sv_registry sv)"
  shows "tells (sv_pending_events sv') (sv_registry sv) (sv_registry sv')
    \<and> length (sv_pending_events sv') \<le> 1 \<and> registry_ok (sv_registry sv')
    \<and> (advert_ok sv \<longrightarrow> advert_ok sv') \<and> (daemon_ok sv \<longrightarrow> daemon_ok sv')"
proof (cases ev)
  case (ServiceResolved service)
  obtain now w1 where n: "ck_unix_ms ck w = (now, w1)" by fastforce
  define d where "d = discovered_device_from_resolved service (pf_device_id (sv_profile sv)) now"
  obtain ev' r w2 where up: "registry_upsert ck d (sv_registry sv) w1 = (ev', r, w2)" by (metis prod_cases3)
  have "sighted d" by (simp add: d_def resolved_sighted)
  note up_ok = upsert_tells [OF assms(3) this up] registry_upsert_ok [OF assms(3) this, of ck w1]
  have "sv' = push_event ev' (sv\<lparr>sv_registry := r\<rparr>)"
    using assms(1) by (simp add: handle_mdns_event_def ServiceResolved n d_def [symmetric] up)
  with up_ok up assms(2) show ?thesis
    by (cases ev') (simp_all add: push_event_def advert_ok_def daemon_ok_def)
next
  case (ServiceRemoved t f)
  obtain ev' r where rm: "mark_removed_by_fullname f (sv_registry sv) = (ev', r)" by fastforce
  have "sv' = push_event ev' (sv\<lparr>sv_registry := r\<rparr>)"
    using assms(1) by (simp add: handle_mdns_event_def ServiceRemoved rm)
  with mark_removed_tells [OF assms(3) rm] mark_removed_ok [OF assms(3), of f] rm assms(2) show ?thesis
    by (cases ev') (simp_all add: push_event_def advert_ok_def daemon_ok_def)
qed (use assms in \<open>auto simp: handle_mdns_event_def tells_refl daemon_ok_def\<close>)

lemma pop_result:
  "length (sv_pending_events sv) \<le> 1 \<Longrightarrow>
     pop_event sv = (e, sv') \<Longrightarrow> opt_list e = sv_pending_events sv \<and> sv' = sv\<lparr>sv_pending_events := []\<rparr>"
  by (cases "sv_pending_events sv") (auto simp: pop_event_def)

definition op_good :: "DiscoveryEvent list \<Rightarrow> MdnsDiscoveryService \<Rightarrow> MdnsDiscoveryService \<Rightarrow> bool" where
  "op_good evs sv sv' \<longleftrightarrow> service_ok sv' \<and> tells evs (sv_registry sv) (sv_registry sv')"

lemma same_devices_good:
  assumes "service_ok sv" "same_devices sv sv' \<and> (advert_ok sv \<longrightarrow> advert_ok sv') \<and> (daemon_ok sv \<longrightarrow> daemon_ok sv')"
  shows "op_good [] sv sv'"
  using assms by (simp add: op_good_def service_ok_def same_devices_def tells_refl)

lemma poll_good:
  assumes ok: "service_ok sv" and poll: "service_poll_event me sv w = (r, sv', w')"
  shows "op_good (event_of r) sv sv'"
proof -
  have empty: "pop_event sv = (None, sv)" using ok by (simp add: service_ok_def pop_event_def)
  obtain x w1 where recv: "me_try_recv me w = (x, w1)" by fastforce
  have idle: "op_good [] sv sv" using ok by (simp add: op_good_def tells_refl)
  show ?thesis
  proof (cases "sv_browse_receiver sv")
    case False
    then show ?thesis using poll idle by (auto simp: service_poll_event_def empty)
  next
    case True
    show ?thesis
    proof (cases x)
      case (BrowseOk ev)
      obtain sv2 w2 where h: "handle_mdns_event (me_clock me) ev sv w1 = (sv2, w2)" by fastforce
      obtain e sv3 where p: "pop_event sv2 = (e, sv3)" by fastforce
      have res: "r = Inr e" "sv' = sv3"
        using poll True BrowseOk by (simp_all add: service_poll_event_def empty recv h p)
      have "sv_pending_events sv = []" "registry_ok (sv_registry sv)" using ok by (simp_all add: service_ok_def)
      note h_ok = handle_result [OF h this]
      then have "opt_list e = sv_pending_events sv2 \<and> sv3 = sv2\<lparr>sv_pending_events := []\<rparr>"
        using pop_result [OF _ p] by simp
      with h_ok ok show ?thesis
        by (simp add: res event_of_opt op_good_def service_ok_def advert_ok_def daemon_ok_def)
    qed (use poll True idle in \<open>auto simp: service_poll_event_def empty recv\<close>)
  qed
qed

lemma prune_good:
  assumes ok: "service_ok sv" and prune: "service_prune_stale me sv w = (r, sv', w')"
  shows "op_good (case r of Inl _ \<Rightarrow> [] | Inr evs \<Rightarrow> evs) sv sv'"
proof -
  obtain evs reg w1 where p: "registry_prune_stale (me_clock me) (sv_registry sv) w = (evs, reg, w1)"
    by (metis prod_cases3)
  have r: "registry_ok (sv_registry sv)" using ok by (simp add: service_ok_def)
  show ?thesis
    using prune ok prune_stale_tells [OF r p] registry_prune_ok [OF r, of "me_clock me" w]
    by (auto simp: service_prune_stale_def p op_good_def service_ok_def advert_ok_def daemon_ok_def)
qed

lemma op_is_good:
  assumes ok: "service_ok sv" and op: "service_op me op sv w = (evs, sv', w')"
  shows "op_good evs sv sv'"
proof (cases op)
  case OpStart
  then obtain r where r: "service_start me sv w = (r, sv', w')" and "evs = []"
    using op by (cases "service_start me sv w") auto
  with same_devices_good [OF ok start_result [OF r]] show ?thesis by simp
next
  case OpStop
  then obtain r where r: "service_stop me sv w = (r, sv', w')" and "evs = []"
    using op by (cases "service_stop me sv w") auto
  with stop_result [OF r] same_devices_good [OF ok, of sv'] show ?thesis by simp
next
  case (OpSync a b c d e)
  then obtain r where r: "sync_receiver_advertisement me a b c d e sv w = (r, sv', w')" and "evs = []"
    using op by (cases "sync_receiver_advertisement me a b c d e sv w") auto
  with same_devices_good [OF ok sync_result [OF r]] show ?thesis by simp
next
  case OpPoll
  obtain r sv1 w1 where "service_poll_event me sv w = (r, sv1, w1)" by (metis prod_cases3)
  then show ?thesis using op OpPoll poll_good [OF ok] by auto
next
  case OpPrune
  obtain r sv1 w1 where "service_prune_stale me sv w = (r, sv1, w1)" by (metis prod_cases3)
  then show ?thesis using op OpPrune prune_good [OF ok] by auto
qed

lemma run_is_good:
  "service_ok sv \<Longrightarrow> service_run me ops sv w = (evs, sv', w') \<Longrightarrow> op_good evs sv sv'"
proof (induction ops arbitrary: sv w evs sv' w')
  case Nil
  then show ?case by (simp add: op_good_def tells_refl)
next
  case (Cons op ops)
  obtain evs1 sv1 w1 where one: "service_op me op sv w = (evs1, sv1, w1)" by (metis prod_cases3)
  obtain evs2 sv2 w2 where two: "service_run me ops sv1 w1 = (evs2, sv2, w2)" by (metis prod_cases3)
  have res: "evs = evs1 @ evs2" "sv' = sv2" using Cons.prems(2) by (simp_all add: one two)
  from op_is_good [OF Cons.prems(1) one] have a: "op_good evs1 sv sv1" .
  then have "op_good evs2 sv1 sv2" using Cons.IH [OF _ two] by (simp add: op_good_def)
  with a show ?case unfolding res op_good_def by (blast intro: tells_append)
qed

lemma service_op_keeps: "service_ok sv \<Longrightarrow> service_ok (fst (snd (service_op me op sv w)))"
  using op_is_good [of sv me op w] by (metis op_good_def prod.collapse)

interpretation discovery: labelled_system "\<lambda>(me, op) (sv, w). snd (service_op me op sv w)"
    "\<lambda>(sv, w). service_ok sv"
  by unfold_locales (simp add: split_def service_op_keeps)

section \<open>The devices the application shows\<close>

definition app_view :: "AppState \<Rightarrow> DeviceId \<rightharpoonup> DiscoveredDevice" where
  "app_view s k = map_option untimed (map_of (map (\<lambda>d. (dd_id d, d)) (st_discovered_devices s)) k)"

lemma map_of_upsert_device:
  "map_of (map (\<lambda>d. (dd_id d, d)) (upsert_by (\<lambda>d. dd_id d = dd_id x) x ds))
     = (map_of (map (\<lambda>d. (dd_id d, d)) ds))(dd_id x \<mapsto> x)"
  by (induction ds) (auto simp: fun_eq_iff)

lemma map_of_filter_device:
  "map_of (map (\<lambda>d. (dd_id d, d)) (filter (\<lambda>d. dd_id d \<noteq> k) ds))
     = (map_of (map (\<lambda>d. (dd_id d, d)) ds))(k := None)"
  by (induction ds) (auto simp: fun_eq_iff)

lemma reconcile_devices: "st_discovered_devices (reconcile_selected_receiver s) = st_discovered_devices s"
  by (simp add: reconcile_selected_receiver_def split: option.split)

lemma app_view_event: "app_view (apply_discovery_event e s) = view_step e (app_view s)"
  by (cases e) (auto simp: app_view_def apply_discovery_event_def reconcile_devices upsert_discovered_device_def
      map_of_upsert_device map_of_filter_device fun_eq_iff)

lemma app_view_fold: "app_view (fold apply_discovery_event evs s) = fold view_step evs (app_view s)"
  by (induction evs arbitrary: s) (simp_all add: app_view_event)

section \<open>What a peer reads\<close>

lemma digit_is_digit: "d < 10 \<Longrightarrow> is_digit (digit_char d)"
  by (simp add: is_digit_def of_char_digit)

lemma show_nat_digits: "list_all is_digit (show_nat n) \<and> show_nat n \<noteq> []"
proof (induction n rule: show_nat.induct)
  case (1 n)
  then show ?case
    by (subst (1 2) show_nat.simps) (auto simp: digit_is_digit)
qed

lemma parse_show_u16: "parse_u16 (show_word (w :: u16)) = Some w"
proof -
  obtain c cs where c: "show_nat (unat w) = c # cs" using show_nat_digits [of "unat w"] by (cases "show_nat (unat w)") auto
  have "is_digit c" using show_nat_digits [of "unat w"] by (simp add: c)
  then have "c \<noteq> CHR ''+''" by (auto simp: is_digit_def)
  moreover have "unat w < 65536" using unsigned_less [of w, where ?'a = nat] by simp
  ultimately show ?thesis
    using show_nat_digits [of "unat w"] digits_val_show_nat [of "unat w"]
    by (simp add: parse_u16_def show_word_def c Let_def)
qed

lemma parse_availability_txt: "parse_availability (availability_txt a) = a"
  by (cases a) (simp_all add: parse_availability_def)

lemma parse_receiver_state_txt:
  "parse_receiver_state (Some (receiver_state_txt r a)) =
     (if \<not> r then AdIdle else if a = DeviceAvailability.Unavailable then AdUnavailable else AdListening)"
  by (cases a) (simp_all add: receiver_state_txt_def parse_receiver_state_def)

lemma txt_lookup:
  assumes "rs_property service = map_of (txt_properties prof)"
  shows "rs_property service ''device_id'' = Some (device_str (pf_device_id prof))"
    "rs_property service ''device_name'' = Some (pf_device_name prof)"
    "rs_property service ''app_version'' = Some (pf_app_version prof)"
    "rs_property service ''protocol_version'' = Some (show_word DISCOVERY_PROTOCOL_VERSION)"
    "rs_property service ''sender'' = Some (show_bool (supports_sender (pf_capabilities prof)))"
    "rs_property service ''receiver'' = Some (show_bool (supports_receiver (pf_capabilities prof)))"
    "rs_property service ''bluetooth'' = Some (show_bool (supports_bluetooth_output (pf_capabilities prof)))"
    "rs_property service ''local_output'' = Some (show_bool (supports_local_output (pf_capabilities prof)))"
    "rs_property service ''availability'' = Some (availability_txt (pf_availability prof))"
    "rs_property service ''receiver_state'' =
       Some (receiver_state_txt (supports_receiver (pf_capabilities prof)) (pf_availability prof))"
  by (simp_all add: assms txt_properties_def Let_def)

lemma txt_bool_show: "rs_property service k = Some (show_bool b) \<Longrightarrow> txt_bool service k = b"
  by (simp add: txt_bool_def show_bool_def)

lemma device_str_inverse: "DeviceId (device_str i) = i"
  by (cases i) simp

lemma resolved_profile:
  assumes "rs_property service = map_of (txt_properties prof)"
    and "device_str (pf_device_id prof) \<noteq> []" and "pf_device_name prof \<noteq> []"
  shows "discovered_device_from_resolved service own now =
    (let receiver = supports_receiver (pf_capabilities prof);
         endpoint = (if receiver
           then select_preferred_endpoint (pf_device_id prof) (rs_addresses service) (rs_port service) else None)
     in \<lparr>dd_id = pf_device_id prof, dd_display_name = pf_device_name prof, dd_app_version = pf_app_version prof,
       dd_protocol_version = DISCOVERY_PROTOCOL_VERSION, dd_capabilities = pf_capabilities prof,
       dd_availability = pf_availability prof,
       dd_status = (if pf_device_id prof = own then SelfDevice
         else if pf_availability prof = DeviceAvailability.Unavailable then DeviceStatus.Unavailable
         else if \<not> receiver then Discovered
         else if endpoint \<noteq> None then Reachable else ReceiverListening),
       dd_endpoint = endpoint, dd_service_fullname = rs_fullname service, dd_last_seen_unix_ms = now\<rparr>)"
proof -
  note props = txt_lookup [OF assms(1)]
  have caps: "txt_bool service ''sender'' = supports_sender (pf_capabilities prof)"
      "txt_bool service ''receiver'' = supports_receiver (pf_capabilities prof)"
      "txt_bool service ''bluetooth'' = supports_bluetooth_output (pf_capabilities prof)"
      "txt_bool service ''local_output'' = supports_local_output (pf_capabilities prof)"
    by (simp_all add: txt_bool_show props)
  have names: "property_or_fullname service ''device_id'' = device_str (pf_device_id prof)"
      "property_or_fullname service ''device_name'' = pf_device_name prof"
    using assms(2,3) by (simp_all add: property_or_fullname_def props)
  show ?thesis
    by (simp add: discovered_device_from_resolved_def Let_def names caps props parse_show_u16 parse_availability_txt
        parse_receiver_state_txt device_str_inverse derive_device_status_def)
qed

section \<open>A run\<close>

text \<open>A network that reports a list of events, one a poll, with a clock that stands still.\<close>

definition demo_env :: "ServiceEvent list mdns_env" where
  "demo_env = \<lparr>me_clock = \<lparr>ck_now = \<lambda>w. (0, w), ck_unix_ms = \<lambda>w. (7, w)\<rparr>,
     me_new_daemon = \<lambda>w. (Inr (), w), me_browse = \<lambda>_ w. (Inr (), w),
     me_service_info = \<lambda>args. Inr (sg_instance_name args @ ''.'' @ sg_service_type args),
     me_register = \<lambda>_ w. (Inr (), w), me_unregister = \<lambda>_ w. (Inr (), w),
     me_stop_browse = \<lambda>_ w. (Inr (), w), me_shutdown = \<lambda>w. (Inr (), w),
     me_try_recv = \<lambda>w. (case w of [] \<Rightarrow> (BrowseEmpty, []) | e # es \<Rightarrow> (BrowseOk e, es)),
     me_udp_bind = \<lambda>_ w. (None, w), me_udp_connect = \<lambda>_ _ w. (False, w),
     me_udp_local_addr = \<lambda>_ w. (None, w), me_hostname = \<lambda>w. (None, w),
     me_to_socket_addrs = \<lambda>_ w. (None, w)\<rparr>"

definition demo_profile :: LocalDiscoveryProfile where
  "demo_profile = \<lparr>pf_device_id = DeviceId ''den'', pf_device_name = ''Den'', pf_app_version = ''0.1.3'',
     pf_capabilities = capabilities_sender_receiver, pf_availability = DeviceAvailability.Available,
     pf_port = 51700\<rparr>"

text \<open>The service of a device as its peers resolve it.\<close>

definition service_of :: "LocalDiscoveryProfile \<Rightarrow> string \<Rightarrow> IpAddr list \<Rightarrow> resolved_service" where
  "service_of prof fullname addresses = \<lparr>rs_fullname = fullname, rs_property = map_of (txt_properties prof),
     rs_addresses = addresses, rs_port = pf_port prof\<rparr>"

definition demo_resolved :: "u16 \<Rightarrow> ServiceEvent" where
  "demo_resolved port =
     ServiceResolved (service_of (demo_profile\<lparr>pf_port := port\<rparr>) ''Den._s'' [V4 127 0 0 1, V4 192 168 0 7])"

definition demo_device :: "u16 \<Rightarrow> DiscoveredDevice" where
  "demo_device port = \<lparr>dd_id = DeviceId ''den'', dd_display_name = ''Den'', dd_app_version = ''0.1.3'',
     dd_protocol_version = DISCOVERY_PROTOCOL_VERSION, dd_capabilities = capabilities_sender_receiver,
     dd_availability = DeviceAvailability.Available, dd_status = Reachable,
     dd_endpoint = Some \<lparr>te_device_id = DeviceId ''den'',
       te_address = \<lparr>sa_ip = V4 192 168 0 7, sa_port = port\<rparr>\<rparr>,
     dd_service_fullname = ''Den._s'', dd_last_seen_unix_ms = 7\<rparr>"

definition demo_entry :: RegistryEntry where
  "demo_entry = \<lparr>rg_device = demo_device 51700, rg_last_seen = 0, rg_marked_stale = False\<rparr>"

definition demo_service :: MdnsDiscoveryService where
  "demo_service = service_new (\<lambda>_. None) (Some ''Attic'') ''0.1.3'' default_discovery_config ''Attic''"

definition demo_started :: MdnsDiscoveryService where
  "demo_started = demo_service
     \<lparr>sv_daemon := True, sv_browse_receiver := True, sv_advertised_fullname := Some (''Attic.'' @ dc_service_type default_discovery_config),
      sv_local_status := (sv_local_status demo_service)\<lparr>ld_browse_active := True, ld_advertised := True,
        ld_last_advertised_unix_ms := Some 7\<rparr>\<rparr>"

definition demo_known :: MdnsDiscoveryService where
  "demo_known = demo_started\<lparr>sv_registry := registry_put (DeviceId ''den'') demo_entry (sv_registry demo_started)\<rparr>"

lemma demo_endpoint:
  "select_preferred_endpoint i [V4 127 0 0 1, V4 192 168 0 7] p =
     Some \<lparr>te_device_id = i, te_address = \<lparr>sa_ip = V4 192 168 0 7, sa_port = p\<rparr>\<rparr>"
  by (simp add: select_preferred_endpoint_def select_preferred_ip_address_def is_remote_selection_candidate_def
      better_address_def)

lemma demo_id: "deterministic_device_id (\<lambda>_. None) (Some ''Attic'') = ''synchrosonic-attic''"
  by code_simp

lemma demo_seen:
  "discovered_device_from_resolved
     (service_of (demo_profile\<lparr>pf_port := port\<rparr>) ''Den._s'' [V4 127 0 0 1, V4 192 168 0 7])
     (DeviceId ''synchrosonic-attic'') 7 = demo_device port"
  by (auto simp: resolved_profile [where prof = "demo_profile\<lparr>pf_port := port\<rparr>"] service_of_def demo_endpoint
      demo_device_def Let_def demo_profile_def capabilities_sender_receiver_def)

lemmas demo_service_defs = demo_service_def service_new_def service_with_profile_def default_profile_def demo_id

lemma demo_env_simps [simp]:
  "me_clock demo_env = \<lparr>ck_now = \<lambda>w. (0, w), ck_unix_ms = \<lambda>w. (7, w)\<rparr>"
  "me_new_daemon demo_env = (\<lambda>w. (Inr (), w))" "me_browse demo_env = (\<lambda>_ w. (Inr (), w))"
  "me_service_info demo_env = (\<lambda>args. Inr (sg_instance_name args @ ''.'' @ sg_service_type args))"
  "me_register demo_env = (\<lambda>_ w. (Inr (), w))"
  "me_try_recv demo_env = (\<lambda>w. case w of [] \<Rightarrow> (BrowseEmpty, []) | e # es \<Rightarrow> (BrowseOk e, es))"
  by (simp_all add: demo_env_def)

lemma demo_start: "service_op demo_env OpStart demo_service w = ([], demo_started, w)"
  by (simp add: service_start_def demo_service_defs demo_started_def default_discovery_config_def
      refresh_local_advertisement_def withdraw_def build_service_info_def upd_local_def Let_def)

lemma demo_poll: "service_op demo_env OpPoll demo_started [demo_resolved 51700] =
    ([DeviceDiscovered (demo_device 51700)], demo_known, [])"
  by (simp add: service_poll_event_def pop_event_def demo_started_def demo_service_defs demo_resolved_def
      handle_mdns_event_def demo_seen registry_upsert_def registry_new_def registry_lookup_def push_event_def
      demo_known_def demo_entry_def registry_put_def Let_def) (simp add: demo_device_def)

lemma demo_run: "service_run demo_env [OpStart, OpPoll] demo_service [demo_resolved 51700] =
    ([DeviceDiscovered (demo_device 51700)], demo_known, [])"
  by (simp only: service_run.simps demo_start demo_poll Let_def split_def fst_conv snd_conv) simp

lemma demo_known_ok: "service_ok demo_known"
  using run_is_good [OF _ demo_run] service_new_ok by (simp add: op_good_def demo_service_def)

text \<open>The receiver has moved to another port; nothing changes.\<close>

lemma demo_moved: "service_run demo_env [OpPoll] demo_known [demo_resolved 51800] = ([], demo_known, [])"
  by (simp add: service_poll_event_def pop_event_def demo_known_def demo_started_def demo_service_defs
      demo_resolved_def handle_mdns_event_def demo_seen registry_upsert_def registry_new_def registry_lookup_def
      registry_put_def push_event_def demo_entry_def Let_def)
    (simp add: demo_device_def merge_discovered_device_def preferred_endpoint_def materially_same_discovered_device_def)

section \<open>Properties\<close>

text \<open>
  C9: Whatever the daemon, the sockets and the clock do, and in any order of start, stop, sync, poll and prune, the discovery
  service is consistent: its registry has one well-formed entry per device id, with an endpoint worth connecting to or none and
  marked stale exactly when its status says so; no event waits; it is advertised exactly while it has a registered name, and
  then browses; and the profile it advertises is the one its local status shows.
\<close>

theorem discovery_service_consistent:
  "case fold (\<lambda>(me, op) (sv, w). snd (service_op me op sv w)) ops (service_new rf h v config name, w) of
     (sv, _) \<Rightarrow> service_ok sv"
  by (rule discovery.good_fold) (simp add: service_new_ok)

text \<open>
  C10: The events that the operations return follow each device's life: it is discovered when it is absent, updated while it is
  known, expires at most once between two sightings, is removed only when it is known; and after them the registry is in the
  state they lead to.
\<close>

theorem device_events_follow_life_cycle:
  assumes "service_run me ops (service_new rf h v config name) w = (evs, sv, w')"
  shows "presence_run k evs Absent = Some (registry_presence (sv_registry sv) k)"
proof -
  have "registry_presence (sv_registry (service_new rf h v config name)) k = Absent"
    by (simp add: service_new_def service_with_profile_def registry_new_def registry_presence_def
        registry_lookup_def entry_presence_def)
  then show ?thesis
    using run_is_good [OF service_new_ok assms] by (metis op_good_def tells_def)
qed

theorem device_events_follow_life_cycle_witness:
  "presence_run (DeviceId ''den'') [DeviceDiscovered (demo_device 51700)] Absent = Some Present"
  using device_events_follow_life_cycle [OF demo_run [unfolded demo_service_def], of "DeviceId ''den''"]
  by (simp add: demo_device_def)

text \<open>
  C12: An application state that applies the events of discovery shows exactly the devices of the registry, each as the registry
  has it, up to the time it was last seen.
\<close>

theorem application_shows_registry:
  assumes "service_run me ops (service_new rf h v config name) w = (evs, sv, w')"
    and "st_discovered_devices s = []"
  shows "app_view (fold apply_discovery_event evs s) = registry_view (sv_registry sv)"
proof -
  have "app_view s = registry_view (sv_registry (service_new rf h v config name))"
    by (simp add: fun_eq_iff app_view_def assms(2) service_new_def service_with_profile_def registry_new_def
        registry_view_def registry_lookup_def entry_view_def)
  then show ?thesis
    using run_is_good [OF service_new_ok assms(1)] by (simp add: app_view_fold op_good_def tells_def)
qed

theorem application_shows_registry_witness:
  "app_view (fold apply_discovery_event [DeviceDiscovered (demo_device 51700)]
     ((app_state_new 0 default_app_config)\<lparr>st_discovered_devices := []\<rparr>)) = registry_view (sv_registry demo_known)"
  by (rule application_shows_registry [OF demo_run [unfolded demo_service_def]]) simp

theorem endpoint_only_yields_to_better_address:
  assumes "service_ok sv" "service_run me ops sv w = (evs, sv', w')"
    and "registry_lookup (sv_registry sv) k = Some e" "\<forall>n. DeviceRemoved k n \<notin> set evs"
  shows "\<exists>e'. registry_lookup (sv_registry sv') k = Some e'
    \<and> endpoint_kept (dd_endpoint (rg_device e)) (dd_endpoint (rg_device e'))"
proof -
  have "entry_kept (registry_lookup (sv_registry sv) k) (registry_lookup (sv_registry sv') k)"
    using run_is_good [OF assms(1,2)] assms(4) by (simp add: op_good_def tells_def)
  then show ?thesis using assms(3) by (auto simp: entry_kept_def split: option.splits)
qed

theorem endpoint_only_yields_to_better_address_witness:
  "service_run demo_env [OpPoll] demo_known [demo_resolved 51800] = ([], demo_known, [])
   \<and> (\<exists>e'. registry_lookup (sv_registry demo_known) (DeviceId ''den'') = Some e'
      \<and> endpoint_kept (dd_endpoint (demo_device 51700)) (dd_endpoint (rg_device e')))"
  using endpoint_only_yields_to_better_address [OF demo_known_ok demo_moved, of "DeviceId ''den''" demo_entry] demo_moved
  by (simp add: demo_known_def registry.lookup_insert demo_entry_def)

text \<open>
  C22: What the service registers is what a peer sees: a peer that resolves the registered properties gets the device's id, name,
  version, capabilities and availability, and a status that agrees with the local one: unavailable unless the receiver listens,
  and then reachable exactly when some address of the device is worth connecting to.
\<close>

theorem peers_see_the_advertisement:
  assumes "service_ok sv" "build_service_info me sv = Inr info"
    and "rs_property service = map_of (sg_properties (si_args info))"
    and "device_str (pf_device_id (sv_profile sv)) \<noteq> []" "pf_device_name (sv_profile sv) \<noteq> []"
  shows "let d = discovered_device_from_resolved service peer now; listening =
           (ld_receiver_status (sv_local_status sv) = ReceiverListening) in
    dd_id d = ld_device_id (sv_local_status sv) \<and> dd_display_name d = pf_device_name (sv_profile sv)
    \<and> dd_app_version d = pf_app_version (sv_profile sv)
    \<and> dd_capabilities d = ld_capabilities (sv_local_status sv)
    \<and> dd_availability d = ld_availability (sv_local_status sv)
    \<and> dd_status d =
        (if dd_id d = peer then SelfDevice
         else if \<not> listening then DeviceStatus.Unavailable
         else if list_ex is_remote_selection_candidate (rs_addresses service) then Reachable
         else ReceiverListening)
    \<and> (dd_endpoint d = None \<longleftrightarrow>
         \<not> listening \<or> \<not> list_ex is_remote_selection_candidate (rs_addresses service))"
proof -
  have ad: "ld_device_id (sv_local_status sv) = pf_device_id (sv_profile sv)"
      "ld_capabilities (sv_local_status sv) = pf_capabilities (sv_profile sv)"
      "ld_availability (sv_local_status sv) = pf_availability (sv_profile sv)"
      "(ld_receiver_status (sv_local_status sv) = ReceiverListening) = supports_receiver (pf_capabilities (sv_profile sv))"
      "(pf_availability (sv_profile sv) = DeviceAvailability.Unavailable) = (\<not> supports_receiver (pf_capabilities (sv_profile sv)))"
    using assms(1) by (auto simp: service_ok_def advert_ok_def Let_def)
  have "sg_properties (si_args info) = txt_properties (sv_profile sv)"
    using assms(2) by (auto simp: build_service_info_def Let_def split: sum.splits)
  note d = resolved_profile [OF assms(3) [unfolded this] assms(4,5), of peer now]
  have sel: "(select_preferred_endpoint i (rs_addresses service) p = None)
      = (\<not> list_ex is_remote_selection_candidate (rs_addresses service))" for i p
    by (simp add: select_preferred_endpoint_def select_preferred_None list_ex_iff)
  show ?thesis
    by (simp add: d Let_def ad sel del: not_None_eq)
qed

theorem peers_see_the_advertisement_witness:
  "dd_status (discovered_device_from_resolved
     (service_of (sv_profile demo_started) ''Attic._s'' []) (DeviceId ''den'') 0) = DeviceStatus.Unavailable"
proof -
  have ok: "service_ok demo_started"
    using op_is_good [OF _ demo_start] service_new_ok by (simp add: op_good_def demo_service_def)
  obtain info where i: "build_service_info demo_env demo_started = Inr info"
    by (simp add: build_service_info_def Let_def)
  then have "sg_properties (si_args info) = txt_properties (sv_profile demo_started)"
    by (auto simp: build_service_info_def Let_def)
  then show ?thesis
    using peers_see_the_advertisement [OF ok i, of "service_of (sv_profile demo_started) ''Attic._s'' []"
        "DeviceId ''den''" 0]
    by (simp add: service_of_def Let_def demo_started_def demo_service_defs)
qed

text \<open>
  A second synchronisation with the same arguments: after a registration the shown error is
  cleared, so the arguments count as changed whenever they carry an error.
\<close>

definition steady :: "SocketAddr option \<Rightarrow> bool" where
  "steady a = (case a of None \<Rightarrow> True | Some a \<Rightarrow> is_remote_selection_candidate (sa_ip a))"

lemma steady_endpoint:
  "steady a \<Longrightarrow> advertised_endpoint me d a w = (map_option (\<lambda>x. \<lparr>te_device_id = d, te_address = x\<rparr>) a, w)"
  by (cases a) (simp_all add: steady_def advertised_endpoint_def local_advertised_socket_addr_def)

lemma refresh_registers:
  assumes "sv_daemon sv" "\<And>args. \<exists>n. me_service_info me args = Inr n" "\<And>i w. \<exists>w'. me_register me i w = (Inr (), w')"
  obtains n now w' where "refresh_local_advertisement me sv w =
    (Inr (), upd_local (\<lambda>ld. ld\<lparr>ld_advertised := True, ld_last_advertised_unix_ms := Some now, ld_last_error := None\<rparr>)
       (fst (withdraw me sv w)\<lparr>sv_advertised_fullname := Some n\<rparr>), w')"
proof -
  obtain sv1 w1 where w: "withdraw me sv w = (sv1, w1)" by fastforce
  obtain info where i: "build_service_info me sv1 = Inr info"
    using assms(2) by (auto simp: build_service_info_def Let_def) (metis sum.simps(6))
  obtain w2 where r: "me_register me info w1 = (Inr (), w2)" using assms(3) by blast
  obtain now w3 where n: "ck_unix_ms (me_clock me) w2 = (now, w3)" by fastforce
  show thesis
    using assms(1) by (intro that [of now "si_fullname info" w3]) (simp add: refresh_local_advertisement_def w i r n)
qed

lemma apply_advertisement_same:
  "apply_advertisement st caps av ep err port sv = sv \<longleftrightarrow>
     ld_receiver_status (sv_local_status sv) = st \<and> ld_capabilities (sv_local_status sv) = caps
     \<and> ld_availability (sv_local_status sv) = av \<and> ld_advertised_endpoint (sv_local_status sv) = ep
     \<and> ld_last_error (sv_local_status sv) = err \<and> pf_capabilities (sv_profile sv) = caps
     \<and> pf_availability (sv_profile sv) = av \<and> pf_port (sv_profile sv) = port"
proof -
  obtain ld where ld: "sv_local_status sv = ld" by simp
  obtain pf where pf: "sv_profile sv = pf" by simp
  show ?thesis
    by (cases sv; cases ld; cases pf) (use ld pf in \<open>auto simp: apply_advertisement_def upd_local_def\<close>)
qed

lemma sync_unchanged:
  assumes "steady a"
  shows "sync_receiver_advertisement me r l a b err sv w =
    (let sv1 = apply_advertisement (advertised_status r l a) (advertised_capabilities l a) (advertised_availability l a b)
            (map_option (\<lambda>x. \<lparr>te_device_id = pf_device_id (sv_profile sv), te_address = x\<rparr>) a) err
            (case a of Some x \<Rightarrow> sa_port x | None \<Rightarrow> pf_port (sv_profile sv)) sv
     in if sv1 = sv then (Inr False, sv, w)
        else case refresh_local_advertisement me sv1 w of
            (Inl e, sv2, w2) \<Rightarrow>
              (Inl e, upd_local (ld_last_error_update (\<lambda>_. Some (show_discovery_error e))) sv2, w2)
          | (Inr _, sv2, w2) \<Rightarrow> (Inr True, sv2, w2))"
proof -
  define ep where "ep = map_option (\<lambda>x. \<lparr>te_device_id = pf_device_id (sv_profile sv), te_address = x\<rparr>) a"
  define port where "port = (case a of Some x \<Rightarrow> sa_port x | None \<Rightarrow> pf_port (sv_profile sv))"
  define sv1 where "sv1 = apply_advertisement (advertised_status r l a) (advertised_capabilities l a)
      (advertised_availability l a b) ep err port sv"
  have changed: "(ld_receiver_status (sv_local_status sv) \<noteq> advertised_status r l a
      \<or> ld_capabilities (sv_local_status sv) \<noteq> advertised_capabilities l a
      \<or> ld_availability (sv_local_status sv) \<noteq> advertised_availability l a b
      \<or> ld_advertised_endpoint (sv_local_status sv) \<noteq> ep \<or> ld_last_error (sv_local_status sv) \<noteq> err
      \<or> pf_capabilities (sv_profile sv) \<noteq> advertised_capabilities l a
      \<or> pf_availability (sv_profile sv) \<noteq> advertised_availability l a b
      \<or> pf_port (sv_profile sv) \<noteq> port) = (sv1 \<noteq> sv)"
    unfolding sv1_def apply_advertisement_same by (simp only: de_Morgan_conj)
  show ?thesis
    by (simp only: sync_receiver_advertisement_def steady_endpoint [OF assms] Let_def prod.case
        ep_def [symmetric] port_def [symmetric] sv1_def [symmetric] changed not_not) simp
qed

theorem sync_with_error_registers_again:
  assumes "steady a" "sv_daemon sv"
    and "\<And>args. \<exists>n. me_service_info me args = Inr n" "\<And>i w. \<exists>w'. me_register me i w = (Inr (), w')"
    and "sync_receiver_advertisement me r l a b err sv w = (Inr True, sv1, w1)"
  shows "fst (sync_receiver_advertisement me r l a b err sv1 w1) = Inr (err \<noteq> None)
    \<and> (err = None \<longrightarrow> snd (sync_receiver_advertisement me r l a b err sv1 w1) = (sv1, w1))"
proof -
  let ?sync = "sync_receiver_advertisement me r l a b err"
  let ?apply = "\<lambda>sv. apply_advertisement (advertised_status r l a) (advertised_capabilities l a)
      (advertised_availability l a b)
      (map_option (\<lambda>x. \<lparr>te_device_id = pf_device_id (sv_profile sv), te_address = x\<rparr>) a) err
      (case a of Some x \<Rightarrow> sa_port x | None \<Rightarrow> pf_port (sv_profile sv)) sv"
  have daemon: "sv_daemon (?apply sv) = sv_daemon sv" for sv by (simp add: apply_advertisement_def)
  from assms(2) obtain n now w' where ref: "refresh_local_advertisement me (?apply sv) w =
      (Inr (), upd_local (\<lambda>ld. ld\<lparr>ld_advertised := True, ld_last_advertised_unix_ms := Some now,
         ld_last_error := None\<rparr>) (fst (withdraw me (?apply sv) w)\<lparr>sv_advertised_fullname := Some n\<rparr>), w')"
    using refresh_registers [where sv = "?apply sv" and me = me and w = w] assms(3,4) daemon by metis
  then have sv1: "sv1 = upd_local (\<lambda>ld. ld\<lparr>ld_advertised := True, ld_last_advertised_unix_ms := Some now,
         ld_last_error := None\<rparr>) (fst (withdraw me (?apply sv) w)\<lparr>sv_advertised_fullname := Some n\<rparr>)"
    using assms(5) by (simp add: sync_unchanged [OF assms(1)] Let_def split: if_splits)
  have "sv_daemon sv1" by (simp add: sv1 withdraw_fields daemon assms(2))
  then have again: "\<exists>sv2 w2. refresh_local_advertisement me (?apply sv1) w1 = (Inr (), sv2, w2)"
    using refresh_registers [where sv = "?apply sv1" and me = me and w = w1] assms(3,4) daemon by metis
  have same: "?apply sv1 = sv1 \<longleftrightarrow> err = None"
    unfolding apply_advertisement_same
    by (auto simp: sv1 withdraw_other) (auto simp: apply_advertisement_def sv1 withdraw_other split: option.splits)
  show ?thesis
    using again same by (auto simp: sync_unchanged [OF assms(1)] Let_def)
qed

theorem sync_with_error_registers_again_witness:
  "\<exists>sv1 w1. sync_receiver_advertisement demo_env False False None False (Some ''bind failed'') demo_started []
       = (Inr True, sv1, w1)
     \<and> fst (sync_receiver_advertisement demo_env False False None False (Some ''bind failed'') sv1 w1) = Inr True"
proof -
  let ?sync = "sync_receiver_advertisement demo_env False False None False (Some ''bind failed'')"
  have "fst (?sync demo_started []) = Inr True"
    by (simp add: sync_receiver_advertisement_def advertised_endpoint_def Let_def demo_started_def demo_service_defs
        refresh_local_advertisement_def apply_advertisement_def upd_local_def withdraw_def build_service_info_def
        demo_env_def)
  then obtain sv1 w1 where one: "?sync demo_started [] = (Inr True, sv1, w1)" by (metis prod.collapse)
  have "fst (?sync sv1 w1) = Inr (Some ''bind failed'' \<noteq> (None :: string option))"
    by (rule sync_with_error_registers_again [OF _ _ _ _ one, THEN conjunct1])
      (simp_all add: steady_def demo_started_def)
  with one show ?thesis by auto
qed

end
