(* ===== verification/Audio_Inventory.thy ===== *)
theory Audio_Inventory
  imports Core_Models Json_Value "HOL-Library.Product_Lexorder" "HOL-Library.List_Lexorder" "HOL-Library.Char_ord" "HOL-Library.Multiset"
begin

text \<open>
  The PipeWire inventory of \<open>synchrosonic-audio/src/linux.rs\<close>: what \<open>pw-dump\<close> printed becomes
  lists of capture sources and of playback targets, and a capture without a configured source
  picks one of them. Running a command and \<open>serde_json\<close> are the functions of \<open>audio_tools\<close>
  (over a world); a parsed document is a \<open>json\<close> value, whose objects have their keys once.
\<close>

section \<open>Reading an object\<close>

definition object_type :: "json \<Rightarrow> string option" where
  "object_type object = Option.bind (json_get object ''type'') as_str"

definition object_props :: "json \<Rightarrow> (string \<times> json) list option" where
  "object_props object =
     (case Option.bind (Option.bind (json_get object ''info'') (\<lambda>info. json_get info ''props'')) as_object of
        Some m \<Rightarrow> Some m
      | None \<Rightarrow> Option.bind (json_get object ''props'') as_object)"

definition prop_str :: "(string \<times> json) list \<Rightarrow> string \<Rightarrow> string option" where
  "prop_str props key = Option.bind (map_of props key) as_str"

definition display_name :: "(string \<times> json) list \<Rightarrow> string \<Rightarrow> string" where
  "display_name props fallback =
     (case prop_str props ''node.description'' of
        Some d \<Rightarrow> d
      | None \<Rightarrow> (case prop_str props ''node.nick'' of Some n \<Rightarrow> n | None \<Rightarrow> fallback))"

text \<open>The entries of the default metadata objects, in order; the first that names a node wins.\<close>

definition default_entry :: "string \<Rightarrow> json \<Rightarrow> string option" where
  "default_entry key entry =
     (if Option.bind (json_get entry ''key'') as_str \<noteq> Some key then None
      else Option.bind (Option.bind (json_get entry ''value'') (\<lambda>v. json_get v ''name'')) as_str)"

definition is_default_metadata :: "json \<Rightarrow> bool" where
  "is_default_metadata object \<longleftrightarrow>
     object_type object = Some ''PipeWire:Interface:Metadata''
     \<and> Option.bind (object_props object) (\<lambda>props. prop_str props ''metadata.name'') = Some ''default''"

definition metadata_entries :: "json \<Rightarrow> json list" where
  "metadata_entries object =
     (case Option.bind (json_get object ''metadata'') as_array of Some xs \<Rightarrow> xs | None \<Rightarrow> [])"

definition find_some :: "('a \<Rightarrow> 'b option) \<Rightarrow> 'a list \<Rightarrow> 'b option" where
  "find_some f xs = (case List.map_filter f xs of [] \<Rightarrow> None | y # _ \<Rightarrow> Some y)"

definition default_node_name :: "json list \<Rightarrow> string \<Rightarrow> string option" where
  "default_node_name objects key =
     find_some (default_entry key) (concat (map metadata_entries (filter is_default_metadata objects)))"

section \<open>Sources\<close>

definition is_node :: "json \<Rightarrow> bool" where
  "is_node object \<longleftrightarrow> object_type object = Some ''PipeWire:Interface:Node''"

definition source_of_node :: "string option \<Rightarrow> string option \<Rightarrow> json \<Rightarrow> AudioSource option" where
  "source_of_node default_sink default_source object =
     (case object_props object of
        None \<Rightarrow> None
      | Some props \<Rightarrow>
          (case (prop_str props ''media.class'', prop_str props ''node.name'') of
             (Some media_class, Some node_name) \<Rightarrow>
               if media_class = ''Audio/Sink'' then
                 Some \<lparr>as_id = node_name, as_display_name = display_name props node_name @ '' (monitor)'',
                       as_kind = AudioSourceKind.Monitor, as_is_default = (default_sink = Some node_name)\<rparr>
               else if media_class = ''Audio/Source'' then
                 Some \<lparr>as_id = node_name, as_display_name = display_name props node_name,
                       as_kind = Microphone, as_is_default = (default_source = Some node_name)\<rparr>
               else None
           | _ \<Rightarrow> None))"

fun capture_source_rank :: "AudioSourceKind \<Rightarrow> u8" where
  "capture_source_rank AudioSourceKind.Monitor = 0"
| "capture_source_rank Microphone = 1"
| "capture_source_rank Application = 2"

definition source_key :: "AudioSource \<Rightarrow> bool \<times> u8 \<times> string" where
  "source_key s = (\<not> as_is_default s, capture_source_rank (as_kind s), as_display_name s)"

definition parse_pipewire_sources :: "(string \<Rightarrow> string + json list) \<Rightarrow> string \<Rightarrow> AudioError + AudioSource list" where
  "parse_pipewire_sources from_str dump =
     (case from_str dump of
        Inl e \<Rightarrow> Inl (BackendUnavailable e)
      | Inr objects \<Rightarrow>
          (let default_sink = default_node_name objects ''default.audio.sink'';
               default_source = default_node_name objects ''default.audio.source''
           in Inr (sort_key source_key
                (List.map_filter (source_of_node default_sink default_source) (filter is_node objects)))))"

section \<open>Playback targets\<close>

definition playback_target_kind :: "(string \<times> json) list \<Rightarrow> string \<Rightarrow> string option \<Rightarrow> PlaybackTargetKind" where
  "playback_target_kind props node_name bluetooth_address =
     (if bluetooth_address \<noteq> None
         \<or> prop_str props ''device.bus'' = Some ''bluetooth''
         \<or> (case prop_str props ''device.api'' of Some api \<Rightarrow> str_contains api ''bluez'' | None \<Rightarrow> False)
         \<or> (case prop_str props ''factory.name'' of Some f \<Rightarrow> str_contains f ''bluez'' | None \<Rightarrow> False)
         \<or> starts_with node_name ''bluez_output.''
      then Bluetooth else Standard)"

definition bluetooth_address_of :: "(string \<times> json) list \<Rightarrow> string option" where
  "bluetooth_address_of props =
     (case (case prop_str props ''api.bluez5.address'' of Some a \<Rightarrow> Some a | None \<Rightarrow> prop_str props ''device.string'') of
        Some a \<Rightarrow> if CHR '':'' \<in> set a then Some a else None
      | None \<Rightarrow> None)"

definition target_of_node :: "string option \<Rightarrow> json \<Rightarrow> PlaybackTarget option" where
  "target_of_node default_sink object =
     (case object_props object of
        None \<Rightarrow> None
      | Some props \<Rightarrow>
          if prop_str props ''media.class'' \<noteq> Some ''Audio/Sink'' then None
          else
            (case prop_str props ''node.name'' of
               None \<Rightarrow> None
             | Some node_name \<Rightarrow>
                 (let bluetooth_address = bluetooth_address_of props in
                  Some \<lparr>pt_id = node_name, pt_display_name = display_name props node_name,
                        pt_is_default = (default_sink = Some node_name),
                        pt_kind = playback_target_kind props node_name bluetooth_address,
                        pt_availability = PlaybackTargetAvailability.Available,
                        pt_bluetooth_address = bluetooth_address\<rparr>)))"

definition target_key :: "PlaybackTarget \<Rightarrow> bool \<times> string" where
  "target_key t = (\<not> pt_is_default t, pt_display_name t)"

definition parse_pipewire_playback_targets ::
  "(string \<Rightarrow> string + json list) \<Rightarrow> string \<Rightarrow> AudioError + PlaybackTarget list" where
  "parse_pipewire_playback_targets from_str dump =
     (case from_str dump of
        Inl e \<Rightarrow> Inl (BackendUnavailable e)
      | Inr objects \<Rightarrow>
          (let default_sink = default_node_name objects ''default.audio.sink'' in
           Inr (sort_key target_key (List.map_filter (target_of_node default_sink) (filter is_node objects)))))"

section \<open>The tools\<close>

record process_output =
  po_success :: bool
  po_stdout :: bytes
  po_stderr :: bytes

record spawned =
  sp_stdin :: bool
  sp_stdout :: bool
  sp_stderr :: bool

text \<open>Running a program to its end, starting one, UTF-8 decoding with replacement, and the parser.\<close>

record 'w audio_tools =
  at_output :: "string \<Rightarrow> string list \<Rightarrow> 'w \<Rightarrow> (io_error + process_output) \<times> 'w"
  at_spawn :: "string \<Rightarrow> string list \<Rightarrow> 'w \<Rightarrow> (io_error + spawned) \<times> 'w"
  at_utf8_lossy :: "bytes \<Rightarrow> string"
  at_from_str :: "string \<Rightarrow> string + json list"

record LinuxAudioBackend =
  lb_pw_dump_bin :: string
  lb_pw_record_bin :: string

definition default_backend :: LinuxAudioBackend where
  "default_backend = \<lparr>lb_pw_dump_bin = ''pw-dump'', lb_pw_record_bin = ''pw-record''\<rparr>"

definition spawn_error :: "string \<Rightarrow> io_error \<Rightarrow> AudioError" where
  "spawn_error command source =
     (if err_kind source = NotFound then CommandUnavailable command else ProcessStart command source)"

definition pipewire_dump :: "'w audio_tools \<Rightarrow> LinuxAudioBackend \<Rightarrow> 'w \<Rightarrow> (AudioError + string) \<times> 'w" where
  "pipewire_dump tools b w =
     (case at_output tools (lb_pw_dump_bin b) [''--no-colors''] w of
        (Inl e, w1) \<Rightarrow> (Inl (spawn_error (lb_pw_dump_bin b) e), w1)
      | (Inr output, w1) \<Rightarrow>
          (if \<not> po_success output then
             Inl (CommandFailed (lb_pw_dump_bin b) (trim (at_utf8_lossy tools (po_stderr output))))
           else Inr (at_utf8_lossy tools (po_stdout output)), w1))"

definition list_inventory ::
  "'w audio_tools \<Rightarrow> LinuxAudioBackend \<Rightarrow> 'w
    \<Rightarrow> (AudioError + AudioSource list \<times> PlaybackTarget list) \<times> 'w" where
  "list_inventory tools b w =
     (case pipewire_dump tools b w of
        (Inl e, w1) \<Rightarrow> (Inl e, w1)
      | (Inr dump, w1) \<Rightarrow>
          (case parse_pipewire_sources (at_from_str tools) dump of
             Inl e \<Rightarrow> Inl e
           | Inr sources \<Rightarrow>
               (case parse_pipewire_playback_targets (at_from_str tools) dump of
                  Inl e \<Rightarrow> Inl e
                | Inr targets \<Rightarrow> Inr (sources, targets)), w1))"

definition list_sources ::
  "'w audio_tools \<Rightarrow> LinuxAudioBackend \<Rightarrow> 'w \<Rightarrow> (AudioError + AudioSource list) \<times> 'w" where
  "list_sources tools b w = apfst (map_sum id fst) (list_inventory tools b w)"

definition list_playback_targets ::
  "'w audio_tools \<Rightarrow> LinuxAudioBackend \<Rightarrow> 'w \<Rightarrow> (AudioError + PlaybackTarget list) \<times> 'w" where
  "list_playback_targets tools b w = apfst (map_sum id snd) (list_inventory tools b w)"

section \<open>The source of a capture\<close>

definition validate_capture_settings :: "CaptureSettings \<Rightarrow> AudioError + unit" where
  "validate_capture_settings settings =
     (if cs_sample_rate_hz settings = 0 then
        Inl (InvalidSettings ''sample_rate_hz must be greater than zero'')
      else if cs_channels settings = 0 then Inl (InvalidSettings ''channels must be greater than zero'')
      else if cs_buffer_frames settings = 0 then
        Inl (InvalidSettings ''buffer_frames must be greater than zero'')
      else Inr ())"

definition select_source :: "AudioSource list \<Rightarrow> AudioError + AudioSource" where
  "select_source sources =
     (case (case find (\<lambda>s. as_is_default s \<and> as_kind s = AudioSourceKind.Monitor) sources of
              Some s \<Rightarrow> Some s
            | None \<Rightarrow>
                (case find as_is_default sources of
                   Some s \<Rightarrow> Some s
                 | None \<Rightarrow> (case sources of [] \<Rightarrow> None | s # _ \<Rightarrow> Some s))) of
        Some s \<Rightarrow> Inr s
      | None \<Rightarrow> Inl (BackendUnavailable ''no PipeWire audio sources or monitor sources were found''))"

fun pipewire_format_name :: "AudioSampleFormat \<Rightarrow> string" where
  "pipewire_format_name S16Le = ''s16''"
| "pipewire_format_name F32Le = ''f32''"

definition record_arguments :: "CaptureSettings \<Rightarrow> string \<Rightarrow> string list" where
  "record_arguments settings source_id =
     [''--target'', source_id, ''--raw'', ''--rate'', show_word (cs_sample_rate_hz settings),
      ''--channels'', show_word (cs_channels settings),
      ''--format'', pipewire_format_name (cs_sample_format settings),
      ''--latency'', show_word (cs_target_latency_ms settings) @ ''ms'', ''-'']"

section \<open>The lists\<close>

lemma sorted_sources:
  "parse_pipewire_sources fs dump = Inr sources \<Longrightarrow> sorted (map source_key sources)"
  by (auto simp: parse_pipewire_sources_def Let_def split: sum.splits)

lemma find_head: "P x \<Longrightarrow> find P (x # xs) = Some x"
  by simp

lemma find_Some_mem: "find P xs = Some x \<Longrightarrow> x \<in> set xs \<and> P x"
  by (auto simp: find_Some_iff in_set_conv_nth)

text \<open>In a sorted list the preferences of \<open>select_source\<close> hold of its head or of no element.\<close>

lemma sorted_head:
  assumes "sorted (map source_key (s # ss))" "x \<in> set (s # ss)"
  shows "source_key s \<le> source_key x"
  using assms by auto

lemma key_default: "source_key s \<le> source_key x \<Longrightarrow> as_is_default x \<Longrightarrow> as_is_default s"
  by (auto simp: source_key_def less_eq_prod_def)

lemma key_rank:
  "source_key s \<le> source_key x \<Longrightarrow> as_is_default x \<Longrightarrow> capture_source_rank (as_kind s) \<le> capture_source_rank (as_kind x)"
  by (auto simp: source_key_def less_eq_prod_def)

lemma rank_monitor: "capture_source_rank k \<le> 0 \<Longrightarrow> k = AudioSourceKind.Monitor"
  by (cases k) auto

lemma sorted_head_default:
  assumes "sorted (map source_key (s # ss))" "x \<in> set (s # ss)" "as_is_default x"
  shows "as_is_default s"
  using key_default [OF sorted_head [OF assms(1,2)] assms(3)] .

lemma sorted_head_monitor:
  assumes "sorted (map source_key (s # ss))" "x \<in> set (s # ss)" "as_is_default x" "as_kind x = AudioSourceKind.Monitor"
  shows "as_is_default s \<and> as_kind s = AudioSourceKind.Monitor"
  using sorted_head_default [OF assms(1-3)] key_rank [OF sorted_head [OF assms(1,2)] assms(3)] assms(4)
    rank_monitor [of "as_kind s"]
  by simp

lemma select_first:
  assumes "sorted (map source_key sources)"
  shows "select_source sources = (case sources of
     [] \<Rightarrow> Inl (BackendUnavailable ''no PipeWire audio sources or monitor sources were found'')
   | s # _ \<Rightarrow> Inr s)"
proof (cases sources)
  case (Cons s ss)
  let ?m = "\<lambda>s. as_is_default s \<and> as_kind s = AudioSourceKind.Monitor"
  show ?thesis
  proof (cases "find ?m sources")
    case (Some x)
    then have x: "x \<in> set (s # ss)" "as_is_default x" "as_kind x = AudioSourceKind.Monitor"
      using find_Some_mem [OF Some] by (simp_all add: Cons)
    have "?m s" by (rule sorted_head_monitor [OF assms [unfolded Cons] x])
    then show ?thesis by (simp add: select_source_def Cons)
  next
    case None
    show ?thesis
    proof (cases "find as_is_default sources")
      case (Some x)
      then have x: "x \<in> set (s # ss)" "as_is_default x" using find_Some_mem [OF Some] by (simp_all add: Cons)
      have "as_is_default s" by (rule sorted_head_default [OF assms [unfolded Cons] x])
      then show ?thesis using None by (simp add: select_source_def Cons)
    qed (use None in \<open>simp add: select_source_def Cons\<close>)
  qed
qed (simp add: select_source_def)

text \<open>A sink gives one monitor source and one playback target, with the same name and flag.\<close>

lemma node_monitor:
  "(case source_of_node sink source object of
      Some s \<Rightarrow> if as_kind s = AudioSourceKind.Monitor then Some (as_id s, as_is_default s) else None
    | None \<Rightarrow> None)
   = map_option (\<lambda>t. (pt_id t, pt_is_default t)) (target_of_node sink object)"
  by (auto simp: source_of_node_def target_of_node_def Let_def split: option.split)

definition monitors :: "AudioSource list \<Rightarrow> (string \<times> bool) list" where
  "monitors sources =
     map (\<lambda>s. (as_id s, as_is_default s)) (filter (\<lambda>s. as_kind s = AudioSourceKind.Monitor) sources)"

lemma monitors_of_nodes:
  "monitors (List.map_filter (source_of_node sink source) objects)
     = map (\<lambda>t. (pt_id t, pt_is_default t)) (List.map_filter (target_of_node sink) objects)"
proof (induction objects)
  case (Cons object objects)
  then show ?case
    using node_monitor [of sink source object]
    by (cases "source_of_node sink source object"; cases "target_of_node sink object")
      (auto simp: map_filter_simps monitors_def split: if_splits)
qed (simp add: monitors_def map_filter_simps)

lemma mset_monitors_sort: "mset (monitors (sort_key f sources)) = mset (monitors sources)"
  by (simp add: monitors_def)

lemma target_address_bluetooth:
  "target_of_node sink object = Some t \<Longrightarrow> pt_bluetooth_address t \<noteq> None \<Longrightarrow> is_bluetooth t"
  by (auto simp: target_of_node_def Let_def is_bluetooth_def playback_target_kind_def split: option.splits if_splits)

theorem inventory_lists_agree:
  assumes "list_inventory tools b w = (Inr (sources, targets), w')"
  shows "sorted (map source_key sources) \<and> sorted (map target_key targets)
    \<and> mset (monitors sources) = mset (map (\<lambda>t. (pt_id t, pt_is_default t)) targets)
    \<and> list_all (\<lambda>t. pt_bluetooth_address t = None \<or> is_bluetooth t) targets"
proof -
  obtain dump where "parse_pipewire_sources (at_from_str tools) dump = Inr sources"
      and tg: "parse_pipewire_playback_targets (at_from_str tools) dump = Inr targets"
    using assms by (auto simp: list_inventory_def split: prod.splits sum.splits)
  moreover from this obtain objects where "at_from_str tools dump = Inr objects"
    by (auto simp: parse_pipewire_sources_def split: sum.splits)
  ultimately have lists: "sources = sort_key source_key (List.map_filter
        (source_of_node (default_node_name objects ''default.audio.sink'')
           (default_node_name objects ''default.audio.source'')) (filter is_node objects))"
      "targets = sort_key target_key (List.map_filter
        (target_of_node (default_node_name objects ''default.audio.sink'')) (filter is_node objects))"
    by (simp_all add: parse_pipewire_sources_def parse_pipewire_playback_targets_def Let_def)
  have "mset (monitors sources) = mset (map (\<lambda>t. (pt_id t, pt_is_default t)) targets)"
    unfolding lists mset_monitors_sort monitors_of_nodes by simp
  moreover have "list_all (\<lambda>t. pt_bluetooth_address t = None \<or> is_bluetooth t) targets"
    using target_address_bluetooth by (fastforce simp: lists(2) list_all_iff List.map_filter_def)
  ultimately show ?thesis by (simp add: lists)
qed

text \<open>A sink that is the default, a Bluetooth sink and a microphone.\<close>

definition demo_node :: "string \<Rightarrow> string \<Rightarrow> string \<Rightarrow> json" where
  "demo_node media_class name description =
     JObject [(''type'', JString ''PipeWire:Interface:Node''),
       (''info'', JObject [(''props'', JObject [(''media.class'', JString media_class),
          (''node.name'', JString name), (''node.description'', JString description)])])]"

definition demo_metadata :: json where
  "demo_metadata =
     JObject [(''type'', JString ''PipeWire:Interface:Metadata''),
       (''props'', JObject [(''metadata.name'', JString ''default'')]),
       (''metadata'', JArray [JObject [(''key'', JString ''default.audio.sink''),
          (''value'', JObject [(''name'', JString ''out'')])]])]"

definition demo_objects :: "json list" where
  "demo_objects = [demo_node ''Audio/Source'' ''mic'' ''Mic'', demo_node ''Audio/Sink'' ''bluez_output.1'' ''Buds'',
     demo_node ''Audio/Sink'' ''out'' ''Speakers'', demo_metadata]"

definition demo_tools :: "unit audio_tools" where
  "demo_tools = \<lparr>at_output = \<lambda>_ _ w. (Inr \<lparr>po_success = True, po_stdout = [], po_stderr = []\<rparr>, w),
     at_spawn = \<lambda>_ _ w. (Inr \<lparr>sp_stdin = False, sp_stdout = True, sp_stderr = True\<rparr>, w),
     at_utf8_lossy = \<lambda>_. [], at_from_str = \<lambda>_. Inr demo_objects\<rparr>"

definition demo_sources :: "AudioSource list" where
  "demo_sources =
     [\<lparr>as_id = ''out'', as_display_name = ''Speakers (monitor)'', as_kind = AudioSourceKind.Monitor, as_is_default = True\<rparr>,
      \<lparr>as_id = ''bluez_output.1'', as_display_name = ''Buds (monitor)'', as_kind = AudioSourceKind.Monitor,
       as_is_default = False\<rparr>,
      \<lparr>as_id = ''mic'', as_display_name = ''Mic'', as_kind = Microphone, as_is_default = False\<rparr>]"

definition demo_targets :: "PlaybackTarget list" where
  "demo_targets =
     [\<lparr>pt_id = ''out'', pt_display_name = ''Speakers'', pt_is_default = True, pt_kind = Standard,
       pt_availability = PlaybackTargetAvailability.Available, pt_bluetooth_address = None\<rparr>,
      \<lparr>pt_id = ''bluez_output.1'', pt_display_name = ''Buds'', pt_is_default = False, pt_kind = Bluetooth,
       pt_availability = PlaybackTargetAvailability.Available, pt_bluetooth_address = None\<rparr>]"

lemma demo_inventory: "list_inventory demo_tools default_backend () = (Inr (demo_sources, demo_targets), ())"
  by code_simp

theorem inventory_lists_agree_witness:
  "sorted (map source_key demo_sources) \<and> sorted (map target_key demo_targets)
    \<and> mset (monitors demo_sources) = mset (map (\<lambda>t. (pt_id t, pt_is_default t)) demo_targets)
    \<and> list_all (\<lambda>t. pt_bluetooth_address t = None \<or> is_bluetooth t) demo_targets"
  by (rule inventory_lists_agree [OF demo_inventory])

end
