(* ===== verification/Audio_Capture.thy ===== *)
theory Audio_Capture
  imports Audio_Inventory Steps
begin

text \<open>
  Capturing with \<open>pw-record\<close>, \<open>synchrosonic-audio/src/linux.rs\<close>: the start of a session, the
  thread that turns the program's output into frames, and the session handle. The pipe is the
  list of what it delivers; \<open>BufReader\<close> is written out with its buffer of 8192 bytes. The times
  of the frames, whether the session still receives, and the moments at which \<open>stop\<close> marks the
  shared statistics are functions of the number of the iteration. Mutexes are never poisoned;
  the log lines are left out.
\<close>

record CaptureStats =
  ct_state :: CaptureState
  ct_frames_emitted :: u64
  ct_bytes_captured :: u64
  ct_last_frame_stats :: AudioFrameStats
  ct_last_error :: "string option"

definition default_capture_stats :: CaptureStats where
  "default_capture_stats = \<lparr>ct_state = CaptureState.Idle, ct_frames_emitted = 0, ct_bytes_captured = 0,
     ct_last_frame_stats = default_frame_stats, ct_last_error = None\<rparr>"

section \<open>Reading the pipe\<close>

text \<open>
  Each element is what the pipe holds when it is read, an empty one and the end of the list
  being its end; a read takes at most the bytes it asks for and leaves the others.
\<close>

type_synonym pipe = "(io_error + bytes) list"

fun pipe_read :: "nat \<Rightarrow> pipe \<Rightarrow> (io_error + bytes) \<times> pipe" where
  "pipe_read n [] = (Inr [], [])"
| "pipe_read n (Inl e # p) = (Inl e, p)"
| "pipe_read n (Inr bs # p) = (Inr (take n bs), if length bs \<le> n then p else Inr (drop n bs) # p)"

definition BUF_READER_CAPACITY :: nat where
  "BUF_READER_CAPACITY = 8192"

definition buf_read :: "nat \<Rightarrow> bytes \<Rightarrow> pipe \<Rightarrow> (io_error + bytes) \<times> bytes \<times> pipe" where
  "buf_read n buffer p =
     (if buffer = [] \<and> BUF_READER_CAPACITY \<le> n then
        (let (r, p1) = pipe_read n p in (r, [], p1))
      else if buffer = [] then
        (case pipe_read BUF_READER_CAPACITY p of
           (Inl e, p1) \<Rightarrow> (Inl e, [], p1)
         | (Inr bs, p1) \<Rightarrow> (Inr (take n bs), drop n bs, p1))
      else (Inr (take n buffer), drop n buffer, p))"

section \<open>The reader thread\<close>

record reader_times =
  rt_elapsed :: "nat \<Rightarrow> duration"
  rt_receiver_alive :: "nat \<Rightarrow> bool"
  rt_stopped_before :: "nat \<Rightarrow> bool"
  rt_stopped_at_end :: bool

definition capture_chunk :: "CaptureSettings \<Rightarrow> nat" where
  "capture_chunk settings = max (chunk_bytes settings) (capture_bytes_per_frame settings)"

definition mark_stopped :: "bool \<Rightarrow> CaptureStats \<Rightarrow> CaptureStats" where
  "mark_stopped b st = (if b then st\<lparr>ct_state := CaptureState.Stopped\<rparr> else st)"

definition stream_ended :: "reader_times \<Rightarrow> CaptureStats \<Rightarrow> CaptureStats" where
  "stream_ended rt st =
     (if ct_state st = CaptureState.Stopped then st
      else (mark_stopped (rt_stopped_at_end rt) st)
        \<lparr>ct_state := DeviceDisconnected, ct_last_error := Some ''PipeWire capture stream ended''\<rparr>)"

definition frame_captured :: "AudioFrame \<Rightarrow> CaptureStats \<Rightarrow> CaptureStats" where
  "frame_captured frame st =
     st\<lparr>ct_frames_emitted := ct_frames_emitted st + 1,
       ct_bytes_captured := ct_bytes_captured st + of_nat (length (af_payload frame)),
       ct_last_frame_stats := af_stats frame,
       ct_state := Capturing\<rparr>"

text \<open>The loop, from iteration \<open>i\<close>, whose frame has the sequence number \<open>i\<close>.\<close>

definition pipe_size :: "pipe \<Rightarrow> nat" where
  "pipe_size p = sum_list (map (\<lambda>x. case x of Inl e \<Rightarrow> 1 | Inr bs \<Rightarrow> Suc (length bs)) p)"

lemma pipe_read_size:
  "pipe_read n p = (Inr bs, p') \<Longrightarrow> length bs + pipe_size p' \<le> pipe_size p \<and> (bs \<noteq> [] \<and> p' = [] \<longrightarrow> p \<noteq> [])"
  by (cases "(n, p)" rule: pipe_read.cases) (auto simp: pipe_size_def split: if_splits)

lemma buf_read_size:
  "buf_read n buffer p = (Inr bs, buffer', p') \<Longrightarrow>
     length bs + length buffer' + pipe_size p' \<le> length buffer + pipe_size p"
  by (auto simp: buf_read_def split: if_splits prod.splits sum.splits dest!: pipe_read_size)

function capture_stdout_loop ::
  "CaptureSettings \<Rightarrow> reader_times \<Rightarrow> nat \<Rightarrow> bytes \<Rightarrow> pipe \<Rightarrow> CaptureStats \<Rightarrow> AudioFrame list \<times> CaptureStats" where
  "capture_stdout_loop settings rt i buffer p st0 =
     (let st = mark_stopped (rt_stopped_before rt i) st0 in
      case buf_read (capture_chunk settings) buffer p of
        (Inl e, _, _) \<Rightarrow> ([], st\<lparr>ct_state := CaptureState.Failed, ct_last_error := Some (err_text e)\<rparr>)
      | (Inr bs, buffer1, p1) \<Rightarrow>
          if bs = [] then ([], stream_ended rt st)
          else
            (let frame = frame_from_payload (of_nat i) (rt_elapsed rt i) settings bs;
                 st1 = frame_captured frame st
             in if \<not> rt_receiver_alive rt i then ([], st1)
                else
                  (let (frames, st2) = capture_stdout_loop settings rt (Suc i) buffer1 p1 st1
                   in (frame # frames, st2))))"
  by pat_completeness auto

termination
proof (relation "measure (\<lambda>(settings, rt, i, buffer, p, st). length buffer + pipe_size p)", goal_cases)
  case (2 settings rt i buffer p st0 st r rest bs buffer1 p1 frame st1)
  then have "buf_read (capture_chunk settings) buffer p = (Inr bs, buffer1, p1)" by simp
  from buf_read_size [OF this] 2(5) show ?case by (cases bs) auto
qed simp

declare capture_stdout_loop.simps [simp del]

definition capture_run :: "CaptureSettings \<Rightarrow> reader_times \<Rightarrow> pipe \<Rightarrow> CaptureStats \<Rightarrow> AudioFrame list \<times> CaptureStats" where
  "capture_run settings rt p st = capture_stdout_loop settings rt 0 [] p (st\<lparr>ct_state := Capturing\<rparr>)"

text \<open>The thread that reads the error output: the lines that were read, or an error.\<close>

fun capture_stderr_loop :: "(io_error + string) list \<Rightarrow> CaptureStats \<Rightarrow> CaptureStats" where
  "capture_stderr_loop [] st = st"
| "capture_stderr_loop (Inr line # ls) st = capture_stderr_loop ls st"
| "capture_stderr_loop (Inl e # ls) st = st\<lparr>ct_last_error := Some (err_text e)\<rparr>"

section \<open>The session\<close>

record PipeWireCaptureSession =
  pc_frames :: "AudioFrame list"
  pc_sender_alive :: bool
  pc_child :: bool
  pc_stats :: CaptureStats
  pc_reader_thread :: bool
  pc_stderr_thread :: bool

definition start_capture ::
  "'w audio_tools \<Rightarrow> LinuxAudioBackend \<Rightarrow> CaptureSettings \<Rightarrow> 'w
    \<Rightarrow> (AudioError + CaptureSettings \<times> PipeWireCaptureSession) \<times> 'w" where
  "start_capture tools b settings0 w =
     (case validate_capture_settings settings0 of
        Inl e \<Rightarrow> (Inl e, w)
      | Inr _ \<Rightarrow>
          (case (if cs_source_id settings0 = None then
                  (case list_sources tools b w of
                     (Inl e, w1) \<Rightarrow> (Inl e, w1)
                   | (Inr sources, w1) \<Rightarrow> (map_sum id (\<lambda>s. settings0\<lparr>cs_source_id := Some (as_id s)\<rparr>)
                       (select_source sources), w1))
                 else (Inr settings0, w)) of
             (Inl e, w1) \<Rightarrow> (Inl e, w1)
           | (Inr settings, w1) \<Rightarrow>
               (case cs_source_id settings of
                  None \<Rightarrow> (Inl (InvalidSettings ''source_id is required''), w1)
                | Some source_id \<Rightarrow>
                    (case at_spawn tools (lb_pw_record_bin b) (record_arguments settings source_id) w1 of
                       (Inl e, w2) \<Rightarrow> (Inl (spawn_error (lb_pw_record_bin b) e), w2)
                     | (Inr child, w2) \<Rightarrow>
                         (if \<not> sp_stdout child then
                            Inl (ProcessIo ''opening pw-record stdout''
                              \<lparr>err_kind = BrokenPipe, err_text = ''pw-record stdout was not piped''\<rparr>)
                          else
                            Inr (settings, \<lparr>pc_frames = [], pc_sender_alive = True, pc_child = True,
                              pc_stats = default_capture_stats\<lparr>ct_state := CaptureState.Starting\<rparr>,
                              pc_reader_thread = True, pc_stderr_thread = sp_stderr child\<rparr>), w2)))))"

text \<open>A blocking receive returns what arrives, nothing when the reader has ended.\<close>

definition recv_frame :: "AudioFrame option \<Rightarrow> AudioError + AudioFrame" where
  "recv_frame received = (case received of Some f \<Rightarrow> Inr f | None \<Rightarrow> Inl CaptureEnded)"

definition try_recv_frame ::
  "PipeWireCaptureSession \<Rightarrow> (AudioError + AudioFrame option) \<times> PipeWireCaptureSession" where
  "try_recv_frame pc =
     (case pc_frames pc of
        f # fs \<Rightarrow> (Inr (Some f), pc\<lparr>pc_frames := fs\<rparr>)
      | [] \<Rightarrow> (if pc_sender_alive pc then Inr None else Inl CaptureEnded, pc))"

text \<open>What the operating system answers about the child process.\<close>

record 'w process_ops =
  pr_try_wait :: "'w \<Rightarrow> (io_error + bool) \<times> 'w"
  pr_kill :: "'w \<Rightarrow> (io_error + unit) \<times> 'w"
  pr_wait :: "'w \<Rightarrow> (io_error + unit) \<times> 'w"

text \<open>Ending a child that was taken out of its slot, with the names used in the errors.\<close>

definition end_child :: "'w process_ops \<Rightarrow> string \<Rightarrow> 'w \<Rightarrow> (AudioError + unit) \<times> 'w" where
  "end_child pr name w =
     (case pr_try_wait pr w of
        (Inl e, w1) \<Rightarrow> (Inl (ProcessIo (''checking '' @ name @ '' process state'') e), w1)
      | (Inr True, w1) \<Rightarrow> (Inr (), w1)
      | (Inr False, w1) \<Rightarrow>
          (case pr_kill pr w1 of
             (Inl e, w2) \<Rightarrow> (Inl (ProcessIo (''stopping '' @ name) e), w2)
           | (Inr _, w2) \<Rightarrow>
               (case pr_wait pr w2 of
                  (Inl e, w3) \<Rightarrow> (Inl (ProcessIo (''waiting for '' @ name @ '' to stop'') e), w3)
                | (Inr _, w3) \<Rightarrow> (Inr (), w3))))"

text \<open>Joining the reader waits for its end, after which nothing more is sent.\<close>

definition capture_stop ::
  "'w process_ops \<Rightarrow> PipeWireCaptureSession \<Rightarrow> 'w \<Rightarrow> (AudioError + unit) \<times> PipeWireCaptureSession \<times> 'w" where
  "capture_stop pr pc w =
     (let pc1 = pc\<lparr>pc_stats := mark_stopped True (pc_stats pc)\<rparr>;
          (r, pc2, w1) = (if pc_child pc1 then
             (let (r, w1) = end_child pr ''pw-record'' w in (r, pc1\<lparr>pc_child := False\<rparr>, w1))
            else (Inr (), pc1, w))
      in case r of
           Inl e \<Rightarrow> (Inl e, pc2, w1)
         | Inr _ \<Rightarrow>
             (Inr (), pc2\<lparr>pc_sender_alive := pc_sender_alive pc2 \<and> \<not> pc_reader_thread pc2,
                pc_reader_thread := False, pc_stderr_thread := False\<rparr>, w1))"

section \<open>What the thread sends\<close>

text \<open>The bytes a pipe delivers before it ends or fails, and whether it fails.\<close>

fun delivered :: "pipe \<Rightarrow> bytes" where
  "delivered [] = []"
| "delivered (Inl e # p) = []"
| "delivered (Inr bs # p) = (if bs = [] then [] else bs @ delivered p)"

fun pipe_failure :: "pipe \<Rightarrow> io_error option" where
  "pipe_failure [] = None"
| "pipe_failure (Inl e # p) = Some e"
| "pipe_failure (Inr bs # p) = (if bs = [] then None else pipe_failure p)"

lemma pipe_read_spec:
  assumes "0 < n"
  shows "pipe_read n p = (Inl e, p') \<Longrightarrow> delivered p = [] \<and> pipe_failure p = Some e"
    "pipe_read n p = (Inr [], p') \<Longrightarrow> delivered p = [] \<and> pipe_failure p = None"
    "pipe_read n p = (Inr bs, p') \<Longrightarrow> bs \<noteq> [] \<Longrightarrow>
       length bs \<le> n \<and> delivered p = bs @ delivered p' \<and> pipe_failure p' = pipe_failure p"
  using assms by (cases "(n, p)" rule: pipe_read.cases; auto split: if_splits)+

lemma buf_read_spec:
  assumes "0 < n"
  shows "buf_read n b p = (Inl e, b', p') \<Longrightarrow> b = [] \<and> delivered p = [] \<and> pipe_failure p = Some e"
    "buf_read n b p = (Inr [], b', p') \<Longrightarrow> b = [] \<and> delivered p = [] \<and> pipe_failure p = None"
    "buf_read n b p = (Inr bs, b', p') \<Longrightarrow> bs \<noteq> [] \<Longrightarrow>
       length bs \<le> n \<and> b @ delivered p = bs @ b' @ delivered p' \<and> pipe_failure p' = pipe_failure p"
proof -
  have cap: "0 < BUF_READER_CAPACITY" by (simp add: BUF_READER_CAPACITY_def)
  note direct = pipe_read_spec [OF assms, of p] and filled = pipe_read_spec [OF cap, of p]
  show "buf_read n b p = (Inl e, b', p') \<Longrightarrow> b = [] \<and> delivered p = [] \<and> pipe_failure p = Some e"
    using direct(1) filled(1) by (auto simp: buf_read_def split: if_splits prod.splits sum.splits)
  show "buf_read n b p = (Inr [], b', p') \<Longrightarrow> b = [] \<and> delivered p = [] \<and> pipe_failure p = None"
    using direct(2) filled(2) assms by (auto simp: buf_read_def split: if_splits prod.splits sum.splits)
  show "buf_read n b p = (Inr bs, b', p') \<Longrightarrow> bs \<noteq> [] \<Longrightarrow>
      length bs \<le> n \<and> b @ delivered p = bs @ b' @ delivered p' \<and> pipe_failure p' = pipe_failure p"
    using direct(3) filled(3)
    by (auto simp: buf_read_def split: if_splits prod.splits sum.splits) (metis append_take_drop_id append.assoc take_Nil)?
qed

text \<open>A thread whose frames are received forwards what the pipe delivers, piece by piece.\<close>

definition forwarded ::
  "CaptureSettings \<Rightarrow> reader_times \<Rightarrow> nat \<Rightarrow> bytes \<Rightarrow> pipe \<Rightarrow> CaptureStats \<Rightarrow> AudioFrame list \<Rightarrow> CaptureStats \<Rightarrow> bool" where
  "forwarded settings rt i b p st frames st' \<longleftrightarrow>
     concat (map af_payload frames) = b @ delivered p
     \<and> list_all (\<lambda>f. af_payload f \<noteq> [] \<and> length (af_payload f) \<le> capture_chunk settings) frames
     \<and> map af_sequence frames = map of_nat [i ..< i + length frames]
     \<and> ct_frames_emitted st' = ct_frames_emitted st + of_nat (length frames)
     \<and> ct_bytes_captured st' = ct_bytes_captured st + of_nat (length (b @ delivered p))
     \<and> ct_state st' = (case pipe_failure p of Some _ \<Rightarrow> CaptureState.Failed
         | None \<Rightarrow> if rt_stopped_before rt (i + length frames) then CaptureState.Stopped else DeviceDisconnected)"

lemma loop_forwards:
  "0 < capture_chunk settings \<Longrightarrow> \<forall>i. rt_receiver_alive rt i \<Longrightarrow> ct_state st = Capturing
    \<Longrightarrow> capture_stdout_loop settings rt i b p st = (frames, st')
    \<Longrightarrow> forwarded settings rt i b p st frames st'"
proof (induction settings rt i b p st arbitrary: frames st' rule: capture_stdout_loop.induct)
  case (1 settings rt i b p st)
  note pos = 1(2) and alive = 1(3) and run = 1(5)
  let ?st = "mark_stopped (rt_stopped_before rt i) st"
  obtain r b1 p1 where read: "buf_read (capture_chunk settings) b p = (r, b1, p1)" by (metis prod_cases3)
  note spec = buf_read_spec [OF pos, of b p]
  show ?case
  proof (cases r)
    case (Inl e)
    then have "frames = []" "st' = ?st\<lparr>ct_state := CaptureState.Failed, ct_last_error := Some (err_text e)\<rparr>"
      using read run by (simp_all add: capture_stdout_loop.simps [of settings rt i b p st])
    then show ?thesis using spec(1) [of e b1 p1] read Inl by (simp add: forwarded_def mark_stopped_def)
  next
    case (Inr bs)
    show ?thesis
    proof (cases "bs = []")
      case True
      then have "frames = []" "st' = stream_ended rt ?st"
        using read run Inr by (simp_all add: capture_stdout_loop.simps [of settings rt i b p st])
      then show ?thesis
        using spec(2) [of b1 p1] read Inr True 1(4) by (simp add: forwarded_def mark_stopped_def stream_ended_def)
    next
      case False
      let ?f = "frame_from_payload (of_nat i) (rt_elapsed rt i) settings bs"
      let ?st1 = "frame_captured (frame_from_payload (of_nat i) (rt_elapsed rt i) settings bs) ?st"
      obtain fs st2 where rest: "capture_stdout_loop settings rt (Suc i) b1 p1 ?st1 = (fs, st2)" by fastforce
      have res: "frames = ?f # fs" "st' = st2"
        using run read Inr False alive rest
        by (simp_all add: capture_stdout_loop.simps [of settings rt i b p st] Let_def)
      have "forwarded settings rt (Suc i) b1 p1 ?st1 fs st2"
        by (rule 1(1) [OF refl read [symmetric]]) (use Inr False alive pos rest in \<open>simp_all add: frame_captured_def\<close>)
      moreover have "length bs \<le> capture_chunk settings" "b @ delivered p = bs @ b1 @ delivered p1"
          "pipe_failure p1 = pipe_failure p"
        using spec(3) [of bs b1 p1] read Inr False by simp_all
      moreover have "[i ..< i + length (?f # fs)] = i # [Suc i ..< Suc i + length fs]"
        by (simp add: upt_conv_Cons del: upt_Suc)
      ultimately show ?thesis
        using False unfolding res forwarded_def
        by (simp add: frame_from_payload_def frame_captured_def mark_stopped_def del: upt_Suc)
    qed
  qed
qed

section \<open>Whole audio frames\<close>

definition aligned :: "nat \<Rightarrow> pipe \<Rightarrow> bool" where
  "aligned k p \<longleftrightarrow> list_all (\<lambda>x. case x of Inl e \<Rightarrow> True | Inr bs \<Rightarrow> k dvd length bs) p"

lemma dvd_length_take: "k dvd n \<Longrightarrow> k dvd length xs \<Longrightarrow> k dvd length (take n xs)"
  by (simp add: min_def)

lemma pipe_read_aligned:
  "k dvd n \<Longrightarrow> aligned k p \<Longrightarrow> pipe_read n p = (r, p') \<Longrightarrow>
     aligned k p' \<and> (\<forall>bs. r = Inr bs \<longrightarrow> k dvd length bs)"
  by (cases "(n, p)" rule: pipe_read.cases)
    (auto simp: aligned_def min_def dvd_diff_nat split: if_splits)

lemma buf_read_aligned:
  assumes "k dvd n" "k dvd BUF_READER_CAPACITY" "aligned k p" "k dvd length b" "buf_read n b p = (Inr bs, b', p')"
  shows "k dvd length bs \<and> k dvd length b' \<and> aligned k p'"
  using assms pipe_read_aligned [OF assms(1,3)] pipe_read_aligned [OF assms(2,3)]
  by (auto simp: buf_read_def min_def dvd_diff_nat split: if_splits prod.splits sum.splits)

lemma loop_aligned:
  "k dvd capture_chunk settings \<Longrightarrow> k dvd BUF_READER_CAPACITY \<Longrightarrow> aligned k p \<Longrightarrow> k dvd length b
    \<Longrightarrow> list_all (\<lambda>f. k dvd length (af_payload f)) (fst (capture_stdout_loop settings rt i b p st))"
proof (induction settings rt i b p st rule: capture_stdout_loop.induct)
  case (1 settings rt i b p st)
  obtain r b1 p1 where read: "buf_read (capture_chunk settings) b p = (r, b1, p1)" by (metis prod_cases3)
  show ?case
  proof (cases r)
    case (Inr bs)
    note al = buf_read_aligned [OF 1(2-5) read [unfolded Inr]]
    let ?st1 = "frame_captured (frame_from_payload (of_nat i) (rt_elapsed rt i) settings bs) (mark_stopped (rt_stopped_before rt i) st)"
    have "list_all (\<lambda>f. k dvd length (af_payload f)) (fst (capture_stdout_loop settings rt (Suc i) b1 p1 ?st1))"
      if "bs \<noteq> []" "rt_receiver_alive rt i"
      by (rule 1(1) [OF refl read [symmetric]]) (use Inr that 1(2,3) al in simp_all)
    then show ?thesis
      using al read Inr
      by (simp add: capture_stdout_loop.simps [of settings rt i b p st] Let_def split_def frame_from_payload_def)
  qed (use read in \<open>simp add: capture_stdout_loop.simps [of settings rt i b p st]\<close>)
qed

text \<open>What the buffer holds is sent before the pipe is read again.\<close>

lemma loop_drains_buffer:
  "0 < capture_chunk settings \<Longrightarrow> \<forall>i. rt_receiver_alive rt i \<Longrightarrow> 
     \<exists>fs1 fs2. fst (capture_stdout_loop settings rt i b p st) = fs1 @ fs2 \<and> concat (map af_payload fs1) = b"
proof (induction "length b" arbitrary: b i st rule: less_induct)
  case less
  show ?case
  proof (cases "b = []")
    case False
    let ?n = "capture_chunk settings"
    let ?st1 = "frame_captured (frame_from_payload (of_nat i) (rt_elapsed rt i) settings (take ?n b)) (mark_stopped (rt_stopped_before rt i) st)"
    have "length (drop ?n b) < length b" using False less(2) by (cases b) auto
    from less(1) [OF this less(2,3)] obtain fs1 fs2
      where rest: "fst (capture_stdout_loop settings rt (Suc i) (drop ?n b) p ?st1) = fs1 @ fs2"
        "concat (map af_payload fs1) = drop ?n b" by blast
    let ?f = "frame_from_payload (of_nat i) (rt_elapsed rt i) settings (take ?n b)"
    have "fst (capture_stdout_loop settings rt i b p st) = (?f # fs1) @ fs2"
      using False less(2,3) rest
      by (subst capture_stdout_loop.simps) (simp add: buf_read_def Let_def split_def)
    moreover have "concat (map af_payload (?f # fs1)) = b"
      by (simp add: rest(2) frame_from_payload_def)
    ultimately show ?thesis by blast
  qed (use append_Nil in fastforce)
qed

lemma loop_fills_buffer:
  assumes "capture_chunk settings < BUF_READER_CAPACITY" "BUF_READER_CAPACITY \<le> length bs"
  shows "capture_stdout_loop settings rt i [] (Inr bs # p) st =
    capture_stdout_loop settings rt i (take BUF_READER_CAPACITY bs)
      (if length bs \<le> BUF_READER_CAPACITY then p else Inr (drop BUF_READER_CAPACITY bs) # p) st"
proof -
  have "take BUF_READER_CAPACITY bs \<noteq> []" using assms by auto
  then show ?thesis
    using assms(1) by (subst (1 2) capture_stdout_loop.simps) (simp add: buf_read_def)
qed

lemma dvd_concat: "list_all (\<lambda>f. k dvd length (af_payload f)) fs \<Longrightarrow> k dvd length (concat (map af_payload fs))"
  by (induction fs) auto

lemma full_buffer_splits:
  assumes "0 < capture_chunk settings" "capture_chunk settings < BUF_READER_CAPACITY"
    and "\<forall>i. rt_receiver_alive rt i" "BUF_READER_CAPACITY \<le> length bs" "\<not> k dvd BUF_READER_CAPACITY"
  shows "\<exists>f \<in> set (fst (capture_run settings rt (Inr bs # p) st)). \<not> k dvd length (af_payload f)"
proof -
  let ?b = "take BUF_READER_CAPACITY bs"
  obtain p' st' where run: "capture_run settings rt (Inr bs # p) st = capture_stdout_loop settings rt 0 ?b p' st'"
    using loop_fills_buffer [OF assms(2,4)] by (simp add: capture_run_def)
  obtain fs1 fs2 where fs: "fst (capture_run settings rt (Inr bs # p) st) = fs1 @ fs2" "concat (map af_payload fs1) = ?b"
    using loop_drains_buffer [OF assms(1,3), of 0 ?b p' st'] run by auto
  have "length ?b = BUF_READER_CAPACITY" using assms(4) by simp
  then have "\<not> k dvd length (concat (map af_payload fs1))" using assms(5) by (simp add: fs(2))
  then have "\<not> list_all (\<lambda>f. k dvd length (af_payload f)) fs1" using dvd_concat by blast
  then show ?thesis by (auto simp: fs(1) list_all_iff)
qed

section \<open>Properties\<close>

definition all_received :: "(nat \<Rightarrow> bool) \<Rightarrow> reader_times" where
  "all_received stopped = \<lparr>rt_elapsed = \<lambda>i. i, rt_receiver_alive = \<lambda>_. True, rt_stopped_before = stopped,
     rt_stopped_at_end = False\<rparr>"

lemma validated_chunk:
  assumes "validate_capture_settings settings = Inr ()"
  shows "capture_chunk settings = chunk_bytes settings" "0 < capture_chunk settings"
proof -
  have "cs_channels settings \<noteq> 0" "cs_buffer_frames settings \<noteq> 0"
    using assms by (auto simp: validate_capture_settings_def split: if_splits)
  then have "0 < unat (cs_channels settings)" "0 < unat (cs_buffer_frames settings)"
    by (simp_all add: unat_gt_0)
  then have pos: "0 < capture_bytes_per_frame settings" "capture_bytes_per_frame settings \<le> chunk_bytes settings"
    by (cases "cs_sample_format settings"; simp add: capture_bytes_per_frame_def chunk_bytes_def)+
  then show "capture_chunk settings = chunk_bytes settings" "0 < capture_chunk settings"
    by (simp_all add: capture_chunk_def)
qed

text \<open>
  C8: While the session receives, the frames of a capture are the bytes of the pipe in order, none lost, none empty and none larger
  than a chunk, numbered from zero; the statistics count them, and their state is how the pipe ended.
\<close>

theorem capture_forwards_the_pipe:
  assumes "validate_capture_settings settings = Inr ()" "\<forall>i. rt_receiver_alive rt i"
    and "capture_run settings rt p st = (frames, st')"
  shows "concat (map af_payload frames) = delivered p
    \<and> list_all (\<lambda>f. af_payload f \<noteq> [] \<and> length (af_payload f) \<le> chunk_bytes settings) frames
    \<and> map af_sequence frames = map of_nat [0 ..< length frames]
    \<and> ct_frames_emitted st' = ct_frames_emitted st + of_nat (length frames)
    \<and> ct_bytes_captured st' = ct_bytes_captured st + of_nat (length (delivered p))
    \<and> ct_state st' = (case pipe_failure p of Some _ \<Rightarrow> CaptureState.Failed
        | None \<Rightarrow> if rt_stopped_before rt (length frames) then CaptureState.Stopped else DeviceDisconnected)"
proof -
  note chunk = validated_chunk [OF assms(1)]
  show ?thesis
    using loop_forwards [OF chunk(2) assms(2) _ assms(3) [unfolded capture_run_def]]
    by (simp add: forwarded_def chunk(1))
qed

theorem capture_forwards_the_pipe_witness:
  "concat (map af_payload (fst (capture_run default_capture_settings (all_received (\<lambda>i. i = 1)) [Inr [1, 2], Inr []]
     default_capture_stats))) = [1, 2]"
proof -
  obtain frames st' where run: "capture_run default_capture_settings (all_received (\<lambda>i. i = 1)) [Inr [1, 2], Inr []]
      default_capture_stats = (frames, st')" by fastforce
  have "concat (map af_payload frames) = delivered [Inr [1, 2], Inr []]"
    by (rule capture_forwards_the_pipe [OF _ _ run, THEN conjunct1])
      (simp_all add: validate_capture_settings_def default_capture_settings_def all_received_def)
  then show ?thesis unfolding run by simp
qed

theorem capture_takes_first_source:
  assumes "start_capture tools b settings w = (Inr (settings', pc), w')" "cs_source_id settings = None"
  shows "\<exists>s ss w1. list_sources tools b w = (Inr (s # ss), w1)
    \<and> settings' = settings\<lparr>cs_source_id := Some (as_id s)\<rparr>
    \<and> ((\<exists>x \<in> set (s # ss). as_is_default x) \<longrightarrow> as_is_default s)"
proof -
  obtain r w1 where ls: "list_sources tools b w = (r, w1)" by fastforce
  have valid: "\<And>e. validate_capture_settings settings \<noteq> Inl e"
    using assms(1) by (auto simp: start_capture_def)
  obtain sources where r: "r = Inr sources"
    using assms valid ls by (cases r) (auto simp: start_capture_def split: sum.splits)
  then have "sorted (map source_key sources)"
    using ls by (auto simp: list_sources_def list_inventory_def map_sum_def apfst_def map_prod_def sorted_sources
        split: sum.splits prod.splits)
  note first = select_first [OF this]
  obtain s where sel: "select_source sources = Inr s" and set: "settings' = settings\<lparr>cs_source_id := Some (as_id s)\<rparr>"
    using assms valid ls r
    by (cases "select_source sources") (auto simp: start_capture_def split: sum.splits prod.splits if_splits)
  then obtain ss where sources: "sources = s # ss" using first by (cases sources) auto
  have "as_is_default s" if "x \<in> set (s # ss)" "as_is_default x" for x
    using sorted_head_default [OF _ that] \<open>sorted (map source_key sources)\<close> sources by simp
  then show ?thesis using ls r set sources by blast
qed

theorem capture_takes_first_source_witness:
  "\<exists>s ss w1. list_sources demo_tools default_backend () = (Inr (s # ss), w1)
    \<and> default_capture_settings\<lparr>cs_source_id := Some ''out''\<rparr> = default_capture_settings\<lparr>cs_source_id := Some (as_id s)\<rparr>
    \<and> ((\<exists>x \<in> set (s # ss). as_is_default x) \<longrightarrow> as_is_default s)"
proof -
  have "start_capture demo_tools default_backend default_capture_settings () =
      (Inr (default_capture_settings\<lparr>cs_source_id := Some ''out''\<rparr>,
        \<lparr>pc_frames = [], pc_sender_alive = True, pc_child = True,
          pc_stats = default_capture_stats\<lparr>ct_state := CaptureState.Starting\<rparr>,
          pc_reader_thread = True, pc_stderr_thread = True\<rparr>), ())"
    using demo_inventory
    by (simp add: start_capture_def validate_capture_settings_def default_capture_settings_def list_sources_def
        select_source_def demo_sources_def) (simp add: demo_tools_def)
  from capture_takes_first_source [OF this] show ?thesis by (simp add: default_capture_settings_def)
qed

end
