(* ===== verification/Audio_Playback.thy ===== *)
theory Audio_Playback
  imports Audio_Capture Receiver_Worker
begin

text \<open>
  Playing with \<open>pw-play\<close>, \<open>synchrosonic-audio/src/playback.rs\<close>: the engine that starts the
  program and the sink that feeds it. The pipe to the program is a function over a world. The
  contract \<open>stoppable\<close> states what the two process handles of the crate have in common: a stop
  that succeeds ends the process and another stop does nothing.
\<close>

section \<open>The engine\<close>

record LinuxPlaybackEngine =
  lp_pw_play_bin :: string

definition default_playback_engine :: LinuxPlaybackEngine where
  "default_playback_engine = \<lparr>lp_pw_play_bin = ''pw-play''\<rparr>"

definition validate_playback_request :: "PlaybackStartRequest \<Rightarrow> AudioError + unit" where
  "validate_playback_request request =
     (if sc_sample_rate_hz (req_stream request) = 0 then
        Inl (InvalidSettings ''sample_rate_hz must be greater than zero'')
      else if sc_channels (req_stream request) = 0 then
        Inl (InvalidSettings ''channels must be greater than zero'')
      else if sc_frames_per_packet (req_stream request) = 0 then
        Inl (InvalidSettings ''frames_per_packet must be greater than zero'')
      else Inr ())"

definition play_arguments :: "PlaybackStartRequest \<Rightarrow> string list" where
  "play_arguments request =
     [''--raw'', ''--rate'', show_word (sc_sample_rate_hz (req_stream request)),
      ''--channels'', show_word (sc_channels (req_stream request)),
      ''--format'', pipewire_format_name (sc_sample_format (req_stream request)),
      ''--latency'', show_word (req_latency_ms request) @ ''ms'']
     @ (case req_target_id request of Some t \<Rightarrow> [''--target'', t] | None \<Rightarrow> []) @ [''-'']"

record PipeWirePlaybackSink =
  pp_child :: bool
  pp_stdin :: bool
  pp_stderr_thread :: bool

definition start_stream ::
  "'w audio_tools \<Rightarrow> LinuxPlaybackEngine \<Rightarrow> PlaybackStartRequest \<Rightarrow> 'w
    \<Rightarrow> (AudioError + PipeWirePlaybackSink) \<times> 'w" where
  "start_stream tools engine request w =
     (case validate_playback_request request of
        Inl e \<Rightarrow> (Inl e, w)
      | Inr _ \<Rightarrow>
          (case at_spawn tools (lp_pw_play_bin engine) (play_arguments request) w of
             (Inl e, w1) \<Rightarrow> (Inl (spawn_error (lp_pw_play_bin engine) e), w1)
           | (Inr child, w1) \<Rightarrow>
               (if \<not> sp_stdin child then
                  Inl (ProcessIo ''opening pw-play stdin''
                    \<lparr>err_kind = BrokenPipe, err_text = ''pw-play stdin was not piped''\<rparr>)
                else Inr \<lparr>pp_child = True, pp_stdin = True, pp_stderr_thread = sp_stderr child\<rparr>, w1)))"

section \<open>The sink\<close>

definition sink_write ::
  "(bytes \<Rightarrow> 'w \<Rightarrow> (io_error + unit) \<times> 'w) \<Rightarrow> bytes \<Rightarrow> PipeWirePlaybackSink \<Rightarrow> 'w \<Rightarrow> (AudioError + unit) \<times> 'w" where
  "sink_write write_all payload s w =
     (if \<not> pp_stdin s then
        (Inl (ProcessIo ''writing playback payload''
           \<lparr>err_kind = BrokenPipe, err_text = ''playback stdin is not available''\<rparr>), w)
      else
        (case write_all payload w of
           (Inl e, w1) \<Rightarrow> (Inl (ProcessIo ''writing audio payload to pw-play'' e), w1)
         | (Inr _, w1) \<Rightarrow> (Inr (), w1)))"

definition sink_stop ::
  "'w process_ops \<Rightarrow> PipeWirePlaybackSink \<Rightarrow> 'w \<Rightarrow> (AudioError + unit) \<times> PipeWirePlaybackSink \<times> 'w" where
  "sink_stop pr s w =
     (let s1 = s\<lparr>pp_stdin := False\<rparr>;
          (r, s2, w1) = (if pp_child s1 then
             (let (r, w1) = end_child pr ''pw-play'' w in (r, s1\<lparr>pp_child := False\<rparr>, w1))
            else (Inr (), s1, w))
      in case r of
           Inl e \<Rightarrow> (Inl e, s2, w1)
         | Inr _ \<Rightarrow> (Inr (), s2\<lparr>pp_stderr_thread := False\<rparr>, w1))"

section \<open>Process handles\<close>

locale stoppable =
  fixes stop :: "'w process_ops \<Rightarrow> 's \<Rightarrow> 'w \<Rightarrow> (AudioError + unit) \<times> 's \<times> 'w"
    and has_child :: "'s \<Rightarrow> bool"
    and has_threads :: "'s \<Rightarrow> bool"
    and name :: string
  assumes stop_takes_child: "\<not> has_child (fst (snd (stop pr s w)))"
    and stop_result: "fst (stop pr s w) = (if has_child s then fst (end_child pr name w) else Inr ())"
    and stop_world: "snd (snd (stop pr s w)) = (if has_child s then snd (end_child pr name w) else w)"
    and stop_joins: "fst (stop pr s w) = Inr () \<Longrightarrow> \<not> has_threads (fst (snd (stop pr s w)))"
begin

text \<open>Whatever the first stop returned, a second one succeeds without touching a process.\<close>

lemma second_stop:
  assumes "stop pr s w = (r, s1, w1)"
  shows "\<exists>s2. stop pr s1 w2 = (Inr (), s2, w2) \<and> \<not> has_child s2 \<and> \<not> has_threads s2"
proof -
  have "\<not> has_child s1" using stop_takes_child [of pr s w] by (simp add: assms)
  then have "fst (stop pr s1 w2) = Inr ()" "snd (snd (stop pr s1 w2)) = w2"
    using stop_result [of pr s1 w2] stop_world [of pr s1 w2] by simp_all
  then show ?thesis
    using stop_joins [of pr s1 w2] stop_takes_child [of pr s1 w2] by (cases "stop pr s1 w2") auto
qed

lemma stop_fails_only_with_process:
  "fst (stop pr s w) = Inl e \<Longrightarrow> has_child s \<and> fst (end_child pr name w) = Inl e"
  by (simp add: stop_result split: if_splits)

end

interpretation capture_process: stoppable capture_stop pc_child
    "\<lambda>pc. pc_reader_thread pc \<or> pc_stderr_thread pc" "''pw-record''"
  by unfold_locales (auto simp: capture_stop_def Let_def split_def split: sum.splits if_splits)

interpretation playback_process: stoppable sink_stop pp_child pp_stderr_thread "''pw-play''"
  by unfold_locales (auto simp: sink_stop_def Let_def split_def split: sum.splits if_splits)

section \<open>Properties\<close>

theorem stop_forgets_the_process:
  assumes "capture_stop pr pc w = (r, pc1, w1)" "sink_stop pr s v = (q, s1, v1)"
  shows "(\<exists>pc2. capture_stop pr pc1 w2 = (Inr (), pc2, w2) \<and> \<not> pc_child pc2 \<and> \<not> pc_reader_thread pc2)
    \<and> (\<exists>s2. sink_stop pr s1 v2 = (Inr (), s2, v2) \<and> \<not> pp_child s2)
    \<and> sink_write write_all payload s1 v2 = (Inl (ProcessIo ''writing playback payload''
         \<lparr>err_kind = BrokenPipe, err_text = ''playback stdin is not available''\<rparr>), v2)"
proof (intro conjI)
  show "\<exists>pc2. capture_stop pr pc1 w2 = (Inr (), pc2, w2) \<and> \<not> pc_child pc2 \<and> \<not> pc_reader_thread pc2"
    using capture_process.second_stop [OF assms(1), of w2] by auto
  show "\<exists>s2. sink_stop pr s1 v2 = (Inr (), s2, v2) \<and> \<not> pp_child s2"
    using playback_process.second_stop [OF assms(2), of v2] by auto
  have "\<not> pp_stdin s1"
    using assms(2) by (auto simp: sink_stop_def Let_def split_def split: sum.splits if_splits)
  then show "sink_write write_all payload s1 v2 = (Inl (ProcessIo ''writing playback payload''
      \<lparr>err_kind = BrokenPipe, err_text = ''playback stdin is not available''\<rparr>), v2)"
    by (simp add: sink_write_def)
qed

text \<open>A process that cannot be killed.\<close>

definition stuck_process :: "nat process_ops" where
  "stuck_process = \<lparr>pr_try_wait = \<lambda>n. (Inr False, n + 1),
     pr_kill = \<lambda>n. (Inl \<lparr>err_kind = PermissionDenied, err_text = ''Operation not permitted''\<rparr>, n + 1),
     pr_wait = \<lambda>n. (Inr (), n + 1)\<rparr>"

theorem stop_forgets_the_process_witness:
  "\<exists>pc1 s1. fst (capture_stop stuck_process \<lparr>pc_frames = [], pc_sender_alive = True, pc_child = True,
       pc_stats = default_capture_stats, pc_reader_thread = True, pc_stderr_thread = False\<rparr> 0) \<noteq> Inr ()
     \<and> (\<exists>pc2. capture_stop stuck_process pc1 5 = (Inr (), pc2, 5) \<and> \<not> pc_child pc2 \<and> \<not> pc_reader_thread pc2)
     \<and> (\<exists>s2. sink_stop stuck_process s1 5 = (Inr (), s2, 5) \<and> \<not> pp_child s2)"
proof -
  let ?pc = "\<lparr>pc_frames = [], pc_sender_alive = True, pc_child = True, pc_stats = default_capture_stats,
     pc_reader_thread = True, pc_stderr_thread = False\<rparr>"
  obtain r pc1 w1 where a: "capture_stop stuck_process ?pc 0 = (r, pc1, w1)" by (metis prod_cases3)
  obtain q s1 v1 where b: "sink_stop stuck_process \<lparr>pp_child = True, pp_stdin = True, pp_stderr_thread = True\<rparr> 0
      = (q, s1, v1)" by (metis prod_cases3)
  have "fst (capture_stop stuck_process ?pc 0) \<noteq> Inr ()"
    by (simp add: capture_stop_def end_child_def stuck_process_def Let_def)
  then show ?thesis
    using stop_forgets_the_process [OF a b, of 5 5] by blast
qed

end
