(* ===== verification/Debug_Text.thy ===== *)
theory Debug_Text
  imports Core_Streaming Receiver_Core Core_Models
begin

text \<open>The derived \<open>Debug\<close> texts of the enums that reports and messages print with \<open>{:?}\<close>.\<close>

fun dbg_device_status :: "DeviceStatus \<Rightarrow> string" where
  "dbg_device_status Discovered = ''Discovered''"
| "dbg_device_status Resolving = ''Resolving''"
| "dbg_device_status ReceiverStarting = ''ReceiverStarting''"
| "dbg_device_status ReceiverListening = ''ReceiverListening''"
| "dbg_device_status Reachable = ''Reachable''"
| "dbg_device_status DeviceStatus.Connecting = ''Connecting''"
| "dbg_device_status DeviceStatus.Connected = ''Connected''"
| "dbg_device_status DeviceStatus.Unavailable = ''Unavailable''"
| "dbg_device_status Stale = ''Stale''"
| "dbg_device_status SelfDevice = ''SelfDevice''"
| "dbg_device_status IncompatibleVersion = ''IncompatibleVersion''"

fun dbg_availability :: "DeviceAvailability \<Rightarrow> string" where
  "dbg_availability DeviceAvailability.Available = ''Available''"
| "dbg_availability Busy = ''Busy''"
| "dbg_availability DeviceAvailability.Unavailable = ''Unavailable''"

fun dbg_target_availability :: "PlaybackTargetAvailability \<Rightarrow> string" where
  "dbg_target_availability PlaybackTargetAvailability.Available = ''Available''"
| "dbg_target_availability PlaybackTargetAvailability.Unavailable = ''Unavailable''"

fun dbg_quality :: "QualityPreset \<Rightarrow> string" where
  "dbg_quality QualityPreset.LowLatency = ''LowLatency''"
| "dbg_quality QualityPreset.Balanced = ''Balanced''"
| "dbg_quality HighQuality = ''HighQuality''"

fun dbg_latency_preset :: "ReceiverLatencyPreset \<Rightarrow> string" where
  "dbg_latency_preset ReceiverLatencyPreset.LowLatency = ''LowLatency''"
| "dbg_latency_preset ReceiverLatencyPreset.Balanced = ''Balanced''"
| "dbg_latency_preset Stable = ''Stable''"

fun dbg_sample_format :: "AudioSampleFormat \<Rightarrow> string" where
  "dbg_sample_format S16Le = ''S16Le''"
| "dbg_sample_format F32Le = ''F32Le''"

fun dbg_receiver_state :: "ReceiverServiceState \<Rightarrow> string" where
  "dbg_receiver_state ReceiverServiceState.Idle = ''Idle''"
| "dbg_receiver_state Listening = ''Listening''"
| "dbg_receiver_state ReceiverServiceState.Connected = ''Connected''"
| "dbg_receiver_state Buffering = ''Buffering''"
| "dbg_receiver_state Playing = ''Playing''"
| "dbg_receiver_state ReceiverServiceState.Error = ''Error''"

fun dbg_sync_state :: "ReceiverSyncState \<Rightarrow> string" where
  "dbg_sync_state ReceiverSyncState.Idle = ''Idle''"
| "dbg_sync_state Priming = ''Priming''"
| "dbg_sync_state Locked = ''Locked''"
| "dbg_sync_state Late = ''Late''"
| "dbg_sync_state Recovering = ''Recovering''"

fun dbg_session_state :: "StreamSessionState \<Rightarrow> string" where
  "dbg_session_state StreamSessionState.Idle = ''Idle''"
| "dbg_session_state StreamSessionState.Connecting = ''Connecting''"
| "dbg_session_state Negotiating = ''Negotiating''"
| "dbg_session_state Streaming = ''Streaming''"
| "dbg_session_state StreamSessionState.Stopping = ''Stopping''"
| "dbg_session_state StreamSessionState.Error = ''Error''"

fun dbg_mirror_state :: "LocalMirrorState \<Rightarrow> string" where
  "dbg_mirror_state LocalMirrorState.Disabled = ''Disabled''"
| "dbg_mirror_state LocalMirrorState.Idle = ''Idle''"
| "dbg_mirror_state LocalMirrorState.Starting = ''Starting''"
| "dbg_mirror_state Mirroring = ''Mirroring''"
| "dbg_mirror_state LocalMirrorState.Stopping = ''Stopping''"
| "dbg_mirror_state LocalMirrorState.Error = ''Error''"

fun dbg_health :: "StreamTargetHealth \<Rightarrow> string" where
  "dbg_health Pending = ''Pending''"
| "dbg_health Healthy = ''Healthy''"
| "dbg_health Degraded = ''Degraded''"
| "dbg_health StreamTargetHealth.Unreachable = ''Unreachable''"
| "dbg_health StreamTargetHealth.Error = ''Error''"

fun dbg_failure_kind :: "StreamTargetFailureKind \<Rightarrow> string" where
  "dbg_failure_kind Refused = ''Refused''"
| "dbg_failure_kind Timeout = ''Timeout''"
| "dbg_failure_kind ResolveFailure = ''ResolveFailure''"
| "dbg_failure_kind ProtocolMismatch = ''ProtocolMismatch''"
| "dbg_failure_kind SelfTargetBlocked = ''SelfTargetBlocked''"
| "dbg_failure_kind StreamTargetFailureKind.Unreachable = ''Unreachable''"

definition dbg_option :: "('a \<Rightarrow> string) \<Rightarrow> 'a option \<Rightarrow> string" where
  "dbg_option f x = (case x of None \<Rightarrow> ''None'' | Some y \<Rightarrow> ''Some('' @ f y @ '')'')"

fun join_with :: "string \<Rightarrow> string list \<Rightarrow> string" where
  "join_with sep [] = []"
| "join_with sep [x] = x"
| "join_with sep (x # y # xs) = x @ sep @ join_with sep (y # xs)"

end
