(* ===== verification/App_Metadata.thy ===== *)
theory App_Metadata
  imports Json_Value Debug_Text
begin

text \<open>
  The build's metadata, \<open>synchrosonic-app/src/metadata.rs\<close>. What Cargo puts in at compile time
  is the record \<open>build_info\<close>.
\<close>

record build_info =
  bi_version :: string
  bi_authors :: string
  bi_repository :: string

definition APP_NAME :: string where
  "APP_NAME = ''SynchroSonic''"

definition APP_BUG_TRACKER :: string where
  "APP_BUG_TRACKER = ''https://github.com/UdayaSri0/AudioShare/issues''"

definition APP_RELEASES :: string where
  "APP_RELEASES = ''https://github.com/UdayaSri0/AudioShare/releases''"

text \<open>\<open>str::split\<close> with a character.\<close>

fun split_on :: "char \<Rightarrow> string \<Rightarrow> string list" where
  "split_on d [] = [[]]"
| "split_on d (c # cs) =
     (if c = d then [] # split_on d cs
      else case split_on d cs of [] \<Rightarrow> [[c]] | w # ws \<Rightarrow> (c # w) # ws)"

definition authors_display :: "build_info \<Rightarrow> string" where
  "authors_display b =
     join_with '', '' (filter (\<lambda>author. trim author \<noteq> []) (split_on (CHR '':'') (bi_authors b)))"

definition release_channel_label :: "build_info \<Rightarrow> string" where
  "release_channel_label b =
     (if str_contains (bi_version b) ''-rc.'' then ''Release candidate''
      else if str_contains (bi_version b) ''-'' then ''Pre-release''
      else ''Stable release'')"

definition release_channel_summary :: "build_info \<Rightarrow> string" where
  "release_channel_summary b =
     (if str_contains (bi_version b) ''-rc.'' then
        ''This build is prepared as a public preview while stable packaging and security-reporting blockers are still being closed.''
      else if str_contains (bi_version b) ''-'' then
        ''This build is a pre-release and may still change before a stable public tag.''
      else ''This build is prepared as a stable public release.'')"

end
