(* ===== verification/Browser_Join.thy ===== *)
theory Browser_Join
  imports Json_Value Errors Discovery_Core App_Metadata Steps
begin

text \<open>
  The browser-join prototype, \<open>synchrosonic-app/src/browser_join.rs\<close>: join links with a token,
  the listener thread, and the answers to HTTP requests. The listening socket, the random
  device, the UDP probe, the resolver, the clock, the client's connection and the printer of JSON
  are the functions of \<open>join_env\<close> over a world; a request is the list of the lines read from the
  connection, whose end is the end of the stream. Mutexes are never poisoned.
\<close>

definition BROWSER_JOIN_TOKEN_BYTES :: nat where
  "BROWSER_JOIN_TOKEN_BYTES = 18"

definition BROWSER_JOIN_TOKEN_TTL_SECS :: u64 where
  "BROWSER_JOIN_TOKEN_TTL_SECS = 15 * 60"

section \<open>State\<close>

record BrowserJoinSnapshot =
  bj_active :: bool
  bj_bind_addr :: "string option"
  bj_join_url :: "string option"
  bj_token_expires_at_unix_ms :: "u64 option"
  bj_requests_served :: u64
  bj_last_request_path :: "string option"
  bj_last_request_at_unix_ms :: "u64 option"
  bj_last_error :: "string option"

definition default_join_snapshot :: BrowserJoinSnapshot where
  "default_join_snapshot = \<lparr>bj_active = False, bj_bind_addr = None, bj_join_url = None,
     bj_token_expires_at_unix_ms = None, bj_requests_served = 0, bj_last_request_path = None,
     bj_last_request_at_unix_ms = None, bj_last_error = None\<rparr>"

text \<open>The stop flag and the handle of the worker are present or not.\<close>

record BrowserJoinState =
  js_snapshot :: BrowserJoinSnapshot
  js_current_token :: "string option"
  js_stop_flag :: bool
  js_worker :: bool

definition join_new :: BrowserJoinState where
  "join_new = \<lparr>js_snapshot = default_join_snapshot, js_current_token = None, js_stop_flag = False,
     js_worker = False\<rparr>"

record GeneratedJoinLink =
  jl_url :: string
  jl_expires_at_unix_ms :: u64

definition upd_join :: "(BrowserJoinSnapshot \<Rightarrow> BrowserJoinSnapshot) \<Rightarrow> BrowserJoinState \<Rightarrow> BrowserJoinState" where
  "upd_join f s = s\<lparr>js_snapshot := f (js_snapshot s)\<rparr>"

record 'w join_env =
  je_now :: "'w \<Rightarrow> u64 \<times> 'w"
  je_bind :: "SocketAddr \<Rightarrow> 'w \<Rightarrow> (io_error + unit) \<times> 'w"
  je_set_nonblocking :: "'w \<Rightarrow> (io_error + unit) \<times> 'w"
  je_local_addr :: "'w \<Rightarrow> (io_error + SocketAddr) \<times> 'w"
  je_parse_addr :: "string \<Rightarrow> SocketAddr option"
  je_open_urandom :: "'w \<Rightarrow> (io_error + unit) \<times> 'w"
  je_read_exact :: "nat \<Rightarrow> 'w \<Rightarrow> (io_error + bytes) \<times> 'w"
  je_udp_bind :: "string \<Rightarrow> 'w \<Rightarrow> nat option \<times> 'w"
  je_udp_connect :: "nat \<Rightarrow> SocketAddr \<Rightarrow> 'w \<Rightarrow> bool \<times> 'w"
  je_udp_local_addr :: "nat \<Rightarrow> 'w \<Rightarrow> SocketAddr option \<times> 'w"
  je_hostname :: "'w \<Rightarrow> string option \<times> 'w"
  je_to_socket_addrs :: "string \<Rightarrow> 'w \<Rightarrow> SocketAddr list option \<times> 'w"
  je_try_clone :: "'w \<Rightarrow> (io_error + unit) \<times> 'w"
  je_write :: "string \<Rightarrow> 'w \<Rightarrow> (io_error + unit) \<times> 'w"
  je_flush :: "'w \<Rightarrow> (io_error + unit) \<times> 'w"
  je_pretty :: "json \<Rightarrow> io_error + string"
  je_app_version :: string

section \<open>The host of a link\<close>

definition is_browser_join_host_candidate :: "IpAddr \<Rightarrow> bool" where
  "is_browser_join_host_candidate a = (\<not> (is_loopback a \<or> is_unspecified a \<or> is_multicast a))"

definition is_browser_join_host_override :: "IpAddr \<Rightarrow> bool" where
  "is_browser_join_host_override a = (\<not> (is_unspecified a \<or> is_multicast a))"

definition join_local_ip_for :: "'w join_env \<Rightarrow> string \<Rightarrow> 'w \<Rightarrow> IpAddr option \<times> 'w" where
  "join_local_ip_for je target w =
     (case je_to_socket_addrs je target w of
        (None, w1) \<Rightarrow> (None, w1)
      | (Some [], w1) \<Rightarrow> (None, w1)
      | (Some (remote # _), w1) \<Rightarrow>
          (let bind_addr = (case sa_ip remote of V4 _ _ _ _ \<Rightarrow> ''0.0.0.0:0'' | V6 _ \<Rightarrow> ''[::]:0'')
           in case je_udp_bind je bind_addr w1 of
                (None, w2) \<Rightarrow> (None, w2)
              | (Some socket, w2) \<Rightarrow>
                  (case je_udp_connect je socket remote w2 of
                     (False, w3) \<Rightarrow> (None, w3)
                   | (True, w3) \<Rightarrow>
                       (case je_udp_local_addr je socket w3 of
                          (None, w4) \<Rightarrow> (None, w4)
                        | (Some a, w4) \<Rightarrow>
                            (if is_browser_join_host_candidate (sa_ip a) then Some (sa_ip a) else None, w4)))))"

definition join_local_ip_for_hostname :: "'w join_env \<Rightarrow> 'w \<Rightarrow> IpAddr option \<times> 'w" where
  "join_local_ip_for_hostname je w =
     (case je_hostname je w of
        (None, w1) \<Rightarrow> (None, w1)
      | (Some hostname, w1) \<Rightarrow>
          (case je_to_socket_addrs je (hostname @ '':0'') w1 of
             (None, w2) \<Rightarrow> (None, w2)
           | (Some addresses, w2) \<Rightarrow> (find is_browser_join_host_candidate (map sa_ip addresses), w2)))"

definition detect_local_join_host :: "'w join_env \<Rightarrow> 'w \<Rightarrow> IpAddr option \<times> 'w" where
  "detect_local_join_host je w =
     (case join_local_ip_for je ''8.8.8.8:9'' w of
        (Some ip, w1) \<Rightarrow> (Some ip, w1)
      | (None, w1) \<Rightarrow>
          (case join_local_ip_for je ''[2001:4860:4860::8888]:9'' w1 of
             (Some ip, w2) \<Rightarrow> (Some ip, w2)
           | (None, w2) \<Rightarrow> join_local_ip_for_hostname je w2))"

section \<open>Links\<close>

definition hex_digit :: "nat \<Rightarrow> char" where
  "hex_digit d = (if d < 10 then char_of (48 + d) else char_of (87 + d))"

definition hex_byte :: "u8 \<Rightarrow> string" where
  "hex_byte b = [hex_digit (unat b div 16), hex_digit (unat b mod 16)]"

definition generate_join_token :: "'w join_env \<Rightarrow> 'w \<Rightarrow> (io_error + string) \<times> 'w" where
  "generate_join_token je w =
     (case je_open_urandom je w of
        (Inl e, w1) \<Rightarrow> (Inl e, w1)
      | (Inr _, w1) \<Rightarrow>
          (case je_read_exact je BROWSER_JOIN_TOKEN_BYTES w1 of
             (Inl e, w2) \<Rightarrow> (Inl e, w2)
           | (Inr bs, w2) \<Rightarrow> (Inr (concat (map hex_byte bs)), w2)))"

definition ensure_running ::
  "'w join_env \<Rightarrow> BrowserJoinState \<Rightarrow> 'w \<Rightarrow> (io_error + SocketAddr) \<times> BrowserJoinState \<times> 'w" where
  "ensure_running je s w =
     (let running = (if bj_active (js_snapshot s)
            then Option.bind (bj_bind_addr (js_snapshot s)) (je_parse_addr je) else None)
      in case running of
           Some bind_addr \<Rightarrow> (Inr bind_addr, s, w)
         | None \<Rightarrow>
             (case je_bind je \<lparr>sa_ip = V4 0 0 0 0, sa_port = 0\<rparr> w of
                (Inl e, w1) \<Rightarrow> (Inl e, s, w1)
              | (Inr _, w1) \<Rightarrow>
                  (case je_set_nonblocking je w1 of
                     (Inl e, w2) \<Rightarrow> (Inl e, s, w2)
                   | (Inr _, w2) \<Rightarrow>
                       (case je_local_addr je w2 of
                          (Inl e, w3) \<Rightarrow> (Inl e, s, w3)
                        | (Inr bind_addr, w3) \<Rightarrow>
                            (Inr bind_addr,
                             upd_join (\<lambda>b. b\<lparr>bj_active := True, bj_bind_addr := Some (show_addr bind_addr),
                                 bj_last_error := None\<rparr>) (s\<lparr>js_stop_flag := True, js_worker := True\<rparr>), w3)))))"

definition join_path :: "string \<Rightarrow> string" where
  "join_path token = ''/join/'' @ token"

definition generate_join_link ::
  "'w join_env \<Rightarrow> IpAddr option \<Rightarrow> BrowserJoinState \<Rightarrow> 'w
    \<Rightarrow> (io_error + GeneratedJoinLink) \<times> BrowserJoinState \<times> 'w" where
  "generate_join_link je preferred_host s w =
     (case ensure_running je s w of
        (Inl e, s1, w1) \<Rightarrow> (Inl e, s1, w1)
      | (Inr bind_addr, s1, w1) \<Rightarrow>
          (let (host, w2) =
             (case (case preferred_host of
                      Some h \<Rightarrow> if is_browser_join_host_override h then Some h else None
                    | None \<Rightarrow> None) of
                Some h \<Rightarrow> (Some h, w1)
              | None \<Rightarrow> detect_local_join_host je w1);
               host_ip = (case host of Some h \<Rightarrow> h | None \<Rightarrow> sa_ip bind_addr)
           in case generate_join_token je w2 of
                (Inl e, w3) \<Rightarrow> (Inl e, s1, w3)
              | (Inr token, w3) \<Rightarrow>
                  (let (now, w4) = je_now je w3;
                       expires = sat_add now (BROWSER_JOIN_TOKEN_TTL_SECS * 1000);
                       url = ''http://'' @ show_ip host_ip @ '':'' @ show_word (sa_port bind_addr) @ join_path token
                   in (Inr \<lparr>jl_url = url, jl_expires_at_unix_ms = expires\<rparr>,
                       upd_join (\<lambda>b. b\<lparr>bj_join_url := Some url, bj_token_expires_at_unix_ms := Some expires,
                           bj_last_error := None\<rparr>) (s1\<lparr>js_current_token := Some token\<rparr>), w4))))"

text \<open>The join of the worker thread fails when the thread panicked, which is an input.\<close>

definition join_stop :: "bool \<Rightarrow> BrowserJoinState \<Rightarrow> (io_error + unit) \<times> BrowserJoinState" where
  "join_stop panicked s =
     (let s1 = upd_join (\<lambda>b. b\<lparr>bj_active := False, bj_join_url := None, bj_token_expires_at_unix_ms := None\<rparr>)
           (s\<lparr>js_current_token := None, js_stop_flag := False, js_worker := False\<rparr>)
      in (if js_worker s \<and> panicked
          then Inl \<lparr>err_kind = OtherKind, err_text = ''browser join worker thread panicked''\<rparr>
          else Inr (), s1))"

section \<open>Requests\<close>

definition CRLF :: string where
  "CRLF = [char_of (13 :: nat), char_of (10 :: nat)]"

text \<open>The header lines are read to the empty one; the answer is the read error, if any.\<close>

fun read_headers :: "(io_error + string) list \<Rightarrow> io_error option" where
  "read_headers [] = None"
| "read_headers (Inl e # ls) = Some e"
| "read_headers (Inr h # ls) = (if h = [] \<or> h = CRLF then None else read_headers ls)"

text \<open>The request line, nothing when it is blank.\<close>

fun read_request :: "(io_error + string) list \<Rightarrow> io_error + string option" where
  "read_request [] = Inr None"
| "read_request (Inl e # ls) = Inl e"
| "read_request (Inr line # ls) =
     (if trim line = [] then Inr None
      else case read_headers ls of Some e \<Rightarrow> Inl e | None \<Rightarrow> Inr (Some line))"

text \<open>\<open>split_whitespace\<close>, one word at a time.\<close>

definition next_word :: "string \<Rightarrow> string option \<times> string" where
  "next_word s =
     (let t = dropWhile is_whitespace s in
      if t = [] then (None, [])
      else (Some (takeWhile (\<lambda>c. \<not> is_whitespace c) t), dropWhile (\<lambda>c. \<not> is_whitespace c) t))"

definition method_and_path :: "string \<Rightarrow> string \<times> string" where
  "method_and_path line =
     (let (m, rest) = next_word line; (p, _) = next_word rest
      in (case m of Some m \<Rightarrow> m | None \<Rightarrow> [], case p of Some p \<Rightarrow> p | None \<Rightarrow> ''/''))"

text \<open>\<open>path.rsplit('/').next()\<close>: what follows the last slash.\<close>

definition last_segment :: "string \<Rightarrow> string" where
  "last_segment p = rev (takeWhile (\<lambda>c. c \<noteq> CHR ''/'') (rev p))"

definition show_expiry :: "string \<Rightarrow> u64 option \<Rightarrow> string" where
  "show_expiry unknown expires = (case expires of Some t \<Rightarrow> show_word t | None \<Rightarrow> unknown)"

definition page_head :: "string \<Rightarrow> string" where
  \<open>page_head title = ''<!doctype html><html><head><meta charset="utf-8"><title>'' @ title @ ''</title></head><body>''\<close>

definition prototype_home_page :: "string option \<Rightarrow> u64 option \<Rightarrow> string" where
  "prototype_home_page token expires =
     page_head (APP_NAME @ '' Browser Join Prototype'')
     @ ''<h1>'' @ APP_NAME @ '' Browser Join Prototype</h1>''
     @ ''<p>This page is an honest prototype boundary for future no-install guest joining.</p>''
     @ ''<p>Browser audio playback is not implemented in this build.</p>''
     @ ''<p>Current token: '' @ (case token of Some t \<Rightarrow> t | None \<Rightarrow> ''not generated'') @ ''</p>''
     @ ''<p>Expires: '' @ show_expiry ''not generated'' expires @ ''</p></body></html>''"

definition prototype_join_page :: "u64 option \<Rightarrow> string" where
  "prototype_join_page expires =
     page_head (APP_NAME @ '' Guest Join Prototype'')
     @ ''<h1>'' @ APP_NAME @ '' Guest Join Prototype</h1>''
     @ ''<p>This join link is valid and the host-side prototype endpoint is reachable.</p>''
     @ ''<p>Browser playback has not been implemented yet, so this page does not start audio.</p>''
     @ ''<p>Token expiry: '' @ show_expiry ''unknown'' expires @ ''</p>''
     @ ''<p>Future work: signaling, WebRTC transport, AudioWorklet playback, and guest diagnostics export.</p></body></html>''"

definition prototype_denied_page :: string where
  "prototype_denied_page =
     page_head (APP_NAME @ '' Join Link Rejected'')
     @ ''<h1>Join Link Rejected</h1>''
     @ ''<p>The token is missing, invalid, or expired.</p>''
     @ ''<p>This prototype does not provide browser playback yet.</p></body></html>''"

definition join_status_json :: "string \<Rightarrow> bool \<Rightarrow> u64 option \<Rightarrow> json" where
  "join_status_json version valid expires =
     JObject
       [(''app_name'', JString APP_NAME), (''app_version'', JString version), (''prototype'', JBool True),
        (''browser_audio_streaming_implemented'', JBool False), (''valid_token'', JBool valid),
        (''token_expires_at_unix_ms'', case expires of Some t \<Rightarrow> JNumber (show_word t) | None \<Rightarrow> JNull),
        (''message'', JString ''This endpoint is only a signaling/session prototype boundary. Browser playback is not implemented in this build.'')]"

record http_response =
  hr_status :: string
  hr_content_type :: string
  hr_body :: string

definition response_head :: "http_response \<Rightarrow> string" where
  "response_head r =
     ''HTTP/1.1 '' @ hr_status r @ CRLF @ ''Content-Type: '' @ hr_content_type r @ CRLF
     @ ''Content-Length: '' @ show_nat (length (hr_body r)) @ CRLF
     @ ''Cache-Control: no-store'' @ CRLF @ ''Connection: close'' @ CRLF @ CRLF"

definition write_http_response :: "'w join_env \<Rightarrow> http_response \<Rightarrow> 'w \<Rightarrow> (io_error + unit) \<times> 'w" where
  "write_http_response je r w =
     (case je_write je (response_head r) w of
        (Inl e, w1) \<Rightarrow> (Inl e, w1)
      | (Inr _, w1) \<Rightarrow>
          (case je_write je (hr_body r) w1 of
             (Inl e, w2) \<Rightarrow> (Inl e, w2)
           | (Inr _, w2) \<Rightarrow> je_flush je w2))"

text \<open>The answer to a request for a path, given the token, its expiry and whether it is valid.\<close>

definition join_response ::
  "'w join_env \<Rightarrow> string \<Rightarrow> string \<Rightarrow> string option \<Rightarrow> u64 option \<Rightarrow> bool \<Rightarrow> io_error + http_response" where
  "join_response je req_method path token expires valid =
     (let html = ''text/html; charset=utf-8''; plain = ''text/plain; charset=utf-8''
      in if req_method \<noteq> ''GET'' then
           Inr \<lparr>hr_status = ''405 Method Not Allowed'', hr_content_type = plain,
                hr_body = ''Only GET is supported by the browser join prototype.'' @ [CHR 0x0A]\<rparr>
         else if path = ''/'' then
           Inr \<lparr>hr_status = ''200 OK'', hr_content_type = html, hr_body = prototype_home_page token expires\<rparr>
         else if starts_with path ''/join/'' then
           (if valid then
              Inr \<lparr>hr_status = ''200 OK'', hr_content_type = html, hr_body = prototype_join_page expires\<rparr>
            else Inr \<lparr>hr_status = ''403 Forbidden'', hr_content_type = html, hr_body = prototype_denied_page\<rparr>)
         else if starts_with path ''/api/join/'' then
           (case je_pretty je (join_status_json (je_app_version je) valid expires) of
              Inl e \<Rightarrow> Inl e
            | Inr body \<Rightarrow>
                Inr \<lparr>hr_status = (if valid then ''200 OK'' else ''403 Forbidden''),
                     hr_content_type = ''application/json; charset=utf-8'', hr_body = body\<rparr>)
         else
           Inr \<lparr>hr_status = ''404 Not Found'', hr_content_type = plain,
                hr_body = ''Browser join prototype route not found.'' @ [CHR 0x0A]\<rparr>)"

text \<open>The token of the path is compared first; the clock is only read for a token that matches.\<close>

definition check_token :: "'w join_env \<Rightarrow> string \<Rightarrow> BrowserJoinState \<Rightarrow> 'w \<Rightarrow> bool \<times> 'w" where
  "check_token je path s w =
     (if js_current_token s = Some (last_segment path) then
        (case bj_token_expires_at_unix_ms (js_snapshot s) of
           None \<Rightarrow> (False, w)
         | Some expires \<Rightarrow> (let (now, w1) = je_now je w in (now \<le> expires, w1)))
      else (False, w))"

definition note_request :: "string \<Rightarrow> u64 \<Rightarrow> BrowserJoinState \<Rightarrow> BrowserJoinState" where
  "note_request path now s =
     upd_join (\<lambda>b. b\<lparr>bj_requests_served := sat_add (bj_requests_served b) 1,
        bj_last_request_path := Some path, bj_last_request_at_unix_ms := Some now\<rparr>) s"

definition handle_browser_join_request ::
  "'w join_env \<Rightarrow> (io_error + string) list \<Rightarrow> BrowserJoinState \<Rightarrow> 'w
    \<Rightarrow> (io_error + http_response option) \<times> BrowserJoinState \<times> 'w" where
  "handle_browser_join_request je lines s w =
     (case je_try_clone je w of
        (Inl e, w1) \<Rightarrow> (Inl e, s, w1)
      | (Inr _, w1) \<Rightarrow>
          (case read_request lines of
             Inl e \<Rightarrow> (Inl e, s, w1)
           | Inr None \<Rightarrow> (Inr None, s, w1)
           | Inr (Some line) \<Rightarrow>
               (let (req_method, path) = method_and_path line;
                    (now, w2) = je_now je w1;
                    s1 = note_request path now s;
                    (valid, w3) = check_token je path s1 w2
                in case join_response je req_method path (js_current_token s1)
                          (bj_token_expires_at_unix_ms (js_snapshot s1)) valid of
                     Inl e \<Rightarrow> (Inl e, s1, w3)
                   | Inr r \<Rightarrow>
                       (case write_http_response je r w3 of
                          (Inl e, w4) \<Rightarrow> (Inl e, s1, w4)
                        | (Inr _, w4) \<Rightarrow> (Inr (Some r), s1, w4)))))"

text \<open>One round of the listener: what \<open>accept\<close> returned, with the lines of the connection.\<close>

datatype accepted = Accepted "(io_error + string) list" | AcceptError io_error

definition listener_round :: "'w join_env \<Rightarrow> accepted \<Rightarrow> BrowserJoinState \<Rightarrow> 'w \<Rightarrow> BrowserJoinState \<times> 'w" where
  "listener_round je a s w =
     (case a of
        Accepted lines \<Rightarrow>
          (case handle_browser_join_request je lines s w of
             (Inl e, s1, w1) \<Rightarrow> (upd_join (bj_last_error_update (\<lambda>_. Some (err_text e))) s1, w1)
           | (Inr _, s1, w1) \<Rightarrow> (s1, w1))
      | AcceptError e \<Rightarrow>
          (if err_kind e = WouldBlock then (s, w)
           else (upd_join (bj_last_error_update (\<lambda>_. Some (err_text e))) s, w)))"

fun browser_join_listener_loop :: "'w join_env \<Rightarrow> accepted list \<Rightarrow> BrowserJoinState \<Rightarrow> 'w \<Rightarrow> BrowserJoinState \<times> 'w" where
  "browser_join_listener_loop je [] s w = (s, w)"
| "browser_join_listener_loop je (a # as) s w =
     (let (s1, w1) = listener_round je a s w in browser_join_listener_loop je as s1 w1)"

end
