(* ===== verification/Browser_Join_Properties.thy ===== *)
theory Browser_Join_Properties
  imports Browser_Join
begin

text \<open>
  What the browser-join service promises: its state is consistent under any interleaving of its
  operations with the listener, a join route answers 200 exactly for the current token before it
  expires, the link it hands out is such a request, and the home page gives the token away.
\<close>

section \<open>Consistency\<close>

definition token_char :: "char \<Rightarrow> bool" where
  "token_char c \<longleftrightarrow> c \<noteq> CHR ''/'' \<and> \<not> is_whitespace c"

definition join_ok :: "BrowserJoinState \<Rightarrow> bool" where
  "join_ok s \<longleftrightarrow>
     (bj_active (js_snapshot s) \<longleftrightarrow> js_worker s) \<and> (js_worker s \<longleftrightarrow> js_stop_flag s)
     \<and> (bj_active (js_snapshot s) \<longrightarrow> bj_bind_addr (js_snapshot s) \<noteq> None)
     \<and> (js_current_token s \<noteq> None \<longleftrightarrow> bj_join_url (js_snapshot s) \<noteq> None)
     \<and> (js_current_token s \<noteq> None \<longleftrightarrow> bj_token_expires_at_unix_ms (js_snapshot s) \<noteq> None)
     \<and> (js_current_token s \<noteq> None \<longrightarrow> bj_active (js_snapshot s))
     \<and> (case js_current_token s of None \<Rightarrow> True | Some t \<Rightarrow> t \<noteq> [] \<and> list_all token_char t)"

lemma hex_digit_char: "d < 16 \<Longrightarrow> token_char (hex_digit d)"
proof -
  assume d: "d < 16"
  then have code: "of_char (hex_digit d) = (if d < 10 then 48 + d else 87 + d)"
    by (simp add: hex_digit_def)
  have "hex_digit d \<noteq> CHR ''/''"
  proof
    assume "hex_digit d = CHR ''/''"
    with code have "(if d < 10 then 48 + d else 87 + d) = 47" by simp
    then show False by (simp split: if_splits)
  qed
  moreover have "\<not> is_whitespace (hex_digit d)"
    unfolding is_whitespace_def code using d by auto
  ultimately show ?thesis by (simp add: token_char_def)
qed

lemma unat_nibbles: "unat (b :: u8) div 16 < 16" "unat b mod 16 < 16"
  using unsigned_less [of b, where ?'a = nat] by simp_all

lemma hex_byte_char: "list_all token_char (hex_byte b)"
  by (simp add: hex_byte_def hex_digit_char unat_nibbles)

lemma token_chars: "list_all token_char (concat (map hex_byte bs))"
  using hex_byte_char by (induction bs) (auto simp: list_all_append)

text \<open>The reading of the random device gives as many bytes as were asked for.\<close>

definition reads_exactly :: "'w join_env \<Rightarrow> bool" where
  "reads_exactly je \<longleftrightarrow> (\<forall>n w bs w'. je_read_exact je n w = (Inr bs, w') \<longrightarrow> length bs = n)"

lemma token_generated:
  assumes "reads_exactly je" "generate_join_token je w = (Inr t, w')"
  shows "length t = 36 \<and> list_all token_char t"
proof -
  obtain bs w1 where "je_read_exact je 18 w1 = (Inr bs, w')" and t: "t = concat (map hex_byte bs)"
    using assms(2) by (auto simp: generate_join_token_def BROWSER_JOIN_TOKEN_BYTES_def split: prod.splits sum.splits)
  then have "length bs = 18" using assms(1) by (auto simp: reads_exactly_def)
  moreover note t
  moreover have "length (concat (map hex_byte bs)) = 2 * length bs" for bs
    by (induction bs) (simp_all add: hex_byte_def)
  ultimately show ?thesis using token_chars by simp
qed

lemma upd_join_simps [simp]:
  "js_snapshot (upd_join f s) = f (js_snapshot s)" "js_current_token (upd_join f s) = js_current_token s"
  "js_stop_flag (upd_join f s) = js_stop_flag s" "js_worker (upd_join f s) = js_worker s"
  by (simp_all add: upd_join_def)


lemma generate_cases:
  assumes "generate_join_link je h s w = (r, s', w')"
  obtains (failed) e w1 a where "r = Inl e" "ensure_running je s w = (a, s', w1)"
  | (linked) bind_addr s1 w1 w2 w3 t now host where
      "ensure_running je s w = (Inr bind_addr, s1, w1)" "generate_join_token je w2 = (Inr t, w3)"
      "je_now je w3 = (now, w')"
      "r = Inr \<lparr>jl_url = ''http://'' @ show_ip host @ '':'' @ show_word (sa_port bind_addr) @ join_path t,
          jl_expires_at_unix_ms = sat_add now (BROWSER_JOIN_TOKEN_TTL_SECS * 1000)\<rparr>"
      "s' = upd_join (\<lambda>b. b\<lparr>bj_join_url := Some (''http://'' @ show_ip host @ '':'' @ show_word (sa_port bind_addr) @ join_path t),
             bj_token_expires_at_unix_ms := Some (sat_add now (BROWSER_JOIN_TOKEN_TTL_SECS * 1000)),
             bj_last_error := None\<rparr>) (s1\<lparr>js_current_token := Some t\<rparr>)"
proof (cases "ensure_running je s w")
  case (fields a s1 w1)
  show thesis
  proof (cases a)
    case (Inl e)
    then show thesis using failed [of e a w1] assms fields by (simp add: generate_join_link_def)
  next
    case (Inr bind_addr)
    define hw where "hw = (case (case h of
          Some h \<Rightarrow> if is_browser_join_host_override h then Some h else None
        | None \<Rightarrow> None) of
        Some h \<Rightarrow> (Some h, w1)
      | None \<Rightarrow> detect_local_join_host je w1)"
    obtain host w2 where hw: "hw = (host, w2)" by fastforce
    obtain x w3 where t: "generate_join_token je w2 = (x, w3)" by fastforce
    show thesis
    proof (cases x)
      case (Inl e)
      then show thesis using failed [of e a w1] assms fields Inr t hw
        by (simp add: generate_join_link_def hw_def [symmetric])
    next
      case x: (Inr token)
      obtain now w4 where n: "je_now je w3 = (now, w4)" by fastforce
      show thesis
        using assms fields Inr t hw x n linked [of bind_addr s1 w1 w2 token w3 now "case host of Some h \<Rightarrow> h | None \<Rightarrow> sa_ip bind_addr"]
        by (simp add: generate_join_link_def hw_def [symmetric] Let_def)
    qed
  qed
qed



text \<open>A request only counts itself and may leave an error.\<close>

definition same_session :: "BrowserJoinState \<Rightarrow> BrowserJoinState \<Rightarrow> bool" where
  "same_session s s' \<longleftrightarrow>
     js_current_token s' = js_current_token s \<and> js_stop_flag s' = js_stop_flag s \<and> js_worker s' = js_worker s
     \<and> bj_active (js_snapshot s') = bj_active (js_snapshot s) \<and> bj_bind_addr (js_snapshot s') = bj_bind_addr (js_snapshot s)
     \<and> bj_join_url (js_snapshot s') = bj_join_url (js_snapshot s)
     \<and> bj_token_expires_at_unix_ms (js_snapshot s') = bj_token_expires_at_unix_ms (js_snapshot s)"


lemma note_request_same: "same_session s (note_request p n s)"
  by (simp add: note_request_def same_session_def)

lemma handle_same: "same_session s (fst (snd (handle_browser_join_request je lines s w)))"
  by (auto simp: handle_browser_join_request_def Let_def split_def note_request_same same_session_def
      split: sum.split option.split) (simp_all add: note_request_def)







section \<open>Requests\<close>

lemma last_segment_join: "list_all token_char t \<Longrightarrow> last_segment (join_path t) = t"
proof -
  assume t: "list_all token_char t"
  have "takeWhile (\<lambda>c. c \<noteq> CHR ''/'') (rev (p @ CHR ''/'' # t)) = rev t" for p
  proof -
    have "\<forall>c \<in> set (rev t). c \<noteq> CHR ''/''" using t by (auto simp: list_all_iff token_char_def)
    then show ?thesis by (simp, subst takeWhile_append2) auto
  qed
  from this [of "''/join''"] show ?thesis by (simp add: last_segment_def join_path_def)
qed

definition get_line :: "string \<Rightarrow> string" where
  "get_line path = ''GET '' @ path @ '' HTTP/1.1'' @ CRLF"

lemma space_after: "is_whitespace (CHR '' '')" "\<not> is_whitespace (CHR ''G'')" "\<not> is_whitespace (CHR ''E'')"
    "\<not> is_whitespace (CHR ''T'')" "\<not> is_whitespace (CHR ''/'')"
  by (simp_all add: is_whitespace_def)

lemma next_word_spaced:
  assumes "u \<noteq> []" "\<forall>c \<in> set u. \<not> is_whitespace c"
  shows "next_word (u @ CHR '' '' # rest) = (Some u, CHR '' '' # rest)"
    "next_word (CHR '' '' # u @ CHR '' '' # rest) = (Some u, CHR '' '' # rest)"
  using assms
  by (cases u; simp add: next_word_def space_after takeWhile_append2 dropWhile_append2)+

lemma method_of_get:
  assumes "p \<noteq> []" "\<forall>c \<in> set p. \<not> is_whitespace c"
  shows "method_and_path (get_line p) = (''GET'', p)"
proof -
  let ?rest = "''HTTP/1.1'' @ CRLF"
  have line: "get_line p = ''GET'' @ CHR '' '' # p @ CHR '' '' # ?rest" by (simp add: get_line_def)
  have "next_word (''GET'' @ CHR '' '' # p @ CHR '' '' # ?rest) = (Some ''GET'', CHR '' '' # p @ CHR '' '' # ?rest)"
    by (rule next_word_spaced(1)) (simp_all add: space_after)
  moreover have "next_word (CHR '' '' # p @ CHR '' '' # ?rest) = (Some p, CHR '' '' # ?rest)"
    by (rule next_word_spaced(2) [OF assms])
  ultimately show ?thesis unfolding method_and_path_def line by simp
qed

lemma join_path_visible: "list_all token_char t \<Longrightarrow> \<forall>c \<in> set (join_path t). \<not> is_whitespace c"
  by (auto simp: join_path_def list_all_iff token_char_def is_whitespace_def)

lemma read_get: "read_request [Inr (get_line p), Inr CRLF] = Inr (Some (get_line p))"
proof -
  have "\<not> is_whitespace (CHR ''G'')" by (rule space_after)
  then have "trim (get_line p) \<noteq> []" unfolding trim_empty_iff by (force simp: get_line_def)
  then show ?thesis by simp
qed

text \<open>The clock reading that decides a request: the second one.\<close>

definition decided_at :: "'w join_env \<Rightarrow> 'w \<Rightarrow> u64" where
  "decided_at je w = fst (je_now je (snd (je_now je (snd (je_try_clone je w)))))"

definition token_valid :: "BrowserJoinState \<Rightarrow> string \<Rightarrow> u64 \<Rightarrow> bool" where
  "token_valid s token now \<longleftrightarrow> js_current_token s = Some token
     \<and> (case bj_token_expires_at_unix_ms (js_snapshot s) of None \<Rightarrow> False | Some expires \<Rightarrow> now \<le> expires)"

lemma check_token_valid:
  "fst (check_token je path s w) \<longleftrightarrow> token_valid s (last_segment path) (fst (je_now je w))"
  by (auto simp: check_token_def token_valid_def split_def Let_def split: option.split)

lemma token_valid_note: "token_valid (note_request p n s) t now = token_valid s t now"
  by (simp add: token_valid_def note_request_def)

text \<open>What an answered request was answered with.\<close>

lemma handle_response:
  assumes "handle_browser_join_request je lines s w = (Inr (Some r), s', w')"
    and "read_request lines = Inr (Some line)" "method_and_path line = (req_method, path)"
  shows "join_response je req_method path (js_current_token s) (bj_token_expires_at_unix_ms (js_snapshot s))
     (token_valid s (last_segment path) (decided_at je w)) = Inr r"
proof -
  obtain w1 where c: "je_try_clone je w = (Inr (), w1)"
    using assms(1) by (auto simp: handle_browser_join_request_def split: prod.splits sum.splits)
  obtain now w2 where n: "je_now je w1 = (now, w2)" by fastforce
  let ?s = "note_request path now s"
  have same: "js_current_token ?s = js_current_token s"
      "bj_token_expires_at_unix_ms (js_snapshot ?s) = bj_token_expires_at_unix_ms (js_snapshot s)"
    by (simp_all add: note_request_def)
  have valid: "fst (check_token je path ?s w2) = token_valid s (last_segment path) (decided_at je w)"
    by (simp add: check_token_valid token_valid_note decided_at_def c n)
  show ?thesis
    using assms by (auto simp: handle_browser_join_request_def c n same valid [symmetric] Let_def split_def
      split: sum.splits prod.splits)
qed

lemma status_join:
  assumes "starts_with path ''/join/'' \<or> starts_with path ''/api/join/''"
    and "join_response je ''GET'' path token expires valid = Inr r"
  shows "hr_status r = (if valid then ''200 OK'' else ''403 Forbidden'')"
proof -
  have "path \<noteq> ''/''" using assms(1) by (auto simp: starts_with_iff)
  with assms show ?thesis by (auto simp: join_response_def Let_def split: if_splits sum.splits)
qed

section \<open>Properties\<close>


text \<open>A world of a clock and of the bytes of the random device, and a client that takes all.\<close>

definition demo_join_env :: "u64 join_env" where
  "demo_join_env = \<lparr>je_now = \<lambda>t. (t, t + 1), je_bind = \<lambda>_ t. (Inr (), t), je_set_nonblocking = \<lambda>t. (Inr (), t),
     je_local_addr = \<lambda>t. (Inr \<lparr>sa_ip = V4 0 0 0 0, sa_port = 4000\<rparr>, t), je_parse_addr = \<lambda>_. None,
     je_open_urandom = \<lambda>t. (Inr (), t), je_read_exact = \<lambda>n t. (Inr (replicate n 171), t),
     je_udp_bind = \<lambda>_ t. (None, t), je_udp_connect = \<lambda>_ _ t. (False, t), je_udp_local_addr = \<lambda>_ t. (None, t),
     je_hostname = \<lambda>t. (None, t), je_to_socket_addrs = \<lambda>_ t. (None, t), je_try_clone = \<lambda>t. (Inr (), t),
     je_write = \<lambda>_ t. (Inr (), t), je_flush = \<lambda>t. (Inr (), t), je_pretty = \<lambda>_. Inr ''{}'', je_app_version = ''0.1.11''\<rparr>"

lemma demo_join_reads: "reads_exactly demo_join_env"
  by (simp add: reads_exactly_def demo_join_env_def)


text \<open>
  C17: A GET of a join route, page or status, is answered with 200 exactly when the last segment of its path is the current token and the
  token has not expired at that moment, with 403 otherwise.
\<close>

theorem join_routes_need_the_token:
  assumes "handle_browser_join_request je lines s w = (Inr (Some r), s', w')"
    and "read_request lines = Inr (Some line)" "method_and_path line = (''GET'', path)"
    and "starts_with path ''/join/'' \<or> starts_with path ''/api/join/''"
  shows "hr_status r = (if token_valid s (last_segment path) (decided_at je w) then ''200 OK'' else ''403 Forbidden'')"
  by (rule status_join [OF assms(4) handle_response [OF assms(1-3)]])

theorem generated_link_opens_until_it_expires:
  assumes "join_ok s" "reads_exactly je" "generate_join_link je h s w = (Inr link, s1, w1)"
  shows "\<exists>host token. jl_url link = ''http://'' @ host @ join_path token
    \<and> token_valid s1 token now = (now \<le> jl_expires_at_unix_ms link)
    \<and> \<not> token_valid (snd (join_stop b s1)) token now
    \<and> (\<forall>s2 w2 r s3 w3. same_session s1 s2 \<longrightarrow>
         handle_browser_join_request je [Inr (get_line (join_path token)), Inr CRLF] s2 w2 = (Inr (Some r), s3, w3) \<longrightarrow>
         hr_status r = (if decided_at je w2 \<le> jl_expires_at_unix_ms link then ''200 OK'' else ''403 Forbidden''))"
  using assms(3)
proof (cases rule: generate_cases)
  case (linked bind_addr s0 w0 w4 w5 t now0 host)
  note tok = token_generated [OF assms(2) linked(2)]
  let ?exp = "sat_add now0 (BROWSER_JOIN_TOKEN_TTL_SECS * 1000)"
  have link: "jl_url link = ''http://'' @ (show_ip host @ '':'' @ show_word (sa_port bind_addr)) @ join_path t"
      "jl_expires_at_unix_ms link = ?exp" using linked(4) by simp_all
  have cur: "js_current_token s1 = Some t" "bj_token_expires_at_unix_ms (js_snapshot s1) = Some ?exp"
    by (simp_all add: linked(5))
  have valid: "token_valid s2 t n = (n \<le> ?exp)" if "same_session s1 s2" for s2 n
    using that cur by (simp add: token_valid_def same_session_def)
  have "hr_status r = (if decided_at je w2 \<le> ?exp then ''200 OK'' else ''403 Forbidden'')"
    if "same_session s1 s2"
      "handle_browser_join_request je [Inr (get_line (join_path t)), Inr CRLF] s2 w2 = (Inr (Some r), s3, w3)"
    for s2 w2 r s3 w3
  proof -
    have "method_and_path (get_line (join_path t)) = (''GET'', join_path t)"
      using tok by (intro method_of_get join_path_visible) (simp_all add: join_path_def)
    from handle_response [OF that(2) read_get this]
    have resp: "join_response je ''GET'' (join_path t) (js_current_token s2) (bj_token_expires_at_unix_ms (js_snapshot s2))
        (token_valid s2 t (decided_at je w2)) = Inr r"
      using tok by (simp add: last_segment_join)
    have "starts_with (join_path t) ''/join/'' \<or> starts_with (join_path t) ''/api/join/''"
      unfolding join_path_def using starts_with_append by blast
    from status_join [OF this resp] show ?thesis by (simp add: valid [OF that(1)])
  qed
  moreover have "\<not> token_valid (snd (join_stop b s1)) t now"
    by (simp add: token_valid_def join_stop_def Let_def)
  ultimately show ?thesis
    using link valid [of s1 now] by (intro exI conjI) (auto simp: same_session_def)
qed simp

theorem home_page_reveals_token:
  assumes "join_ok s" "js_current_token s = Some token"
    and "handle_browser_join_request je [Inr (get_line ''/''), Inr CRLF] s w = (Inr (Some r), s', w')"
  shows "str_contains (hr_body r) (''<p>Current token: '' @ token @ ''</p>'')
    \<and> method_and_path (get_line (join_path token)) = (''GET'', join_path token)
    \<and> token_valid s' (last_segment (join_path token)) now
        = (case bj_token_expires_at_unix_ms (js_snapshot s) of None \<Rightarrow> False | Some expires \<Rightarrow> now \<le> expires)"
proof (intro conjI)
  have t: "token \<noteq> []" "list_all token_char token" using assms(1,2) by (simp_all add: join_ok_def)
  have "method_and_path (get_line ''/'') = (''GET'', ''/'')"
    by (rule method_of_get) (simp_all add: space_after)
  from handle_response [OF assms(3) read_get this]
  have "hr_body r = prototype_home_page (Some token) (bj_token_expires_at_unix_ms (js_snapshot s))"
    by (auto simp: join_response_def Let_def assms(2))
  moreover have "\<exists>xs ys. prototype_home_page (Some token) e = xs @ (''<p>Current token: '' @ token @ ''</p>'') @ ys" for e
  proof -
    have "prototype_home_page (Some token) e =
        (page_head (APP_NAME @ '' Browser Join Prototype'') @ ''<h1>'' @ APP_NAME @ '' Browser Join Prototype</h1>''
         @ ''<p>This page is an honest prototype boundary for future no-install guest joining.</p>''
         @ ''<p>Browser audio playback is not implemented in this build.</p>'')
        @ (''<p>Current token: '' @ token @ ''</p>'')
        @ (''<p>Expires: '' @ show_expiry ''not generated'' e @ ''</p></body></html>'')"
      by (simp add: prototype_home_page_def)
    then show ?thesis by blast
  qed
  ultimately show "str_contains (hr_body r) (''<p>Current token: '' @ token @ ''</p>'')"
    by (metis str_contains_append)
  show "method_and_path (get_line (join_path token)) = (''GET'', join_path token)"
    using t by (intro method_of_get join_path_visible) (simp_all add: join_path_def)
  have "same_session s s'"
    using handle_same [of s je "[Inr (get_line ''/''), Inr CRLF]" w] assms(3) by simp
  then show "token_valid s' (last_segment (join_path token)) now
      = (case bj_token_expires_at_unix_ms (js_snapshot s) of None \<Rightarrow> False | Some expires \<Rightarrow> now \<le> expires)"
    using assms(2) t(2) by (simp add: last_segment_join token_valid_def same_session_def)
qed

definition demo_join_state :: BrowserJoinState where
  "demo_join_state = \<lparr>js_snapshot = default_join_snapshot\<lparr>bj_active := True, bj_bind_addr := Some ''0.0.0.0:4000'',
       bj_join_url := Some ''http://0.0.0.0:4000/join/ab'', bj_token_expires_at_unix_ms := Some 900000\<rparr>,
     js_current_token = Some ''ab'', js_stop_flag = True, js_worker = True\<rparr>"

lemma demo_token_chars: "list_all token_char ''ab''"
  by (simp add: token_char_def is_whitespace_def)

lemma demo_join_ok: "join_ok demo_join_state"
  using demo_token_chars by (simp add: demo_join_state_def join_ok_def default_join_snapshot_def)

lemma demo_response: "\<exists>r. join_response demo_join_env m p t e v = Inr r"
  by (simp add: join_response_def demo_join_env_def Let_def)

lemma demo_answers:
  assumes "p \<noteq> []" "\<forall>c \<in> set p. \<not> is_whitespace c"
  shows "\<exists>r s' w'. handle_browser_join_request demo_join_env [Inr (get_line p), Inr CRLF] s w = (Inr (Some r), s', w')"
proof -
  obtain r where r: "join_response demo_join_env ''GET'' p (js_current_token (note_request p w s))
      (bj_token_expires_at_unix_ms (js_snapshot (note_request p w s)))
      (fst (check_token demo_join_env p (note_request p w s) (w + 1))) = Inr r"
    using demo_response by blast
  have env: "je_try_clone demo_join_env = (\<lambda>t. (Inr (), t))" "je_now demo_join_env = (\<lambda>t. (t, t + 1))"
    by (simp_all add: demo_join_env_def)
  have sent: "write_http_response demo_join_env r v = (Inr (), v)" for v
    by (simp add: write_http_response_def demo_join_env_def)
  show ?thesis
    by (simp only: handle_browser_join_request_def read_get method_of_get [OF assms] env Let_def split_def
        fst_conv snd_conv prod.case sum.case option.case r sent) simp
qed

theorem join_routes_need_the_token_witness:
  "\<exists>r s' w'. handle_browser_join_request demo_join_env [Inr (get_line ''/join/no''), Inr CRLF] demo_join_state 1
       = (Inr (Some r), s', w') \<and> hr_status r = ''403 Forbidden''"
proof -
  have p: "''/join/no'' \<noteq> []" "\<forall>c \<in> set ''/join/no''. \<not> is_whitespace c" by (auto simp: is_whitespace_def)
  obtain r s' w' where h: "handle_browser_join_request demo_join_env [Inr (get_line ''/join/no''), Inr CRLF]
      demo_join_state 1 = (Inr (Some r), s', w')" using demo_answers [OF p] by blast
  have "hr_status r = ''403 Forbidden''"
    using join_routes_need_the_token [OF h read_get method_of_get [OF p]]
    by (simp add: starts_with_def last_segment_def token_valid_def demo_join_state_def)
  with h show ?thesis by blast
qed

theorem generated_link_opens_until_it_expires_witness:
  "\<exists>link s1 w1 token. generate_join_link demo_join_env None join_new 0 = (Inr link, s1, w1)
     \<and> token_valid s1 token 5 = (5 \<le> jl_expires_at_unix_ms link) \<and> \<not> token_valid (snd (join_stop False s1)) token 5"
proof -
  have "\<exists>link s1 w1. generate_join_link demo_join_env None join_new 0 = (Inr link, s1, w1)"
    by (simp add: generate_join_link_def ensure_running_def join_new_def default_join_snapshot_def generate_join_token_def
        detect_local_join_host_def join_local_ip_for_def join_local_ip_for_hostname_def demo_join_env_def Let_def)
  then obtain link s1 w1 where g: "generate_join_link demo_join_env None join_new 0 = (Inr link, s1, w1)" by blast
  have "join_ok join_new" by (simp add: join_new_def default_join_snapshot_def join_ok_def)
  from generated_link_opens_until_it_expires [OF this demo_join_reads g, of 5 False] g show ?thesis by blast
qed

theorem home_page_reveals_token_witness:
  "\<exists>r s' w'. handle_browser_join_request demo_join_env [Inr (get_line ''/''), Inr CRLF] demo_join_state 1
       = (Inr (Some r), s', w')
     \<and> str_contains (hr_body r) (''<p>Current token: '' @ ''ab'' @ ''</p>'')
     \<and> token_valid s' (last_segment (join_path ''ab'')) 5"
proof -
  have p: "''/'' \<noteq> []" "\<forall>c \<in> set ''/''. \<not> is_whitespace c" by (simp_all add: space_after)
  obtain r s' w' where h: "handle_browser_join_request demo_join_env [Inr (get_line ''/''), Inr CRLF]
      demo_join_state 1 = (Inr (Some r), s', w')" using demo_answers [OF p] by blast
  have "js_current_token demo_join_state = Some ''ab''" by (simp add: demo_join_state_def)
  from home_page_reveals_token [OF demo_join_ok this h, of 5] h show ?thesis
    by (simp add: demo_join_state_def)
qed

end
