(* ===== verification/App_Files.thy ===== *)
theory App_Files
  imports Errors Json_Value
begin

text \<open>
  What the application uses of \<open>std::fs\<close>, \<open>std::path\<close> and the clock. The files are a map from
  paths to contents; directories are not kept, creating one only can fail. The operating system
  decides each operation: the next fault, if any, makes it fail, and a failing write may have
  written a part. The clock gives its next reading. A file holds bytes, a character each.
\<close>

section \<open>Paths\<close>

text \<open>Paths with no trailing slash and no dot components.\<close>

definition path_join :: "string \<Rightarrow> string \<Rightarrow> string" where
  "path_join a b =
     (if starts_with b ''/'' \<or> a = [] then b
      else if last a = CHR ''/'' then a @ b
      else a @ CHR ''/'' # b)"

definition file_name :: "string \<Rightarrow> string" where
  "file_name p = rev (takeWhile (\<lambda>c. c \<noteq> CHR ''/'') (rev p))"

definition path_parent :: "string \<Rightarrow> string option" where
  "path_parent p =
     (if p = [] \<or> p = ''/'' then None
      else case dropWhile (\<lambda>c. c \<noteq> CHR ''/'') (rev p) of
             [] \<Rightarrow> Some []
           | _ # r \<Rightarrow> Some (if r = [] then ''/'' else rev r))"

definition with_file_name :: "string \<Rightarrow> string \<Rightarrow> string" where
  "with_file_name p n = (case path_parent p of Some d \<Rightarrow> path_join d n | None \<Rightarrow> n)"

text \<open>The part of the file name after its last dot, if that is not its first character.\<close>

definition path_extension :: "string \<Rightarrow> string option" where
  "path_extension p =
     (let n = file_name p; e = rev (takeWhile (\<lambda>c. c \<noteq> CHR ''.'') (rev n))
      in if length e + 1 < length n then Some e else None)"

definition file_stem :: "string \<Rightarrow> string" where
  "file_stem p =
     (case path_extension p of
        Some e \<Rightarrow> take (length (file_name p) - length e - 1) (file_name p)
      | None \<Rightarrow> file_name p)"

definition with_extension :: "string \<Rightarrow> string \<Rightarrow> string" where
  "with_extension p e = with_file_name p (file_stem p @ (if e = [] then [] else CHR ''.'' # e))"

lemma path_join_simps:
  "\<not> starts_with b ''/'' \<Longrightarrow> a \<noteq> [] \<Longrightarrow> last a \<noteq> CHR ''/'' \<Longrightarrow> path_join a b = a @ CHR ''/'' # b"
  by (simp add: path_join_def)

section \<open>UTF-8\<close>

text \<open>\<open>str::from_utf8\<close> accepts a byte sequence; \<open>tail b\<close> says that a byte continues a character.\<close>

abbreviation byte_code :: "char \<Rightarrow> nat" where
  "byte_code c \<equiv> of_char c"

definition continues :: "char \<Rightarrow> bool" where
  "continues c \<longleftrightarrow> 128 \<le> byte_code c \<and> byte_code c \<le> 191"

fun utf8_ok :: "string \<Rightarrow> bool" where
  "utf8_ok [] = True"
| "utf8_ok (a # cs) =
     (if byte_code a < 128 then utf8_ok cs
      else case cs of
        [] \<Rightarrow> False
      | b # ds \<Rightarrow>
          if 194 \<le> byte_code a \<and> byte_code a \<le> 223 then continues b \<and> utf8_ok ds
          else (case ds of
            [] \<Rightarrow> False
          | c # es \<Rightarrow>
              if 224 \<le> byte_code a \<and> byte_code a \<le> 239 then
                continues b \<and> continues c \<and> (byte_code a = 224 \<longrightarrow> 160 \<le> byte_code b)
                \<and> (byte_code a = 237 \<longrightarrow> byte_code b \<le> 159) \<and> utf8_ok es
              else (case es of
                [] \<Rightarrow> False
              | d # fs \<Rightarrow>
                  240 \<le> byte_code a \<and> byte_code a \<le> 244 \<and> continues b \<and> continues c \<and> continues d
                  \<and> (byte_code a = 240 \<longrightarrow> 144 \<le> byte_code b) \<and> (byte_code a = 244 \<longrightarrow> byte_code b \<le> 143) \<and> utf8_ok fs)))"

lemma utf8_ascii: "list_all (\<lambda>c. byte_code c < 128) s \<Longrightarrow> utf8_ok s"
  by (induction s) auto

definition invalid_utf8 :: io_error where
  "invalid_utf8 = \<lparr>err_kind = OtherKind, err_text = ''stream did not contain valid UTF-8''\<rparr>"

section \<open>The host\<close>

text \<open>\<open>ft_written\<close>: how much a failing write has written; nothing when it could not open the file.\<close>

record fault =
  ft_error :: io_error
  ft_written :: "nat option"

record host =
  hw_files :: "string \<rightharpoonup> string"
  hw_faults :: "fault option list"
  hw_clock :: "u64 list"

definition clock_now :: "host \<Rightarrow> u64 \<times> host" where
  "clock_now h = (case hw_clock h of [] \<Rightarrow> (0, h) | t # ts \<Rightarrow> (t, h\<lparr>hw_clock := ts\<rparr>))"

definition next_fault :: "host \<Rightarrow> fault option \<times> host" where
  "next_fault h = (case hw_faults h of [] \<Rightarrow> (None, h) | f # fs \<Rightarrow> (f, h\<lparr>hw_faults := fs\<rparr>))"

definition fs_exists :: "string \<Rightarrow> host \<Rightarrow> bool" where
  "fs_exists p h \<longleftrightarrow> hw_files h p \<noteq> None"

definition not_found :: io_error where
  "not_found = \<lparr>err_kind = NotFound, err_text = ''No such file or directory (os error 2)''\<rparr>"

definition fs_read :: "string \<Rightarrow> host \<Rightarrow> (io_error + string) \<times> host" where
  "fs_read p h =
     (case next_fault h of
        (Some f, h1) \<Rightarrow> (Inl (ft_error f), h1)
      | (None, h1) \<Rightarrow> (case hw_files h1 p of Some s \<Rightarrow> Inr s | None \<Rightarrow> Inl not_found, h1))"

definition fs_read_to_string :: "string \<Rightarrow> host \<Rightarrow> (io_error + string) \<times> host" where
  "fs_read_to_string p h =
     (case fs_read p h of
        (Inl e, h1) \<Rightarrow> (Inl e, h1)
      | (Inr s, h1) \<Rightarrow> (if utf8_ok s then Inr s else Inl invalid_utf8, h1))"

text \<open>\<open>fs::write\<close>, and \<open>File::create\<close> followed by \<open>write_all\<close>: the file is emptied first.\<close>

definition fs_write :: "string \<Rightarrow> string \<Rightarrow> host \<Rightarrow> (io_error + unit) \<times> host" where
  "fs_write p s h =
     (case next_fault h of
        (Some f, h1) \<Rightarrow>
          (Inl (ft_error f),
           case ft_written f of None \<Rightarrow> h1 | Some n \<Rightarrow> h1\<lparr>hw_files := (hw_files h1)(p \<mapsto> take n s)\<rparr>)
      | (None, h1) \<Rightarrow> (Inr (), h1\<lparr>hw_files := (hw_files h1)(p \<mapsto> s)\<rparr>))"

definition content :: "string \<Rightarrow> host \<Rightarrow> string" where
  "content p h = (case hw_files h p of Some s \<Rightarrow> s | None \<Rightarrow> [])"

text \<open>Writing to a file that is open for appending.\<close>

definition fs_append :: "string \<Rightarrow> string \<Rightarrow> host \<Rightarrow> (io_error + unit) \<times> host" where
  "fs_append p s h =
     (case next_fault h of
        (Some f, h1) \<Rightarrow>
          (Inl (ft_error f),
           case ft_written f of None \<Rightarrow> h1
           | Some n \<Rightarrow> h1\<lparr>hw_files := (hw_files h1)(p \<mapsto> content p h1 @ take n s)\<rparr>)
      | (None, h1) \<Rightarrow> (Inr (), h1\<lparr>hw_files := (hw_files h1)(p \<mapsto> content p h1 @ s)\<rparr>))"

text \<open>\<open>OpenOptions::new().create(true).append(true).open\<close>.\<close>

definition fs_open_append :: "string \<Rightarrow> host \<Rightarrow> (io_error + unit) \<times> host" where
  "fs_open_append p h =
     (case next_fault h of
        (Some f, h1) \<Rightarrow> (Inl (ft_error f), h1)
      | (None, h1) \<Rightarrow> (Inr (), h1\<lparr>hw_files := (hw_files h1)(p \<mapsto> content p h1)\<rparr>))"

definition fs_rename :: "string \<Rightarrow> string \<Rightarrow> host \<Rightarrow> (io_error + unit) \<times> host" where
  "fs_rename p q h =
     (case next_fault h of
        (Some f, h1) \<Rightarrow> (Inl (ft_error f), h1)
      | (None, h1) \<Rightarrow>
          (case hw_files h1 p of
             None \<Rightarrow> (Inl not_found, h1)
           | Some s \<Rightarrow> (Inr (), h1\<lparr>hw_files := ((hw_files h1)(p := None))(q \<mapsto> s)\<rparr>)))"

definition fs_remove_file :: "string \<Rightarrow> host \<Rightarrow> (io_error + unit) \<times> host" where
  "fs_remove_file p h =
     (case next_fault h of
        (Some f, h1) \<Rightarrow> (Inl (ft_error f), h1)
      | (None, h1) \<Rightarrow>
          (case hw_files h1 p of
             None \<Rightarrow> (Inl not_found, h1)
           | Some _ \<Rightarrow> (Inr (), h1\<lparr>hw_files := (hw_files h1)(p := None)\<rparr>)))"

definition fs_create_dir_all :: "string \<Rightarrow> host \<Rightarrow> (io_error + unit) \<times> host" where
  "fs_create_dir_all p h =
     (case next_fault h of
        (Some f, h1) \<Rightarrow> (Inl (ft_error f), h1)
      | (None, h1) \<Rightarrow> (Inr (), h1))"

text \<open>An operation after a successful one: the \<open>?\<close> operator.\<close>

definition io_bind ::
  "('e + 'a) \<times> host \<Rightarrow> ('a \<Rightarrow> host \<Rightarrow> ('e + 'b) \<times> host) \<Rightarrow> ('e + 'b) \<times> host" where
  "io_bind r f = (case r of (Inl e, h) \<Rightarrow> (Inl e, h) | (Inr x, h) \<Rightarrow> f x h)"

named_theorems fs_defs \<comment> \<open>the operations of the host, for evaluation\<close>

lemmas [fs_defs] = next_fault_def fs_read_def fs_read_to_string_def fs_write_def fs_append_def
  fs_open_append_def fs_rename_def fs_remove_file_def fs_create_dir_all_def io_bind_def

section \<open>A host without faults\<close>

definition healthy :: "host \<Rightarrow> bool" where
  "healthy h \<longleftrightarrow> hw_faults h = []"

lemma healthy_ops:
  assumes "healthy h"
  shows "next_fault h = (None, h)"
    "fs_read p h = (case hw_files h p of Some s \<Rightarrow> Inr s | None \<Rightarrow> Inl not_found, h)"
    "fs_write p s h = (Inr (), h\<lparr>hw_files := (hw_files h)(p \<mapsto> s)\<rparr>)"
    "fs_append p s h = (Inr (), h\<lparr>hw_files := (hw_files h)(p \<mapsto> content p h @ s)\<rparr>)"
    "fs_open_append p h = (Inr (), h\<lparr>hw_files := (hw_files h)(p \<mapsto> content p h)\<rparr>)"
    "fs_create_dir_all p h = (Inr (), h)"
    "hw_files h p = Some s \<Longrightarrow> fs_rename p q h = (Inr (), h\<lparr>hw_files := ((hw_files h)(p := None))(q \<mapsto> s)\<rparr>)"
    "hw_files h p = Some s \<Longrightarrow> fs_remove_file p h = (Inr (), h\<lparr>hw_files := (hw_files h)(p := None)\<rparr>)"
    "hw_files h p = None \<Longrightarrow> fs_remove_file p h = (Inl not_found, h)"
  using assms by (auto simp: healthy_def fs_defs split: option.splits)

lemma healthy_upd [simp]: "healthy (h\<lparr>hw_files := fs\<rparr>) = healthy h" "healthy (h\<lparr>hw_clock := ts\<rparr>) = healthy h"
  by (simp_all add: healthy_def)

lemma clock_now_files [simp]:
  "hw_files (snd (clock_now h)) = hw_files h" "hw_faults (snd (clock_now h)) = hw_faults h"
  "healthy (snd (clock_now h)) = healthy h"
  by (simp_all add: clock_now_def healthy_def split: list.split)

text \<open>Which paths an operation may change, whatever the faults.\<close>

lemma fs_frame:
  "fs_read p h = (r, h1) \<Longrightarrow> hw_files h1 = hw_files h"
  "fs_read_to_string p h = (r', h1) \<Longrightarrow> hw_files h1 = hw_files h"
  "fs_create_dir_all p h = (r'', h1) \<Longrightarrow> hw_files h1 = hw_files h"
  "fs_write p s h = (r'', h1) \<Longrightarrow> q \<noteq> p \<Longrightarrow> hw_files h1 q = hw_files h q"
  "fs_append p s h = (r'', h1) \<Longrightarrow> q \<noteq> p \<Longrightarrow> hw_files h1 q = hw_files h q"
  by (auto simp: fs_defs split: prod.splits list.splits option.splits if_splits)

end
