(* ===== verification/Persistence.thy ===== *)
theory Persistence
  imports App_Files Core_Config Core_Models
begin

text \<open>
  The configuration at startup, \<open>synchrosonic-app/src/persistence.rs\<close>: where the application
  keeps its files, and how it loads, repairs, replaces and backs up its configuration. TOML is
  read and written by the functions of \<open>toml_codec\<close>; the files and the clock are a \<open>host\<close>.
\<close>

record toml_codec =
  tm_from_str :: "string \<Rightarrow> string + AppConfig"
  tm_to_string :: "AppConfig \<Rightarrow> string + string"

definition host_io :: "toml_codec \<Rightarrow> host config_io" where
  "host_io toml =
     \<lparr>io_read_to_string = fs_read_to_string, io_create_dir_all = fs_create_dir_all, io_write = fs_write,
      io_parent = path_parent, toml_from_str = tm_from_str toml, toml_to_string = tm_to_string toml\<rparr>"

section \<open>Paths\<close>

record AppPaths =
  ap_config_dir :: string
  ap_state_dir :: string
  ap_config_path :: string
  ap_portable_config_path :: string
  ap_log_path :: string
  ap_diagnostics_dir :: string
  ap_crash_reports_dir :: string
  ap_diagnostic_bundles_dir :: string
  ap_session_marker_path :: string
  ap_subsystem_snapshot_path :: string

definition default_config_dir :: "(string \<Rightarrow> string option) \<Rightarrow> string" where
  "default_config_dir env =
     (case env ''XDG_CONFIG_HOME'' of
        Some d \<Rightarrow> d
      | None \<Rightarrow> (case env ''HOME'' of Some home \<Rightarrow> path_join home ''.config'' | None \<Rightarrow> ''.''))"

definition default_state_dir :: "(string \<Rightarrow> string option) \<Rightarrow> string" where
  "default_state_dir env =
     (case env ''XDG_STATE_HOME'' of
        Some d \<Rightarrow> d
      | None \<Rightarrow> (case env ''HOME'' of Some home \<Rightarrow> path_join (path_join home ''.local'') ''state'' | None \<Rightarrow> ''.''))"

definition paths_resolve :: "(string \<Rightarrow> string option) \<Rightarrow> AppPaths" where
  "paths_resolve env =
     (let config_dir = path_join (case env ''SYNCHROSONIC_CONFIG_DIR'' of
            Some d \<Rightarrow> d | None \<Rightarrow> default_config_dir env) ''synchrosonic'';
          state_dir = path_join (case env ''SYNCHROSONIC_STATE_DIR'' of
            Some d \<Rightarrow> d | None \<Rightarrow> default_state_dir env) ''synchrosonic'';
          diagnostics_dir = path_join state_dir ''diagnostics'';
          crash_reports_dir = path_join diagnostics_dir ''crash-reports'';
          diagnostic_bundles_dir = path_join diagnostics_dir ''bundles''
      in \<lparr>ap_config_dir = config_dir, ap_state_dir = state_dir,
          ap_config_path = path_join config_dir ''config.toml'',
          ap_portable_config_path = path_join config_dir ''config-export.toml'',
          ap_log_path = path_join state_dir ''app-log.jsonl'',
          ap_diagnostics_dir = diagnostics_dir, ap_crash_reports_dir = crash_reports_dir,
          ap_diagnostic_bundles_dir = diagnostic_bundles_dir,
          ap_session_marker_path = path_join diagnostics_dir ''session-marker.json'',
          ap_subsystem_snapshot_path = path_join diagnostics_dir ''subsystem-snapshot.json''\<rparr>)"

definition ensure_state_layout :: "AppPaths \<Rightarrow> host \<Rightarrow> (io_error + unit) \<times> host" where
  "ensure_state_layout paths h =
     io_bind (fs_create_dir_all (ap_config_dir paths) h) (\<lambda>_ h1.
     io_bind (fs_create_dir_all (ap_state_dir paths) h1) (\<lambda>_ h2.
     io_bind (fs_create_dir_all (ap_diagnostics_dir paths) h2) (\<lambda>_ h3.
     io_bind (fs_create_dir_all (ap_crash_reports_dir paths) h3) (\<lambda>_ h4.
     fs_create_dir_all (ap_diagnostic_bundles_dir paths) h4))))"

section \<open>The configuration file\<close>

definition save_active_config ::
  "toml_codec \<Rightarrow> AppPaths \<Rightarrow> AppConfig \<Rightarrow> host \<Rightarrow> (ConfigError + string) \<times> host" where
  "save_active_config toml paths config h =
     (case save_to_path (host_io toml) (ap_config_path paths) config h of
        (Inl e, h1) \<Rightarrow> (Inl e, h1)
      | (Inr _, h1) \<Rightarrow> (Inr (ap_config_path paths), h1))"

definition export_config ::
  "toml_codec \<Rightarrow> AppPaths \<Rightarrow> AppConfig \<Rightarrow> host \<Rightarrow> (ConfigError + string) \<times> host" where
  "export_config toml paths config h =
     (case save_to_path (host_io toml) (ap_portable_config_path paths) config h of
        (Inl e, h1) \<Rightarrow> (Inl e, h1)
      | (Inr _, h1) \<Rightarrow> (Inr (ap_portable_config_path paths), h1))"

definition import_config ::
  "toml_codec \<Rightarrow> AppPaths \<Rightarrow> host \<Rightarrow> (ConfigError + ConfigLoadReport) \<times> host" where
  "import_config toml paths h = load_with_report_from_path (host_io toml) (ap_portable_config_path paths) h"

definition backup_path :: "string \<Rightarrow> u64 \<Rightarrow> string" where
  "backup_path path now = with_file_name path (''config.invalid-'' @ show_word now @ ''.toml'')"

definition backup_invalid_config :: "string \<Rightarrow> host \<Rightarrow> (io_error + string option) \<times> host" where
  "backup_invalid_config path h =
     (if \<not> fs_exists path h then (Inr None, h)
      else
        (let (now, h1) = clock_now h; backup = backup_path path (now div 1000)
         in io_bind (fs_rename path backup h1) (\<lambda>_ h2. (Inr (Some backup), h2))))"

text \<open>A diagnostic is stamped with the time.\<close>

definition tell :: "DiagnosticLevel \<Rightarrow> string \<Rightarrow> string \<Rightarrow> DiagnosticEvent list \<times> host \<Rightarrow> DiagnosticEvent list \<times> host" where
  "tell level component message s =
     (let (now, h) = clock_now (snd s) in (fst s @ [diagnostic level now component message], h))"

definition maybe_repair_saved_config ::
  "toml_codec \<Rightarrow> AppPaths \<Rightarrow> ConfigLoadReport \<Rightarrow> DiagnosticEvent list \<times> host
    \<Rightarrow> AppConfig \<times> DiagnosticEvent list \<times> host" where
  "maybe_repair_saved_config toml paths report s =
     (clr_config report,
      if clr_repaired report then
        (let s1 = tell Warning ''config'' (''Saved configuration at '' @ ap_config_path paths
               @ '' was repaired before use.'') s;
             (ds, h) = fold (\<lambda>w. tell Warning ''config'' w) (clr_warnings report) s1
         in case save_active_config toml paths (clr_config report) h of
              (Inl e, h1) \<Rightarrow> tell Warning ''config'' (''Repaired configuration could not be written back to ''
                @ ap_config_path paths @ '': '' @ show_config_error e) (ds, h1)
            | (Inr _, h1) \<Rightarrow> (ds, h1))
      else tell Info ''config'' (''Loaded configuration from '' @ ap_config_path paths @ ''.'') s)"

record StartupConfig =
  sc_config :: AppConfig
  sc_diagnostics :: "DiagnosticEvent list"
  sc_paths :: AppPaths

definition use_defaults ::
  "toml_codec \<Rightarrow> AppPaths \<Rightarrow> host \<Rightarrow> DiagnosticEvent list \<times> host" where
  "use_defaults toml paths h =
     (case save_active_config toml paths default_app_config h of
        (Inr path, h1) \<Rightarrow> tell Info ''config''
          (''No saved configuration was found; created a default config at '' @ path @ ''.'') ([], h1)
      | (Inl e, h1) \<Rightarrow> tell Warning ''config''
          (''No saved configuration was found; running with defaults, but saving '' @ ap_config_path paths
           @ '' failed: '' @ show_config_error e) ([], h1))"

definition replace_unusable ::
  "toml_codec \<Rightarrow> AppPaths \<Rightarrow> ConfigError \<Rightarrow> host \<Rightarrow> DiagnosticEvent list \<times> host" where
  "replace_unusable toml paths error h =
     (let (backed_up, h1) = backup_invalid_config (ap_config_path paths) h;
          backup = (case backed_up of Inr b \<Rightarrow> b | Inl _ \<Rightarrow> None);
          (saved, h2) = save_active_config toml paths default_app_config h1;
          suffix = (case backup of Some p \<Rightarrow> '' A backup was written to '' @ p @ ''.'' | None \<Rightarrow> []);
          s = tell Warning ''config'' (''Saved configuration could not be used ('' @ show_config_error error
            @ ''); falling back to defaults.'' @ suffix) ([], h2)
      in case saved of
           Inl e \<Rightarrow> tell Warning ''config'' (''Default configuration could not be re-saved to ''
             @ ap_config_path paths @ '': '' @ show_config_error e) s
         | Inr _ \<Rightarrow> s)"

definition is_missing :: "ConfigError \<Rightarrow> bool" where
  "is_missing e = (case e of ConfigRead _ io \<Rightarrow> err_kind io = NotFound | _ \<Rightarrow> False)"

definition load_startup_config :: "toml_codec \<Rightarrow> AppPaths \<Rightarrow> host \<Rightarrow> StartupConfig \<times> host" where
  "load_startup_config toml paths h =
     (case load_with_report_from_path (host_io toml) (ap_config_path paths) h of
        (Inr report, h1) \<Rightarrow>
          (let (config, ds, h2) = maybe_repair_saved_config toml paths report ([], h1)
           in (\<lparr>sc_config = config, sc_diagnostics = ds, sc_paths = paths\<rparr>, h2))
      | (Inl error, h1) \<Rightarrow>
          (let (ds, h2) = (if is_missing error then use_defaults toml paths h1
                           else replace_unusable toml paths error h1)
           in (\<lparr>sc_config = default_app_config, sc_diagnostics = ds, sc_paths = paths\<rparr>, h2)))"

end
