(* ===== verification/Persistence_Properties.thy ===== *)
theory Persistence_Properties
  imports Persistence
begin

text \<open>What a start of the application makes of the configuration file.\<close>

section \<open>Steps\<close>

lemma default_config_valid: "valid_config default_app_config"
  by (simp add: valid_config_def default_app_config_def default_audio_config_def default_discovery_config_def
      default_transport_config_def default_receiver_config_def default_ui_config_def trim_defaults)

lemma repaired_default: "clr_config (repaired default_app_config) = default_app_config"
  by (simp add: repaired_valid_unchanged [OF default_config_valid])

lemma emit_files [simp]:
  "hw_files (snd (tell level component message s)) = hw_files (snd s)"
  "healthy (snd (tell level component message s)) = healthy (snd s)"
  by (simp_all add: tell_def split_def Let_def)

lemma fold_emit_files [simp]:
  "hw_files (snd (fold (tell level component) ms s)) = hw_files (snd s)"
  "healthy (snd (fold (tell level component) ms s)) = healthy (snd s)"
  by (induction ms arbitrary: s) simp_all

text \<open>The text a configuration is saved as.\<close>

definition encodes :: "toml_codec \<Rightarrow> AppConfig \<Rightarrow> bool" where
  "encodes toml c \<longleftrightarrow>
     (\<exists>s. tm_to_string toml c = Inr s \<and> tm_from_str toml s = Inr c \<and> utf8_ok s)"

definition encoded :: "toml_codec \<Rightarrow> AppConfig \<Rightarrow> string" where
  "encoded toml c = (case tm_to_string toml c of Inr s \<Rightarrow> s | Inl _ \<Rightarrow> [])"

lemma encoded_text:
  assumes "encodes toml c"
  shows "tm_to_string toml c = Inr (encoded toml c)" "tm_from_str toml (encoded toml c) = Inr c"
    "utf8_ok (encoded toml c)"
  using assms by (auto simp: encodes_def encoded_def)

lemma save_healthy:
  assumes "healthy h" "encodes toml c" "valid_config c"
  shows "save_active_config toml paths c h =
    (Inr (ap_config_path paths), h\<lparr>hw_files := (hw_files h)(ap_config_path paths \<mapsto> encoded toml c)\<rparr>)"
  using assms
  by (simp add: save_active_config_def save_to_path_def host_io_def healthy_ops repaired_valid_unchanged
      encoded_text Let_def split: option.split)

lemma load_saved:
  assumes "healthy h" "encodes toml c" "valid_config c" "hw_files h path = Some (encoded toml c)"
  shows "load_with_report_from_path (host_io toml) path h =
    (Inr \<lparr>clr_config = c, clr_warnings = [], clr_repaired = False\<rparr>, h)"
  using assms
  by (simp add: load_with_report_from_path_def host_io_def fs_read_to_string_def healthy_ops encoded_text
      repaired_valid_unchanged) (simp add: valid_config_def)

lemma load_valid:
  "load_with_report_from_path io path h = (Inr report, h1) \<Longrightarrow> valid_config (clr_config report)"
  by (auto simp: load_with_report_from_path_def repaired_config_eq repaired_config_valid
      split: prod.splits sum.splits if_splits)

lemma load_keeps_files:
  "load_with_report_from_path (host_io toml) path h = (r, h1) \<Longrightarrow> hw_files h1 = hw_files h"
  "load_with_report_from_path (host_io toml) path h = (r, h1) \<Longrightarrow> healthy h \<Longrightarrow> healthy h1"
  by (auto simp: load_with_report_from_path_def host_io_def fs_defs healthy_def
      split: prod.splits sum.splits if_splits option.splits list.splits)

section \<open>Properties\<close>

lemma startup_valid: "valid_config (sc_config (fst (load_startup_config toml paths h)))"
  by (auto simp: load_startup_config_def default_config_valid maybe_repair_saved_config_def Let_def split_def
      split: sum.split intro: load_valid [OF prod.collapse [symmetric, THEN trans]] dest: load_valid)

lemma emit_told [simp]: "fst (tell level component message s) \<noteq> []"
  by (simp add: tell_def split_def Let_def)



text \<open>What loading gives on a healthy host.\<close>

definition loaded :: "toml_codec \<Rightarrow> string \<Rightarrow> string option \<Rightarrow> ConfigError + ConfigLoadReport" where
  "loaded toml path c =
     (case c of
        None \<Rightarrow> Inl (ConfigRead path not_found)
      | Some s \<Rightarrow>
          if \<not> utf8_ok s then Inl (ConfigRead path invalid_utf8)
          else (case tm_from_str toml s of
                  Inl e \<Rightarrow> Inl (ConfigParse path e)
                | Inr config \<Rightarrow>
                    if APP_CONFIG_SCHEMA_VERSION < cfg_schema_version config
                    then Inl (UnsupportedVersion path (cfg_schema_version config) APP_CONFIG_SCHEMA_VERSION)
                    else Inr (repaired config)))"

lemma load_healthy:
  "healthy h \<Longrightarrow> load_with_report_from_path (host_io toml) path h = (loaded toml path (hw_files h path), h)"
  by (auto simp: load_with_report_from_path_def host_io_def fs_read_to_string_def healthy_ops loaded_def
      split: option.split sum.split)

lemma start_unrepaired:
  assumes "healthy h" "loaded toml (ap_config_path paths) (hw_files h (ap_config_path paths)) = Inr report"
    and "\<not> clr_repaired report"
  shows "sc_config (fst (load_startup_config toml paths h)) = clr_config report
    \<and> map de_level (sc_diagnostics (fst (load_startup_config toml paths h))) = [Info]
    \<and> hw_files (snd (load_startup_config toml paths h)) = hw_files h"
  using assms
  by (simp add: load_startup_config_def load_healthy maybe_repair_saved_config_def tell_def split_def Let_def
      diagnostic_def)

lemma start_saved:
  assumes "healthy h" "encodes toml c" "valid_config c" "hw_files h (ap_config_path paths) = Some (encoded toml c)"
  shows "sc_config (fst (load_startup_config toml paths h)) = c
    \<and> map de_level (sc_diagnostics (fst (load_startup_config toml paths h))) = [Info]
    \<and> hw_files (snd (load_startup_config toml paths h)) = hw_files h"
proof -
  have "loaded toml (ap_config_path paths) (hw_files h (ap_config_path paths)) =
      Inr \<lparr>clr_config = c, clr_warnings = [], clr_repaired = False\<rparr>"
    using load_saved [OF assms] load_healthy [OF assms(1), of toml "ap_config_path paths"] by simp
  from start_unrepaired [OF assms(1) this] show ?thesis by simp
qed

text \<open>What the first start leaves in the file.\<close>

lemma backup_healthy:
  assumes "healthy h" "hw_files h path = Some s"
  shows "backup_invalid_config path h =
    (let b = backup_path path (fst (clock_now h) div 1000)
     in (Inr (Some b), (snd (clock_now h))\<lparr>hw_files := ((hw_files h)(path := None))(b \<mapsto> s)\<rparr>))"
  using assms by (simp add: backup_invalid_config_def fs_exists_def split_def Let_def io_bind_def healthy_ops)

lemma backup_keeps_healthy: "healthy h \<Longrightarrow> healthy (snd (backup_invalid_config path h))"
  by (cases "hw_files h path")
    (simp_all add: backup_healthy Let_def, simp add: backup_invalid_config_def fs_exists_def)

lemma start_writes:
  assumes "healthy h" "encodes toml (sc_config sc)" "load_startup_config toml paths h = (sc, h1)"
    and "\<not> (\<exists>report. loaded toml (ap_config_path paths) (hw_files h (ap_config_path paths)) = Inr report
      \<and> \<not> clr_repaired report)"
  shows "healthy h1 \<and> hw_files h1 (ap_config_path paths) = Some (encoded toml (sc_config sc))"
proof (cases "loaded toml (ap_config_path paths) (hw_files h (ap_config_path paths))")
  case (Inl e)
  have "healthy (snd (backup_invalid_config (ap_config_path paths) h))"
    using assms(1) by (rule backup_keeps_healthy)
  then show ?thesis
    using assms(1-3) Inl
    by (auto simp: load_startup_config_def load_healthy use_defaults_def replace_unusable_def save_healthy
        default_config_valid split_def Let_def split: if_splits)
next
  case (Inr report)
  then have "valid_config (clr_config report)"
    using load_valid load_healthy [OF assms(1)] by metis
  moreover have "clr_repaired report" using assms(4) Inr by blast
  ultimately show ?thesis
    using assms(1-3) Inr
    by (auto simp: load_startup_config_def load_healthy maybe_repair_saved_config_def save_healthy split_def Let_def)
qed

text \<open>
  C33: On a healthy disk the start-up configuration is saved: whatever file was found (none, one to be repaired, one that cannot be read),
  the next start loads the same configuration, unrepaired, and changes no file.
\<close>

theorem startup_settles:
  assumes "healthy h" "encodes toml (sc_config sc)" "load_startup_config toml paths h = (sc, h1)"
  shows "sc_config (fst (load_startup_config toml paths h1)) = sc_config sc
    \<and> map de_level (sc_diagnostics (fst (load_startup_config toml paths h1))) = [Info]
    \<and> hw_files (snd (load_startup_config toml paths h1)) = hw_files h1"
proof (cases "\<exists>report. loaded toml (ap_config_path paths) (hw_files h (ap_config_path paths)) = Inr report
    \<and> \<not> clr_repaired report")
  case True
  then obtain report where report: "loaded toml (ap_config_path paths) (hw_files h (ap_config_path paths)) = Inr report"
      "\<not> clr_repaired report" by blast
  have "healthy h1" "hw_files h1 = hw_files h"
    using assms report
    by (auto simp: load_startup_config_def load_healthy maybe_repair_saved_config_def split_def Let_def)
  then show ?thesis
    using start_unrepaired [OF assms(1) report] start_unrepaired [of h1 toml paths report] report assms(3) by simp
next
  case False
  have "valid_config (sc_config sc)" using startup_valid [of toml paths h] assms(3) by simp
  with start_writes [OF assms(1-3) False] start_saved [of h1 toml "sc_config sc" paths] assms(2)
  show ?thesis by blast
qed

lemma loaded_present: "loaded toml path (Some s) = Inl e \<Longrightarrow> \<not> is_missing e"
  by (auto simp: loaded_def is_missing_def invalid_utf8_def split: if_splits sum.splits)

lemma replace_writes:
  assumes "healthy h1" "encodes toml default_app_config"
    and "backup_invalid_config (ap_config_path paths) h = (r, h1)"
  shows "hw_files (snd (replace_unusable toml paths e h)) =
    (hw_files h1)(ap_config_path paths \<mapsto> encoded toml default_app_config)"
  using assms by (simp add: replace_unusable_def save_healthy default_config_valid Let_def)

theorem unusable_config_is_backed_up:
  assumes "healthy h" "encodes toml default_app_config" "hw_files h (ap_config_path paths) = Some s"
    and "loaded toml (ap_config_path paths) (Some s) = Inl e"
    and "backup_path (ap_config_path paths) (fst (clock_now h) div 1000) \<noteq> ap_config_path paths"
  shows "hw_files (snd (load_startup_config toml paths h)) =
    (hw_files h)(backup_path (ap_config_path paths) (fst (clock_now h) div 1000) \<mapsto> s,
                 ap_config_path paths \<mapsto> encoded toml default_app_config)"
proof -
  let ?b = "backup_path (ap_config_path paths) (fst (clock_now h) div 1000)"
  let ?h1 = "(snd (clock_now h))\<lparr>hw_files := ((hw_files h)(ap_config_path paths := None))(?b \<mapsto> s)\<rparr>"
  have "backup_invalid_config (ap_config_path paths) h = (Inr (Some ?b), ?h1)"
    using backup_healthy [OF assms(1,3)] by (simp add: Let_def)
  moreover have "healthy ?h1" using assms(1) by simp
  ultimately have "hw_files (snd (replace_unusable toml paths e h)) =
      (hw_files ?h1)(ap_config_path paths \<mapsto> encoded toml default_app_config)"
    using replace_writes assms(2) by blast
  then show ?thesis
    using assms loaded_present
    by (simp add: load_startup_config_def load_healthy Let_def split_def fun_upd_twist fun_upd_def fun_eq_iff)
qed

theorem failed_backup_loses_config:
  assumes "encodes toml default_app_config" "hw_files h (ap_config_path paths) = Some s"
    and "loaded toml (ap_config_path paths) (Some s) = Inl e" "hw_faults h = [None, Some f]"
  shows "hw_files (snd (load_startup_config toml paths h)) =
    (hw_files h)(ap_config_path paths \<mapsto> encoded toml default_app_config)"
proof -
  let ?h0 = "h\<lparr>hw_faults := [Some f]\<rparr>"
  let ?h1 = "(snd (clock_now ?h0))\<lparr>hw_faults := []\<rparr>"
  have "load_with_report_from_path (host_io toml) (ap_config_path paths) h = (Inl e, ?h0)"
    using assms(2-4)
    by (auto simp: load_with_report_from_path_def host_io_def fs_read_to_string_def fs_read_def next_fault_def
        loaded_def split: if_splits sum.splits)
  moreover have "backup_invalid_config (ap_config_path paths) ?h0 = (Inl (ft_error f), ?h1)"
    using assms(2,4)
    by (simp add: backup_invalid_config_def fs_exists_def split_def Let_def io_bind_def fs_rename_def next_fault_def)
  moreover have "healthy ?h1" by (simp add: healthy_def)
  ultimately show ?thesis
    using replace_writes [OF _ assms(1), of ?h1 paths ?h0] loaded_present [OF assms(3)]
    by (simp add: load_startup_config_def Let_def split_def)
qed

text \<open>A reader and a writer of configurations whose text is the schema version.\<close>

definition demo_toml :: toml_codec where
  "demo_toml = \<lparr>tm_from_str = \<lambda>s. if s = ''v'' then Inr default_app_config else Inl ''expected a table'',
     tm_to_string = \<lambda>c. if c = default_app_config then Inr ''v'' else Inl ''unsupported''\<rparr>"

lemma demo_encodes: "encodes demo_toml default_app_config"
  by (simp add: encodes_def demo_toml_def continues_def)

definition demo_paths :: AppPaths where
  "demo_paths = paths_resolve (\<lambda>k. if k = ''HOME'' then Some ''/u'' else None)"

lemma demo_config_path: "ap_config_path demo_paths = ''/u/.config/synchrosonic/config.toml''"
  by (simp add: demo_paths_def paths_resolve_def default_config_dir_def path_join_def
      starts_with_def Let_def)

definition demo_host :: host where
  "demo_host = \<lparr>hw_files = [ap_config_path demo_paths \<mapsto> ''x''], hw_faults = [], hw_clock = [5000, 6000]\<rparr>"

lemma demo_unusable: "loaded demo_toml path (Some ''x'') = Inl (ConfigParse path ''expected a table'')"
  by (simp add: loaded_def demo_toml_def)

lemma demo_backup:
  "backup_path (ap_config_path demo_paths) 5 = ''/u/.config/synchrosonic/config.invalid-5.toml''"
proof -
  have five: "digit_char 5 = CHR ''5''" by (simp add: digit_char_def char_of_def bit_numeral_rec bit_Suc_0_iff)
  show ?thesis
    by (simp add: backup_path_def demo_config_path with_file_name_def path_parent_def path_join_def show_word_def
        show_nat.simps starts_with_def five)
qed

theorem startup_settles_witness:
  "sc_config (fst (load_startup_config demo_toml demo_paths (snd (load_startup_config demo_toml demo_paths demo_host))))
     = default_app_config"
proof -
  obtain sc h1 where start: "load_startup_config demo_toml demo_paths demo_host = (sc, h1)" by fastforce
  have "sc_config sc = default_app_config"
    using start by (auto simp: load_startup_config_def load_healthy demo_host_def healthy_def demo_unusable
        split_def Let_def)
  then show ?thesis
    using startup_settles [OF _ _ start] demo_encodes start by (simp add: demo_host_def healthy_def)
qed

theorem unusable_config_is_backed_up_witness:
  "hw_files (snd (load_startup_config demo_toml demo_paths demo_host))
     ''/u/.config/synchrosonic/config.invalid-5.toml'' = Some ''x''"
proof -
  have now: "fst (clock_now demo_host) div 1000 = 5" by (simp add: clock_now_def demo_host_def)
  have "hw_files (snd (load_startup_config demo_toml demo_paths demo_host)) =
      (hw_files demo_host)(backup_path (ap_config_path demo_paths) (fst (clock_now demo_host) div 1000) \<mapsto> ''x'',
        ap_config_path demo_paths \<mapsto> encoded demo_toml default_app_config)"
    by (rule unusable_config_is_backed_up [OF _ demo_encodes _ demo_unusable])
      (simp_all only: now demo_backup, simp_all add: demo_host_def healthy_def demo_config_path)
  then show ?thesis by (simp only: now demo_backup) (simp add: demo_config_path)
qed

theorem failed_backup_loses_config_witness:
  "hw_files (snd (load_startup_config demo_toml demo_paths
      (demo_host\<lparr>hw_faults := [None, Some \<lparr>ft_error = invalid_utf8, ft_written = None\<rparr>]\<rparr>))) =
    [ap_config_path demo_paths \<mapsto> encoded demo_toml default_app_config]"
proof -
  let ?h = "demo_host\<lparr>hw_faults := [None, Some \<lparr>ft_error = invalid_utf8, ft_written = None\<rparr>]\<rparr>"
  have "hw_files (snd (load_startup_config demo_toml demo_paths ?h)) =
      (hw_files ?h)(ap_config_path demo_paths \<mapsto> encoded demo_toml default_app_config)"
    by (rule failed_backup_loses_config [OF demo_encodes _ demo_unusable]) (simp_all add: demo_host_def)
  then show ?thesis by (simp add: demo_host_def)
qed

end
