(* ===== verification/Logging.thy ===== *)
theory Logging
  imports App_Files Fifo "HOL-Library.List_Lexorder" "HOL-Library.Char_ord"
begin

text \<open>
  The structured log, \<open>synchrosonic-app/src/logging.rs\<close>: a store in memory that keeps the newest
  entries, and a file of JSON lines that every event is appended to and that the next start reads.
  JSON is read and written by the functions of \<open>log_codec\<close>; the file and the clock are a \<open>host\<close>.
\<close>

definition DEFAULT_LOG_STORE_CAPACITY :: nat where
  "DEFAULT_LOG_STORE_CAPACITY = 400"

definition DEFAULT_LOG_FILE_TAIL :: nat where
  "DEFAULT_LOG_FILE_TAIL = 200"

text \<open>The fields are a sorted list of pairs, the entries of the ordered map.\<close>

record StructuredLogEntry =
  le_timestamp_unix_ms :: u64
  le_level :: string
  le_target :: string
  le_message :: string
  le_fields :: "(string \<times> string) list"
  le_file :: "string option"
  le_line :: "u32 option"

section \<open>The store\<close>

record LogStore =
  ls_entries :: "StructuredLogEntry list"
  ls_capacity :: nat

definition log_store_new :: "nat \<Rightarrow> LogStore" where
  "log_store_new capacity = \<lparr>ls_entries = [], ls_capacity = capacity\<rparr>"

definition snapshot_recent :: "nat \<Rightarrow> LogStore \<Rightarrow> StructuredLogEntry list" where
  "snapshot_recent limit store = take limit (rev (ls_entries store))"

definition snapshot_recent_chronological :: "nat \<Rightarrow> LogStore \<Rightarrow> StructuredLogEntry list" where
  "snapshot_recent_chronological limit store = rev (snapshot_recent limit store)"

text \<open>Popping the front while there are more than \<open>n\<close>.\<close>

fun pop_to :: "nat \<Rightarrow> 'a list \<Rightarrow> 'a list" where
  "pop_to n [] = []"
| "pop_to n (x # xs) = (if n < length (x # xs) then pop_to n xs else x # xs)"

definition log_push :: "StructuredLogEntry \<Rightarrow> LogStore \<Rightarrow> LogStore" where
  "log_push entry store = store\<lparr>ls_entries := pop_to (ls_capacity store) (ls_entries store @ [entry])\<rparr>"

lemma pop_to_drop: "pop_to n xs = drop (length xs - n) xs"
  by (induction xs) (auto simp: Suc_diff_le not_less)

lemma pop_to_idle: "length xs \<le> n \<Longrightarrow> pop_to n xs = xs"
  by (simp add: pop_to_drop)

lemma length_pop_to: "length (pop_to n xs) = min (length xs) n"
  by (simp add: pop_to_drop)

lemma pop_to_append: "pop_to n (pop_to n xs @ ys) = pop_to n (xs @ ys)"
  unfolding pop_to_drop drop_append drop_drop length_append length_drop
  by (rule arg_cong2 [where f = "(@)"]; rule arg_cong2 [where f = drop]) (simp_all, arith?)

lemma pop_to_pop: "m \<le> n \<Longrightarrow> pop_to m (pop_to n xs) = pop_to m xs"
  unfolding pop_to_drop drop_drop length_drop by (rule arg_cong2 [where f = drop]) simp_all

interpretation log_store: bounded_fifo ls_entries ls_capacity log_push "\<lambda>s. length (ls_entries s) \<le> ls_capacity s"
  by unfold_locales (auto simp: log_push_def pop_to_drop)

section \<open>The file\<close>

record log_codec =
  lc_to_writer :: "StructuredLogEntry \<Rightarrow> string option"
  lc_from_str :: "string \<Rightarrow> StructuredLogEntry option"

abbreviation NL :: char where
  "NL \<equiv> CHR 0x0A"

text \<open>\<open>BufRead::lines\<close>: a carriage return before the line feed belongs to the line end.\<close>

definition strip_cr :: "string \<Rightarrow> string" where
  "strip_cr l = (if l \<noteq> [] \<and> last l = CHR 0x0D then butlast l else l)"

function lines_of :: "string \<Rightarrow> string list" where
  "lines_of s =
     (if s = [] then []
      else case dropWhile (\<lambda>c. c \<noteq> NL) s of
             [] \<Rightarrow> [s]
           | _ # r \<Rightarrow> strip_cr (takeWhile (\<lambda>c. c \<noteq> NL) s) # lines_of r)"
  by pat_completeness auto

termination
proof (relation "measure length", goal_cases)
  case (2 s x r)
  then have "length (x # r) \<le> length s" by (metis length_dropWhile_le)
  then show ?case by simp
qed simp

declare lines_of.simps [simp del]

fun tail_of :: "log_codec \<Rightarrow> nat \<Rightarrow> StructuredLogEntry list \<Rightarrow> string list \<Rightarrow> io_error + StructuredLogEntry list" where
  "tail_of lc limit tail [] = Inr tail"
| "tail_of lc limit tail (line # ls) =
     (if \<not> utf8_ok line then Inl invalid_utf8
      else if trim line = [] then tail_of lc limit tail ls
      else case lc_from_str lc line of
             None \<Rightarrow> tail_of lc limit tail ls
           | Some entry \<Rightarrow> tail_of lc limit (pop_to limit (tail @ [entry])) ls)"

definition read_log_tail ::
  "log_codec \<Rightarrow> string \<Rightarrow> nat \<Rightarrow> host \<Rightarrow> (io_error + StructuredLogEntry list) \<times> host" where
  "read_log_tail lc path limit h =
     (if \<not> fs_exists path h then (Inr [], h)
      else io_bind (fs_read path h) (\<lambda>s h1. (tail_of lc limit [] (lines_of s), h1)))"

definition hydrate_from_file ::
  "log_codec \<Rightarrow> string \<Rightarrow> nat \<Rightarrow> LogStore \<Rightarrow> host \<Rightarrow> (io_error + unit) \<times> LogStore \<times> host" where
  "hydrate_from_file lc path limit store h =
     (case read_log_tail lc path limit h of
        (Inl e, h1) \<Rightarrow> (Inl e, store, h1)
      | (Inr tail, h1) \<Rightarrow> (Inr (), store\<lparr>ls_entries := tail\<rparr>, h1))"

definition open_log_file :: "string \<Rightarrow> host \<Rightarrow> (io_error + unit) \<times> host" where
  "open_log_file path h =
     io_bind (case path_parent path of Some parent \<Rightarrow> fs_create_dir_all parent h | None \<Rightarrow> (Inr (), h))
       (\<lambda>_ h1. fs_open_append path h1)"

record LoggingInit =
  li_store :: LogStore
  li_warnings :: "string list"
  li_log_file :: bool

text \<open>\<open>subscriber_error\<close>: what installing the global subscriber answers.\<close>

definition init_logging :: "log_codec \<Rightarrow> string option \<Rightarrow> string \<Rightarrow> host \<Rightarrow> LoggingInit \<times> host" where
  "init_logging lc subscriber_error log_path h =
     (let (hydrated, store, h1) = hydrate_from_file lc log_path DEFAULT_LOG_FILE_TAIL
            (log_store_new DEFAULT_LOG_STORE_CAPACITY) h;
          warn1 = (case hydrated of
             Inl e \<Rightarrow> [''Previous structured logs at '' @ log_path @ '' could not be loaded: '' @ err_text e]
           | Inr _ \<Rightarrow> []);
          (opened, h2) = open_log_file log_path h1;
          warn2 = (case opened of
             Inl e \<Rightarrow> [''Structured log file '' @ log_path @ '' could not be opened: '' @ err_text e]
           | Inr _ \<Rightarrow> []);
          warn3 = (case subscriber_error of
             Some e \<Rightarrow> [''Tracing subscriber could not be initialized: '' @ e]
           | None \<Rightarrow> [])
      in (\<lparr>li_store = store, li_warnings = warn1 @ warn2 @ warn3, li_log_file = (case opened of Inr _ \<Rightarrow> True | Inl _ \<Rightarrow> False)\<rparr>, h2))"

section \<open>Events\<close>

text \<open>An event as the layer sees it: its metadata and the values it records, in order.\<close>

record log_event =
  ev_name :: string
  ev_level :: string
  ev_target :: string
  ev_file :: "string option"
  ev_line :: "u32 option"
  ev_values :: "(string \<times> string) list"

text \<open>\<open>BTreeMap::insert\<close>.\<close>

fun btree_insert :: "string \<Rightarrow> string \<Rightarrow> (string \<times> string) list \<Rightarrow> (string \<times> string) list" where
  "btree_insert k v [] = [(k, v)]"
| "btree_insert k v ((j, w) # m) =
     (if k < j then (k, v) # (j, w) # m
      else if k = j then (k, v) # m
      else (j, w) # btree_insert k v m)"

record EventFieldVisitor =
  vi_message :: "string option"
  vi_fields :: "(string \<times> string) list"

definition record_value :: "string \<times> string \<Rightarrow> EventFieldVisitor \<Rightarrow> EventFieldVisitor" where
  "record_value f v =
     v\<lparr>vi_message := (if fst f = ''message'' then Some (snd f) else vi_message v),
       vi_fields := btree_insert (fst f) (snd f) (vi_fields v)\<rparr>"

definition visited :: "log_event \<Rightarrow> EventFieldVisitor" where
  "visited ev = fold record_value (ev_values ev) \<lparr>vi_message = None, vi_fields = []\<rparr>"

definition entry_of :: "u64 \<Rightarrow> log_event \<Rightarrow> StructuredLogEntry" where
  "entry_of now ev =
     (let v = visited ev
      in \<lparr>le_timestamp_unix_ms = now, le_level = ev_level ev, le_target = ev_target ev,
          le_message = (case vi_message v of
             Some m \<Rightarrow> m
           | None \<Rightarrow> (case map_of (vi_fields v) ''message'' of Some m \<Rightarrow> m | None \<Rightarrow> ev_name ev)),
          le_fields = vi_fields v, le_file = ev_file ev, le_line = ev_line ev\<rparr>)"

text \<open>The store always takes the entry; the line end is only written after the whole entry.\<close>

definition on_event ::
  "log_codec \<Rightarrow> string option \<Rightarrow> log_event \<Rightarrow> LogStore \<times> host \<Rightarrow> LogStore \<times> host" where
  "on_event lc log_file ev s =
     (let (now, h) = clock_now (snd s);
          entry = entry_of now ev;
          store = log_push entry (fst s)
      in case log_file of
           None \<Rightarrow> (store, h)
         | Some path \<Rightarrow>
             (case lc_to_writer lc entry of
                None \<Rightarrow> (store, h)
              | Some text \<Rightarrow>
                  (case fs_append path text h of
                     (Inl _, h1) \<Rightarrow> (store, h1)
                   | (Inr _, h1) \<Rightarrow> (store, snd (fs_append path [NL] h1)))))"

end
