(* ===== verification/Logging_Properties.thy ===== *)
theory Logging_Properties
  imports Logging
begin

text \<open>What the store and the file hold after the events of a run, and what the next start loads.\<close>

section \<open>Lines\<close>

definition whole_lines :: "string \<Rightarrow> bool" where
  "whole_lines s \<longleftrightarrow> s = [] \<or> last s = NL"

lemma lines_of_line: "NL \<notin> set l \<Longrightarrow> lines_of (l @ NL # r) = strip_cr l # lines_of r"
  by (subst lines_of.simps) (simp add: takeWhile_append2 dropWhile_append2 takeWhile_append dropWhile_append)

lemma lines_of_Nil [simp]: "lines_of [] = []"
  by (subst lines_of.simps) simp

lemma lines_of_part: "NL \<notin> set l \<Longrightarrow> l \<noteq> [] \<Longrightarrow> lines_of l = [l]"
proof -
  assume l: "NL \<notin> set l" "l \<noteq> []"
  then have "dropWhile (\<lambda>c. c \<noteq> NL) l = []" by (auto simp: dropWhile_eq_Nil_conv)
  then show ?thesis using l(2) by (subst lines_of.simps) (simp only: list.case if_False)
qed

lemma split_at_NL: "NL \<in> set s \<Longrightarrow> \<exists>l r. s = l @ NL # r \<and> NL \<notin> set l"
  by (metis split_list_first)

lemma lines_of_append: "whole_lines s \<Longrightarrow> lines_of (s @ t) = lines_of s @ lines_of t"
proof (induction "length s" arbitrary: s rule: less_induct)
  case less
  show ?case
  proof (cases "s = []")
    case False
    then have "NL \<in> set s" using less.prems by (metis last_in_set whole_lines_def)
    then obtain l r where s: "s = l @ NL # r" "NL \<notin> set l" using split_at_NL by blast
    then have "whole_lines r" using less.prems by (cases r) (auto simp: whole_lines_def)
    then have "lines_of (r @ t) = lines_of r @ lines_of t" using s less.hyps by simp
    then show ?thesis using s by (simp add: lines_of_line)
  qed simp
qed

lemma whole_lines_append: "whole_lines (s @ t @ [NL])"
  by (simp add: whole_lines_def)

section \<open>The tail\<close>

lemma tail_of_append:
  "tail_of lc n t (xs @ ys) = (case tail_of lc n t xs of Inl e \<Rightarrow> Inl e | Inr u \<Rightarrow> tail_of lc n u ys)"
  by (induction lc n t xs rule: tail_of.induct) (auto split: option.split)

lemma length_tail: "tail_of lc n t ls = Inr u \<Longrightarrow> length t \<le> n \<Longrightarrow> length u \<le> n"
  by (induction lc n t ls rule: tail_of.induct) (auto split: if_splits option.splits simp: length_pop_to)

text \<open>The JSON writer and reader: one line per entry, which reads back as the entry.\<close>

definition writes_lines :: "log_codec \<Rightarrow> bool" where
  "writes_lines lc \<longleftrightarrow> (\<forall>e s. lc_to_writer lc e = Some s \<longrightarrow>
     lc_from_str lc s = Some e \<and> NL \<notin> set s \<and> strip_cr s = s \<and> trim s \<noteq> [] \<and> utf8_ok s)"

lemma tail_line:
  assumes "writes_lines lc" "lc_to_writer lc e = Some s" "whole_lines c" "tail_of lc n [] (lines_of c) = Inr t"
  shows "tail_of lc n [] (lines_of (c @ s @ [NL])) = Inr (pop_to n (t @ [e]))"
proof -
  have s: "NL \<notin> set s" "strip_cr s = s" "lc_from_str lc s = Some e" "trim s \<noteq> []" "utf8_ok s"
    using assms(1,2) by (auto simp: writes_lines_def)
  have "lines_of (c @ s @ [NL]) = lines_of c @ [s]"
    using lines_of_append [OF assms(3)] lines_of_line [OF s(1), of "[]"] s(2) by simp
  then show ?thesis using assms(4) s by (simp add: tail_of_append)
qed

lemma content_upd [simp]: "content p (h\<lparr>hw_files := (hw_files h)(p \<mapsto> s)\<rparr>) = s"
  by (simp add: content_def)

lemma content_frame [simp]:
  "content p (h\<lparr>hw_faults := fs\<rparr>) = content p h" "content p (h\<lparr>hw_clock := ts\<rparr>) = content p h"
  by (simp_all add: content_def)

lemma content_clock [simp]: "content p (snd (clock_now h)) = content p h"
  by (simp add: content_def)

lemma read_healthy:
  "healthy h \<Longrightarrow> read_log_tail lc path n h = (tail_of lc n [] (lines_of (content path h)), h)"
  by (cases "hw_files h path")
    (simp_all add: read_log_tail_def fs_exists_def io_bind_def healthy_ops content_def)

section \<open>Events\<close>

definition clock_readings :: "host \<Rightarrow> u64 set" where
  "clock_readings h = insert 0 (set (hw_clock h))"

lemma clock_now_readings: "fst (clock_now h) \<in> clock_readings h" "clock_readings (snd (clock_now h)) \<subseteq> clock_readings h"
  by (auto simp: clock_now_def clock_readings_def split: list.split)

definition writable :: "log_codec \<Rightarrow> log_event list \<Rightarrow> host \<Rightarrow> bool" where
  "writable lc evs h \<longleftrightarrow> (\<forall>ev \<in> set evs. \<forall>now \<in> clock_readings h. lc_to_writer lc (entry_of now ev) \<noteq> None)"

text \<open>The file ends with the newest entries of the store.\<close>

definition in_step :: "log_codec \<Rightarrow> string \<Rightarrow> LogStore \<times> host \<Rightarrow> bool" where
  "in_step lc path s \<longleftrightarrow> healthy (snd s) \<and> whole_lines (content path (snd s)) \<and> DEFAULT_LOG_FILE_TAIL \<le> ls_capacity (fst s)
     \<and> tail_of lc DEFAULT_LOG_FILE_TAIL [] (lines_of (content path (snd s)))
         = Inr (pop_to DEFAULT_LOG_FILE_TAIL (ls_entries (fst s)))"

lemma event_in_step:
  assumes "writes_lines lc" "in_step lc path s" "writable lc (ev # evs) (snd s)"
  shows "in_step lc path (on_event lc (Some path) ev s)
    \<and> writable lc evs (snd (on_event lc (Some path) ev s))"
proof -
  obtain store h where s: "s = (store, h)" by fastforce
  obtain now h1 where now: "clock_now h = (now, h1)" by fastforce
  let ?e = "entry_of now ev"
  have h1: "healthy h1" "content path h1 = content path h"
    using assms(2) now clock_now_files(3) [of h] content_clock [of path h] by (simp_all add: in_step_def s)
  obtain out where out: "lc_to_writer lc ?e = Some out"
    using assms(3) clock_now_readings(1) [of h] now by (auto simp: writable_def s)
  let ?h2 = "h1\<lparr>hw_files := (hw_files h1)(path \<mapsto> content path h @ out @ [NL])\<rparr>"
  have step: "on_event lc (Some path) ev s = (log_push ?e store, ?h2)"
    using h1 by (simp add: on_event_def s now out healthy_ops Let_def)
  have "tail_of lc DEFAULT_LOG_FILE_TAIL [] (lines_of (content path h @ out @ [NL]))
      = Inr (pop_to DEFAULT_LOG_FILE_TAIL (pop_to DEFAULT_LOG_FILE_TAIL (ls_entries store) @ [?e]))"
    using assms(2) by (intro tail_line [OF assms(1) out]) (simp_all add: in_step_def s)
  also have "pop_to DEFAULT_LOG_FILE_TAIL (pop_to DEFAULT_LOG_FILE_TAIL (ls_entries store) @ [?e])
      = pop_to DEFAULT_LOG_FILE_TAIL (ls_entries (log_push ?e store))"
    using assms(2) by (simp add: log_push_def pop_to_append pop_to_pop in_step_def s)
  finally have "in_step lc path (log_push ?e store, ?h2)"
    using assms(2) h1 whole_lines_append by (simp add: in_step_def s log_push_def)
  moreover have "writable lc evs ?h2"
    using assms(3) clock_now_readings(2) [of h] now
    by (auto simp: writable_def s clock_readings_def)
  ultimately show ?thesis by (simp add: step)
qed

lemma events_in_step:
  assumes "writes_lines lc" "in_step lc path s" "writable lc evs (snd s)"
  shows "in_step lc path (fold (on_event lc (Some path)) evs s)"
  using assms(2,3)
  by (induction evs arbitrary: s) (simp_all add: event_in_step [OF assms(1)])

lemma init_healthy:
  assumes "healthy h" "tail_of lc DEFAULT_LOG_FILE_TAIL [] (lines_of (content path h)) = Inr t"
  shows "\<exists>h1. init_logging lc e path h =
    (\<lparr>li_store = \<lparr>ls_entries = t, ls_capacity = DEFAULT_LOG_STORE_CAPACITY\<rparr>,
      li_warnings = (case e of Some e \<Rightarrow> [''Tracing subscriber could not be initialized: '' @ e] | None \<Rightarrow> []),
      li_log_file = True\<rparr>, h1) \<and> healthy h1 \<and> content path h1 = content path h \<and> hw_clock h1 = hw_clock h"
proof -
  have "open_log_file path h = (Inr (), h\<lparr>hw_files := (hw_files h)(path \<mapsto> content path h)\<rparr>)"
    using assms(1) by (simp add: open_log_file_def io_bind_def healthy_ops split: option.split)
  then show ?thesis
    using assms by (auto simp: init_logging_def hydrate_from_file_def read_healthy log_store_new_def Let_def)
qed

section \<open>Properties\<close>

text \<open>
  C35: The log written by one run is what the next one shows: after any sequence of events on a healthy disk, reading the tail of the file gives
  the newest entries of the file and of the run, in order, up to the limit.
\<close>

theorem restart_shows_what_was_logged:
  assumes "writes_lines lc" "healthy h" "whole_lines (content path h)"
    and "tail_of lc DEFAULT_LOG_FILE_TAIL [] (lines_of (content path h)) = Inr t" "writable lc evs h"
    and "init_logging lc None path h = (init, h1)"
    and "fold (on_event lc (Some path)) evs (li_store init, h1) = (store, h2)" "limit \<le> DEFAULT_LOG_FILE_TAIL"
  shows "li_log_file init \<and> li_warnings init = []
    \<and> snapshot_recent limit (li_store (fst (init_logging lc e path h2))) = snapshot_recent limit store"
proof -
  have init: "init = \<lparr>li_store = \<lparr>ls_entries = t, ls_capacity = DEFAULT_LOG_STORE_CAPACITY\<rparr>,
      li_warnings = [], li_log_file = True\<rparr>" "healthy h1" "content path h1 = content path h" "hw_clock h1 = hw_clock h"
    using init_healthy [OF assms(2,4), of None] assms(6) by auto
  have "length t \<le> DEFAULT_LOG_FILE_TAIL" using length_tail [OF assms(4)] by simp
  then have "in_step lc path (li_store init, h1)"
    using assms(3,4) init
    by (simp add: in_step_def pop_to_idle DEFAULT_LOG_FILE_TAIL_def DEFAULT_LOG_STORE_CAPACITY_def)
  moreover have "writable lc evs h1" using assms(5) init(4) by (simp add: writable_def clock_readings_def)
  ultimately have "in_step lc path (store, h2)"
    using events_in_step [OF assms(1), of path "(li_store init, h1)" evs] assms(7) by simp
  then have step: "healthy h2" "tail_of lc DEFAULT_LOG_FILE_TAIL [] (lines_of (content path h2))
      = Inr (pop_to DEFAULT_LOG_FILE_TAIL (ls_entries store))" by (simp_all add: in_step_def)
  have "snapshot_recent limit (li_store (fst (init_logging lc e path h2)))
      = take limit (rev (pop_to DEFAULT_LOG_FILE_TAIL (ls_entries store)))"
    using init_healthy [OF step, of e] by (auto simp: snapshot_recent_def)
  also have "\<dots> = snapshot_recent limit store"
    using assms(8) by (simp add: snapshot_recent_def pop_to_drop rev_drop take_rev [symmetric] min_def)
  finally show ?thesis using init(1) by simp
qed

text \<open>A codec that knows the entries of one event at two times.\<close>

definition demo_event :: log_event where
  "demo_event = \<lparr>ev_name = ''event'', ev_level = ''INFO'', ev_target = ''app'', ev_file = None, ev_line = None,
     ev_values = [(''message'', ''hello'')]\<rparr>"

definition demo_log_codec :: log_codec where
  "demo_log_codec =
     \<lparr>lc_to_writer = \<lambda>e. if e = entry_of 5 demo_event then Some ''a''
         else if e = entry_of 0 demo_event then Some ''b'' else None,
      lc_from_str = \<lambda>s. if s = ''a'' then Some (entry_of 5 demo_event)
         else if s = ''b'' then Some (entry_of 0 demo_event) else None\<rparr>"

lemma demo_writes: "writes_lines demo_log_codec"
proof -
  have "\<not> is_whitespace (CHR ''a'')" "\<not> is_whitespace (CHR ''b'')" by (simp_all add: is_whitespace_def)
  then have "trim ''a'' \<noteq> []" "trim ''b'' \<noteq> []" by (simp_all only: trim_empty_iff) simp_all
  then show ?thesis
    by (auto simp: writes_lines_def demo_log_codec_def strip_cr_def split: if_splits)
qed

definition demo_log_host :: host where
  "demo_log_host = \<lparr>hw_files = [''/log'' \<mapsto> ''b'' @ [NL]], hw_faults = [], hw_clock = [5]\<rparr>"

lemma demo_log_lines: "lines_of (content ''/log'' demo_log_host) = [''b'']"
  using lines_of_line [of "''b''" "[]"] by (simp add: content_def demo_log_host_def strip_cr_def)

lemma demo_log_tail:
  "tail_of demo_log_codec DEFAULT_LOG_FILE_TAIL [] (lines_of (content ''/log'' demo_log_host))
    = Inr [entry_of 0 demo_event]"
proof -
  have "trim ''b'' \<noteq> []" by (simp add: trim_empty_iff is_whitespace_def)
  then show ?thesis
    by (simp add: demo_log_lines demo_log_codec_def pop_to_idle DEFAULT_LOG_FILE_TAIL_def)
qed

lemma demo_writable: "writable demo_log_codec [demo_event, demo_event] demo_log_host"
  by (auto simp: writable_def demo_log_codec_def clock_readings_def demo_log_host_def)

theorem restart_shows_what_was_logged_witness:
  "\<exists>init h1 store h2. init_logging demo_log_codec None ''/log'' demo_log_host = (init, h1)
     \<and> fold (on_event demo_log_codec (Some ''/log'')) [demo_event, demo_event] (li_store init, h1) = (store, h2)
     \<and> snapshot_recent 2 (li_store (fst (init_logging demo_log_codec None ''/log'' h2))) = snapshot_recent 2 store"
proof -
  obtain init h1 where i: "init_logging demo_log_codec None ''/log'' demo_log_host = (init, h1)" by fastforce
  obtain store h2 where r: "fold (on_event demo_log_codec (Some ''/log'')) [demo_event, demo_event] (li_store init, h1)
      = (store, h2)" by fastforce
  have "healthy demo_log_host" "whole_lines (content ''/log'' demo_log_host)"
    by (simp_all add: healthy_def demo_log_host_def whole_lines_def content_def)
  from restart_shows_what_was_logged [OF demo_writes this demo_log_tail demo_writable i r, of 2 None] i r
  show ?thesis by (simp add: DEFAULT_LOG_FILE_TAIL_def)
qed

theorem log_store_keeps_newest:
  "snapshot_recent_chronological limit (fold log_push es (log_store_new capacity))
     = pop_to (min limit capacity) es
   \<and> length (ls_entries (fold log_push es (log_store_new capacity))) \<le> capacity"
proof -
  have inv: "length (ls_entries (log_store_new capacity)) \<le> ls_capacity (log_store_new capacity)"
    by (simp add: log_store_new_def)
  have "ls_entries (fold log_push es (log_store_new capacity)) = drop (length es - capacity) es"
    using log_store.items_fold [OF inv, of es] by (simp add: log_store_new_def)
  then show ?thesis
    by (simp add: snapshot_recent_chronological_def snapshot_recent_def take_rev pop_to_drop min_def)
      (auto intro!: arg_cong2 [where f = drop])
qed

theorem torn_entry_hides_the_next:
  assumes "hw_faults h = [Some f, None, None]" "ft_written f = Some n" "whole_lines (content path h)"
    and "lc_to_writer lc (entry_of t1 e1) = Some s1" "lc_to_writer lc (entry_of t2 e2) = Some s2"
    and "hw_clock h = [t1, t2]" "NL \<notin> set (take n s1 @ s2)"
    and "utf8_ok (strip_cr (take n s1 @ s2))" "lc_from_str lc (strip_cr (take n s1 @ s2)) = None"
    and "fold (on_event lc (Some path)) [e1, e2] (store, h) = (store', h')"
  shows "content path h' = content path h @ take n s1 @ s2 @ [NL]
    \<and> tail_of lc limit [] (lines_of (content path h')) = tail_of lc limit [] (lines_of (content path h))
    \<and> (2 \<le> ls_capacity store \<longrightarrow> snapshot_recent 2 store' = [entry_of t2 e2, entry_of t1 e1])"
proof -
  let ?c = "content path h"
  have run: "h' = h\<lparr>hw_files := (hw_files h)(path \<mapsto> ?c @ take n s1 @ s2 @ [NL]), hw_faults := [], hw_clock := []\<rparr>"
      "store' = log_push (entry_of t2 e2) (log_push (entry_of t1 e1) store)"
    using assms(10)
    by (auto simp: on_event_def clock_now_def assms fs_append_def next_fault_def Let_def content_def)
  have "lines_of (?c @ take n s1 @ s2 @ [NL]) = lines_of ?c @ [strip_cr (take n s1 @ s2)]"
    using lines_of_append [OF assms(3), of "(take n s1 @ s2) @ [NL]"] lines_of_line [OF assms(7), of "[]"] by simp
  then have "tail_of lc limit [] (lines_of (content path h')) = tail_of lc limit [] (lines_of ?c)"
    using assms(8,9) run(1) by (simp add: tail_of_append content_def split: sum.split)
  moreover have "snapshot_recent 2 store' = [entry_of t2 e2, entry_of t1 e1]" if "2 \<le> ls_capacity store"
    using that by (simp add: run(2) snapshot_recent_def log_push_def pop_to_drop)
  ultimately show ?thesis by (simp add: run(1) content_def)
qed

theorem torn_entry_hides_the_next_witness:
  "\<exists>store' h'. fold (on_event demo_log_codec (Some ''/log'')) [demo_event, demo_event] (log_store_new 3,
       demo_log_host\<lparr>hw_faults := [Some \<lparr>ft_error = invalid_utf8, ft_written = Some 1\<rparr>, None, None], hw_clock := [5, 0]\<rparr>)
       = (store', h')
     \<and> tail_of demo_log_codec 200 [] (lines_of (content ''/log'' h')) = Inr [entry_of 0 demo_event]
     \<and> snapshot_recent 2 store' = [entry_of 0 demo_event, entry_of 5 demo_event]"
proof -
  let ?h = "demo_log_host\<lparr>hw_faults := [Some \<lparr>ft_error = invalid_utf8, ft_written = Some 1\<rparr>, None, None], hw_clock := [5, 0]\<rparr>"
  obtain store' h' where r: "fold (on_event demo_log_codec (Some ''/log'')) [demo_event, demo_event] (log_store_new 3, ?h)
      = (store', h')" by fastforce
  have same: "entry_of 5 demo_event \<noteq> entry_of 0 demo_event" by (simp add: entry_of_def Let_def)
  have shown: "content ''/log'' h' = content ''/log'' ?h @ take 1 ''a'' @ ''b'' @ [NL]
      \<and> tail_of demo_log_codec 200 [] (lines_of (content ''/log'' h')) = tail_of demo_log_codec 200 [] (lines_of (content ''/log'' ?h))
      \<and> (2 \<le> ls_capacity (log_store_new 3) \<longrightarrow> snapshot_recent 2 store' = [entry_of 0 demo_event, entry_of 5 demo_event])"
    by (rule torn_entry_hides_the_next [OF _ _ _ _ _ _ _ _ _ r])
      (use same in \<open>simp_all add: whole_lines_def demo_log_codec_def strip_cr_def\<close>,
        (simp add: content_def demo_log_host_def)+)
  from shown [THEN conjunct2] have "tail_of demo_log_codec 200 [] (lines_of (content ''/log'' h')) = Inr [entry_of 0 demo_event]
      \<and> snapshot_recent 2 store' = [entry_of 0 demo_event, entry_of 5 demo_event]"
    using demo_log_tail by (simp only: content_frame DEFAULT_LOG_FILE_TAIL_def) (simp add: log_store_new_def)
  with r show ?thesis by blast
qed

end
