(* ===== verification/Diagnostics.thy ===== *)
theory Diagnostics
  imports Persistence Logging App_State App_Metadata Discovery_Core
begin

text \<open>
  The diagnostics runtime of \<open>synchrosonic-app/src/diagnostics.rs\<close>: the redacted configuration
  summary, the snapshot of the subsystems with the operations that update and persist it, the
  session marker, and the events that wait to be shown. JSON is read and written by the
  functions of \<open>diag_codec\<close>; the files and the clock are a \<open>host\<close>. Mutexes are never poisoned.
\<close>

definition RECOVERY_LOG_LIMIT :: nat where
  "RECOVERY_LOG_LIMIT = 200"

definition SNAPSHOT_PERSIST_INTERVAL_MS :: u64 where
  "SNAPSHOT_PERSIST_INTERVAL_MS = 2000"

definition MAX_RECENT_WARNINGS_ERRORS :: nat where
  "MAX_RECENT_WARNINGS_ERRORS = 12"

section \<open>The configuration without its secrets\<close>

record RedactedAudioConfigSummary =
  ra_has_preferred_source_id :: bool
  ra_local_playback_enabled :: bool
  ra_has_local_playback_target_id :: bool
  ra_sample_rate_hz :: u32
  ra_channels :: u16
  ra_sample_format :: string
  ra_capture_buffer_frames :: u32
  ra_capture_latency_ms :: u16

record RedactedDiscoveryConfigSummary =
  rd_enabled :: bool
  rd_service_type :: string
  rd_stale_timeout_secs :: u64

record RedactedTransportConfigSummary =
  rt_bind_host :: string
  rt_stream_port :: u16
  rt_quality_preset :: string
  rt_target_latency_ms :: u16
  rt_connect_timeout_ms :: u16
  rt_heartbeat_interval_ms :: u16

record RedactedReceiverConfigSummary =
  rr_enabled :: bool
  rr_start_on_launch :: bool
  rr_has_advertised_name :: bool
  rr_bind_host :: string
  rr_listen_port :: u16
  rr_has_playback_target_id :: bool
  rr_latency_preset :: string

record RedactedUiConfigSummary =
  ru_prefer_dark_theme :: bool
  ru_last_view_name :: string

record RedactedDiagnosticsConfigSummary =
  rg_verbose_logging :: bool

record RedactedConfigSummary =
  rs_schema_version :: u32
  rs_audio :: RedactedAudioConfigSummary
  rs_discovery :: RedactedDiscoveryConfigSummary
  rs_transport :: RedactedTransportConfigSummary
  rs_receiver :: RedactedReceiverConfigSummary
  rs_ui :: RedactedUiConfigSummary
  rs_diagnostics :: RedactedDiagnosticsConfigSummary

definition redacted :: "AppConfig \<Rightarrow> RedactedConfigSummary" where
  "redacted config =
     (let a = cfg_audio config; d = cfg_discovery config; t = cfg_transport config;
          r = cfg_receiver config; u = cfg_ui config
      in \<lparr>rs_schema_version = cfg_schema_version config,
          rs_audio =
            \<lparr>ra_has_preferred_source_id = (ac_preferred_source_id a \<noteq> None),
             ra_local_playback_enabled = ac_local_playback_enabled a,
             ra_has_local_playback_target_id = (ac_local_playback_target_id a \<noteq> None),
             ra_sample_rate_hz = ac_sample_rate_hz a, ra_channels = ac_channels a,
             ra_sample_format = dbg_sample_format (ac_sample_format a),
             ra_capture_buffer_frames = ac_capture_buffer_frames a,
             ra_capture_latency_ms = ac_capture_latency_ms a\<rparr>,
          rs_discovery =
            \<lparr>rd_enabled = dc_enabled d, rd_service_type = dc_service_type d,
             rd_stale_timeout_secs = dc_stale_timeout_secs d\<rparr>,
          rs_transport =
            \<lparr>rt_bind_host = tc_bind_host t, rt_stream_port = tc_stream_port t,
             rt_quality_preset = dbg_quality (tc_quality t), rt_target_latency_ms = tc_target_latency_ms t,
             rt_connect_timeout_ms = tc_connect_timeout_ms t,
             rt_heartbeat_interval_ms = tc_heartbeat_interval_ms t\<rparr>,
          rs_receiver =
            \<lparr>rr_enabled = rc_enabled r, rr_start_on_launch = rc_start_on_launch r,
             rr_has_advertised_name = (trim (rc_advertised_name r) \<noteq> []), rr_bind_host = rc_bind_host r,
             rr_listen_port = rc_listen_port r, rr_has_playback_target_id = (rc_playback_target_id r \<noteq> None),
             rr_latency_preset = dbg_latency_preset (rc_latency_preset r)\<rparr>,
          rs_ui = \<lparr>ru_prefer_dark_theme = ui_prefer_dark_theme u, ru_last_view_name = ui_last_view_name u\<rparr>,
          rs_diagnostics = \<lparr>rg_verbose_logging = dg_verbose_logging (cfg_diagnostics config)\<rparr>\<rparr>)"

section \<open>The snapshot of the subsystems\<close>

record PollSnapshot =
  po_interval_secs :: u64
  po_runs :: u64
  po_skips :: u64
  po_last_started_at_unix_ms :: "u64 option"
  po_last_duration_ms :: "u64 option"
  po_last_changes_applied :: nat
  po_last_error :: "string option"

record AudioSubsystemSnapshot =
  sa_source_poll :: PollSnapshot
  sa_playback_target_poll :: PollSnapshot
  sa_source_count :: nat
  sa_playback_target_count :: nat
  sa_active_source_id :: "string option"
  sa_local_playback_target_id :: "string option"
  sa_receiver_playback_target_id :: "string option"

record KnownDeviceSnapshot =
  kd_id :: string
  kd_display_name :: string
  kd_status :: string
  kd_availability :: string
  kd_endpoint :: "string option"

record DiscoverySubsystemSnapshot =
  sd_poll :: PollSnapshot
  sd_service_state :: string
  sd_discovered_device_count :: nat
  sd_local_device_id :: "string option"
  sd_advertisement_state :: string
  sd_advertised_endpoint :: "string option"
  sd_last_advertised_unix_ms :: "u64 option"
  sd_last_advertisement_error :: "string option"
  sd_known_devices :: "KnownDeviceSnapshot list"

record ReceiverSubsystemSnapshot =
  sr_poll :: PollSnapshot
  sr_runtime_state :: string
  sr_listener_active :: bool
  sr_listener_bind_addr :: "string option"
  sr_listener_port :: "u16 option"
  sr_last_runtime_error :: "string option"
  sr_last_transport_error :: "string option"

record StreamingSubsystemSnapshot =
  sx_poll :: PollSnapshot
  sx_state :: string
  sx_target_session_count :: nat
  sx_active_target_count :: nat
  sx_local_mirror_state :: string
  sx_last_transport_error :: "string option"

record UiSubsystemSnapshot =
  su_current_view_name :: string
  su_refresh_requests :: u64
  su_refresh_applied :: u64
  su_refresh_skipped :: u64
  su_list_rebuilds :: u64
  su_list_skips :: u64
  su_last_rendered_row_count :: nat
  su_browser_join_active :: bool
  su_browser_join_url :: "string option"
  su_browser_join_requests_served :: u64
  su_browser_join_last_error :: "string option"

record SubsystemSnapshot =
  sn_updated_at_unix_ms :: u64
  sn_last_crash_recovery_unix_ms :: "u64 option"
  sn_audio :: AudioSubsystemSnapshot
  sn_discovery :: DiscoverySubsystemSnapshot
  sn_receiver :: ReceiverSubsystemSnapshot
  sn_streaming :: StreamingSubsystemSnapshot
  sn_ui :: UiSubsystemSnapshot

definition default_poll :: PollSnapshot where
  "default_poll = \<lparr>po_interval_secs = 0, po_runs = 0, po_skips = 0, po_last_started_at_unix_ms = None,
     po_last_duration_ms = None, po_last_changes_applied = 0, po_last_error = None\<rparr>"

definition default_snapshot :: SubsystemSnapshot where
  "default_snapshot =
     \<lparr>sn_updated_at_unix_ms = 0, sn_last_crash_recovery_unix_ms = None,
      sn_audio = \<lparr>sa_source_poll = default_poll, sa_playback_target_poll = default_poll, sa_source_count = 0,
        sa_playback_target_count = 0, sa_active_source_id = None, sa_local_playback_target_id = None,
        sa_receiver_playback_target_id = None\<rparr>,
      sn_discovery = \<lparr>sd_poll = default_poll, sd_service_state = [], sd_discovered_device_count = 0,
        sd_local_device_id = None, sd_advertisement_state = [], sd_advertised_endpoint = None,
        sd_last_advertised_unix_ms = None, sd_last_advertisement_error = None, sd_known_devices = []\<rparr>,
      sn_receiver = \<lparr>sr_poll = default_poll, sr_runtime_state = [], sr_listener_active = False,
        sr_listener_bind_addr = None, sr_listener_port = None, sr_last_runtime_error = None,
        sr_last_transport_error = None\<rparr>,
      sn_streaming = \<lparr>sx_poll = default_poll, sx_state = [], sx_target_session_count = 0,
        sx_active_target_count = 0, sx_local_mirror_state = [], sx_last_transport_error = None\<rparr>,
      sn_ui = \<lparr>su_current_view_name = [], su_refresh_requests = 0, su_refresh_applied = 0,
        su_refresh_skipped = 0, su_list_rebuilds = 0, su_list_skips = 0, su_last_rendered_row_count = 0,
        su_browser_join_active = False, su_browser_join_url = None, su_browser_join_requests_served = 0,
        su_browser_join_last_error = None\<rparr>\<rparr>"

datatype PollKind = PollDiscovery | PollReceiver | PollStreaming | PollAudioSources | PollPlaybackTargets

record PollObservation =
  ob_interval_secs :: u64
  ob_duration_ms :: u64
  ob_skipped :: bool
  ob_changes_applied :: nat
  ob_error :: "string option"

record SessionMarker =
  mk_app_version :: string
  mk_release_channel :: string
  mk_pid :: u32
  mk_started_at_unix_ms :: u64
  mk_os :: string
  mk_kernel :: string
  mk_config_path :: string
  mk_state_path :: string

text \<open>The JSON reader and writer; a value that cannot be written is an error.\<close>

record diag_codec =
  jc_snapshot_to :: "SubsystemSnapshot \<Rightarrow> io_error + string"
  jc_snapshot_from :: "string \<Rightarrow> SubsystemSnapshot option"
  jc_marker_to :: "SessionMarker \<Rightarrow> io_error + string"
  jc_marker_from :: "string \<Rightarrow> SessionMarker option"
  jc_config_pretty :: "RedactedConfigSummary \<Rightarrow> io_error + string"
  jc_config_compact :: "RedactedConfigSummary \<Rightarrow> io_error + string"
  jc_fields :: "(string \<times> string) list \<Rightarrow> io_error + string"
  jc_pretty :: "json \<Rightarrow> io_error + string"
  jc_events :: "DiagnosticEvent list \<Rightarrow> io_error + string"
  jc_logs :: "StructuredLogEntry list \<Rightarrow> io_error + string"

text \<open>The process: its build, platform and id, the reader of its log, and the \<open>uname\<close> command.\<close>

record diag_env =
  dx_codec :: diag_codec
  dx_log_codec :: log_codec
  dx_build :: build_info
  dx_os :: string
  dx_arch :: string
  dx_pid :: u32
  dx_uname :: "string option"

record DiagnosticsRuntime =
  dr_paths :: AppPaths
  dr_config_summary :: RedactedConfigSummary
  dr_pending_events :: "DiagnosticEvent list"
  dr_current :: SubsystemSnapshot
  dr_last_persisted :: "SubsystemSnapshot option"
  dr_last_persisted_at_unix_ms :: u64

section \<open>Writing a file whole\<close>

text \<open>\<open>sync_all\<close> can only fail.\<close>

definition fs_sync :: "host \<Rightarrow> (io_error + unit) \<times> host" where
  "fs_sync h = (case next_fault h of (Some f, h1) \<Rightarrow> (Inl (ft_error f), h1) | (None, h1) \<Rightarrow> (Inr (), h1))"

definition tmp_path :: "string \<Rightarrow> string" where
  "tmp_path path =
     with_extension path ((case path_extension path of Some e \<Rightarrow> e | None \<Rightarrow> ''write'') @ ''.tmp'')"

definition write_bytes_atomic :: "string \<Rightarrow> string \<Rightarrow> host \<Rightarrow> (io_error + unit) \<times> host" where
  "write_bytes_atomic path contents h =
     io_bind (case path_parent path of Some parent \<Rightarrow> fs_create_dir_all parent h | None \<Rightarrow> (Inr (), h)) (\<lambda>_ h1.
     io_bind (fs_write (tmp_path path) contents h1) (\<lambda>_ h2.
     io_bind (fs_sync h2) (\<lambda>_ h3.
     fs_rename (tmp_path path) path h3)))"

text \<open>\<open>write_json_atomic\<close> on what the writer made of the value.\<close>

definition write_json_atomic :: "string \<Rightarrow> io_error + string \<Rightarrow> host \<Rightarrow> (io_error + unit) \<times> host" where
  "write_json_atomic path encoded h =
     (case encoded of Inl e \<Rightarrow> (Inl e, h) | Inr bytes \<Rightarrow> write_bytes_atomic path bytes h)"

section \<open>Persisting and updating the snapshot\<close>

definition persist_snapshot ::
  "diag_env \<Rightarrow> bool \<Rightarrow> DiagnosticsRuntime \<Rightarrow> host \<Rightarrow> (io_error + unit) \<times> DiagnosticsRuntime \<times> host" where
  "persist_snapshot dx force dr h =
     (let (now, h1) = clock_now h;
          changed = (dr_last_persisted dr \<noteq> Some (dr_current dr));
          due = (force \<or> changed \<or> SNAPSHOT_PERSIST_INTERVAL_MS \<le> sat_sub now (dr_last_persisted_at_unix_ms dr))
      in if \<not> due then (Inr (), dr, h1)
         else (case write_json_atomic (ap_subsystem_snapshot_path (dr_paths dr))
                 (jc_snapshot_to (dx_codec dx) (dr_current dr)) h1 of
                 (Inl e, h2) \<Rightarrow> (Inl e, dr, h2)
               | (Inr _, h2) \<Rightarrow>
                   (Inr (), dr\<lparr>dr_last_persisted := Some (dr_current dr), dr_last_persisted_at_unix_ms := now\<rparr>, h2)))"

text \<open>Every update is followed by an unforced persist, whose error is only logged.\<close>

definition updated ::
  "diag_env \<Rightarrow> (SubsystemSnapshot \<Rightarrow> SubsystemSnapshot) \<Rightarrow> DiagnosticsRuntime \<times> host \<Rightarrow> DiagnosticsRuntime \<times> host" where
  "updated dx f s =
     snd (persist_snapshot dx False ((fst s)\<lparr>dr_current := f (dr_current (fst s))\<rparr>) (snd s))"

definition stamped ::
  "diag_env \<Rightarrow> (SubsystemSnapshot \<Rightarrow> SubsystemSnapshot) \<Rightarrow> DiagnosticsRuntime \<times> host \<Rightarrow> DiagnosticsRuntime \<times> host" where
  "stamped dx f s =
     (let (now, h) = clock_now (snd s)
      in updated dx (\<lambda>n. f (n\<lparr>sn_updated_at_unix_ms := now\<rparr>)) (fst s, h))"

definition update_config_summary :: "AppConfig \<Rightarrow> DiagnosticsRuntime \<Rightarrow> DiagnosticsRuntime" where
  "update_config_summary config dr = dr\<lparr>dr_config_summary := redacted config\<rparr>"

record RuntimeStateView =
  rv_current_view_name :: string
  rv_discovery_started :: bool

definition known_device :: "DiscoveredDevice \<Rightarrow> KnownDeviceSnapshot" where
  "known_device d =
     \<lparr>kd_id = device_str (dd_id d), kd_display_name = dd_display_name d, kd_status = dbg_device_status (dd_status d),
      kd_availability = dbg_availability (dd_availability d),
      kd_endpoint = map_option (\<lambda>e. show_addr (te_address e)) (dd_endpoint d)\<rparr>"

definition state_snapshot :: "AppState \<Rightarrow> RuntimeStateView \<Rightarrow> SubsystemSnapshot \<Rightarrow> SubsystemSnapshot" where
  "state_snapshot state view n =
     n\<lparr>sn_audio := (sn_audio n)
          \<lparr>sa_source_count := length (st_audio_sources state),
           sa_playback_target_count := length (st_playback_targets state),
           sa_active_source_id := st_selected_audio_source_id state,
           sa_local_playback_target_id := ac_local_playback_target_id (cfg_audio (st_config state)),
           sa_receiver_playback_target_id := rc_playback_target_id (cfg_receiver (st_config state))\<rparr>,
       sn_discovery := (sn_discovery n)
          \<lparr>sd_service_state := (if rv_discovery_started view then ''running'' else ''failed''),
           sd_discovered_device_count := length (st_discovered_devices state),
           sd_known_devices := map known_device (st_discovered_devices state)\<rparr>,
       sn_receiver := (sn_receiver n)
          \<lparr>sr_runtime_state := dbg_receiver_state (rsn_state (st_receiver state)),
           sr_last_runtime_error := rsn_last_error (st_receiver state)\<rparr>,
       sn_streaming := (sn_streaming n)
          \<lparr>sx_state := dbg_session_state (ss_state (st_streaming state)),
           sx_target_session_count := length (ss_targets (st_streaming state)),
           sx_active_target_count := active_target_count (st_streaming state),
           sx_local_mirror_state := dbg_mirror_state (lm_state (ss_local_mirror (st_streaming state))),
           sx_last_transport_error := ss_last_error (st_streaming state)\<rparr>,
       sn_ui := (sn_ui n)\<lparr>su_current_view_name := rv_current_view_name view\<rparr>\<rparr>"

definition update_snapshot_from_state ::
  "diag_env \<Rightarrow> AppState \<Rightarrow> RuntimeStateView \<Rightarrow> DiagnosticsRuntime \<times> host \<Rightarrow> DiagnosticsRuntime \<times> host" where
  "update_snapshot_from_state dx state view = stamped dx (state_snapshot state view)"

text \<open>\<open>rsplit_once(':')\<close> and the port after it.\<close>

definition port_of :: "string \<Rightarrow> u16 option" where
  "port_of addr =
     (if CHR '':'' \<notin> set addr then None else parse_u16 (rev (takeWhile (\<lambda>c. c \<noteq> CHR '':'') (rev addr))))"

definition update_receiver_listener_snapshot ::
  "diag_env \<Rightarrow> string \<Rightarrow> bool \<Rightarrow> string option
    \<Rightarrow> DiagnosticsRuntime \<times> host \<Rightarrow> DiagnosticsRuntime \<times> host" where
  "update_receiver_listener_snapshot dx bind_addr active last_error =
     stamped dx (\<lambda>n. n\<lparr>sn_receiver := (sn_receiver n)
       \<lparr>sr_listener_bind_addr := Some bind_addr, sr_listener_port := port_of bind_addr,
        sr_listener_active := active, sr_last_transport_error := last_error\<rparr>\<rparr>)"

definition update_discovery_local_snapshot ::
  "diag_env \<Rightarrow> string \<Rightarrow> string option \<Rightarrow> string \<Rightarrow> string option \<Rightarrow> u64 option \<Rightarrow> string option
    \<Rightarrow> DiagnosticsRuntime \<times> host \<Rightarrow> DiagnosticsRuntime \<times> host" where
  "update_discovery_local_snapshot dx service_state device_id advertisement_state advertised last_advertised last_error =
     stamped dx (\<lambda>n. n\<lparr>sn_discovery := (sn_discovery n)
       \<lparr>sd_service_state := service_state, sd_local_device_id := device_id,
        sd_advertisement_state := advertisement_state, sd_advertised_endpoint := advertised,
        sd_last_advertised_unix_ms := last_advertised, sd_last_advertisement_error := last_error\<rparr>\<rparr>)"

definition observe_poll :: "u64 \<Rightarrow> PollObservation \<Rightarrow> PollSnapshot \<Rightarrow> PollSnapshot" where
  "observe_poll now ob p =
     p\<lparr>po_interval_secs := ob_interval_secs ob,
       po_last_started_at_unix_ms := Some (sat_sub now (ob_duration_ms ob)),
       po_last_duration_ms := Some (ob_duration_ms ob), po_last_changes_applied := ob_changes_applied ob,
       po_last_error := ob_error ob,
       po_skips := (if ob_skipped ob then sat_add (po_skips p) 1 else po_skips p),
       po_runs := (if ob_skipped ob then po_runs p else sat_add (po_runs p) 1)\<rparr>"

fun upd_poll :: "PollKind \<Rightarrow> (PollSnapshot \<Rightarrow> PollSnapshot) \<Rightarrow> SubsystemSnapshot \<Rightarrow> SubsystemSnapshot" where
  "upd_poll PollDiscovery f n = n\<lparr>sn_discovery := (sn_discovery n)\<lparr>sd_poll := f (sd_poll (sn_discovery n))\<rparr>\<rparr>"
| "upd_poll PollReceiver f n = n\<lparr>sn_receiver := (sn_receiver n)\<lparr>sr_poll := f (sr_poll (sn_receiver n))\<rparr>\<rparr>"
| "upd_poll PollStreaming f n = n\<lparr>sn_streaming := (sn_streaming n)\<lparr>sx_poll := f (sx_poll (sn_streaming n))\<rparr>\<rparr>"
| "upd_poll PollAudioSources f n = n\<lparr>sn_audio := (sn_audio n)\<lparr>sa_source_poll := f (sa_source_poll (sn_audio n))\<rparr>\<rparr>"
| "upd_poll PollPlaybackTargets f n =
     n\<lparr>sn_audio := (sn_audio n)\<lparr>sa_playback_target_poll := f (sa_playback_target_poll (sn_audio n))\<rparr>\<rparr>"

definition note_poll :: "diag_env \<Rightarrow> PollKind \<Rightarrow> PollObservation \<Rightarrow> DiagnosticsRuntime \<times> host \<Rightarrow> DiagnosticsRuntime \<times> host" where
  "note_poll dx kind ob s =
     (let (now, h) = clock_now (snd s) in updated dx (upd_poll kind (observe_poll now ob)) (fst s, h))"

definition note_ui_refresh :: "diag_env \<Rightarrow> bool \<Rightarrow> DiagnosticsRuntime \<times> host \<Rightarrow> DiagnosticsRuntime \<times> host" where
  "note_ui_refresh dx applied =
     stamped dx (\<lambda>n. let u = sn_ui n in n\<lparr>sn_ui := u
       \<lparr>su_refresh_requests := sat_add (su_refresh_requests u) 1,
        su_refresh_applied := (if applied then sat_add (su_refresh_applied u) 1 else su_refresh_applied u),
        su_refresh_skipped := (if applied then su_refresh_skipped u else sat_add (su_refresh_skipped u) 1)\<rparr>\<rparr>)"

definition note_ui_list_render :: "diag_env \<Rightarrow> bool \<Rightarrow> nat \<Rightarrow> DiagnosticsRuntime \<times> host \<Rightarrow> DiagnosticsRuntime \<times> host" where
  "note_ui_list_render dx rebuilt row_count =
     stamped dx (\<lambda>n. let u = sn_ui n in n\<lparr>sn_ui := u
       \<lparr>su_last_rendered_row_count := row_count,
        su_list_rebuilds := (if rebuilt then sat_add (su_list_rebuilds u) 1 else su_list_rebuilds u),
        su_list_skips := (if rebuilt then su_list_skips u else sat_add (su_list_skips u) 1)\<rparr>\<rparr>)"

definition update_browser_join_snapshot ::
  "diag_env \<Rightarrow> bool \<Rightarrow> string option \<Rightarrow> u64 \<Rightarrow> string option \<Rightarrow> DiagnosticsRuntime \<times> host \<Rightarrow> DiagnosticsRuntime \<times> host" where
  "update_browser_join_snapshot dx active join_url requests_served last_error =
     stamped dx (\<lambda>n. n\<lparr>sn_ui := (sn_ui n)
       \<lparr>su_browser_join_active := active, su_browser_join_url := join_url,
        su_browser_join_requests_served := requests_served, su_browser_join_last_error := last_error\<rparr>\<rparr>)"

definition queue_diagnostic_event :: "DiagnosticEvent \<Rightarrow> DiagnosticsRuntime \<Rightarrow> DiagnosticsRuntime" where
  "queue_diagnostic_event event dr = dr\<lparr>dr_pending_events := dr_pending_events dr @ [event]\<rparr>"

definition drain_pending_events :: "DiagnosticsRuntime \<Rightarrow> DiagnosticEvent list \<times> DiagnosticsRuntime" where
  "drain_pending_events dr = (dr_pending_events dr, dr\<lparr>dr_pending_events := []\<rparr>)"

end
