(* ===== verification/Diagnostics_Reports.thy ===== *)
theory Diagnostics_Reports
  imports Diagnostics
begin

text \<open>
  The session marker, the crash reports, the report for the clipboard and the exported bundle of
  \<open>synchrosonic-app/src/diagnostics.rs\<close>. A bundle is the list of its members; packing them is a
  function of the caller, as are the listing of a directory and the backtrace.
\<close>

section \<open>Texts\<close>

definition LINE :: string where
  "LINE = [CHR 0x0A]"

definition or_text :: "string \<Rightarrow> string option \<Rightarrow> string" where
  "or_text d x = (case x of Some s \<Rightarrow> s | None \<Rightarrow> d)"

definition json_or_empty :: "io_error + string \<Rightarrow> string" where
  "json_or_empty r = (case r of Inr s \<Rightarrow> s | Inl _ \<Rightarrow> ''{}'')"

definition format_log :: "diag_env \<Rightarrow> StructuredLogEntry \<Rightarrow> string" where
  "format_log dx e =
     ''- '' @ show_word (le_timestamp_unix_ms e) @ '' '' @ le_level e @ '' '' @ le_target e @ '' '' @ le_message e @ '' ''
     @ (if le_fields e = [] then [] else json_or_empty (jc_fields (dx_codec dx) (le_fields e)))"

definition format_logs :: "diag_env \<Rightarrow> StructuredLogEntry list \<Rightarrow> string" where
  "format_logs dx logs =
     (if logs = [] then ''(no structured logs were available)'' else join_with LINE (map (format_log dx) logs))"

definition format_diagnostic_event :: "DiagnosticEvent \<Rightarrow> string" where
  "format_diagnostic_event e =
     show_word (de_timestamp_unix_ms e) @ '' '' @ de_component e @ '' '' @ de_message e"

text \<open>\<open>dx_uname\<close> is what a successful \<open>uname -sr\<close> printed.\<close>

definition system_kernel_label :: "diag_env \<Rightarrow> host \<Rightarrow> string \<times> host" where
  "system_kernel_label dx h =
     (let (ostype, h1) = fs_read_to_string ''/proc/sys/kernel/ostype'' h;
          (osrelease, h2) = fs_read_to_string ''/proc/sys/kernel/osrelease'' h1
      in (case (ostype, osrelease) of
            (Inr t, Inr r) \<Rightarrow> trim t @ '' '' @ trim r
          | _ \<Rightarrow> (case dx_uname dx of
                   Some out \<Rightarrow> if trim out = [] then ''unknown kernel'' else trim out
                 | None \<Rightarrow> ''unknown kernel''), h2))"

definition marker_summary :: "SessionMarker option \<Rightarrow> string" where
  "marker_summary marker =
     (case marker of
        Some m \<Rightarrow>
          ''Previous session'' @ LINE @ ''  PID: '' @ show_word (mk_pid m) @ LINE
          @ ''  Started: '' @ show_word (mk_started_at_unix_ms m) @ LINE @ ''  OS: '' @ mk_os m @ LINE
          @ ''  Kernel: '' @ mk_kernel m @ LINE @ ''  Config path: '' @ mk_config_path m @ LINE
          @ ''  State path: '' @ mk_state_path m @ LINE
      | None \<Rightarrow>
          ''Previous session'' @ LINE
          @ ''  Marker contents were unreadable, but the session did not close cleanly.'' @ LINE)"

definition report_head :: "diag_env \<Rightarrow> string \<Rightarrow> u64 \<Rightarrow> string" where
  "report_head dx title now =
     title @ LINE @ ''Generated: '' @ show_word now @ LINE
     @ ''App version: '' @ bi_version (dx_build dx) @ '' ('' @ release_channel_label (dx_build dx) @ '')'' @ LINE
     @ ''Developer / Maintainer: '' @ authors_display (dx_build dx) @ LINE
     @ ''Repository: '' @ bi_repository (dx_build dx) @ LINE @ ''Issues: '' @ APP_BUG_TRACKER @ LINE"

definition render_abnormal_termination_report ::
  "diag_env \<Rightarrow> u64 \<Rightarrow> SessionMarker option \<Rightarrow> RedactedConfigSummary \<Rightarrow> SubsystemSnapshot
    \<Rightarrow> StructuredLogEntry list \<Rightarrow> string" where
  "render_abnormal_termination_report dx now marker config_summary snapshot logs =
     report_head dx ''SynchroSonic abnormal termination recovered'' now
     @ ''Build target: '' @ dx_os dx @ '' / '' @ dx_arch dx @ LINE @ LINE
     @ marker_summary marker @ LINE
     @ ''Last known subsystem snapshot'' @ LINE @ json_or_empty (jc_snapshot_to (dx_codec dx) snapshot) @ LINE @ LINE
     @ ''Safe config summary'' @ LINE @ json_or_empty (jc_config_pretty (dx_codec dx) config_summary) @ LINE @ LINE
     @ ''Recent structured logs'' @ LINE @ format_logs dx logs"

definition render_panic_report ::
  "diag_env \<Rightarrow> u64 \<Rightarrow> string \<Rightarrow> string \<Rightarrow> string \<Rightarrow> string \<Rightarrow> SubsystemSnapshot \<Rightarrow> RedactedConfigSummary
    \<Rightarrow> StructuredLogEntry list \<Rightarrow> string" where
  "render_panic_report dx now backtrace message location thread_name snapshot config_summary logs =
     report_head dx ''SynchroSonic panic report'' now
     @ ''Thread: '' @ thread_name @ LINE @ ''Location: '' @ location @ LINE @ ''Message: '' @ message @ LINE
     @ ''Backtrace:'' @ LINE @ backtrace @ LINE @ LINE
     @ ''Recent subsystem snapshot'' @ LINE @ json_or_empty (jc_snapshot_to (dx_codec dx) snapshot) @ LINE @ LINE
     @ ''Safe config summary'' @ LINE @ json_or_empty (jc_config_pretty (dx_codec dx) config_summary) @ LINE @ LINE
     @ ''Recent structured logs'' @ LINE @ format_logs dx logs"

section \<open>The session marker\<close>

definition load_snapshot :: "diag_env \<Rightarrow> string \<Rightarrow> host \<Rightarrow> SubsystemSnapshot option \<times> host" where
  "load_snapshot dx path h =
     (case fs_read path h of
        (Inl _, h1) \<Rightarrow> (None, h1)
      | (Inr bytes, h1) \<Rightarrow> (jc_snapshot_from (dx_codec dx) bytes, h1))"

definition or_default :: "SubsystemSnapshot option \<Rightarrow> SubsystemSnapshot" where
  "or_default s = (case s of Some n \<Rightarrow> n | None \<Rightarrow> default_snapshot)"

record CrashReportHandle =
  cr_path :: string
  cr_summary :: string

definition crash_report_path :: "AppPaths \<Rightarrow> u64 \<Rightarrow> string \<Rightarrow> string" where
  "crash_report_path paths now kind =
     path_join (ap_crash_reports_dir paths) (''crash-report-'' @ show_word (now div 1000) @ ''-'' @ kind @ ''.txt'')"

definition recover_previous_session ::
  "diag_env \<Rightarrow> AppPaths \<Rightarrow> RedactedConfigSummary \<Rightarrow> host \<Rightarrow> (io_error + CrashReportHandle option) \<times> host" where
  "recover_previous_session dx paths config_summary h =
     (if \<not> fs_exists (ap_session_marker_path paths) h then (Inr None, h)
      else
        io_bind (fs_read (ap_session_marker_path paths) h) (\<lambda>bytes h1.
        let marker = jc_marker_from (dx_codec dx) bytes;
            (snapshot, h2) = load_snapshot dx (ap_subsystem_snapshot_path paths) h1
        in io_bind (read_log_tail (dx_log_codec dx) (ap_log_path paths) RECOVERY_LOG_LIMIT h2) (\<lambda>logs h3.
        let (now, h4) = clock_now h3;
            report = render_abnormal_termination_report dx now marker config_summary (or_default snapshot) logs;
            (now2, h5) = clock_now h4;
            path = crash_report_path paths now2 ''recovered''
        in io_bind (write_bytes_atomic path report h5) (\<lambda>_ h6.
        io_bind (fs_remove_file (ap_session_marker_path paths) h6) (\<lambda>_ h7.
        (Inr (Some \<lparr>cr_path = path, cr_summary = (case marker of
            Some m \<Rightarrow> ''Recovered stale session marker from PID '' @ show_word (mk_pid m) @ '' started at ''
              @ show_word (mk_started_at_unix_ms m) @ ''.''
          | None \<Rightarrow> ''Recovered a stale session marker, but its contents were unreadable.'')\<rparr>), h7))))))"

definition start_session :: "diag_env \<Rightarrow> DiagnosticsRuntime \<Rightarrow> host \<Rightarrow> (io_error + unit) \<times> host" where
  "start_session dx dr h =
     (let (now, h1) = clock_now h; (kernel_label, h2) = system_kernel_label dx h1
      in write_json_atomic (ap_session_marker_path (dr_paths dr))
           (jc_marker_to (dx_codec dx)
             \<lparr>mk_app_version = bi_version (dx_build dx), mk_release_channel = release_channel_label (dx_build dx),
              mk_pid = dx_pid dx, mk_started_at_unix_ms = now, mk_os = dx_os dx, mk_kernel = kernel_label,
              mk_config_path = ap_config_path (dr_paths dr), mk_state_path = ap_state_dir (dr_paths dr)\<rparr>) h2)"

definition bootstrap ::
  "diag_env \<Rightarrow> AppPaths \<Rightarrow> AppConfig \<Rightarrow> host
    \<Rightarrow> (io_error + DiagnosticsRuntime \<times> DiagnosticEvent list) \<times> host" where
  "bootstrap dx paths config h =
     io_bind (ensure_state_layout paths h) (\<lambda>_ h1.
     let (loaded, h2) = load_snapshot dx (ap_subsystem_snapshot_path paths) h1
     in io_bind (recover_previous_session dx paths (redacted config) h2) (\<lambda>recovered h3.
     let (snapshot, (events, h4)) = (case recovered of
           None \<Rightarrow> (or_default loaded, ([], h3))
         | Some report \<Rightarrow>
             (let (now, h') = clock_now h3
              in ((or_default loaded)\<lparr>sn_last_crash_recovery_unix_ms := Some now\<rparr>,
                  tell Warning ''diagnostics''
                    (''Recovered an abnormal termination report at '' @ cr_path report @ ''.'') ([], h'))));
         dr = \<lparr>dr_paths = paths, dr_config_summary = redacted config, dr_pending_events = [],
               dr_current = snapshot, dr_last_persisted = None, dr_last_persisted_at_unix_ms = 0\<rparr>
     in case persist_snapshot dx True dr h4 of
          (Inl e, _, h5) \<Rightarrow> (Inl e, h5)
        | (Inr _, dr1, h5) \<Rightarrow> io_bind (start_session dx dr1 h5) (\<lambda>_ h6. (Inr (dr1, events), h6))))"

definition mark_clean_shutdown ::
  "diag_env \<Rightarrow> DiagnosticsRuntime \<Rightarrow> host \<Rightarrow> (io_error + unit) \<times> DiagnosticsRuntime \<times> host" where
  "mark_clean_shutdown dx dr h =
     (case persist_snapshot dx True dr h of
        (Inl e, dr1, h1) \<Rightarrow> (Inl e, dr1, h1)
      | (Inr _, dr1, h1) \<Rightarrow>
          (case fs_remove_file (ap_session_marker_path (dr_paths dr)) h1 of
             (Inr _, h2) \<Rightarrow> (Inr (), dr1, h2)
           | (Inl e, h2) \<Rightarrow> (if err_kind e = NotFound then Inr () else Inl e, dr1, h2)))"

section \<open>Panics\<close>

datatype panic_payload = StrPayload string | StringPayload string | OtherPayload

fun panic_payload_message :: "panic_payload \<Rightarrow> string" where
  "panic_payload_message (StrPayload s) = s"
| "panic_payload_message (StringPayload s) = s"
| "panic_payload_message OtherPayload = ''unknown panic payload''"

definition write_panic_report ::
  "diag_env \<Rightarrow> panic_payload \<Rightarrow> (string \<times> u32) option \<Rightarrow> string option \<Rightarrow> string \<Rightarrow> LogStore
    \<Rightarrow> DiagnosticsRuntime \<Rightarrow> host \<Rightarrow> (io_error + string) \<times> DiagnosticsRuntime \<times> host" where
  "write_panic_report dx payload location thread backtrace store dr h =
     (let thread_name = or_text ''unnamed'' thread;
          (now, h1) = clock_now h;
          body = render_panic_report dx now backtrace (panic_payload_message payload)
            (case location of Some (file, line) \<Rightarrow> file @ '':'' @ show_word line | None \<Rightarrow> ''unknown'')
            thread_name (dr_current dr) (dr_config_summary dr)
            (snapshot_recent_chronological RECOVERY_LOG_LIMIT store);
          (now2, h2) = clock_now h1;
          path = crash_report_path (dr_paths dr) now2 ''panic''
      in case write_bytes_atomic path body h2 of
           (Inl e, h3) \<Rightarrow> (Inl e, dr, h3)
         | (Inr _, h3) \<Rightarrow>
             (let (now3, h4) = clock_now h3
              in (Inr path, queue_diagnostic_event (diagnostic DiagnosticLevel.Error now3 ''panic''
                    (''A panic was captured on thread '' @ thread_name @ ''; crash report written to '' @ path @ ''.'')) dr, h4)))"

section \<open>The report for the clipboard\<close>

definition describe_known :: "KnownDeviceSnapshot \<Rightarrow> string" where
  "describe_known d = kd_display_name d @ '' ['' @ kd_status d @ '' / '' @ kd_availability d @ ''] ''
     @ or_text ''unresolved'' (kd_endpoint d)"

definition recent_warnings :: "DiagnosticEvent list \<Rightarrow> string list" where
  "recent_warnings ds =
     map format_diagnostic_event (take MAX_RECENT_WARNINGS_ERRORS (filter (\<lambda>e. de_level e \<noteq> Info) (rev ds)))"

definition build_compact_diagnostics_report ::
  "diag_env \<Rightarrow> AppState \<Rightarrow> AppPaths \<Rightarrow> DiagnosticsRuntime \<Rightarrow> host \<Rightarrow> string \<times> host" where
  "build_compact_diagnostics_report dx state paths dr h =
     (let n = dr_current dr; b = dx_build dx; u = sn_ui n; (kernel_label, h1) = system_kernel_label dx h
      in (''App: '' @ APP_NAME @ '' '' @ bi_version b @ '' ('' @ release_channel_label b @ '')'' @ LINE
          @ ''Developer / Maintainer: '' @ authors_display b @ LINE
          @ ''Repository: '' @ bi_repository b @ LINE
          @ ''Issues: '' @ APP_BUG_TRACKER @ LINE
          @ ''Releases: '' @ APP_RELEASES @ LINE
          @ ''OS: '' @ dx_os dx @ '' / '' @ kernel_label @ LINE
          @ ''Config path: '' @ ap_config_path paths @ LINE
          @ ''Log path: '' @ ap_log_path paths @ LINE
          @ ''Crash reports path: '' @ ap_crash_reports_dir paths @ LINE
          @ ''Discovery status: '' @ sd_service_state (sn_discovery n) @ '' (''
          @ show_nat (sd_discovered_device_count (sn_discovery n)) @ '' device(s))'' @ LINE
          @ ''Discovery advertisement: '' @ sd_advertisement_state (sn_discovery n) @ '' on ''
          @ or_text ''not advertised'' (sd_advertised_endpoint (sn_discovery n)) @ LINE
          @ ''UI refreshes: requested='' @ show_word (su_refresh_requests u) @ '' applied='' @ show_word (su_refresh_applied u)
          @ '' skipped='' @ show_word (su_refresh_skipped u) @ '' list_rebuilds='' @ show_word (su_list_rebuilds u)
          @ '' list_skips='' @ show_word (su_list_skips u) @ LINE
          @ ''Browser join prototype: active='' @ show_bool (su_browser_join_active u)
          @ '' url='' @ or_text ''not generated'' (su_browser_join_url u)
          @ '' served='' @ show_word (su_browser_join_requests_served u)
          @ '' error='' @ or_text ''none'' (su_browser_join_last_error u) @ LINE
          @ ''Receiver status: '' @ sr_runtime_state (sn_receiver n) @ '' on ''
          @ or_text ''not listening'' (sr_listener_bind_addr (sn_receiver n)) @ LINE
          @ ''Sender status: '' @ sx_state (sn_streaming n) @ '' with ''
          @ show_nat (sx_active_target_count (sn_streaming n)) @ '' active target(s)'' @ LINE
          @ ''Active capture source: '' @ or_text ''none'' (sa_active_source_id (sn_audio n)) @ LINE
          @ ''Active local playback target: ''
          @ or_text ''system default'' (sa_local_playback_target_id (sn_audio n)) @ LINE
          @ ''Active receiver playback target: ''
          @ or_text ''system default'' (sa_receiver_playback_target_id (sn_audio n)) @ LINE
          @ ''Known discovered devices: ''
          @ (if sd_known_devices (sn_discovery n) = [] then ''none''
             else join_with ''; '' (map describe_known (sd_known_devices (sn_discovery n)))) @ LINE
          @ ''Recent warnings/errors: ''
          @ (if recent_warnings (st_diagnostics state) = [] then ''none''
             else join_with '' | '' (recent_warnings (st_diagnostics state))) @ LINE
          @ ''Safe config summary: '' @ json_or_empty (jc_config_compact (dx_codec dx) (dr_config_summary dr)), h1))"

section \<open>The exported bundle\<close>

text \<open>
  What the operating system lists in a directory: the time of the last change, when it is known,
  and the path of each entry. The last one in the order of both is the latest.
\<close>

type_synonym dir_lister = "string \<Rightarrow> host \<Rightarrow> (u64 option \<times> string) list option"

definition dir_key :: "u64 option \<times> string \<Rightarrow> u64 \<times> string" where
  "dir_key e = ((case fst e of Some t \<Rightarrow> t | None \<Rightarrow> 0), snd e)"

definition latest_file_in_dir :: "dir_lister \<Rightarrow> string \<Rightarrow> host \<Rightarrow> string option" where
  "latest_file_in_dir ls path h =
     (case ls path h of
        None \<Rightarrow> None
      | Some entries \<Rightarrow>
          (let sorted = sort (map dir_key entries)
           in if sorted = [] then None else Some (snd (last sorted))))"

definition read_text_file :: "string \<Rightarrow> host \<Rightarrow> string option \<times> host" where
  "read_text_file path h =
     (case fs_read_to_string path h of (Inr s, h1) \<Rightarrow> (Some s, h1) | (Inl _, h1) \<Rightarrow> (None, h1))"

definition latest_crash_report_text :: "dir_lister \<Rightarrow> DiagnosticsRuntime \<Rightarrow> host \<Rightarrow> string option \<times> host" where
  "latest_crash_report_text ls dr h =
     (case latest_file_in_dir ls (ap_crash_reports_dir (dr_paths dr)) h of
        None \<Rightarrow> (None, h)
      | Some path \<Rightarrow> read_text_file path h)"

definition environment_summary :: "diag_env \<Rightarrow> AppPaths \<Rightarrow> string \<Rightarrow> json" where
  "environment_summary dx paths kernel_label =
     JObject
       [(''app_name'', JString APP_NAME), (''app_version'', JString (bi_version (dx_build dx))),
        (''release_channel'', JString (release_channel_label (dx_build dx))),
        (''developer'', JString (authors_display (dx_build dx))),
        (''repository_url'', JString (bi_repository (dx_build dx))), (''issues_url'', JString APP_BUG_TRACKER),
        (''releases_url'', JString APP_RELEASES), (''os'', JString (dx_os dx)), (''arch'', JString (dx_arch dx)),
        (''kernel'', JString kernel_label), (''config_path'', JString (ap_config_path paths)),
        (''state_path'', JString (ap_state_dir paths)), (''log_path'', JString (ap_log_path paths)),
        (''crash_reports_dir'', JString (ap_crash_reports_dir paths)),
        (''diagnostics_dir'', JString (ap_diagnostics_dir paths))]"

text \<open>Members are added one after another; the first that cannot be encoded ends the export.\<close>

fun bundle_members :: "(string \<times> (io_error + string)) list \<Rightarrow> io_error + (string \<times> string) list" where
  "bundle_members [] = Inr []"
| "bundle_members ((name, Inl e) # ms) = Inl e"
| "bundle_members ((name, Inr bytes) # ms) =
     (case bundle_members ms of Inl e \<Rightarrow> Inl e | Inr rest \<Rightarrow> Inr ((name, bytes) # rest))"

definition export_diagnostic_bundle ::
  "diag_env \<Rightarrow> dir_lister \<Rightarrow> ((string \<times> string) list \<Rightarrow> string) \<Rightarrow> AppState \<Rightarrow> DiagnosticsRuntime \<Rightarrow> host
    \<Rightarrow> (io_error + string \<times> (string \<times> string) list) \<times> DiagnosticsRuntime \<times> host" where
  "export_diagnostic_bundle dx ls tar_gz state dr h =
     (case persist_snapshot dx True dr h of
        (Inl e, dr1, h1) \<Rightarrow> (Inl e, dr1, h1)
      | (Inr _, dr1, h1) \<Rightarrow>
          (let (now, h2) = clock_now h1; paths = dr_paths dr1;
               bundle_path = path_join (ap_diagnostic_bundles_dir paths)
                 (''diagnostic-bundle-'' @ show_word (now div 1000) @ ''.tar.gz'');
               (r, h9) =
                 io_bind (fs_write bundle_path [] h2) (\<lambda>_ h3.
                 io_bind (read_log_tail (dx_log_codec dx) (ap_log_path paths) RECOVERY_LOG_LIMIT h3) (\<lambda>logs h4.
                 let (crash, h5) = latest_crash_report_text ls dr1 h4;
                     (kernel_label, h6) = system_kernel_label dx h5;
                     (compact, h7) = build_compact_diagnostics_report dx state paths dr1 h6;
                     codec = dx_codec dx
                 in case bundle_members
                      ([(''environment-summary.json'', jc_pretty codec (environment_summary dx paths kernel_label)),
                        (''config-summary.json'', jc_config_pretty codec (dr_config_summary dr1)),
                        (''diagnostics-events.json'', jc_events codec (st_diagnostics state)),
                        (''subsystem-snapshot.json'', jc_snapshot_to codec (dr_current dr1)),
                        (''structured-logs.json'', jc_logs codec logs),
                        (''diagnostics.txt'', Inr compact)]
                       @ (case crash of Some t \<Rightarrow> [(''latest-crash-report.txt'', Inr t)] | None \<Rightarrow> [])) of
                      Inl e \<Rightarrow> (Inl e, h7)
                    | Inr members \<Rightarrow>
                        io_bind (fs_write bundle_path (tar_gz members) h7) (\<lambda>_ h8. (Inr (bundle_path, members), h8))))
           in (r, dr1, h9)))"

end
