(* ===== verification/Diagnostics_Properties.thy ===== *)
theory Diagnostics_Properties
  imports Diagnostics_Reports Persistence_Properties Logging_Properties Steps
begin

text \<open>
  What the diagnostics promise: files that are written whole, a snapshot file that is current, a
  marker that tells an unclean end, and a summary without the identifiers of the configuration.
\<close>

section \<open>Atomic writes\<close>

lemma io_bind_cases:
  assumes "io_bind x f = (r, h')"
  obtains (failed) e where "x = (Inl e, h')" "r = Inl e"
  | (passed) y h1 where "x = (Inr y, h1)" "f y h1 = (r, h')"
  using assms by (cases x; cases "fst x") (auto simp: io_bind_def)

lemma parent_dir_files:
  "(case d of Some p \<Rightarrow> fs_create_dir_all p h | None \<Rightarrow> (Inr (), h)) = (r, h1) \<Longrightarrow> hw_files h1 = hw_files h"
  by (auto split: option.splits intro: fs_frame(3))

lemma sync_files: "fs_sync h = (r, h1) \<Longrightarrow> hw_files h1 = hw_files h"
  by (auto simp: fs_sync_def next_fault_def split: list.splits option.splits)

lemma write_result:
  "fs_write p s h = (Inr u, h1) \<Longrightarrow> hw_files h1 = (hw_files h)(p \<mapsto> s)"
  by (auto simp: fs_defs split: list.splits option.splits)

lemma rename_result:
  "fs_rename p q h = (Inr u, h1) \<Longrightarrow> hw_files h p = Some s \<Longrightarrow> hw_files h1 = ((hw_files h)(p := None))(q \<mapsto> s)"
  "fs_rename p q h = (Inl e, h1) \<Longrightarrow> hw_files h1 = hw_files h"
  by (auto simp: fs_defs split: list.splits option.splits)

text \<open>
  C19: An atomic write leaves its file either as it was or with the whole new content, whichever of its steps fails; when it reports
  success the content is the new one.
\<close>

theorem atomic_write_is_all_or_nothing:
  assumes "write_bytes_atomic path contents h = (r, h1)" "tmp_path path \<noteq> path"
  shows "hw_files h1 path = (case r of Inr _ \<Rightarrow> Some contents | Inl _ \<Rightarrow> hw_files h path)
    \<and> (\<forall>q. q \<noteq> path \<longrightarrow> q \<noteq> tmp_path path \<longrightarrow> hw_files h1 q = hw_files h q)"
  using assms(1)[unfolded write_bytes_atomic_def]
proof (cases rule: io_bind_cases)
  case (failed e)
  then show ?thesis using parent_dir_files by fastforce
next
  case (passed u h2)
  note made = parent_dir_files [OF passed(1)]
  from passed(2) show ?thesis
  proof (cases rule: io_bind_cases)
    case (failed e)
    then show ?thesis using fs_frame(4) [OF failed(1)] assms(2) by (simp add: made)
  next
    case (passed u h3)
    note written = write_result [OF passed(1)]
    from passed(2) show ?thesis
    proof (cases rule: io_bind_cases)
      case (failed e)
      then show ?thesis using sync_files [OF failed(1)] assms(2) by (simp add: made written)
    next
      case (passed u h4)
      have files: "hw_files h4 = (hw_files h)(tmp_path path \<mapsto> contents)"
        using sync_files [OF passed(1)] by (simp add: made written)
      show ?thesis
      proof (cases r)
        case (Inl e)
        then show ?thesis using rename_result(2) passed(2) files assms(2) by simp
      next
        case (Inr u)
        then show ?thesis using rename_result(1) passed(2) files by fastforce
      qed
    qed
  qed
qed

lemma atomic_healthy:
  assumes "healthy h"
  shows "write_bytes_atomic path contents h =
    (Inr (), h\<lparr>hw_files := ((hw_files h)(tmp_path path := None))(path \<mapsto> contents)\<rparr>)"
  using assms
  by (simp add: write_bytes_atomic_def healthy_ops io_bind_def fs_sync_def split: option.split)

definition demo_snapshot_path :: string where
  "demo_snapshot_path = ''/s/snapshot.json''"

lemma demo_tmp: "tmp_path demo_snapshot_path = ''/s/snapshot.json.tmp''"
  by (simp add: demo_snapshot_path_def tmp_path_def with_extension_def path_extension_def file_name_def
      file_stem_def with_file_name_def path_parent_def path_join_def starts_with_def Let_def)

theorem atomic_write_is_all_or_nothing_witness:
  "\<exists>r h1. write_bytes_atomic demo_snapshot_path ''new''
       \<lparr>hw_files = [demo_snapshot_path \<mapsto> ''old''],
        hw_faults = [None, Some \<lparr>ft_error = invalid_utf8, ft_written = Some 1\<rparr>], hw_clock = []\<rparr> = (r, h1)
     \<and> r \<noteq> Inr () \<and> hw_files h1 demo_snapshot_path = Some ''old''"
proof -
  let ?h = "\<lparr>hw_files = [demo_snapshot_path \<mapsto> ''old''],
        hw_faults = [None, Some \<lparr>ft_error = invalid_utf8, ft_written = Some 1\<rparr>], hw_clock = []\<rparr>"
  have "path_parent demo_snapshot_path = Some ''/s''"
    by (simp add: demo_snapshot_path_def path_parent_def)
  then obtain h1 where w: "write_bytes_atomic demo_snapshot_path ''new'' ?h = (Inl invalid_utf8, h1)"
    by (simp add: write_bytes_atomic_def fs_defs)
  have "tmp_path demo_snapshot_path \<noteq> demo_snapshot_path" by (simp add: demo_tmp) (simp add: demo_snapshot_path_def)
  from atomic_write_is_all_or_nothing [OF w this] w show ?thesis by simp
qed

section \<open>The configuration summary\<close>

text \<open>What the summary hides: which devices are chosen, and the advertised name.\<close>

definition hidden :: "AppConfig \<Rightarrow> AppConfig" where
  "hidden c = c\<lparr>cfg_audio := (cfg_audio c)
         \<lparr>ac_preferred_source_id := map_option (\<lambda>_. []) (ac_preferred_source_id (cfg_audio c)),
          ac_local_playback_target_id := map_option (\<lambda>_. []) (ac_local_playback_target_id (cfg_audio c))\<rparr>,
       cfg_receiver := (cfg_receiver c)
         \<lparr>rc_advertised_name := (if trim (rc_advertised_name (cfg_receiver c)) = [] then [] else ''name''),
          rc_playback_target_id := map_option (\<lambda>_. []) (rc_playback_target_id (cfg_receiver c))\<rparr>\<rparr>"

lemma dbg_inj:
  "dbg_sample_format a = dbg_sample_format b \<longleftrightarrow> a = b"
  "dbg_quality q = dbg_quality p \<longleftrightarrow> q = p"
  "dbg_latency_preset x = dbg_latency_preset y \<longleftrightarrow> x = y"
    apply (cases a; cases b; simp)
   apply (cases q; cases p; simp)
  apply (cases x; cases y; simp)
  done

lemma same_choice: "map_option (\<lambda>_. []) a = map_option (\<lambda>_. []) b \<longleftrightarrow> (a \<noteq> None \<longleftrightarrow> b \<noteq> None)"
  by (cases a; cases b) simp_all

text \<open>
  C38: Two configurations have the same summary exactly when they agree on everything but the identifiers the summary is meant to hide; the summary tells of those only
  whether they are set.
\<close>

theorem summary_hides_identifiers:
  "redacted c = redacted d \<longleftrightarrow> hidden c = hidden d"
proof -
  obtain ca cd ct cr cu cg cv where c: "c = \<lparr>cfg_schema_version = cv, cfg_audio = ca, cfg_discovery = cd,
      cfg_transport = ct, cfg_receiver = cr, cfg_ui = cu, cfg_diagnostics = cg\<rparr>" by (cases c)
  obtain da dd dt dr du dg dv where d: "d = \<lparr>cfg_schema_version = dv, cfg_audio = da, cfg_discovery = dd,
      cfg_transport = dt, cfg_receiver = dr, cfg_ui = du, cfg_diagnostics = dg\<rparr>" by (cases d)
  have audio: "rs_audio (redacted c) = rs_audio (redacted d) \<longleftrightarrow> cfg_audio (hidden c) = cfg_audio (hidden d)"
    by (cases ca; cases da) (auto simp: redacted_def hidden_def Let_def c d dbg_inj same_choice)
  have discovery: "rs_discovery (redacted c) = rs_discovery (redacted d) \<longleftrightarrow> cfg_discovery (hidden c) = cfg_discovery (hidden d)"
    by (cases cd; cases dd) (auto simp: redacted_def hidden_def Let_def c d)
  have transport: "rs_transport (redacted c) = rs_transport (redacted d) \<longleftrightarrow> cfg_transport (hidden c) = cfg_transport (hidden d)"
    by (cases ct; cases dt) (auto simp: redacted_def hidden_def Let_def c d dbg_inj)
  have receiver: "rs_receiver (redacted c) = rs_receiver (redacted d) \<longleftrightarrow> cfg_receiver (hidden c) = cfg_receiver (hidden d)"
    by (cases cr; cases dr) (auto simp: redacted_def hidden_def Let_def c d dbg_inj same_choice)
  have rest: "rs_ui (redacted c) = rs_ui (redacted d) \<longleftrightarrow> cu = du"
      "rs_diagnostics (redacted c) = rs_diagnostics (redacted d) \<longleftrightarrow> cg = dg"
      "cfg_schema_version (hidden c) = cv" "cfg_schema_version (hidden d) = dv"
      "cfg_ui (hidden c) = cu" "cfg_ui (hidden d) = du" "cfg_diagnostics (hidden c) = cg" "cfg_diagnostics (hidden d) = dg"
      "rs_schema_version (redacted c) = cv" "rs_schema_version (redacted d) = dv"
    by (cases cu; cases du; cases cg; cases dg; auto simp: redacted_def hidden_def Let_def c d)+
  have "redacted c = redacted d \<longleftrightarrow> cv = dv \<and> rs_audio (redacted c) = rs_audio (redacted d)
      \<and> rs_discovery (redacted c) = rs_discovery (redacted d) \<and> rs_transport (redacted c) = rs_transport (redacted d)
      \<and> rs_receiver (redacted c) = rs_receiver (redacted d) \<and> cu = du \<and> cg = dg"
    by (cases "redacted c"; cases "redacted d") (use rest in auto)
  moreover have "hidden c = hidden d \<longleftrightarrow> cv = dv \<and> cfg_audio (hidden c) = cfg_audio (hidden d)
      \<and> cfg_discovery (hidden c) = cfg_discovery (hidden d) \<and> cfg_transport (hidden c) = cfg_transport (hidden d)
      \<and> cfg_receiver (hidden c) = cfg_receiver (hidden d) \<and> cu = du \<and> cg = dg"
    by (cases "hidden c"; cases "hidden d") (use rest in auto)
  ultimately show ?thesis by (simp only: audio discovery transport receiver)
qed

section \<open>The session marker\<close>

text \<open>The snapshot file holds the current snapshot.\<close>

definition current_on_disk :: "diag_env \<Rightarrow> DiagnosticsRuntime \<times> host \<Rightarrow> bool" where
  "current_on_disk dx s \<longleftrightarrow> healthy (snd s) \<and> dr_last_persisted (fst s) = Some (dr_current (fst s))
     \<and> (\<exists>bytes. jc_snapshot_to (dx_codec dx) (dr_current (fst s)) = Inr bytes
          \<and> hw_files (snd s) (ap_subsystem_snapshot_path (dr_paths (fst s))) = Some bytes)"

text \<open>The JSON writer writes every snapshot and every marker.\<close>

definition writes_all :: "diag_env \<Rightarrow> bool" where
  "writes_all dx \<longleftrightarrow> (\<forall>n. \<exists>s. jc_snapshot_to (dx_codec dx) n = Inr s) \<and> (\<forall>m. \<exists>s. jc_marker_to (dx_codec dx) m = Inr s)"

definition log_readable :: "diag_env \<Rightarrow> AppPaths \<Rightarrow> host \<Rightarrow> bool" where
  "log_readable dx paths h \<longleftrightarrow>
     (\<exists>t. tail_of (dx_log_codec dx) RECOVERY_LOG_LIMIT [] (lines_of (content (ap_log_path paths) h)) = Inr t)"

lemma layout_healthy: "healthy h \<Longrightarrow> ensure_state_layout paths h = (Inr (), h)"
  by (simp add: ensure_state_layout_def io_bind_def healthy_ops)

lemma load_snapshot_healthy:
  "healthy h \<Longrightarrow> load_snapshot dx path h = (Option.bind (hw_files h path) (jc_snapshot_from (dx_codec dx)), h)"
  by (simp add: load_snapshot_def healthy_ops split: option.split)

lemma persist_healthy:
  assumes "healthy h" "writes_all dx"
  shows "\<exists>dr1 h1. persist_snapshot dx True dr h = (Inr (), dr1, h1) \<and> healthy h1 \<and> dr_paths dr1 = dr_paths dr
    \<and> current_on_disk dx (dr1, h1)"
proof -
  obtain s where "jc_snapshot_to (dx_codec dx) (dr_current dr) = Inr s" using assms(2) by (auto simp: writes_all_def)
  then show ?thesis
    using assms(1) by (simp add: persist_snapshot_def split_def Let_def write_json_atomic_def atomic_healthy
        current_on_disk_def)
qed

lemma kernel_healthy: "healthy h \<Longrightarrow> snd (system_kernel_label dx h) = h"
  by (simp add: system_kernel_label_def split_def Let_def fs_read_to_string_def healthy_ops split: option.split)

lemma start_session_healthy:
  assumes "healthy h" "writes_all dx"
  shows "\<exists>h1. start_session dx dr h = (Inr (), h1) \<and> healthy h1 \<and> fs_exists (ap_session_marker_path (dr_paths dr)) h1
    \<and> (\<forall>q. q \<noteq> ap_session_marker_path (dr_paths dr) \<longrightarrow> q \<noteq> tmp_path (ap_session_marker_path (dr_paths dr))
         \<longrightarrow> hw_files h1 q = hw_files h q)"
proof -
  obtain now h0 where now: "clock_now h = (now, h0)" by fastforce
  then have h0: "healthy h0" "hw_files h0 = hw_files h"
    using clock_now_files(1,3) [of h] assms(1) by simp_all
  obtain k where k: "system_kernel_label dx h0 = (k, h0)" using kernel_healthy [OF h0(1)] by (metis prod.collapse)
  show ?thesis
    using assms(2)[unfolded writes_all_def, THEN conjunct2, rule_format, of "\<lparr>mk_app_version = bi_version (dx_build dx),
        mk_release_channel = release_channel_label (dx_build dx), mk_pid = dx_pid dx, mk_started_at_unix_ms = now,
        mk_os = dx_os dx, mk_kernel = k, mk_config_path = ap_config_path (dr_paths dr),
        mk_state_path = ap_state_dir (dr_paths dr)\<rparr>"] h0
    unfolding start_session_def now k Let_def prod.case
    by (auto simp: write_json_atomic_def atomic_healthy fs_exists_def)
qed

text \<open>A temporary file ends in \<open>.tmp\<close>, so it is never the marker.\<close>

lemma path_join_ends: "\<exists>xs. path_join a b = xs @ b"
proof -
  have "a @ CHR ''/'' # b = (a @ ''/'') @ b" by simp
  then show ?thesis unfolding path_join_def by (metis append_Nil)
qed

lemma with_file_name_ends: "\<exists>xs. with_file_name p n = xs @ n"
  unfolding with_file_name_def using path_join_ends by (cases "path_parent p") auto

lemma tmp_path_ends: "\<exists>xs. tmp_path p = xs @ ''.tmp''"
proof -
  obtain xs where "tmp_path p = xs @ file_stem p @ CHR ''.'' #
      (case path_extension p of Some e \<Rightarrow> e | None \<Rightarrow> ''write'') @ ''.tmp''"
    using with_file_name_ends [of p] unfolding tmp_path_def with_extension_def by force
  then show ?thesis by (metis append_Cons append_assoc)
qed

lemma tmp_not_json: "tmp_path p \<noteq> path_join d (name @ ''.json'')"
proof
  obtain xs ys where "tmp_path p = xs @ ''.tmp''" "path_join d (name @ ''.json'') = ys @ name @ ''.json''"
    using tmp_path_ends [of p] path_join_ends [of d "name @ ''.json''"] by auto
  moreover assume "tmp_path p = path_join d (name @ ''.json'')"
  ultimately have "last (xs @ ''.tmp'') = last ((ys @ name) @ ''.json'')" by simp
  then show False by simp
qed

lemma resolved_paths:
  "tmp_path p \<noteq> ap_session_marker_path (paths_resolve env)"
  "tmp_path p \<noteq> ap_subsystem_snapshot_path (paths_resolve env)"
  "ap_subsystem_snapshot_path (paths_resolve env) \<noteq> ap_session_marker_path (paths_resolve env)"
proof -
  show "tmp_path p \<noteq> ap_session_marker_path (paths_resolve env)"
    using tmp_not_json [of p _ "''session-marker''"] by (simp add: paths_resolve_def Let_def)
  show "tmp_path p \<noteq> ap_subsystem_snapshot_path (paths_resolve env)"
    using tmp_not_json [of p _ "''subsystem-snapshot''"] by (simp add: paths_resolve_def Let_def)
  show "ap_subsystem_snapshot_path (paths_resolve env) \<noteq> ap_session_marker_path (paths_resolve env)"
    by (simp add: paths_resolve_def Let_def) (simp add: path_join_def starts_with_def)
qed

lemma recover_healthy:
  assumes "healthy h" "log_readable dx paths h" "paths = paths_resolve env"
  shows "\<exists>r h1. recover_previous_session dx paths summary h = (Inr r, h1) \<and> healthy h1
    \<and> (r = None \<longleftrightarrow> \<not> fs_exists (ap_session_marker_path paths) h)"
proof (cases "hw_files h (ap_session_marker_path paths)")
  case (Some bytes)
  obtain t where t: "tail_of (dx_log_codec dx) RECOVERY_LOG_LIMIT [] (lines_of (content (ap_log_path paths) h)) = Inr t"
    using assms(2) by (auto simp: log_readable_def)
  obtain now h4 where n4: "clock_now h = (now, h4)" by fastforce
  obtain now2 h5 where n5: "clock_now h4 = (now2, h5)" by fastforce
  have h5: "healthy h5" using clock_now_files(3) [of h] clock_now_files(3) [of h4] n4 n5 assms(1) by simp
  let ?p = "crash_report_path paths now2 ''recovered''"
  let ?r = "render_abnormal_termination_report dx now (jc_marker_from (dx_codec dx) bytes) summary
      (or_default (fst (load_snapshot dx (ap_subsystem_snapshot_path paths) h))) t"
  obtain snap where snap: "load_snapshot dx (ap_subsystem_snapshot_path paths) h = (snap, h)"
    using load_snapshot_healthy [OF assms(1)] by blast
  let ?h6 = "h5\<lparr>hw_files := ((hw_files h5)(tmp_path ?p := None))(?p \<mapsto> ?r)\<rparr>"
  have "recover_previous_session dx paths summary h =
      io_bind (fs_remove_file (ap_session_marker_path paths) ?h6) (\<lambda>_ h7.
        (Inr (Some \<lparr>cr_path = ?p, cr_summary = (case jc_marker_from (dx_codec dx) bytes of
            Some m \<Rightarrow> ''Recovered stale session marker from PID '' @ show_word (mk_pid m) @ '' started at ''
              @ show_word (mk_started_at_unix_ms m) @ ''.''
          | None \<Rightarrow> ''Recovered a stale session marker, but its contents were unreadable.'')\<rparr>), h7))"
    using Some
    by (simp add: recover_previous_session_def fs_exists_def io_bind_def healthy_ops assms(1) snap read_healthy t n4 n5
        atomic_healthy [OF h5] Let_def)
  moreover have "\<exists>h7. fs_remove_file (ap_session_marker_path paths) ?h6 = (Inr (), h7) \<and> healthy h7"
  proof -
    have "hw_files h5 = hw_files h" using clock_now_files(1) [of h] clock_now_files(1) [of h4] n4 n5 by simp
    then have "\<exists>s. hw_files ?h6 (ap_session_marker_path paths) = Some s"
      using Some resolved_paths(1) [of ?p env, symmetric] assms(3) by simp
    then obtain s where "hw_files ?h6 (ap_session_marker_path paths) = Some s" by blast
    then show ?thesis using h5 by (simp add: healthy_ops)
  qed
  ultimately show ?thesis using Some by (auto simp: io_bind_def fs_exists_def)
qed (simp add: recover_previous_session_def fs_exists_def assms(1))

lemma bootstrap_healthy:
  assumes "healthy h" "log_readable dx paths h" "paths = paths_resolve env" "writes_all dx"
  shows "\<exists>dr events h1. bootstrap dx paths config h = (Inr (dr, events), h1) \<and> healthy h1 \<and> dr_paths dr = paths
    \<and> (events = [] \<longleftrightarrow> \<not> fs_exists (ap_session_marker_path paths) h)
    \<and> fs_exists (ap_session_marker_path paths) h1 \<and> current_on_disk dx (dr, h1)"
proof -
  obtain snap where snap: "load_snapshot dx (ap_subsystem_snapshot_path paths) h = (snap, h)"
    using load_snapshot_healthy [OF assms(1)] by blast
  obtain r h3 where r: "recover_previous_session dx paths (redacted config) h = (Inr r, h3)" "healthy h3"
      "r = None \<longleftrightarrow> \<not> fs_exists (ap_session_marker_path paths) h"
    using recover_healthy [OF assms(1-3), of "redacted config"] by blast
  let ?found = "case r of
           None \<Rightarrow> (or_default snap, ([], h3))
         | Some report \<Rightarrow>
             (case clock_now h3 of (now, h') \<Rightarrow>
                ((or_default snap)\<lparr>sn_last_crash_recovery_unix_ms := Some now\<rparr>,
                  tell Warning ''diagnostics''
                    (''Recovered an abnormal termination report at '' @ cr_path report @ ''.'') ([], h')))"
  obtain n events h4 where found: "?found = (n, (events, h4))" by (metis prod_cases3)
  have "healthy (snd (snd ?found)) \<and> (fst (snd ?found) = [] \<longleftrightarrow> r = None)"
    using r(2) by (auto simp: Let_def split_def split: option.split)
  then have h4: "healthy h4" "events = [] \<longleftrightarrow> r = None" by (simp_all add: found)
  let ?dr = "\<lparr>dr_paths = paths, dr_config_summary = redacted config, dr_pending_events = [],
               dr_current = n, dr_last_persisted = None, dr_last_persisted_at_unix_ms = 0\<rparr>"
  obtain dr1 h5 where p: "persist_snapshot dx True ?dr h4 = (Inr (), dr1, h5)" "healthy h5" "dr_paths dr1 = paths"
      "current_on_disk dx (dr1, h5)"
    using persist_healthy [OF h4(1) assms(4), of ?dr] by auto
  obtain h6 where s: "start_session dx dr1 h5 = (Inr (), h6)" "healthy h6" "fs_exists (ap_session_marker_path paths) h6"
      "\<forall>q. q \<noteq> ap_session_marker_path paths \<longrightarrow> q \<noteq> tmp_path (ap_session_marker_path paths) \<longrightarrow> hw_files h6 q = hw_files h5 q"
    using start_session_healthy [OF p(2) assms(4), of dr1] p(3) by auto
  have "current_on_disk dx (dr1, h6)"
    using p(3,4) s(2,4) resolved_paths(2) [of "ap_session_marker_path paths" env] resolved_paths(3) [of env] assms(3) by (auto simp: current_on_disk_def)
  have "bootstrap dx paths config h = (Inr (dr1, events), h6)"
    unfolding bootstrap_def
    by (simp only: layout_healthy [OF assms(1)] io_bind_def prod.case sum.case snap r(1) Let_def found p(1) s(1))
  then show ?thesis using s(2,3) \<open>current_on_disk dx (dr1, h6)\<close> h4(2) r(3) p(3) by blast
qed

lemma shutdown_healthy:
  assumes "healthy h" "writes_all dx"
  shows "\<exists>dr1 h1. mark_clean_shutdown dx dr h = (Inr (), dr1, h1) \<and> healthy h1
    \<and> \<not> fs_exists (ap_session_marker_path (dr_paths dr)) h1"
proof -
  obtain dr1 h1 where p: "persist_snapshot dx True dr h = (Inr (), dr1, h1)" "healthy h1"
    using persist_healthy [OF assms] by blast
  then show ?thesis
    by (cases "hw_files h1 (ap_session_marker_path (dr_paths dr))")
      (simp_all add: mark_clean_shutdown_def healthy_ops fs_exists_def not_found_def)
qed


text \<open>An instance that starts and ends while another one runs.\<close>

theorem second_instance_erases_the_marker:
  assumes "healthy h" "log_readable dx paths h" "paths = paths_resolve env" "writes_all dx"
    and "fs_exists (ap_session_marker_path paths) h"
  shows "\<exists>dr events h1 dr2 h2. bootstrap dx paths config h = (Inr (dr, events), h1) \<and> events \<noteq> []
    \<and> mark_clean_shutdown dx dr h1 = (Inr (), dr2, h2)
    \<and> (\<forall>h3. healthy h3 \<longrightarrow> log_readable dx paths h3 \<longrightarrow> fs_exists (ap_session_marker_path paths) h3 = fs_exists (ap_session_marker_path paths) h2
         \<longrightarrow> (\<exists>dr3 h4. bootstrap dx paths config h3 = (Inr (dr3, []), h4)))"
proof -
  obtain dr events h1 where b: "bootstrap dx paths config h = (Inr (dr, events), h1)" "healthy h1" "dr_paths dr = paths"
      "events \<noteq> []"
    using bootstrap_healthy [OF assms(1-4)] assms(5) by blast
  obtain dr2 h2 where s: "mark_clean_shutdown dx dr h1 = (Inr (), dr2, h2)" "\<not> fs_exists (ap_session_marker_path paths) h2"
    using shutdown_healthy [OF b(2) assms(4), of dr] b(3) by blast
  have "\<exists>dr3 h4. bootstrap dx paths config h3 = (Inr (dr3, []), h4)"
    if "healthy h3" "log_readable dx paths h3" "fs_exists (ap_session_marker_path paths) h3 = fs_exists (ap_session_marker_path paths) h2" for h3
    using bootstrap_healthy [OF that(1,2) assms(3,4), of config] that(3) s(2) by auto
  with b s show ?thesis by blast
qed

text \<open>A line of the log that is not UTF-8 ends every start that has to recover.\<close>

lemma bad_line_fails:
  "\<not> utf8_ok line \<Longrightarrow> line \<in> set ls \<Longrightarrow> tail_of lc n t ls = Inl invalid_utf8"
  by (induction lc n t ls rule: tail_of.induct) (auto split: option.split)

lemma bad_log_stops_start:
  assumes "healthy h" "fs_exists (ap_session_marker_path paths) h" "hw_files h (ap_log_path paths) = Some s"
    and "line \<in> set (lines_of s)" "\<not> utf8_ok line"
  shows "bootstrap dx paths config h = (Inl invalid_utf8, h)"
proof -
  obtain bytes where m: "hw_files h (ap_session_marker_path paths) = Some bytes"
    using assms(2) by (auto simp: fs_exists_def)
  obtain snap where snap: "load_snapshot dx (ap_subsystem_snapshot_path paths) h = (snap, h)"
    using load_snapshot_healthy [OF assms(1)] by blast
  have "read_log_tail (dx_log_codec dx) (ap_log_path paths) RECOVERY_LOG_LIMIT h = (Inl invalid_utf8, h)"
    using bad_line_fails [OF assms(5,4)] by (simp add: read_healthy assms(1,3) content_def)
  then have "recover_previous_session dx paths (redacted config) h = (Inl invalid_utf8, h)"
    using assms(1,2) m snap by (simp add: recover_previous_session_def io_bind_def healthy_ops)
  then show ?thesis
    by (simp add: bootstrap_def layout_healthy assms(1) io_bind_def snap)
qed

text \<open>
  C25: One line of the log that is not UTF-8 ends every start that finds a session marker: the start fails before the marker is removed, so however often it is
  tried the application does not start again.
\<close>

theorem unreadable_log_stops_every_start:
  assumes "healthy h" "fs_exists (ap_session_marker_path paths) h" "hw_files h (ap_log_path paths) = Some s"
    and "line \<in> set (lines_of s)" "\<not> utf8_ok line"
  shows "fst (bootstrap dx paths config (((\<lambda>h. snd (bootstrap dx paths config h)) ^^ n) h)) = Inl invalid_utf8"
proof -
  have "((\<lambda>h. snd (bootstrap dx paths config h)) ^^ n) h = h"
    by (induction n) (simp_all add: bad_log_stops_start [OF assms])
  then show ?thesis by (simp add: bad_log_stops_start [OF assms])
qed

text \<open>A process whose JSON is always the same text, and a log that was cut inside a character.\<close>

definition demo_diag_codec :: diag_codec where
  "demo_diag_codec = \<lparr>jc_snapshot_to = \<lambda>_. Inr ''{}'', jc_snapshot_from = \<lambda>_. None, jc_marker_to = \<lambda>_. Inr ''{}'',
     jc_marker_from = \<lambda>_. None, jc_config_pretty = \<lambda>_. Inr ''{}'', jc_config_compact = \<lambda>_. Inr ''{}'',
     jc_fields = \<lambda>_. Inr ''{}'', jc_pretty = \<lambda>_. Inr ''{}'', jc_events = \<lambda>_. Inr ''[]'', jc_logs = \<lambda>_. Inr ''[]''\<rparr>"

definition demo_dx :: diag_env where
  "demo_dx = \<lparr>dx_codec = demo_diag_codec, dx_log_codec = demo_log_codec,
     dx_build = \<lparr>bi_version = ''0.1.11'', bi_authors = ''UdayaSri0'', bi_repository = ''https://github.com/UdayaSri0/AudioShare''\<rparr>,
     dx_os = ''linux'', dx_arch = ''x86_64'', dx_pid = 1, dx_uname = None\<rparr>"

lemma demo_writes_all: "writes_all demo_dx"
  by (simp add: writes_all_def demo_dx_def demo_diag_codec_def)

definition empty_host :: host where
  "empty_host = \<lparr>hw_files = Map.empty, hw_faults = [], hw_clock = []\<rparr>"

definition marked_host :: host where
  "marked_host = empty_host\<lparr>hw_files := [ap_session_marker_path demo_paths \<mapsto> ''{}'']\<rparr>"

lemma demo_hosts: "healthy empty_host" "healthy marked_host" "\<not> fs_exists p empty_host"
    "fs_exists (ap_session_marker_path demo_paths) marked_host"
  by (simp_all add: healthy_def empty_host_def marked_host_def fs_exists_def)

lemma demo_marker: "ap_session_marker_path demo_paths = ''/u/.local/state/synchrosonic/diagnostics/session-marker.json''"
    "ap_log_path demo_paths = ''/u/.local/state/synchrosonic/app-log.jsonl''"
  by (simp_all add: demo_paths_def paths_resolve_def default_state_dir_def path_join_def starts_with_def Let_def)

lemma demo_logs_readable: "log_readable dx paths empty_host" "log_readable dx demo_paths marked_host"
  by (simp_all add: log_readable_def empty_host_def marked_host_def content_def demo_marker)


theorem second_instance_erases_the_marker_witness:
  "\<exists>dr events h1 dr2 h2. bootstrap demo_dx demo_paths default_app_config marked_host = (Inr (dr, events), h1)
     \<and> events \<noteq> [] \<and> mark_clean_shutdown demo_dx dr h1 = (Inr (), dr2, h2)"
  using second_instance_erases_the_marker [OF demo_hosts(2) demo_logs_readable(2) demo_paths_def demo_writes_all demo_hosts(4),
      of default_app_config] by blast

theorem unreadable_log_stops_every_start_witness:
  "fst (bootstrap demo_dx demo_paths default_app_config
     (((\<lambda>h. snd (bootstrap demo_dx demo_paths default_app_config h)) ^^ 3)
       (marked_host\<lparr>hw_files := (hw_files marked_host)(ap_log_path demo_paths \<mapsto> [CHR 0xC3])\<rparr>))) = Inl invalid_utf8"
proof (rule unreadable_log_stops_every_start)
  have "lines_of [CHR 0xC3] = [[CHR 0xC3]]" by (rule lines_of_part) simp_all
  then show "[CHR 0xC3] \<in> set (lines_of [CHR 0xC3])" by simp
qed (simp_all add: marked_host_def empty_host_def healthy_def fs_exists_def demo_marker)

section \<open>The snapshot file\<close>

datatype diag_op =
  DState AppState RuntimeStateView
| DListener string bool "string option"
| DDiscovery string "string option" string "string option" "u64 option" "string option"
| DPoll PollKind PollObservation
| DRefresh bool
| DRender bool nat
| DJoin bool "string option" u64 "string option"
| DQueue DiagnosticEvent
| DDrain
| DConfig AppConfig
| DPersist bool

fun diag_step :: "diag_env \<Rightarrow> diag_op \<Rightarrow> DiagnosticsRuntime \<times> host \<Rightarrow> DiagnosticsRuntime \<times> host" where
  "diag_step dx (DState state view) s = update_snapshot_from_state dx state view s"
| "diag_step dx (DListener a b c) s = update_receiver_listener_snapshot dx a b c s"
| "diag_step dx (DDiscovery a b c d e f) s = update_discovery_local_snapshot dx a b c d e f s"
| "diag_step dx (DPoll k ob) s = note_poll dx k ob s"
| "diag_step dx (DRefresh b) s = note_ui_refresh dx b s"
| "diag_step dx (DRender b n) s = note_ui_list_render dx b n s"
| "diag_step dx (DJoin a b c d) s = update_browser_join_snapshot dx a b c d s"
| "diag_step dx (DQueue e) s = (queue_diagnostic_event e (fst s), snd s)"
| "diag_step dx DDrain s = (snd (drain_pending_events (fst s)), snd s)"
| "diag_step dx (DConfig c) s = (update_config_summary c (fst s), snd s)"
| "diag_step dx (DPersist force) s = snd (persist_snapshot dx force (fst s) (snd s))"

text \<open>Persisting leaves the file current, whether it writes or finds nothing to write.\<close>

lemma persist_current:
  assumes "writes_all dx" "healthy h"
    and "dr_last_persisted dr = Some n" "jc_snapshot_to (dx_codec dx) n = Inr bytes"
    and "hw_files h (ap_subsystem_snapshot_path (dr_paths dr)) = Some bytes"
  shows "current_on_disk dx (snd (persist_snapshot dx force dr h))"
proof -
  obtain s where "jc_snapshot_to (dx_codec dx) (dr_current dr) = Inr s" using assms(1) by (auto simp: writes_all_def)
  then show ?thesis
    using assms(2-5)
    by (auto simp: persist_snapshot_def split_def Let_def write_json_atomic_def atomic_healthy current_on_disk_def)
qed

lemma updated_current:
  assumes "writes_all dx" "current_on_disk dx s"
  shows "current_on_disk dx (updated dx f s)"
proof -
  obtain bytes where "jc_snapshot_to (dx_codec dx) (dr_current (fst s)) = Inr bytes"
      "hw_files (snd s) (ap_subsystem_snapshot_path (dr_paths (fst s))) = Some bytes"
    using assms(2) by (auto simp: current_on_disk_def)
  then show ?thesis
    using assms(2) unfolding updated_def
    by (intro persist_current [OF assms(1), where n = "dr_current (fst s)" and bytes = bytes])
      (simp_all add: current_on_disk_def)
qed

lemma clock_current: "current_on_disk dx s \<Longrightarrow> current_on_disk dx (fst s, snd (clock_now (snd s)))"
  by (simp add: current_on_disk_def)

lemma stamped_current:
  "writes_all dx \<Longrightarrow> current_on_disk dx s \<Longrightarrow> current_on_disk dx (stamped dx f s)"
  using updated_current [OF _ clock_current] by (simp add: stamped_def split_def Let_def)

lemma diag_step_current:
  assumes "writes_all dx" "current_on_disk dx s"
  shows "current_on_disk dx (diag_step dx op s)"
proof (cases op)
  case (DPoll k ob)
  then show ?thesis
    using updated_current [OF assms(1) clock_current [OF assms(2)]] by (simp add: note_poll_def split_def Let_def)
next
  case (DPersist force)
  obtain bytes where "jc_snapshot_to (dx_codec dx) (dr_current (fst s)) = Inr bytes"
      "hw_files (snd s) (ap_subsystem_snapshot_path (dr_paths (fst s))) = Some bytes"
    using assms(2) by (auto simp: current_on_disk_def)
  moreover have "healthy (snd s)" "dr_last_persisted (fst s) = Some (dr_current (fst s))"
    using assms(2) by (simp_all add: current_on_disk_def)
  ultimately show ?thesis using persist_current [OF assms(1)] by (simp add: DPersist)
qed (use assms in \<open>simp_all add: update_snapshot_from_state_def update_receiver_listener_snapshot_def
      update_discovery_local_snapshot_def note_ui_refresh_def note_ui_list_render_def update_browser_join_snapshot_def
      stamped_current\<close>,
     simp_all add: current_on_disk_def queue_diagnostic_event_def drain_pending_events_def update_config_summary_def)

interpretation diagnostics: labelled_system
    "\<lambda>op (dx, s). (dx, diag_step dx op s)" "\<lambda>(dx, s). writes_all dx \<and> current_on_disk dx s"
  by unfold_locales (auto simp: diag_step_current)

lemma fold_diag: "fold (\<lambda>op (dx, s). (dx, diag_step dx op s)) ops (dx, s) = (dx, fold (diag_step dx) ops s)"
  by (induction ops arbitrary: s) simp_all

text \<open>
  C23: On a healthy disk, after a successful start and any sequence of updates, polls, queued events and persists, the snapshot file holds
  the current snapshot.
\<close>

theorem snapshot_file_is_current:
  assumes "healthy h" "log_readable dx paths h" "paths = paths_resolve env" "writes_all dx"
    and "bootstrap dx paths config h = (Inr (dr, events), h1)"
    and "fold (diag_step dx) ops (dr, h1) = (dr', h')"
  shows "\<exists>bytes. jc_snapshot_to (dx_codec dx) (dr_current dr') = Inr bytes
    \<and> hw_files h' (ap_subsystem_snapshot_path (dr_paths dr')) = Some bytes"
proof -
  have "current_on_disk dx (dr, h1)" 
    using bootstrap_healthy [OF assms(1-4), of config] assms(5) by auto
  then have "current_on_disk dx (dr', h')"
    using diagnostics.good_fold [of "(dx, dr, h1)" ops] assms(4) by (simp add: fold_diag assms(6))
  then show ?thesis by (simp add: current_on_disk_def)
qed

theorem snapshot_file_is_current_witness:
  "\<exists>dr events h1 dr' h'. bootstrap demo_dx demo_paths default_app_config empty_host = (Inr (dr, events), h1)
     \<and> fold (diag_step demo_dx) [DRefresh True, DRender False 3, DPersist False] (dr, h1) = (dr', h')
     \<and> hw_files h' (ap_subsystem_snapshot_path (dr_paths dr')) = Some ''{}''"
proof -
  obtain dr events h1 where b: "bootstrap demo_dx demo_paths default_app_config empty_host = (Inr (dr, events), h1)"
    using bootstrap_healthy [OF demo_hosts(1) demo_logs_readable(1) demo_paths_def demo_writes_all] by blast
  obtain dr' h' where f: "fold (diag_step demo_dx) [DRefresh True, DRender False 3, DPersist False] (dr, h1) = (dr', h')"
    by fastforce
  from snapshot_file_is_current [OF demo_hosts(1) demo_logs_readable(1) demo_paths_def demo_writes_all b f] b f
  show ?thesis by (simp add: demo_dx_def demo_diag_codec_def)
qed

text \<open>The persistence interval never delays a change: an unforced persist of a changed snapshot writes.\<close>

lemma changed_is_written:
  assumes "dr_last_persisted dr \<noteq> Some (dr_current dr)"
  shows "persist_snapshot dx force dr h = persist_snapshot dx True dr h"
  using assms by (simp add: persist_snapshot_def)

end
