(* ===== verification/Ui_Format.thy ===== *)
theory Ui_Format
  imports Diagnostics_Reports App_State
begin

text \<open>
  The texts, labels and identifiers of \<open>synchrosonic-app/src/ui.rs\<close>: what the window shows of
  the application state, as functions of that state. A text with a relative time reads the
  clock of the host. Texts are lists of UTF-8 bytes.
\<close>

section \<open>Constants and identifiers\<close>

definition DEFAULT_PLAYBACK_TARGET_ID :: string where
  "DEFAULT_PLAYBACK_TARGET_ID = ''__system_default_playback__''"

definition SYSTEM_DEFAULT_OUTPUT_LABEL :: string where
  "SYSTEM_DEFAULT_OUTPUT_LABEL = ''System default output''"

definition QUALITY_LOW_LATENCY_ID :: string where
  "QUALITY_LOW_LATENCY_ID = ''quality_low_latency''"

definition QUALITY_BALANCED_ID :: string where
  "QUALITY_BALANCED_ID = ''quality_balanced''"

definition QUALITY_HIGH_QUALITY_ID :: string where
  "QUALITY_HIGH_QUALITY_ID = ''quality_high_quality''"

definition LATENCY_LOW_ID :: string where
  "LATENCY_LOW_ID = ''latency_low''"

definition LATENCY_BALANCED_ID :: string where
  "LATENCY_BALANCED_ID = ''latency_balanced''"

definition LATENCY_STABLE_ID :: string where
  "LATENCY_STABLE_ID = ''latency_stable''"

definition is_known_view_name :: "string \<Rightarrow> bool" where
  "is_known_view_name page_name \<longleftrightarrow>
     page_name \<in> set [''dashboard'', ''devices'', ''casting'', ''audio'', ''receiver'', ''diagnostics'',
       ''settings'', ''about'']"

definition playback_target_id_from_selection :: "string \<Rightarrow> string option" where
  "playback_target_id_from_selection selection_id =
     (if selection_id = DEFAULT_PLAYBACK_TARGET_ID then None else Some selection_id)"

fun quality_preset_id :: "QualityPreset \<Rightarrow> string" where
  "quality_preset_id QualityPreset.LowLatency = QUALITY_LOW_LATENCY_ID"
| "quality_preset_id QualityPreset.Balanced = QUALITY_BALANCED_ID"
| "quality_preset_id HighQuality = QUALITY_HIGH_QUALITY_ID"

definition quality_preset_from_id :: "string \<Rightarrow> QualityPreset option" where
  "quality_preset_from_id value =
     (if value = QUALITY_LOW_LATENCY_ID then Some QualityPreset.LowLatency
      else if value = QUALITY_BALANCED_ID then Some QualityPreset.Balanced
      else if value = QUALITY_HIGH_QUALITY_ID then Some HighQuality
      else None)"

fun latency_preset_id :: "ReceiverLatencyPreset \<Rightarrow> string" where
  "latency_preset_id ReceiverLatencyPreset.LowLatency = LATENCY_LOW_ID"
| "latency_preset_id ReceiverLatencyPreset.Balanced = LATENCY_BALANCED_ID"
| "latency_preset_id Stable = LATENCY_STABLE_ID"

definition latency_preset_from_id :: "string \<Rightarrow> ReceiverLatencyPreset option" where
  "latency_preset_from_id value =
     (if value = LATENCY_LOW_ID then Some ReceiverLatencyPreset.LowLatency
      else if value = LATENCY_BALANCED_ID then Some ReceiverLatencyPreset.Balanced
      else if value = LATENCY_STABLE_ID then Some Stable
      else None)"

fun format_quality_preset :: "QualityPreset \<Rightarrow> string" where
  "format_quality_preset QualityPreset.LowLatency = ''Low latency''"
| "format_quality_preset QualityPreset.Balanced = ''Balanced''"
| "format_quality_preset HighQuality = ''High quality''"

fun format_latency_preset :: "ReceiverLatencyPreset \<Rightarrow> string" where
  "format_latency_preset ReceiverLatencyPreset.LowLatency = ''Low latency''"
| "format_latency_preset ReceiverLatencyPreset.Balanced = ''Balanced''"
| "format_latency_preset Stable = ''Stable''"

section \<open>Labels and icons\<close>

fun audio_source_kind_label :: "AudioSourceKind \<Rightarrow> string" where
  "audio_source_kind_label AudioSourceKind.Monitor = ''Monitor''"
| "audio_source_kind_label Microphone = ''Microphone''"
| "audio_source_kind_label Application = ''Application''"

fun audio_source_icon_name :: "AudioSourceKind \<Rightarrow> string" where
  "audio_source_icon_name AudioSourceKind.Monitor = ''audio-card-symbolic''"
| "audio_source_icon_name Microphone = ''audio-input-microphone-symbolic''"
| "audio_source_icon_name Application = ''application-x-executable-symbolic''"

definition playback_target_icon_name :: "PlaybackTarget \<Rightarrow> string" where
  "playback_target_icon_name t = (if is_bluetooth t then ''bluetooth-active-symbolic'' else ''audio-speakers-symbolic'')"

fun status_icon_name :: "DeviceStatus \<Rightarrow> string" where
  "status_icon_name Discovered = ''network-wireless-signal-excellent-symbolic''"
| "status_icon_name Resolving = ''network-idle-symbolic''"
| "status_icon_name ReceiverStarting = ''media-playback-start-symbolic''"
| "status_icon_name ReceiverListening = ''network-workgroup-symbolic''"
| "status_icon_name Reachable = ''network-wireless-signal-excellent-symbolic''"
| "status_icon_name DeviceStatus.Connecting = ''network-transmit-receive-symbolic''"
| "status_icon_name DeviceStatus.Connected = ''object-select-symbolic''"
| "status_icon_name DeviceStatus.Unavailable = ''dialog-warning-symbolic''"
| "status_icon_name Stale = ''appointment-missed-symbolic''"
| "status_icon_name SelfDevice = ''computer-symbolic''"
| "status_icon_name IncompatibleVersion = ''dialog-error-symbolic''"

fun diagnostic_icon_name :: "DiagnosticLevel \<Rightarrow> string" where
  "diagnostic_icon_name Info = ''dialog-information-symbolic''"
| "diagnostic_icon_name Warning = ''dialog-warning-symbolic''"
| "diagnostic_icon_name DiagnosticLevel.Error = ''dialog-error-symbolic''"

fun diagnostic_level_label :: "DiagnosticLevel \<Rightarrow> string" where
  "diagnostic_level_label Info = ''Info''"
| "diagnostic_level_label Warning = ''Warning''"
| "diagnostic_level_label DiagnosticLevel.Error = ''Error''"

definition log_icon_name :: "string \<Rightarrow> string" where
  "log_icon_name level =
     (if level = ''ERROR'' then ''dialog-error-symbolic''
      else if level = ''WARN'' then ''dialog-warning-symbolic'' else ''text-x-log-symbolic'')"

section \<open>Times\<close>

definition format_unix_ms :: "u64 \<Rightarrow> string" where
  "format_unix_ms timestamp_unix_ms = show_word timestamp_unix_ms @ '' ms''"

definition relative_age :: "u64 \<Rightarrow> u64 \<Rightarrow> string" where
  "relative_age now timestamp =
     (if timestamp > now then
        (let remaining_ms = timestamp - now
         in if remaining_ms < 1000 then ''imminent''
            else if remaining_ms < 60000 then ''in '' @ show_word (remaining_ms div 1000) @ ''s''
            else if remaining_ms < 3600000 then ''in '' @ show_word (remaining_ms div 60000) @ ''m''
            else ''in '' @ show_word (remaining_ms div 3600000) @ ''h'')
      else
        (let elapsed_ms = now - timestamp
         in if elapsed_ms < 1000 then ''just now''
            else if elapsed_ms < 60000 then show_word (elapsed_ms div 1000) @ ''s ago''
            else if elapsed_ms < 3600000 then show_word (elapsed_ms div 60000) @ ''m ago''
            else show_word (elapsed_ms div 3600000) @ ''h ago''))"

definition format_relative_age :: "u64 \<Rightarrow> host \<Rightarrow> string \<times> host" where
  "format_relative_age timestamp h = (let (now, h1) = clock_now h in (relative_age now timestamp, h1))"

text \<open>\<open>map(format_relative_age).unwrap_or_else\<close>: no time, no reading of the clock.\<close>

definition age_or :: "string \<Rightarrow> u64 option \<Rightarrow> host \<Rightarrow> string \<times> host" where
  "age_or d timestamp h = (case timestamp of None \<Rightarrow> (d, h) | Some t \<Rightarrow> format_relative_age t h)"

primrec map_host :: "('a \<Rightarrow> host \<Rightarrow> 'b \<times> host) \<Rightarrow> 'a list \<Rightarrow> host \<Rightarrow> 'b list \<times> host" where
  "map_host f [] h = ([], h)"
| "map_host f (x # xs) h = (let (y, h1) = f x h; (ys, h2) = map_host f xs h1 in (y # ys, h2))"

section \<open>Selections\<close>

definition or_show :: "'a::len word option \<Rightarrow> string" where
  "or_show x = (case x of Some n \<Rightarrow> show_word n | None \<Rightarrow> ''none'')"

definition endpoint_text :: "TransportEndpoint option \<Rightarrow> string" where
  "endpoint_text e = (case e of Some t \<Rightarrow> show_addr (te_address t) | None \<Rightarrow> ''unresolved'')"

definition format_playback_target_option :: "PlaybackTarget \<Rightarrow> string" where
  "format_playback_target_option t =
     (case pt_kind t of Bluetooth \<Rightarrow> ''Bluetooth'' | Standard \<Rightarrow> ''Output'') @ '': '' @ pt_display_name t
     @ (if pt_is_default t then '' [default]'' else [])"

definition format_selected_playback_target :: "AppState \<Rightarrow> string option \<Rightarrow> string" where
  "format_selected_playback_target state target_id =
     (case target_id of
        None \<Rightarrow> SYSTEM_DEFAULT_OUTPUT_LABEL
      | Some i \<Rightarrow>
          (case playback_target i state of
             Some t \<Rightarrow>
               (case pt_kind t of
                  Bluetooth \<Rightarrow> ''Bluetooth output '' @ pt_display_name t
                    @ (case pt_bluetooth_address t of Some a \<Rightarrow> '' ('' @ a @ '')'' | None \<Rightarrow> [])
                | Standard \<Rightarrow> ''output '' @ pt_display_name t)
           | None \<Rightarrow> ''output '' @ i @ '' (currently unavailable)''))"

definition format_selected_audio_source :: "AppState \<Rightarrow> string" where
  "format_selected_audio_source state =
     (case Option.bind (st_selected_audio_source_id state) (\<lambda>i. find (\<lambda>x. as_id x = i) (st_audio_sources state)) of
        Some x \<Rightarrow> as_display_name x @ '' ('' @ audio_source_kind_label (as_kind x) @ '')''
      | None \<Rightarrow> ''No capture source selected'')"

definition selected_receiver_label :: "AppState \<Rightarrow> string" where
  "selected_receiver_label state =
     or_text ''none'' (or_else
       (map_option dd_display_name (Option.bind (st_selected_receiver_device_id state)
          (\<lambda>i. find (\<lambda>d. dd_id d = i) (st_discovered_devices state))))
       (map_option device_str (st_selected_receiver_device_id state)))"

definition playback_target_transition_diagnostic ::
  "AppState \<Rightarrow> u64 \<Rightarrow> string \<Rightarrow> string \<Rightarrow> string option \<Rightarrow> bool \<Rightarrow> DiagnosticEvent" where
  "playback_target_transition_diagnostic state now component label target_id available =
     diagnostic (if available then Info else Warning) now component
       (label @ '' is '' @ (if available then ''available'' else ''currently unavailable'') @ '': ''
        @ format_selected_playback_target state target_id @ ''.'')"

end
