(* ===== verification/Ui_Rows.thy ===== *)
theory Ui_Rows
  imports Ui_Format
begin

text \<open>
  The rows and the selector entries that \<open>synchrosonic-app/src/ui.rs\<close> renders, the effective
  view of the discovered devices, and the messages on the targets of a cast.
\<close>

record DiscoveryRowModel =
  dw_device_id :: DeviceId
  dw_title :: string
  dw_subtitle :: string
  dw_icon_name :: string
  dw_button_label :: "string option"
  dw_button_sensitive :: bool

record CastingTargetRowModel =
  cw_device_id :: DeviceId
  cw_title :: string
  cw_subtitle :: string

record InventoryRowModel =
  iw_title :: string
  iw_subtitle :: string
  iw_icon_name :: string

record SimpleRowModel =
  ew_title :: string
  ew_subtitle :: string
  ew_icon_name :: string

section \<open>Subtitles\<close>

definition format_device_row_subtitle :: "AppState \<Rightarrow> DiscoveredDevice \<Rightarrow> string" where
  "format_device_row_subtitle state d =
     ''Status: '' @ dbg_device_status (dd_status d) @ '', availability: '' @ dbg_availability (dd_availability d)
     @ '', connectable='' @ show_bool (is_receiver_connectable d)
     @ '', endpoint: '' @ endpoint_text (dd_endpoint d)
     @ '', receiver='' @ show_bool (supports_receiver (dd_capabilities d))
     @ '', local_output='' @ show_bool (supports_local_output (dd_capabilities d))
     @ '', bluetooth='' @ show_bool (supports_bluetooth_output (dd_capabilities d)) @ ''.''
     @ (if st_selected_receiver_device_id state = Some (dd_id d) then '' Selected for manual cast actions.'' else [])
     @ (if session_target (dd_id d) (st_streaming state) \<noteq> None then '' Currently queued in the active cast.'' else [])"

definition format_target_row_subtitle :: "StreamTargetSnapshot \<Rightarrow> host \<Rightarrow> string \<times> host" where
  "format_target_row_subtitle t h =
     (let (retry, h1) = age_or ''none'' (ts_next_retry_at_unix_ms t) h
      in (dbg_session_state (ts_state t) @ '' with '' @ dbg_health (ts_health t) @ '' health, endpoint ''
          @ show_addr (ts_endpoint t) @ '', attempt '' @ show_word (ts_attempt_count t) @ '', retry '' @ retry
          @ '', last failure '' @ dbg_option dbg_failure_kind (ts_last_error_kind t)
          @ '', latency '' @ dbg_option show_word (sm_latency_estimate_ms (ts_metrics t))
          @ '' ms, buffer '' @ show_word (branch_fill_percent (ts_network_buffer t))
          @ ''%, dropped '' @ show_word (bb_dropped_packets (ts_network_buffer t)) @ '' packet(s).'', h1))"

definition format_audio_source_row_subtitle :: "AppState \<Rightarrow> AudioSource \<Rightarrow> string" where
  "format_audio_source_row_subtitle state x =
     audio_source_kind_label (as_kind x) @ '' source, ''
     @ (if st_selected_audio_source_id state = Some (as_id x) then ''selected'' else ''available'')
     @ (if as_is_default x then '', default'' else [])"

definition format_playback_target_inventory_subtitle :: "AppState \<Rightarrow> PlaybackTarget \<Rightarrow> string" where
  "format_playback_target_inventory_subtitle state t =
     (let selected_local = (ac_local_playback_target_id (cfg_audio (st_config state)) = Some (pt_id t));
          selected_receiver = (rc_playback_target_id (cfg_receiver (st_config state)) = Some (pt_id t))
      in (if is_bluetooth t then ''Bluetooth'' else ''Standard'') @ '' output, availability ''
         @ dbg_target_availability (pt_availability t) @ '', default='' @ show_bool (pt_is_default t) @ '', ''
         @ (if selected_local \<and> selected_receiver then ''Selected for local mirror and receiver mode.''
            else if selected_local then ''Selected for local mirror.''
            else if selected_receiver then ''Selected for receiver mode.''
            else ''Not currently selected.''))"

text \<open>The separator is a middle dot, two bytes of UTF-8.\<close>

definition DOT :: string where
  "DOT = '' '' @ [CHR 0xC2, CHR 0xB7] @ '' ''"

definition format_log_entry_subtitle :: "StructuredLogEntry \<Rightarrow> string" where
  "format_log_entry_subtitle e =
     (let summary = join_with '', '' (map (\<lambda>(k, v). k @ ''='' @ v)
            (take 3 (filter (\<lambda>(k, _). k \<noteq> ''message'') (le_fields e))))
      in format_unix_ms (le_timestamp_unix_ms e) @ DOT @ le_message e
         @ (if summary = [] then [] else '' ['' @ summary @ '']''))"

section \<open>Rows\<close>

definition discovery_row :: "AppState \<Rightarrow> DiscoveredDevice \<Rightarrow> DiscoveryRowModel" where
  "discovery_row state d =
     (let queued = (session_target (dd_id d) (st_streaming state) \<noteq> None)
      in \<lparr>dw_device_id = dd_id d, dw_title = dd_display_name d, dw_subtitle = format_device_row_subtitle state d,
          dw_icon_name = status_icon_name (dd_status d),
          dw_button_label = (if is_receiver_connectable d
            then Some (if queued then ''Queued'' else ''Add to Cast'') else None),
          dw_button_sensitive = (is_receiver_connectable d \<and> \<not> queued)\<rparr>)"

definition discovery_row_models :: "AppState \<Rightarrow> DiscoveryRowModel list" where
  "discovery_row_models state = map (discovery_row state) (st_discovered_devices state)"

definition casting_target_row_models :: "AppState \<Rightarrow> host \<Rightarrow> CastingTargetRowModel list \<times> host" where
  "casting_target_row_models state =
     map_host (\<lambda>t h. let (subtitle, h1) = format_target_row_subtitle t h
        in (\<lparr>cw_device_id = ts_receiver_id t, cw_title = ts_receiver_name t, cw_subtitle = subtitle\<rparr>, h1))
       (ss_targets (st_streaming state))"

definition audio_source_row_models :: "AppState \<Rightarrow> InventoryRowModel list" where
  "audio_source_row_models state =
     map (\<lambda>x. \<lparr>iw_title = as_display_name x, iw_subtitle = format_audio_source_row_subtitle state x,
       iw_icon_name = audio_source_icon_name (as_kind x)\<rparr>) (st_audio_sources state)"

definition playback_target_row_models :: "AppState \<Rightarrow> InventoryRowModel list" where
  "playback_target_row_models state =
     map (\<lambda>t. \<lparr>iw_title = pt_display_name t, iw_subtitle = format_playback_target_inventory_subtitle state t,
       iw_icon_name = playback_target_icon_name t\<rparr>) (st_playback_targets state)"

definition diagnostic_row_models :: "AppState \<Rightarrow> SimpleRowModel list" where
  "diagnostic_row_models state =
     map (\<lambda>e. \<lparr>ew_title = diagnostic_level_label (de_level e) @ DOT @ de_component e,
       ew_subtitle = format_unix_ms (de_timestamp_unix_ms e) @ DOT @ de_message e,
       ew_icon_name = diagnostic_icon_name (de_level e)\<rparr>) (take 60 (rev (st_diagnostics state)))"

definition log_row_models :: "StructuredLogEntry list \<Rightarrow> SimpleRowModel list" where
  "log_row_models entries =
     map (\<lambda>e. \<lparr>ew_title = le_level e @ DOT @ le_target e, ew_subtitle = format_log_entry_subtitle e,
       ew_icon_name = log_icon_name (le_level e)\<rparr>) entries"

section \<open>The receiver selector\<close>

record ReceiverSelectorOption =
  ro_id :: string
  ro_label :: string

definition receiver_selector_options :: "AppState \<Rightarrow> ReceiverSelectorOption list" where
  "receiver_selector_options state =
     map (\<lambda>d. \<lparr>ro_id = device_str (dd_id d),
         ro_label = dd_display_name d @ '' ('' @ endpoint_text (dd_endpoint d) @ '')''\<rparr>)
       (filter is_receiver_connectable (st_discovered_devices state))"

definition desired_receiver_selector_active_id ::
  "AppState \<Rightarrow> ReceiverSelectorOption list \<Rightarrow> string option" where
  "desired_receiver_selector_active_id state options =
     or_else
       (case map_option device_str (st_selected_receiver_device_id state) of
          Some i \<Rightarrow> if list_ex (\<lambda>x. ro_id x = i) options then Some i else None
        | None \<Rightarrow> None)
       (map_option ro_id (first_of options))"

definition find_receiver_device :: "AppState \<Rightarrow> string \<Rightarrow> DiscoveredDevice option" where
  "find_receiver_device state device_id =
     find (\<lambda>d. device_str (dd_id d) = device_id \<and> is_receiver_connectable d) (st_discovered_devices state)"

section \<open>The playback selectors\<close>

text \<open>The entries of the combo box, as pairs of an id and a label, and the active id.\<close>

definition playback_selector ::
  "AppState \<Rightarrow> string option \<Rightarrow> string \<Rightarrow> (string \<times> string) list \<times> string" where
  "playback_selector state selected default_label =
     (let known = (DEFAULT_PLAYBACK_TARGET_ID, default_label)
            # map (\<lambda>t. (pt_id t, format_playback_target_option t)) (st_playback_targets state)
      in case selected of
           None \<Rightarrow> (known, DEFAULT_PLAYBACK_TARGET_ID)
         | Some i \<Rightarrow>
             (known @ (if playback_target i state = None then [(i, i @ '' (currently unavailable)'')] else []), i))"

section \<open>What the discovery poll compares\<close>

record EffectiveDiscoveredDevice =
  ed_id :: DeviceId
  ed_display_name :: string
  ed_capabilities :: DeviceCapabilities
  ed_availability :: DeviceAvailability
  ed_status :: DeviceStatus
  ed_endpoint :: "TransportEndpoint option"

definition effective_device :: "DiscoveredDevice \<Rightarrow> EffectiveDiscoveredDevice" where
  "effective_device d =
     \<lparr>ed_id = dd_id d, ed_display_name = dd_display_name d, ed_capabilities = dd_capabilities d,
      ed_availability = dd_availability d, ed_status = dd_status d, ed_endpoint = dd_endpoint d\<rparr>"

text \<open>\<open>sort_by\<close> is stable; names are compared as bytes, then the ids.\<close>

definition effective_discovered_devices :: "DiscoveredDevice list \<Rightarrow> EffectiveDiscoveredDevice list" where
  "effective_discovered_devices devices =
     sort_key (\<lambda>d. (ed_display_name d, device_str (ed_id d))) (map effective_device devices)"

section \<open>The bind address\<close>

definition receiver_bind_addr :: "(string \<Rightarrow> SocketAddr option) \<Rightarrow> AppConfig \<Rightarrow> SocketAddr" where
  "receiver_bind_addr parse config =
     (case parse (rc_bind_host (cfg_receiver config) @ '':'' @ show_word (rc_listen_port (cfg_receiver config))) of
        Some a \<Rightarrow> a
      | None \<Rightarrow> \<lparr>sa_ip = V4 0 0 0 0, sa_port = rc_listen_port (cfg_receiver config)\<rparr>)"

section \<open>Messages on the targets\<close>

text \<open>
  A message is its level and text; the time is that of its making. The maps by id hold the last
  target of an id.
\<close>

definition joined_message :: "StreamTargetSnapshot \<Rightarrow> DiagnosticLevel \<times> string" where
  "joined_message t = (Info, ''Target '' @ ts_receiver_name t @ '' joined the cast collection with state ''
     @ dbg_session_state (ts_state t) @ ''.'')"

definition changed_messages ::
  "StreamTargetSnapshot \<Rightarrow> StreamTargetSnapshot \<Rightarrow> (DiagnosticLevel \<times> string) list" where
  "changed_messages p t =
     (if ts_state p \<noteq> ts_state t \<or> ts_health p \<noteq> ts_health t
      then [(Info, ''Target '' @ ts_receiver_name t @ '' is now '' @ dbg_session_state (ts_state t) @ '' with ''
             @ dbg_health (ts_health t) @ '' health.'')] else [])
     @ (if ts_last_error p \<noteq> ts_last_error t
        then (case ts_last_error t of
                Some e \<Rightarrow> [(Warning, ''Target '' @ ts_receiver_name t @ '' reported: '' @ e)]
              | None \<Rightarrow> [])
        else [])"

definition removed_message :: "StreamTargetSnapshot \<Rightarrow> DiagnosticLevel \<times> string" where
  "removed_message t = (Info, ''Target '' @ ts_receiver_name t @ '' was removed from the cast collection.'')"

definition last_by_id :: "StreamTargetSnapshot list \<Rightarrow> DeviceId \<Rightarrow> StreamTargetSnapshot option" where
  "last_by_id ts i = find (\<lambda>t. ts_receiver_id t = i) (rev ts)"

definition stream_target_transition_messages ::
  "StreamTargetSnapshot list \<Rightarrow> StreamTargetSnapshot list \<Rightarrow> (DiagnosticLevel \<times> string) list" where
  "stream_target_transition_messages previous next =
     concat (map (\<lambda>t. case last_by_id previous (ts_receiver_id t) of
         None \<Rightarrow> [joined_message t]
       | Some p \<Rightarrow> changed_messages p t) next)
     @ map removed_message (filter (\<lambda>p. last_by_id next (ts_receiver_id p) = None) previous)"

end
