(* ===== verification/Ui_Texts.thy ===== *)
theory Ui_Texts
  imports Ui_Rows
begin

text \<open>
  The status texts of \<open>synchrosonic-app/src/ui.rs\<close>: the details of the dashboard, of the cast
  and of the receiver.
\<close>

fun dbg_cast_session :: "CastSessionState \<Rightarrow> string" where
  "dbg_cast_session CastSessionState.Idle = ''Idle''"
| "dbg_cast_session Preparing = ''Preparing''"
| "dbg_cast_session Casting = ''Casting''"
| "dbg_cast_session CastSessionState.Stopping = ''Stopping''"
| "dbg_cast_session CastSessionState.Error = ''Error''"

fun dbg_capture_state :: "CaptureState \<Rightarrow> string" where
  "dbg_capture_state CaptureState.Idle = ''Idle''"
| "dbg_capture_state CaptureState.Starting = ''Starting''"
| "dbg_capture_state Capturing = ''Capturing''"
| "dbg_capture_state SourceChanged = ''SourceChanged''"
| "dbg_capture_state DeviceDisconnected = ''DeviceDisconnected''"
| "dbg_capture_state Stopped = ''Stopped''"
| "dbg_capture_state Failed = ''Failed''"

definition show_int :: "int \<Rightarrow> string" where
  "show_int i = (if i < 0 then ''-'' @ show_nat (nat (- i)) else show_nat (nat i))"

definition branch_text :: "StreamBranchBufferSnapshot \<Rightarrow> string" where
  "branch_text b =
     show_word (branch_fill_percent b) @ ''% ('' @ show_word (bb_queued_packets b) @ '' / '' @ show_word (bb_max_packets b)
     @ '' packets, dropped='' @ show_word (bb_dropped_packets b) @ '')''"

definition played_text :: "LocalMirrorSnapshot \<Rightarrow> string" where
  "played_text l =
     '' played packets='' @ show_word (lm_packets_played l) @ '' bytes='' @ show_word (lm_bytes_played l)
     @ '' error='' @ or_text ''none'' (lm_last_error l) @ LINE"

text \<open>\<open>{}Hz/{}ch/{:?}/{}fpp\<close> of a negotiated stream.\<close>

definition stream_shape :: "ReceiverStreamConfig \<Rightarrow> string" where
  "stream_shape x =
     show_word (sc_sample_rate_hz x) @ ''Hz/'' @ show_word (sc_channels x) @ ''ch/''
     @ dbg_sample_format (sc_sample_format x) @ ''/'' @ show_word (sc_frames_per_packet x) @ ''fpp''"

definition output_text :: "AppState \<Rightarrow> string option \<Rightarrow> bool \<Rightarrow> string" where
  "output_text state target available =
     format_selected_playback_target state target @ '' (available='' @ show_bool available @ '')'' @ LINE"

definition format_dashboard_status :: "AppState \<Rightarrow> string \<Rightarrow> string" where
  "format_dashboard_status state audio_backend_name =
     (let s = st_streaming state; l = ss_local_mirror s; m = ss_metrics s; r = st_receiver state;
          config = st_config state; b = rsn_buffer r; rm = rsn_metrics r
      in ''Session: '' @ dbg_cast_session (st_cast_session state) @ LINE
         @ ''Capture: '' @ dbg_capture_state (st_capture_state state) @ LINE
         @ ''Streaming: '' @ dbg_session_state (ss_state s) @ LINE
         @ ''Selected receiver: '' @ selected_receiver_label state @ LINE
         @ ''Target sessions: total='' @ show_nat (active_target_count s)
         @ '' healthy='' @ show_nat (healthy_target_count s) @ LINE
         @ ''Playback outputs: total='' @ show_nat (length (st_playback_targets state))
         @ '' bluetooth='' @ show_nat (length (filter is_bluetooth (st_playback_targets state))) @ LINE
         @ ''Selected source: '' @ format_selected_audio_source state @ LINE
         @ ''Local mirror output: ''
         @ output_text state (ac_local_playback_target_id (cfg_audio config)) (local_playback_target_available state)
         @ ''Receiver output: ''
         @ output_text state (rc_playback_target_id (cfg_receiver config)) (receiver_playback_target_available state)
         @ ''Local mirror: desired='' @ show_bool (lm_desired_enabled l)
         @ '' state='' @ dbg_mirror_state (lm_state l) @ '' buffer='' @ branch_text (lm_buffer l) @ played_text l
         @ ''Sender aggregate metrics: packets sent='' @ show_word (sm_packets_sent m)
         @ '' bytes sent='' @ show_word (sm_bytes_sent m) @ '' bitrate='' @ show_word (sm_estimated_bitrate_bps m)
         @ ''bps latency='' @ dbg_option show_word (sm_latency_estimate_ms m) @ ''ms gaps='' @ show_word (sm_packet_gaps m)
         @ '' keepalives='' @ show_word (sm_keepalives_sent m) @ ''/'' @ show_word (sm_keepalives_received m) @ LINE
         @ ''Receiver: '' @ dbg_receiver_state (rsn_state r) @ LINE
         @ ''Receiver buffer: '' @ show_word (fill_percent b) @ ''% ('' @ show_word (bs_queued_packets b) @ '' / ''
         @ show_word (bs_max_packets b) @ '' packets)'' @ LINE
         @ ''Receiver metrics: packets in='' @ show_word (rm_packets_received rm)
         @ '' played='' @ show_word (rm_packets_played rm) @ '' underruns='' @ show_word (rm_underruns rm)
         @ '' overruns='' @ show_word (rm_overruns rm) @ '' reconnects='' @ show_word (rm_reconnect_attempts rm) @ LINE
         @ ''Audio backend: '' @ audio_backend_name @ LINE
         @ ''Default stream port: '' @ show_word (tc_stream_port (cfg_transport config)) @ LINE
         @ ''Sender quality preset: '' @ format_quality_preset (tc_quality (cfg_transport config)) @ LINE
         @ ''Receiver latency preset: '' @ format_latency_preset (rc_latency_preset (cfg_receiver config)) @ LINE
         @ ''Local playback default: ''
         @ (if ac_local_playback_enabled (cfg_audio config) then ''enabled'' else ''disabled''))"

definition target_status_line :: "StreamTargetSnapshot \<Rightarrow> host \<Rightarrow> string \<times> host" where
  "target_status_line t h =
     (let (retry, h1) = age_or ''none'' (ts_next_retry_at_unix_ms t) h
      in (''- '' @ ts_receiver_name t @ '' ['' @ device_str (ts_receiver_id t) @ ''] ''
          @ dbg_session_state (ts_state t) @ '' '' @ dbg_health (ts_health t)
          @ '' endpoint='' @ show_addr (ts_endpoint t) @ '' session='' @ or_text ''not negotiated'' (ts_session_id t)
          @ '' attempts='' @ show_word (ts_attempt_count t) @ '' retry='' @ retry
          @ '' last_failure='' @ dbg_option dbg_failure_kind (ts_last_error_kind t)
          @ '' latency='' @ dbg_option show_word (sm_latency_estimate_ms (ts_metrics t))
          @ ''ms buffer='' @ branch_text (ts_network_buffer t)
          @ '' bitrate='' @ show_word (sm_estimated_bitrate_bps (ts_metrics t))
          @ ''bps bytes='' @ show_word (sm_bytes_sent (ts_metrics t))
          @ '' last_error='' @ or_text ''none'' (ts_last_error t), h1))"

definition format_stream_target_statuses :: "StreamTargetSnapshot list \<Rightarrow> host \<Rightarrow> string \<times> host" where
  "format_stream_target_statuses targets h =
     (if targets = [] then (''none'', h)
      else (let (ls, h1) = map_host target_status_line targets h in (join_with LINE ls, h1)))"

definition format_streaming_status :: "AppState \<Rightarrow> host \<Rightarrow> string \<times> host" where
  "format_streaming_status state h =
     (let s = st_streaming state; l = ss_local_mirror s; m = ss_metrics s;
          (targets, h1) = format_stream_target_statuses (ss_targets s) h
      in (''State: '' @ dbg_session_state (ss_state s) @ LINE
          @ ''Selected receiver: '' @ selected_receiver_label state @ LINE
          @ ''Sender session id: '' @ or_text ''not started'' (ss_session_id s) @ LINE
          @ ''Capture source: '' @ format_selected_audio_source state @ LINE
          @ ''Stream: '' @ or_text ''not negotiated'' (map_option stream_shape (ss_stream s)) @ LINE
          @ ''Active target count: '' @ show_nat (active_target_count s) @ LINE
          @ ''Targets:'' @ LINE @ targets @ LINE
          @ ''Local mirror output: ''
          @ output_text state (ac_local_playback_target_id (cfg_audio (st_config state)))
              (local_playback_target_available state)
          @ ''Local mirror: desired='' @ show_bool (lm_desired_enabled l)
          @ '' state='' @ dbg_mirror_state (lm_state l) @ '' backend='' @ or_text ''not configured'' (lm_playback_backend l)
          @ '' target='' @ format_selected_playback_target state (lm_playback_target_id l)
          @ '' buffer='' @ branch_text (lm_buffer l) @ played_text l
          @ ''Aggregate metrics: packets sent='' @ show_word (sm_packets_sent m)
          @ '' packets received='' @ show_word (sm_packets_received m) @ '' bytes sent='' @ show_word (sm_bytes_sent m)
          @ '' bytes received='' @ show_word (sm_bytes_received m)
          @ '' bitrate='' @ show_word (sm_estimated_bitrate_bps m)
          @ ''bps latency estimate='' @ dbg_option show_word (sm_latency_estimate_ms m)
          @ ''ms packet gaps='' @ show_word (sm_packet_gaps m)
          @ '' keepalives sent='' @ show_word (sm_keepalives_sent m)
          @ '' keepalives received='' @ show_word (sm_keepalives_received m) @ LINE
          @ ''Sender quality preset: '' @ format_quality_preset (tc_quality (cfg_transport (st_config state))) @ LINE
          @ ''Last error: '' @ or_text ''none'' (ss_last_error s) @ LINE
          @ ''Split-stream path: PipeWire capture -> explicit branch fan-out -> [per-target bounded network queue ''
          @ ''-> per-target TCP framed transport -> receiver runtime -> PipeWire playback] ''
          @ ''+ [bounded local mirror queue -> sender-side PipeWire playback].'', h1))"

definition connection_text :: "ReceiverConnectionInfo option \<Rightarrow> string" where
  "connection_text c =
     (case c of
        Some i \<Rightarrow> ''session='' @ ci_session_id i
          @ '' remote='' @ or_text ''unresolved'' (map_option show_addr (ci_remote_addr i))
          @ '' stream='' @ stream_shape (ci_stream i) @ '' requested='' @ show_word (ci_requested_latency_ms i) @ ''ms''
      | None \<Rightarrow> ''none'')"

definition or_unknown :: "string \<Rightarrow> string" where
  "or_unknown s = (if s = [] then ''unknown'' else s)"

definition format_receiver_status :: "AppState \<Rightarrow> SubsystemSnapshot \<Rightarrow> host \<Rightarrow> string \<times> host" where
  "format_receiver_status state n h =
     (let r = st_receiver state; b = rsn_buffer r; y = rsn_sync r; m = rsn_metrics r;
          (renewal, h1) = age_or ''never'' (sd_last_advertised_unix_ms (sn_discovery n)) h
      in (''State: '' @ dbg_receiver_state (rsn_state r) @ LINE
          @ ''Advertised name: '' @ rsn_advertised_name r @ LINE
          @ ''Configured listen address: '' @ rsn_bind_host r @ '':'' @ show_word (rsn_listen_port r) @ LINE
          @ ''Bound listener: '' @ or_text ''not bound'' (sr_listener_bind_addr (sn_receiver n))
          @ '' (active='' @ show_bool (sr_listener_active (sn_receiver n)) @ '')'' @ LINE
          @ ''Discovery advertisement: state='' @ or_unknown (sd_advertisement_state (sn_discovery n))
          @ '' endpoint='' @ or_text ''not advertised'' (sd_advertised_endpoint (sn_discovery n))
          @ '' last renewal='' @ renewal
          @ '' error='' @ or_text ''none'' (sd_last_advertisement_error (sn_discovery n)) @ LINE
          @ ''Latency preset: '' @ format_latency_preset (rsn_latency_preset r) @ LINE
          @ ''Playback backend: '' @ or_text ''not configured'' (rsn_playback_backend r) @ LINE
          @ ''Playback target: ''
          @ output_text state (rsn_playback_target_id r) (receiver_playback_target_available state)
          @ ''Connection: '' @ connection_text (rsn_connection r) @ LINE
          @ ''Buffer: '' @ show_word (bs_queued_packets b) @ '' packet(s), '' @ show_word (bs_queued_frames b)
          @ '' frame(s), '' @ show_word (bs_queued_audio_ms b) @ '' ms queued, target ''
          @ show_word (bs_target_buffer_ms b) @ '' ms, max '' @ show_word (bs_max_buffer_ms b) @ '' ms, ''
          @ show_word (fill_percent b) @ ''% full'' @ LINE
          @ ''Sync: state='' @ dbg_sync_state (sy_state y)
          @ '' expected='' @ show_word (sy_expected_output_latency_ms y)
          @ '' ms requested='' @ or_show (sy_requested_latency_ms y) @ '' queued='' @ show_word (sy_queued_audio_ms y)
          @ '' ms buffer delta='' @ show_int (sy_buffer_delta_ms y)
          @ '' ms schedule error='' @ show_int (sy_schedule_error_ms y)
          @ '' ms late drops='' @ show_word (sy_late_packet_drops y) @ '' resets='' @ show_word (sy_sync_resets y)
          @ '' last sender ts='' @ or_show (sy_last_sender_timestamp_ms y)
          @ '' last sender unix='' @ or_show (sy_last_sender_capture_unix_ms y) @ LINE
          @ ''Metrics: packets in='' @ show_word (rm_packets_received m) @ '' frames in='' @ show_word (rm_frames_received m)
          @ '' bytes in='' @ show_word (rm_bytes_received m) @ '' packets out='' @ show_word (rm_packets_played m)
          @ '' frames out='' @ show_word (rm_frames_played m) @ '' bytes out='' @ show_word (rm_bytes_played m)
          @ '' underruns='' @ show_word (rm_underruns m) @ '' overruns='' @ show_word (rm_overruns m)
          @ '' reconnect attempts='' @ show_word (rm_reconnect_attempts m) @ LINE
          @ ''Last error: '' @ or_text ''none'' (rsn_last_error r) @ LINE
          @ ''Internal app flow: use the Start/Stop buttons here; the TCP receiver listener binds first, ''
          @ ''then the discovery advertisement is refreshed with the real endpoint.'', h1))"

end
