(* ===== verification/Ui_Controller.thy ===== *)
theory Ui_Controller
  imports Ui_Texts Receiver_Runtime Sender_Session Transport_Receiver Discovery_Service Browser_Join
begin

text \<open>
  \<open>UiController\<close> of \<open>synchrosonic-app/src/ui.rs\<close>: the application state with the handles of the
  sender, the receiver, its transport, discovery and the browser join service, and the
  operations they share. The widgets are what the window shows: the texts, the entries of the
  selectors, the switches and which buttons are enabled. The files and the clock are the host;
  the network, the desktop and the outcomes of other threads are a world of the caller.
  Mutexes are never poisoned.
\<close>

section \<open>What the window shows\<close>

record DashboardWidgets =
  wd_session_row :: string
  wd_discovery_row :: string
  wd_casting_row :: string
  wd_audio_row :: string
  wd_detail_label :: string

record DiscoveryWidgets =
  wv_summary_row :: string
  wv_device_list_visible :: bool

record CastingWidgets =
  wc_receiver_options :: "ReceiverSelectorOption list"
  wc_receiver_active :: "string option"
  wc_local_output :: "(string \<times> string) list \<times> string"
  wc_local_mirror_switch :: bool
  wc_session_row :: string
  wc_mirror_row :: string
  wc_add_sensitive :: bool
  wc_stop_all_sensitive :: bool
  wc_target_list_visible :: bool
  wc_detail_label :: string

record AudioWidgets =
  wa_source_entries :: "(string \<times> string) list"
  wa_source_active :: "string option"
  wa_source_sensitive :: bool
  wa_current_source_row :: string
  wa_output_row :: string
  wa_source_list_visible :: bool
  wa_output_list_visible :: bool

record ReceiverWidgets =
  wr_output :: "(string \<times> string) list \<times> string"
  wr_latency_active :: string
  wr_latency_sensitive :: bool
  wr_start_sensitive :: bool
  wr_stop_sensitive :: bool
  wr_open_join_sensitive :: bool
  wr_join_summary_row :: string
  wr_state_row :: string
  wr_advertisement_row :: string
  wr_connection_row :: string
  wr_sync_row :: string
  wr_detail_label :: string

record DiagnosticsWidgets =
  wg_summary_row :: string
  wg_log_summary_row :: string
  wg_list_visible :: bool
  wg_log_list_visible :: bool

record SettingsWidgets =
  ws_quality_active :: string
  ws_theme_switch :: bool
  ws_verbose_logging_switch :: bool
  ws_start_on_launch_switch :: bool
  ws_summary_row :: string
  ws_config_dir_row :: string
  ws_state_dir_row :: string
  ws_config_path_row :: string
  ws_portable_config_row :: string
  ws_log_path_row :: string
  ws_note_row :: string

record UiWidgets =
  uw_dashboard :: DashboardWidgets
  uw_discovery :: DiscoveryWidgets
  uw_casting :: CastingWidgets
  uw_audio :: AudioWidgets
  uw_receiver :: ReceiverWidgets
  uw_diagnostics :: DiagnosticsWidgets
  uw_settings :: SettingsWidgets
  uw_dark_theme :: bool

section \<open>The controller\<close>

record UiContext =
  ux_audio_backend_name :: string
  ux_discovery_service_type :: string
  ux_discovery_started :: bool

record UiRenderCache =
  rk_last_state :: "AppState option"
  rk_last_logs :: "StructuredLogEntry list"
  rk_last_view_name :: "string option"
  rk_last_browser_join_snapshot :: "BrowserJoinSnapshot option"
  rk_discovery_rows :: "DiscoveryRowModel list"
  rk_casting_rows :: "CastingTargetRowModel list"
  rk_audio_source_rows :: "InventoryRowModel list"
  rk_audio_output_rows :: "InventoryRowModel list"
  rk_diagnostics_rows :: "SimpleRowModel list"
  rk_log_rows :: "SimpleRowModel list"

definition empty_render_cache :: UiRenderCache where
  "empty_render_cache = \<lparr>rk_last_state = None, rk_last_logs = [], rk_last_view_name = None,
     rk_last_browser_join_snapshot = None, rk_discovery_rows = [], rk_casting_rows = [],
     rk_audio_source_rows = [], rk_audio_output_rows = [], rk_diagnostics_rows = [], rk_log_rows = []\<rparr>"

record ('s, 'w) UiController =
  uc_state :: AppState
  uc_discovery :: MdnsDiscoveryService
  uc_browser_join :: BrowserJoinState
  uc_sender :: LanSenderSession
  uc_receiver :: "'s ReceiverRuntime"
  uc_receiver_transport :: LanReceiverTransportServer
  uc_visible :: "string option"
  uc_widgets :: UiWidgets
  uc_context :: UiContext
  uc_paths :: AppPaths
  uc_log_store :: LogStore
  uc_diagnostics :: DiagnosticsRuntime
  uc_render_cache :: UiRenderCache
  uc_host :: host
  uc_world :: 'w

text \<open>
  The codecs, the network, the playback engine of the receiver thread, the channels of the
  sender, and what the desktop and the joins of threads answer.
\<close>

record ('q, 's, 'w) ui_env =
  ue_toml :: toml_codec
  ue_diag :: diag_env
  ue_mdns :: "'w mdns_env"
  ue_join :: "'w join_env"
  ue_playback :: "('w, 's) playback_env"
  ue_channels :: "('q, FanoutAudioFrame) channel_ops"
  ue_parse_addr :: "string \<Rightarrow> SocketAddr option"
  ue_bind :: "SocketAddr \<Rightarrow> 'w \<Rightarrow> bind_outcome \<times> 'w"
  ue_transport_join :: "'w \<Rightarrow> (bool \<times> bool) \<times> 'w"
  ue_manager_panicked :: "'w \<Rightarrow> bool \<times> 'w"
  ue_copy :: "string \<Rightarrow> 'w \<Rightarrow> (string + unit) \<times> 'w"
  ue_open :: "string \<Rightarrow> 'w \<Rightarrow> (string + unit) \<times> 'w"
  ue_path_uri :: "string \<Rightarrow> string"
  ue_elapsed :: "'w \<Rightarrow> u64 \<times> 'w"
  ue_lister :: dir_lister
  ue_pack :: "(string \<times> string) list \<Rightarrow> string"

definition upd_state :: "(AppState \<Rightarrow> AppState) \<Rightarrow> ('s, 'w) UiController \<Rightarrow> ('s, 'w) UiController" where
  "upd_state f c = c\<lparr>uc_state := f (uc_state c)\<rparr>"

definition add_event :: "DiagnosticEvent \<Rightarrow> AppState \<Rightarrow> AppState" where
  "add_event e s = s\<lparr>st_diagnostics := st_diagnostics s @ [e]\<rparr>"

text \<open>An event carries the time at which it was made.\<close>

definition push_diagnostic ::
  "DiagnosticLevel \<Rightarrow> string \<Rightarrow> string \<Rightarrow> ('s, 'w) UiController \<Rightarrow> ('s, 'w) UiController" where
  "push_diagnostic level component message c =
     (let (now, h) = clock_now (uc_host c)
      in upd_state (add_event (diagnostic level now component message)) (c\<lparr>uc_host := h\<rparr>))"

definition on_diagnostics ::
  "(DiagnosticsRuntime \<times> host \<Rightarrow> DiagnosticsRuntime \<times> host) \<Rightarrow> ('s, 'w) UiController \<Rightarrow> ('s, 'w) UiController" where
  "on_diagnostics f c =
     (let (dr, h) = f (uc_diagnostics c, uc_host c) in c\<lparr>uc_diagnostics := dr, uc_host := h\<rparr>)"

section \<open>Shared operations\<close>

definition persist_current_config ::
  "('q, 's, 'w) ui_env \<Rightarrow> string \<Rightarrow> string option \<Rightarrow> ('s, 'w) UiController \<Rightarrow> ('s, 'w) UiController" where
  "persist_current_config env component success_message c =
     (let config = st_config (uc_state c);
          c1 = c\<lparr>uc_diagnostics := update_config_summary config (uc_diagnostics c)\<rparr>;
          (saved, h) = save_active_config (ue_toml env) (uc_paths c1) config (uc_host c1);
          c2 = c1\<lparr>uc_host := h\<rparr>
      in case saved of
           Inr path \<Rightarrow>
             (case success_message of
                Some m \<Rightarrow> push_diagnostic Info component (m @ '' Saved to '' @ path @ ''.'') c2
              | None \<Rightarrow> c2)
         | Inl e \<Rightarrow> push_diagnostic Warning component
             (''Configuration could not be saved to '' @ ap_config_path (uc_paths c2) @ '': '' @ show_config_error e) c2)"

definition update_discovery_local_diagnostics ::
  "('q, 's, 'w) ui_env \<Rightarrow> LocalDiscoveryStatus \<Rightarrow> ('s, 'w) UiController \<Rightarrow> ('s, 'w) UiController" where
  "update_discovery_local_diagnostics env ld c =
     on_diagnostics (update_discovery_local_snapshot (ue_diag env)
       (if ux_discovery_started (uc_context c) then ''running'' else ''failed'')
       (Some (device_str (ld_device_id ld))) (dbg_device_status (ld_receiver_status ld))
       (map_option (\<lambda>e. show_addr (te_address e)) (ld_advertised_endpoint ld))
       (ld_last_advertised_unix_ms ld) (ld_last_error ld)) c"

definition sync_local_receiver_advertisement ::
  "('q, 's, 'w) ui_env \<Rightarrow> ('s, 'w) UiController \<Rightarrow> ('s, 'w) UiController" where
  "sync_local_receiver_advertisement env c =
     (let r = rt_snapshot (uc_receiver c); t = srv_snapshot (uc_receiver_transport c);
          last_error = or_else (srs_last_error t) (rsn_last_error r);
          (_, sv, w) = sync_receiver_advertisement (ue_mdns env)
            (rsn_state r \<noteq> ReceiverServiceState.Idle) (srs_active t)
            (if srs_active t then Some (srs_bind_addr t) else None)
            (rsn_connection r \<noteq> None \<or> srs_connected_peer t \<noteq> None)
            last_error (uc_discovery c) (uc_world c);
          c1 = c\<lparr>uc_discovery := sv, uc_world := w\<rparr>
      in update_discovery_local_diagnostics env (sv_local_status sv) c1)"

definition sync_browser_join_diagnostics ::
  "('q, 's, 'w) ui_env \<Rightarrow> ('s, 'w) UiController \<Rightarrow> BrowserJoinSnapshot \<times> ('s, 'w) UiController" where
  "sync_browser_join_diagnostics env c =
     (let n = js_snapshot (uc_browser_join c)
      in (n, on_diagnostics (update_browser_join_snapshot (ue_diag env) (bj_active n) (bj_join_url n)
               (bj_requests_served n) (bj_last_error n)) c))"

section \<open>Pages\<close>

text \<open>
  A list is rebuilt when its rows differ from those it was last built from; an empty list is
  cleared every time.
\<close>

definition refresh_list ::
  "('q, 's, 'w) ui_env \<Rightarrow> (UiRenderCache \<Rightarrow> 'r list) \<Rightarrow> ('r list \<Rightarrow> UiRenderCache \<Rightarrow> UiRenderCache)
    \<Rightarrow> 'r list \<Rightarrow> nat \<Rightarrow> ('s, 'w) UiController \<Rightarrow> ('s, 'w) UiController" where
  "refresh_list env get put rows n c =
     (if n = 0 then
        on_diagnostics (note_ui_list_render (ue_diag env) True 0)
          (c\<lparr>uc_render_cache := put [] (uc_render_cache c)\<rparr>)
      else if get (uc_render_cache c) \<noteq> rows then
        on_diagnostics (note_ui_list_render (ue_diag env) True n)
          (c\<lparr>uc_render_cache := put rows (uc_render_cache c)\<rparr>)
      else on_diagnostics (note_ui_list_render (ue_diag env) False n) c)"

definition refresh_dashboard :: "AppState \<Rightarrow> ('s, 'w) UiController \<Rightarrow> ('s, 'w) UiController" where
  "refresh_dashboard state c =
     (let s = st_streaming state in c\<lparr>uc_widgets := (uc_widgets c)\<lparr>uw_dashboard :=
       \<lparr>wd_session_row = ''Cast session '' @ dbg_cast_session (st_cast_session state) @ '', ''
          @ show_nat (active_target_count s) @ '' active target(s), local mirror ''
          @ dbg_mirror_state (lm_state (ss_local_mirror s)) @ ''.'',
        wd_discovery_row = show_nat (length (st_discovered_devices state)) @ '' device(s) discovered, ''
          @ show_nat (length (filter (\<lambda>d. supports_receiver (dd_capabilities d)) (st_discovered_devices state)))
          @ '' receiver-capable, discovery '' @ (if ux_discovery_started (uc_context c) then ''running'' else ''failed'')
          @ '' on '' @ ux_discovery_service_type (uc_context c) @ ''.'',
        wd_casting_row = ''Selected receiver: '' @ selected_receiver_label state @ ''. Healthy targets: ''
          @ show_nat (healthy_target_count s) @ '' of '' @ show_nat (active_target_count s) @ ''.'',
        wd_audio_row = ''Capture source: '' @ format_selected_audio_source state @ ''. Playback outputs: ''
          @ show_nat (length (st_playback_targets state)) @ '' total, ''
          @ show_nat (length (filter is_bluetooth (st_playback_targets state))) @ '' Bluetooth.'',
        wd_detail_label = format_dashboard_status state (ux_audio_backend_name (uc_context c))\<rparr>\<rparr>\<rparr>)"

definition refresh_discovery_page ::
  "('q, 's, 'w) ui_env \<Rightarrow> AppState \<Rightarrow> ('s, 'w) UiController \<Rightarrow> ('s, 'w) UiController" where
  "refresh_discovery_page env state c =
     (let c1 = c\<lparr>uc_widgets := (uc_widgets c)\<lparr>uw_discovery :=
            \<lparr>wv_summary_row = (if ux_discovery_started (uc_context c)
               then ''Listening for '' @ ux_discovery_service_type (uc_context c)
                 @ '' advertisements. Receiver-capable devices can be queued directly from this page.''
               else ''Discovery startup failed earlier. Existing cached devices can still be shown, ''
                 @ ''and the diagnostics page has the startup error.''),
             wv_device_list_visible = (st_discovered_devices state \<noteq> [])\<rparr>\<rparr>\<rparr>
      in refresh_list env rk_discovery_rows (\<lambda>rs. rk_discovery_rows_update (\<lambda>_. rs))
           (discovery_row_models state) (length (st_discovered_devices state)) c1)"

definition refresh_casting_page ::
  "('q, 's, 'w) ui_env \<Rightarrow> AppState \<Rightarrow> ('s, 'w) UiController \<Rightarrow> ('s, 'w) UiController" where
  "refresh_casting_page env state c =
     (let s = st_streaming state; l = ss_local_mirror s; a = cfg_audio (st_config state);
          target = ac_local_playback_target_id a; options = receiver_selector_options state;
          (rows, h1) = casting_target_row_models state (uc_host c);
          c1 = refresh_list env rk_casting_rows (\<lambda>rs. rk_casting_rows_update (\<lambda>_. rs))
            rows (length (ss_targets s)) (c\<lparr>uc_host := h1\<rparr>);
          (detail, h2) = format_streaming_status state (uc_host c1)
      in c1\<lparr>uc_host := h2, uc_widgets := (uc_widgets c1)\<lparr>uw_casting :=
           \<lparr>wc_receiver_options = options,
            wc_receiver_active = desired_receiver_selector_active_id state options,
            wc_local_output = playback_selector state target ''Local mirror output: system default'',
            wc_local_mirror_switch = ac_local_playback_enabled a,
            wc_session_row = dbg_session_state (ss_state s) @ '' with '' @ show_nat (active_target_count s)
              @ '' active target(s). Selected receiver: '' @ selected_receiver_label state @ ''.'',
            wc_mirror_row = ''Local mirror '' @ (if lm_desired_enabled l
                then ''desired as '' @ dbg_mirror_state (lm_state l) else ''disabled'')
              @ '' on '' @ format_selected_playback_target state target
              @ '' (available='' @ show_bool (local_playback_target_available state) @ '').'',
            wc_add_sensitive = (st_discovered_devices state \<noteq> []),
            wc_stop_all_sensitive = (active_target_count s > 0),
            wc_target_list_visible = (ss_targets s \<noteq> []), wc_detail_label = detail\<rparr>\<rparr>\<rparr>)"

definition refresh_audio_page ::
  "('q, 's, 'w) ui_env \<Rightarrow> AppState \<Rightarrow> ('s, 'w) UiController \<Rightarrow> ('s, 'w) UiController" where
  "refresh_audio_page env state c =
     (let config = st_config state;
          c1 = c\<lparr>uc_widgets := (uc_widgets c)\<lparr>uw_audio :=
            \<lparr>wa_source_entries = map (\<lambda>x. (as_id x, as_display_name x)) (st_audio_sources state),
             wa_source_active = or_else (st_selected_audio_source_id state)
               (map_option as_id (first_of (st_audio_sources state))),
             wa_source_sensitive = (ss_state (st_streaming state) = StreamSessionState.Idle),
             wa_current_source_row = format_selected_audio_source state
               @ ''. Changes require a fresh cast session once streaming has already started.'',
             wa_output_row = ''Sender mirror uses ''
               @ format_selected_playback_target state (ac_local_playback_target_id (cfg_audio config))
               @ ''. Receiver mode uses ''
               @ format_selected_playback_target state (rc_playback_target_id (cfg_receiver config)) @ ''.'',
             wa_source_list_visible = (st_audio_sources state \<noteq> []),
             wa_output_list_visible = (st_playback_targets state \<noteq> [])\<rparr>\<rparr>\<rparr>;
          c2 = refresh_list env rk_audio_source_rows (\<lambda>rs. rk_audio_source_rows_update (\<lambda>_. rs))
            (audio_source_row_models state) (length (st_audio_sources state)) c1
      in refresh_list env rk_audio_output_rows (\<lambda>rs. rk_audio_output_rows_update (\<lambda>_. rs))
           (playback_target_row_models state) (length (st_playback_targets state)) c2)"

definition refresh_receiver_page ::
  "('q, 's, 'w) ui_env \<Rightarrow> AppState \<Rightarrow> ('s, 'w) UiController \<Rightarrow> ('s, 'w) UiController" where
  "refresh_receiver_page env state c =
     (let n = dr_current (uc_diagnostics c); j = js_snapshot (uc_browser_join c); r = st_receiver state;
          config = cfg_receiver (st_config state); active = (rsn_state r \<noteq> ReceiverServiceState.Idle);
          (expires, h1) = (case bj_token_expires_at_unix_ms j of
             Some t \<Rightarrow> (let (age, h) = format_relative_age t (uc_host c) in (''Expires '' @ age, h))
           | None \<Rightarrow> (''Generate a link to start the host-side prototype.'', uc_host c));
          (renewal, h2) = age_or ''never'' (sd_last_advertised_unix_ms (sn_discovery n)) h1;
          (detail, h3) = format_receiver_status state n h2
      in c\<lparr>uc_host := h3, uc_widgets := (uc_widgets c)\<lparr>uw_receiver :=
           \<lparr>wr_output = playback_selector state (rc_playback_target_id config) ''Receiver output: system default'',
            wr_latency_active = latency_preset_id (rc_latency_preset config),
            wr_latency_sensitive = (\<not> active), wr_start_sensitive = (\<not> active), wr_stop_sensitive = active,
            wr_open_join_sensitive = (bj_join_url j \<noteq> None),
            wr_join_summary_row = or_text ''No browser join link generated yet'' (bj_join_url j)
              @ ''. Requests served: '' @ show_word (bj_requests_served j) @ ''. '' @ expires,
            wr_state_row = dbg_receiver_state (rsn_state r) @ '' on '' @ rsn_bind_host r @ '':''
              @ show_word (rsn_listen_port r) @ '' with '' @ format_latency_preset (rsn_latency_preset r)
              @ '' latency. Listener '' @ or_text ''not bound'' (sr_listener_bind_addr (sn_receiver n)) @ ''.'',
            wr_advertisement_row = or_unknown (sd_advertisement_state (sn_discovery n)) @ '' on ''
              @ or_text ''not advertised'' (sd_advertised_endpoint (sn_discovery n)) @ '', last renewal '' @ renewal
              @ '', error '' @ or_text ''none'' (sd_last_advertisement_error (sn_discovery n)) @ ''.'',
            wr_connection_row = (case rsn_connection r of
                Some i \<Rightarrow> ''Session '' @ ci_session_id i @ '' from ''
                  @ or_text ''unresolved peer'' (map_option show_addr (ci_remote_addr i)) @ '' at ''
                  @ show_word (sc_sample_rate_hz (ci_stream i)) @ '' Hz / '' @ show_word (sc_channels (ci_stream i))
                  @ '' ch, requested '' @ show_word (ci_requested_latency_ms i) @ '' ms.''
              | None \<Rightarrow> ''No active sender connection yet.''),
            wr_sync_row = dbg_sync_state (sy_state (rsn_sync r)) @ '', queued ''
              @ show_word (sy_queued_audio_ms (rsn_sync r)) @ '' ms, target ''
              @ show_word (sy_expected_output_latency_ms (rsn_sync r)) @ '' ms, late drops ''
              @ show_word (sy_late_packet_drops (rsn_sync r)) @ '', sync resets ''
              @ show_word (sy_sync_resets (rsn_sync r)) @ ''.'',
            wr_detail_label = detail\<rparr>\<rparr>\<rparr>)"

definition level_count :: "DiagnosticLevel \<Rightarrow> AppState \<Rightarrow> nat" where
  "level_count level state = length (filter (\<lambda>e. de_level e = level) (st_diagnostics state))"

definition refresh_diagnostics_page ::
  "('q, 's, 'w) ui_env \<Rightarrow> AppState \<Rightarrow> StructuredLogEntry list \<Rightarrow> ('s, 'w) UiController \<Rightarrow> ('s, 'w) UiController" where
  "refresh_diagnostics_page env state logs c =
     (let c1 = c\<lparr>uc_widgets := (uc_widgets c)\<lparr>uw_diagnostics :=
            \<lparr>wg_summary_row = show_nat (level_count Info state) @ '' info, '' @ show_nat (level_count Warning state)
               @ '' warning, '' @ show_nat (level_count DiagnosticLevel.Error state)
               @ '' error event(s). Newest events appear first.'',
             wg_log_summary_row = show_nat (length logs) @ '' structured log entr''
               @ (if length logs = 1 then ''y'' else ''ies'') @ '' in memory. Log file: ''
               @ ap_log_path (uc_paths c) @ ''.'',
             wg_list_visible = (st_diagnostics state \<noteq> []), wg_log_list_visible = (logs \<noteq> [])\<rparr>\<rparr>\<rparr>;
          c2 = refresh_list env rk_diagnostics_rows (\<lambda>rs. rk_diagnostics_rows_update (\<lambda>_. rs))
            (diagnostic_row_models state) (min (length (st_diagnostics state)) 60) c1
      in refresh_list env rk_log_rows (\<lambda>rs. rk_log_rows_update (\<lambda>_. rs)) (log_row_models logs) (length logs) c2)"

definition enabled_text :: "bool \<Rightarrow> string" where
  "enabled_text b = (if b then ''enabled'' else ''disabled'')"

definition refresh_settings_page :: "AppState \<Rightarrow> ('s, 'w) UiController \<Rightarrow> ('s, 'w) UiController" where
  "refresh_settings_page state c =
     (let config = st_config state; paths = uc_paths c;
          dark = ui_prefer_dark_theme (cfg_ui config); verbose = dg_verbose_logging (cfg_diagnostics config);
          auto_start = rc_start_on_launch (cfg_receiver config); schema = show_word (cfg_schema_version config)
      in c\<lparr>uc_widgets := (uc_widgets c)\<lparr>uw_settings :=
           \<lparr>ws_quality_active = quality_preset_id (tc_quality (cfg_transport config)), ws_theme_switch = dark,
            ws_verbose_logging_switch = verbose, ws_start_on_launch_switch = auto_start,
            ws_summary_row = ''Schema v'' @ schema @ ''. Quality preset: ''
              @ format_quality_preset (tc_quality (cfg_transport config))
              @ ''. Theme: '' @ (if dark then ''prefer dark'' else ''follow system'')
              @ ''. Verbose logging next launch: '' @ enabled_text verbose
              @ ''. Receiver auto-start: '' @ enabled_text auto_start @ ''.'',
            ws_config_dir_row = ap_config_dir paths @ '' (base directory, override with SYNCHROSONIC_CONFIG_DIR)'',
            ws_state_dir_row = ap_state_dir paths @ '' (base directory, override with SYNCHROSONIC_STATE_DIR)'',
            ws_config_path_row = ap_config_path paths @ '' (active settings, schema v'' @ schema @ '')'',
            ws_portable_config_row = ap_portable_config_path paths @ '' (import/export target)'',
            ws_log_path_row = ap_log_path paths @ '' (structured JSON lines)'',
            ws_note_row = ''Settings save automatically. Theme changes apply immediately, audio/cast preferences apply ''
              @ ''safely to the current or next session as supported, and verbose logging changes take effect on the next launch.''\<rparr>\<rparr>\<rparr>)"

section \<open>Refreshing the window\<close>

definition duplicate_refresh ::
  "AppState \<Rightarrow> StructuredLogEntry list \<Rightarrow> string \<Rightarrow> BrowserJoinSnapshot \<Rightarrow> UiRenderCache \<Rightarrow> bool" where
  "duplicate_refresh state logs view join_snapshot cache \<longleftrightarrow>
     rk_last_state cache = Some state \<and> rk_last_logs cache = logs \<and> rk_last_view_name cache = Some view
     \<and> rk_last_browser_join_snapshot cache = Some join_snapshot"

definition refresh_pages ::
  "('q, 's, 'w) ui_env \<Rightarrow> AppState \<Rightarrow> StructuredLogEntry list \<Rightarrow> ('s, 'w) UiController \<Rightarrow> ('s, 'w) UiController" where
  "refresh_pages env state logs c =
     refresh_settings_page state
       (refresh_diagnostics_page env state logs
         (refresh_receiver_page env state
           (refresh_audio_page env state
             (refresh_casting_page env state
               (refresh_discovery_page env state
                 (refresh_dashboard state c))))))"

definition drain_into_state :: "('s, 'w) UiController \<Rightarrow> ('s, 'w) UiController" where
  "drain_into_state c =
     (let (pending, dr) = drain_pending_events (uc_diagnostics c)
      in upd_state (\<lambda>s. s\<lparr>st_diagnostics := st_diagnostics s @ pending\<rparr>) (c\<lparr>uc_diagnostics := dr\<rparr>))"

definition refresh_ui ::
  "('q, 's, 'w) ui_env \<Rightarrow> ('s, 'w) UiController \<Rightarrow> ('s, 'w) UiController" where
  "refresh_ui env c =
     (let c1 = drain_into_state c; state = uc_state c1; logs = snapshot_recent 60 (uc_log_store c1);
          view = or_text ''dashboard'' (uc_visible c1);
          (join_snapshot, c2) = sync_browser_join_diagnostics env c1
      in if duplicate_refresh state logs view join_snapshot (uc_render_cache c2) then
           on_diagnostics (note_ui_refresh (ue_diag env) False) c2
         else
           (let c3 = on_diagnostics (note_ui_refresh (ue_diag env) True) c2;
                c4 = on_diagnostics (update_snapshot_from_state (ue_diag env) state
                  \<lparr>rv_current_view_name = view, rv_discovery_started = ux_discovery_started (uc_context c3)\<rparr>) c3;
                c5 = refresh_pages env state logs c4
            in c5\<lparr>uc_render_cache := (uc_render_cache c5)
                 \<lparr>rk_last_state := Some state, rk_last_logs := logs, rk_last_view_name := Some view,
                  rk_last_browser_join_snapshot := Some join_snapshot\<rparr>\<rparr>))"

end
