(* ===== verification/Ui_Actions.thy ===== *)
theory Ui_Actions
  imports Ui_Controller
begin

text \<open>
  The callbacks of \<open>synchrosonic-app/src/ui.rs\<close>: navigation, casting, the receiver mode, the
  selectors and switches, the settings, the diagnostics page and the browser join link. The id
  of the active entry of a selector, and the position of a switch, are arguments. The signals
  that a refresh may make the widgets emit are not part of it: each signal is a call of its
  callback.
\<close>

section \<open>Navigation\<close>

definition visible_child_changed ::
  "('q, 's, 'w) ui_env \<Rightarrow> ('s, 'w) UiController \<Rightarrow> ('s, 'w) UiController" where
  "visible_child_changed env c =
     (case uc_visible c of
        None \<Rightarrow> c
      | Some page \<Rightarrow>
          (if ui_last_view_name (cfg_ui (st_config (uc_state c))) = page then c
           else persist_current_config env ''settings'' None (upd_state (set_last_view_name page) c)))"

text \<open>The stack notifies when another page becomes visible.\<close>

definition set_visible_child_name ::
  "('q, 's, 'w) ui_env \<Rightarrow> string \<Rightarrow> ('s, 'w) UiController \<Rightarrow> ('s, 'w) UiController" where
  "set_visible_child_name env page c =
     (if uc_visible c = Some page then c
      else visible_child_changed env (c\<lparr>uc_visible := Some page\<rparr>))"

definition restore_visible_page ::
  "('q, 's, 'w) ui_env \<Rightarrow> string \<Rightarrow> ('s, 'w) UiController \<Rightarrow> ('s, 'w) UiController" where
  "restore_visible_page env page_name c =
     set_visible_child_name env (if is_known_view_name page_name then page_name else ''dashboard'') c"

section \<open>Casting\<close>

definition queue_receiver_device_for_cast ::
  "('q, 's, 'w) ui_env \<Rightarrow> DiscoveredDevice \<Rightarrow> ('s, 'w) UiController \<Rightarrow> ('s, 'w) UiController" where
  "queue_receiver_device_for_cast env d c =
     (if \<not> is_receiver_connectable d then
        refresh_ui env (push_diagnostic Warning ''streaming''
          (''Selected receiver '' @ dd_display_name d @ '' is not connectable yet: status=''
           @ dbg_device_status (dd_status d) @ '', availability='' @ dbg_availability (dd_availability d) @ ''.'') c)
      else (case dd_endpoint d of
          None \<Rightarrow> refresh_ui env (push_diagnostic Warning ''streaming''
            ''Selected receiver does not expose a transport endpoint yet.'' c)
        | Some endpoint \<Rightarrow>
            (let target = \<lparr>st_receiver_id = dd_id d, st_receiver_name = dd_display_name d,
                   st_endpoint = te_address endpoint\<rparr>;
                 (now, h) = (if hs_control_tx (uc_sender c) = None then clock_now (uc_host c) else (0, uc_host c));
                 (result, sender) = (case session_start (ue_channels env)
                     (capture_settings (cfg_audio (st_config (uc_state c)))) target
                     (rsn_advertised_name (st_receiver (uc_state c))) now (uc_sender c)
                     :: (TransportError + unit) \<times> (('q, unit) SenderManager \<times> SenderTarget) option \<times> LanSenderSession
                   of (r, _, s) \<Rightarrow> (r, s));
                 snapshot = hs_snapshot sender;
                 c1 = upd_state (\<lambda>s. apply_streaming_snapshot snapshot (snd (select_receiver_device (dd_id d) s)))
                   (c\<lparr>uc_host := h, uc_sender := sender\<rparr>)
             in refresh_ui env (case result of
                  Inr _ \<Rightarrow> push_diagnostic Info ''streaming''
                    (''Queued receiver target '' @ dd_display_name d @ '' at '' @ show_addr (te_address endpoint)
                     @ ''. Active targets: '' @ show_nat (active_target_count snapshot) @ ''.'') c1
                | Inl e \<Rightarrow> push_diagnostic DiagnosticLevel.Error ''streaming''
                    (''Failed to start or extend the cast session: '' @ show_transport_error e) c1))))"

definition queue_selected_receiver_for_cast ::
  "('q, 's, 'w) ui_env \<Rightarrow> string option \<Rightarrow> ('s, 'w) UiController \<Rightarrow> ('s, 'w) UiController" where
  "queue_selected_receiver_for_cast env active_id c =
     (case active_id of
        None \<Rightarrow> refresh_ui env (push_diagnostic Warning ''streaming''
          ''Select a receiver before adding it to the cast.'' c)
      | Some i \<Rightarrow>
          (case find_receiver_device (uc_state c) i of
             Some d \<Rightarrow> queue_receiver_device_for_cast env d c
           | None \<Rightarrow> refresh_ui env (push_diagnostic Warning ''streaming''
               ''The selected receiver is no longer in a reachable receiver-listening state.'' c)))"

definition remove_target_from_cast ::
  "('q, 's, 'w) ui_env \<Rightarrow> DeviceId \<Rightarrow> ('s, 'w) UiController \<Rightarrow> ('s, 'w) UiController" where
  "remove_target_from_cast env device_id c =
     (let (result, sender) = session_stop_target device_id (uc_sender c);
          c1 = upd_state (apply_streaming_snapshot (hs_snapshot sender)) (c\<lparr>uc_sender := sender\<rparr>)
      in refresh_ui env (case result of
           Inr _ \<Rightarrow> push_diagnostic Info ''streaming''
             (''Removed receiver target '' @ device_str device_id @ '' from the active cast.'') c1
         | Inl e \<Rightarrow> push_diagnostic DiagnosticLevel.Error ''streaming''
             (''Failed to remove receiver target '' @ device_str device_id @ '': '' @ show_transport_error e) c1))"

definition stop_all_casting ::
  "('q, 's, 'w) ui_env \<Rightarrow> ('s, 'w) UiController \<Rightarrow> ('s, 'w) UiController" where
  "stop_all_casting env c =
     (let (panicked, w) = ue_manager_panicked env (uc_world c);
          (result, sender) = session_stop panicked (uc_sender c);
          c1 = upd_state (apply_streaming_snapshot (hs_snapshot sender)) (c\<lparr>uc_sender := sender, uc_world := w\<rparr>)
      in refresh_ui env (case result of
           Inr _ \<Rightarrow> push_diagnostic Info ''streaming''
             ''Stopped the sender session manager and released all cast targets.'' c1
         | Inl e \<Rightarrow> push_diagnostic DiagnosticLevel.Error ''streaming''
             (''Failed to stop the sender session manager: '' @ show_transport_error e) c1))"

definition receiver_selector_changed ::
  "('q, 's, 'w) ui_env \<Rightarrow> bool \<Rightarrow> string option \<Rightarrow> ('s, 'w) UiController \<Rightarrow> ('s, 'w) UiController" where
  "receiver_selector_changed env refreshing active_id c =
     (if refreshing then c
      else (case active_id of
          None \<Rightarrow> c
        | Some i \<Rightarrow>
            (if map_option device_str (st_selected_receiver_device_id (uc_state c)) = Some i then c
             else (let (changed, s) = select_receiver_device (DeviceId i) (uc_state c)
                   in if \<not> changed then c else refresh_ui env (c\<lparr>uc_state := s\<rparr>)))))"

definition session_idle :: "('s, 'w) UiController \<Rightarrow> bool" where
  "session_idle c \<longleftrightarrow> ss_state (st_streaming (uc_state c)) = StreamSessionState.Idle"

definition local_mirror_toggled ::
  "('q, 's, 'w) ui_env \<Rightarrow> bool \<Rightarrow> ('s, 'w) UiController \<Rightarrow> ('s, 'w) UiController" where
  "local_mirror_toggled env enabled c =
     (let (result, sender) = session_set_local_playback_enabled enabled (uc_sender c);
          c1 = upd_state (\<lambda>s. apply_streaming_snapshot (hs_snapshot sender) (set_local_playback_enabled enabled s))
            (c\<lparr>uc_sender := sender\<rparr>);
          c2 = (case result of
             Inr _ \<Rightarrow> push_diagnostic Info ''streaming''
               (''Local playback mirror '' @ enabled_text enabled @ '' for the ''
                @ (if session_idle c1 then ''next cast session'' else ''active cast session'') @ ''.'') c1
           | Inl e \<Rightarrow> push_diagnostic DiagnosticLevel.Error ''streaming''
               (''Failed to update local playback mirror: '' @ show_transport_error e) c1)
      in refresh_ui env (persist_current_config env ''streaming'' None c2))"

definition local_output_changed ::
  "('q, 's, 'w) ui_env \<Rightarrow> string option \<Rightarrow> ('s, 'w) UiController \<Rightarrow> ('s, 'w) UiController" where
  "local_output_changed env active_id c =
     (let target_id = Option.bind active_id playback_target_id_from_selection
      in if ac_local_playback_target_id (cfg_audio (st_config (uc_state c))) = target_id then c
         else
           (let (result, sender) = set_local_playback_target target_id (uc_sender c);
                c1 = upd_state (\<lambda>s. apply_streaming_snapshot (hs_snapshot sender) (select_local_playback_target target_id s))
                  (c\<lparr>uc_sender := sender\<rparr>);
                c2 = (case result of
                   Inr _ \<Rightarrow> push_diagnostic Info ''streaming''
                     (''Local mirror output target set to '' @ format_selected_playback_target (uc_state c1)
                        (ac_local_playback_target_id (cfg_audio (st_config (uc_state c1)))) @ ''.'') c1
                 | Inl e \<Rightarrow> push_diagnostic Warning ''streaming''
                     (''Failed to update local mirror output target: '' @ show_transport_error e) c1)
            in refresh_ui env (persist_current_config env ''streaming'' None c2)))"

section \<open>The capture source\<close>

definition audio_source_changed ::
  "('q, 's, 'w) ui_env \<Rightarrow> string option \<Rightarrow> ('s, 'w) UiController \<Rightarrow> ('s, 'w) UiController" where
  "audio_source_changed env active_id c =
     (case active_id of
        None \<Rightarrow> c
      | Some i \<Rightarrow>
          (if st_selected_audio_source_id (uc_state c) = Some i then c
           else (let (changed, s) = select_audio_source i (uc_state c)
                 in if \<not> changed then c
                    else (let c1 = c\<lparr>uc_state := s\<rparr>
                          in refresh_ui env (persist_current_config env ''audio'' None
                               (push_diagnostic Info ''audio''
                                 (''Capture source set to '' @ format_selected_audio_source s @ '' for ''
                                  @ (if session_idle c1 then ''next cast session''
                                     else ''a future cast after the current session stops'') @ ''.'') c1))))))"

section \<open>Receiver mode\<close>

definition start_receiver_mode ::
  "('q, 's, 'w) ui_env \<Rightarrow> ('s, 'w) UiController \<Rightarrow> ('s, 'w) UiController" where
  "start_receiver_mode env c =
     (case runtime_start (uc_receiver c) of
        (Inl e, rt) \<Rightarrow>
          refresh_ui env (sync_local_receiver_advertisement env
            (push_diagnostic DiagnosticLevel.Error ''receiver''
              (''Failed to start receiver mode: '' @ show_receiver_error e) (c\<lparr>uc_receiver := rt\<rparr>)))
      | (Inr _, rt) \<Rightarrow>
          (let srv = uc_receiver_transport c;
               (outcome, w) = (if srv_stop_tx srv then (Bound (srv_bind_addr srv), uc_world c)
                               else ue_bind env (srv_bind_addr srv) (uc_world c))
           in case server_start outcome srv of
                (Inl e, srv1) \<Rightarrow>
                  (let (_, rt1, w1) = runtime_stop (ue_playback env) rt w
                   in refresh_ui env (sync_local_receiver_advertisement env
                        (push_diagnostic DiagnosticLevel.Error ''receiver''
                          (''Receiver transport listener failed to start: '' @ show_transport_error e)
                          (c\<lparr>uc_receiver := rt1, uc_receiver_transport := srv1, uc_world := w1\<rparr>))))
              | (Inr _, srv1) \<Rightarrow>
                  (let n = rt_snapshot rt;
                       c1 = upd_state (apply_receiver_snapshot n)
                         (c\<lparr>uc_receiver := rt, uc_receiver_transport := srv1, uc_world := w\<rparr>)
                   in refresh_ui env (sync_local_receiver_advertisement env
                        (push_diagnostic Info ''receiver''
                          (''Receiver mode listening on '' @ rsn_bind_host n @ '':'' @ show_word (rsn_listen_port n)
                           @ '' with '' @ format_latency_preset (rsn_latency_preset n) @ '' latency preset.'') c1)))))"

definition stop_receiver_mode ::
  "('q, 's, 'w) ui_env \<Rightarrow> ('s, 'w) UiController \<Rightarrow> ('s, 'w) UiController" where
  "stop_receiver_mode env c =
     (let ((sent, joined), w) = ue_transport_join env (uc_world c);
          (stopped, srv) = server_stop sent joined (uc_receiver_transport c);
          (result, rt, w1) = runtime_stop (ue_playback env) (uc_receiver c) w;
          c1 = upd_state (apply_receiver_snapshot (rt_snapshot rt))
            (c\<lparr>uc_receiver_transport := srv, uc_receiver := rt, uc_world := w1\<rparr>);
          c2 = (case stopped of
             Inl e \<Rightarrow> push_diagnostic Warning ''receiver''
               (''Receiver transport stop reported: '' @ show_transport_error e) c1
           | Inr _ \<Rightarrow> c1);
          c3 = (case result of
             Inr _ \<Rightarrow> push_diagnostic Info ''receiver''
               ''Receiver mode stopped and released its playback and transport resources.'' c2
           | Inl e \<Rightarrow> push_diagnostic DiagnosticLevel.Error ''receiver''
               (''Failed to stop receiver mode: '' @ show_receiver_error e) c2)
      in refresh_ui env (sync_local_receiver_advertisement env c3))"

definition receiver_output_changed ::
  "('q, 's, 'w) ui_env \<Rightarrow> string option \<Rightarrow> ('s, 'w) UiController \<Rightarrow> ('s, 'w) UiController" where
  "receiver_output_changed env active_id c =
     (let target_id = Option.bind active_id playback_target_id_from_selection
      in if rc_playback_target_id (cfg_receiver (st_config (uc_state c))) = target_id then c
         else
           (let (result, rt) = runtime_set_playback_target target_id (uc_receiver c);
                c1 = upd_state (\<lambda>s. apply_receiver_snapshot (rt_snapshot rt) (select_receiver_playback_target target_id s))
                  (c\<lparr>uc_receiver := rt\<rparr>);
                c2 = (case result of
                   Inr _ \<Rightarrow> push_diagnostic Info ''receiver''
                     (''Receiver output target set to '' @ format_selected_playback_target (uc_state c1)
                        (rc_playback_target_id (cfg_receiver (st_config (uc_state c1)))) @ '' for the ''
                      @ (if rsn_state (st_receiver (uc_state c1))
                            \<in> {ReceiverServiceState.Connected, Buffering, Playing}
                         then ''active receiver playback'' else ''next receiver playback session'') @ ''.'') c1
                 | Inl e \<Rightarrow> push_diagnostic Warning ''receiver''
                     (''Failed to update receiver playback target: '' @ show_receiver_error e) c1)
            in refresh_ui env (persist_current_config env ''receiver'' None c2)))"

definition latency_changed ::
  "('q, 's, 'w) ui_env \<Rightarrow> string option \<Rightarrow> ('s, 'w) UiController \<Rightarrow> ('s, 'w) UiController" where
  "latency_changed env active_id c =
     (case Option.bind active_id latency_preset_from_id of
        None \<Rightarrow> c
      | Some preset \<Rightarrow>
          (if rc_latency_preset (cfg_receiver (st_config (uc_state c))) = preset then c
           else
             (let (result, rt) = runtime_set_latency_preset preset (uc_receiver c);
                  c1 = upd_state (\<lambda>s. apply_receiver_snapshot (rt_snapshot rt) (set_receiver_latency_preset preset s))
                    (c\<lparr>uc_receiver := rt\<rparr>);
                  c2 = (case result of
                     Inr _ \<Rightarrow> push_diagnostic Info ''receiver''
                       (''Receiver latency preset set to '' @ format_latency_preset preset @ ''.'') c1
                   | Inl e \<Rightarrow> push_diagnostic Warning ''receiver''
                       (''Failed to change receiver latency preset: '' @ show_receiver_error e) c1)
              in refresh_ui env (persist_current_config env ''receiver'' None c2))))"

section \<open>Settings\<close>

definition quality_changed ::
  "('q, 's, 'w) ui_env \<Rightarrow> string option \<Rightarrow> ('s, 'w) UiController \<Rightarrow> ('s, 'w) UiController" where
  "quality_changed env active_id c =
     (case Option.bind active_id quality_preset_from_id of
        None \<Rightarrow> c
      | Some preset \<Rightarrow>
          (if tc_quality (cfg_transport (st_config (uc_state c))) = preset then c
           else
             (let (result, sender) = session_set_quality_preset preset (uc_sender c);
                  c1 = upd_state (set_transport_quality preset) (c\<lparr>uc_sender := sender\<rparr>);
                  c2 = (case result of
                     Inr _ \<Rightarrow> push_diagnostic Info ''settings''
                       (''Sender quality preset set to '' @ format_quality_preset preset @ '' for ''
                        @ (if session_idle c1 then ''next cast session''
                           else ''newly added targets and future cast sessions'') @ ''.'') c1
                   | Inl e \<Rightarrow> push_diagnostic Warning ''settings''
                       (''Failed to change sender quality preset: '' @ show_transport_error e) c1)
              in refresh_ui env (persist_current_config env ''settings'' None c2))))"

definition apply_color_scheme :: "bool \<Rightarrow> ('s, 'w) UiController \<Rightarrow> ('s, 'w) UiController" where
  "apply_color_scheme dark c = c\<lparr>uc_widgets := (uc_widgets c)\<lparr>uw_dark_theme := dark\<rparr>\<rparr>"

definition setting_changed ::
  "('q, 's, 'w) ui_env \<Rightarrow> (AppState \<Rightarrow> AppState) \<Rightarrow> string \<Rightarrow> ('s, 'w) UiController \<Rightarrow> ('s, 'w) UiController" where
  "setting_changed env f message c =
     refresh_ui env (persist_current_config env ''settings'' None
       (push_diagnostic Info ''settings'' message (upd_state f c)))"

definition theme_toggled ::
  "('q, 's, 'w) ui_env \<Rightarrow> bool \<Rightarrow> ('s, 'w) UiController \<Rightarrow> ('s, 'w) UiController" where
  "theme_toggled env dark c =
     setting_changed env (set_prefer_dark_theme dark)
       (''Theme preference set to '' @ (if dark then ''prefer dark'' else ''follow system default'') @ ''.'')
       (apply_color_scheme dark c)"

definition verbose_logging_toggled ::
  "('q, 's, 'w) ui_env \<Rightarrow> bool \<Rightarrow> ('s, 'w) UiController \<Rightarrow> ('s, 'w) UiController" where
  "verbose_logging_toggled env verbose c =
     setting_changed env (set_verbose_logging verbose)
       (''Verbose logging was set to '' @ enabled_text verbose @ '' and will apply on the next app launch.'') c"

definition start_on_launch_toggled ::
  "('q, 's, 'w) ui_env \<Rightarrow> bool \<Rightarrow> ('s, 'w) UiController \<Rightarrow> ('s, 'w) UiController" where
  "start_on_launch_toggled env start_on_launch c =
     setting_changed env (set_receiver_start_on_launch start_on_launch)
       (''Receiver auto-start on launch is now '' @ enabled_text start_on_launch @ ''.'') c"

definition export_clicked ::
  "('q, 's, 'w) ui_env \<Rightarrow> ('s, 'w) UiController \<Rightarrow> ('s, 'w) UiController" where
  "export_clicked env c =
     (let (result, h) = export_config (ue_toml env) (uc_paths c) (st_config (uc_state c)) (uc_host c);
          c1 = c\<lparr>uc_host := h\<rparr>
      in refresh_ui env (case result of
           Inr path \<Rightarrow> push_diagnostic Info ''settings''
             (''Exported a portable configuration snapshot to '' @ path @ ''.'') c1
         | Inl e \<Rightarrow> push_diagnostic Warning ''settings''
             (''Portable configuration export to '' @ ap_portable_config_path (uc_paths c1) @ '' failed: ''
              @ show_config_error e) c1))"

text \<open>What an import could not apply at once: a warning for each failure.\<close>

definition warn_failed ::
  "('e \<Rightarrow> string) \<Rightarrow> 'e + unit \<Rightarrow> string \<Rightarrow> ('s, 'w) UiController \<Rightarrow> ('s, 'w) UiController" where
  "warn_failed text result message c =
     (case result of Inr _ \<Rightarrow> c | Inl e \<Rightarrow> push_diagnostic Warning ''settings'' (message @ '': '' @ text e) c)"

definition imported_state ::
  "AppConfig \<Rightarrow> StreamSessionSnapshot \<Rightarrow> ReceiverSnapshot \<Rightarrow> AppState \<Rightarrow> AppState" where
  "imported_state config sender_snapshot receiver_snapshot s =
     set_last_view_name (ui_last_view_name (cfg_ui config))
       (set_receiver_start_on_launch (rc_start_on_launch (cfg_receiver config))
         (apply_receiver_snapshot receiver_snapshot
           (apply_streaming_snapshot sender_snapshot
             (set_audio_sources (st_audio_sources s)
               (s\<lparr>st_config := config, st_selected_audio_source_id := ac_preferred_source_id (cfg_audio config)\<rparr>)))))"

definition apply_imported_config ::
  "('q, 's, 'w) ui_env \<Rightarrow> ConfigLoadReport \<Rightarrow> ('s, 'w) UiController \<Rightarrow> ('s, 'w) UiController" where
  "apply_imported_config env report c =
     (let config = clr_config report;
          c1 = apply_color_scheme (ui_prefer_dark_theme (cfg_ui config)) c;
          (quality_result, s1) = session_set_quality_preset (tc_quality (cfg_transport config)) (uc_sender c1);
          (target_result, s2) = set_local_playback_target (ac_local_playback_target_id (cfg_audio config)) s1;
          (enabled_result, s3) = session_set_local_playback_enabled (ac_local_playback_enabled (cfg_audio config)) s2;
          (receiver_target_result, r1) = runtime_set_playback_target (rc_playback_target_id (cfg_receiver config)) (uc_receiver c1);
          (latency_result, r2) = runtime_set_latency_preset (rc_latency_preset (cfg_receiver config)) r1;
          c2 = upd_state (imported_state config (hs_snapshot s3) (rt_snapshot r2)) (c1\<lparr>uc_sender := s3, uc_receiver := r2\<rparr>);
          c3 = push_diagnostic Info ''settings''
            (''Imported portable configuration from '' @ ap_portable_config_path (uc_paths c2) @ ''.'') c2;
          c4 = fold (push_diagnostic Warning ''settings'') (clr_warnings report) c3;
          c5 = warn_failed show_transport_error quality_result
            ''Imported sender quality preset could not be applied immediately'' c4;
          c6 = warn_failed show_transport_error target_result
            ''Imported local playback target could not be applied immediately'' c5;
          c7 = warn_failed show_transport_error enabled_result
            ''Imported local mirror state could not be applied immediately'' c6;
          c8 = warn_failed show_receiver_error receiver_target_result
            ''Imported receiver playback target could not be applied immediately'' c7;
          c9 = warn_failed show_receiver_error latency_result
            ''Imported receiver latency preset will apply on a later receiver start'' c8
      in refresh_ui env
           (persist_current_config env ''settings''
             (Some ''Portable configuration became the active saved configuration.'')
             (restore_visible_page env (ui_last_view_name (cfg_ui config)) c9)))"

definition import_clicked ::
  "('q, 's, 'w) ui_env \<Rightarrow> ('s, 'w) UiController \<Rightarrow> ('s, 'w) UiController" where
  "import_clicked env c =
     (case import_config (ue_toml env) (uc_paths c) (uc_host c) of
        (Inr report, h) \<Rightarrow> apply_imported_config env report (c\<lparr>uc_host := h\<rparr>)
      | (Inl e, h) \<Rightarrow> refresh_ui env (push_diagnostic Warning ''settings''
          (''Portable configuration import from '' @ ap_portable_config_path (uc_paths c) @ '' failed: ''
           @ show_config_error e) (c\<lparr>uc_host := h\<rparr>)))"

section \<open>The diagnostics page\<close>

definition with_world :: "('w \<Rightarrow> 'a \<times> 'w) \<Rightarrow> ('s, 'w) UiController \<Rightarrow> 'a \<times> ('s, 'w) UiController" where
  "with_world f c = (let (r, w) = f (uc_world c) in (r, c\<lparr>uc_world := w\<rparr>))"

definition copy_diagnostics_clicked ::
  "('q, 's, 'w) ui_env \<Rightarrow> ('s, 'w) UiController \<Rightarrow> ('s, 'w) UiController" where
  "copy_diagnostics_clicked env c =
     (let (report, h) = build_compact_diagnostics_report (ue_diag env) (uc_state c) (uc_paths c)
            (uc_diagnostics c) (uc_host c);
          (copied, c1) = with_world (ue_copy env report) (c\<lparr>uc_host := h\<rparr>)
      in refresh_ui env (case copied of
           Inr _ \<Rightarrow> push_diagnostic Info ''diagnostics'' ''Copied the current diagnostics summary to the clipboard.'' c1
         | Inl e \<Rightarrow> push_diagnostic Warning ''diagnostics'' (''Copying diagnostics to the clipboard failed: '' @ e) c1))"

definition export_bundle_clicked ::
  "('q, 's, 'w) ui_env \<Rightarrow> ('s, 'w) UiController \<Rightarrow> ('s, 'w) UiController" where
  "export_bundle_clicked env c =
     (let (result, dr, h) = export_diagnostic_bundle (ue_diag env) (ue_lister env) (ue_pack env) (uc_state c)
            (uc_diagnostics c) (uc_host c);
          c1 = c\<lparr>uc_diagnostics := dr, uc_host := h\<rparr>
      in refresh_ui env (case result of
           Inr (path, _) \<Rightarrow> push_diagnostic Info ''diagnostics'' (''Exported a diagnostic bundle to '' @ path @ ''.'') c1
         | Inl e \<Rightarrow> push_diagnostic DiagnosticLevel.Error ''diagnostics''
             (''Diagnostic bundle export failed: '' @ err_text e) c1))"

definition open_folder_clicked ::
  "('q, 's, 'w) ui_env \<Rightarrow> string \<Rightarrow> string \<Rightarrow> ('s, 'w) UiController \<Rightarrow> ('s, 'w) UiController" where
  "open_folder_clicked env name path c =
     (let (opened, c1) = with_world (ue_open env (ue_path_uri env path)) c
      in refresh_ui env (case opened of
           Inr _ \<Rightarrow> push_diagnostic Info ''diagnostics'' (''Opened the '' @ name @ '' folder at '' @ path @ ''.'') c1
         | Inl e \<Rightarrow> push_diagnostic Warning ''diagnostics''
             (''Opening the '' @ name @ '' folder '' @ path @ '' failed: '' @ e) c1))"

definition open_diagnostics_clicked ::
  "('q, 's, 'w) ui_env \<Rightarrow> ('s, 'w) UiController \<Rightarrow> ('s, 'w) UiController" where
  "open_diagnostics_clicked env c = open_folder_clicked env ''diagnostics'' (ap_diagnostics_dir (uc_paths c)) c"

definition open_crash_reports_clicked ::
  "('q, 's, 'w) ui_env \<Rightarrow> ('s, 'w) UiController \<Rightarrow> ('s, 'w) UiController" where
  "open_crash_reports_clicked env c = open_folder_clicked env ''crash reports'' (ap_crash_reports_dir (uc_paths c)) c"

definition copy_latest_crash_clicked ::
  "('q, 's, 'w) ui_env \<Rightarrow> ('s, 'w) UiController \<Rightarrow> ('s, 'w) UiController" where
  "copy_latest_crash_clicked env c =
     (case latest_crash_report_text (ue_lister env) (uc_diagnostics c) (uc_host c) of
        (None, h) \<Rightarrow> refresh_ui env (push_diagnostic Warning ''diagnostics'' ''No crash reports are available yet.''
          (c\<lparr>uc_host := h\<rparr>))
      | (Some report, h) \<Rightarrow>
          (let (copied, c1) = with_world (ue_copy env report) (c\<lparr>uc_host := h\<rparr>)
           in refresh_ui env (case copied of
                Inr _ \<Rightarrow> push_diagnostic Info ''diagnostics'' ''Copied the latest crash report to the clipboard.'' c1
              | Inl e \<Rightarrow> push_diagnostic Warning ''diagnostics'' (''Copying the latest crash report failed: '' @ e) c1)))"

definition clear_clicked ::
  "('q, 's, 'w) ui_env \<Rightarrow> ('s, 'w) UiController \<Rightarrow> ('s, 'w) UiController" where
  "clear_clicked env c = refresh_ui env (upd_state clear_diagnostics c)"

text \<open>A callback that panicked: the unwinding keeps what it had changed.\<close>

definition callback_panicked ::
  "('q, 's, 'w) ui_env \<Rightarrow> string \<Rightarrow> panic_payload \<Rightarrow> ('s, 'w) UiController \<Rightarrow> ('s, 'w) UiController" where
  "callback_panicked env name payload c =
     (let (now, h) = clock_now (uc_host c)
      in refresh_ui env (c\<lparr>uc_host := h, uc_diagnostics := queue_diagnostic_event
           (diagnostic DiagnosticLevel.Error now ''ui''
             (''UI callback '' @ name @ '' panicked: '' @ panic_payload_message payload)) (uc_diagnostics c)\<rparr>))"

section \<open>The browser join link\<close>

definition browser_join_host_hint :: "('s, 'w) UiController \<Rightarrow> IpAddr option" where
  "browser_join_host_hint c =
     map_option (\<lambda>e. sa_ip (te_address e)) (ld_advertised_endpoint (sv_local_status (uc_discovery c)))"

definition generate_browser_join_link ::
  "('q, 's, 'w) ui_env \<Rightarrow> bool \<Rightarrow> ('s, 'w) UiController \<Rightarrow> ('s, 'w) UiController" where
  "generate_browser_join_link env open_after_generation c =
     (let (result, j, w) = generate_join_link (ue_join env) (browser_join_host_hint c) (uc_browser_join c) (uc_world c);
          (_, c1) = sync_browser_join_diagnostics env (c\<lparr>uc_browser_join := j, uc_world := w\<rparr>)
      in refresh_ui env (case result of
           Inr link \<Rightarrow>
             (let (copied, c2) = with_world (ue_copy env (jl_url link)) c1;
                  c3 = (if open_after_generation then
                      (case with_world (ue_open env (jl_url link)) c2 of
                         (Inr _, c') \<Rightarrow> c'
                       | (Inl e, c') \<Rightarrow> push_diagnostic Warning ''browser-join''
                           (''Generated the browser join prototype link, but opening it failed: '' @ e) c')
                    else c2)
              in push_diagnostic Info ''browser-join''
                   (''Generated a browser join prototype link valid until ''
                    @ format_unix_ms (jl_expires_at_unix_ms link) @ ''.''
                    @ (case copied of Inr _ \<Rightarrow> '' The link was copied to the clipboard.'' | Inl _ \<Rightarrow> [])) c3)
         | Inl e \<Rightarrow> push_diagnostic Warning ''browser-join''
             (''Failed to generate the browser join prototype link: '' @ err_text e) c1))"

definition open_or_generate_browser_join_link ::
  "('q, 's, 'w) ui_env \<Rightarrow> ('s, 'w) UiController \<Rightarrow> ('s, 'w) UiController" where
  "open_or_generate_browser_join_link env c =
     (case bj_join_url (js_snapshot (uc_browser_join c)) of
        Some url \<Rightarrow>
          (let (opened, c1) = with_world (ue_open env url) c
           in refresh_ui env (case opened of
                Inr _ \<Rightarrow> push_diagnostic Info ''browser-join'' ''Opened the current browser join prototype link.'' c1
              | Inl e \<Rightarrow> push_diagnostic Warning ''browser-join''
                  (''Opening the browser join prototype link failed: '' @ e) c1))
      | None \<Rightarrow> generate_browser_join_link env True c)"

end
