(* ===== verification/Ui_Polls.thy ===== *)
theory Ui_Polls
  imports Ui_Actions Audio_Inventory
begin

text \<open>
  The timers of \<open>synchrosonic-app/src/ui.rs\<close>: the polls of discovery, receiver, sender and
  audio inventory, and the construction of the window's controller. What a poll took is read
  from the world.
\<close>

definition DISCOVERY_POLL_INTERVAL_SECS :: u64 where
  "DISCOVERY_POLL_INTERVAL_SECS = 1"

definition RECEIVER_POLL_INTERVAL_SECS :: u64 where
  "RECEIVER_POLL_INTERVAL_SECS = 1"

definition STREAMING_POLL_INTERVAL_SECS :: u64 where
  "STREAMING_POLL_INTERVAL_SECS = 1"

definition AUDIO_INVENTORY_POLL_INTERVAL_SECS :: u64 where
  "AUDIO_INVENTORY_POLL_INTERVAL_SECS = 8"

text \<open>The observation of a poll that ran, and the refresh it asks for.\<close>

definition ran :: "u64 \<Rightarrow> u64 \<Rightarrow> nat \<Rightarrow> string option \<Rightarrow> PollObservation" where
  "ran interval duration_ms changes error =
     \<lparr>ob_interval_secs = interval, ob_duration_ms = duration_ms, ob_skipped = False,
      ob_changes_applied = changes, ob_error = error\<rparr>"

definition finish_poll ::
  "('q, 's, 'w) ui_env \<Rightarrow> PollKind \<Rightarrow> u64 \<Rightarrow> nat \<Rightarrow> string option \<Rightarrow> bool
    \<Rightarrow> ('s, 'w) UiController \<Rightarrow> ('s, 'w) UiController" where
  "finish_poll env kind interval changes error should_refresh c =
     (let (duration_ms, c1) = with_world (ue_elapsed env) c;
          c2 = on_diagnostics (note_poll (ue_diag env) kind (ran interval duration_ms changes error)) c1
      in if should_refresh then refresh_ui env c2 else c2)"

section \<open>Discovery\<close>

text \<open>Targets that do not stream and whose receiver is not connectable are dropped.\<close>

definition unusable_targets :: "AppState \<Rightarrow> (DeviceId \<times> string) list" where
  "unusable_targets state =
     map (\<lambda>t. (ts_receiver_id t, ts_receiver_name t))
       (filter (\<lambda>t. ts_state t \<noteq> Streaming
           \<and> \<not> (case find (\<lambda>d. dd_id d = ts_receiver_id t) (st_discovered_devices state) of
                 Some d \<Rightarrow> is_receiver_connectable d | None \<Rightarrow> False))
         (ss_targets (st_streaming state)))"

definition stop_unusable_sender_targets :: "('s, 'w) UiController \<Rightarrow> ('s, 'w) UiController" where
  "stop_unusable_sender_targets c =
     (let targets = unusable_targets (uc_state c)
      in if targets = [] then c
         else
           (let sender = fold (\<lambda>(i, _) h. snd (session_stop_target i h)) targets (uc_sender c);
                c1 = upd_state (apply_streaming_snapshot (hs_snapshot sender)) (c\<lparr>uc_sender := sender\<rparr>)
            in fold (\<lambda>(i, name). push_diagnostic Warning ''streaming''
                 (''Stopped pending connection attempts for '' @ name @ '' ('' @ device_str i
                  @ '') because the device is no longer reachable.'')) targets c1))"

text \<open>The loop over \<open>poll_event\<close> ends with the first poll that yields no event, or with an error.\<close>

partial_function (option) drain_discovery ::
  "'w mdns_env \<Rightarrow> MdnsDiscoveryService \<Rightarrow> 'w
    \<Rightarrow> (DiscoveryEvent list \<times> DiscoveryError option \<times> MdnsDiscoveryService \<times> 'w) option" where
  "drain_discovery me sv w =
     (case service_poll_event me sv w of
        (Inl e, sv1, w1) \<Rightarrow> Some ([], Some e, sv1, w1)
      | (Inr None, sv1, w1) \<Rightarrow> Some ([], None, sv1, w1)
      | (Inr (Some ev), sv1, w1) \<Rightarrow>
          Option.bind (drain_discovery me sv1 w1) (\<lambda>(evs, rest). Some (ev # evs, rest)))"

definition selection_message :: "DeviceId option \<Rightarrow> DeviceId option \<Rightarrow> string option" where
  "selection_message previous current =
     (if previous = current then None
      else (case (previous, current) of
          (Some p, Some q) \<Rightarrow> Some (''Selected receiver '' @ device_str p
            @ '' disappeared; switched selection to '' @ device_str q @ ''.'')
        | (Some p, None) \<Rightarrow> Some (''Selected receiver '' @ device_str p
            @ '' disappeared and no replacement receiver is available.'')
        | _ \<Rightarrow> None))"

definition push_opt ::
  "DiagnosticLevel \<Rightarrow> string \<Rightarrow> string option \<Rightarrow> ('s, 'w) UiController \<Rightarrow> ('s, 'w) UiController" where
  "push_opt level component message c =
     (case message of Some m \<Rightarrow> push_diagnostic level component m c | None \<Rightarrow> c)"

definition one_if :: "bool \<Rightarrow> nat" where
  "one_if b = (if b then 1 else 0)"

text \<open>What follows the loop: pruning, the events, the snapshot, the selection, the cast targets.\<close>

definition after_drain ::
  "('q, 's, 'w) ui_env \<Rightarrow> DiscoveryEvent list \<Rightarrow> DiscoveryError option \<Rightarrow> ('s, 'w) UiController
    \<Rightarrow> nat \<times> string option \<times> ('s, 'w) UiController" where
  "after_drain env events error c =
     (let previous = effective_discovered_devices (st_discovered_devices (uc_state c));
          selected = st_selected_receiver_device_id (uc_state c);
          c1 = push_opt Warning ''discovery''
            (map_option (\<lambda>e. ''mDNS discovery event error: '' @ show_discovery_error e) error) c;
          (pruned, sv, w) = service_prune_stale (ue_mdns env) (uc_discovery c1) (uc_world c1);
          (stale, prune_error) = (case pruned of Inr es \<Rightarrow> (es, None) | Inl e \<Rightarrow> ([], Some e));
          c2 = push_opt Warning ''discovery''
            (map_option (\<lambda>e. ''mDNS stale pruning failed: '' @ show_discovery_error e) prune_error)
            (c1\<lparr>uc_discovery := sv, uc_world := w\<rparr>);
          (snapshot, c3) = with_world (service_snapshot (ue_mdns env) (uc_discovery c2)) c2;
          c4 = update_discovery_local_diagnostics env (sv_local_status (uc_discovery c3)) c3;
          c5 = upd_state (fold apply_discovery_event (events @ stale)) c4;
          changed = (previous \<noteq> effective_discovered_devices (ds_devices snapshot));
          c6 = upd_state (apply_discovery_snapshot snapshot) c5;
          message = selection_message selected (st_selected_receiver_device_id (uc_state c6));
          c7 = push_opt Warning ''discovery'' message c6
      in (one_if (error \<noteq> None) + one_if (prune_error \<noteq> None) + length events + length stale
            + one_if changed + one_if (message \<noteq> None),
          map_option show_discovery_error (or_else prune_error error),
          stop_unusable_sender_targets c7))"

definition discovery_poll ::
  "('q, 's, 'w) ui_env \<Rightarrow> ('s, 'w) UiController \<Rightarrow> ('s, 'w) UiController option" where
  "discovery_poll env c =
     Option.bind (drain_discovery (ue_mdns env) (uc_discovery c) (uc_world c))
       (\<lambda>(events, error, sv, w).
          let (changes, poll_error, c1) = after_drain env events error (c\<lparr>uc_discovery := sv, uc_world := w\<rparr>)
          in Some (finish_poll env PollDiscovery DISCOVERY_POLL_INTERVAL_SECS changes poll_error (0 < changes) c1))"

section \<open>Receiver\<close>

definition sync_message :: "ReceiverSyncSnapshot \<Rightarrow> DiagnosticLevel \<times> string" where
  "sync_message y =
     (if sy_state y \<in> {Late, Recovering} then
        (Warning, ''Receiver sync is now '' @ dbg_sync_state (sy_state y) @ '' (buffer delta ''
           @ show_int (sy_buffer_delta_ms y) @ '' ms, schedule error '' @ show_int (sy_schedule_error_ms y) @ '' ms).'')
      else
        (Info, ''Receiver sync is now '' @ dbg_sync_state (sy_state y) @ '' (expected ''
           @ show_word (sy_expected_output_latency_ms y) @ '' ms, queued '' @ show_word (sy_queued_audio_ms y) @ '' ms).''))"

definition last_message :: "AppState \<Rightarrow> string option" where
  "last_message state = (if st_diagnostics state = [] then None else Some (de_message (last (st_diagnostics state))))"

text \<open>The messages on what the receiver runtime did since the last poll.\<close>

definition runtime_messages ::
  "ReceiverSnapshot \<Rightarrow> ReceiverSnapshot \<Rightarrow> (DiagnosticLevel \<times> string \<times> string) list" where
  "runtime_messages old new =
     (if rsn_state old \<noteq> rsn_state new
      then [(Info, ''receiver'', ''Receiver state is now '' @ dbg_receiver_state (rsn_state new))] else [])
     @ (if sy_state (rsn_sync old) \<noteq> sy_state (rsn_sync new)
        then [(case sync_message (rsn_sync new) of (level, m) \<Rightarrow> (level, ''receiver-sync'', m))] else [])
     @ (let dropped = sat_sub (sy_late_packet_drops (rsn_sync new)) (sy_late_packet_drops (rsn_sync old))
        in if 0 < dropped then [(Warning, ''receiver-sync'',
             ''Receiver dropped '' @ show_word dropped @ '' stale packet(s) to recover sync.'')] else [])
     @ (if rsn_last_error old \<noteq> rsn_last_error new
        then (case rsn_last_error new of
                Some e \<Rightarrow> [(Warning, ''receiver'', ''Receiver runtime reported: '' @ e)] | None \<Rightarrow> [])
        else [])"

definition push_messages ::
  "(DiagnosticLevel \<times> string \<times> string) list \<Rightarrow> ('s, 'w) UiController \<Rightarrow> ('s, 'w) UiController" where
  "push_messages ms c = fold (\<lambda>(level, component, m). push_diagnostic level component m) ms c"

definition runtime_changes :: "ReceiverSnapshot \<Rightarrow> ReceiverSnapshot \<Rightarrow> nat" where
  "runtime_changes old new =
     one_if (rsn_state old \<noteq> rsn_state new) + one_if (rsn_last_error old \<noteq> rsn_last_error new)
     + one_if (sy_state (rsn_sync old) \<noteq> sy_state (rsn_sync new))
     + unat (sat_sub (sy_late_packet_drops (rsn_sync new)) (sy_late_packet_drops (rsn_sync old)))"

text \<open>The listener's error is reported unless the last diagnostic has exactly its text.\<close>

definition report_transport_error :: "string option \<Rightarrow> ('s, 'w) UiController \<Rightarrow> nat \<times> ('s, 'w) UiController" where
  "report_transport_error error c =
     (case error of
        None \<Rightarrow> (0, c)
      | Some e \<Rightarrow>
          (if last_message (uc_state c) \<noteq> Some e
           then (1, push_diagnostic Warning ''receiver-transport'' (''Receiver TCP listener reported: '' @ e) c)
           else (0, c)))"

definition receiver_poll ::
  "('q, 's, 'w) ui_env \<Rightarrow> ('s, 'w) UiController \<Rightarrow> ('s, 'w) UiController" where
  "receiver_poll env c =
     (let snapshot = rt_snapshot (uc_receiver c); t = srv_snapshot (uc_receiver_transport c);
          previous = dr_current (uc_diagnostics c);
          c1 = on_diagnostics (update_receiver_listener_snapshot (ue_diag env)
            (show_addr (srs_bind_addr t)) (srs_active t) (srs_last_error t)) c;
          c2 = sync_local_receiver_advertisement env c1;
          old_ad = sn_discovery previous; new_ad = sn_discovery (dr_current (uc_diagnostics c2));
          old = st_receiver (uc_state c2);
          c3 = push_messages (runtime_messages old snapshot) (upd_state (apply_receiver_snapshot snapshot) c2);
          ad_changed = (sd_advertisement_state old_ad \<noteq> sd_advertisement_state new_ad);
          c4 = (if ad_changed then push_diagnostic Info ''receiver-discovery''
                  (''Receiver discovery advertisement is now '' @ sd_advertisement_state new_ad @ ''.'') c3 else c3);
          ad_error = (if sd_last_advertisement_error old_ad \<noteq> sd_last_advertisement_error new_ad
                      then sd_last_advertisement_error new_ad else None);
          c5 = push_opt Warning ''receiver-discovery''
            (map_option (\<lambda>e. ''Receiver discovery advertisement reported: '' @ e) ad_error) c4;
          (reported, c6) = report_transport_error (srs_last_error t) c5;
          changes = one_if (sr_last_transport_error (sn_receiver previous) \<noteq> srs_last_error t) + one_if ad_changed
            + one_if (ad_error \<noteq> None) + reported + runtime_changes old snapshot
      in finish_poll env PollReceiver RECEIVER_POLL_INTERVAL_SECS changes (srs_last_error t) (0 < changes) c6)"

section \<open>Sender\<close>

text \<open>Text of an option that changed to something.\<close>

definition newly :: "'a option \<Rightarrow> 'a option \<Rightarrow> 'a option" where
  "newly old new = (if old \<noteq> new then new else None)"

definition streaming_messages ::
  "StreamSessionSnapshot \<Rightarrow> StreamSessionSnapshot \<Rightarrow> (DiagnosticLevel \<times> string) list" where
  "streaming_messages old new =
     (let l = ss_local_mirror old; l' = ss_local_mirror new
      in (if ss_state old \<noteq> ss_state new
          then [(Info, ''Sender stream state is now '' @ dbg_session_state (ss_state new))] else [])
         @ (case newly (ss_last_error old) (ss_last_error new) of
              Some e \<Rightarrow> [(Warning, ''Sender stream reported: '' @ e)] | None \<Rightarrow> [])
         @ (if lm_state l \<noteq> lm_state l'
            then [(Info, ''Local playback mirror is now '' @ dbg_mirror_state (lm_state l'))] else [])
         @ (case newly (lm_last_error l) (lm_last_error l') of
              Some e \<Rightarrow> [(Warning, ''Local playback mirror reported: '' @ e)] | None \<Rightarrow> []))"

text \<open>Error and mirror messages are counted when they are pushed and once more at the end.\<close>

definition streaming_changes :: "StreamSessionSnapshot \<Rightarrow> StreamSessionSnapshot \<Rightarrow> nat" where
  "streaming_changes old new =
     length (stream_target_transition_messages (ss_targets old) (ss_targets new))
     + one_if (ss_state old \<noteq> ss_state new)
     + 2 * one_if (newly (ss_last_error old) (ss_last_error new) \<noteq> None)
     + 2 * one_if (lm_state (ss_local_mirror old) \<noteq> lm_state (ss_local_mirror new))
     + 2 * one_if (newly (lm_last_error (ss_local_mirror old)) (lm_last_error (ss_local_mirror new)) \<noteq> None)"

definition streaming_poll ::
  "('q, 's, 'w) ui_env \<Rightarrow> ('s, 'w) UiController \<Rightarrow> ('s, 'w) UiController" where
  "streaming_poll env c =
     (let snapshot = hs_snapshot (uc_sender c); old = st_streaming (uc_state c);
          targets = stream_target_transition_messages (ss_targets old) (ss_targets snapshot);
          c1 = fold (\<lambda>(level, m). push_diagnostic level ''streaming'' m)
            (streaming_messages old snapshot @ targets)
            (upd_state (apply_streaming_snapshot snapshot) c)
      in finish_poll env PollStreaming STREAMING_POLL_INTERVAL_SECS (streaming_changes old snapshot)
           (ss_last_error snapshot) (old \<noteq> snapshot \<or> targets \<noteq> []) c1)"

section \<open>Audio inventory\<close>

text \<open>
  The refresh runs in a thread that sends its result and then clears the flag; the timer skips
  while the flag is set, and a second timer takes the results.
\<close>

record AudioInventoryRefreshResult =
  ir_result :: "AudioError + AudioSource list \<times> PlaybackTarget list"
  ir_duration_ms :: u64

record InventoryPoll =
  ip_refresh_in_flight :: bool
  ip_results :: "AudioInventoryRefreshResult list"
  ip_last_error :: "string option"

definition note_inventory_polls ::
  "('q, 's, 'w) ui_env \<Rightarrow> PollObservation \<Rightarrow> PollObservation \<Rightarrow> ('s, 'w) UiController \<Rightarrow> ('s, 'w) UiController" where
  "note_inventory_polls env sources targets c =
     on_diagnostics (note_poll (ue_diag env) PollPlaybackTargets targets)
       (on_diagnostics (note_poll (ue_diag env) PollAudioSources sources) c)"

definition retry_local_mirror ::
  "('q, 's, 'w) ui_env \<Rightarrow> string \<Rightarrow> ('s, 'w) UiController \<Rightarrow> ('s, 'w) UiController" where
  "retry_local_mirror env target_id c =
     (let (result, sender) = set_local_playback_target (Some target_id) (uc_sender c);
          c1 = upd_state (apply_streaming_snapshot (hs_snapshot sender)) (c\<lparr>uc_sender := sender\<rparr>)
      in case result of
           Inr _ \<Rightarrow> push_diagnostic Info ''streaming''
             (''Local mirror output '' @ target_id @ '' is available again; retrying playback on ''
              @ format_selected_playback_target (uc_state c1)
                  (ac_local_playback_target_id (cfg_audio (st_config (uc_state c1)))) @ ''.'') c1
         | Inl e \<Rightarrow> push_diagnostic Warning ''streaming''
             (''Local mirror output became available again, but restart failed: '' @ show_transport_error e) c1)"

definition push_transition ::
  "string \<Rightarrow> string \<Rightarrow> string option \<Rightarrow> bool \<Rightarrow> ('s, 'w) UiController \<Rightarrow> ('s, 'w) UiController" where
  "push_transition component label target_id available c =
     (let (now, h) = clock_now (uc_host c)
      in upd_state (\<lambda>s. add_event (playback_target_transition_diagnostic s now component label target_id available) s)
           (c\<lparr>uc_host := h\<rparr>))"

definition wants_mirror_retry :: "AppState \<Rightarrow> bool" where
  "wants_mirror_retry state \<longleftrightarrow>
     ss_state (st_streaming state) \<noteq> StreamSessionState.Idle
     \<and> lm_desired_enabled (ss_local_mirror (st_streaming state))
     \<and> lm_state (ss_local_mirror (st_streaming state)) = LocalMirrorState.Error"

definition apply_inventory ::
  "('q, 's, 'w) ui_env \<Rightarrow> AudioSource list \<Rightarrow> PlaybackTarget list \<Rightarrow> u64 \<Rightarrow> ('s, 'w) UiController \<Rightarrow> ('s, 'w) UiController" where
  "apply_inventory env sources targets duration_ms c =
     (let old = uc_state c; local_target = ac_local_playback_target_id (cfg_audio (st_config old));
          receiver_target = rc_playback_target_id (cfg_receiver (st_config old));
          c1 = upd_state (\<lambda>s. set_playback_targets targets (set_audio_sources sources s)) c;
          new = uc_state c1;
          sources_changed = (st_audio_sources old \<noteq> st_audio_sources new);
          selection_changed = (st_selected_audio_source_id old \<noteq> st_selected_audio_source_id new);
          detected = (\<not> selection_changed \<and> st_audio_sources old = [] \<and> st_audio_sources new \<noteq> []);
          c2 = (if selection_changed then push_diagnostic Warning ''audio''
                  (''Capture source inventory changed; selected source is now '' @ format_selected_audio_source new @ ''.'') c1
                else if detected then push_diagnostic Info ''audio''
                  (''Detected '' @ show_nat (length (st_audio_sources new)) @ '' capture source(s) from ''
                   @ ux_audio_backend_name (uc_context c1) @ ''.'') c1
                else c1);
          targets_changed = (st_playback_targets old \<noteq> st_playback_targets new);
          local_available = local_playback_target_available new;
          local_changed = (local_playback_target_available old \<noteq> local_available);
          c3 = (if local_changed then push_transition ''streaming'' ''Local mirror output'' local_target local_available c2 else c2);
          retry = (if local_changed \<and> local_available \<and> wants_mirror_retry new then local_target else None);
          receiver_available = receiver_playback_target_available new;
          receiver_changed = (receiver_playback_target_available old \<noteq> receiver_available);
          c4 = (if receiver_changed then push_transition ''receiver'' ''Receiver output'' receiver_target receiver_available c3 else c3);
          c5 = (case retry of Some target_id \<Rightarrow> retry_local_mirror env target_id c4 | None \<Rightarrow> c4);
          source_changes = one_if sources_changed + one_if selection_changed + one_if detected;
          playback_changes = one_if targets_changed + one_if local_changed + one_if receiver_changed + one_if (retry \<noteq> None);
          c6 = note_inventory_polls env (ran AUDIO_INVENTORY_POLL_INTERVAL_SECS duration_ms source_changes None)
            (ran AUDIO_INVENTORY_POLL_INTERVAL_SECS duration_ms playback_changes None) c5;
          c7 = (if selection_changed then persist_current_config env ''audio'' None c6 else c6)
      in if 0 < source_changes + playback_changes then refresh_ui env c7 else c7)"

definition inventory_failed ::
  "('q, 's, 'w) ui_env \<Rightarrow> string \<Rightarrow> u64 \<Rightarrow> string option \<Rightarrow> ('s, 'w) UiController \<Rightarrow> ('s, 'w) UiController" where
  "inventory_failed env message duration_ms last_error c =
     (let changed = (last_error \<noteq> Some message);
          c1 = (if changed then push_diagnostic Warning ''audio'' message c else c);
          observed = ran AUDIO_INVENTORY_POLL_INTERVAL_SECS duration_ms 0 (Some message);
          c2 = note_inventory_polls env observed observed c1
      in if changed then refresh_ui env c2 else c2)"

definition apply_audio_inventory_refresh_result ::
  "('q, 's, 'w) ui_env \<Rightarrow> AudioInventoryRefreshResult \<Rightarrow> string option \<times> ('s, 'w) UiController
    \<Rightarrow> string option \<times> ('s, 'w) UiController" where
  "apply_audio_inventory_refresh_result env r s =
     (case ir_result r of
        Inr (sources, targets) \<Rightarrow> (None, apply_inventory env sources targets (ir_duration_ms r) (snd s))
      | Inl e \<Rightarrow>
          (let message = ''PipeWire audio inventory enumeration failed: '' @ show_audio_error e
           in (Some message, inventory_failed env message (ir_duration_ms r) (fst s) (snd s))))"

definition inventory_tick ::
  "('q, 's, 'w) ui_env \<Rightarrow> InventoryPoll \<times> ('s, 'w) UiController \<Rightarrow> InventoryPoll \<times> ('s, 'w) UiController" where
  "inventory_tick env s =
     (let skipped = \<lparr>ob_interval_secs = AUDIO_INVENTORY_POLL_INTERVAL_SECS, ob_duration_ms = 0, ob_skipped = True,
            ob_changes_applied = 0, ob_error = None\<rparr>
      in if ip_refresh_in_flight (fst s) then (fst s, note_inventory_polls env skipped skipped (snd s))
         else ((fst s)\<lparr>ip_refresh_in_flight := True\<rparr>, snd s))"

definition inventory_finished :: "AudioInventoryRefreshResult \<Rightarrow> InventoryPoll \<Rightarrow> InventoryPoll" where
  "inventory_finished r p = p\<lparr>ip_results := ip_results p @ [r], ip_refresh_in_flight := False\<rparr>"

definition inventory_pump ::
  "('q, 's, 'w) ui_env \<Rightarrow> InventoryPoll \<times> ('s, 'w) UiController \<Rightarrow> InventoryPoll \<times> ('s, 'w) UiController" where
  "inventory_pump env s =
     (let (last_error, c) = fold (apply_audio_inventory_refresh_result env) (ip_results (fst s))
            (ip_last_error (fst s), snd s)
      in ((fst s)\<lparr>ip_results := [], ip_last_error := last_error\<rparr>, c))"

section \<open>The window\<close>

record UiLaunchContext =
  ul_config :: AppConfig
  ul_startup_diagnostics :: "DiagnosticEvent list"
  ul_paths :: AppPaths
  ul_log_store :: LogStore
  ul_diagnostics_runtime :: DiagnosticsRuntime

text \<open>
  Building the window: \<open>discovery\<close> is the new discovery service, \<open>widgets\<close> what the toolkit
  makes the widgets show at first.
\<close>

definition new_controller ::
  "('q, 's, 'w) ui_env \<Rightarrow> UiLaunchContext \<Rightarrow> MdnsDiscoveryService \<Rightarrow> string \<Rightarrow> string \<Rightarrow> UiWidgets \<Rightarrow> host \<Rightarrow> 'w
    \<Rightarrow> ('s, 'w) UiController" where
  "new_controller env launch discovery audio_backend playback_backend widgets h w =
     (let config = ul_config launch; (now, h1) = clock_now h;
          state = (app_state_new now config)
            \<lparr>st_diagnostics := st_diagnostics (app_state_new now config) @ ul_startup_diagnostics launch\<rparr>;
          (started, sv, w1) = service_start (ue_mdns env) discovery w;
          sender = set_local_device_id (ld_device_id (sv_local_status sv))
            (snd (session_set_quality_preset (tc_quality (cfg_transport config))
              (snd (set_local_playback_target (ac_local_playback_target_id (cfg_audio config))
                (session_new (cfg_transport config) playback_backend)))));
          c = \<lparr>uc_state = state, uc_discovery = sv, uc_browser_join = join_new, uc_sender = sender,
               uc_receiver = runtime_new (cfg_receiver config) playback_backend,
               uc_receiver_transport = server_new (receiver_bind_addr (ue_parse_addr env) config)
                 (rc_advertised_name (cfg_receiver config)) (rc_latency_preset (cfg_receiver config))
                 (tc_heartbeat_interval_ms (cfg_transport config)),
               uc_visible = None, uc_widgets = widgets\<lparr>uw_dark_theme := ui_prefer_dark_theme (cfg_ui config)\<rparr>,
               uc_context = \<lparr>ux_audio_backend_name = audio_backend,
                 ux_discovery_service_type = dc_service_type (sv_config sv),
                 ux_discovery_started = (case started of Inr _ \<Rightarrow> True | Inl _ \<Rightarrow> False)\<rparr>,
               uc_paths = ul_paths launch, uc_log_store = ul_log_store launch,
               uc_diagnostics = ul_diagnostics_runtime launch, uc_render_cache = empty_render_cache,
               uc_host = h1, uc_world = w1\<rparr>;
          c1 = (case started of
             Inl e \<Rightarrow> push_diagnostic Warning ''discovery'' (''mDNS discovery failed to start: '' @ show_discovery_error e) c
           | Inr _ \<Rightarrow> c);
          (snapshot, c2) = with_world (service_snapshot (ue_mdns env) (uc_discovery c1)) c1
      in upd_state (\<lambda>s. apply_streaming_snapshot (hs_snapshot (uc_sender c2))
           (apply_receiver_snapshot (rt_snapshot (uc_receiver c2)) (apply_discovery_snapshot snapshot s))) c2)"

text \<open>
  The first page added to the stack becomes visible; the callbacks are connected after the
  first refresh.
\<close>

definition build_main_window ::
  "('q, 's, 'w) ui_env \<Rightarrow> UiLaunchContext \<Rightarrow> MdnsDiscoveryService \<Rightarrow> string \<Rightarrow> string \<Rightarrow> UiWidgets \<Rightarrow> host \<Rightarrow> 'w
    \<Rightarrow> ('s, 'w) UiController" where
  "build_main_window env launch discovery audio_backend playback_backend widgets h w =
     (let config = ul_config launch;
          c = (new_controller env launch discovery audio_backend playback_backend widgets h w)
            \<lparr>uc_visible := Some ''dashboard''\<rparr>;
          c1 = restore_visible_page env (ui_last_view_name (cfg_ui config)) (refresh_ui env c);
          c2 = sync_local_receiver_advertisement env c1
      in if rc_start_on_launch (cfg_receiver config) then start_receiver_mode env c2 else c2)"

end
