(* ===== verification/Ui_Frame.thy ===== *)
theory Ui_Frame
  imports Ui_Polls Persistence_Properties Diagnostics_Properties
begin

text \<open>
  What the operations of the window keep: the consistency of the application state, the files of
  the configuration, and the summary of it that the diagnostics hold.
\<close>

section \<open>Quiet operations\<close>

text \<open>The configuration file is none of the files that the diagnostics and the export write.\<close>

definition paths_ok :: "AppPaths \<Rightarrow> bool" where
  "paths_ok p \<longleftrightarrow>
     (\<forall>q. ap_config_path p \<noteq> tmp_path q)
     \<and> ap_config_path p \<noteq> ap_subsystem_snapshot_path p \<and> ap_config_path p \<noteq> ap_session_marker_path p
     \<and> ap_config_path p \<noteq> ap_portable_config_path p \<and> ap_config_path p \<noteq> ap_log_path p
     \<and> (\<forall>now kind. ap_config_path p \<noteq> crash_report_path p now kind)
     \<and> (\<forall>name. ap_config_path p \<noteq> path_join (ap_diagnostic_bundles_dir p) (name @ ''.tar.gz''))"

lemma ends_differ: "last b \<noteq> last d \<Longrightarrow> b \<noteq> [] \<Longrightarrow> d \<noteq> [] \<Longrightarrow> path_join a b \<noteq> path_join c d"
  using path_join_ends [of a b] path_join_ends [of c d] by (metis last_appendR)

lemma resolved_paths_ok: "paths_ok (paths_resolve getenv)"
proof -
  have tmp: "path_join d ''config.toml'' \<noteq> tmp_path q" for d q
  proof
    obtain xs ys where "tmp_path q = xs @ ''.tmp''" "path_join d ''config.toml'' = ys @ ''config.toml''"
      using tmp_path_ends [of q] path_join_ends [of d "''config.toml''"] by auto
    moreover assume "path_join d ''config.toml'' = tmp_path q"
    ultimately have "last (xs @ ''.tmp'') = last (ys @ ''config.toml'')" by simp
    then show False by simp
  qed
  have portable: "path_join d ''config.toml'' \<noteq> path_join d ''config-export.toml''" for d
    by (simp add: path_join_def starts_with_def)
  have json: "path_join d ''config.toml'' \<noteq> path_join e ''subsystem-snapshot.json''"
      "path_join d ''config.toml'' \<noteq> path_join e ''session-marker.json''"
      "path_join d ''config.toml'' \<noteq> path_join e (f @ ''.tar.gz'')"
      "path_join d ''config.toml'' \<noteq> path_join e (f @ ''.txt'')" for d e f
    by (rule ends_differ; simp; fail)+
  have log: "path_join d ''config.toml'' \<noteq> path_join e ''app-log.jsonl''" for d e
  proof
    obtain xs ys where "path_join d ''config.toml'' = xs @ ''config.toml''" "path_join e ''app-log.jsonl'' = ys @ ''app-log.jsonl''"
      using path_join_ends by metis
    moreover assume "path_join d ''config.toml'' = path_join e ''app-log.jsonl''"
    ultimately have "rev (xs @ ''config.toml'') = rev (ys @ ''app-log.jsonl'')" by simp
    then show False by simp
  qed
  have crash: "path_join d ''config.toml'' \<noteq> crash_report_path p now kind" for d p now kind
    using json(4) [where d = d and f = "''crash-report-'' @ show_word (now div 1000) @ ''-'' @ kind"]
    by (simp add: crash_report_path_def)
  show ?thesis
    using crash log
    by (simp add: paths_ok_def paths_resolve_def Let_def tmp portable json)
qed

definition ready :: "('s, 'w) UiController \<Rightarrow> bool" where
  "ready c \<longleftrightarrow> app_inv (uc_state c) \<and> healthy (uc_host c) \<and> dr_paths (uc_diagnostics c) = uc_paths c
     \<and> paths_ok (uc_paths c)"

definition ui_settings ::
  "('s, 'w) UiController \<Rightarrow> AppConfig \<times> string option \<times> RedactedConfigSummary \<times> AppPaths" where
  "ui_settings c = (st_config (uc_state c), hw_files (uc_host c) (ap_config_path (uc_paths c)),
     dr_config_summary (uc_diagnostics c), uc_paths c)"

definition quiet :: "('s, 'w) UiController \<Rightarrow> ('s, 'w) UiController \<Rightarrow> bool" where
  "quiet c c' \<longleftrightarrow> (ready c \<longrightarrow> ready c' \<and> ui_settings c' = ui_settings c)"

lemma quiet_refl [simp]: "quiet c c"
  by (simp add: quiet_def)

lemma quiet_trans: "quiet c c' \<Longrightarrow> quiet c' c'' \<Longrightarrow> quiet c c''"
  by (simp add: quiet_def)

text \<open>Fields that the settings do not rest on.\<close>

lemma quiet_fields [simp]:
  "quiet c (c'\<lparr>uc_widgets := a\<rparr>) = quiet c c'" "quiet c (c'\<lparr>uc_render_cache := b\<rparr>) = quiet c c'"
  "quiet c (c'\<lparr>uc_discovery := d\<rparr>) = quiet c c'" "quiet c (c'\<lparr>uc_world := w\<rparr>) = quiet c c'"
  "quiet c (c'\<lparr>uc_sender := s\<rparr>) = quiet c c'" "quiet c (c'\<lparr>uc_receiver := r\<rparr>) = quiet c c'"
  "quiet c (c'\<lparr>uc_receiver_transport := t\<rparr>) = quiet c c'" "quiet c (c'\<lparr>uc_browser_join := j\<rparr>) = quiet c c'"
  "quiet c (c'\<lparr>uc_visible := v\<rparr>) = quiet c c'"
  by (simp_all add: quiet_def ready_def ui_settings_def)

lemma quiet_with_world [simp]: "quiet c (snd (with_world f c')) = quiet c c'"
  by (simp add: with_world_def split_def Let_def)

lemma quiet_state:
  "quiet c c' \<Longrightarrow> (\<And>s. app_inv s \<Longrightarrow> app_inv (f s) \<and> st_config (f s) = st_config s) \<Longrightarrow> quiet c (upd_state f c')"
  by (auto simp: quiet_def ready_def ui_settings_def upd_state_def)

lemma app_inv_add_event [simp]: "app_inv (add_event e s) = app_inv s" "st_config (add_event e s) = st_config s"
  "app_inv (s\<lparr>st_diagnostics := ds\<rparr>) = app_inv s"
  by (simp_all add: add_event_def app_inv_def device_inv_def source_inv_def split: option.split)

lemma quiet_host:
  "quiet c c' \<Longrightarrow> (healthy (uc_host c') \<Longrightarrow> healthy h \<and> hw_files h = hw_files (uc_host c')) \<Longrightarrow> quiet c (c'\<lparr>uc_host := h\<rparr>)"
  by (auto simp: quiet_def ready_def ui_settings_def)

lemma quiet_clock [simp]: "quiet c c' \<Longrightarrow> quiet c (c'\<lparr>uc_host := snd (clock_now (uc_host c'))\<rparr>)"
  by (rule quiet_host) simp_all

lemma quiet_push [simp]: "quiet c c' \<Longrightarrow> quiet c (push_diagnostic level component message c')"
  unfolding push_diagnostic_def split_def Let_def by (intro quiet_state quiet_clock) simp_all

lemma quiet_push_fold [simp]: "quiet c c' \<Longrightarrow> quiet c (fold (\<lambda>m. push_diagnostic (f m) (g m) (k m)) ms c')"
  by (induction ms arbitrary: c') simp_all

section \<open>The diagnostics runtime\<close>

text \<open>A persist writes the snapshot file and its temporary file, nothing else.\<close>

lemma persist_frame:
  assumes "healthy h" "q \<noteq> ap_subsystem_snapshot_path (dr_paths dr)"
    and "q \<noteq> tmp_path (ap_subsystem_snapshot_path (dr_paths dr))"
    and "persist_snapshot dx force dr h = (r, dr1, h1)"
  shows "healthy h1 \<and> hw_files h1 q = hw_files h q \<and> dr_paths dr1 = dr_paths dr
    \<and> dr_config_summary dr1 = dr_config_summary dr \<and> dr_pending_events dr1 = dr_pending_events dr"
  using assms
  by (cases "jc_snapshot_to (dx_codec dx) (dr_current dr)")
    (auto simp: persist_snapshot_def split_def Let_def write_json_atomic_def atomic_healthy split: if_splits)

definition harmless :: "(DiagnosticsRuntime \<times> host \<Rightarrow> DiagnosticsRuntime \<times> host) \<Rightarrow> bool" where
  "harmless f \<longleftrightarrow> (\<forall>dr h. healthy h \<longrightarrow> healthy (snd (f (dr, h))) \<and> dr_paths (fst (f (dr, h))) = dr_paths dr
     \<and> dr_config_summary (fst (f (dr, h))) = dr_config_summary dr
     \<and> dr_pending_events (fst (f (dr, h))) = dr_pending_events dr
     \<and> (\<forall>q. q \<noteq> ap_subsystem_snapshot_path (dr_paths dr) \<longrightarrow> q \<noteq> tmp_path (ap_subsystem_snapshot_path (dr_paths dr))
          \<longrightarrow> hw_files (snd (f (dr, h))) q = hw_files h q))"

lemma harmless_updated: "harmless (updated dx f)"
proof -
  have "healthy (snd (updated dx f (dr, h))) \<and> dr_paths (fst (updated dx f (dr, h))) = dr_paths dr
     \<and> dr_config_summary (fst (updated dx f (dr, h))) = dr_config_summary dr
     \<and> dr_pending_events (fst (updated dx f (dr, h))) = dr_pending_events dr
     \<and> (\<forall>q. q \<noteq> ap_subsystem_snapshot_path (dr_paths dr) \<longrightarrow> q \<noteq> tmp_path (ap_subsystem_snapshot_path (dr_paths dr))
          \<longrightarrow> hw_files (snd (updated dx f (dr, h))) q = hw_files h q)" if h: "healthy h" for dr h
  proof -
    obtain r dr1 h1 where p: "persist_snapshot dx False (dr\<lparr>dr_current := f (dr_current dr)\<rparr>) h = (r, dr1, h1)"
      by (metis prod_cases3)
    obtain q0 where q0: "q0 \<noteq> ap_subsystem_snapshot_path (dr_paths dr)" "q0 \<noteq> tmp_path (ap_subsystem_snapshot_path (dr_paths dr))"
      using ex_new_if_finite [OF infinite_UNIV_listI, of "{ap_subsystem_snapshot_path (dr_paths dr),
        tmp_path (ap_subsystem_snapshot_path (dr_paths dr))}"] by auto
    show ?thesis
      using persist_frame [OF h _ _ p] q0 by (auto simp: updated_def p)
  qed
  then show ?thesis by (simp add: harmless_def)
qed

lemma harmless_stamped: "harmless (stamped dx f)"
proof -
  have eq: "stamped dx f (dr, h) =
      updated dx (\<lambda>n. f (n\<lparr>sn_updated_at_unix_ms := fst (clock_now h)\<rparr>)) (dr, snd (clock_now h))" for dr h
    by (simp add: stamped_def split_def Let_def)
  show ?thesis
    using harmless_updated unfolding harmless_def eq by simp
qed

lemma harmless_ops [simp]:
  "harmless (update_snapshot_from_state dx state view)" "harmless (update_receiver_listener_snapshot dx a b e)"
  "harmless (update_discovery_local_snapshot dx s i ad ep t e)" "harmless (note_ui_refresh dx b)"
  "harmless (note_ui_list_render dx b n)" "harmless (update_browser_join_snapshot dx b u k e)"
  by (simp_all add: update_snapshot_from_state_def update_receiver_listener_snapshot_def harmless_stamped
      update_discovery_local_snapshot_def note_ui_refresh_def note_ui_list_render_def update_browser_join_snapshot_def)

lemma harmless_note_poll [simp]: "harmless (note_poll dx kind ob)"
proof -
  have eq: "note_poll dx kind ob (dr, h) =
      updated dx (upd_poll kind (observe_poll (fst (clock_now h)) ob)) (dr, snd (clock_now h))" for dr h
    by (simp add: note_poll_def split_def Let_def)
  show ?thesis using harmless_updated unfolding harmless_def eq by simp
qed

lemma quiet_on_diagnostics [simp]: "quiet c c' \<Longrightarrow> harmless f \<Longrightarrow> quiet c (on_diagnostics f c')"
  by (auto simp: quiet_def ready_def ui_settings_def on_diagnostics_def harmless_def paths_ok_def split_def Let_def)

section \<open>Shared operations\<close>

lemma quiet_discovery_local [simp]:
  "quiet c c' \<Longrightarrow> quiet c (update_discovery_local_diagnostics env ld c')"
  by (simp add: update_discovery_local_diagnostics_def)

lemma quiet_sync_advertisement [simp]:
  "quiet c c' \<Longrightarrow> quiet c (sync_local_receiver_advertisement env c')"
  by (simp add: sync_local_receiver_advertisement_def split_def Let_def)

lemma quiet_sync_join [simp]: "quiet c c' \<Longrightarrow> quiet c (snd (sync_browser_join_diagnostics env c'))"
  by (simp add: sync_browser_join_diagnostics_def Let_def)

section \<open>Refreshing\<close>

text \<open>Texts with relative times only read the clock.\<close>

definition reads_clock :: "(host \<Rightarrow> 'a \<times> host) \<Rightarrow> bool" where
  "reads_clock f \<longleftrightarrow> (\<forall>h. hw_files (snd (f h)) = hw_files h \<and> hw_faults (snd (f h)) = hw_faults h)"

lemma reads_age [simp]: "reads_clock (format_relative_age t)" "reads_clock (age_or d x)"
  by (auto simp: reads_clock_def format_relative_age_def age_or_def split_def Let_def split: option.split)

lemma reads_map_host: "(\<And>x. reads_clock (f x)) \<Longrightarrow> reads_clock (map_host f xs)"
  unfolding reads_clock_def by (induction xs) (simp_all add: split_def Let_def)

lemma reads_age_texts [simp]:
  "hw_files (snd (age_or d x h)) = hw_files h" "hw_faults (snd (age_or d x h)) = hw_faults h"
  "hw_files (snd (format_relative_age t h)) = hw_files h" "hw_faults (snd (format_relative_age t h)) = hw_faults h"
  using reads_age by (auto simp: reads_clock_def)

lemma reads_texts [simp]:
  "reads_clock (format_target_row_subtitle x)" "reads_clock (target_status_line x)"
  "reads_clock (casting_target_row_models state)" "reads_clock (format_stream_target_statuses ts)"
  "reads_clock (format_streaming_status state)" "reads_clock (format_receiver_status state n)"
proof -
  show row: "reads_clock (format_target_row_subtitle x)" for x
    by (simp add: reads_clock_def format_target_row_subtitle_def split_def Let_def)
  show line: "reads_clock (target_status_line x)" for x
    by (simp add: reads_clock_def target_status_line_def split_def Let_def)
  show "reads_clock (casting_target_row_models state)"
    unfolding casting_target_row_models_def
    by (rule reads_map_host) (use row in \<open>simp add: reads_clock_def split_def Let_def\<close>)
  show statuses: "reads_clock (format_stream_target_statuses ts)" for ts
    using reads_map_host [of target_status_line ts] line
    by (simp add: reads_clock_def format_stream_target_statuses_def split_def Let_def)
  show "reads_clock (format_streaming_status state)"
    using statuses unfolding reads_clock_def format_streaming_status_def split_def Let_def by simp
  show "reads_clock (format_receiver_status state n)"
    unfolding reads_clock_def format_receiver_status_def split_def Let_def by simp
qed

lemma quiet_reads: "quiet c c' \<Longrightarrow> reads_clock f \<Longrightarrow> quiet c (c'\<lparr>uc_host := snd (f (uc_host c'))\<rparr>)"
  by (rule quiet_host) (simp_all add: reads_clock_def healthy_def)

lemma quiet_refresh_list [simp]: "quiet c c' \<Longrightarrow> quiet c (refresh_list env get put rows n c')"
  by (simp add: refresh_list_def)

lemma quiet_pages [simp]:
  assumes "quiet c c'"
  shows "quiet c (refresh_dashboard state c')" "quiet c (refresh_discovery_page env state c')"
    "quiet c (refresh_audio_page env state c')" "quiet c (refresh_diagnostics_page env state logs c')"
    "quiet c (refresh_settings_page state c')"
  using assms
  by (simp_all add: refresh_dashboard_def refresh_discovery_page_def refresh_audio_page_def
      refresh_diagnostics_page_def refresh_settings_page_def Let_def)

lemma quiet_casting_page [simp]:
  assumes "quiet c c'"
  shows "quiet c (refresh_casting_page env state c')"
  unfolding refresh_casting_page_def Let_def split_def
  by (simp only: quiet_fields) (intro quiet_reads quiet_refresh_list assms reads_texts)

lemma quiet_receiver_page [simp]:
  assumes "quiet c c'"
  shows "quiet c (refresh_receiver_page env state c')"
proof -
  have "hw_files (snd (format_receiver_status state n h)) = hw_files h"
      "hw_faults (snd (format_receiver_status state n h)) = hw_faults h" for n h
    using reads_texts(6) by (auto simp: reads_clock_def)
  then show ?thesis
    unfolding refresh_receiver_page_def Let_def split_def quiet_fields
    by (intro quiet_host assms) (simp split: option.split add: healthy_def)
qed

lemma quiet_drain [simp]: "quiet c c' \<Longrightarrow> quiet c (drain_into_state c')"
  by (auto simp: quiet_def ready_def ui_settings_def drain_into_state_def drain_pending_events_def upd_state_def)

lemma quiet_refresh_ui [simp]: "quiet c c' \<Longrightarrow> quiet c (refresh_ui env c')"
  unfolding refresh_ui_def refresh_pages_def
  by (simp add: split_def Let_def)

section \<open>Operations that change the configuration\<close>

text \<open>
  The configuration is valid and the file reads back as it, unrepaired; the diagnostics hold its
  summary.
\<close>

definition saved :: "toml_codec \<Rightarrow> ('s, 'w) UiController \<Rightarrow> bool" where
  "saved toml c \<longleftrightarrow>
     (\<exists>report. loaded toml (ap_config_path (uc_paths c)) (hw_files (uc_host c) (ap_config_path (uc_paths c))) = Inr report
        \<and> \<not> clr_repaired report \<and> clr_config report = st_config (uc_state c))
     \<and> dr_config_summary (uc_diagnostics c) = redacted (st_config (uc_state c))"

definition sound :: "AppPaths \<Rightarrow> ('s, 'w) UiController \<Rightarrow> bool" where
  "sound pa c \<longleftrightarrow> uc_paths c = pa \<and> ready c \<and> valid_config (st_config (uc_state c))"

definition settled :: "toml_codec \<Rightarrow> AppPaths \<Rightarrow> ('s, 'w) UiController \<Rightarrow> bool" where
  "settled toml pa c \<longleftrightarrow> sound pa c \<and> saved toml c"

definition encodes_all :: "toml_codec \<Rightarrow> bool" where
  "encodes_all toml \<longleftrightarrow> (\<forall>config. valid_config config \<longrightarrow> encodes toml config)"

lemma quiet_sound: "quiet c c' \<Longrightarrow> sound pa c \<Longrightarrow> sound pa c'"
  by (simp add: quiet_def sound_def ui_settings_def)

lemma quiet_settled: "quiet c c' \<Longrightarrow> settled toml pa c \<Longrightarrow> settled toml pa c'"
  by (auto simp: quiet_def settled_def sound_def ui_settings_def saved_def)

lemma settled_sound [simp]: "settled toml pa c \<Longrightarrow> sound pa c"
  by (simp add: settled_def)

lemma sound_state:
  "sound pa c \<Longrightarrow> (\<And>s. app_inv s \<Longrightarrow> valid_config (st_config s) \<Longrightarrow> app_inv (f s) \<and> valid_config (st_config (f s)))
    \<Longrightarrow> sound pa (upd_state f c)"
  by (auto simp: sound_def ready_def upd_state_def)

lemma sound_fields [simp]:
  "sound pa (c\<lparr>uc_widgets := a\<rparr>) = sound pa c" "sound pa (c\<lparr>uc_sender := s\<rparr>) = sound pa c"
  "sound pa (c\<lparr>uc_receiver := r\<rparr>) = sound pa c" "sound pa (c\<lparr>uc_visible := v\<rparr>) = sound pa c"
  by (simp_all add: sound_def ready_def)

lemma sound_push [simp]: "sound pa c \<Longrightarrow> sound pa (push_diagnostic level component message c)"
  by (rule quiet_sound [OF quiet_push [OF quiet_refl]])

lemma persist_settles:
  assumes "encodes_all (ue_toml env)" "sound pa c"
  shows "settled (ue_toml env) pa (persist_current_config env component message c)"
proof -
  let ?config = "st_config (uc_state c)"
  let ?c = "c\<lparr>uc_diagnostics := update_config_summary ?config (uc_diagnostics c),
      uc_host := (uc_host c)\<lparr>hw_files := (hw_files (uc_host c))(ap_config_path (uc_paths c) \<mapsto> encoded (ue_toml env) ?config)\<rparr>\<rparr>"
  have valid: "valid_config ?config" "healthy (uc_host c)" using assms(2) by (simp_all add: sound_def ready_def)
  then have enc: "encodes (ue_toml env) ?config" using assms(1) by (simp add: encodes_all_def)
  have "loaded (ue_toml env) (ap_config_path (uc_paths c)) (Some (encoded (ue_toml env) ?config))
      = Inr \<lparr>clr_config = ?config, clr_warnings = [], clr_repaired = False\<rparr>"
    using load_saved [of "uc_host ?c" "ue_toml env" ?config "ap_config_path (uc_paths c)"] enc valid
      load_healthy [of "uc_host ?c" "ue_toml env" "ap_config_path (uc_paths c)"] by simp
  then have "settled (ue_toml env) pa ?c"
    using assms(2) by (auto simp: settled_def sound_def ready_def saved_def update_config_summary_def)
  moreover have "quiet ?c (persist_current_config env component message c)"
    using save_healthy [OF valid(2) enc valid(1), of "uc_paths c"]
    by (cases message) (simp_all add: persist_current_config_def Let_def)
  ultimately show ?thesis by (rule quiet_settled [rotated])
qed

lemma refresh_settled: "settled toml pa c \<Longrightarrow> settled toml pa (refresh_ui env c)"
  by (rule quiet_settled [OF quiet_refresh_ui [OF quiet_refl]])

end
