(* ===== verification/Ui_Window.thy ===== *)
theory Ui_Window
  imports Ui_Frame
begin

text \<open>
  The window as a step relation: what the user does, the timers, and what the other threads do
  to the handles in between. Every run keeps the configuration saved.
\<close>

section \<open>Steps\<close>

datatype ui_action =
  Navigate string | QueueSelected "string option" | QueueDevice DiscoveredDevice | DropTarget DeviceId
| StopAllCasting | PickReceiver bool "string option" | ToggleMirror bool | PickLocalOutput "string option"
| PickSource "string option" | StartReceiver | StopReceiver | PickReceiverOutput "string option"
| PickLatency "string option" | PickQuality "string option" | ToggleTheme bool | ToggleVerbose bool
| ToggleStartOnLaunch bool | ExportConfig | ImportConfig | CopyReport | ExportBundle | OpenDiagnostics
| OpenCrashReports | CopyCrashReport | ClearEvents | MakeJoinLink | OpenJoinLink
| PanicIn string panic_payload | TickReceiver | TickStreaming

fun perform :: "('q, 's, 'w) ui_env \<Rightarrow> ui_action \<Rightarrow> ('s, 'w) UiController \<Rightarrow> ('s, 'w) UiController" where
  "perform env (Navigate page) c = (if is_known_view_name page then set_visible_child_name env page c else c)"
| "perform env (QueueSelected i) c = queue_selected_receiver_for_cast env i c"
| "perform env (QueueDevice d) c = queue_receiver_device_for_cast env d c"
| "perform env (DropTarget i) c = remove_target_from_cast env i c"
| "perform env StopAllCasting c = stop_all_casting env c"
| "perform env (PickReceiver b i) c = receiver_selector_changed env b i c"
| "perform env (ToggleMirror b) c = local_mirror_toggled env b c"
| "perform env (PickLocalOutput i) c = local_output_changed env i c"
| "perform env (PickSource i) c = audio_source_changed env i c"
| "perform env StartReceiver c = start_receiver_mode env c"
| "perform env StopReceiver c = stop_receiver_mode env c"
| "perform env (PickReceiverOutput i) c = receiver_output_changed env i c"
| "perform env (PickLatency i) c = latency_changed env i c"
| "perform env (PickQuality i) c = quality_changed env i c"
| "perform env (ToggleTheme b) c = theme_toggled env b c"
| "perform env (ToggleVerbose b) c = verbose_logging_toggled env b c"
| "perform env (ToggleStartOnLaunch b) c = start_on_launch_toggled env b c"
| "perform env ExportConfig c = export_clicked env c"
| "perform env ImportConfig c = import_clicked env c"
| "perform env CopyReport c = copy_diagnostics_clicked env c"
| "perform env ExportBundle c = export_bundle_clicked env c"
| "perform env OpenDiagnostics c = open_diagnostics_clicked env c"
| "perform env OpenCrashReports c = open_crash_reports_clicked env c"
| "perform env CopyCrashReport c = copy_latest_crash_clicked env c"
| "perform env ClearEvents c = clear_clicked env c"
| "perform env MakeJoinLink c = generate_browser_join_link env False c"
| "perform env OpenJoinLink c = open_or_generate_browser_join_link env c"
| "perform env (PanicIn name payload) c = callback_panicked env name payload c"
| "perform env TickReceiver c = receiver_poll env c"
| "perform env TickStreaming c = streaming_poll env c"

inductive ui_step ::
  "('q, 's, 'w) ui_env \<Rightarrow> InventoryPoll \<times> ('s, 'w) UiController \<Rightarrow> InventoryPoll \<times> ('s, 'w) UiController \<Rightarrow> bool"
  for env where
  Action: "ui_step env (p, c) (p, perform env a c)"
| Discovery: "discovery_poll env c = Some c' \<Longrightarrow> ui_step env (p, c) (p, c')"
| InventoryTick: "ui_step env s (inventory_tick env s)"
| InventoryDone: "ui_step env (p, c) (inventory_finished r p, c)"
| InventoryPump: "ui_step env s (inventory_pump env s)"
| Published: "ui_step env (p, c) (p, c\<lparr>uc_sender := (uc_sender c)\<lparr>hs_snapshot := n, hs_manager_listens := b\<rparr>\<rparr>)"
| Worker: "runtime_poll (ue_playback env) (uc_receiver c) (uc_world c) = (rt, w)
    \<Longrightarrow> ui_step env (p, c) (p, c\<lparr>uc_receiver := rt, uc_world := w\<rparr>)"
| Submitted: "ui_step env (p, c) (p, c\<lparr>uc_receiver := snd (runtime_submit_transport_event ev (uc_receiver c))\<rparr>)"
| Listener: "ui_step env (p, c) (p, c\<lparr>uc_receiver_transport := (uc_receiver_transport c)\<lparr>srv_snapshot := t\<rparr>\<rparr>)"
| Requested: "listener_round (ue_join env) a (uc_browser_join c) (uc_world c) = (j, w)
    \<Longrightarrow> ui_step env (p, c) (p, c\<lparr>uc_browser_join := j, uc_world := w\<rparr>)"
| World: "ui_step env (p, c) (p, c\<lparr>uc_world := w\<rparr>)"

section \<open>Quiet actions\<close>

lemma app_inv_ops [simp]:
  assumes "app_inv s"
  shows "app_inv (apply_streaming_snapshot x s)" "app_inv (apply_receiver_snapshot r s)"
    "app_inv (set_audio_sources xs s)" "app_inv (set_playback_targets ts s)"
    "app_inv (apply_discovery_event ev s)" "app_inv (apply_discovery_snapshot ds s)"
    "app_inv (snd (select_receiver_device i s))" "app_inv (snd (select_audio_source k s))"
    "app_inv (set_local_playback_enabled b s)" "app_inv (set_transport_quality q s)"
    "app_inv (set_receiver_latency_preset p s)" "app_inv (set_prefer_dark_theme b s)"
    "app_inv (set_last_view_name v s)" "app_inv (set_verbose_logging b s)"
    "app_inv (set_receiver_start_on_launch b s)" "app_inv (clear_diagnostics s)"
    "app_inv (select_local_playback_target t s)" "app_inv (select_receiver_playback_target t s)"
  using app_step_inv [OF assms, of "ApplyStreaming x"] app_step_inv [OF assms, of "ApplyReceiver r"]
    app_step_inv [OF assms, of "SetAudioSources xs"] app_step_inv [OF assms, of "SetPlaybackTargets ts"]
    app_step_inv [OF assms, of "ApplyDiscoveryEvent ev"] app_step_inv [OF assms, of "ApplyDiscovery ds"]
    app_step_inv [OF assms, of "SelectReceiverDevice i"] app_step_inv [OF assms, of "SelectAudioSource k"]
    app_step_inv [OF assms, of "SetLocalPlayback b"] app_step_inv [OF assms, of "SetQuality q"]
    app_step_inv [OF assms, of "SetLatencyPreset p"] app_step_inv [OF assms, of "SetDarkTheme b"]
    app_step_inv [OF assms, of "SetLastView v"] app_step_inv [OF assms, of "SetVerbose b"]
    app_step_inv [OF assms, of "SetStartOnLaunch b"] app_step_inv [OF assms, of ClearDiagnostics]
    app_step_inv [OF assms, of "SelectLocalTarget t"] app_step_inv [OF assms, of "SelectReceiverTarget t"]
  by simp_all

lemma config_kept [simp]:
  "st_config (apply_streaming_snapshot x s) = st_config s" "st_config (apply_receiver_snapshot r s) = st_config s"
  "st_config (apply_discovery_event ev s) = st_config s" "st_config (apply_discovery_snapshot ds s) = st_config s"
  "st_config (snd (select_receiver_device i s)) = st_config s" "st_config (clear_diagnostics s) = st_config s"
  "st_config (set_playback_targets ts s) = st_config s"
  by (simp_all add: setter_defs select_receiver_device_def apply_discovery_snapshot_def apply_discovery_event_def
      split: DiscoveryEvent.split)

lemma fold_events:
  "app_inv s \<Longrightarrow> app_inv (fold apply_discovery_event evs s)"
  "st_config (fold apply_discovery_event evs s) = st_config s"
  by (induction evs arbitrary: s) simp_all

lemma quiet_apply [simp]:
  assumes "quiet c c'"
  shows "quiet c (upd_state (apply_streaming_snapshot x) c')" "quiet c (upd_state (apply_receiver_snapshot r) c')"
    "quiet c (upd_state clear_diagnostics c')"
    "quiet c (upd_state (\<lambda>s. apply_streaming_snapshot x (snd (select_receiver_device i s))) c')"
    "quiet c (upd_state (fold apply_discovery_event evs) c')"
    "quiet c (upd_state (apply_discovery_snapshot ds) c')"
  using assms by (intro quiet_state; simp add: fold_events)+

lemma quiet_picked [simp]:
  "quiet c c' \<Longrightarrow> quiet c (c'\<lparr>uc_state := snd (select_receiver_device i (uc_state c'))\<rparr>)"
  using quiet_state [of c c' "\<lambda>s. snd (select_receiver_device i s)"] by (simp add: upd_state_def)

lemma quiet_case_sum [simp]:
  "(\<And>e. quiet c (f e)) \<Longrightarrow> (\<And>x. quiet c (g x)) \<Longrightarrow> quiet c (case r of Inl e \<Rightarrow> f e | Inr x \<Rightarrow> g x)"
  by (cases r) simp_all

lemma quiet_case_option [simp]:
  "quiet c d \<Longrightarrow> (\<And>x. quiet c (f x)) \<Longrightarrow> quiet c (case r of None \<Rightarrow> d | Some x \<Rightarrow> f x)"
  by (cases r) simp_all

lemma quiet_casting [simp]:
  "quiet c (queue_receiver_device_for_cast env d c)"
  by (cases "hs_control_tx (uc_sender c)")
    (simp_all add: queue_receiver_device_for_cast_def split_def Let_def)

lemma quiet_cast_actions [simp]:
  "quiet c (queue_selected_receiver_for_cast env i c)" "quiet c (remove_target_from_cast env k c)"
  "quiet c (stop_all_casting env c)" "quiet c (receiver_selector_changed env b i c)"
  by (simp_all add: queue_selected_receiver_for_cast_def remove_target_from_cast_def stop_all_casting_def
      receiver_selector_changed_def split_def Let_def)

lemma quiet_receiver_mode [simp]:
  "quiet c (start_receiver_mode env c)" "quiet c (stop_receiver_mode env c)"
  by (simp_all add: start_receiver_mode_def stop_receiver_mode_def split_def Let_def split: sum.split prod.split)

lemma export_frame:
  assumes "healthy h" "export_config toml paths config h = (r, h1)" "q \<noteq> ap_portable_config_path paths"
  shows "healthy h1 \<and> hw_files h1 q = hw_files h q"
  using assms
  by (cases "tm_to_string toml (clr_config (repaired config))")
    (auto simp: export_config_def save_to_path_def host_io_def healthy_ops Let_def split: option.splits)

lemma quiet_export [simp]: "quiet c (export_clicked env c)"
proof -
  obtain r h1 where e: "export_config (ue_toml env) (uc_paths c) (st_config (uc_state c)) (uc_host c) = (r, h1)"
    by fastforce
  have "quiet c (c\<lparr>uc_host := h1\<rparr>)"
    using export_frame [OF _ e] by (auto simp: quiet_def ready_def ui_settings_def paths_ok_def)
  then show ?thesis by (simp add: export_clicked_def e Let_def)
qed

text \<open>Operations of the host that leave a file as it is.\<close>

definition keeps :: "string \<Rightarrow> host \<Rightarrow> host \<Rightarrow> bool" where
  "keeps q h h1 \<longleftrightarrow> (healthy h \<longrightarrow> healthy h1 \<and> hw_files h1 q = hw_files h q)"

lemma keeps_refl [simp]: "keeps q h h"
  by (simp add: keeps_def)

lemma keeps_trans: "keeps q h h1 \<Longrightarrow> keeps q h1 h2 \<Longrightarrow> keeps q h h2"
  by (simp add: keeps_def)

lemma keeps_bind:
  "keeps q h (snd r) \<Longrightarrow> (\<And>x h1. keeps q h h1 \<Longrightarrow> keeps q h (snd (f x h1))) \<Longrightarrow> keeps q h (snd (io_bind r f))"
  by (cases r; cases "fst r") (auto simp: io_bind_def)

lemma keeps_basic:
  "keeps q h (snd (clock_now h))" "keeps q h (snd (fs_read p h))" "keeps q h (snd (fs_read_to_string p h))"
  "keeps q h (snd (fs_create_dir_all p h))" "q \<noteq> p \<Longrightarrow> keeps q h (snd (fs_write p s h))"
  "q \<noteq> p \<Longrightarrow> keeps q h (snd (fs_open_append p h))" "q \<noteq> p \<Longrightarrow> keeps q h (snd (fs_remove_file p h))"
  by (auto simp: keeps_def healthy_ops fs_read_to_string_def fs_remove_file_def split: option.split)

lemmas keeps_next = keeps_basic [THEN keeps_trans [rotated]]

lemma keeps_kernel: "keeps q h (snd (system_kernel_label dx h))"
  unfolding system_kernel_label_def split_def Let_def snd_conv by (intro keeps_next keeps_refl)

lemma keeps_compact: "keeps q h (snd (build_compact_diagnostics_report dx state paths dr h))"
  by (simp add: build_compact_diagnostics_report_def split_def Let_def keeps_kernel)

lemma keeps_crash_text: "keeps q h (snd (latest_crash_report_text ls dr h))"
  by (auto simp: latest_crash_report_text_def read_text_file_def split: option.split sum.split prod.split)
    (metis keeps_basic(3) snd_conv)+

lemma keeps_log_tail: "keeps q h (snd (read_log_tail lc path limit h))"
  unfolding read_log_tail_def by (auto intro!: keeps_bind keeps_basic)

lemmas keeps_ops = keeps_next keeps_refl keeps_kernel [THEN keeps_trans [rotated]]
  keeps_compact [THEN keeps_trans [rotated]] keeps_crash_text [THEN keeps_trans [rotated]]
  keeps_log_tail [THEN keeps_trans [rotated]]

lemma bundle_frame:
  assumes "healthy h" "paths_ok (dr_paths dr)" "export_diagnostic_bundle dx ls pack state dr h = (r, dr1, h1)"
  shows "healthy h1 \<and> hw_files h1 (ap_config_path (dr_paths dr)) = hw_files h (ap_config_path (dr_paths dr))
    \<and> dr_paths dr1 = dr_paths dr \<and> dr_config_summary dr1 = dr_config_summary dr"
proof -
  let ?q = "ap_config_path (dr_paths dr)"
  obtain r0 dr0 h0 where p: "persist_snapshot dx True dr h = (r0, dr0, h0)" by (metis prod_cases3)
  note frame = persist_frame [OF assms(1) _ _ p, of ?q]
  have ok: "?q \<noteq> path_join (ap_diagnostic_bundles_dir (dr_paths dr)) (''diagnostic-bundle-'' @ x @ ''.tar.gz'')" for x
    using assms(2) by (simp add: paths_ok_def del: append.simps flip: append_assoc)
  have "keeps ?q h0 h1 \<and> dr1 = dr0"
  proof (cases r0)
    case Inl
    then show ?thesis using assms(3) by (simp add: export_diagnostic_bundle_def p)
  next
    case Inr
    have d: "dr_paths dr0 = dr_paths dr" using frame assms(2) by (simp add: paths_ok_def)
    have k: "keeps ?q h0 (snd (snd (export_diagnostic_bundle dx ls pack state dr h)))"
      by (auto simp: export_diagnostic_bundle_def p Inr split_def Let_def d ok [simplified] split: sum.split
          intro!: keeps_bind keeps_ops)
    have "fst (snd (export_diagnostic_bundle dx ls pack state dr h)) = dr0"
      by (simp add: export_diagnostic_bundle_def p Inr split_def Let_def)
    with k show ?thesis unfolding assms(3) by simp
  qed
  then show ?thesis using frame assms(2) by (simp add: paths_ok_def keeps_def)
qed

lemma quiet_bundle [simp]: "quiet c (export_bundle_clicked env c)"
proof -
  obtain r dr h1 where e: "export_diagnostic_bundle (ue_diag env) (ue_lister env) (ue_pack env) (uc_state c)
      (uc_diagnostics c) (uc_host c) = (r, dr, h1)" by (metis prod_cases3)
  have "quiet c (c\<lparr>uc_diagnostics := dr, uc_host := h1\<rparr>)"
    using bundle_frame [OF _ _ e] by (auto simp: quiet_def ready_def ui_settings_def)
  then show ?thesis by (simp add: export_bundle_clicked_def e Let_def split: sum.split)
qed

lemma quiet_desktop [simp]:
  "quiet c (copy_diagnostics_clicked env c)" "quiet c (open_diagnostics_clicked env c)"
  "quiet c (open_crash_reports_clicked env c)" "quiet c (copy_latest_crash_clicked env c)"
  "quiet c (clear_clicked env c)"
proof -
  have keep: "quiet c (c\<lparr>uc_host := h1\<rparr>)" if "keeps (ap_config_path (uc_paths c)) (uc_host c) h1" for h1
    using that by (auto simp: quiet_def ready_def ui_settings_def keeps_def)
  show "quiet c (copy_diagnostics_clicked env c)"
    by (simp add: copy_diagnostics_clicked_def split_def Let_def keep keeps_compact split: sum.split)
  show "quiet c (copy_latest_crash_clicked env c)"
    using keep keeps_crash_text
    by (auto simp: copy_latest_crash_clicked_def split_def Let_def split: sum.split option.split)
qed (simp_all add: open_diagnostics_clicked_def open_crash_reports_clicked_def open_folder_clicked_def clear_clicked_def
    split_def Let_def split: sum.split)

lemma quiet_panic [simp]: "quiet c (callback_panicked env name payload c)"
proof -
  let ?c = "c\<lparr>uc_host := snd (clock_now (uc_host c))\<rparr>"
  have "quiet c ?c" by simp
  then have "quiet c (?c\<lparr>uc_diagnostics := queue_diagnostic_event e (uc_diagnostics ?c)\<rparr>)" for e
    by (simp add: quiet_def ready_def ui_settings_def queue_diagnostic_event_def)
  then show ?thesis by (simp add: callback_panicked_def split_def Let_def)
qed

lemma quiet_join [simp]:
  "quiet c (generate_browser_join_link env b c)" "quiet c (open_or_generate_browser_join_link env c)"
proof -
  show gen: "quiet c (generate_browser_join_link env b c)" for b
    by (simp add: generate_browser_join_link_def split_def Let_def split: sum.split)
  show "quiet c (open_or_generate_browser_join_link env c)"
    by (simp add: open_or_generate_browser_join_link_def gen split_def Let_def split: sum.split option.split)
qed

section \<open>Quiet timers\<close>

lemma quiet_finish [simp]: "quiet c c' \<Longrightarrow> quiet c (finish_poll env kind i n e b c')"
  by (simp add: finish_poll_def split_def Let_def)

lemma quiet_push_opt [simp]: "quiet c c' \<Longrightarrow> quiet c (push_opt level component m c')"
  by (simp add: push_opt_def)

lemma quiet_push_messages [simp]: "quiet c c' \<Longrightarrow> quiet c (push_messages ms c')"
  by (simp add: push_messages_def split_def)

lemma quiet_report [simp]: "quiet c c' \<Longrightarrow> quiet c (snd (report_transport_error e c'))"
  by (simp add: report_transport_error_def split: option.split)

lemma quiet_receiver_poll [simp]: "quiet c (receiver_poll env c)"
  unfolding receiver_poll_def Let_def split_def by simp

lemma quiet_streaming_poll [simp]: "quiet c (streaming_poll env c)"
  unfolding streaming_poll_def Let_def split_def by simp

lemma quiet_stop_unusable [simp]: "quiet c c' \<Longrightarrow> quiet c (stop_unusable_sender_targets c')"
  by (simp add: stop_unusable_sender_targets_def split_def Let_def)

lemma quiet_after_drain: "quiet c c' \<Longrightarrow> quiet c (snd (snd (after_drain env events e c')))"
  unfolding after_drain_def Let_def split_def snd_conv
  by (intro quiet_stop_unusable quiet_push_opt quiet_apply quiet_discovery_local)
    (simp only: quiet_with_world quiet_fields quiet_push_opt)

lemma quiet_discovery_poll: "discovery_poll env c = Some c' \<Longrightarrow> quiet c c'"
  by (auto simp: discovery_poll_def split_def Let_def quiet_after_drain split: bind_splits)

lemma quiet_inventory [simp]:
  "quiet c c' \<Longrightarrow> quiet c (note_inventory_polls env a b c')"
  "quiet c c' \<Longrightarrow> quiet c (inventory_failed env message n last_error c')"
  "quiet (snd s) (snd (inventory_tick env s))"
  by (simp_all add: note_inventory_polls_def inventory_failed_def inventory_tick_def Let_def)

text \<open>What an action does to the settings, unless it changes them.\<close>

fun changes_settings :: "ui_action \<Rightarrow> bool" where
  "changes_settings (Navigate _) = True"
| "changes_settings (ToggleMirror _) = True"
| "changes_settings (PickLocalOutput _) = True"
| "changes_settings (PickSource _) = True"
| "changes_settings (PickReceiverOutput _) = True"
| "changes_settings (PickLatency _) = True"
| "changes_settings (PickQuality _) = True"
| "changes_settings (ToggleTheme _) = True"
| "changes_settings (ToggleVerbose _) = True"
| "changes_settings (ToggleStartOnLaunch _) = True"
| "changes_settings ImportConfig = True"
| "changes_settings _ = False"

lemma quiet_perform: "\<not> changes_settings a \<Longrightarrow> quiet c (perform env a c)"
  by (cases a) simp_all

section \<open>Actions that change the settings\<close>

lemma kept_valid [simp]:
  assumes "valid_config (st_config s)"
  shows "valid_config (st_config (set_audio_sources xs s))" "valid_config (st_config (snd (select_audio_source k s)))"
    "valid_config (st_config (set_local_playback_enabled b s))" "valid_config (st_config (set_transport_quality q s))"
    "valid_config (st_config (set_receiver_latency_preset p s))" "valid_config (st_config (set_prefer_dark_theme b s))"
    "valid_config (st_config (set_verbose_logging b s))" "valid_config (st_config (set_receiver_start_on_launch b s))"
    "valid_config (st_config (select_local_playback_target t s))"
    "valid_config (st_config (select_receiver_playback_target t s))"
    "trim v \<noteq> [] \<Longrightarrow> valid_config (st_config (set_last_view_name v s))"
  using assms
  by (simp_all add: valid_config_def setter_defs select_audio_source_def set_audio_sources_def Let_def split_def)

lemma known_view_trim: "is_known_view_name v \<Longrightarrow> trim v \<noteq> []"
  by (auto simp: is_known_view_name_def trim_def trim_start_def is_whitespace_def)

lemma sound_host: "sound pa c \<Longrightarrow> healthy h \<Longrightarrow> sound pa (c\<lparr>uc_host := h\<rparr>)"
  by (auto simp: sound_def ready_def)

lemma settled_fields [simp]: "settled toml pa (c\<lparr>uc_visible := v\<rparr>) = settled toml pa c"
  by (simp add: settled_def saved_def)

lemma sound_case_sum [simp]:
  "(\<And>e. sound pa (f e)) \<Longrightarrow> (\<And>x. sound pa (g x)) \<Longrightarrow> sound pa (case r of Inl e \<Rightarrow> f e | Inr x \<Rightarrow> g x)"
  by (cases r) simp_all

lemma visible_settled:
  assumes "encodes_all (ue_toml env)" "is_known_view_name page"
  shows "settled (ue_toml env) pa c \<Longrightarrow> settled (ue_toml env) pa (set_visible_child_name env page c)"
    and "sound pa c \<Longrightarrow> sound pa (set_visible_child_name env page c)"
proof -
  have set: "sound pa (upd_state (set_last_view_name page) c)" if "sound pa c" for c :: "('s, 'w) UiController"
    by (rule sound_state [OF that]) (simp add: known_view_trim [OF assms(2)])
  show "settled (ue_toml env) pa c \<Longrightarrow> settled (ue_toml env) pa (set_visible_child_name env page c)"
    using persist_settles [OF assms(1) set] by (simp add: set_visible_child_name_def visible_child_changed_def)
  show "sound pa c \<Longrightarrow> sound pa (set_visible_child_name env page c)"
    using settled_sound [OF persist_settles [OF assms(1) set]]
    by (simp add: set_visible_child_name_def visible_child_changed_def)
qed

lemma restore_sound:
  "encodes_all (ue_toml env) \<Longrightarrow> sound pa c \<Longrightarrow> sound pa (restore_visible_page env page c)"
  "encodes_all (ue_toml env) \<Longrightarrow> settled (ue_toml env) pa c \<Longrightarrow> settled (ue_toml env) pa (restore_visible_page env page c)"
  using visible_settled [of env page pa c] visible_settled [of env "''dashboard''" pa c]
  by (auto simp: restore_visible_page_def) (simp_all add: is_known_view_name_def)

lemma stores:
  "encodes_all (ue_toml env) \<Longrightarrow> sound pa c \<Longrightarrow> settled (ue_toml env) pa (refresh_ui env (persist_current_config env k m c))"
  by (intro refresh_settled persist_settles)

lemma setting_stored:
  assumes "encodes_all (ue_toml env)" "sound pa c"
    and "\<And>s. app_inv s \<Longrightarrow> valid_config (st_config s) \<Longrightarrow> app_inv (f s) \<and> valid_config (st_config (f s))"
  shows "settled (ue_toml env) pa (setting_changed env f m c)"
  unfolding setting_changed_def by (intro stores assms(1) sound_push sound_state assms(2,3))

lemma settings_stored:
  assumes "encodes_all (ue_toml env)" "settled (ue_toml env) pa c"
  shows "settled (ue_toml env) pa (theme_toggled env b c)" "settled (ue_toml env) pa (verbose_logging_toggled env b c)"
    "settled (ue_toml env) pa (start_on_launch_toggled env b c)"
  unfolding theme_toggled_def verbose_logging_toggled_def start_on_launch_toggled_def apply_color_scheme_def
  by (rule setting_stored; simp add: assms settled_sound [OF assms(2)])+

lemma mirror_stored:
  assumes "encodes_all (ue_toml env)" "settled (ue_toml env) pa c"
  shows "settled (ue_toml env) pa (local_mirror_toggled env b c)" "settled (ue_toml env) pa (local_output_changed env i c)"
    "settled (ue_toml env) pa (receiver_output_changed env i c)" "settled (ue_toml env) pa (latency_changed env i c)"
    "settled (ue_toml env) pa (quality_changed env i c)"
  using assms(2) settled_sound [OF assms(2)]
  by (auto simp: local_mirror_toggled_def local_output_changed_def receiver_output_changed_def latency_changed_def
      quality_changed_def split_def Let_def split: option.split
      intro!: stores [OF assms(1)] sound_case_sum sound_push sound_state)

lemma source_stored:
  assumes "encodes_all (ue_toml env)" "settled (ue_toml env) pa c"
  shows "settled (ue_toml env) pa (audio_source_changed env i c)"
proof -
  have "sound pa (c\<lparr>uc_state := snd (select_audio_source k (uc_state c))\<rparr>)" for k
    using sound_state [of pa c "\<lambda>s. snd (select_audio_source k s)"] settled_sound [OF assms(2)]
    by (simp add: upd_state_def)
  then show ?thesis
    using assms(2)
    by (auto simp: audio_source_changed_def split_def Let_def split: option.split intro!: stores [OF assms(1)] sound_push)
qed

lemma sound_warnings [simp]:
  "sound pa c \<Longrightarrow> sound pa (warn_failed show_it res m c)" "sound pa c \<Longrightarrow> sound pa (fold (push_diagnostic l k) ms c)"
proof -
  show "sound pa c \<Longrightarrow> sound pa (warn_failed show_it res m c)" by (cases res) (simp_all add: warn_failed_def)
  show "sound pa c \<Longrightarrow> sound pa (fold (push_diagnostic l k) ms c)" by (induction ms arbitrary: c) simp_all
qed

lemma imported_inv:
  assumes "app_inv s" "valid_config config"
  shows "app_inv (imported_state config x r s) \<and> valid_config (st_config (imported_state config x r s))"
proof -
  let ?s = "s\<lparr>st_config := config, st_selected_audio_source_id := ac_preferred_source_id (cfg_audio config)\<rparr>"
  have "device_inv ?s" "st_cast_session ?s = cast_state_of (ss_state (st_streaming ?s))"
    using assms(1) by (auto simp: app_inv_def device_inv_def split: option.splits)
  then have "app_inv (set_audio_sources (st_audio_sources s) ?s)"
    by (simp add: app_inv_def set_sources_inv) (auto simp: device_inv_def split: option.splits)
  moreover have "valid_config (st_config (set_audio_sources (st_audio_sources s) ?s))"
    by (rule kept_valid) (simp add: assms(2))
  moreover have "trim (ui_last_view_name (cfg_ui config)) \<noteq> []" using assms(2) by (simp add: valid_config_def)
  ultimately show ?thesis by (simp add: imported_state_def)
qed

lemma import_stored:
  assumes "encodes_all (ue_toml env)" "settled (ue_toml env) pa c"
  shows "settled (ue_toml env) pa (import_clicked env c)"
proof -
  obtain r h1 where i: "import_config (ue_toml env) (uc_paths c) (uc_host c) = (r, h1)" by fastforce
  have load: "load_with_report_from_path (host_io (ue_toml env)) (ap_portable_config_path (uc_paths c)) (uc_host c) = (r, h1)"
    using i by (simp add: import_config_def)
  have h1: "healthy h1" "hw_files h1 = hw_files (uc_host c)"
    using load_keeps_files [OF load] assms(2) by (simp_all add: settled_def sound_def ready_def)
  have quiet: "quiet c (c\<lparr>uc_host := h1\<rparr>)" using h1 by (simp add: quiet_def ready_def ui_settings_def)
  show ?thesis
  proof (cases r)
    case (Inl e)
    then show ?thesis
      using quiet_settled [OF quiet assms(2)] quiet_settled [OF quiet_refresh_ui [OF quiet_push [OF quiet]] assms(2)]
      by (simp add: import_clicked_def i)
  next
    case (Inr report)
    have valid: "valid_config (clr_config report)" by (rule load_valid [OF load [unfolded Inr]])
    have start: "sound pa (c\<lparr>uc_host := h1\<rparr>)" by (rule sound_host [OF settled_sound [OF assms(2)] h1(1)])
    have "settled (ue_toml env) pa (apply_imported_config env report (c\<lparr>uc_host := h1\<rparr>))"
      unfolding apply_imported_config_def Let_def split_def apply_color_scheme_def
      by (intro stores assms(1) restore_sound sound_warnings sound_push sound_state imported_inv valid)
        (use start in simp_all)
    then show ?thesis by (simp add: import_clicked_def i Inr)
  qed
qed

lemma perform_settled:
  assumes "encodes_all (ue_toml env)" "settled (ue_toml env) pa c"
  shows "settled (ue_toml env) pa (perform env a c)"
proof (cases "changes_settings a")
  case False
  then show ?thesis by (rule quiet_settled [OF quiet_perform assms(2)])
next
  case True
  then show ?thesis
    using assms settings_stored [OF assms] mirror_stored [OF assms] source_stored [OF assms] import_stored [OF assms]
      visible_settled(1) [OF assms(1) _ assms(2)]
    by (cases a) simp_all
qed

end
