(* ===== verification/App_Main.thy ===== *)
theory App_Main
  imports Ui_Polls
begin

text \<open>
  The start and the end of the process, \<open>synchrosonic-app/src/main.rs\<close>. \<open>subscriber_error\<close> is
  what installing the global subscriber answers. A failing bootstrap ends the process with a
  panic: the error is the result.
\<close>

definition launch ::
  "toml_codec \<Rightarrow> diag_env \<Rightarrow> string option \<Rightarrow> AppPaths \<Rightarrow> host \<Rightarrow> (io_error + UiLaunchContext) \<times> host" where
  "launch toml dx subscriber_error paths h =
     (let (startup, h1) = load_startup_config toml paths h;
          (logging, h2) = init_logging (dx_log_codec dx) subscriber_error (ap_log_path (sc_paths startup)) h1
      in io_bind (bootstrap dx (sc_paths startup) (sc_config startup) h2) (\<lambda>(dr, warnings) h3.
           let (startup_diagnostics, h4) =
             fold (tell Warning ''logging'') (li_warnings logging) (sc_diagnostics startup, h3)
           in (Inr \<lparr>ul_config = sc_config startup, ul_startup_diagnostics = startup_diagnostics @ warnings,
                 ul_paths = sc_paths startup, ul_log_store = li_store logging, ul_diagnostics_runtime = dr\<rparr>, h4)))"

text \<open>The marker is removed when the application shuts down, and once more after it has run.\<close>

definition shut_down :: "diag_env \<Rightarrow> DiagnosticsRuntime \<Rightarrow> host \<Rightarrow> DiagnosticsRuntime \<times> host" where
  "shut_down dx dr h =
     (let (_, dr1, h1) = mark_clean_shutdown dx dr h; (_, dr2, h2) = mark_clean_shutdown dx dr1 h1
      in (dr2, h2))"

end
