(* ===== verification/Config_Text.thy ===== *)
theory Config_Text
  imports Persistence_Properties
begin

text \<open>
  A writer and reader of configurations that meets what the application relies on of the TOML
  library: what is written is ASCII and reads back as it was. It shows that the hypotheses on the
  codec can hold; the format is not TOML. A configuration is a list of numbers, a number is a run
  of letters.
\<close>

section \<open>Numbers\<close>

fun of_numbers :: "nat list \<Rightarrow> string" where
  "of_numbers [] = []"
| "of_numbers (n # ns) = replicate n CHR ''x'' @ CHR ''y'' # of_numbers ns"

fun to_numbers :: "nat \<Rightarrow> string \<Rightarrow> nat list" where
  "to_numbers n [] = []"
| "to_numbers n (c # cs) = (if c = CHR ''x'' then to_numbers (Suc n) cs else n # to_numbers 0 cs)"

lemma to_run: "to_numbers m (replicate n CHR ''x'' @ CHR ''y'' # s) = (m + n) # to_numbers 0 s"
  by (induction n arbitrary: m) simp_all

lemma numbers_back [simp]: "to_numbers 0 (of_numbers ns) = ns"
  by (induction ns) (simp_all add: to_run)

lemma numbers_ascii: "utf8_ok (of_numbers ns)"
proof (rule utf8_ascii)
  show "list_all (\<lambda>c. byte_code c < 128) (of_numbers ns)"
    by (induction ns) (auto simp: list_all_iff)
qed

section \<open>Fields\<close>

definition put_string :: "string \<Rightarrow> nat list" where
  "put_string s = length s # map of_char s"

definition put_opt :: "string option \<Rightarrow> nat list" where
  "put_opt x = (case x of None \<Rightarrow> [0] | Some s \<Rightarrow> 1 # put_string s)"

definition put_bool :: "bool \<Rightarrow> nat" where
  "put_bool b = (if b then 1 else 0)"

fun head_of :: "nat list \<Rightarrow> nat" where
  "head_of [] = 0"
| "head_of (n # ns) = n"

definition get_string :: "nat list \<Rightarrow> string \<times> nat list" where
  "get_string ns = (map char_of (take (head_of ns) (drop 1 ns)), drop (head_of ns) (drop 1 ns))"

definition get_opt :: "nat list \<Rightarrow> string option \<times> nat list" where
  "get_opt ns = (if head_of ns = 0 then (None, drop 1 ns)
     else (case get_string (drop 1 ns) of (s, r) \<Rightarrow> (Some s, r)))"

lemma map_chars: "map char_of (map of_char s) = (s :: string)"
  by (induction s) simp_all

lemma fields_back [simp]:
  "get_string (put_string s @ r) = (s, r)" "get_opt (put_opt x @ r) = (x, r)" "(0 < put_bool b) = b"
  using map_chars
  by (simp_all add: get_string_def put_string_def get_opt_def put_opt_def put_bool_def split: option.split)

section \<open>Configurations\<close>

definition put_numbers :: "AppConfig \<Rightarrow> nat list" where
  "put_numbers c =
     (let a = cfg_audio c; d = cfg_discovery c; t = cfg_transport c; r = cfg_receiver c; u = cfg_ui c
      in [unat (cfg_schema_version c), put_bool (ac_local_playback_enabled a), unat (ac_sample_rate_hz a),
          unat (ac_channels a), unat (ac_capture_buffer_frames a), unat (ac_capture_latency_ms a),
          put_bool (dc_enabled d), unat (dc_stale_timeout_secs d), unat (tc_stream_port t),
          (case tc_quality t of QualityPreset.LowLatency \<Rightarrow> 0 | QualityPreset.Balanced \<Rightarrow> 1 | HighQuality \<Rightarrow> 2),
          unat (tc_target_latency_ms t), unat (tc_connect_timeout_ms t), unat (tc_heartbeat_interval_ms t),
          put_bool (rc_enabled r), put_bool (rc_start_on_launch r), unat (rc_listen_port r),
          (case rc_latency_preset r of ReceiverLatencyPreset.LowLatency \<Rightarrow> 0 | ReceiverLatencyPreset.Balanced \<Rightarrow> 1 | Stable \<Rightarrow> 2),
          put_bool (ui_prefer_dark_theme u), put_bool (dg_verbose_logging (cfg_diagnostics c)), (case ac_sample_format a of S16Le \<Rightarrow> 0 | F32Le \<Rightarrow> 1)])"

definition put_strings :: "AppConfig \<Rightarrow> nat list" where
  "put_strings c =
     (let a = cfg_audio c; r = cfg_receiver c
      in put_opt (ac_preferred_source_id a) @ put_opt (ac_local_playback_target_id a)
         @ put_string (dc_service_type (cfg_discovery c)) @ put_string (tc_bind_host (cfg_transport c))
         @ put_string (rc_advertised_name r) @ put_string (rc_bind_host r) @ put_opt (rc_playback_target_id r)
         @ put_string (ui_last_view_name (cfg_ui c)))"

definition get_config :: "nat list \<Rightarrow> AppConfig" where
  "get_config ns =
     (let (source, r1) = get_opt ns; (target, r2) = get_opt r1; (service, r3) = get_string r2;
          (host, r4) = get_string r3; (name, r5) = get_string r4; (bind, r6) = get_string r5;
          (output, r7) = get_opt r6; (view, r8) = get_string r7
      in \<lparr>cfg_schema_version = of_nat (r8 ! 0),
          cfg_audio = \<lparr>ac_preferred_source_id = source, ac_local_playback_enabled = (r8 ! 1 \<noteq> 0),
            ac_local_playback_target_id = target, ac_sample_rate_hz = of_nat (r8 ! 2), ac_channels = of_nat (r8 ! 3),
            ac_sample_format = (if r8 ! 19 = 0 then S16Le else F32Le),
            ac_capture_buffer_frames = of_nat (r8 ! 4), ac_capture_latency_ms = of_nat (r8 ! 5)\<rparr>,
          cfg_discovery = \<lparr>dc_enabled = (r8 ! 6 \<noteq> 0), dc_service_type = service,
            dc_stale_timeout_secs = of_nat (r8 ! 7)\<rparr>,
          cfg_transport = \<lparr>tc_bind_host = host, tc_stream_port = of_nat (r8 ! 8),
            tc_quality = [QualityPreset.LowLatency, QualityPreset.Balanced, HighQuality] ! (r8 ! 9),
            tc_target_latency_ms = of_nat (r8 ! 10), tc_connect_timeout_ms = of_nat (r8 ! 11),
            tc_heartbeat_interval_ms = of_nat (r8 ! 12)\<rparr>,
          cfg_receiver = \<lparr>rc_enabled = (r8 ! 13 \<noteq> 0), rc_start_on_launch = (r8 ! 14 \<noteq> 0), rc_advertised_name = name,
            rc_bind_host = bind, rc_listen_port = of_nat (r8 ! 15), rc_playback_target_id = output,
            rc_latency_preset =
              [ReceiverLatencyPreset.LowLatency, ReceiverLatencyPreset.Balanced, Stable] ! (r8 ! 16)\<rparr>,
          cfg_ui = \<lparr>ui_prefer_dark_theme = (r8 ! 17 \<noteq> 0), ui_last_view_name = view\<rparr>,
          cfg_diagnostics = \<lparr>dg_verbose_logging = (r8 ! 18 \<noteq> 0)\<rparr>\<rparr>)"

lemma config_back: "get_config (put_strings c @ put_numbers c) = c"
  by (cases c; cases "cfg_audio c"; cases "cfg_discovery c"; cases "cfg_transport c"; cases "cfg_receiver c";
      cases "cfg_ui c"; cases "cfg_diagnostics c"; cases "ac_sample_format (cfg_audio c)";
      cases "tc_quality (cfg_transport c)"; cases "rc_latency_preset (cfg_receiver c)")
    (simp_all add: get_config_def put_strings_def put_numbers_def Let_def)

definition letter_toml :: toml_codec where
  "letter_toml = \<lparr>tm_from_str = (\<lambda>s. Inr (get_config (to_numbers 0 s))),
     tm_to_string = (\<lambda>c. Inr (of_numbers (put_strings c @ put_numbers c)))\<rparr>"

lemma letter_encodes: "encodes letter_toml c"
  using numbers_ascii by (simp add: encodes_def letter_toml_def config_back)

end
