(* ===== verification/Ui_Start.thy ===== *)
theory Ui_Start
  imports Ui_Window App_Main Config_Text Discovery_Properties
begin

text \<open>The configuration over the whole life of the process: start, window, end, and the next start.\<close>

section \<open>Every step keeps the settings saved\<close>

lemma quiet_transition [simp]: "quiet c c' \<Longrightarrow> quiet c (push_transition k l t b c')"
  unfolding push_transition_def split_def Let_def by (intro quiet_state quiet_clock) simp_all

lemma quiet_retry [simp]: "quiet c c' \<Longrightarrow> quiet c (retry_local_mirror env t c')"
  by (simp add: retry_local_mirror_def split_def Let_def)

text \<open>A known source is the configured one, so new lists change the configuration only with the selection.\<close>

lemma same_source_config:
  assumes "app_inv s" "st_selected_audio_source_id (set_audio_sources xs s) = st_selected_audio_source_id s"
  shows "st_config (set_audio_sources xs s) = st_config s"
proof -
  have "ac_preferred_source_id (cfg_audio (st_config (set_audio_sources xs s))) =
      st_selected_audio_source_id (set_audio_sources xs s)"
    using set_sources_inv [of xs s] by (simp add: source_inv_def)
  then have "ac_preferred_source_id (cfg_audio (st_config (set_audio_sources xs s))) =
      ac_preferred_source_id (cfg_audio (st_config s))"
    using assms by (simp add: app_inv_def source_inv_def)
  moreover have "\<exists>i. st_config (set_audio_sources xs s) =
      (st_config s)\<lparr>cfg_audio := (cfg_audio (st_config s))\<lparr>ac_preferred_source_id := i\<rparr>\<rparr>"
    by (auto simp: set_audio_sources_def Let_def split_def)
  ultimately show ?thesis by (cases "st_config s"; cases "cfg_audio (st_config s)") auto
qed

lemma targets_selection [simp]:
  "st_selected_audio_source_id (set_playback_targets ts s) = st_selected_audio_source_id s"
  by (simp add: set_playback_targets_def)

lemma inventory_stored:
  assumes "encodes_all (ue_toml env)" "settled (ue_toml env) pa c"
  shows "settled (ue_toml env) pa (apply_inventory env sources targets n c)"
proof -
  let ?c1 = "upd_state (\<lambda>s. set_playback_targets targets (set_audio_sources sources s)) c"
  have sound: "sound pa ?c1" using assms(2) by (intro sound_state) simp_all
  show ?thesis
  proof (cases "st_selected_audio_source_id (uc_state c) = st_selected_audio_source_id (uc_state ?c1)")
    case True
    have "app_inv (uc_state c)" using assms(2) by (simp add: settled_def sound_def ready_def)
    moreover from this have "st_config (set_audio_sources sources (uc_state c)) = st_config (uc_state c)"
      using same_source_config True by (simp add: upd_state_def)
    ultimately have "quiet c ?c1" by (simp add: quiet_def ready_def ui_settings_def upd_state_def)
    then have "quiet c (apply_inventory env sources targets n c)"
      using True by (simp add: apply_inventory_def Let_def split: option.split)
    then show ?thesis using assms(2) by (rule quiet_settled)
  next
    case False
    have stored: "settled (ue_toml env) pa (persist_current_config env k m c')" if "quiet ?c1 c'" for c' k m
      using quiet_sound [OF that sound] by (rule persist_settles [OF assms(1)])
    show ?thesis
      using False unfolding apply_inventory_def Let_def
      by (simp add: refresh_settled stored split: option.split)
  qed
qed

lemma pump_stored:
  assumes "encodes_all (ue_toml env)" "settled (ue_toml env) pa (snd s)"
  shows "settled (ue_toml env) pa (snd (inventory_pump env s))"
proof -
  have one: "settled (ue_toml env) pa (snd (apply_audio_inventory_refresh_result env r (e, c)))"
    if "settled (ue_toml env) pa c" for r e c
    using inventory_stored [OF assms(1) that] quiet_settled [OF quiet_inventory(2) [OF quiet_refl, of _ env] that]
    by (simp add: apply_audio_inventory_refresh_result_def Let_def split: sum.split prod.split)
  have "settled (ue_toml env) pa (snd (fold (apply_audio_inventory_refresh_result env) rs (e, c)))"
    if "settled (ue_toml env) pa c" for rs e c
    using that
  proof (induction rs arbitrary: e c)
    case (Cons r rs)
    then show ?case using one [OF Cons.prems, of r e] by (cases "apply_audio_inventory_refresh_result env r (e, c)") simp
  qed simp
  then show ?thesis using assms(2) by (simp add: inventory_pump_def split_def Let_def)
qed

lemma step_stored:
  assumes "encodes_all (ue_toml env)" "ui_step env s t" "settled (ue_toml env) pa (snd s)"
  shows "settled (ue_toml env) pa (snd t)"
  using assms(2,3)
proof cases
  case Action
  then show ?thesis using perform_settled [OF assms(1)] assms(3) by simp
next
  case Discovery
  then show ?thesis using quiet_settled [OF quiet_discovery_poll] assms(3) by simp
next
  case InventoryTick
  then show ?thesis using quiet_settled [OF quiet_inventory(3)] assms(3) by simp
next
  case InventoryPump
  then show ?thesis using pump_stored [OF assms(1)] assms(3) by simp
qed (auto intro: quiet_settled [OF _ assms(3)])

text \<open>The window as a system with an invariant: the environment is part of the state.\<close>

definition window_step ::
  "('q, 's, 'w) ui_env \<times> AppPaths \<times> InventoryPoll \<times> ('s, 'w) UiController
    \<Rightarrow> ('q, 's, 'w) ui_env \<times> AppPaths \<times> InventoryPoll \<times> ('s, 'w) UiController \<Rightarrow> bool" where
  "window_step s t \<longleftrightarrow> fst t = fst s \<and> fst (snd t) = fst (snd s) \<and> ui_step (fst s) (snd (snd s)) (snd (snd t))"

definition window_inv :: "('q, 's, 'w) ui_env \<times> AppPaths \<times> InventoryPoll \<times> ('s, 'w) UiController \<Rightarrow> bool" where
  "window_inv s \<longleftrightarrow> encodes_all (ue_toml (fst s)) \<and> settled (ue_toml (fst s)) (fst (snd s)) (snd (snd (snd s)))"

interpretation window: invariant_system window_inv window_step window_inv
proof
  fix s t :: "('q, 's, 'w) ui_env \<times> AppPaths \<times> InventoryPoll \<times> ('s, 'w) UiController"
  assume "window_inv s" "window_step s t"
  then show "window_inv t" using step_stored [of "fst s" "snd (snd s)" "snd (snd t)"]
    by (simp add: window_inv_def window_step_def)
qed

lemma window_runs: "(ui_step env)\<^sup>*\<^sup>* s t \<Longrightarrow> window_step\<^sup>*\<^sup>* (env, pa, s) (env, pa, t)"
  by (induction rule: rtranclp_induct) (auto simp: window_step_def intro: rtranclp.rtrancl_into_rtrancl)

lemma run_stored:
  "encodes_all (ue_toml env) \<Longrightarrow> settled (ue_toml env) pa (snd s) \<Longrightarrow> (ui_step env)\<^sup>*\<^sup>* s t
    \<Longrightarrow> settled (ue_toml env) pa (snd t)"
  using window.inv_steps [OF window_runs, of env s t pa] by (simp add: window_inv_def)

section \<open>The start\<close>

lemma keeps_atomic:
  "q \<noteq> p \<Longrightarrow> q \<noteq> tmp_path p \<Longrightarrow> keeps q h (snd (write_bytes_atomic p s h))"
  "q \<noteq> p \<Longrightarrow> q \<noteq> tmp_path p \<Longrightarrow> keeps q h (snd (write_json_atomic p e h))"
  by (auto simp: keeps_def write_json_atomic_def atomic_healthy split: sum.split)

lemmas keeps_start = keeps_ops keeps_atomic keeps_atomic [THEN keeps_trans [rotated]]

lemma keeps_tell: "keeps q h (snd (fold (tell level component) ms (ds, h)))"
  by (simp add: keeps_def)

lemma keeps_told: "keeps q h h1 \<Longrightarrow> keeps q h (snd (tell level component m (ds, h1)))"
  by (simp add: keeps_def)

lemma keeps_logging: "q \<noteq> path \<Longrightarrow> keeps q h (snd (init_logging lc e path h))"
proof -
  assume "q \<noteq> path"
  then have opened: "keeps q h (snd (open_log_file path h))" for h
    by (auto simp: open_log_file_def split: option.split intro!: keeps_bind keeps_start)
  have "keeps q h (snd (snd (hydrate_from_file lc path n store h)))" for n store
    using keeps_log_tail [of q h lc path n]
    by (auto simp: hydrate_from_file_def split: prod.split sum.split)
  then show ?thesis
    using keeps_trans opened by (fastforce simp: init_logging_def split_def Let_def)
qed

lemma keeps_layout: "keeps q h (snd (ensure_state_layout paths h))"
  by (auto simp: ensure_state_layout_def intro!: keeps_bind keeps_start)

lemma keeps_snapshot: "keeps q h (snd (load_snapshot dx path h))"
  using keeps_basic(2) [of q h path] by (auto simp: load_snapshot_def split: prod.split sum.split)

lemma keeps_persist:
  assumes "paths_ok paths" "dr_paths dr = paths"
  shows "keeps (ap_config_path paths) h (snd (snd (persist_snapshot dx force dr h)))"
  using assms
  by (auto simp: persist_snapshot_def paths_ok_def split_def Let_def split: sum.split prod.split
      intro!: keeps_start dest: arg_cong [where f = snd])

lemma persist_fields:
  "persist_snapshot dx force dr h = (r, dr1, h1) \<Longrightarrow> dr_paths dr1 = dr_paths dr
    \<and> dr_config_summary dr1 = dr_config_summary dr"
  by (auto simp: persist_snapshot_def split_def Let_def split: prod.splits sum.splits if_splits)

lemma keeps_recover:
  assumes "paths_ok paths"
  shows "keeps (ap_config_path paths) h (snd (recover_previous_session dx paths summary h))"
  using assms
  by (auto simp: recover_previous_session_def paths_ok_def split_def Let_def
      intro!: keeps_bind keeps_start keeps_snapshot [THEN keeps_trans [rotated]])

lemma keeps_session:
  "paths_ok (dr_paths dr) \<Longrightarrow> keeps (ap_config_path (dr_paths dr)) h (snd (start_session dx dr h))"
  by (auto simp: start_session_def paths_ok_def split_def Let_def intro!: keeps_start)

lemma keeps_bootstrap:
  assumes "paths_ok paths"
  shows "keeps (ap_config_path paths) h (snd (bootstrap dx paths config h))"
proof -
  have session: "keeps (ap_config_path paths) h (snd
      (case persist_snapshot dx True dr h of
         (Inl e, _, h5) \<Rightarrow> (Inl e, h5)
       | (Inr _, dr1, h5) \<Rightarrow> io_bind (start_session dx dr1 h5) (\<lambda>_ h6. (Inr (dr1, events), h6))))"
    if dr: "dr_paths dr = paths" for dr h and events :: "DiagnosticEvent list"
  proof -
    obtain r dr1 h1 where p: "persist_snapshot dx True dr h = (r, dr1, h1)" by (metis prod_cases3)
    have "keeps (ap_config_path paths) h h1" using keeps_persist [OF assms dr, of h dx True] p by simp
    moreover have "keeps (ap_config_path paths) h1 (snd (start_session dx dr1 h1))"
      using keeps_session [of dr1] persist_fields [OF p] dr assms by simp
    then have "keeps (ap_config_path paths) h1 (snd (io_bind (start_session dx dr1 h1) (\<lambda>_ h6. (Inr (dr1, events), h6))))"
      by (auto intro: keeps_bind)
    ultimately show ?thesis by (cases r) (auto simp: p intro: keeps_trans)
  qed
  show ?thesis
    unfolding bootstrap_def Let_def split_def
    by (intro keeps_bind keeps_layout keeps_recover [OF assms, THEN keeps_trans [rotated]]
        keeps_snapshot [THEN keeps_trans [rotated]] keeps_refl)
      (auto simp: split_def split: option.split cong del: sum.case_cong_weak
        intro!: session [THEN keeps_trans [rotated], simplified split_def] keeps_start keeps_told)
qed

lemma persist_same [simp]:
  "dr_paths (fst (snd (persist_snapshot dx force dr h))) = dr_paths dr"
  "dr_config_summary (fst (snd (persist_snapshot dx force dr h))) = dr_config_summary dr"
  using persist_fields [of dx force dr h] by (metis prod.collapse)+

lemma bootstrap_fields:
  "bootstrap dx paths config h = (Inr (dr, events), h1) \<Longrightarrow> dr_paths dr = paths
    \<and> dr_config_summary dr = redacted config"
  by (auto simp: bootstrap_def io_bind_def split_def Let_def split: sum.splits dest!: arg_cong [where f = fst])

definition disk_holds :: "toml_codec \<Rightarrow> string \<Rightarrow> host \<Rightarrow> AppConfig \<Rightarrow> bool" where
  "disk_holds toml path h config \<longleftrightarrow>
     (\<exists>report. loaded toml path (hw_files h path) = Inr report \<and> \<not> clr_repaired report \<and> clr_config report = config)"

lemma startup_stored:
  assumes "healthy h" "encodes_all toml" "load_startup_config toml paths h = (sc, h1)"
  shows "healthy h1 \<and> disk_holds toml (ap_config_path paths) h1 (sc_config sc) \<and> valid_config (sc_config sc)
    \<and> sc_paths sc = paths"
proof -
  have valid: "valid_config (sc_config sc)" using startup_valid [of toml paths h] assms(3) by simp
  then have enc: "encodes toml (sc_config sc)" using assms(2) by (simp add: encodes_all_def)
  have paths: "sc_paths sc = paths" using assms(3) by (auto simp: load_startup_config_def split_def Let_def split: sum.splits)
  show ?thesis
  proof (cases "\<exists>report. loaded toml (ap_config_path paths) (hw_files h (ap_config_path paths)) = Inr report
      \<and> \<not> clr_repaired report")
    case True
    then obtain report where report: "loaded toml (ap_config_path paths) (hw_files h (ap_config_path paths)) = Inr report"
        "\<not> clr_repaired report" by blast
    moreover have "healthy h1" "hw_files h1 = hw_files h" "sc_config sc = clr_config report"
      using assms report
      by (auto simp: load_startup_config_def load_healthy maybe_repair_saved_config_def split_def Let_def)
    ultimately show ?thesis using valid paths by (auto simp: disk_holds_def)
  next
    case False
    have w: "healthy h1" "hw_files h1 (ap_config_path paths) = Some (encoded toml (sc_config sc))"
      using start_writes [OF assms(1) enc assms(3) False] by simp_all
    have "loaded toml (ap_config_path paths) (hw_files h1 (ap_config_path paths)) =
        Inr \<lparr>clr_config = sc_config sc, clr_warnings = [], clr_repaired = False\<rparr>"
      using load_saved [OF w(1) enc valid w(2)] load_healthy [OF w(1), of toml "ap_config_path paths"] by simp
    then show ?thesis using w valid paths by (simp add: disk_holds_def)
  qed
qed

lemma launch_stored:
  assumes "healthy h" "encodes_all toml" "paths_ok paths" "launch toml dx e paths h = (Inr ul, h1)"
  shows "healthy h1 \<and> disk_holds toml (ap_config_path paths) h1 (ul_config ul) \<and> valid_config (ul_config ul)
    \<and> ul_paths ul = paths \<and> dr_paths (ul_diagnostics_runtime ul) = paths
    \<and> dr_config_summary (ul_diagnostics_runtime ul) = redacted (ul_config ul)"
proof -
  let ?q = "ap_config_path paths"
  obtain sc ha where sc: "load_startup_config toml paths h = (sc, ha)" by fastforce
  obtain li hb where li: "init_logging (dx_log_codec dx) e (ap_log_path paths) ha = (li, hb)" by fastforce
  obtain r hc where r: "bootstrap dx paths (sc_config sc) hb = (r, hc)" by fastforce
  note start = startup_stored [OF assms(1,2) sc]
  have "keeps ?q ha hb" using keeps_logging [of ?q "ap_log_path paths" ha "dx_log_codec dx" e] li assms(3) by (simp add: paths_ok_def)
  moreover have "keeps ?q hb hc" using keeps_bootstrap [OF assms(3), of hb dx "sc_config sc"] r by simp
  ultimately have k: "keeps ?q ha hc" by (rule keeps_trans)
  obtain dr events where ok: "r = Inr (dr, events)"
    using assms(4) sc li r start by (cases r) (auto simp: launch_def io_bind_def)
  obtain ds hd where f: "fold (tell Warning ''logging'') (li_warnings li) (sc_diagnostics sc, hc) = (ds, hd)" by fastforce
  have "keeps ?q hc hd" using keeps_tell [of ?q hc Warning "''logging''" "li_warnings li" "sc_diagnostics sc"] f by simp
  with k have "keeps ?q ha hd" by (rule keeps_trans)
  moreover have "h1 = hd" "ul_config ul = sc_config sc" "ul_paths ul = paths" "ul_diagnostics_runtime ul = dr"
    using assms(4) sc li r start f by (auto simp: launch_def io_bind_def ok)
  ultimately show ?thesis
    using start bootstrap_fields [OF r [unfolded ok]] by (simp add: keeps_def disk_holds_def)
qed

lemma filled_settled:
  assumes "settled toml pa c"
  shows "settled toml pa (upd_state (\<lambda>s. apply_streaming_snapshot x
      (apply_receiver_snapshot y (apply_discovery_snapshot z s))) (snd (with_world f (case r of Inl e \<Rightarrow> push_diagnostic l k (m e) c | Inr u \<Rightarrow> c))))"
  by (rule quiet_settled [OF quiet_state assms]) (simp_all split: sum.split)

lemma window_stored:
  assumes "encodes_all (ue_toml env)" "paths_ok (ul_paths ul)" "healthy h"
    and "disk_holds (ue_toml env) (ap_config_path (ul_paths ul)) h (ul_config ul)" "valid_config (ul_config ul)"
    and "dr_paths (ul_diagnostics_runtime ul) = ul_paths ul"
    and "dr_config_summary (ul_diagnostics_runtime ul) = redacted (ul_config ul)"
  shows "settled (ue_toml env) (ul_paths ul) (build_main_window env ul discovery ab pb widgets h w)"
proof -
  have inv: "app_inv ((app_state_new now config)\<lparr>st_diagnostics := ds\<rparr>)" for now config ds
    using app_new_inv [of now config] by simp
  have new: "settled (ue_toml env) (ul_paths ul) (new_controller env ul discovery ab pb widgets h w)"
  proof -
    have base: "settled (ue_toml env) (ul_paths ul) c" if "uc_state c = (app_state_new now (ul_config ul))\<lparr>st_diagnostics := ds\<rparr>"
        "uc_host c = snd (clock_now h)" "uc_paths c = ul_paths ul" "uc_diagnostics c = ul_diagnostics_runtime ul"
      for c now ds
      using that assms inv
      by (simp add: settled_def sound_def ready_def saved_def disk_holds_def app_state_new_def)
    show ?thesis
      unfolding new_controller_def Let_def split_def
      by (rule filled_settled, rule base) simp_all
  qed
  have "settled (ue_toml env) (ul_paths ul) ((new_controller env ul discovery ab pb widgets h w)\<lparr>uc_visible := Some ''dashboard''\<rparr>)"
    using new by simp
  then have "settled (ue_toml env) (ul_paths ul) (restore_visible_page env v (refresh_ui env
      ((new_controller env ul discovery ab pb widgets h w)\<lparr>uc_visible := Some ''dashboard''\<rparr>)))" for v
    by (intro restore_sound(2) assms(1) refresh_settled)
  then show ?thesis
    unfolding build_main_window_def Let_def
    by (auto intro: quiet_settled [OF quiet_receiver_mode(1)] quiet_settled [OF quiet_sync_advertisement [OF quiet_refl]])
qed

section \<open>The end and the next start\<close>

lemma shutdown_fields:
  assumes "mark_clean_shutdown dx dr h = (r, dr1, h1)"
  shows "dr_config_summary dr1 = dr_config_summary dr \<and> dr_paths dr1 = dr_paths dr
    \<and> (paths_ok (dr_paths dr) \<longrightarrow> keeps (ap_config_path (dr_paths dr)) h h1)"
proof -
  obtain r0 dr0 h0 where p: "persist_snapshot dx True dr h = (r0, dr0, h0)" by (metis prod_cases3)
  note fields = persist_fields [OF p]
  have k: "keeps (ap_config_path (dr_paths dr)) h h0" if "paths_ok (dr_paths dr)"
    using keeps_persist [OF that refl, of h dx True] p by simp
  have rm: "keeps (ap_config_path (dr_paths dr)) h0 (snd (fs_remove_file (ap_session_marker_path (dr_paths dr)) h0))"
    if "paths_ok (dr_paths dr)"
    using that by (intro keeps_basic) (simp add: paths_ok_def)
  show ?thesis
    using assms fields k rm
    by (auto simp: mark_clean_shutdown_def p split: sum.splits prod.splits intro: keeps_trans)
qed

lemma shut_down_keeps:
  assumes "shut_down dx dr h = (dr1, h1)" "paths_ok (dr_paths dr)"
  shows "dr_config_summary dr1 = dr_config_summary dr \<and> keeps (ap_config_path (dr_paths dr)) h h1"
proof -
  obtain r0 dr0 h0 where a: "mark_clean_shutdown dx dr h = (r0, dr0, h0)" by (metis prod_cases3)
  obtain r2 dr2 h2 where b: "mark_clean_shutdown dx dr0 h0 = (r2, dr2, h2)" by (metis prod_cases3)
  have "dr2 = dr1" "h2 = h1" using assms(1) a b by (simp_all add: shut_down_def)
  then show ?thesis
    using shutdown_fields [OF a] shutdown_fields [OF b] assms(2) by (auto intro: keeps_trans)
qed

text \<open>
  C1: The configuration survives the process. On a disk that works, after any start and any sequence of what the user, the timers
  and the other threads do to the window, the next start loads exactly the configuration the window had at the end, unrepaired and with one
  informational diagnostic, and the diagnostics of the closed window summarise that configuration.
\<close>

theorem settings_survive_the_process:
  assumes "healthy h" "encodes_all (ue_toml env)" "paths = paths_resolve getenv"
    and "launch (ue_toml env) dx subscriber_error paths h = (Inr ul, h1)"
    and "(ui_step env)\<^sup>*\<^sup>* (p, build_main_window env ul discovery ab pb widgets h1 w) (p', c)"
    and "shut_down (ue_diag env) (uc_diagnostics c) (uc_host c) = (dr, h2)"
  shows "sc_config (fst (load_startup_config (ue_toml env) paths h2)) = st_config (uc_state c)
    \<and> map de_level (sc_diagnostics (fst (load_startup_config (ue_toml env) paths h2))) = [Info]
    \<and> dr_config_summary dr = redacted (st_config (uc_state c))
    \<and> app_inv (uc_state c)"
proof -
  have ok: "paths_ok paths" by (simp add: assms(3) resolved_paths_ok)
  note start = launch_stored [OF assms(1,2) ok assms(4)]
  have "settled (ue_toml env) paths (build_main_window env ul discovery ab pb widgets h1 w)"
    using window_stored [OF assms(2), of ul h1] start ok by simp
  then have last: "settled (ue_toml env) paths c" using run_stored [OF assms(2) _ assms(5)] by simp
  then have c: "uc_paths c = paths" "healthy (uc_host c)" "dr_paths (uc_diagnostics c) = paths"
      "dr_config_summary (uc_diagnostics c) = redacted (st_config (uc_state c))" "app_inv (uc_state c)"
      "disk_holds (ue_toml env) (ap_config_path paths) (uc_host c) (st_config (uc_state c))"
    by (auto simp: settled_def sound_def ready_def saved_def disk_holds_def)
  note down = shut_down_keeps [OF assms(6), unfolded c(3), OF ok]
  then have "healthy h2" "disk_holds (ue_toml env) (ap_config_path paths) h2 (st_config (uc_state c))"
    using c(2,6) by (simp_all add: keeps_def disk_holds_def)
  then show ?thesis using start_unrepaired [of h2 "ue_toml env" paths] down c by (auto simp: disk_holds_def)
qed

text \<open>A desktop where nothing fails, with the letter format for the configuration.\<close>

definition demo_ui_env :: "(nat \<times> FanoutAudioFrame list, unit, ServiceEvent list) ui_env" where
  "demo_ui_env = \<lparr>ue_toml = letter_toml, ue_diag = demo_dx, ue_mdns = demo_env,
     ue_join = \<lparr>je_now = \<lambda>w. (7, w), je_bind = \<lambda>_ w. (Inr (), w), je_set_nonblocking = \<lambda>w. (Inr (), w),
       je_local_addr = \<lambda>w. (Inr \<lparr>sa_ip = V4 0 0 0 0, sa_port = 4000\<rparr>, w), je_parse_addr = \<lambda>_. None,
       je_open_urandom = \<lambda>w. (Inr (), w), je_read_exact = \<lambda>n w. (Inr (replicate n 171), w),
       je_udp_bind = \<lambda>_ w. (None, w), je_udp_connect = \<lambda>_ _ w. (False, w), je_udp_local_addr = \<lambda>_ w. (None, w),
       je_hostname = \<lambda>w. (None, w), je_to_socket_addrs = \<lambda>_ w. (None, w), je_try_clone = \<lambda>w. (Inr (), w),
       je_write = \<lambda>_ w. (Inr (), w), je_flush = \<lambda>w. (Inr (), w), je_pretty = \<lambda>_. Inr ''{}'', je_app_version = ''0.1.11''\<rparr>,
     ue_playback = \<lparr>ev_now = \<lambda>w. (0, w), ev_start_stream = \<lambda>_ w. (Inr (), w), ev_write = \<lambda>_ s w. (Inr (), s, w),
       ev_stop = \<lambda>_ w. (Inr (), w)\<rparr>,
     ue_channels = list_channel, ue_parse_addr = \<lambda>_. None, ue_bind = \<lambda>a w. (Bound a, w),
     ue_transport_join = \<lambda>w. ((True, True), w), ue_manager_panicked = \<lambda>w. (False, w),
     ue_copy = \<lambda>_ w. (Inr (), w), ue_open = \<lambda>_ w. (Inr (), w), ue_path_uri = \<lambda>p. ''file://'' @ p,
     ue_elapsed = \<lambda>w. (0, w), ue_lister = \<lambda>_ _. None, ue_pack = \<lambda>_. []\<rparr>"

lemma demo_ui_encodes: "encodes_all (ue_toml demo_ui_env)"
  by (simp add: encodes_all_def demo_ui_env_def letter_encodes)

lemma empty_launch: "\<exists>ul h1. launch letter_toml demo_dx None demo_paths empty_host = (Inr ul, h1)"
proof -
  obtain sc ha where sc: "load_startup_config letter_toml demo_paths empty_host = (sc, ha)" by fastforce
  have all: "encodes_all letter_toml" by (simp add: encodes_all_def letter_encodes)
  note start = startup_stored [OF demo_hosts(1) all sc]
  have files: "hw_files ha = [ap_config_path demo_paths \<mapsto> encoded letter_toml default_app_config]"
  proof -
    have none: "hw_files empty_host q = None" for q by (simp add: empty_host_def)
    have "load_with_report_from_path (host_io letter_toml) (ap_config_path demo_paths) empty_host =
        (Inl (ConfigRead (ap_config_path demo_paths) not_found), empty_host)"
      by (simp add: load_healthy [OF demo_hosts(1)] loaded_def none)
    then show ?thesis
      using sc save_healthy [OF demo_hosts(1) letter_encodes default_config_valid, of demo_paths]
      by (auto simp: load_startup_config_def use_defaults_def is_missing_def not_found_def split_def Let_def)
        (simp add: empty_host_def)
  qed
  obtain li hb where li: "init_logging (dx_log_codec demo_dx) None (ap_log_path demo_paths) ha = (li, hb)" by fastforce
  have "ap_log_path demo_paths \<noteq> ap_config_path demo_paths"
    using resolved_paths_ok [of "\<lambda>k. if k = ''HOME'' then Some ''/u'' else None"] by (auto simp: demo_paths_def paths_ok_def)
  then have "healthy hb \<and> content (ap_log_path demo_paths) hb = []"
    using li start files
    by (auto simp: init_logging_def hydrate_from_file_def read_log_tail_def open_log_file_def fs_exists_def healthy_ops
        io_bind_def content_def Let_def split: option.splits)
  moreover from this have "log_readable demo_dx demo_paths hb"
    using demo_logs_readable(1) [of demo_dx demo_paths]
    by (simp add: log_readable_def empty_host_def content_def)
  ultimately obtain dr events h1 where "bootstrap demo_dx demo_paths (sc_config sc) hb = (Inr (dr, events), h1)"
    using bootstrap_healthy [OF _ _ demo_paths_def demo_writes_all] by blast
  then show ?thesis
    using sc li start by (simp add: launch_def io_bind_def split_def Let_def)
qed

lemma push_config [simp]: "st_config (uc_state (push_diagnostic l k m c)) = st_config (uc_state c)"
  by (simp add: push_diagnostic_def upd_state_def split_def Let_def)

lemma persist_config [simp]: "st_config (uc_state (persist_current_config env k m c)) = st_config (uc_state c)"
  by (simp add: persist_current_config_def split_def Let_def split: sum.split option.split)

lemma refresh_config: "sound pa c \<Longrightarrow> st_config (uc_state (refresh_ui env c)) = st_config (uc_state c)"
  using quiet_refresh_ui [OF quiet_refl, of c env] by (simp add: quiet_def sound_def ui_settings_def)

lemma theme_config:
  assumes "encodes_all (ue_toml env)" "sound pa c"
  shows "ui_prefer_dark_theme (cfg_ui (st_config (uc_state (theme_toggled env b c)))) = b"
proof -
  have "sound pa (upd_state (set_prefer_dark_theme b) (apply_color_scheme b c))"
    using assms(2) by (intro sound_state) (simp_all add: apply_color_scheme_def)
  then have "settled (ue_toml env) pa (persist_current_config env ''settings'' None
      (push_diagnostic Info ''settings'' m (upd_state (set_prefer_dark_theme b) (apply_color_scheme b c))))" for m
    by (intro persist_settles assms(1) sound_push)
  note kept = refresh_config [OF settled_sound [OF this], of env]
  show ?thesis
    unfolding theme_toggled_def setting_changed_def kept
    by (simp add: upd_state_def set_prefer_dark_theme_def)
qed

theorem settings_survive_the_process_witness:
  "\<forall>widgets. \<exists>ul h1 dr h2. launch letter_toml demo_dx None demo_paths empty_host = (Inr ul, h1)
     \<and> (let c = theme_toggled demo_ui_env False (build_main_window demo_ui_env ul demo_service ''pw'' ''pw'' widgets h1 [])
        in shut_down demo_dx (uc_diagnostics c) (uc_host c) = (dr, h2)
           \<and> \<not> ui_prefer_dark_theme (cfg_ui (sc_config (fst (load_startup_config letter_toml demo_paths h2)))))"
proof
  fix widgets
  obtain ul h1 where l: "launch letter_toml demo_dx None demo_paths empty_host = (Inr ul, h1)"
    using empty_launch by blast
  define b where "b = build_main_window demo_ui_env ul demo_service ''pw'' ''pw'' widgets h1 []"
  define c where "c = theme_toggled demo_ui_env False b"
  obtain dr h2 where s: "shut_down demo_dx (uc_diagnostics c) (uc_host c) = (dr, h2)" by fastforce
  have "ui_step demo_ui_env (p, b) (p, c)" for p
    using ui_step.Action [of demo_ui_env p b "ToggleTheme False"] by (simp add: c_def)
  then have run: "(ui_step demo_ui_env)\<^sup>*\<^sup>* (p, b) (p, c)" for p by (rule r_into_rtranclp)
  have toml: "ue_toml demo_ui_env = letter_toml" "ue_diag demo_ui_env = demo_dx" by (simp_all add: demo_ui_env_def)
  have "\<not> ui_prefer_dark_theme (cfg_ui (st_config (uc_state c)))"
  proof -
    have ok: "paths_ok demo_paths" by (simp add: demo_paths_def resolved_paths_ok)
    have all: "encodes_all letter_toml" using demo_ui_encodes by (simp add: toml)
    have "settled letter_toml (ul_paths ul) b"
      using window_stored [of demo_ui_env ul h1] launch_stored [OF demo_hosts(1) all ok l] demo_ui_encodes ok
      by (simp add: b_def toml)
    then show ?thesis using theme_config [OF demo_ui_encodes, of "ul_paths ul" b False] by (simp add: c_def)
  qed
  then show "\<exists>ul h1 dr h2. launch letter_toml demo_dx None demo_paths empty_host = (Inr ul, h1)
     \<and> (let c = theme_toggled demo_ui_env False (build_main_window demo_ui_env ul demo_service ''pw'' ''pw'' widgets h1 [])
        in shut_down demo_dx (uc_diagnostics c) (uc_host c) = (dr, h2)
           \<and> \<not> ui_prefer_dark_theme (cfg_ui (sc_config (fst (load_startup_config letter_toml demo_paths h2)))))"
    using settings_survive_the_process [OF demo_hosts(1) demo_ui_encodes demo_paths_def
        l [folded toml(1)] run [unfolded b_def] s [folded toml(2)]] l s
    by (auto simp: toml c_def b_def Let_def)
qed

end
