(* ===== verification/Ui_Properties.thy ===== *)
theory Ui_Properties
  imports Ui_Start
begin

text \<open>Properties of the callbacks and timers of the window.\<close>

section \<open>What refreshing and reporting leave as it is\<close>

text \<open>The handles of the window and what it knows of its surroundings.\<close>

definition handles ::
  "('s, 'w) UiController \<Rightarrow> 's ReceiverRuntime \<times> LanReceiverTransportServer \<times> LanSenderSession
    \<times> BrowserJoinState \<times> string option \<times> LogStore \<times> UiContext" where
  "handles c = (uc_receiver c, uc_receiver_transport c, uc_sender c, uc_browser_join c, uc_visible c,
     uc_log_store c, uc_context c)"

lemma handle_fields:
  assumes "handles c = handles d"
  shows "uc_receiver c = uc_receiver d" "uc_receiver_transport c = uc_receiver_transport d"
    "uc_sender c = uc_sender d" "uc_browser_join c = uc_browser_join d" "uc_visible c = uc_visible d"
    "uc_log_store c = uc_log_store d" "uc_context c = uc_context d"
  using assms by (simp_all add: handles_def)

lemma handles_updates [simp]:
  "handles (c\<lparr>uc_state := a\<rparr>) = handles c" "handles (c\<lparr>uc_host := h\<rparr>) = handles c"
  "handles (c\<lparr>uc_diagnostics := d\<rparr>) = handles c" "handles (c\<lparr>uc_widgets := w\<rparr>) = handles c"
  "handles (c\<lparr>uc_render_cache := k\<rparr>) = handles c" "handles (c\<lparr>uc_world := v\<rparr>) = handles c"
  "handles (c\<lparr>uc_discovery := e\<rparr>) = handles c"
  by (simp_all add: handles_def)

lemma handles_basic [simp]:
  "handles (upd_state f c) = handles c" "handles (on_diagnostics g c) = handles c"
  "handles (push_diagnostic level k m c) = handles c" "handles (drain_into_state c) = handles c"
  "handles (snd (sync_browser_join_diagnostics env c)) = handles c" "handles (snd (with_world u c)) = handles c"
  "handles (update_discovery_local_diagnostics env ld c) = handles c"
  "handles (sync_local_receiver_advertisement env c) = handles c"
  by (simp_all add: upd_state_def on_diagnostics_def push_diagnostic_def drain_into_state_def with_world_def
      sync_browser_join_diagnostics_def update_discovery_local_diagnostics_def sync_local_receiver_advertisement_def
      split_def Let_def)

lemma handles_list [simp]: "handles (refresh_list env get put rows n c) = handles c"
  by (simp add: refresh_list_def)

lemma handles_page [simp]:
  "handles (refresh_dashboard state c) = handles c" "handles (refresh_discovery_page env state c) = handles c"
  "handles (refresh_audio_page env state c) = handles c" "handles (refresh_settings_page state c) = handles c"
  "handles (refresh_diagnostics_page env state logs c) = handles c"
  unfolding refresh_dashboard_def refresh_discovery_page_def refresh_audio_page_def refresh_diagnostics_page_def
    refresh_settings_page_def Let_def
  by (simp_all only: handles_list handles_updates)

lemma handles_page' [simp]:
  "handles (refresh_casting_page env state c) = handles c" "handles (refresh_receiver_page env state c) = handles c"
  unfolding refresh_casting_page_def refresh_receiver_page_def Let_def split_def
  by (simp_all only: handles_list handles_updates)

lemma handles_pages [simp]: "handles (refresh_pages env state logs c) = handles c"
  by (simp add: refresh_pages_def)

lemma handles_refresh [simp]: "handles (refresh_ui env c) = handles c"
  by (simp add: refresh_ui_def split_def Let_def)

lemma handles_persist [simp]: "handles (persist_current_config env k m c) = handles c"
  by (simp add: persist_current_config_def split_def Let_def split: sum.split option.split)

lemma handles_more [simp]:
  "handles (push_opt level k m c) = handles c" "handles (finish_poll env kind i n e b c) = handles c"
  "handles (push_messages ms c) = handles c" "handles (snd (report_transport_error x c)) = handles c"
  "handles (push_transition k l t b c) = handles c" "handles (note_inventory_polls env o1 o2 c) = handles c"
  "handles (warn_failed show_it r msg c) = handles c"
  "handles (fold (\<lambda>x. push_diagnostic (f x) (g x) (j x)) xs c) = handles c"
proof -
  show folded: "handles (fold (\<lambda>x. push_diagnostic (f x) (g x) (j x)) xs c) = handles c" for f g j xs c
    by (induction xs arbitrary: c) simp_all
  have "handles (fold (\<lambda>x. push_diagnostic (f x) (g x) (j x)) xs c) = handles c" for f g j and xs :: "(DiagnosticLevel \<times> string \<times> string) list" and c
    by (induction xs arbitrary: c) simp_all
  then show "handles (push_messages ms c) = handles c" by (simp add: push_messages_def split_def)
qed (simp_all add: push_opt_def finish_poll_def report_transport_error_def push_transition_def note_inventory_polls_def
    warn_failed_def split_def Let_def split: option.split sum.split)

lemmas kept [simp] =
  handle_fields [OF handles_basic(1)] handle_fields [OF handles_basic(2)] handle_fields [OF handles_basic(3)]
  handle_fields [OF handles_basic(4)] handle_fields [OF handles_basic(5)] handle_fields [OF handles_basic(6)]
  handle_fields [OF handles_basic(7)] handle_fields [OF handles_basic(8)]
  handle_fields [OF handles_refresh] handle_fields [OF handles_persist] handle_fields [OF handles_pages]
  handle_fields [OF handles_more(1)] handle_fields [OF handles_more(2)] handle_fields [OF handles_more(3)]
  handle_fields [OF handles_more(4)] handle_fields [OF handles_more(5)] handle_fields [OF handles_more(6)]
  handle_fields [OF handles_more(7)] handle_fields [OF handles_more(8)]

section \<open>Receiver mode\<close>

text \<open>
  The runtime has its thread exactly when the transport has its listener; the announced preset
  is the one of the launch.
\<close>

definition mode_inv :: "ReceiverLatencyPreset \<Rightarrow> ('s, 'w) UiController \<Rightarrow> bool" where
  "mode_inv preset c \<longleftrightarrow> runtime_inv (uc_receiver c)
     \<and> (rt_worker (uc_receiver c) \<noteq> None \<longleftrightarrow> srv_stop_tx (uc_receiver_transport c))
     \<and> srv_latency_preset (uc_receiver_transport c) = preset"

lemma mode_same:
  "mode_inv preset c \<Longrightarrow> uc_receiver c' = uc_receiver c \<Longrightarrow> uc_receiver_transport c' = uc_receiver_transport c
    \<Longrightarrow> mode_inv preset c'"
  by (simp add: mode_inv_def)

lemma mode_fields [simp]:
  "mode_inv preset (refresh_ui env c) = mode_inv preset c"
  "mode_inv preset (sync_local_receiver_advertisement env c) = mode_inv preset c"
  "mode_inv preset (push_diagnostic l k m c) = mode_inv preset c"
  "mode_inv preset (persist_current_config env k b c) = mode_inv preset c"
  "mode_inv preset (upd_state f c) = mode_inv preset c"
  by (simp_all add: mode_inv_def)

lemma stop_frame:
  "rt_worker (fst (snd (runtime_stop env rt e))) = None" if "runtime_inv rt"
  using that by (simp add: runtime_stop_state)

lemma mode_start: "mode_inv preset c \<Longrightarrow> mode_inv preset (start_receiver_mode env c)"
proof -
  assume inv: "mode_inv preset c"
  obtain r rt where s: "runtime_start (uc_receiver c) = (r, rt)" by fastforce
  have rt: "runtime_inv rt" using runtime_op_inv [of "(uc_receiver c, w)" env' runtime_op.OpStart for w env'] inv s
    by (simp add: runtime_op_def mode_inv_def)
  show ?thesis
  proof (cases r)
    case (Inl e)
    then have "rt = uc_receiver c" using s by (auto simp: runtime_start_def split: if_splits)
    then show ?thesis using inv Inl by (simp add: start_receiver_mode_def s)
  next
    case (Inr u)
    have run: "rt_worker rt \<noteq> None"
      using s Inr inv by (auto simp: runtime_start_def mode_inv_def runtime_inv_def split: if_splits)
    show ?thesis
    proof (cases "srv_stop_tx (uc_receiver_transport c)")
      case True
      then show ?thesis using inv rt run
        by (simp add: start_receiver_mode_def s Inr server_start_def Let_def) (simp add: mode_inv_def)
    next
      case False
      obtain o1 w1 where b: "ue_bind env (srv_bind_addr (uc_receiver_transport c)) (uc_world c) = (o1, w1)" by fastforce
      obtain r2 rt2 w2 where st: "runtime_stop (ue_playback env) rt w1 = (r2, rt2, w2)" by (metis prod_cases3)
      have rt2: "runtime_inv rt2 \<and> rt_worker rt2 = None"
        using runtime_op_inv [of "(rt, w1)" "ue_playback env" runtime_op.OpStop] rt stop_frame [OF rt, of "ue_playback env" w1] st
        by (simp add: runtime_op_def)
      show ?thesis
        using inv rt run rt2 False
        by (cases o1) (simp_all add: start_receiver_mode_def s Inr b st server_start_def Let_def, simp_all add: mode_inv_def)
    qed
  qed
qed

lemma mode_stop: "mode_inv preset c \<Longrightarrow> mode_inv preset (stop_receiver_mode env c)"
proof -
  assume inv: "mode_inv preset c"
  obtain sent joined w where j: "ue_transport_join env (uc_world c) = ((sent, joined), w)" by (metis prod.collapse)
  obtain r srv where sv: "server_stop sent joined (uc_receiver_transport c) = (r, srv)" by fastforce
  obtain r2 rt2 w2 where st: "runtime_stop (ue_playback env) (uc_receiver c) w = (r2, rt2, w2)" by (metis prod_cases3)
  have rt2: "runtime_inv rt2 \<and> rt_worker rt2 = None"
    using runtime_op_inv [of "(uc_receiver c, w)" "ue_playback env" runtime_op.OpStop] inv
      stop_frame [of "uc_receiver c" "ue_playback env" w] st
    by (simp add: runtime_op_def mode_inv_def)
  have "srv_stop_tx srv = False" "srv_latency_preset srv = srv_latency_preset (uc_receiver_transport c)"
    using sv by (auto simp: server_stop_def Let_def split: if_splits)
  then show ?thesis
    using inv rt2
    by (cases r; cases r2) (simp_all add: stop_receiver_mode_def j sv st Let_def, simp_all add: mode_inv_def)
qed

lemma runtime_polls:
  assumes "runtime_inv rt"
  shows "(rt_worker (fst (runtime_poll env rt e)) = None) = (rt_worker rt = None)"
proof -
  have inv: "runtime_inv (fst (runtime_poll env rt e))"
    using runtime_op_inv [of "(rt, e)" env runtime_op.OpPoll] assms by (simp add: runtime_op_def)
  have "(rt_command_tx (fst (runtime_poll env rt e)) = None) = (rt_command_tx rt = None)"
    by (auto simp: runtime_poll_def Let_def split_def split: option.split list.split)
  with inv assms show ?thesis by (auto simp: runtime_inv_def)
qed

text \<open>An operation of the runtime that starts and stops nothing.\<close>

lemma mode_runtime:
  assumes "mode_inv preset c" "uc_receiver_transport c' = uc_receiver_transport c"
    and "uc_receiver c' = fst (runtime_op env op (uc_receiver c, w))"
    and "op \<notin> {runtime_op.OpStart, runtime_op.OpStop}"
  shows "mode_inv preset c'"
proof -
  have inv: "runtime_inv (uc_receiver c)" using assms(1) by (simp add: mode_inv_def)
  have "runtime_inv (uc_receiver c')"
    using runtime_op_inv [of "(uc_receiver c, w)" env op] inv assms(3) by simp
  moreover have "(rt_worker (uc_receiver c') = None) = (rt_worker (uc_receiver c) = None)"
  proof (cases op)
    case OpPoll
    then show ?thesis
      using calculation runtime_polls inv assms(3) by (simp add: runtime_op_def)
  qed (use assms(3,4) inv in \<open>auto simp: runtime_op_def runtime_submit_transport_event_def runtime_send_def
      runtime_set_playback_target_def runtime_set_latency_preset_def Let_def split: option.splits if_splits\<close>)
  ultimately show ?thesis using assms(1,2) by (simp add: mode_inv_def)
qed

lemma mode_set_target: "mode_inv preset c \<Longrightarrow> uc_receiver c' = snd (runtime_set_playback_target t (uc_receiver c))
    \<Longrightarrow> uc_receiver_transport c' = uc_receiver_transport c \<Longrightarrow> mode_inv preset c'"
  by (rule mode_runtime [where op = "runtime_op.OpTarget t"]) (simp_all add: runtime_op_def)

lemma mode_set_preset: "mode_inv preset c \<Longrightarrow> uc_receiver c' = snd (runtime_set_latency_preset t (uc_receiver c))
    \<Longrightarrow> uc_receiver_transport c' = uc_receiver_transport c \<Longrightarrow> mode_inv preset c'"
  by (rule mode_runtime [where op = "runtime_op.OpPreset t"]) (simp_all add: runtime_op_def)

lemma mode_output: "mode_inv preset c \<Longrightarrow> mode_inv preset (receiver_output_changed env i c)"
  by (auto simp: receiver_output_changed_def split_def Let_def split: sum.split intro: mode_set_target)

lemma mode_latency: "mode_inv preset c \<Longrightarrow> mode_inv preset (latency_changed env i c)"
  by (auto simp: latency_changed_def split_def Let_def split: sum.split option.split intro: mode_set_preset)

lemma kept_page [simp]:
  "handles (set_visible_child_name env page c) = (handles c)" if "uc_visible c = Some page"
  using that by (simp add: set_visible_child_name_def)

lemma kept_navigation [simp]:
  "uc_receiver (set_visible_child_name env page c) = uc_receiver c"
  "uc_receiver_transport (set_visible_child_name env page c) = uc_receiver_transport c"
  "uc_receiver (restore_visible_page env page c) = uc_receiver c"
  "uc_receiver_transport (restore_visible_page env page c) = uc_receiver_transport c"
  by (simp_all add: restore_visible_page_def set_visible_child_name_def visible_child_changed_def)

lemma mode_import: "mode_inv preset c \<Longrightarrow> mode_inv preset (import_clicked env c)"
proof -
  assume inv: "mode_inv preset c"
  obtain r h1 where i: "import_config (ue_toml env) (uc_paths c) (uc_host c) = (r, h1)" by fastforce
  show ?thesis
  proof (cases r)
    case (Inl e)
    then show ?thesis using inv by (simp add: import_clicked_def i) (simp add: mode_inv_def)
  next
    case (Inr report)
    let ?t = "rc_playback_target_id (cfg_receiver (clr_config report))"
    let ?c1 = "c\<lparr>uc_receiver := snd (runtime_set_playback_target ?t (uc_receiver c))\<rparr>"
    have "mode_inv preset ?c1" using mode_set_target [OF inv, of ?c1] by simp
    from mode_set_preset [OF this, of "import_clicked env c"] show ?thesis
      by (simp add: import_clicked_def i Inr apply_imported_config_def apply_color_scheme_def split_def Let_def)
  qed
qed

lemma mode_keep [simp]:
  "mode_inv preset (c\<lparr>uc_sender := s\<rparr>) = mode_inv preset c" "mode_inv preset (c\<lparr>uc_host := h\<rparr>) = mode_inv preset c"
  "mode_inv preset (c\<lparr>uc_state := a\<rparr>) = mode_inv preset c" "mode_inv preset (c\<lparr>uc_world := w\<rparr>) = mode_inv preset c"
  "mode_inv preset (c\<lparr>uc_diagnostics := d\<rparr>) = mode_inv preset c" "mode_inv preset (c\<lparr>uc_browser_join := j\<rparr>) = mode_inv preset c"
  "mode_inv preset (c\<lparr>uc_widgets := v\<rparr>) = mode_inv preset c" "mode_inv preset (c\<lparr>uc_discovery := e\<rparr>) = mode_inv preset c"
  "mode_inv preset (c\<lparr>uc_visible := i\<rparr>) = mode_inv preset c"
  "mode_inv preset (snd (with_world u c)) = mode_inv preset c"
  "mode_inv preset (snd (sync_browser_join_diagnostics env c)) = mode_inv preset c"
  "mode_inv preset (push_opt l k b c) = mode_inv preset c" "mode_inv preset (finish_poll env kd t n er rf c) = mode_inv preset c"
  "mode_inv preset (push_messages ms c) = mode_inv preset c"
  "mode_inv preset (snd (report_transport_error x c)) = mode_inv preset c"
  "mode_inv preset (push_transition k m tid b2 c) = mode_inv preset c"
  "mode_inv preset (note_inventory_polls env o1 o2 c) = mode_inv preset c"
  "mode_inv preset (update_discovery_local_diagnostics env ld c) = mode_inv preset c"
  "mode_inv preset (on_diagnostics g c) = mode_inv preset c"
  "mode_inv preset (set_visible_child_name env page c) = mode_inv preset c"
  "mode_inv preset (fold (\<lambda>x. push_diagnostic (f1 x) (f2 x) (f3 x)) xs c) = mode_inv preset c"
  by (simp_all add: mode_inv_def)

lemma mode_cases [simp]:
  "mode_inv preset (case r of Inl e \<Rightarrow> f e | Inr x \<Rightarrow> g x) = (case r of Inl e \<Rightarrow> mode_inv preset (f e) | Inr x \<Rightarrow> mode_inv preset (g x))"
  "mode_inv preset (case q of None \<Rightarrow> d | Some y \<Rightarrow> k y) = (case q of None \<Rightarrow> mode_inv preset d | Some y \<Rightarrow> mode_inv preset (k y))"
  by (simp_all split: sum.split option.split)

lemma mode_casting:
  assumes "mode_inv preset c"
  shows "mode_inv preset (queue_receiver_device_for_cast env d c)"
    "mode_inv preset (queue_selected_receiver_for_cast env i c)" "mode_inv preset (remove_target_from_cast env k c)"
    "mode_inv preset (stop_all_casting env c)" "mode_inv preset (receiver_selector_changed env b i c)"
    "mode_inv preset (local_mirror_toggled env b c)" "mode_inv preset (local_output_changed env i c)"
    "mode_inv preset (audio_source_changed env i c)" "mode_inv preset (quality_changed env i c)"
proof -
  show cast: "mode_inv preset (queue_receiver_device_for_cast env d c)" for d
    using assms by (cases "hs_control_tx (uc_sender c)")
      (simp_all add: queue_receiver_device_for_cast_def split_def Let_def split: option.split sum.split)
  show "mode_inv preset (queue_selected_receiver_for_cast env i c)"
    using assms cast by (simp add: queue_selected_receiver_for_cast_def split: option.split)
  show "mode_inv preset (remove_target_from_cast env k c)" "mode_inv preset (stop_all_casting env c)"
    "mode_inv preset (receiver_selector_changed env b i c)" "mode_inv preset (local_mirror_toggled env b c)"
    "mode_inv preset (local_output_changed env i c)" "mode_inv preset (audio_source_changed env i c)"
    "mode_inv preset (quality_changed env i c)"
    using assms
    by (simp_all add: remove_target_from_cast_def stop_all_casting_def receiver_selector_changed_def local_mirror_toggled_def
        local_output_changed_def audio_source_changed_def quality_changed_def split_def Let_def split: option.split sum.split)
qed

lemma mode_desktop:
  assumes "mode_inv preset c"
  shows "mode_inv preset (setting_changed env f m c)" "mode_inv preset (theme_toggled env b c)"
    "mode_inv preset (verbose_logging_toggled env b c)" "mode_inv preset (start_on_launch_toggled env b c)"
    "mode_inv preset (export_clicked env c)" "mode_inv preset (copy_diagnostics_clicked env c)"
    "mode_inv preset (export_bundle_clicked env c)" "mode_inv preset (open_folder_clicked env n p c)"
    "mode_inv preset (copy_latest_crash_clicked env c)" "mode_inv preset (clear_clicked env c)"
    "mode_inv preset (callback_panicked env n payload c)"
  using assms
  by (simp_all add: setting_changed_def theme_toggled_def apply_color_scheme_def verbose_logging_toggled_def
      start_on_launch_toggled_def export_clicked_def copy_diagnostics_clicked_def export_bundle_clicked_def
      open_folder_clicked_def copy_latest_crash_clicked_def clear_clicked_def callback_panicked_def split_def Let_def
      split: option.split sum.split)

lemma mode_join:
  assumes "mode_inv preset c"
  shows "mode_inv preset (generate_browser_join_link env b c)" "mode_inv preset (open_or_generate_browser_join_link env c)"
proof -
  show gen: "mode_inv preset (generate_browser_join_link env b c)" for b
    using assms by (simp add: generate_browser_join_link_def split_def Let_def split: option.split sum.split)
  show "mode_inv preset (open_or_generate_browser_join_link env c)"
    using assms gen by (simp add: open_or_generate_browser_join_link_def split_def Let_def split: option.split sum.split)
qed

lemma mode_timers:
  assumes "mode_inv preset c"
  shows "mode_inv preset (receiver_poll env c)" "mode_inv preset (streaming_poll env c)"
    "mode_inv preset (stop_unusable_sender_targets c)" "mode_inv preset (retry_local_mirror env t c)"
    "mode_inv preset (inventory_failed env m n le c)"
  using assms
  by (simp_all add: receiver_poll_def streaming_poll_def stop_unusable_sender_targets_def retry_local_mirror_def
      inventory_failed_def split_def Let_def split: sum.split)

lemma mode_perform: "mode_inv preset c \<Longrightarrow> mode_inv preset (perform env a c)"
  using mode_start mode_stop mode_output mode_latency mode_import mode_casting mode_desktop mode_join mode_timers
  by (cases a) (simp_all add: open_diagnostics_clicked_def open_crash_reports_clicked_def)

lemma mode_after_drain: "mode_inv preset c \<Longrightarrow> mode_inv preset (snd (snd (after_drain env events e c)))"
  unfolding after_drain_def Let_def split_def snd_conv
  by (rule mode_timers(3)) (simp only: mode_keep mode_fields)

lemma mode_inventory: "mode_inv preset c \<Longrightarrow> mode_inv preset (apply_inventory env sources targets n c)"
  by (simp add: apply_inventory_def mode_timers(4) Let_def split: option.split)

lemma mode_results:
  "mode_inv preset c \<Longrightarrow> mode_inv preset (snd (fold (apply_audio_inventory_refresh_result env) rs (e, c)))"
proof (induction rs arbitrary: e c)
  case (Cons r rs)
  have "mode_inv preset (snd (apply_audio_inventory_refresh_result env r (e, c)))"
    using mode_inventory [OF Cons.prems, of env] mode_timers(5) [OF Cons.prems, of env]
    by (cases "ir_result r") (simp_all add: apply_audio_inventory_refresh_result_def Let_def split: prod.split)
  with Cons.IH show ?case by (cases "apply_audio_inventory_refresh_result env r (e, c)") simp
qed simp

lemma mode_step:
  assumes "mode_inv preset (snd s)" "ui_step env s t"
  shows "mode_inv preset (snd t)"
  using assms(2)
proof cases
  case (Action p c a)
  then show ?thesis using mode_perform assms(1) by simp
next
  case (Discovery c c' p)
  obtain evs er sv w where d: "drain_discovery (ue_mdns env) (uc_discovery c) (uc_world c) = Some (evs, er, sv, w)"
    using Discovery(3) by (auto simp: discovery_poll_def split: bind_splits)
  have "mode_inv preset (snd (snd (after_drain env evs er (c\<lparr>uc_discovery := sv, uc_world := w\<rparr>))))"
    by (rule mode_after_drain) (use assms(1) Discovery(1) in simp)
  then show ?thesis using Discovery d by (auto simp: discovery_poll_def split_def Let_def)
next
  case InventoryTick
  then show ?thesis using assms(1) by (simp add: inventory_tick_def Let_def)
next
  case InventoryPump
  then show ?thesis using mode_results [OF assms(1)] by (simp add: inventory_pump_def split_def Let_def)
next
  case (Worker c rt w p)
  then show ?thesis
    using mode_runtime [of preset c "snd t" "ue_playback env" runtime_op.OpPoll "uc_world c"] assms(1)
    by (simp add: runtime_op_def)
next
  case (Submitted p c ev)
  then show ?thesis
    using mode_runtime [of preset c "snd t" "ue_playback env" "runtime_op.OpSubmit ev" "uc_world c"] assms(1)
    by (simp add: runtime_op_def)
next
  case Listener
  then show ?thesis using assms(1) by (simp add: mode_inv_def)
qed (use assms(1) in simp_all)

text \<open>The same system as before, with the preset of the launch in the state.\<close>

definition preset_step ::
  "ReceiverLatencyPreset \<times> ('q, 's, 'w) ui_env \<times> InventoryPoll \<times> ('s, 'w) UiController
    \<Rightarrow> ReceiverLatencyPreset \<times> ('q, 's, 'w) ui_env \<times> InventoryPoll \<times> ('s, 'w) UiController \<Rightarrow> bool" where
  "preset_step s t \<longleftrightarrow> fst t = fst s \<and> fst (snd t) = fst (snd s) \<and> ui_step (fst (snd s)) (snd (snd s)) (snd (snd t))"

definition preset_inv :: "ReceiverLatencyPreset \<times> ('q, 's, 'w) ui_env \<times> InventoryPoll \<times> ('s, 'w) UiController \<Rightarrow> bool" where
  "preset_inv s \<longleftrightarrow> mode_inv (fst s) (snd (snd (snd s)))"

interpretation receiver_mode: invariant_system preset_inv preset_step preset_inv
  by unfold_locales (auto simp: preset_inv_def preset_step_def dest: mode_step [rotated])

lemma preset_runs: "(ui_step env)\<^sup>*\<^sup>* s t \<Longrightarrow> preset_step\<^sup>*\<^sup>* (k, env, s) (k, env, t)"
  by (induction rule: rtranclp_induct) (auto simp: preset_step_def intro: rtranclp.rtrancl_into_rtrancl)

lemma mode_window:
  "mode_inv (rc_latency_preset (cfg_receiver (ul_config ul))) (build_main_window env ul discovery ab pb widgets h w)"
proof -
  let ?k = "rc_latency_preset (cfg_receiver (ul_config ul))"
  have "mode_inv ?k (new_controller env ul discovery ab pb widgets h w)"
    by (simp add: new_controller_def split_def Let_def split: sum.split)
      (simp add: mode_inv_def runtime_new_inv server_new_def, simp add: runtime_new_def)
  then show ?thesis
    by (auto simp: build_main_window_def Let_def restore_visible_page_def intro!: mode_start)
qed

lemma mode_run:
  "(ui_step env)\<^sup>*\<^sup>* (p, build_main_window env ul discovery ab pb widgets h w) (p', c)
    \<Longrightarrow> mode_inv (rc_latency_preset (cfg_receiver (ul_config ul))) c"
  using receiver_mode.inv_steps [OF preset_runs] mode_window by (fastforce simp: preset_inv_def)

section \<open>The state after a refresh\<close>

lemma state_basic [simp]:
  "uc_state (on_diagnostics g c) = uc_state c" "uc_state (refresh_list env get put rows n c) = uc_state c"
  "uc_state (snd (sync_browser_join_diagnostics env c)) = uc_state c"
  by (simp_all add: on_diagnostics_def refresh_list_def sync_browser_join_diagnostics_def split_def Let_def)

lemma other_updates:
  "uc_state (c\<lparr>uc_widgets := w\<rparr>) = uc_state c" "uc_state (c\<lparr>uc_host := h\<rparr>) = uc_state c"
  "uc_diagnostics (c\<lparr>uc_widgets := w\<rparr>) = uc_diagnostics c" "uc_diagnostics (c\<lparr>uc_host := h\<rparr>) = uc_diagnostics c"
  by simp_all

lemma state_page [simp]:
  "uc_state (refresh_dashboard state c) = uc_state c" "uc_state (refresh_discovery_page env state c) = uc_state c"
  "uc_state (refresh_audio_page env state c) = uc_state c" "uc_state (refresh_settings_page state c) = uc_state c"
  "uc_state (refresh_diagnostics_page env state logs c) = uc_state c"
  unfolding refresh_dashboard_def refresh_discovery_page_def refresh_audio_page_def refresh_diagnostics_page_def
    refresh_settings_page_def Let_def
  by (simp_all only: state_basic other_updates)

lemma state_page' [simp]:
  "uc_state (refresh_casting_page env state c) = uc_state c" "uc_state (refresh_receiver_page env state c) = uc_state c"
  unfolding refresh_casting_page_def refresh_receiver_page_def Let_def split_def
  by (simp_all only: state_basic other_updates)

lemma state_drain [simp]:
  "uc_state (drain_into_state c) = (uc_state c)\<lparr>st_diagnostics := st_diagnostics (uc_state c)
     @ dr_pending_events (uc_diagnostics c)\<rparr>"
  by (simp add: drain_into_state_def drain_pending_events_def upd_state_def)

lemma state_refresh [simp]:
  "uc_state (refresh_ui env c) = (uc_state c)\<lparr>st_diagnostics := st_diagnostics (uc_state c)
     @ dr_pending_events (uc_diagnostics c)\<rparr>"
  by (simp add: refresh_ui_def refresh_pages_def split_def Let_def)

text \<open>The pending events after one.\<close>

lemma pending_updated [simp]: "dr_pending_events (fst (updated dx f s)) = dr_pending_events (fst s)"
  by (cases s) (auto simp: updated_def persist_snapshot_def split_def Let_def split: sum.split prod.split)

lemma pending_ops [simp]:
  "dr_pending_events (fst (update_snapshot_from_state dx state view s)) = dr_pending_events (fst s)"
  "dr_pending_events (fst (note_ui_refresh dx b s)) = dr_pending_events (fst s)"
  "dr_pending_events (fst (note_ui_list_render dx b n s)) = dr_pending_events (fst s)"
  "dr_pending_events (fst (update_browser_join_snapshot dx b u k e s)) = dr_pending_events (fst s)"
  by (cases s; simp add: update_snapshot_from_state_def stamped_def note_ui_refresh_def note_ui_list_render_def
      update_browser_join_snapshot_def split_def Let_def)+

lemma pending_on [simp]:
  "dr_pending_events (uc_diagnostics (on_diagnostics g c)) = dr_pending_events (fst (g (uc_diagnostics c, uc_host c)))"
  by (simp add: on_diagnostics_def split_def Let_def)

lemma pending_list [simp]:
  "dr_pending_events (uc_diagnostics (refresh_list env get put rows n c)) = dr_pending_events (uc_diagnostics c)"
  "dr_pending_events (uc_diagnostics (snd (sync_browser_join_diagnostics env c))) = dr_pending_events (uc_diagnostics c)"
  by (simp_all add: refresh_list_def sync_browser_join_diagnostics_def Let_def)

lemma pending_page [simp]:
  "dr_pending_events (uc_diagnostics (refresh_dashboard state c)) = dr_pending_events (uc_diagnostics c)"
  "dr_pending_events (uc_diagnostics (refresh_discovery_page env state c)) = dr_pending_events (uc_diagnostics c)"
  "dr_pending_events (uc_diagnostics (refresh_audio_page env state c)) = dr_pending_events (uc_diagnostics c)"
  "dr_pending_events (uc_diagnostics (refresh_settings_page state c)) = dr_pending_events (uc_diagnostics c)"
  "dr_pending_events (uc_diagnostics (refresh_diagnostics_page env state logs c)) = dr_pending_events (uc_diagnostics c)"
  "dr_pending_events (uc_diagnostics (refresh_casting_page env state c)) = dr_pending_events (uc_diagnostics c)"
  "dr_pending_events (uc_diagnostics (refresh_receiver_page env state c)) = dr_pending_events (uc_diagnostics c)"
  unfolding refresh_dashboard_def refresh_discovery_page_def refresh_audio_page_def refresh_diagnostics_page_def
    refresh_settings_page_def refresh_casting_page_def refresh_receiver_page_def Let_def split_def
  by (simp_all only: pending_list other_updates)

lemma pending_refresh [simp]: "dr_pending_events (uc_diagnostics (refresh_ui env c)) = []"
  by (simp add: refresh_ui_def refresh_pages_def drain_into_state_def drain_pending_events_def upd_state_def split_def Let_def)

lemma cache_basic:
  "uc_render_cache (on_diagnostics g c) = uc_render_cache c"
  "uc_render_cache (snd (sync_browser_join_diagnostics env c)) = uc_render_cache c"
  "uc_render_cache (drain_into_state c) = uc_render_cache c"
  "fst (sync_browser_join_diagnostics env c) = js_snapshot (uc_browser_join c)"
  by (simp_all add: on_diagnostics_def sync_browser_join_diagnostics_def drain_into_state_def upd_state_def
      split_def Let_def)

lemma refresh_forms:
  "\<exists>x. refresh_ui env c =
     (let d = drain_into_state c; v = or_text ''dashboard'' (uc_visible d); l = snapshot_recent 60 (uc_log_store d);
          j = sync_browser_join_diagnostics env d
      in if duplicate_refresh (uc_state d) l v (fst j) (uc_render_cache (snd j))
         then on_diagnostics (note_ui_refresh (ue_diag env) False) (snd j)
         else x\<lparr>uc_render_cache := (uc_render_cache x)
                 \<lparr>rk_last_state := Some (uc_state d), rk_last_logs := l, rk_last_view_name := Some v,
                  rk_last_browser_join_snapshot := Some (fst j)\<rparr>\<rparr>)"
  unfolding refresh_ui_def Let_def split_def by (rule exI, rule refl)

lemma refresh_cache:
  "duplicate_refresh (uc_state (refresh_ui env c)) (snapshot_recent 60 (uc_log_store c))
     (or_text ''dashboard'' (uc_visible c)) (js_snapshot (uc_browser_join c)) (uc_render_cache (refresh_ui env c))"
proof -
  obtain x where x: "refresh_ui env c =
     (let d = drain_into_state c; v = or_text ''dashboard'' (uc_visible d); l = snapshot_recent 60 (uc_log_store d);
          j = sync_browser_join_diagnostics env d
      in if duplicate_refresh (uc_state d) l v (fst j) (uc_render_cache (snd j))
         then on_diagnostics (note_ui_refresh (ue_diag env) False) (snd j)
         else x\<lparr>uc_render_cache := (uc_render_cache x)
                 \<lparr>rk_last_state := Some (uc_state d), rk_last_logs := l, rk_last_view_name := Some v,
                  rk_last_browser_join_snapshot := Some (fst j)\<rparr>\<rparr>)"
    using refresh_forms by blast
  have "uc_state (refresh_ui env c) = uc_state (drain_into_state c)" by simp
  moreover have "duplicate_refresh (uc_state (drain_into_state c)) (snapshot_recent 60 (uc_log_store c))
     (or_text ''dashboard'' (uc_visible c)) (js_snapshot (uc_browser_join c)) (uc_render_cache (refresh_ui env c))"
    unfolding x Let_def by (simp add: cache_basic del: state_drain) (simp add: duplicate_refresh_def)
  ultimately show ?thesis by simp
qed

end
