(* ===== verification/Ui_Claims.thy ===== *)
theory Ui_Claims
  imports Ui_Properties
begin

text \<open>The properties of the window's callbacks and timers.\<close>

section \<open>Receiver mode\<close>

text \<open>
  C14: Receiver mode is all or nothing. After any sequence of actions and timers the receiver thread and its command channel exist exactly when
  the network listener runs, and while it does not run the receiver is idle: a start that fails half way leaves nothing running.
\<close>

theorem receiver_mode_all_or_nothing:
  assumes "(ui_step env)\<^sup>*\<^sup>* (p, build_main_window env ul discovery ab pb widgets h w) (p', c)"
  shows "(rt_worker (uc_receiver c) \<noteq> None \<longleftrightarrow> srv_stop_tx (uc_receiver_transport c))
    \<and> (rt_command_tx (uc_receiver c) \<noteq> None \<longleftrightarrow> srv_stop_tx (uc_receiver_transport c))
    \<and> (\<not> srv_stop_tx (uc_receiver_transport c) \<longrightarrow> rsn_state (rt_snapshot (uc_receiver c)) = ReceiverServiceState.Idle)"
  using mode_run [OF assms] by (auto simp: mode_inv_def runtime_inv_def)


definition demo_launch :: UiLaunchContext where
  "demo_launch = \<lparr>ul_config = default_app_config, ul_startup_diagnostics = [], ul_paths = demo_paths,
     ul_log_store = log_store_new DEFAULT_LOG_STORE_CAPACITY,
     ul_diagnostics_runtime = \<lparr>dr_paths = demo_paths, dr_config_summary = redacted default_app_config,
       dr_pending_events = [], dr_current = default_snapshot, dr_last_persisted = None,
       dr_last_persisted_at_unix_ms = 0\<rparr>\<rparr>"

abbreviation demo_window :: "UiWidgets \<Rightarrow> (unit, ServiceEvent list) UiController" where
  "demo_window widgets \<equiv> build_main_window demo_ui_env demo_launch demo_service ''pw'' ''pw'' widgets empty_host []"

section \<open>Refreshing\<close>


section \<open>The sender's timer\<close>

lemma last_of_distinct:
  "distinct (map ts_receiver_id ts) \<Longrightarrow> t \<in> set ts \<Longrightarrow> last_by_id ts (ts_receiver_id t) = Some t"
proof -
  assume d: "distinct (map ts_receiver_id ts)" and t: "t \<in> set ts"
  then have "last_by_id ts (ts_receiver_id t) \<noteq> None" by (auto simp: last_by_id_def find_None_iff)
  then obtain u where u: "last_by_id ts (ts_receiver_id t) = Some u" by blast
  then have "u \<in> set ts" "ts_receiver_id u = ts_receiver_id t"
    by (auto simp: last_by_id_def find_Some_iff) (metis nth_mem length_rev set_rev)
  with d t u show ?thesis by (metis distinct_map inj_onD)
qed

lemma same_targets_no_messages:
  "distinct (map ts_receiver_id ts) \<Longrightarrow> stream_target_transition_messages ts ts = []"
  by (auto simp: stream_target_transition_messages_def last_of_distinct changed_messages_def)

lemma pushed_state:
  "\<exists>es. uc_state (fold (\<lambda>m. push_diagnostic (f m) (g m) (k m)) ms c) =
      (uc_state c)\<lparr>st_diagnostics := st_diagnostics (uc_state c) @ es\<rparr>
    \<and> map (\<lambda>e. (de_level e, de_component e, de_message e)) es = map (\<lambda>m. (f m, g m, k m)) ms"
proof (induction ms arbitrary: c)
  case Nil
  show ?case by (rule exI [of _ "[]"]) simp
next
  case (Cons m ms)
  obtain now h where n: "clock_now (uc_host c) = (now, h)" by fastforce
  have one: "uc_state (push_diagnostic (f m) (g m) (k m) c) =
      (uc_state c)\<lparr>st_diagnostics := st_diagnostics (uc_state c) @ [diagnostic (f m) now (g m) (k m)]\<rparr>"
    by (simp add: push_diagnostic_def upd_state_def add_event_def n)
  obtain es where es: "uc_state (fold (\<lambda>m. push_diagnostic (f m) (g m) (k m)) ms (push_diagnostic (f m) (g m) (k m) c)) =
      (uc_state (push_diagnostic (f m) (g m) (k m) c))\<lparr>st_diagnostics :=
         st_diagnostics (uc_state (push_diagnostic (f m) (g m) (k m) c)) @ es\<rparr>"
      "map (\<lambda>e. (de_level e, de_component e, de_message e)) es = map (\<lambda>m. (f m, g m, k m)) ms"
    using Cons.IH by blast
  show ?case
    by (rule exI [of _ "diagnostic (f m) now (g m) (k m) # es"]) (simp add: es one, simp add: diagnostic_def)
qed

lemma finish_state [simp]:
  "uc_state (finish_poll env kind i n e b c) =
     (if b then (uc_state c)\<lparr>st_diagnostics := st_diagnostics (uc_state c) @ dr_pending_events (uc_diagnostics c)\<rparr>
      else uc_state c)"
  by (simp add: finish_poll_def with_world_def note_poll_def split_def Let_def)

lemma pushed_pending [simp]:
  "dr_pending_events (uc_diagnostics (push_diagnostic l k m c)) = dr_pending_events (uc_diagnostics c)"
  "dr_pending_events (uc_diagnostics (upd_state u c)) = dr_pending_events (uc_diagnostics c)"
  by (simp_all add: push_diagnostic_def upd_state_def split_def Let_def)

lemma folded_pending [simp]:
  "dr_pending_events (uc_diagnostics (fold (\<lambda>m. push_diagnostic (f m) (g m) (k m)) ms c)) = dr_pending_events (uc_diagnostics c)"
  by (induction ms arbitrary: c) simp_all

definition sender_messages :: "('s, 'w) UiController \<Rightarrow> (DiagnosticLevel \<times> string) list" where
  "sender_messages c = streaming_messages (st_streaming (uc_state c)) (hs_snapshot (uc_sender c))
     @ stream_target_transition_messages (ss_targets (st_streaming (uc_state c))) (ss_targets (hs_snapshot (uc_sender c)))"

lemma streaming_state:
  "\<exists>es. uc_state (streaming_poll env c) = (apply_streaming_snapshot (hs_snapshot (uc_sender c)) (uc_state c))
       \<lparr>st_diagnostics := st_diagnostics (uc_state c) @ es
          @ (if st_streaming (uc_state c) \<noteq> hs_snapshot (uc_sender c)
               \<or> stream_target_transition_messages (ss_targets (st_streaming (uc_state c))) (ss_targets (hs_snapshot (uc_sender c))) \<noteq> []
             then dr_pending_events (uc_diagnostics c) else [])\<rparr>
    \<and> map (\<lambda>e. (de_level e, de_component e, de_message e)) es = map (\<lambda>(l, m). (l, ''streaming'', m)) (sender_messages c)"
proof -
  let ?c = "upd_state (apply_streaming_snapshot (hs_snapshot (uc_sender c))) c"
  obtain es where es: "uc_state (fold (\<lambda>m. push_diagnostic (fst m) ''streaming'' (snd m)) (sender_messages c) ?c) =
      (uc_state ?c)\<lparr>st_diagnostics := st_diagnostics (uc_state ?c) @ es\<rparr>"
      "map (\<lambda>e. (de_level e, de_component e, de_message e)) es = map (\<lambda>m. (fst m, ''streaming'', snd m)) (sender_messages c)"
    using pushed_state [of fst "\<lambda>_. ''streaming''" snd] by blast
  have keep: "uc_state ?c = apply_streaming_snapshot (hs_snapshot (uc_sender c)) (uc_state c)"
      "st_diagnostics (apply_streaming_snapshot x s) = st_diagnostics s" for x s
    by (simp_all add: upd_state_def apply_streaming_snapshot_def)
  show ?thesis
    by (rule exI [of _ es])
      (use es in \<open>auto simp: streaming_poll_def sender_messages_def split_def Let_def keep\<close>)
qed

text \<open>
  C20: One poll of the sender shows its current snapshot and reports exactly the changes since the last poll, in order; a second poll of
  an unchanged sender changes nothing of the state.
\<close>

theorem sender_changes_are_reported_once:
  assumes "distinct (map ts_receiver_id (ss_targets (hs_snapshot (uc_sender c))))"
  shows "(\<exists>es. st_diagnostics (uc_state (streaming_poll env c)) = st_diagnostics (uc_state c) @ es
        @ (if st_streaming (uc_state c) \<noteq> hs_snapshot (uc_sender c) then dr_pending_events (uc_diagnostics c) else [])
      \<and> map (\<lambda>e. (de_level e, de_component e, de_message e)) es = map (\<lambda>(l, m). (l, ''streaming'', m)) (sender_messages c))
    \<and> st_streaming (uc_state (streaming_poll env c)) = hs_snapshot (uc_sender c)
    \<and> uc_state (streaming_poll env (streaming_poll env c)) = uc_state (streaming_poll env c)"
proof -
  let ?c = "streaming_poll env c"
  have sender: "uc_sender ?c = uc_sender c" by (simp add: streaming_poll_def split_def Let_def)
  have now: "st_streaming (uc_state ?c) = hs_snapshot (uc_sender c)"
      "st_cast_session (uc_state ?c) = cast_state_of (ss_state (hs_snapshot (uc_sender c)))"
    using streaming_state [of env c] by (auto simp: apply_streaming_snapshot_def)
  have none: "sender_messages ?c = []"
    using same_targets_no_messages [OF assms]
    by (simp add: sender_messages_def sender now streaming_messages_def newly_def)
  obtain es where es: "uc_state (streaming_poll env ?c) = (apply_streaming_snapshot (hs_snapshot (uc_sender ?c)) (uc_state ?c))
       \<lparr>st_diagnostics := st_diagnostics (uc_state ?c) @ es @ []\<rparr>" "es = []"
    using streaming_state [of env ?c] none same_targets_no_messages [OF assms] by (auto simp: sender now)
  have same: "apply_streaming_snapshot (hs_snapshot (uc_sender ?c)) (uc_state ?c) = uc_state ?c"
    using now by (cases "uc_state ?c") (simp add: apply_streaming_snapshot_def sender)
  have twice: "uc_state (streaming_poll env ?c) = uc_state ?c" by (simp add: es same)
  have quiet: "stream_target_transition_messages (ss_targets (st_streaming (uc_state c))) (ss_targets (hs_snapshot (uc_sender c))) = []"
    if "st_streaming (uc_state c) = hs_snapshot (uc_sender c)"
    using same_targets_no_messages [OF assms] that by simp
  show ?thesis using streaming_state [of env c] quiet now(1) twice
    by (cases "st_streaming (uc_state c) = hs_snapshot (uc_sender c)") (auto simp: apply_streaming_snapshot_def)
qed

section \<open>The receiver's timer\<close>

text \<open>No message of the receiver's timer is a text that does not start like one.\<close>

definition unlike :: "string \<Rightarrow> DiagnosticEvent list \<Rightarrow> bool" where
  "unlike e ds \<longleftrightarrow> (\<forall>d \<in> set ds. de_message d \<noteq> e)"

definition report_of :: "string \<Rightarrow> string" where
  "report_of e = ''Receiver TCP listener reported: '' @ e"

definition reports :: "string \<Rightarrow> ('s, 'w) UiController \<Rightarrow> nat" where
  "reports e c = length (filter (\<lambda>d. de_message d = report_of e) (st_diagnostics (uc_state c)))"

definition tracked :: "string \<Rightarrow> ('s, 'w) UiController \<Rightarrow> ('s, 'w) UiController \<Rightarrow> bool" where
  "tracked e c c' \<longleftrightarrow> unlike e (st_diagnostics (uc_state c)) \<longrightarrow>
     unlike e (st_diagnostics (uc_state c')) \<and> reports e c \<le> reports e c'"

lemma tracked_trans: "tracked e c d \<Longrightarrow> tracked e d f \<Longrightarrow> tracked e c f"
  by (auto simp: tracked_def)

lemma tracked_same: "st_diagnostics (uc_state d) = st_diagnostics (uc_state c) \<Longrightarrow> tracked e c d"
  by (simp add: tracked_def reports_def)

lemma tracked_push:
  assumes "m \<noteq> e"
  shows "tracked e c (push_diagnostic l k m c)"
  using assms by (auto simp: tracked_def reports_def unlike_def push_diagnostic_def upd_state_def add_event_def
      diagnostic_def split_def Let_def)

lemma tracked_messages:
  "\<forall>m \<in> set ms. snd (snd m) \<noteq> e \<Longrightarrow> tracked e c (push_messages ms c)"
proof (induction ms arbitrary: c)
  case (Cons m ms)
  have "push_messages (m # ms) c = push_messages ms (push_diagnostic (fst m) (fst (snd m)) (snd (snd m)) c)"
    by (simp add: push_messages_def split_def)
  moreover have "tracked e c (push_diagnostic (fst m) (fst (snd m)) (snd (snd m)) c)"
    by (rule tracked_push) (use Cons.prems in simp)
  ultimately show ?case using Cons.IH [of "push_diagnostic (fst m) (fst (snd m)) (snd (snd m)) c"] Cons.prems
    by (metis list.set_intros(2) tracked_trans)
qed (simp add: push_messages_def tracked_def)

lemma runtime_texts: "m \<in> set (runtime_messages old new) \<Longrightarrow> starts_with (snd (snd m)) ''Receiver ''"
proof -
  have sync: "starts_with (snd (sync_message y)) ''Receiver ''" for y by (simp add: sync_message_def starts_with_def)
  have "list_all (\<lambda>m. starts_with (snd (snd m)) ''Receiver '') (runtime_messages old new)"
    by (simp add: runtime_messages_def split_def Let_def sync split: option.split) (simp add: starts_with_def)
  then show "m \<in> set (runtime_messages old new) \<Longrightarrow> starts_with (snd (snd m)) ''Receiver ''"
    by (simp add: list_all_iff)
qed

lemma state_sync [simp]:
  "uc_state (sync_local_receiver_advertisement env c) = uc_state c"
  "dr_pending_events (uc_diagnostics (sync_local_receiver_advertisement env c)) = dr_pending_events (uc_diagnostics c)"
  by (simp_all add: sync_local_receiver_advertisement_def update_discovery_local_diagnostics_def
      update_discovery_local_snapshot_def stamped_def split_def Let_def)

lemma pending_listener [simp]:
  "dr_pending_events (fst (update_receiver_listener_snapshot dx a b e s)) = dr_pending_events (fst s)"
  "dr_pending_events (fst (note_poll dx kind ob s)) = dr_pending_events (fst s)"
  by (cases s; simp add: update_receiver_listener_snapshot_def stamped_def note_poll_def split_def Let_def)+

lemma pending_pushed [simp]:
  "dr_pending_events (uc_diagnostics (push_messages ms c)) = dr_pending_events (uc_diagnostics c)"
  "dr_pending_events (uc_diagnostics (push_opt l k m c)) = dr_pending_events (uc_diagnostics c)"
  by (simp_all add: push_messages_def push_opt_def split_def split: option.split)

text \<open>The poll up to the report on the listener.\<close>

definition listener_noted :: "('q, 's, 'w) ui_env \<Rightarrow> ('s, 'w) UiController \<Rightarrow> ('s, 'w) UiController" where
  "listener_noted env c =
     (let t = srv_snapshot (uc_receiver_transport c)
      in sync_local_receiver_advertisement env (on_diagnostics (update_receiver_listener_snapshot (ue_diag env)
           (show_addr (srs_bind_addr t)) (srs_active t) (srs_last_error t)) c))"

definition before_report :: "('q, 's, 'w) ui_env \<Rightarrow> ('s, 'w) UiController \<Rightarrow> ('s, 'w) UiController" where
  "before_report env c =
     (let snapshot = rt_snapshot (uc_receiver c); c2 = listener_noted env c;
          old_ad = sn_discovery (dr_current (uc_diagnostics c)); new_ad = sn_discovery (dr_current (uc_diagnostics c2));
          c3 = push_messages (runtime_messages (st_receiver (uc_state c2)) snapshot) (upd_state (apply_receiver_snapshot snapshot) c2);
          c4 = (if sd_advertisement_state old_ad \<noteq> sd_advertisement_state new_ad then push_diagnostic Info ''receiver-discovery''
                  (''Receiver discovery advertisement is now '' @ sd_advertisement_state new_ad @ ''.'') c3 else c3)
      in push_opt Warning ''receiver-discovery''
           (map_option (\<lambda>e. ''Receiver discovery advertisement reported: '' @ e)
             (if sd_last_advertisement_error old_ad \<noteq> sd_last_advertisement_error new_ad
              then sd_last_advertisement_error new_ad else None)) c4)"

definition polled_changes :: "('q, 's, 'w) ui_env \<Rightarrow> ('s, 'w) UiController \<Rightarrow> nat \<Rightarrow> nat" where
  "polled_changes env c reported =
     (let t = srv_snapshot (uc_receiver_transport c); old = sn_discovery (dr_current (uc_diagnostics c));
          new = sn_discovery (dr_current (uc_diagnostics (listener_noted env c)))
      in one_if (sr_last_transport_error (sn_receiver (dr_current (uc_diagnostics c))) \<noteq> srs_last_error t)
         + one_if (sd_advertisement_state old \<noteq> sd_advertisement_state new)
         + one_if ((if sd_last_advertisement_error old \<noteq> sd_last_advertisement_error new
                    then sd_last_advertisement_error new else None) \<noteq> None)
         + reported + runtime_changes (st_receiver (uc_state (listener_noted env c))) (rt_snapshot (uc_receiver c)))"

lemma receiver_poll_parts:
  "receiver_poll env c =
     (let e = srs_last_error (srv_snapshot (uc_receiver_transport c));
          (reported, c6) = report_transport_error e (before_report env c)
      in finish_poll env PollReceiver RECEIVER_POLL_INTERVAL_SECS (polled_changes env c reported) e
           (0 < polled_changes env c reported) c6)"
  unfolding receiver_poll_def before_report_def polled_changes_def listener_noted_def Let_def split_def by (rule refl)

lemma noted_state [simp]:
  "uc_state (listener_noted env c) = uc_state c"
  "dr_pending_events (uc_diagnostics (listener_noted env c)) = dr_pending_events (uc_diagnostics c)"
  by (simp_all add: listener_noted_def Let_def)

lemma before_report_tracked:
  assumes "\<not> starts_with e ''Receiver ''"
  shows "tracked e c (before_report env c)"
proof -
  have ne: "x \<noteq> e" if "starts_with x ''Receiver ''" for x using assms that by auto
  have runtime: "tracked e d (push_messages (runtime_messages old new) d)" for d and old new
    by (rule tracked_messages) (use runtime_texts ne in blast)
  have start: "tracked e c (upd_state (apply_receiver_snapshot n) (listener_noted env c))" for n
    by (rule tracked_same) (simp add: upd_state_def apply_receiver_snapshot_def)
  have ad: "tracked e d (push_diagnostic l k (''Receiver discovery advertisement is now '' @ x @ ''.'') d)" for d and l k x
    by (rule tracked_push, rule ne) (simp add: starts_with_def)
  have err: "tracked e d (push_opt l k (map_option (\<lambda>e. ''Receiver discovery advertisement reported: '' @ e) x) d)" for d and l k x
    by (cases x) (auto simp: push_opt_def tracked_def [of e d d] starts_with_def intro!: tracked_push ne)
  have branch: "tracked e c x \<Longrightarrow> tracked e c y \<Longrightarrow> tracked e c (if b then x else y)" for x y b by simp
  show ?thesis
    unfolding before_report_def Let_def
    by (intro tracked_trans [OF _ err] branch tracked_trans [OF _ ad] tracked_trans [OF start runtime])
qed

lemma before_report_pending:
  "dr_pending_events (uc_diagnostics (before_report env c)) = dr_pending_events (uc_diagnostics c)"
  by (simp add: before_report_def Let_def)

lemma poll_transport: "uc_receiver_transport (receiver_poll env c) = uc_receiver_transport c"
  unfolding receiver_poll_def Let_def split_def by simp

lemma listener_reported:
  assumes "srs_last_error (srv_snapshot (uc_receiver_transport c)) = Some e" "\<not> starts_with e ''Receiver ''"
    and "unlike e (st_diagnostics (uc_state c))" "unlike e (dr_pending_events (uc_diagnostics c))"
  shows "srs_last_error (srv_snapshot (uc_receiver_transport (receiver_poll env c))) = Some e
    \<and> unlike e (st_diagnostics (uc_state (receiver_poll env c)))
    \<and> unlike e (dr_pending_events (uc_diagnostics (receiver_poll env c)))
    \<and> Suc (reports e c) \<le> reports e (receiver_poll env c)"
proof -
  let ?c5 = "before_report env c"
  have c5: "unlike e (st_diagnostics (uc_state ?c5))" "reports e c \<le> reports e ?c5"
    using before_report_tracked [OF assms(2), of c env] assms(3) by (auto simp: tracked_def)
  have "last_message (uc_state ?c5) \<noteq> Some e" using c5(1) by (auto simp: last_message_def unlike_def)
  then have r: "report_transport_error (Some e) ?c5 = (1, push_diagnostic Warning ''receiver-transport'' (report_of e) ?c5)"
    by (simp add: report_transport_error_def report_of_def)
  have ne: "report_of e \<noteq> e" by (simp add: report_of_def)
  obtain now where st: "uc_state (push_diagnostic Warning ''receiver-transport'' (report_of e) ?c5) =
      (uc_state ?c5)\<lparr>st_diagnostics := st_diagnostics (uc_state ?c5) @ [diagnostic Warning now ''receiver-transport'' (report_of e)]\<rparr>"
    by (auto simp: push_diagnostic_def upd_state_def add_event_def split_def Let_def)
  have "0 < polled_changes env c 1" by (simp add: polled_changes_def Let_def)
  then have s: "uc_state (receiver_poll env c) = (uc_state ?c5)\<lparr>st_diagnostics := st_diagnostics (uc_state ?c5)
      @ [diagnostic Warning now ''receiver-transport'' (report_of e)] @ dr_pending_events (uc_diagnostics c)\<rparr>"
      "dr_pending_events (uc_diagnostics (receiver_poll env c)) = []"
    by (simp_all add: receiver_poll_parts assms(1) r st before_report_pending)
      (simp add: finish_poll_def split_def Let_def)
  show ?thesis
    using c5 assms(1,4) ne by (auto simp: s poll_transport unlike_def reports_def diagnostic_def)
qed

text \<open>
  C37: While the listener has an error, every poll of the receiver adds one more diagnostic about it: the comparison with the last
  diagnostic never finds the text that was pushed.
\<close>

theorem listener_error_is_reported_every_second:
  assumes "srs_last_error (srv_snapshot (uc_receiver_transport c)) = Some e" "\<not> starts_with e ''Receiver ''"
    and "unlike e (st_diagnostics (uc_state c))" "unlike e (dr_pending_events (uc_diagnostics c))"
  shows "reports e c + n \<le> reports e ((receiver_poll env ^^ n) c)"
proof -
  have "srs_last_error (srv_snapshot (uc_receiver_transport ((receiver_poll env ^^ n) c))) = Some e
    \<and> unlike e (st_diagnostics (uc_state ((receiver_poll env ^^ n) c)))
    \<and> unlike e (dr_pending_events (uc_diagnostics ((receiver_poll env ^^ n) c)))
    \<and> reports e c + n \<le> reports e ((receiver_poll env ^^ n) c)"
  proof (induction n)
    case (Suc n)
    then show ?case using listener_reported [of "(receiver_poll env ^^ n) c" e env] assms(2) by auto
  qed (simp add: assms)
  then show ?thesis by blast
qed

section \<open>The receiver selector\<close>

lemma device_str_eq: "device_str a = device_str b \<longleftrightarrow> a = b"
  by (cases a; cases b) simp

text \<open>
  C26: The receiver selector offers exactly the receivers that adding to a cast accepts: each entry is found as a device with an endpoint
  that can be selected, no other id is found, and the active entry is the selected receiver.
\<close>

theorem selector_offers_what_casting_accepts:
  assumes "app_inv s"
  shows "(\<forall>i. i \<in> ro_id ` set (receiver_selector_options s) \<longleftrightarrow> find_receiver_device s i \<noteq> None)
    \<and> desired_receiver_selector_active_id s (receiver_selector_options s) =
        map_option device_str (st_selected_receiver_device_id s)
    \<and> (\<forall>i d. find_receiver_device s i = Some d \<longrightarrow>
        device_str (dd_id d) = i \<and> dd_endpoint d \<noteq> None \<and> fst (select_receiver_device (dd_id d) s))"
proof (intro conjI allI impI)
  fix i
  have "i \<in> ro_id ` set (receiver_selector_options s) \<longleftrightarrow>
      (\<exists>d \<in> set (st_discovered_devices s). device_str (dd_id d) = i \<and> is_receiver_connectable d)"
    by (force simp: receiver_selector_options_def)
  then show "i \<in> ro_id ` set (receiver_selector_options s) \<longleftrightarrow> find_receiver_device s i \<noteq> None"
    by (auto simp: find_receiver_device_def find_None_iff)
next
  have dev: "device_inv s" using assms by (simp add: app_inv_def)
  show "desired_receiver_selector_active_id s (receiver_selector_options s) =
      map_option device_str (st_selected_receiver_device_id s)"
  proof (cases "st_selected_receiver_device_id s")
    case None
    then have "receiver_selector_options s = []"
      using dev by (auto simp: device_inv_def receiver_selector_options_def list_ex_iff filter_empty_conv)
    with None show ?thesis by (simp add: desired_receiver_selector_active_id_def or_else_def first_of_def)
  next
    case (Some i)
    then have "list_ex (\<lambda>x. ro_id x = device_str i) (receiver_selector_options s)"
      using dev by (auto simp: device_inv_def receiver_selector_options_def list_ex_iff)
    with Some show ?thesis by (simp add: desired_receiver_selector_active_id_def or_else_def)
  qed
next
  fix i d
  assume f: "find_receiver_device s i = Some d"
  then have d: "d \<in> set (st_discovered_devices s)" "device_str (dd_id d) = i" "is_receiver_connectable d"
    by (auto simp: find_receiver_device_def find_Some_iff)
  show "device_str (dd_id d) = i" by (rule d(2))
  show "dd_endpoint d \<noteq> None" using d(3) by (simp add: is_receiver_connectable_def)
  show "fst (select_receiver_device (dd_id d) s)"
    using d by (auto simp: select_receiver_device_def list_ex_iff)
qed

section \<open>The discovery timer\<close>

definition backlog :: "('w \<Rightarrow> nat) \<Rightarrow> MdnsDiscoveryService \<Rightarrow> 'w \<Rightarrow> nat" where
  "backlog queued sv w = length (sv_pending_events sv) + queued w"

definition finite_channel :: "'w mdns_env \<Rightarrow> ('w \<Rightarrow> nat) \<Rightarrow> bool" where
  "finite_channel me queued \<longleftrightarrow>
     (\<forall>w e w1. me_try_recv me w = (BrowseOk e, w1) \<longrightarrow> queued w1 < queued w)
     \<and> (\<forall>w. queued (snd (ck_unix_ms (me_clock me) w)) \<le> queued w)
     \<and> (\<forall>w. queued (snd (ck_now (me_clock me) w)) \<le> queued w)"

lemma upsert_world:
  assumes "\<forall>w. queued (snd (ck_unix_ms ck w)) \<le> queued w" "\<forall>w. queued (snd (ck_now ck w)) \<le> queued w"
  shows "queued (snd (snd (registry_upsert ck d r w))) \<le> (queued w :: nat)"
  using assms(1)[rule_format, of w] assms(2)[rule_format, of "snd (ck_unix_ms ck w)"]
  by (auto simp: registry_upsert_def split_def Let_def split: option.split)

lemma handle_world:
  assumes "\<forall>w. queued (snd (ck_unix_ms ck w)) \<le> queued w" "\<forall>w. queued (snd (ck_now ck w)) \<le> queued w"
  shows "queued (snd (handle_mdns_event ck e sv w)) \<le> (queued w :: nat)
    \<and> length (sv_pending_events (fst (handle_mdns_event ck e sv w))) \<le> Suc (length (sv_pending_events sv))"
proof (cases e)
  case (ServiceResolved service)
  have "queued (snd (snd (registry_upsert ck d r (snd (ck_unix_ms ck w))))) \<le> queued w" for d r
    using upsert_world [OF assms, of d r "snd (ck_unix_ms ck w)"] assms(1)[rule_format, of w] by linarith
  then show ?thesis
    using ServiceResolved by (simp add: handle_mdns_event_def push_event_def split_def Let_def split: option.split)
qed (simp_all add: handle_mdns_event_def push_event_def upd_local_def split_def Let_def split: option.split)

lemma poll_event_progress:
  assumes "finite_channel me queued" "service_poll_event me sv w = (Inr (Some ev), sv1, w1)"
  shows "backlog queued sv1 w1 < backlog queued sv w"
proof (cases "sv_pending_events sv")
  case (Cons e es)
  then show ?thesis using assms(2) by (auto simp: service_poll_event_def pop_event_def backlog_def)
next
  case Nil
  obtain out w0 where out: "me_try_recv me w = (out, w0)" by fastforce
  obtain e where r: "me_try_recv me w = (BrowseOk e, w0)"
    using assms(2) Nil by (cases out) (auto simp: service_poll_event_def pop_event_def out split: if_splits)
  have h: "pop_event (fst (handle_mdns_event (me_clock me) e sv w0)) = (Some ev, sv1)"
      "w1 = snd (handle_mdns_event (me_clock me) e sv w0)"
    using assms(2) Nil by (simp_all add: service_poll_event_def pop_event_def r split_def Let_def split: if_splits list.splits)
  have "queued w1 \<le> queued w0" "length (sv_pending_events (fst (handle_mdns_event (me_clock me) e sv w0))) \<le> 1"
    using handle_world [of queued "me_clock me" e sv w0] assms(1) Nil h(2) by (simp_all add: finite_channel_def)
  moreover have "queued w0 < queued w" using assms(1) r by (simp add: finite_channel_def)
  ultimately show ?thesis
    using h(1) Nil by (auto simp: backlog_def pop_event_def split: list.splits)
qed

text \<open>
  C39: The loop of the discovery timer ends: over a channel that gives a finite number of events it returns, with at most one event for each one
  that was pending or queued.
\<close>

theorem discovery_loop_ends:
  assumes "finite_channel me queued"
  shows "\<exists>events error sv1 w1. drain_discovery me sv w = Some (events, error, sv1, w1) \<and> length events \<le> backlog queued sv w"
proof (induction "backlog queued sv w" arbitrary: sv w rule: less_induct)
  case less
  obtain r sv1 w1 where p: "service_poll_event me sv w = (r, sv1, w1)" by (metis prod_cases3)
  show ?case
  proof (cases "\<exists>ev. r = Inr (Some ev)")
    case True
    then obtain ev where ev: "r = Inr (Some ev)" by blast
    have "backlog queued sv1 w1 < backlog queued sv w" by (rule poll_event_progress [OF assms p [unfolded ev]])
    moreover from less [OF this] obtain evs er sv2 w2 where
      "drain_discovery me sv1 w1 = Some (evs, er, sv2, w2)" "length evs \<le> backlog queued sv1 w1" by blast
    ultimately show ?thesis using p ev by (subst drain_discovery.simps) simp
  next
    case False
    then show ?thesis using p by (subst drain_discovery.simps) (auto split: sum.split option.split)
  qed
qed

theorem found_events_cost_a_poll_each:
  assumes "\<And>e es. me_try_recv me (e # es) = (BrowseOk e, es)" "sv_pending_events sv = []" "sv_browse_receiver sv"
  shows "drain_discovery me sv (replicate (Suc n) (ServiceFound t name) @ es) =
    Some ([], None, sv, replicate n (ServiceFound t name) @ es)"
  using assms by (subst drain_discovery.simps)
    (simp add: service_poll_event_def pop_event_def handle_mdns_event_def split_def Let_def)

section \<open>Casting to a receiver that is busy\<close>

lemma stop_each:
  "hs_manager_listens h \<Longrightarrow> hs_control_tx h = Some sent \<Longrightarrow>
    hs_control_tx (fold (\<lambda>(i, _) h. snd (session_stop_target i h)) ts h) = Some (sent @ map (RemoveTarget \<circ> fst) ts)"
proof (induction ts arbitrary: h sent)
  case (Cons t ts)
  then show ?case
    using Cons.IH [of "snd (session_stop_target (fst t) h)" "sent @ [RemoveTarget (fst t)]"]
    by (simp add: session_stop_target_def send_command_def split_def)
qed simp

text \<open>
  C27: A target that is not streaming, for instance one that waits for its next attempt after its connection broke, is removed from the cast by
  the discovery timer as soon as its receiver advertises that it is busy.
\<close>

theorem reconnect_to_busy_receiver_is_dropped:
  assumes "hs_control_tx (uc_sender c) = Some sent" "hs_manager_listens (uc_sender c)"
    and "t \<in> set (ss_targets (st_streaming (uc_state c)))" "ts_state t \<noteq> Streaming"
    and "find (\<lambda>d. dd_id d = ts_receiver_id t) (st_discovered_devices (uc_state c)) = Some d"
    and "dd_availability d = Busy"
  shows "\<exists>more. hs_control_tx (uc_sender (stop_unusable_sender_targets c)) = Some (sent @ more)
    \<and> RemoveTarget (ts_receiver_id t) \<in> set more"
proof -
  let ?ts = "unusable_targets (uc_state c)"
  have "(ts_receiver_id t, ts_receiver_name t) \<in> set ?ts"
    using assms(3-6) by (auto simp: unusable_targets_def is_receiver_connectable_def)
  moreover from this have "?ts \<noteq> []" by auto
  moreover from this have "uc_sender (stop_unusable_sender_targets c) =
      fold (\<lambda>(i, _) h. snd (session_stop_target i h)) ?ts (uc_sender c)"
    by (simp add: stop_unusable_sender_targets_def split_def Let_def)
  ultimately show ?thesis using stop_each [OF assms(2,1), of ?ts] by force
qed

section \<open>Concrete inputs\<close>

definition no_poll :: InventoryPoll where
  "no_poll = \<lparr>ip_refresh_in_flight = False, ip_results = [], ip_last_error = None\<rparr>"

lemma one_action: "(ui_step env)\<^sup>*\<^sup>* (p, c) (p, perform env a c)"
  by (rule r_into_rtranclp) (rule ui_step.Action)

lemma demo_handles:
  "uc_receiver (demo_window widgets) = runtime_new default_receiver_config ''pw''"
  "srv_stop_tx (uc_receiver_transport (demo_window widgets)) = False"
  by (simp_all add: build_main_window_def new_controller_def demo_launch_def default_app_config_def
      default_receiver_config_def server_new_def split_def Let_def split: sum.split)

lemma demo_bind: "ue_bind demo_ui_env a w = (Bound a, w)"
  by (simp add: demo_ui_env_def)

theorem receiver_mode_all_or_nothing_witness:
  "\<forall>widgets. let c = start_receiver_mode demo_ui_env (demo_window widgets)
     in rt_worker (uc_receiver c) \<noteq> None \<and> srv_stop_tx (uc_receiver_transport c)"
proof
  fix widgets
  let ?c = "start_receiver_mode demo_ui_env (demo_window widgets)"
  have run: "(ui_step demo_ui_env)\<^sup>*\<^sup>* (no_poll, demo_window widgets) (no_poll, ?c)"
    using one_action [of demo_ui_env no_poll "demo_window widgets" StartReceiver] by simp
  have "rt_worker (uc_receiver ?c) \<noteq> None"
    by (simp add: start_receiver_mode_def demo_handles runtime_start_def runtime_new_def default_receiver_config_def
        server_start_def demo_bind split_def Let_def)
  then show "let c = ?c in rt_worker (uc_receiver c) \<noteq> None \<and> srv_stop_tx (uc_receiver_transport c)"
    using receiver_mode_all_or_nothing [OF run] by (simp add: Let_def)
qed


definition demo_cast :: StreamTargetSnapshot where
  "demo_cast = (target_snapshot_new (DeviceId ''den'') ''Den'' \<lparr>sa_ip = V4 192 168 0 7, sa_port = 51700\<rparr>)
     \<lparr>ts_state := StreamSessionState.Connecting\<rparr>"

theorem sender_changes_are_reported_once_witness:
  "\<forall>widgets. let c = (demo_window widgets)\<lparr>uc_sender := (uc_sender (demo_window widgets))
       \<lparr>hs_snapshot := default_session_snapshot\<lparr>ss_targets := [demo_cast]\<rparr>\<rparr>\<rparr>
     in ss_targets (st_streaming (uc_state (streaming_poll demo_ui_env c))) = [demo_cast]
        \<and> uc_state (streaming_poll demo_ui_env (streaming_poll demo_ui_env c)) = uc_state (streaming_poll demo_ui_env c)"
proof
  fix widgets
  let ?c = "(demo_window widgets)\<lparr>uc_sender := (uc_sender (demo_window widgets))
       \<lparr>hs_snapshot := default_session_snapshot\<lparr>ss_targets := [demo_cast]\<rparr>\<rparr>\<rparr>"
  have "distinct (map ts_receiver_id (ss_targets (hs_snapshot (uc_sender ?c))))" by simp
  from sender_changes_are_reported_once [OF this, of demo_ui_env]
  show "let c = ?c in ss_targets (st_streaming (uc_state (streaming_poll demo_ui_env c))) = [demo_cast]
        \<and> uc_state (streaming_poll demo_ui_env (streaming_poll demo_ui_env c)) = uc_state (streaming_poll demo_ui_env c)"
    by (simp add: Let_def)
qed

theorem listener_error_is_reported_every_second_witness:
  "\<forall>widgets. let c = (demo_window widgets)\<lparr>uc_state := app_state_new 7 default_app_config,
       uc_diagnostics := ul_diagnostics_runtime demo_launch,
       uc_receiver_transport := (uc_receiver_transport (demo_window widgets))\<lparr>srv_snapshot :=
         (server_snapshot_new \<lparr>sa_ip = V4 0 0 0 0, sa_port = 51700\<rparr>)\<lparr>srs_last_error := Some ''accept failed''\<rparr>\<rparr>\<rparr>
     in reports ''accept failed'' c = 0 \<and> 3 \<le> reports ''accept failed'' ((receiver_poll demo_ui_env ^^ 3) c)"
proof
  fix widgets
  let ?c = "(demo_window widgets)\<lparr>uc_state := app_state_new 7 default_app_config,
       uc_diagnostics := ul_diagnostics_runtime demo_launch,
       uc_receiver_transport := (uc_receiver_transport (demo_window widgets))\<lparr>srv_snapshot :=
         (server_snapshot_new \<lparr>sa_ip = V4 0 0 0 0, sa_port = 51700\<rparr>)\<lparr>srs_last_error := Some ''accept failed''\<rparr>\<rparr>\<rparr>"
  have err: "srs_last_error (srv_snapshot (uc_receiver_transport ?c)) = Some ''accept failed''" by simp
  have kind: "\<not> starts_with ''accept failed'' ''Receiver ''" by (simp add: starts_with_def)
  have none: "unlike ''accept failed'' (st_diagnostics (uc_state ?c))"
    "unlike ''accept failed'' (dr_pending_events (uc_diagnostics ?c))"
    by (simp_all add: unlike_def app_state_new_def diagnostic_def demo_launch_def)
  have zero: "reports ''accept failed'' ?c = 0"
    by (simp add: reports_def report_of_def app_state_new_def diagnostic_def)
  show "let c = ?c in reports ''accept failed'' c = 0 \<and> 3 \<le> reports ''accept failed'' ((receiver_poll demo_ui_env ^^ 3) c)"
    using listener_error_is_reported_every_second [OF err kind none, of 3 demo_ui_env] zero unfolding Let_def by linarith
qed

definition demo_found :: AppState where
  "demo_found = apply_discovery_snapshot \<lparr>ds_devices = [demo_device 51700], ds_updated_at_unix_ms = 7\<rparr>
     (app_state_new 7 default_app_config)"

theorem selector_offers_what_casting_accepts_witness:
  "find_receiver_device demo_found ''den'' \<noteq> None \<and> find_receiver_device demo_found ''attic'' = None
   \<and> desired_receiver_selector_active_id demo_found (receiver_selector_options demo_found) = Some ''den''"
proof -
  have inv: "app_inv demo_found" by (simp add: demo_found_def app_new_inv)
  have sel: "st_selected_receiver_device_id demo_found = Some (DeviceId ''den'')"
      "ro_id ` set (receiver_selector_options demo_found) = {''den''}"
    by (simp_all add: demo_found_def apply_discovery_snapshot_def reconcile_selected_receiver_def app_state_new_def
        demo_device_def is_receiver_connectable_def capabilities_sender_receiver_def receiver_selector_options_def Let_def)
  note offered = selector_offers_what_casting_accepts [OF inv, unfolded sel]
  show ?thesis
    using offered [THEN conjunct1, rule_format, of "''den''"] offered [THEN conjunct1, rule_format, of "''attic''"]
      offered [THEN conjunct2, THEN conjunct1]
    by simp
qed

theorem discovery_loop_ends_witness:
  "\<exists>events error sv1 w1. drain_discovery demo_env demo_started [demo_resolved 51700, OtherServiceEvent] = Some (events, error, sv1, w1)
     \<and> length events \<le> 2"
proof -
  have "finite_channel demo_env length"
    by (auto simp: finite_channel_def demo_env_def split: list.splits)
  moreover have "backlog length demo_started [demo_resolved 51700, OtherServiceEvent] = 2"
    by (simp add: backlog_def demo_started_def demo_service_def service_new_def service_with_profile_def)
  ultimately show ?thesis
    using discovery_loop_ends [of demo_env length demo_started "[demo_resolved 51700, OtherServiceEvent]"] by simp
qed

theorem found_events_cost_a_poll_each_witness:
  "drain_discovery demo_env demo_started (replicate 3 (ServiceFound ''_s'' ''Den'') @ [demo_resolved 51700]) =
     Some ([], None, demo_started, replicate 2 (ServiceFound ''_s'' ''Den'') @ [demo_resolved 51700])"
proof -
  have pending: "sv_pending_events demo_started = []" "sv_browse_receiver demo_started"
    by (simp_all add: demo_started_def demo_service_def service_new_def service_with_profile_def)
  have recv: "me_try_recv demo_env (e # es) = (BrowseOk e, es)" for e es by (simp add: demo_env_def)
  from found_events_cost_a_poll_each [OF recv pending, of 2 "''_s''" "''Den''" "[demo_resolved 51700]"]
  show ?thesis by (simp add: numeral_eq_Suc)
qed

theorem reconnect_to_busy_receiver_is_dropped_witness:
  "\<forall>widgets. let c = (demo_window widgets)\<lparr>
       uc_sender := (uc_sender (demo_window widgets))\<lparr>hs_control_tx := Some [], hs_manager_listens := True\<rparr>,
       uc_state := demo_found\<lparr>st_discovered_devices := [(demo_device 51700)\<lparr>dd_availability := Busy\<rparr>],
         st_streaming := default_session_snapshot\<lparr>ss_targets := [demo_cast]\<rparr>\<rparr>\<rparr>
     in \<exists>more. hs_control_tx (uc_sender (stop_unusable_sender_targets c)) = Some more
          \<and> RemoveTarget (DeviceId ''den'') \<in> set more"
proof
  fix widgets
  let ?c = "(demo_window widgets)\<lparr>
       uc_sender := (uc_sender (demo_window widgets))\<lparr>hs_control_tx := Some [], hs_manager_listens := True\<rparr>,
       uc_state := demo_found\<lparr>st_discovered_devices := [(demo_device 51700)\<lparr>dd_availability := Busy\<rparr>],
         st_streaming := default_session_snapshot\<lparr>ss_targets := [demo_cast]\<rparr>\<rparr>\<rparr>"
  have "\<exists>more. hs_control_tx (uc_sender (stop_unusable_sender_targets ?c)) = Some ([] @ more)
    \<and> RemoveTarget (ts_receiver_id demo_cast) \<in> set more"
    by (rule reconnect_to_busy_receiver_is_dropped [where d = "(demo_device 51700)\<lparr>dd_availability := Busy\<rparr>"])
      (simp_all add: demo_cast_def target_snapshot_new_def demo_device_def)
  then show "let c = ?c in \<exists>more. hs_control_tx (uc_sender (stop_unusable_sender_targets c)) = Some more
          \<and> RemoveTarget (DeviceId ''den'') \<in> set more"
    by (simp add: Let_def demo_cast_def target_snapshot_new_def)
qed

end
