(* ===== verification/Spec2Isabelle.thy ===== *)
theory Spec2Isabelle
  imports Audio_Levels_Properties Receiver_Runtime Core_Config App_State Transport_Receiver Fanout Core_Streaming Core_Models
    Sender_Properties Sender_Session
    Discovery_Properties Audio_Playback Browser_Join_Properties
    Persistence_Properties Logging_Properties Diagnostics_Properties Ui_Claims
begin

text \<open>
  SynchroSonic sends the sound of one Linux machine to receivers on the local network. This
  library models the Rust workspace under \<open>src/crates\<close> and proves what its parts promise.

  The parts and how they work together. \<open>synchrosonic-app\<close> is the program: it loads its
  configuration, opens the log, recovers from an unclean end, and builds a window whose callbacks
  and timers act on five handles: discovery (mDNS), the sender session, the receiver runtime, the
  receiver's network listener and the browser join service. \<open>synchrosonic-discovery\<close> advertises
  this machine and keeps a registry of the others. \<open>synchrosonic-audio\<close> lists and captures PipeWire
  sources through \<open>pw-dump\<close> and \<open>pw-record\<close> and plays through \<open>pw-play\<close>.
  \<open>synchrosonic-transport\<close> frames messages on TCP: the sender's manager thread captures, fans
  every frame out to bounded queues, one for each target and one for the local mirror, and a writer
  and a reader thread serve each target; the receiver's listener runs a session for each
  connection and turns frames into events. \<open>synchrosonic-receiver\<close> is the worker thread that
  buffers the packets of these events, anchors them on a clock and plays them when they are due.
  \<open>synchrosonic-core\<close> holds the data, the configuration, the latency arithmetic and the
  application state.

  Theories and sources.

  Shared: \<open>Prelude\<close> (word types, lists, the collections \<open>word_bounds\<close> and \<open>step_defs\<close>); \<open>Errors\<close> is
  \<open>core/error.rs\<close>. The interfaces are locales: \<open>Steps\<close> (a system of steps, or of labelled
  operations, with an invariant), \<open>Fifo\<close> (a bounded queue that drops its oldest item), \<open>Keyed\<close>
  (a store by key), \<open>Codec\<close> (a self-delimiting code) and, in \<open>Audio_Playback\<close>, a process that
  can be stopped. Each is interpreted on the model: the packet buffer and the log store are
  bounded queues; the sender's targets and the registry are keyed stores; frames are a
  self-delimiting code; worker, runtime, mirror, manager, session handle, application state,
  discovery, browser join, diagnostics and the window are systems with an invariant.

  Core: \<open>Core_Models\<close>, \<open>Core_Streaming\<close>, \<open>Core_Config\<close>, \<open>Receiver_Core\<close> and \<open>App_State\<close> are
  \<open>core/models.rs\<close> with \<open>diagnostics.rs\<close>, \<open>streaming.rs\<close>, \<open>config.rs\<close>, \<open>receiver.rs\<close> and
  \<open>state.rs\<close>; \<open>Audio_Levels\<close> with \<open>Audio_Levels_Properties\<close> is the level statistics of
  \<open>audio.rs\<close>, single precision written out; \<open>Debug_Text\<close> holds the derived texts of the enums.

  Receiver: \<open>Packet_Buffer\<close> is \<open>receiver/buffer.rs\<close>; \<open>Receiver_Worker\<close> the worker thread of
  \<open>receiver/service.rs\<close>, one definition for each handler, its invariant in
  \<open>Receiver_Invariant\<close>; \<open>Receiver_Runtime\<close> the handle of the same file; whole runs are in
  \<open>Receiver_Properties\<close>.

  Transport: \<open>Frame_Protocol\<close> is \<open>protocol.rs\<close> byte for byte; \<open>Transport_Receiver\<close> is
  \<open>receiver.rs\<close> (session, listener, server handle); \<open>Fanout\<close> is \<open>fanout.rs\<close> (branch queue and
  local mirror). \<open>sender.rs\<close> is \<open>Sender_Core\<close> (connecting, writer and reader threads, pure
  helpers), \<open>Sender_Manager\<close> (targets and the handlers of the manager loop), \<open>Sender_Invariant\<close>,
  \<open>Sender_Properties\<close> (the manager interleaved with all other threads) and \<open>Sender_Session\<close> (the
  handle).

  Discovery: \<open>discovery/lib.rs\<close> is \<open>Discovery_Core\<close> (TXT record, addresses, merging of two
  sightings), \<open>Discovery_Registry\<close> and \<open>Discovery_Service\<close>; \<open>Discovery_Properties\<close> follows the
  events of a device.

  Audio: \<open>audio/linux.rs\<close> is \<open>Audio_Inventory\<close> over the JSON values of \<open>Json_Value\<close>, and
  \<open>Audio_Capture\<close>; \<open>audio/playback.rs\<close> is \<open>Audio_Playback\<close>.

  Application: \<open>App_Files\<close> is what the program uses of \<open>std::fs\<close>, paths and the clock, a host
  whose operations can fail and can leave a partial write. \<open>Persistence\<close>, \<open>Logging\<close>,
  \<open>Diagnostics\<close> with \<open>Diagnostics_Reports\<close>, \<open>App_Metadata\<close> and \<open>Browser_Join\<close> are the files
  of these names, each with a theory of properties. \<open>app/ui.rs\<close> is \<open>Ui_Format\<close>, \<open>Ui_Rows\<close>
  and \<open>Ui_Texts\<close> (everything the window shows, as text), \<open>Ui_Controller\<close> (the controller, what
  its widgets show, and the refresh of every page), \<open>Ui_Actions\<close> (the callbacks) and \<open>Ui_Polls\<close>
  (the four timers and the construction). \<open>App_Main\<close> is \<open>main.rs\<close>. \<open>Ui_Frame\<close> says what the
  operations of the window leave alone, \<open>Ui_Window\<close> is the window as a step relation,
  \<open>Ui_Start\<close> follows the configuration through start, window, end and the next start, and
  \<open>Ui_Properties\<close> with \<open>Ui_Claims\<close> hold the properties of single callbacks and timers.
  \<open>Config_Text\<close> is a writer and reader of configurations that shows that what is assumed of the
  TOML library can hold. This theory holds what spans both ends of a connection.

  State and effects. A struct is a record, an enum a datatype, an integer a word of its width; a
  \<open>String\<close> is a list of bytes. A \<open>Result\<close> is a sum with the error on the left. A thread is the
  fold of its loop body over what it receives, and what other threads do in between are the
  interleavings of a step relation. Sockets, child processes, channels, the random device, the
  mDNS daemon, JSON, TOML and the archive are arguments, gathered in one record for each
  component (\<open>mdns_env\<close>, \<open>connect_env\<close>, \<open>ui_env\<close> and so on), acting on a world that the caller
  chooses; where a theorem needs a law of one of them, the law is a named hypothesis, and a
  witness runs the theorem on a concrete one.

  What the groups of lemmas show. Invariants: of the worker, the runtime, the manager, the
  registry, the browser join service, the diagnostics and the window, after any interleaving.
  Schedules: packets are played in order and when due, the sender fans every frame out, sends its
  heartbeats and publishes an accurate snapshot. The wire: what is written is read, both
  handshakes agree, and the packets that leave the sender's capture reach the receiver's buffer.
  Files: atomic writes, a log that is read back, a snapshot and a session marker that tell the
  truth, and a configuration that survives the process. The window: receiver mode starts and
  stops as a whole, a refresh delivers every queued event once, changes of the sender are reported
  once, the selector offers what casting accepts.

  Bounds and termination. Loops over a finite input are structural. \<open>drain_loop\<close>,
  \<open>session_loop\<close>, \<open>sender_reader_loop\<close> and \<open>capture_stdout_loop\<close> have a measure. The loops that
  may not end, \<open>drain_channel\<close> and \<open>drain_discovery\<close>, are partial functions into options, and
  that they return is proved for a finite channel (\<open>discovery_loop_ends\<close>). The only fuel is that
  of \<open>f64_scale\<close>, the search for the exponent of a double: 84 rounds suffice for every quotient
  the code forms, which \<open>Receiver_Core\<close> proves. A manager loop or a listener is followed for as
  many rounds as its input list has.

  What the model showed. The findings are stated by theorems where they can be: a capture that
  splits frames at the size of the pipe's reads stops the receiver
  (\<open>split_frames_stop_the_receiver\<close>); a log line that is not UTF-8 stops every later start
  (\<open>unreadable_log_stops_every_start\<close>); a reconnecting target is dropped as soon as its receiver
  advertises that it is busy (\<open>reconnect_to_busy_receiver_is_dropped\<close>); the listener announces the
  preset of the launch for ever (\<open>listener_announces_launch_preset\<close>) and repeats its error every
  second (\<open>listener_error_is_reported_every_second\<close>); mDNS events without effect cost a poll each
  (\<open>found_events_cost_a_poll_each\<close>). Others stand beside the component they are about, as
  \<open>stale_failure_replaces_session\<close>, \<open>failed_backup_loses_config\<close>, \<open>torn_entry_hides_the_next\<close> or
  \<open>home_page_reveals_token\<close>.

  Not modelled. The GTK widgets themselves (\<open>dashboard_page\<close> to \<open>empty_state\<close> of \<open>ui.rs\<close>, the
  widgets of a list row, the wiring of the navigation buttons, the clipboard and the opening of a
  URI, whose answers are arguments) and the signals that a refresh makes them emit: a signal is a
  call of its callback. The run of the application, its single-instance registration, the main
  loop's timing and the panic hook: they are the toolkit's and the runtime's. The tracing subscriber
  and all log statements, apart from the layer that stores events.
  Poisoned mutexes and panics of threads, except where the code turns them into a value.
  \<open>core/services.rs\<close> and the crate roots, which have no bodies, the tests and the two example
  probes.
\<close>

section \<open>Across the wire\<close>

text \<open>A socket that takes every byte and a manager that listens: the bytes sent and the events.\<close>

definition wire_env :: "(bytes \<times> NetworkEvent list) writer_env" where
  "wire_env =
     \<lparr>we_write_all = (\<lambda>bs (out, evs). (Inr (), out @ bs, evs)),
      we_send_event = (\<lambda>e (out, evs). (True, out, evs @ [e]))\<rparr>"

text \<open>The codec reads back the metadata it wrote for a frame, and both fit in a frame.\<close>

definition sendable :: "json_codec \<Rightarrow> FanoutAudioFrame \<Rightarrow> bool" where
  "sendable js f \<longleftrightarrow>
     (\<exists>md. to_audio js (audio_message_for f) = Inr md \<and> from_audio js md = Inr (audio_message_for f)
        \<and> length md \<le> MAX_METADATA_BYTES \<and> length (ff_payload f) \<le> MAX_PAYLOAD_BYTES)"

definition wire_frame :: "json_codec \<Rightarrow> FanoutAudioFrame \<Rightarrow> Frame" where
  "wire_frame js f =
     (let md = projr (to_audio js (audio_message_for f)) in
      \<lparr>fr_kind = FrameKind.Audio, fr_metadata = md, fr_payload = ff_payload f,
       fr_wire_bytes = 13 + length md + length (ff_payload f)\<rparr>)"

definition received_packet :: "FanoutAudioFrame \<Rightarrow> ReceiverAudioPacket" where
  "received_packet f =
     \<lparr>pkt_sequence = ff_sequence f, pkt_captured_at_ms = ff_captured_at_ms f,
      pkt_captured_at_unix_ms = ff_captured_at_unix_ms f, pkt_payload = ff_payload f\<rparr>"

lemma wire_frame_audio: "sendable js f \<Longrightarrow> audio_frame js (n, wire_frame js f, audio_message_for f)"
  by (auto simp: sendable_def audio_frame_def wire_frame_def frame_ok_def frame_encoding_def Let_def)

lemma writer_sends_frame:
  assumes "sendable js f"
  shows "writer_iteration js wire_env \<lparr>wi_waiting = [], wi_frame = Got f\<rparr> (out, evs) =
     (True, out @ frame_encoding (wire_frame js f), evs @ [AudioSent (of_nat (fr_wire_bytes (wire_frame js f)))])"
  using assms
  by (auto simp: sendable_def writer_iteration_def report_write_def write_message_def write_frame_def
      wire_env_def wire_frame_def frame_encoding_def Let_def not_less [symmetric])

definition sent_events :: "json_codec \<Rightarrow> FanoutAudioFrame list \<Rightarrow> NetworkEvent list" where
  "sent_events js fs = map (\<lambda>f. AudioSent (of_nat (fr_wire_bytes (wire_frame js f)))) fs"

lemma writer_sends_frames:
  "\<forall>f \<in> set fs. sendable js f \<Longrightarrow>
     network_writer_loop js wire_env (map (\<lambda>f. \<lparr>wi_waiting = [], wi_frame = Got f\<rparr>) fs) (out, evs) =
       (True, out @ concat (map (\<lambda>f. frame_encoding (wire_frame js f)) fs), evs @ sent_events js fs)"
  by (induction fs arbitrary: out evs) (simp_all add: writer_sends_frame sent_events_def)

lemma packet_of_wire_frame: "packet_of (audio_message_for f) (wire_frame js f) = received_packet f"
  by (simp add: packet_of_def received_packet_def audio_message_for_def wire_frame_def Let_def)

lemma on_wire_frames:
  "map Byte (concat (map (\<lambda>f. frame_encoding (wire_frame js f)) fs)) =
     concat (map on_wire (map (\<lambda>f. (0, wire_frame js f, audio_message_for f)) fs))"
  by (induction fs) (simp_all add: on_wire_def)

text \<open>
  C4: Sender to receiver: the bytes that the sender's writer thread writes for a sequence of captured frames make the receiver's
  session deliver exactly these frames as audio packets, in order, with their sequence numbers, times and payloads.
\<close>

theorem audio_reaches_the_receiver:
  assumes "\<forall>f \<in> set fs. sendable js f"
  shows "\<exists>sent evs. network_writer_loop js wire_env (map (\<lambda>f. \<lparr>wi_waiting = [], wi_frame = Got f\<rparr>) fs) ([], []) =
       (True, sent, evs)
     \<and> session_loop js open_env (map Byte sent) ([], []) =
       (Inr (), [], map (\<lambda>f. AudioPacket (received_packet f)) fs
          @ [ReceiverTransportEvent.Disconnected ''sender disconnected unexpectedly'' True], [])"
proof -
  note run = writer_sends_frames [OF assms, of "[]" "[]"]
  have "\<forall>x \<in> set (map (\<lambda>f. (0, wire_frame js f, audio_message_for f)) fs). audio_frame js x"
    using assms by (simp add: wire_frame_audio)
  from session_loop_audios [OF this, of "[]" "[]" "[]"] have
    "session_loop js open_env (map Byte (concat (map (\<lambda>f. frame_encoding (wire_frame js f)) fs))) ([], []) =
       (Inr (), [], map (\<lambda>f. AudioPacket (received_packet f)) fs
          @ [ReceiverTransportEvent.Disconnected ''sender disconnected unexpectedly'' True], [])"
    by (simp add: on_wire_frames session_loop_end comp_def packet_of_wire_frame)
  with run show ?thesis by simp
qed

theorem audio_reaches_the_receiver_witness:
  "\<exists>sent evs. network_writer_loop demo_codec wire_env
       (map (\<lambda>f. \<lparr>wi_waiting = [], wi_frame = Got f\<rparr>) [FanoutAudioFrame.make 7 70 0 [9, 8]]) ([], []) = (True, sent, evs)
     \<and> session_loop demo_codec open_env (map Byte sent) ([], []) =
       (Inr (), [], [AudioPacket \<lparr>pkt_sequence = 7, pkt_captured_at_ms = 70, pkt_captured_at_unix_ms = 0,
          pkt_payload = [9, 8]\<rparr>, ReceiverTransportEvent.Disconnected ''sender disconnected unexpectedly'' True], [])"
proof -
  have "\<forall>f \<in> set [FanoutAudioFrame.make 7 70 0 [9, 8]]. sendable demo_codec f"
    by (simp add: sendable_def demo_codec_def audio_message_for_def FanoutAudioFrame.defs MAX_METADATA_BYTES_def
        MAX_PAYLOAD_BYTES_def)
  from audio_reaches_the_receiver [OF this] show ?thesis
    by (simp add: received_packet_def FanoutAudioFrame.defs)
qed

text \<open>The messages of a handshake that the codec carries.\<close>

definition carried :: "('m \<Rightarrow> string + bytes) \<Rightarrow> (bytes \<Rightarrow> string + 'm) \<Rightarrow> 'm \<Rightarrow> bool" where
  "carried to from m \<longleftrightarrow> (\<exists>bs. to m = Inr bs \<and> from bs = Inr m \<and> length bs \<le> MAX_METADATA_BYTES)"

lemma written_message:
  assumes "carried to from m"
  shows "\<exists>f. frame_ok f \<and> fr_kind f = k \<and> from (fr_metadata f) = Inr m
     \<and> write_message to vec_write k m [] out = (Inr (fr_wire_bytes f), out @ frame_encoding f)
     \<and> write_message to (re_write_all open_env) k m [] (evs, out) = (Inr (fr_wire_bytes f), evs, out @ frame_encoding f)"
proof -
  obtain bs where bs: "to m = Inr bs" "from bs = Inr m" "length bs \<le> MAX_METADATA_BYTES"
    using assms by (auto simp: carried_def)
  show ?thesis
    by (rule exI [of _ "\<lparr>fr_kind = k, fr_metadata = bs, fr_payload = [], fr_wire_bytes = 13 + length bs\<rparr>"])
      (use bs in \<open>simp add: frame_ok_def frame_encoding_def write_message_def write_frame_def vec_write_def
        MAX_PAYLOAD_BYTES_def Let_def not_less [symmetric]\<close>)
qed

text \<open>
  C7: The two ends negotiate: the receiver's handshake accepts the Hello of a connection attempt and answers with bytes that the
  attempt accepts, and both ends hold the same session, stream and codec.
\<close>

theorem handshake_agrees:
  assumes hello: "carried (to_hello js) (from_hello js) (hello_for request sid)"
    and accept: "carried (to_accept js) (from_accept js) (accept_for name preset hb (hello_for request sid))"
  shows "\<exists>n sent answer snapshot'.
     write_message (to_hello js) vec_write Hello (hello_for request sid) [] [] = (Inr n, sent)
     \<and> session_handshake js open_env peer name preset hb (map Byte sent) ([], []) =
         (Inr (hello_for request sid), [],
          [ReceiverTransportEvent.Connected (connection_for peer (hello_for request sid))], answer)
     \<and> negotiate js target request sid snapshot (map Byte answer) =
         (Inr (accept_for name preset hb (hello_for request sid), snapshot'), [])"
proof -
  let ?h = "hello_for request sid" and ?a = "accept_for name preset hb (hello_for request sid)"
  let ?c = "ReceiverTransportEvent.Connected (connection_for peer ?h)"
  obtain hf where hf: "frame_ok hf" "fr_kind hf = Hello" "from_hello js (fr_metadata hf) = Inr ?h"
      "write_message (to_hello js) vec_write Hello ?h [] [] = (Inr (fr_wire_bytes hf), frame_encoding hf)"
    using written_message [OF hello, of Hello "[]"] by auto
  obtain af where af: "frame_ok af" "fr_kind af = Accept" "from_accept js (fr_metadata af) = Inr ?a"
      "write_message (to_accept js) (re_write_all open_env) Accept ?a [] ([], []) =
        (Inr (fr_wire_bytes af), [], frame_encoding af)"
    using written_message [OF accept, of Accept "[]" "[]"] by auto
  have valid: "validate_hello ?h = Inr ()"
    by (simp add: validate_hello_def hello_for_def hello_new_def)
  have "validate_accept ?a sid (cr_stream_config request) = Inr ()"
    by (simp add: validate_accept_def accept_for_def hello_for_def hello_new_def)
  then have "\<exists>s. negotiate js target request sid snapshot (map Byte (frame_encoding af)) = (Inr (?a, s), [])"
    using read_frame_encoding [OF af(1), of "[]"]
    by (simp add: negotiate_def decode_metadata_def af Let_def)
  moreover have "session_handshake js open_env peer name preset hb (map Byte (frame_encoding hf)) ([], []) =
      (Inr ?h, [], [?c], frame_encoding af)"
    using read_frame_encoding [OF hf(1), of "[]"]
    by (simp add: session_handshake_def ok_or_io_def decode_metadata_def callback_def hf af valid Let_def
        del: open_env_simps(3))
  ultimately show ?thesis using hf(4) by blast
qed

definition demo_request :: TargetConnectRequest where
  "demo_request =
     \<lparr>cr_manager_session_id = ''s'', cr_sender_name = ''desk'', cr_stream_config = default_stream_config,
      cr_connect_timeout = 0, cr_quality = QualityPreset.Balanced, cr_target_latency_ms = 50,
      cr_heartbeat_interval_ms = 1000, cr_local_device_id = None\<rparr>"

text \<open>A codec that knows one Hello and one Accept.\<close>

definition two_message_codec :: json_codec where
  "two_message_codec = demo_codec
     \<lparr>from_hello := (\<lambda>_. Inr (hello_for demo_request ''s-1'')),
      from_accept := (\<lambda>_. Inr (accept_for ''rx'' ReceiverLatencyPreset.Balanced 1000 (hello_for demo_request ''s-1'')))\<rparr>"

theorem handshake_agrees_witness:
  "\<exists>n sent answer snapshot'.
     write_message (to_hello two_message_codec) vec_write Hello (hello_for demo_request ''s-1'') [] [] = (Inr n, sent)
     \<and> session_handshake two_message_codec open_env demo_peer ''rx'' ReceiverLatencyPreset.Balanced 1000 (map Byte sent) ([], []) =
         (Inr (hello_for demo_request ''s-1''), [],
          [ReceiverTransportEvent.Connected (connection_for demo_peer (hello_for demo_request ''s-1''))], answer)
     \<and> negotiate two_message_codec \<lparr>st_receiver_id = DeviceId ''r'', st_receiver_name = ''rx'', st_endpoint = demo_peer\<rparr>
         demo_request ''s-1'' (target_snapshot_new (DeviceId ''r'') ''rx'' demo_peer) (map Byte answer) =
         (Inr (accept_for ''rx'' ReceiverLatencyPreset.Balanced 1000 (hello_for demo_request ''s-1''), snapshot'), [])"
  by (rule handshake_agrees)
    (simp_all add: carried_def two_message_codec_def demo_codec_def MAX_METADATA_BYTES_def)

section \<open>From capture to playback\<close>

lemma capture_stream_frame: "bytes_per_frame (receiver_stream_config settings) = capture_bytes_per_frame settings"
  by (simp add: bytes_per_frame_def receiver_stream_config_def capture_bytes_per_frame_def)

lemma packet_of_frame: "pkt_payload (received_packet (fanout_frame t f)) = af_payload f"
  by (simp add: received_packet_def fanout_frame_def Let_def)

lemma set_error_result:
  "w_state (fst (set_error env msg w e)) = ReceiverServiceState.Error
   \<and> w_connection (fst (set_error env msg w e)) = None"
  by (simp add: set_error_def reset_sync_timeline_def split_def Let_def)

lemma split_frame_stops_receiver:
  assumes "w_connection w = Some c" "ci_stream c = receiver_stream_config settings"
    and "\<not> capture_bytes_per_frame settings dvd length (af_payload f)"
  shows "w_state (fst (handle_packet env (received_packet (fanout_frame t f)) w e)) = ReceiverServiceState.Error
    \<and> w_connection (fst (handle_packet env (received_packet (fanout_frame t f)) w e)) = None"
proof -
  have "\<exists>msg. frame_count (received_packet (fanout_frame t f)) (ci_stream c) = Inl msg"
    using assms(2,3) by (cases "capture_bytes_per_frame settings = 0")
      (simp_all add: frame_count_def Let_def packet_of_frame capture_stream_frame dvd_eq_mod_eq_0)
  then obtain msg where "frame_count (received_packet (fanout_frame t f)) (ci_stream c) = Inl msg" by blast
  then show ?thesis
    using assms(1) set_error_result by (simp add: handle_packet_def split_def Let_def)
qed

text \<open>
  C6: A capture whose frame size does not divide the buffer of the reader, six channels of 16 bits for instance, cuts a frame as
  soon as the pipe fills that buffer: it emits a payload that is not a whole number of frames, and a receiver that gets it as a
  packet of the stream stops with an error.
\<close>

theorem split_frames_stop_the_receiver:
  assumes "validate_capture_settings settings = Inr ()" "\<forall>i. rt_receiver_alive rt i"
    and "chunk_bytes settings < BUF_READER_CAPACITY" "BUF_READER_CAPACITY \<le> length bs"
    and "\<not> capture_bytes_per_frame settings dvd BUF_READER_CAPACITY"
  shows "\<exists>f \<in> set (fst (capture_run settings rt (Inr bs # p) st)).
    \<forall>env w e c t. w_connection w = Some c \<longrightarrow> ci_stream c = receiver_stream_config settings \<longrightarrow>
      w_state (fst (handle_packet env (received_packet (fanout_frame t f)) w e)) = ReceiverServiceState.Error
      \<and> w_connection (fst (handle_packet env (received_packet (fanout_frame t f)) w e)) = None"
proof -
  have "capture_chunk settings = chunk_bytes settings" "0 < capture_chunk settings"
    using validated_chunk [OF assms(1)] by simp_all
  with full_buffer_splits [of settings rt bs "capture_bytes_per_frame settings" p st] assms
  obtain f where "f \<in> set (fst (capture_run settings rt (Inr bs # p) st))"
      "\<not> capture_bytes_per_frame settings dvd length (af_payload f)" by auto
  then show ?thesis by (intro bexI [of _ f] allI impI split_frame_stops_receiver)
qed

theorem split_frames_stop_the_receiver_witness:
  "\<exists>f \<in> set (fst (capture_run (default_capture_settings\<lparr>cs_channels := 6\<rparr>) (all_received (\<lambda>_. False))
       [Inr (replicate 8192 0)] default_capture_stats)).
    \<forall>(env :: (unit, unit) playback_env) w e c t. w_connection w = Some c \<longrightarrow>
      ci_stream c = receiver_stream_config (default_capture_settings\<lparr>cs_channels := 6\<rparr>) \<longrightarrow>
      w_state (fst (handle_packet env (received_packet (fanout_frame t f)) w e)) = ReceiverServiceState.Error
      \<and> w_connection (fst (handle_packet env (received_packet (fanout_frame t f)) w e)) = None"
  by (rule split_frames_stop_the_receiver)
    (simp_all add: validate_capture_settings_def default_capture_settings_def all_received_def chunk_bytes_def
      capture_bytes_per_frame_def BUF_READER_CAPACITY_def)

text \<open>
  C5: When the process writes whole frames and the frame size divides the buffer of the reader, every payload that the capture emits is a
  whole number of frames, and the receiver accepts it as a packet of the stream.
\<close>

theorem whole_frames_are_accepted:
  assumes "validate_capture_settings settings = Inr ()"
    and "capture_bytes_per_frame settings dvd BUF_READER_CAPACITY" "aligned (capture_bytes_per_frame settings) p"
    and "chunk_bytes settings < 2 ^ 32" "\<forall>i. rt_receiver_alive rt i"
  shows "list_all (\<lambda>f. \<exists>n. frame_count (received_packet (fanout_frame t f)) (receiver_stream_config settings) = Inr n
      \<and> unat n * capture_bytes_per_frame settings = length (af_payload f)
      \<and> 0 < unat n \<and> unat n \<le> unat (cs_buffer_frames settings))
    (fst (capture_run settings rt p st))"
proof -
  let ?k = "capture_bytes_per_frame settings"
  note chunk = validated_chunk [OF assms(1)]
  have k: "0 < ?k" using chunk by (cases "?k = 0") (simp_all add: chunk_bytes_def)
  have "list_all (\<lambda>f. ?k dvd length (af_payload f)) (fst (capture_run settings rt p st))"
    using loop_aligned [of ?k settings p "[]" rt 0 "st\<lparr>ct_state := Capturing\<rparr>"] assms(2,3) chunk(1)
    by (simp add: capture_run_def chunk_bytes_def)
  moreover have "list_all (\<lambda>f. af_payload f \<noteq> [] \<and> length (af_payload f) \<le> chunk_bytes settings)
      (fst (capture_run settings rt p st))"
    using loop_forwards [OF chunk(2) assms(5), of "st\<lparr>ct_state := Capturing\<rparr>" 0 "[]" p]
    by (cases "capture_run settings rt p st") (simp add: capture_run_def forwarded_def chunk(1))
  ultimately have "list_all (\<lambda>f. ?k dvd length (af_payload f) \<and> af_payload f \<noteq> []
      \<and> length (af_payload f) \<le> chunk_bytes settings) (fst (capture_run settings rt p st))"
    by (simp add: list_all_iff)
  then show ?thesis
  proof (rule list.pred_mono_strong)
    fix f :: AudioFrame assume f: "?k dvd length (af_payload f) \<and> af_payload f \<noteq> [] \<and> length (af_payload f) \<le> chunk_bytes settings"
    let ?n = "of_nat (length (af_payload f) div ?k) :: u32"
    have count: "frame_count (received_packet (fanout_frame t f)) (receiver_stream_config settings) = Inr ?n"
      using k f by (simp add: frame_count_def packet_of_frame capture_stream_frame Let_def dvd_eq_mod_eq_0)
    have "length (af_payload f) div ?k \<le> length (af_payload f)" by simp
    then have "length (af_payload f) div ?k < 2 ^ 32" using f assms(4) by linarith
    then have n: "unat ?n = length (af_payload f) div ?k" by (simp add: unsigned_of_nat take_bit_nat_eq_self)
    have "length (af_payload f) div ?k \<le> unat (cs_buffer_frames settings)"
      using f k by (metis chunk_bytes_def div_le_mono nonzero_mult_div_cancel_right not_less0)
    moreover have "0 < length (af_payload f) div ?k"
      using f k by (meson div_greater_zero_iff dvd_imp_le length_greater_0_conv)
    ultimately show "\<exists>n. frame_count (received_packet (fanout_frame t f)) (receiver_stream_config settings) = Inr n
        \<and> unat n * ?k = length (af_payload f) \<and> 0 < unat n \<and> unat n \<le> unat (cs_buffer_frames settings)"
      using count n f by auto
  qed
qed

theorem whole_frames_are_accepted_witness:
  "list_all (\<lambda>f. \<exists>n. frame_count (received_packet (fanout_frame 0 f)) (receiver_stream_config default_capture_settings) = Inr n
      \<and> unat n * capture_bytes_per_frame default_capture_settings = length (af_payload f)
      \<and> 0 < unat n \<and> unat n \<le> unat (cs_buffer_frames default_capture_settings))
    (fst (capture_run default_capture_settings (all_received (\<lambda>_. False)) [Inr (replicate 6000 0), Inr []]
       default_capture_stats))"
  by (rule whole_frames_are_accepted)
    (simp_all add: validate_capture_settings_def default_capture_settings_def all_received_def chunk_bytes_def
      capture_bytes_per_frame_def BUF_READER_CAPACITY_def aligned_def)

end
